(* ===== verification/Prelude.thy ===== *)
theory Prelude
  imports Main "HOL-Library.AList" "HOL-Library.Word" "HOL-Library.Multiset"
begin

text \<open>
  Vocabulary shared by every component: results of fallible Rust functions, the hash map of the
  standard library as an association list with distinct keys, the 64-bit signed and unsigned
  arithmetic of release builds, ASCII case folding and decimal printing.

  A Rust \<open>String\<close> is its UTF-8 byte sequence, so it is a HOL \<open>string\<close> (a list of 8-bit characters):
  equality, length and concatenation are those of the byte sequences.
\<close>

named_theorems hm_simps \<open>lookup, domain and size of hash map operations\<close>
named_theorems hm_ok_intros \<open>operations keep the keys of a hash map distinct\<close>
named_theorems step_inv \<open>preservation of component invariants by single operations\<close>

section \<open>Results\<close>

type_synonym ('e, 'a) result = "'e + 'a"

abbreviation Ok :: "'a \<Rightarrow> ('e, 'a) result" where "Ok \<equiv> Inr"
abbreviation Err :: "'e \<Rightarrow> ('e, 'a) result" where "Err \<equiv> Inl"

definition is_ok :: "('e, 'a) result \<Rightarrow> bool" where
  "is_ok r = (case r of Inl _ \<Rightarrow> False | Inr _ \<Rightarrow> True)"

definition ok_of :: "('e, 'a) result \<Rightarrow> 'a option" where
  "ok_of r = (case r of Inl _ \<Rightarrow> None | Inr x \<Rightarrow> Some x)"

definition ok_or :: "'e \<Rightarrow> 'a option \<Rightarrow> ('e, 'a) result" where
  "ok_or e x = (case x of None \<Rightarrow> Err e | Some v \<Rightarrow> Ok v)"

definition rbind :: "('e, 'a) result \<Rightarrow> ('a \<Rightarrow> ('e, 'b) result) \<Rightarrow> ('e, 'b) result" where
  "rbind r f = (case r of Inl e \<Rightarrow> Inl e | Inr x \<Rightarrow> f x)"

definition map_err :: "('e \<Rightarrow> 'f) \<Rightarrow> ('e, 'a) result \<Rightarrow> ('f, 'a) result" where
  "map_err g r = (case r of Inl e \<Rightarrow> Inl (g e) | Inr x \<Rightarrow> Inr x)"

text \<open>\<open>Option::unwrap_or\<close> and \<open>unwrap_or_default\<close>.\<close>

definition opt_or :: "'a \<Rightarrow> 'a option \<Rightarrow> 'a" where
  "opt_or d x = (case x of None \<Rightarrow> d | Some v \<Rightarrow> v)"

definition unwrap_or :: "'a \<Rightarrow> ('e, 'a) result \<Rightarrow> 'a" where
  "unwrap_or d r = (case r of Inl _ \<Rightarrow> d | Inr x \<Rightarrow> x)"

text \<open>Collecting an iterator of results: the first error wins, in list order.\<close>

fun collect_results :: "('e, 'a) result list \<Rightarrow> ('e, 'a list) result" where
  "collect_results [] = Ok []"
| "collect_results (r # rs) =
     (case r of Inl e \<Rightarrow> Err e
      | Inr x \<Rightarrow> (case collect_results rs of Inl e \<Rightarrow> Err e | Inr xs \<Rightarrow> Ok (x # xs)))"

lemma opt_or_simps [simp]: "opt_or d None = d" "opt_or d (Some x) = x"
  by (simp_all add: opt_or_def)

lemma result_simps [simp]:
  "is_ok (Inl e) = False" "is_ok (Inr x) = True"
  "ok_of (Inl e) = None" "ok_of (Inr x) = Some x"
  "ok_or e None = Inl e" "ok_or e (Some x) = Inr x"
  "rbind (Inl e) f = Inl e" "rbind (Inr x) f = f x"
  "map_err g (Inl e) = Inl (g e)" "map_err g (Inr x) = Inr x"
  "unwrap_or d (Inl e) = d" "unwrap_or d (Inr x) = x"
  by (simp_all add: is_ok_def ok_of_def ok_or_def rbind_def map_err_def unwrap_or_def)

lemma is_ok_iff: "is_ok r \<longleftrightarrow> (\<exists>x. r = Inr x)"
  by (cases r) auto

lemma rbind_Inr_iff: "rbind r f = Inr y \<longleftrightarrow> (\<exists>x. r = Inr x \<and> f x = Inr y)"
  by (cases r) auto

lemma ok_or_Inr_iff [simp]: "ok_or e x = Inr v \<longleftrightarrow> x = Some v"
  by (cases x) auto

lemma collect_results_Ok: "collect_results (map Inr xs) = Inr xs"
  by (induction xs) auto

lemma collect_results_OkD: "collect_results rs = Inr xs \<Longrightarrow> rs = map Inr xs"
proof (induction rs arbitrary: xs)
  case (Cons r rs)
  then show ?case by (auto split: sum.splits)
qed simp

lemma collect_results_Inr_iff: "collect_results rs = Inr xs \<longleftrightarrow> rs = map Inr xs"
  using collect_results_Ok collect_results_OkD by metis

section \<open>Hash maps\<close>

text \<open>
  \<open>HashMap\<close> as an association list in iteration order. The iteration order of the real container
  is unspecified, so statements about functions that iterate are proved for any order.
\<close>

type_synonym ('k, 'v) hmap = "('k \<times> 'v) list"

definition hm_empty :: "('k, 'v) hmap" where "hm_empty = []"

definition hm_get :: "('k, 'v) hmap \<Rightarrow> 'k \<Rightarrow> 'v option" where "hm_get m k = map_of m k"

definition hm_put :: "'k \<Rightarrow> 'v \<Rightarrow> ('k, 'v) hmap \<Rightarrow> ('k, 'v) hmap" where
  "hm_put k v m = AList.update k v m"

definition hm_del :: "'k \<Rightarrow> ('k, 'v) hmap \<Rightarrow> ('k, 'v) hmap" where
  "hm_del k m = AList.delete k m"

definition hm_values :: "('k, 'v) hmap \<Rightarrow> 'v list" where "hm_values m = map snd m"

definition hm_keys :: "('k, 'v) hmap \<Rightarrow> 'k list" where "hm_keys m = map fst m"

definition hm_map :: "('v \<Rightarrow> 'v) \<Rightarrow> ('k, 'v) hmap \<Rightarrow> ('k, 'v) hmap" where
  "hm_map f m = map (\<lambda>(k, v). (k, f v)) m"

definition hm_retain :: "('v \<Rightarrow> bool) \<Rightarrow> ('k, 'v) hmap \<Rightarrow> ('k, 'v) hmap" where
  "hm_retain P m = filter (\<lambda>(k, v). P v) m"

definition hm_contains :: "('k, 'v) hmap \<Rightarrow> 'k \<Rightarrow> bool" where
  "hm_contains m k = (hm_get m k \<noteq> None)"

definition hm_ok :: "('k, 'v) hmap \<Rightarrow> bool" where "hm_ok m = distinct (map fst m)"

definition hm_of_pairs :: "('k \<times> 'v) list \<Rightarrow> ('k, 'v) hmap" where
  "hm_of_pairs ps = fold (\<lambda>(k, v) m. hm_put k v m) ps hm_empty"

lemma hm_get_empty [simp]: "hm_get hm_empty k = None"
  by (simp add: hm_get_def hm_empty_def)

lemma hm_get_put [hm_simps]: "hm_get (hm_put k v m) k' = (if k' = k then Some v else hm_get m k')"
  by (simp add: hm_get_def hm_put_def update_conv')

lemma hm_get_del [hm_simps]: "hm_get (hm_del k m) k' = (if k' = k then None else hm_get m k')"
  by (simp add: hm_get_def hm_del_def delete_conv')

lemma hm_get_map [hm_simps]: "hm_get (hm_map f m) k = map_option f (hm_get m k)"
  by (induction m) (auto simp: hm_get_def hm_map_def)

lemma hm_ok_empty [hm_ok_intros, simp]: "hm_ok hm_empty"
  by (simp add: hm_ok_def hm_empty_def)

lemma hm_ok_put [hm_ok_intros, simp]: "hm_ok m \<Longrightarrow> hm_ok (hm_put k v m)"
  by (simp add: hm_ok_def hm_put_def distinct_update)

lemma hm_ok_del [hm_ok_intros, simp]: "hm_ok m \<Longrightarrow> hm_ok (hm_del k m)"
  by (simp add: hm_ok_def hm_del_def distinct_delete)

lemma hm_keys_map [simp]: "map fst (hm_map f m) = map fst m"
  by (induction m) (auto simp: hm_map_def)

lemma hm_ok_map [hm_ok_intros, simp]: "hm_ok (hm_map f m) = hm_ok m"
  by (simp add: hm_ok_def)

lemma hm_ok_retain [hm_ok_intros, simp]: "hm_ok m \<Longrightarrow> hm_ok (hm_retain P m)"
  by (induction m) (auto simp: hm_ok_def hm_retain_def)

lemma hm_get_iff: "hm_ok m \<Longrightarrow> hm_get m k = Some v \<longleftrightarrow> (k, v) \<in> set m"
  by (simp add: hm_get_def hm_ok_def)

lemma find_Some_set: "find P xs = Some x \<Longrightarrow> x \<in> set xs \<and> P x"
  by (induction xs) (auto split: if_splits)

lemma hm_get_in_set: "hm_get m k = Some v \<Longrightarrow> (k, v) \<in> set m"
  by (simp add: hm_get_def map_of_SomeD)

lemma hm_get_retain [hm_simps]:
  assumes "hm_ok m"
  shows "hm_get (hm_retain P m) k = (case hm_get m k of None \<Rightarrow> None
           | Some v \<Rightarrow> if P v then Some v else None)"
  using assms by (induction m) (auto simp: hm_ok_def hm_get_def hm_retain_def rev_image_eqI
      split: option.splits if_splits dest: map_of_SomeD)

lemma hm_put_set:
  assumes "hm_ok m"
  shows "set (hm_put k v m) = insert (k, v) {(k', v') \<in> set m. k' \<noteq> k}"
proof -
  have "(k', v') \<in> set (hm_put k v m) \<longleftrightarrow> k' = k \<and> v' = v \<or> k' \<noteq> k \<and> (k', v') \<in> set m" for k' v'
    using hm_get_iff[OF hm_ok_put[OF assms, of k v], of k' v'] hm_get_iff[OF assms, of k' v']
    by (auto simp: hm_get_put split: if_splits)
  then show ?thesis by auto
qed

lemma hm_put_new: "hm_get m k = None \<Longrightarrow> hm_put k v m = m @ [(k, v)]"
  by (induction m) (auto simp: hm_get_def hm_put_def split: if_splits)

lemma hm_put_at:
  assumes "hm_ok m" "hm_get m k = Some v"
  shows "hm_put k v' m = map (\<lambda>(k', x). (k', if k' = k then v' else x)) m"
proof -
  have skip: "k \<notin> fst ` set xs \<Longrightarrow> map (\<lambda>(k', x). (k', if k' = k then v' else x)) xs = xs" for xs
    by (induction xs) auto
  show ?thesis using assms
    by (induction m) (auto simp: hm_put_def hm_get_def hm_ok_def skip split: if_splits)
qed

lemma hm_del_set: "set (hm_del k m) = {(k', v') \<in> set m. k' \<noteq> k}"
  by (auto simp: hm_del_def AList.delete_eq)

lemma hm_map_set: "set (hm_map f m) = (\<lambda>(k, v). (k, f v)) ` set m"
  by (simp add: hm_map_def)

lemma hm_contains_iff: "hm_contains m k \<longleftrightarrow> k \<in> set (map fst m)"
  by (simp add: hm_contains_def hm_get_def map_of_eq_None_iff)

lemma hm_get_of_pairs_gen:
  "hm_get (fold (\<lambda>(k, v) m. hm_put k v m) ps m0) k
     = (case map_of (rev ps) k of None \<Rightarrow> hm_get m0 k | Some v \<Rightarrow> Some v)"
proof (induction ps arbitrary: m0)
  case Nil
  then show ?case by simp
next
  case (Cons p ps)
  then show ?case
    by (cases p) (auto simp: hm_get_put map_add_def split: option.splits)
qed

lemma hm_get_of_pairs [hm_simps]: "hm_get (hm_of_pairs ps) k = map_of (rev ps) k"
  by (simp add: hm_of_pairs_def hm_get_of_pairs_gen split: option.splits)

lemma hm_ok_of_pairs [hm_ok_intros, simp]: "hm_ok (hm_of_pairs ps)"
proof -
  have "hm_ok m0 \<Longrightarrow> hm_ok (fold (\<lambda>(k, v) m. hm_put k v m) ps m0)" for m0 :: "('a, 'b) hmap"
    by (induction ps arbitrary: m0) auto
  then show ?thesis by (simp add: hm_of_pairs_def)
qed

lemmas hm_defs = hm_empty_def hm_get_def hm_put_def hm_del_def hm_values_def hm_keys_def
  hm_map_def hm_retain_def hm_contains_def hm_ok_def hm_of_pairs_def


section \<open>Machine integers\<close>

text \<open>
  Signed 64-bit addition and subtraction wrap in a release build (the profile of
  \<open>Cargo.toml\<close> leaves overflow checks off); timestamps are such values, read as \<open>int\<close>.
\<close>

definition i64_wrap :: "int \<Rightarrow> int" where "i64_wrap x = signed_take_bit 63 x"

definition i64_add :: "int \<Rightarrow> int \<Rightarrow> int" where "i64_add a b = i64_wrap (a + b)"

definition i64_sub :: "int \<Rightarrow> int \<Rightarrow> int" where "i64_sub a b = i64_wrap (a - b)"

definition i64_max :: int where "i64_max = 2 ^ 63 - 1"

definition in_i64 :: "int \<Rightarrow> bool" where "in_i64 x = (- (2 ^ 63) \<le> x \<and> x < 2 ^ 63)"

lemma i64_wrap_id [simp]: "in_i64 x \<Longrightarrow> i64_wrap x = x"
  by (simp add: i64_wrap_def in_i64_def signed_take_bit_int_eq_self)

lemma in_i64_wrap [simp]: "in_i64 (i64_wrap x)"
  using signed_take_bit_int_less_exp[of 63 x] signed_take_bit_int_greater_eq_minus_exp[of 63 x]
  by (simp add: i64_wrap_def in_i64_def)

lemma i64_add_id: "in_i64 (a + b) \<Longrightarrow> i64_add a b = a + b"
  by (simp add: i64_add_def)

lemma i64_sub_id: "in_i64 (a - b) \<Longrightarrow> i64_sub a b = a - b"
  by (simp add: i64_sub_def)

section \<open>Bytes and text\<close>

definition byte_of :: "char \<Rightarrow> nat" where "byte_of c = of_char c"

definition to_ascii_lower :: "char \<Rightarrow> char" where
  "to_ascii_lower c = (if 65 \<le> byte_of c \<and> byte_of c \<le> 90 then char_of (byte_of c + 32) else c)"

definition to_ascii_lowercase :: "string \<Rightarrow> string" where
  "to_ascii_lowercase s = map to_ascii_lower s"

definition digit_char :: "nat \<Rightarrow> char" where "digit_char d = char_of (48 + d)"

text \<open>\<open>format!("{}", n)\<close> for an unsigned integer.\<close>

fun show_nat :: "nat \<Rightarrow> string" where
  "show_nat n = (if n < 10 then [digit_char n] else show_nat (n div 10) @ [digit_char (n mod 10)])"

declare show_nat.simps [simp del]

text \<open>\<open>format!("{:0w}", n)\<close>: decimal, padded on the left with zeros to width \<open>w\<close>.\<close>

definition show_padded :: "nat \<Rightarrow> nat \<Rightarrow> string" where
  "show_padded w n = (let s = show_nat n in replicate (w - length s) (digit_char 0) @ s)"

definition read_digits :: "string \<Rightarrow> nat" where
  "read_digits s = foldl (\<lambda>n c. 10 * n + (byte_of c - 48)) 0 s"

lemma byte_of_digit [simp]: "d < 10 \<Longrightarrow> byte_of (digit_char d) = 48 + d"
  by (simp add: byte_of_def digit_char_def)

lemma byte_of_inj: "byte_of c = byte_of d \<Longrightarrow> c = d"
  by (simp add: byte_of_def)

lemma read_show_nat [simp]: "read_digits (show_nat n) = n"
proof (induction n rule: show_nat.induct)
  case (1 n)
  show ?case
  proof (cases "n < 10")
    case True
    then show ?thesis by (simp add: show_nat.simps[of n] read_digits_def)
  next
    case False
    then show ?thesis using 1 by (simp add: show_nat.simps[of n] read_digits_def)
  qed
qed

lemma show_nat_inj: "show_nat m = show_nat n \<longleftrightarrow> m = n"
  by (metis read_show_nat)

lemma show_nat_not_Nil [simp]: "show_nat n \<noteq> []"
  by (subst show_nat.simps) simp

lemma show_nat_digits: "c \<in> set (show_nat n) \<Longrightarrow> 48 \<le> byte_of c \<and> byte_of c \<le> 57"
proof (induction n rule: show_nat.induct)
  case (1 n)
  then show ?case
    by (cases "n < 10") (auto simp: show_nat.simps[of n])
qed

lemma length_show_nat: "n < 10 ^ k \<Longrightarrow> 0 < k \<Longrightarrow> length (show_nat n) \<le> k"
proof (induction k arbitrary: n)
  case (Suc k)
  show ?case
  proof (cases "n < 10")
    case True
    then show ?thesis by (simp add: show_nat.simps[of n])
  next
    case False
    with Suc.prems have "n div 10 < 10 ^ k" "0 < k"
      by (auto simp: less_mult_imp_div_less mult.commute intro!: gr0I)
    with Suc.IH[of "n div 10"] False show ?thesis by (simp add: show_nat.simps[of n])
  qed
qed simp

lemma read_digits_zeros: "read_digits (replicate k (digit_char 0) @ s) = read_digits s"
  by (induction k) (auto simp: read_digits_def)

lemma length_show_padded: "n < 10 ^ w \<Longrightarrow> 0 < w \<Longrightarrow> length (show_padded w n) = w"
  using length_show_nat[of n w] by (simp add: show_padded_def Let_def)

lemma read_show_padded [simp]: "read_digits (show_padded w n) = n"
  by (simp add: show_padded_def Let_def read_digits_zeros)

text \<open>\<open>str::contains\<close>.\<close>

fun contains_str :: "string \<Rightarrow> string \<Rightarrow> bool" where
  "contains_str needle [] = (needle = [])"
| "contains_str needle (c # s) = (take (length needle) (c # s) = needle \<or> contains_str needle s)"

lemma contains_str_iff: "contains_str p s \<longleftrightarrow> (\<exists>a b. s = a @ p @ b)"
proof (induction s)
  case (Cons c s)
  have "take (length p) (c # s) = p \<longleftrightarrow> (\<exists>b. c # s = p @ b)"
    by (metis append_eq_conv_conj append_take_drop_id)
  with Cons show ?case by (auto simp: Cons_eq_append_conv)
qed simp

text \<open>A string between single quotes, as the messages print names.\<close>

definition quoted :: "string \<Rightarrow> string" where "quoted s = CHR 0x27 # s @ [CHR 0x27]"

text \<open>The em dash of some messages, in UTF-8.\<close>

definition em_dash :: string where "em_dash = [CHR 0xE2, CHR 0x80, CHR 0x94]"

section \<open>Single-use credentials\<close>

text \<open>
  The contract of a store of single-use credentials: a spent credential stays spent under every
  operation, and a spent credential is not accepted. Refresh tokens, pre-authentication sessions
  and pending single sign-on logins are such stores.
\<close>

locale single_use_store =
  fixes inv :: "'s \<Rightarrow> bool"
    and step :: "'s \<Rightarrow> 's \<Rightarrow> bool"
    and spent :: "'s \<Rightarrow> 't \<Rightarrow> bool"
    and accepts :: "'s \<Rightarrow> 't \<Rightarrow> bool"
  assumes inv_step: "inv s \<Longrightarrow> step s s' \<Longrightarrow> inv s'"
    and spent_step: "inv s \<Longrightarrow> step s s' \<Longrightarrow> spent s t \<Longrightarrow> spent s' t"
    and spent_rejected: "inv s \<Longrightarrow> spent s t \<Longrightarrow> \<not> accepts s t"
begin

lemma inv_steps: "step\<^sup>*\<^sup>* s s' \<Longrightarrow> inv s \<Longrightarrow> inv s'"
  by (induction rule: rtranclp_induct) (auto intro: inv_step)

lemma spent_steps: "step\<^sup>*\<^sup>* s s' \<Longrightarrow> inv s \<Longrightarrow> spent s t \<Longrightarrow> spent s' t"
  by (induction rule: rtranclp_induct) (auto intro: spent_step inv_steps)

lemma spent_forever: "step\<^sup>*\<^sup>* s s' \<Longrightarrow> inv s \<Longrightarrow> spent s t \<Longrightarrow> \<not> accepts s' t"
  using spent_steps spent_rejected inv_steps by blast

end

end
