(* ===== verification/Circuit_Breaker.thy ===== *)
theory Circuit_Breaker
  imports Prelude
begin

text \<open>
  The circuit breaker (\<open>src/proxmox/circuit_breaker.rs\<close>) and the retry loop
  (\<open>src/proxmox/retry.rs\<close>). The counters are atomics of 32 and 64 bits, kept at their width; the
  clock, in seconds, is an argument of each operation that reads it. Subtraction wraps as in a
  release build.
\<close>

section \<open>The breaker\<close>

datatype circuit_state = CClosed | COpen | CHalfOpen

record circuit_breaker =
  cb_threshold :: "32 word"
  cb_cooldown :: "64 word"
  cb_failures :: "32 word"
  cb_opened_at :: "64 word"

definition cb_new :: "32 word \<Rightarrow> 64 word \<Rightarrow> circuit_breaker" where
  "cb_new threshold cooldown =
     \<lparr> cb_threshold = threshold, cb_cooldown = cooldown, cb_failures = 0, cb_opened_at = 0 \<rparr>"

definition cb_default :: circuit_breaker where "cb_default = cb_new 5 30"

definition cb_state :: "64 word \<Rightarrow> circuit_breaker \<Rightarrow> circuit_state" where
  "cb_state now b =
     (if cb_opened_at b = 0 then CClosed
      else if now - cb_opened_at b \<ge> cb_cooldown b then CHalfOpen else COpen)"

definition cb_allow_request :: "64 word \<Rightarrow> circuit_breaker \<Rightarrow> bool" where
  "cb_allow_request now b = (case cb_state now b of CClosed \<Rightarrow> True | CHalfOpen \<Rightarrow> True | COpen \<Rightarrow> False)"

definition cb_record_success :: "circuit_breaker \<Rightarrow> circuit_breaker" where
  "cb_record_success b = b \<lparr> cb_failures := 0, cb_opened_at := 0 \<rparr>"

text \<open>\<open>fetch_add\<close> returns the old value; the addition of one to it wraps as the counter does.\<close>

definition cb_record_failure :: "64 word \<Rightarrow> circuit_breaker \<Rightarrow> circuit_breaker" where
  "cb_record_failure now b =
     (let old = cb_failures b; b' = b \<lparr> cb_failures := old + 1 \<rparr>; count = old + 1 in
      if count \<ge> cb_threshold b then b' \<lparr> cb_opened_at := now \<rparr> else b')"

section \<open>Runs\<close>

text \<open>Outcomes of calls, oldest first: a success, or a failure at a time.\<close>

datatype outcome = CallOk | CallFailed "64 word"

fun cb_step :: "outcome \<Rightarrow> circuit_breaker \<Rightarrow> circuit_breaker" where
  "cb_step CallOk b = cb_record_success b"
| "cb_step (CallFailed t) b = cb_record_failure t b"

definition cb_run :: "outcome list \<Rightarrow> circuit_breaker \<Rightarrow> circuit_breaker" where
  "cb_run os b = fold cb_step os b"

text \<open>The specification: the run of failures at the end of the history, and the last failure's time.\<close>

definition trailing_failures :: "outcome list \<Rightarrow> nat" where
  "trailing_failures os = length (takeWhile (\<lambda>x. x \<noteq> CallOk) (rev os))"

definition last_failure :: "outcome list \<Rightarrow> 64 word" where
  "last_failure os = (case rev os of CallFailed t # _ \<Rightarrow> t | _ \<Rightarrow> 0)"

fun outcome_time_ok :: "outcome \<Rightarrow> bool" where
  "outcome_time_ok CallOk = True"
| "outcome_time_ok (CallFailed t) = (t \<noteq> 0)"

lemma trailing_snoc [simp]:
  "trailing_failures (os @ [CallOk]) = 0"
  "trailing_failures (os @ [CallFailed t]) = Suc (trailing_failures os)"
  "trailing_failures [] = 0"
  by (simp_all add: trailing_failures_def)

lemma trailing_le: "trailing_failures os \<le> length os"
  using length_takeWhile_le[of "\<lambda>x. x \<noteq> CallOk" "rev os"] by (simp add: trailing_failures_def)

lemma cb_run_snoc [simp]: "cb_run (os @ [x]) b = cb_step x (cb_run os b)" "cb_run [] b = b"
  by (simp_all add: cb_run_def)

lemma cb_new_fields [simp]: "cb_threshold (cb_new n d) = n" "cb_cooldown (cb_new n d) = d"
  by (simp_all add: cb_new_def)

lemma cb_run_const [simp]: "cb_threshold (cb_run os b) = cb_threshold b" "cb_cooldown (cb_run os b) = cb_cooldown b"
proof (induction os rule: rev_induct)
  case (snoc x os)
  { case 1 then show ?case using snoc by (cases x) (simp_all add: cb_record_success_def cb_record_failure_def Let_def) }
  { case 2 then show ?case using snoc by (cases x) (simp_all add: cb_record_success_def cb_record_failure_def Let_def) }
qed simp_all

lemma word_le_nat: "(a :: 32 word) \<le> b \<longleftrightarrow> unat a \<le> unat b"
  by (simp add: word_le_nat_alt)

lemma cb_run_spec:
  assumes "length os < 2 ^ 32" "list_all outcome_time_ok os"
  shows "unat (cb_failures (cb_run os (cb_new n d))) = trailing_failures os
     \<and> (n \<noteq> 0 \<longrightarrow> cb_opened_at (cb_run os (cb_new n d))
           = (if unat n \<le> trailing_failures os then last_failure os else 0))"
  using assms
proof (induction os rule: rev_induct)
  case Nil
  then show ?case by (auto simp: cb_new_def unat_eq_0)
next
  case (snoc x os)
  have IH: "unat (cb_failures (cb_run os (cb_new n d))) = trailing_failures os"
    "n \<noteq> 0 \<Longrightarrow> cb_opened_at (cb_run os (cb_new n d)) = (if unat n \<le> trailing_failures os then last_failure os else 0)"
    using snoc by auto
  show ?case
  proof (cases x)
    case CallOk
    then show ?thesis by (auto simp: cb_record_success_def unat_eq_0)
  next
    case (CallFailed t)
    have "trailing_failures os + 1 < 2 ^ 32" using trailing_le[of os] snoc.prems(1) by simp
    then have up: "unat (cb_failures (cb_run os (cb_new n d)) + 1) = Suc (trailing_failures os)"
      using IH(1) by (simp add: unat_word_ariths)
    have thr: "cb_threshold (cb_run os (cb_new n d)) = n" by (simp add: cb_new_def)
    show ?thesis
      using up IH(2) CallFailed
      by (auto simp: cb_record_failure_def Let_def thr word_le_nat last_failure_def)
  qed
qed

section \<open>Retry\<close>

record retry_policy =
  rp_max_attempts :: nat
  rp_initial_backoff :: nat
  rp_max_backoff :: nat

text \<open>
  One run of \<open>execute\<close>: \<open>f k\<close> is the outcome of the \<open>k\<close>-th call and \<open>scale\<close> the multiplication of a
  duration by the floating-point multiplier. The result is paired with the calls made and the
  sleeps, in milliseconds; \<open>None\<close> is the panic of \<open>expect\<close> when no attempt is allowed.
\<close>

function retry_loop :: "retry_policy \<Rightarrow> (nat \<Rightarrow> nat) \<Rightarrow> (nat \<Rightarrow> ('e, 'a) result) \<Rightarrow> nat \<Rightarrow> nat
    \<Rightarrow> 'e option \<Rightarrow> nat list \<Rightarrow> ('e, 'a) result option \<times> nat \<times> nat list" where
  "retry_loop p scale f attempt backoff last_err sleeps =
     (if attempt < rp_max_attempts p
      then (case f attempt of
              Inr v \<Rightarrow> (Some (Ok v), attempt + 1, sleeps)
            | Inl e \<Rightarrow>
                if attempt + 1 < rp_max_attempts p
                then retry_loop p scale f (attempt + 1) (min (scale backoff) (rp_max_backoff p)) (Some e)
                       (sleeps @ [backoff])
                else retry_loop p scale f (attempt + 1) backoff (Some e) sleeps)
      else (map_option Err last_err, attempt, sleeps))"
  by pat_completeness auto
termination by (relation "measure (\<lambda>(p, _, _, attempt, _). rp_max_attempts p - attempt)") auto

declare retry_loop.simps [simp del]

definition retry_execute :: "retry_policy \<Rightarrow> (nat \<Rightarrow> nat) \<Rightarrow> (nat \<Rightarrow> ('e, 'a) result)
    \<Rightarrow> ('e, 'a) result option \<times> nat \<times> nat list" where
  "retry_execute p scale f = retry_loop p scale f 0 (rp_initial_backoff p) None []"

definition default_retry_policy :: retry_policy where
  "default_retry_policy = \<lparr> rp_max_attempts = 3, rp_initial_backoff = 100, rp_max_backoff = 10000 \<rparr>"

lemma retry_loop_spec:
  assumes "retry_loop p scale f k backoff le sl = (res, calls, sleeps)" "k \<le> rp_max_attempts p"
    and "length sl = (if k < rp_max_attempts p then k else k - 1)" "k = rp_max_attempts p \<longrightarrow> 0 < k \<longrightarrow> le = Some e0 \<and> f (k - 1) = Inl e0"
    and "\<forall>j<k. \<not> is_ok (f j)"
  shows "k \<le> calls \<and> calls \<le> rp_max_attempts p \<and> (\<forall>j<calls - 1. \<not> is_ok (f j)) \<and> length sleeps = calls - 1
     \<and> (0 < calls \<longrightarrow> res = Some (f (calls - 1)))
     \<and> (0 < calls \<and> \<not> is_ok (f (calls - 1)) \<longrightarrow> calls = rp_max_attempts p)"
  using assms
proof (induction p scale f k backoff le sl arbitrary: e0 rule: retry_loop.induct)
  case (1 p scale f k backoff le sl)
  show ?case
  proof (cases "k < rp_max_attempts p")
    case False
    then have "res = map_option Inl le" "calls = k" "sleeps = sl"
      using "1.prems"(1) by (simp_all add: retry_loop.simps[of p scale f k])
    then show ?thesis using False "1.prems"(2-5) by auto
  next
    case True
    show ?thesis
    proof (cases "f k")
      case (Inr v)
      then have "res = Some (Inr v)" "calls = k + 1" "sleeps = sl"
        using "1.prems"(1) True by (simp_all add: retry_loop.simps[of p scale f k])
      then show ?thesis using True Inr "1.prems"(3,5) by simp
    next
      case (Inl e)
      have notok: "\<forall>j<k + 1. \<not> is_ok (f j)" using "1.prems"(5) Inl by (auto simp: less_Suc_eq)
      show ?thesis
      proof (cases "k + 1 < rp_max_attempts p")
        case more: True
        then have run: "retry_loop p scale f (k + 1) (min (scale backoff) (rp_max_backoff p)) (Some e)
            (sl @ [backoff]) = (res, calls, sleeps)"
          using "1.prems"(1) True Inl by (simp add: retry_loop.simps[of p scale f k])
        from "1.IH"(1)[OF True Inl more run, of e] more "1.prems"(3) notok Inl show ?thesis by simp
      next
        case last: False
        then have run: "retry_loop p scale f (k + 1) backoff (Some e) sl = (res, calls, sleeps)"
          using "1.prems"(1) True Inl by (simp add: retry_loop.simps[of p scale f k])
        from "1.IH"(2)[OF True Inl last run, of e] last True "1.prems"(3) notok Inl show ?thesis by simp
      qed
    qed
  qed
qed

lemma retry_loop_mono: "k \<le> fst (snd (retry_loop p scale f k backoff le sl))"
proof (induction p scale f k backoff le sl rule: retry_loop.induct)
  case (1 p scale f k backoff le sl)
  show ?case
  proof (cases "k < rp_max_attempts p \<and> \<not> is_ok (f k)")
    case True
    then obtain e where e: "f k = Inl e" by (cases "f k") auto
    show ?thesis using "1.IH"(1)[OF _ e] "1.IH"(2)[OF _ e] True e
      by (cases "k + 1 < rp_max_attempts p") (simp_all add: retry_loop.simps[of p scale f k])
  next
    case False
    then show ?thesis by (cases "f k") (auto simp: retry_loop.simps[of p scale f k])
  qed
qed

lemma retry_loop_calls: "k < rp_max_attempts p \<Longrightarrow> k < fst (snd (retry_loop p scale f k backoff le sl))"
  using retry_loop_mono[of "k + 1" p scale f]
  by (subst retry_loop.simps) (auto split: sum.split simp: Suc_le_eq)

section \<open>Properties\<close>

text \<open>C37. The breaker is exactly the rule it documents: after any history of fewer than \<open>2^32\<close> outcomes it is
  closed as long as the history ends in fewer than the threshold failures, and otherwise open
  from the time of the last failure for the cooldown and half-open from then on.\<close>

theorem breaker_refines_history:
  assumes "length os < 2 ^ 32" and "list_all outcome_time_ok os" and "n \<noteq> 0"
  shows "cb_state now (cb_run os (cb_new n d)) =
     (if trailing_failures os < unat n then CClosed
      else if now - last_failure os \<ge> d then CHalfOpen else COpen)"
proof -
  let ?b = "cb_run os (cb_new n d)"
  have op: "cb_opened_at ?b = (if unat n \<le> trailing_failures os then last_failure os else 0)"
    using cb_run_spec[OF assms(1,2)] assms(3) by simp
  show ?thesis
  proof (cases "trailing_failures os < unat n")
    case True
    then show ?thesis by (simp add: cb_state_def op)
  next
    case False
    then have "trailing_failures os \<noteq> 0" using assms(3) by (metis gr0I unat_gt_0)
    then obtain os' t where os: "os = os' @ [CallFailed t]"
      by (cases os rule: rev_cases) (auto simp: trailing_failures_def split: if_splits, metis outcome.exhaust)
    then have "last_failure os \<noteq> 0" using assms(2) by (simp add: last_failure_def)
    moreover have "cb_cooldown ?b = d" by (simp add: cb_new_def)
    ultimately show ?thesis using False by (simp add: cb_state_def op)
  qed
qed

theorem breaker_refines_history_witness:
  "cb_state 20 (cb_run [CallFailed 10, CallFailed 11] (cb_new 2 30)) = COpen
   \<and> cb_state 41 (cb_run [CallFailed 10, CallFailed 11] (cb_new 2 30)) = CHalfOpen
   \<and> cb_state 41 (cb_run [CallFailed 10, CallOk, CallFailed 11] (cb_new 2 30)) = CClosed"
  using breaker_refines_history[of "[CallFailed 10, CallFailed 11]" 2 20 30]
    breaker_refines_history[of "[CallFailed 10, CallFailed 11]" 2 41 30]
    breaker_refines_history[of "[CallFailed 10, CallOk, CallFailed 11]" 2 41 30]
  by (simp add: trailing_failures_def last_failure_def)

text \<open>The retry loop stops at the first success and returns it; otherwise it makes exactly the allowed
  number of calls and returns the error of the last; it sleeps exactly once between two calls; with
  no attempt allowed it makes no call and panics.\<close>

theorem retry_execute_spec:
  "case retry_execute p scale f of (res, calls, sleeps) \<Rightarrow>
     calls \<le> rp_max_attempts p \<and> length sleeps = calls - 1 \<and> (\<forall>j<calls - 1. \<not> is_ok (f j))
     \<and> (if rp_max_attempts p = 0 then res = None \<and> calls = 0
        else 0 < calls \<and> res = Some (f (calls - 1)) \<and> (is_ok (f (calls - 1)) \<or> calls = rp_max_attempts p))"
proof -
  obtain res calls sleeps where run: "retry_execute p scale f = (res, calls, sleeps)" by (metis prod_cases3)
  have *: "0 \<le> calls \<and> calls \<le> rp_max_attempts p \<and> (\<forall>j<calls - 1. \<not> is_ok (f j)) \<and> length sleeps = calls - 1
     \<and> (0 < calls \<longrightarrow> res = Some (f (calls - 1)))
     \<and> (0 < calls \<and> \<not> is_ok (f (calls - 1)) \<longrightarrow> calls = rp_max_attempts p)"
    by (rule retry_loop_spec[OF run[unfolded retry_execute_def]]) auto
  have zero: "rp_max_attempts p = 0 \<Longrightarrow> res = None"
    using run by (simp add: retry_execute_def retry_loop.simps[of p scale f 0])
  have "0 < rp_max_attempts p \<Longrightarrow> 0 < calls"
    using run retry_loop_calls[of 0 p scale f "rp_initial_backoff p" None "[]"] by (simp add: retry_execute_def)
  then show ?thesis using * zero run by auto
qed

end
