(* ===== verification/App_Error.thy ===== *)
theory App_Error
  imports Prelude
begin

text \<open>
  Application errors and their HTTP responses (\<open>src/error.rs\<close>). Every handler of the model returns
  \<open>app_error + 'a\<close>; \<open>into_response\<close> is what the client sees of an error.
\<close>

datatype app_error =
    NotFound string
  | BadRequest string
  | Unauthorized string
  | Forbidden string
  | Conflict string
  | TooManyRequests string
  | Proxmox string
  | Database string
  | ConfigError string
  | Internal string

text \<open>The \<open>Display\<close> implementation derived by \<open>thiserror\<close>.\<close>

fun display_error :: "app_error \<Rightarrow> string" where
  "display_error (NotFound s) = ''Not found: '' @ s"
| "display_error (BadRequest s) = ''Bad request: '' @ s"
| "display_error (Unauthorized s) = ''Unauthorized: '' @ s"
| "display_error (Forbidden s) = ''Forbidden: '' @ s"
| "display_error (Conflict s) = ''Conflict: '' @ s"
| "display_error (TooManyRequests s) = ''Too many requests: '' @ s"
| "display_error (Proxmox s) = ''Proxmox error: '' @ s"
| "display_error (Database s) = ''Database error: '' @ s"
| "display_error (ConfigError s) = ''Configuration error: '' @ s"
| "display_error (Internal s) = ''Internal error: '' @ s"

text \<open>Status code and the \<open>error\<close> member of the JSON body.\<close>

fun into_response :: "app_error \<Rightarrow> nat \<times> string" where
  "into_response (NotFound s) = (404, display_error (NotFound s))"
| "into_response (BadRequest s) = (400, display_error (BadRequest s))"
| "into_response (Unauthorized s) = (401, ''Unauthorized'')"
| "into_response (Forbidden s) = (403, ''Forbidden'')"
| "into_response (Conflict s) = (409, display_error (Conflict s))"
| "into_response (TooManyRequests s) = (429, display_error (TooManyRequests s))"
| "into_response (Proxmox s) = (500, ''Internal server error'')"
| "into_response (Database s) = (500, ''Internal server error'')"
| "into_response (ConfigError s) = (500, ''Internal server error'')"
| "into_response (Internal s) = (500, ''Internal server error'')"

fun reason_of :: "app_error \<Rightarrow> string" where
  "reason_of (NotFound s) = s" | "reason_of (BadRequest s) = s"
| "reason_of (Unauthorized s) = s" | "reason_of (Forbidden s) = s"
| "reason_of (Conflict s) = s" | "reason_of (TooManyRequests s) = s"
| "reason_of (Proxmox s) = s" | "reason_of (Database s) = s"
| "reason_of (ConfigError s) = s" | "reason_of (Internal s) = s"

text \<open>The statuses whose body repeats the reason.\<close>

definition discloses :: "app_error \<Rightarrow> bool" where
  "discloses e = (fst (into_response e) \<in> {400, 404, 409, 429})"

fun is_server_error :: "app_error \<Rightarrow> bool" where
  "is_server_error (Proxmox _) = True" | "is_server_error (Database _) = True"
| "is_server_error (ConfigError _) = True" | "is_server_error (Internal _) = True"
| "is_server_error _ = False"

lemma status_500_iff: "fst (into_response e) = 500 \<longleftrightarrow> is_server_error e"
  by (cases e) simp_all

lemma auth_error_responses:
  "fst (into_response e) = 401 \<Longrightarrow> into_response e = (401, ''Unauthorized'')"
  "fst (into_response e) = 403 \<Longrightarrow> into_response e = (403, ''Forbidden'')"
  by (cases e; simp)+

text \<open>Two errors that are not disclosed and share a status are indistinguishable to the client.\<close>

lemma undisclosed_response_eq:
  "\<not> discloses e \<Longrightarrow> \<not> discloses e' \<Longrightarrow> fst (into_response e) = fst (into_response e')
   \<Longrightarrow> into_response e = into_response e'"
  by (cases e; cases e'; simp add: discloses_def)

end
