(* ===== verification/Http.thy ===== *)
theory Http
  imports App_Error
begin

text \<open>
  Requests, responses and handlers as the middleware sees them, path splitting, the claims of a
  token (\<open>src/auth/jwt.rs\<close>), and the contract of a guard: a middleware that either refuses a request
  without touching the state or hands it on.
\<close>

datatype http_method = GET | POST | PUT | PATCH | DELETE | HEAD | OPTIONS | OtherMethod string

datatype socket_addr = SockV4 "8 word list" "16 word" | SockV6 "8 word list" "16 word"

record claims =
  cl_sub :: string
  cl_username :: string
  cl_role :: string
  cl_iat :: int
  cl_exp :: int

text \<open>Header names are lower case. Extensions are optional fields.\<close>

record http_request =
  hq_method :: http_method
  hq_path :: string
  hq_headers :: "(string \<times> string) list"
  hq_claims :: "claims option"
  hq_api_key_ok :: bool
  hq_peer :: "socket_addr option"

record http_response =
  hs_status :: nat
  hs_body :: string
  hs_headers :: "(string \<times> string) list"

type_synonym 'st handler = "http_request \<Rightarrow> 'st \<Rightarrow> http_response \<times> 'st"

definition response :: "nat \<Rightarrow> string \<Rightarrow> http_response" where
  "response status body = \<lparr> hs_status = status, hs_body = body, hs_headers = [] \<rparr>"

definition error_response :: "app_error \<Rightarrow> http_response" where
  "error_response e = (let (status, message) = into_response e in response status message)"

lemma status_response [simp]: "hs_status (response n b) = n"
  by (simp add: response_def)

text \<open>JSON bodies as far as the handlers build them.\<close>

datatype json = JNull | JBool bool | JNum nat | JNumber string | JStr string | JArr "json list" | JObj "(string \<times> json) list"

section \<open>Splitting strings\<close>

text \<open>\<open>str::split\<close> with a character: the empty string has one empty piece.\<close>

fun split_on :: "char \<Rightarrow> string \<Rightarrow> string list" where
  "split_on d [] = [[]]"
| "split_on d (c # s) =
     (if c = d then [] # split_on d s
      else (case split_on d s of [] \<Rightarrow> [[c]] | p # ps \<Rightarrow> (c # p) # ps))"

fun join_with :: "string \<Rightarrow> string list \<Rightarrow> string" where
  "join_with d [] = []"
| "join_with d [p] = p"
| "join_with d (p # q # ps) = p @ d @ join_with d (q # ps)"

definition strip_prefix :: "string \<Rightarrow> string \<Rightarrow> string option" where
  "strip_prefix p s = (if take (length p) s = p then Some (drop (length p) s) else None)"

lemma split_on_not_Nil [simp]: "split_on d s \<noteq> []"
  by (cases s) (auto split: list.split)

lemma join_split: "join_with [d] (split_on d s) = s"
proof (induction s)
  case (Cons c s)
  show ?case
  proof (cases "split_on d s")
    case Nil
    then show ?thesis by simp
  next
    case (Cons p ps)
    with \<open>join_with [d] (split_on d s) = s\<close> show ?thesis by (cases ps) auto
  qed
qed simp

lemma split_join: "ps \<noteq> [] \<Longrightarrow> \<forall>p\<in>set ps. d \<notin> set p \<Longrightarrow> split_on d (join_with [d] ps) = ps"
proof (induction "[d]" ps rule: join_with.induct)
  case (2 p)
  have "d \<notin> set p \<Longrightarrow> split_on d p = [p]" for p by (induction p) auto
  then show ?case using 2 by simp
next
  case (3 p q ps)
  have "d \<notin> set p \<Longrightarrow> split_on d (p @ d # r) = p # split_on d r" for p r by (induction p) auto
  then show ?case using 3 by simp
qed simp

lemma strip_prefix_Some: "strip_prefix p s = Some t \<longleftrightarrow> s = p @ t"
  by (auto simp: strip_prefix_def) (metis append_take_drop_id)

lemma strip_prefix_append [simp]: "strip_prefix p (p @ t) = Some t"
  by (simp add: strip_prefix_def)

section \<open>Guards\<close>

locale guard =
  fixes g :: "'st handler \<Rightarrow> 'st handler"
    and pass :: "http_request \<Rightarrow> 'st \<Rightarrow> http_request option"
    and refuse :: "http_request \<Rightarrow> 'st \<Rightarrow> http_response"
  assumes guard_eq: "g next req st =
      (case pass req st of None \<Rightarrow> (refuse req st, st) | Some req' \<Rightarrow> next req' st)"
begin

lemma refused: "pass req st = None \<Longrightarrow> g next req st = (refuse req st, st)"
  by (simp add: guard_eq)

lemma passed: "pass req st = Some req' \<Longrightarrow> g next req st = next req' st"
  by (simp add: guard_eq)

lemma changed_imp_passed: "snd (g next req st) \<noteq> st \<Longrightarrow> \<exists>req'. pass req st = Some req'"
  by (cases "pass req st") (simp_all add: guard_eq)

end

locale guard_pair = outer: guard g1 pass1 refuse1 + inner: guard g2 pass2 refuse2
  for g1 :: "'st handler \<Rightarrow> 'st handler" and pass1 refuse1
    and g2 :: "'st handler \<Rightarrow> 'st handler" and pass2 refuse2
begin

definition pass_both :: "http_request \<Rightarrow> 'st \<Rightarrow> http_request option" where
  "pass_both req st = (case pass1 req st of None \<Rightarrow> None | Some r \<Rightarrow> pass2 r st)"

definition refuse_first :: "http_request \<Rightarrow> 'st \<Rightarrow> http_response" where
  "refuse_first req st = (case pass1 req st of None \<Rightarrow> refuse1 req st | Some r \<Rightarrow> refuse2 r st)"

end

sublocale guard_pair \<subseteq> both: guard "\<lambda>next. g1 (g2 next)" pass_both refuse_first
  by unfold_locales (simp add: outer.guard_eq inner.guard_eq pass_both_def refuse_first_def split: option.split)

end
