(* ===== verification/Proxmox_Client.thy ===== *)
theory Proxmox_Client
  imports Circuit_Breaker Http
begin

text \<open>
  The Proxmox API client (\<open>src/proxmox/client.rs\<close>, \<open>src/proxmox/auth.rs\<close>): ticket acquisition and
  refresh, the request helpers, and one definition per API call. The network is a parameter:
  \<open>pe_send call w\<close> is the reply to a call in world \<open>w\<close> and the world after it, \<open>pe_now\<close> the clock of a
  world, \<open>pe_ticket\<close> the JSON decoder of a ticket response and \<open>pe_string\<close> that of a string result;
  the other decoders are arguments of the calls that use them.
\<close>

section \<open>Data\<close>

record ticket =
  tk_ticket :: string
  tk_csrf :: string
  tk_username :: string
  tk_expires_at :: int

record cluster_config =
  cc_name :: string
  cc_url :: string
  cc_username :: string
  cc_password :: string
  cc_realm :: string
  cc_insecure_skip_verify :: bool
  cc_ca_cert_pem :: "string option"

record px_client =
  pc_config :: cluster_config
  pc_ticket :: "ticket option"
  pc_breaker :: circuit_breaker
  pc_retry_policy :: retry_policy

datatype px_body =
    NoBody
  | LoginBody string string
  | JsonBody string
  | Multipart string string string

record px_call =
  px_method :: http_method
  px_url :: string
  px_query :: "(string \<times> string) list"
  px_cookie :: "string option"
  px_csrf :: "string option"
  px_body :: px_body

text \<open>No reply within the limit that applies, a transport error, or a status with a body.\<close>

datatype px_reply = TimedOut | Transport string | Reply nat string

text \<open>A failure inside a request: the deadline, or an error.\<close>

datatype px_fail = Elapsed | Failed app_error

record 'w px_env =
  pe_send :: "px_call \<Rightarrow> 'w \<Rightarrow> px_reply \<times> 'w"
  pe_now :: "'w \<Rightarrow> nat"
  pe_status :: "nat \<Rightarrow> string"
  pe_ticket :: "string \<Rightarrow> (string, ticket) result"
  pe_string :: "string \<Rightarrow> (string, string) result"

type_synonym ('w, 'a) px = "px_client \<times> 'w \<Rightarrow> (app_error, 'a) result \<times> px_client \<times> 'w"

definition ping_timeout_secs :: nat where "ping_timeout_secs = 3"
definition list_vms_timeout_secs :: nat where "list_vms_timeout_secs = 10"
definition post_timeout_secs :: nat where "post_timeout_secs = 10"

text \<open>
  The certificate parser and the builder of the HTTP client are arguments; the built client is the
  transport of \<open>px_env\<close>.
\<close>

definition px_new :: "(string \<Rightarrow> (string, 'cert) result) \<Rightarrow> (bool \<Rightarrow> 'cert option \<Rightarrow> (string, unit) result)
    \<Rightarrow> cluster_config \<Rightarrow> (app_error, px_client) result" where
  "px_new cert_of build cfg =
     rbind (case cc_ca_cert_pem cfg of
              None \<Rightarrow> Ok None
            | Some pem \<Rightarrow> (case cert_of pem of
                  Inl e \<Rightarrow> Err (ConfigError (''Invalid CA cert: '' @ e))
                | Inr cert \<Rightarrow> Ok (Some cert)))
       (\<lambda>cert. case build (cc_insecure_skip_verify cfg) cert of
           Inl e \<Rightarrow> Err (ConfigError (''Failed to build HTTP client: '' @ e))
         | Inr _ \<Rightarrow> Ok \<lparr> pc_config = cfg, pc_ticket = None, pc_breaker = cb_default,
                         pc_retry_policy = default_retry_policy \<rparr>)"

definition px_name :: "px_client \<Rightarrow> string" where "px_name c = cc_name (pc_config c)"
definition px_base_url :: "px_client \<Rightarrow> string" where "px_base_url c = cc_url (pc_config c)"

definition px_allow_request :: "'w px_env \<Rightarrow> px_client \<times> 'w \<Rightarrow> bool" where
  "px_allow_request env cw = cb_allow_request (of_nat (pe_now env (snd cw))) (pc_breaker (fst cw))"

definition px_success :: "px_client \<Rightarrow> px_client" where
  "px_success c = c \<lparr> pc_breaker := cb_record_success (pc_breaker c) \<rparr>"

definition px_failure :: "nat \<Rightarrow> px_client \<Rightarrow> px_client" where
  "px_failure now c = c \<lparr> pc_breaker := cb_record_failure (of_nat now) (pc_breaker c) \<rparr>"

definition is_success_status :: "nat \<Rightarrow> bool" where
  "is_success_status n = (200 \<le> n \<and> n < 300)"

section \<open>Tickets\<close>

definition px_login :: "'w px_env \<Rightarrow> px_client \<times> 'w \<Rightarrow> (px_fail, unit) result \<times> px_client \<times> 'w" where
  "px_login env cw =
     (let c = fst cw;
          call = \<lparr> px_method = POST, px_url = cc_url (pc_config c) @ ''/api2/json/access/ticket'',
                   px_query = [], px_cookie = None, px_csrf = None,
                   px_body = LoginBody (cc_username (pc_config c)) (cc_password (pc_config c)) \<rparr>;
          (reply, w) = pe_send env call (snd cw)
      in case reply of
           TimedOut \<Rightarrow> (Err Elapsed, c, w)
         | Transport e \<Rightarrow> (Err (Failed (Proxmox e)), c, w)
         | Reply status body \<Rightarrow>
             if \<not> is_success_status status
             then (Err (Failed (Proxmox (''Login failed with status '' @ pe_status env status))),
                   px_failure (pe_now env w) c, w)
             else (case pe_ticket env body of
                     Inl e \<Rightarrow> (Err (Failed (Proxmox e)), c, w)
                   | Inr t \<Rightarrow> (Ok (), px_success (c \<lparr> pc_ticket := Some t \<rparr>), w)))"

definition should_refresh :: "int \<Rightarrow> ticket option \<Rightarrow> bool" where
  "should_refresh now t =
     (case t of None \<Rightarrow> True | Some tk \<Rightarrow> i64_sub (tk_expires_at tk) now < 300)"

definition ensure_ticket :: "'w px_env \<Rightarrow> px_client \<times> 'w \<Rightarrow> (px_fail, unit) result \<times> px_client \<times> 'w" where
  "ensure_ticket env cw =
     (if should_refresh (int (pe_now env (snd cw))) (pc_ticket (fst cw)) then px_login env cw
      else (Ok (), cw))"

definition current_ticket :: "'w px_env \<Rightarrow> px_client \<times> 'w \<Rightarrow> (px_fail, ticket) result \<times> px_client \<times> 'w" where
  "current_ticket env cw =
     (case ensure_ticket env cw of
        (Inl e, cw') \<Rightarrow> (Err e, cw')
      | (Inr _, cw') \<Rightarrow>
          (ok_or (Failed (Internal ''ticket missing after ensure'')) (pc_ticket (fst cw')), cw'))"

section \<open>Requests\<close>

definition trim_start :: "char \<Rightarrow> string \<Rightarrow> string" where
  "trim_start c s = dropWhile (\<lambda>x. x = c) s"

definition trim_end :: "char \<Rightarrow> string \<Rightarrow> string" where
  "trim_end c s = rev (dropWhile (\<lambda>x. x = c) (rev s))"

definition build_url :: "px_client \<Rightarrow> string \<Rightarrow> string" where
  "build_url c path =
     trim_end (CHR ''/'') (cc_url (pc_config c)) @ ''/api2/json/'' @ trim_start (CHR ''/'') path"

text \<open>Every failing status is reported as a failed GET, whatever the method was.\<close>

definition handle_response :: "'w px_env \<Rightarrow> (string \<Rightarrow> (string, 'a) result) \<Rightarrow> nat \<Rightarrow> string
    \<Rightarrow> px_client \<times> 'w \<Rightarrow> (px_fail, 'a) result \<times> px_client \<times> 'w" where
  "handle_response env dec status body cw =
     (if \<not> is_success_status status
      then (Err (Failed (Proxmox (''GET failed with status '' @ pe_status env status))),
            px_failure (pe_now env (snd cw)) (fst cw), snd cw)
      else (case dec body of
              Inl e \<Rightarrow> (Err (Failed (Proxmox e)), cw)
            | Inr x \<Rightarrow> (Ok x, px_success (fst cw), snd cw)))"

text \<open>
  The common part of the request helpers: ticket, URL, cookie, for writes the CSRF header, the
  deadline of the send, and the response.
\<close>

definition px_request :: "'w px_env \<Rightarrow> (string \<Rightarrow> (string, 'a) result) \<Rightarrow> http_method \<Rightarrow> bool \<Rightarrow> px_fail
    \<Rightarrow> string \<Rightarrow> (string \<times> string) list \<Rightarrow> px_body
    \<Rightarrow> px_client \<times> 'w \<Rightarrow> (px_fail, 'a) result \<times> px_client \<times> 'w" where
  "px_request env dec method csrf on_timeout path query body cw =
     (case current_ticket env cw of
        (Inl e, cw') \<Rightarrow> (Err e, cw')
      | (Inr t, cw') \<Rightarrow>
          (let call = \<lparr> px_method = method, px_url = build_url (fst cw') path, px_query = query,
                        px_cookie = Some (''PVEAuthCookie='' @ tk_ticket t),
                        px_csrf = (if csrf then Some (tk_csrf t) else None), px_body = body \<rparr>;
               (reply, w) = pe_send env call (snd cw')
           in case reply of
                TimedOut \<Rightarrow> (Err on_timeout, fst cw', w)
              | Transport e \<Rightarrow> (Err (Failed (Proxmox e)), fst cw', w)
              | Reply status b \<Rightarrow> handle_response env dec status b (fst cw', w)))"

definition timeout_error :: "string \<Rightarrow> nat \<Rightarrow> px_fail" where
  "timeout_error what secs = Failed (Proxmox (what @ '' timed out after '' @ show_nat secs @ ''s''))"

text \<open>
  How a deadline that no helper of its own turned into an error ends: as the error the HTTP
  client's own timeout gives, or as the message of the enclosing \<open>tokio::time::timeout\<close>.
\<close>

definition finish :: "app_error \<Rightarrow> (px_fail, 'a) result \<times> px_client \<times> 'w \<Rightarrow> (app_error, 'a) result \<times> px_client \<times> 'w" where
  "finish on_elapsed r =
     (map_err (\<lambda>f. case f of Elapsed \<Rightarrow> on_elapsed | Failed e \<Rightarrow> e) (fst r), snd r)"

definition client_timeout :: app_error where "client_timeout = Proxmox ''operation timed out''"

definition elapsed_after :: "string \<Rightarrow> nat \<Rightarrow> app_error" where
  "elapsed_after what secs = Proxmox (what @ '' timed out after '' @ show_nat secs @ ''s'')"

definition px_get :: "'w px_env \<Rightarrow> (string \<Rightarrow> (string, 'a) result) \<Rightarrow> string \<Rightarrow> ('w, 'a) px" where
  "px_get env dec path cw = finish client_timeout (px_request env dec GET False Elapsed path [] NoBody cw)"

definition px_get_within :: "'w px_env \<Rightarrow> string \<Rightarrow> nat \<Rightarrow> (string \<Rightarrow> (string, 'a) result) \<Rightarrow> string \<Rightarrow> ('w, 'a) px" where
  "px_get_within env what secs dec path cw =
     finish (elapsed_after what secs) (px_request env dec GET False Elapsed path [] NoBody cw)"

definition px_post :: "'w px_env \<Rightarrow> (string \<Rightarrow> (string, 'a) result) \<Rightarrow> string \<Rightarrow> ('w, 'a) px" where
  "px_post env dec path cw =
     finish client_timeout
       (px_request env dec POST True (timeout_error (''POST '' @ path) post_timeout_secs) path [] NoBody cw)"

definition post_with_query :: "'w px_env \<Rightarrow> (string \<Rightarrow> (string, 'a) result) \<Rightarrow> string
    \<Rightarrow> (string \<times> string) list \<Rightarrow> ('w, 'a) px" where
  "post_with_query env dec path params cw =
     finish client_timeout
       (px_request env dec POST True (timeout_error (''POST '' @ path) post_timeout_secs) path params NoBody cw)"

definition post_no_default :: "'w px_env \<Rightarrow> (string \<Rightarrow> (string, 'a) result) \<Rightarrow> string
    \<Rightarrow> (string \<times> string) list \<Rightarrow> ('w, 'a) px" where
  "post_no_default env dec path params cw =
     finish client_timeout
       (px_request env dec POST True (timeout_error (''POST '' @ path) post_timeout_secs) path params NoBody cw)"

definition delete_json :: "'w px_env \<Rightarrow> (string \<Rightarrow> (string, 'a) result) \<Rightarrow> string \<Rightarrow> ('w, 'a) px" where
  "delete_json env dec path cw = finish client_timeout (px_request env dec DELETE True Elapsed path [] NoBody cw)"

definition put_with_query :: "'w px_env \<Rightarrow> (string \<Rightarrow> (string, 'a) result) \<Rightarrow> string
    \<Rightarrow> (string \<times> string) list \<Rightarrow> ('w, 'a) px" where
  "put_with_query env dec path params cw =
     finish client_timeout
       (px_request env dec PUT True (timeout_error (''PUT '' @ path) post_timeout_secs) path params NoBody cw)"

definition put_json :: "'w px_env \<Rightarrow> (string \<Rightarrow> (string, 'a) result) \<Rightarrow> string \<Rightarrow> string \<Rightarrow> ('w, 'a) px" where
  "put_json env dec path json cw =
     finish client_timeout
       (px_request env dec PUT True (timeout_error (''PUT '' @ path) post_timeout_secs) path [] (JsonBody json) cw)"

section \<open>The contract of a call\<close>

text \<open>
  What every user of a client relies on: a call may change its ticket and its breaker, never the
  configuration it was built from, and it talks to its own cluster only: in two environments that
  answer the calls to that cluster alike, it does the same.
\<close>

definition px_host :: "px_client \<Rightarrow> string" where
  "px_host c = trim_end (CHR ''/'') (cc_url (pc_config c))"

definition same_to :: "string \<Rightarrow> 'w px_env \<Rightarrow> 'w px_env \<Rightarrow> bool" where
  "same_to host env env' =
     ((\<forall>call. take (length host) (px_url call) = host \<longrightarrow> pe_send env call = pe_send env' call)
      \<and> pe_now env = pe_now env' \<and> pe_status env = pe_status env'
      \<and> pe_ticket env = pe_ticket env' \<and> pe_string env = pe_string env')"

named_theorems client_calls \<open>calls of the Proxmox client that meet the contract\<close>

locale client_call =
  fixes f :: "'w px_env \<Rightarrow> ('w, 'a) px"
  assumes keeps_config: "f env (c, w) = (r, c', w') \<Longrightarrow> pc_config c' = pc_config c"
    and confined: "same_to (px_host c) env env' \<Longrightarrow> f env (c, w) = f env' (c, w)"
begin

lemma keeps_name: "f env (c, w) = (r, c', w') \<Longrightarrow> px_name c' = px_name c"
  by (simp add: px_name_def keeps_config)

lemma keeps_host: "f env (c, w) = (r, c', w') \<Longrightarrow> px_host c' = px_host c"
  by (simp add: px_host_def keeps_config)

end

lemma same_toD:
  assumes "same_to host env env'"
  shows "pe_now env = pe_now env'" "pe_status env = pe_status env'" "pe_ticket env = pe_ticket env'"
    "pe_string env = pe_string env'" "take (length host) (px_url call) = host \<Longrightarrow> pe_send env call = pe_send env' call"
  using assms by (simp_all add: same_to_def)

lemma trim_end_prefix: "\<exists>rest. s = trim_end d s @ rest"
proof -
  have "s = rev (takeWhile (\<lambda>x. x = d) (rev s) @ dropWhile (\<lambda>x. x = d) (rev s))" by simp
  then show ?thesis unfolding rev_append trim_end_def by blast
qed

lemma own_urls: "take (length (px_host c)) (build_url c path) = px_host c"
    "take (length (px_host c)) (cc_url (pc_config c) @ rest) = px_host c"
proof -
  obtain s where "cc_url (pc_config c) = px_host c @ s" using trim_end_prefix by (metis px_host_def)
  then show "take (length (px_host c)) (cc_url (pc_config c) @ rest) = px_host c" by (metis append_assoc append_eq_conv_conj)
  show "take (length (px_host c)) (build_url c path) = px_host c" by (simp add: build_url_def px_host_def)
qed

lemma config_simps [simp]:
  "pc_config (px_success c) = pc_config c" "pc_config (px_failure n c) = pc_config c"
  by (simp_all add: px_success_def px_failure_def)

lemma px_login_config: "pc_config (fst (snd (px_login env (c, w)))) = pc_config c"
  by (auto simp: px_login_def Let_def split: prod.split px_reply.split sum.split)

lemma current_ticket_config:
  "current_ticket env (c, w) = (r, c', w') \<Longrightarrow> pc_config c' = pc_config c"
  using px_login_config[of env c w]
  by (auto simp: current_ticket_def ensure_ticket_def split: prod.splits sum.splits if_splits)

lemma handle_response_config: "pc_config (fst (snd (handle_response env dec st b (c, w)))) = pc_config c"
  by (auto simp: handle_response_def split: sum.split)

lemma px_request_config:
  "px_request env dec m csrf tmo path q body (c, w) = (r, c', w') \<Longrightarrow> pc_config c' = pc_config c"
proof -
  assume run: "px_request env dec m csrf tmo path q body (c, w) = (r, c', w')"
  obtain r0 c0 w0 where ct: "current_ticket env (c, w) = (r0, c0, w0)" by (metis prod_cases3)
  have hr: "handle_response env dec st b (c0, v) = (r, c', w') \<Longrightarrow> pc_config c' = pc_config c0" for st b v
    using handle_response_config[of env dec st b c0 v] by simp
  show ?thesis using run current_ticket_config[OF ct]
    by (auto simp: px_request_def ct Let_def dest: hr split: sum.splits prod.splits px_reply.splits)
qed

lemma px_login_confined:
  assumes "same_to (px_host c) env env'"
  shows "px_login env (c, w) = px_login env' (c, w)"
proof -
  note s = same_toD[OF assms]
  have send: "pe_send env call = pe_send env' call" if "px_url call = cc_url (pc_config c) @ rest" for call rest
    using s(5) own_urls(2)[of c rest] that by simp
  show ?thesis unfolding px_login_def Let_def s(1-3)
    by (subst send) (simp, simp)
qed

lemma current_ticket_confined:
  "same_to (px_host c) env env' \<Longrightarrow> current_ticket env (c, w) = current_ticket env' (c, w)"
  by (simp add: current_ticket_def ensure_ticket_def px_login_confined same_toD(1))

lemma px_request_confined:
  assumes "same_to (px_host c) env env'"
  shows "px_request env dec m csrf tmo path q body (c, w) = px_request env' dec m csrf tmo path q body (c, w)"
proof -
  note s = same_toD[OF assms]
  obtain r0 c0 w0 where ct: "current_ticket env' (c, w) = (r0, c0, w0)" by (metis prod_cases3)
  have host: "px_host c0 = px_host c" using current_ticket_config[OF ct] by (simp add: px_host_def)
  have hr: "handle_response env dec st b cw = handle_response env' dec st b cw" for st b cw
    by (simp add: handle_response_def s(1,2))
  have send: "pe_send env call = pe_send env' call" if "px_url call = build_url c0 path" for call
    using s(5) own_urls(1)[of c0 path] host that by simp
  show ?thesis
    unfolding px_request_def ct current_ticket_confined[OF assms] Let_def hr
    by (cases r0) (simp_all add: send)
qed

lemma finish_config: "finish e x = (r, c', w') \<Longrightarrow> \<exists>r0. x = (r0, c', w')"
  by (cases x) (auto simp: finish_def)

lemmas helper_defs = px_get_def px_get_within_def px_post_def post_with_query_def post_no_default_def
  delete_json_def put_with_query_def put_json_def

lemma finish_request_call: "client_call (\<lambda>env cw. finish e (px_request env (dec env) m csrf tmo path q body cw))"
  if "\<And>env env' :: 'w px_env. pe_string env = pe_string env' \<Longrightarrow> dec env = dec env'"
proof
  fix env env' :: "'w px_env" and c w r c' w'
  show "finish e (px_request env (dec env) m csrf tmo path q body (c, w)) = (r, c', w') \<Longrightarrow> pc_config c' = pc_config c"
    by (auto dest!: finish_config px_request_config)
  assume s: "same_to (px_host c) env env'"
  then have "dec env = dec env'" by (intro that) (simp add: same_toD(4))
  then show "finish e (px_request env (dec env) m csrf tmo path q body (c, w))
      = finish e (px_request env' (dec env') m csrf tmo path q body (c, w))"
    using px_request_confined[OF s, of "dec env'"] by simp
qed

lemma helper_calls [client_calls, intro]:
  "client_call (\<lambda>env. px_get env dec path)" "client_call (\<lambda>env. px_get_within env what secs dec path)"
  "client_call (\<lambda>env. px_post env dec path)" "client_call (\<lambda>env. post_with_query env dec path ps)"
  "client_call (\<lambda>env. post_no_default env dec path ps)" "client_call (\<lambda>env. delete_json env dec path)"
  "client_call (\<lambda>env. put_with_query env dec path ps)" "client_call (\<lambda>env. put_json env dec path body)"
  unfolding helper_defs[abs_def] by (rule finish_request_call; simp)+

lemma helper_calls_string [client_calls, intro]:
  "client_call (\<lambda>env. px_get env (pe_string env) path)" "client_call (\<lambda>env. px_post env (pe_string env) path)"
  "client_call (\<lambda>env. post_with_query env (pe_string env) path ps)"
  "client_call (\<lambda>env. post_no_default env (pe_string env) path ps)"
  "client_call (\<lambda>env. delete_json env (pe_string env) path)"
  "client_call (\<lambda>env. put_with_query env (pe_string env) path ps)"
  "client_call (\<lambda>env. put_json env (pe_string env) path body)"
  unfolding helper_defs[abs_def] by (rule finish_request_call; simp)+

interpretation get: client_call "\<lambda>env. px_get env dec path" by (rule helper_calls)
interpretation post: client_call "\<lambda>env. px_post env dec path" by (rule helper_calls)
interpretation post_query: client_call "\<lambda>env. post_with_query env dec path ps" by (rule helper_calls)

section \<open>Lemmas\<close>

text \<open>Two clients that differ in their breaker at most.\<close>

definition same_but_breaker :: "px_client \<Rightarrow> px_client \<Rightarrow> bool" where
  "same_but_breaker c d = (pc_config c = pc_config d \<and> pc_ticket c = pc_ticket d)"

lemma same_but_breaker_intros [simp]:
  "same_but_breaker c c"
  "same_but_breaker c d \<Longrightarrow> same_but_breaker (px_success c) (px_success d)"
  "same_but_breaker c d \<Longrightarrow> same_but_breaker (px_failure n c) (px_failure n d)"
  "same_but_breaker c d \<Longrightarrow> same_but_breaker (px_success (c \<lparr> pc_ticket := t \<rparr>)) (px_success (d \<lparr> pc_ticket := t \<rparr>))"
  by (simp_all add: same_but_breaker_def px_success_def px_failure_def)

definition agree :: "'r \<times> px_client \<times> 'w \<Rightarrow> 'r \<times> px_client \<times> 'w \<Rightarrow> bool" where
  "agree x y = (fst x = fst y \<and> snd (snd x) = snd (snd y) \<and> same_but_breaker (fst (snd x)) (fst (snd y)))"

lemma agree_simp [simp]: "agree (r, c, w) (r', c', w') \<longleftrightarrow> r = r' \<and> w = w' \<and> same_but_breaker c c'"
  by (auto simp: agree_def)

lemma login_agree: "same_but_breaker c d \<Longrightarrow> agree (px_login env (c, w)) (px_login env (d, w))"
  by (auto simp: px_login_def same_but_breaker_def Let_def px_success_def px_failure_def
      split: prod.split px_reply.split sum.split)

lemma current_ticket_agree:
  assumes "same_but_breaker c d"
  shows "agree (current_ticket env (c, w)) (current_ticket env (d, w))"
proof -
  have "agree (ensure_ticket env (c, w)) (ensure_ticket env (d, w))"
    using assms login_agree[OF assms, of env w] by (simp add: ensure_ticket_def same_but_breaker_def)
  then show ?thesis
    by (auto simp: current_ticket_def agree_def same_but_breaker_def split: prod.splits sum.splits)
qed

lemma handle_response_agree: "same_but_breaker c d \<Longrightarrow>
    agree (handle_response env dec st b (c, w)) (handle_response env dec st b (d, w))"
  by (auto simp: handle_response_def split: sum.split)

lemma px_request_agree:
  assumes "same_but_breaker c d"
  shows "agree (px_request env dec m csrf tmo path q body (c, w)) (px_request env dec m csrf tmo path q body (d, w))"
proof -
  obtain r c' w' where c: "current_ticket env (c, w) = (r, c', w')" by (metis prod_cases3)
  obtain d' where d: "current_ticket env (d, w) = (r, d', w')" and s: "same_but_breaker c' d'"
    using current_ticket_agree[OF assms, of env w] c by (cases "current_ticket env (d, w)") auto
  have url: "build_url d' path = build_url c' path" using s by (simp add: build_url_def same_but_breaker_def)
  show ?thesis
    using s by (auto simp: px_request_def c d url Let_def handle_response_agree split: sum.split prod.split px_reply.split)
qed

text \<open>Fresh tickets.\<close>

lemma current_ticket_Ok:
  assumes "current_ticket env (c, w) = (Inr t, c', w')"
  shows "pc_ticket c' = Some t \<and>
     (\<not> should_refresh (int (pe_now env w)) (Some t) \<and> (c', w') = (c, w)
      \<or> px_login env (c, w) = (Inr (), c', w'))"
  using assms by (auto simp: current_ticket_def ensure_ticket_def split: sum.splits prod.splits if_splits)

definition unreachable :: "'w px_env \<Rightarrow> bool" where
  "unreachable env = (\<forall>call w. case fst (pe_send env call w) of Reply _ _ \<Rightarrow> False | _ \<Rightarrow> True)"

lemma unreachable_send: "unreachable env \<Longrightarrow> pe_send env call w = (r, w') \<Longrightarrow> (\<exists>e. r = Transport e) \<or> r = TimedOut"
proof -
  assume u: "unreachable env" and s: "pe_send env call w = (r, w')"
  from u have "case fst (pe_send env call w) of Reply _ _ \<Rightarrow> False | _ \<Rightarrow> True" by (simp add: unreachable_def)
  then show ?thesis using s by (cases r) simp_all
qed

section \<open>Properties\<close>

text \<open>The circuit breaker never blocks a call: the outcome of every request, the calls it makes and the
  ticket it leaves are the same whatever state the breaker is in, open included; the breaker is
  only written.\<close>

theorem breaker_never_blocks:
  "let (r, c', w') = px_request env dec m csrf tmo path q body (c, w);
       (r2, c2, w2) = px_request env dec m csrf tmo path q body (c \<lparr> pc_breaker := b \<rparr>, w)
   in r2 = r \<and> w2 = w' \<and> pc_ticket c2 = pc_ticket c' \<and> pc_config c2 = pc_config c'"
proof -
  have "same_but_breaker c (c \<lparr> pc_breaker := b \<rparr>)" by (simp add: same_but_breaker_def)
  from px_request_agree[OF this, of env dec m csrf tmo path q body w] show ?thesis
    by (auto simp: agree_def same_but_breaker_def split: prod.splits)
qed

text \<open>An unreachable cluster never opens its breaker: when every call ends in a transport error or a
  timeout, a request fails and leaves the breaker as it was, however often it is repeated.\<close>

theorem unreachable_never_trips:
  assumes "unreachable env"
  shows "let (r, c', w') = px_request env dec m csrf (Failed e) path q body (c, w)
         in \<not> is_ok r \<and> pc_breaker c' = pc_breaker c"
proof -
  have login: "\<not> is_ok (fst (px_login env (c, w))) \<and> pc_breaker (fst (snd (px_login env (c, w)))) = pc_breaker c"
    for c w
  proof -
    obtain rep w1 where send: "pe_send env \<lparr> px_method = POST, px_url = cc_url (pc_config c) @ ''/api2/json/access/ticket'',
        px_query = [], px_cookie = None, px_csrf = None,
        px_body = LoginBody (cc_username (pc_config c)) (cc_password (pc_config c)) \<rparr> w = (rep, w1)" by fastforce
    from unreachable_send[OF assms send] show ?thesis using send by (auto simp: px_login_def)
  qed
  obtain r0 c0 w0 where ct: "current_ticket env (c, w) = (r0, c0, w0)" by (metis prod_cases3)
  have br: "pc_breaker c0 = pc_breaker c"
    using ct login[of c w]
    by (auto simp: current_ticket_def ensure_ticket_def split: prod.splits sum.splits if_splits)
  show ?thesis
  proof (cases r0)
    case (Inl f)
    then show ?thesis using ct br by (simp add: px_request_def)
  next
    case (Inr t)
    obtain rep w1 where send: "pe_send env \<lparr> px_method = m, px_url = build_url c0 path, px_query = q,
        px_cookie = Some (''PVEAuthCookie='' @ tk_ticket t),
        px_csrf = (if csrf then Some (tk_csrf t) else None), px_body = body \<rparr> w0 = (rep, w1)" by fastforce
    from unreachable_send[OF assms send] show ?thesis
      using ct br Inr send by (auto simp: px_request_def)
  qed
qed

definition demo_client :: px_client where
  "demo_client = \<lparr> pc_config = \<lparr> cc_name = ''c1'', cc_url = ''https://pve:8006/'', cc_username = ''root'',
       cc_password = ''p'', cc_realm = ''pam'', cc_insecure_skip_verify = False, cc_ca_cert_pem = None \<rparr>,
     pc_ticket = None, pc_breaker = cb_default, pc_retry_policy = default_retry_policy \<rparr>"

definition dead_env :: "nat px_env" where
  "dead_env = \<lparr> pe_send = (\<lambda>call w. (Transport ''connection refused'', w + 1)), pe_now = (\<lambda>w. w),
     pe_status = show_nat, pe_ticket = (\<lambda>b. Inl ''no''), pe_string = (\<lambda>b. Inr b) \<rparr>"

theorem unreachable_never_trips_witness:
  "pc_breaker (fst (snd (px_request dead_env Inr GET False (Failed client_timeout) ''version'' [] NoBody (demo_client, 5))))
     = cb_default"
proof -
  have "unreachable dead_env" by (simp add: unreachable_def dead_env_def)
  from unreachable_never_trips[OF this, of Inr GET False client_timeout "''version''" "[]" NoBody demo_client 5]
  show ?thesis by (auto simp: demo_client_def split: prod.splits)
qed

end
