(* ===== verification/Proxmox_Types.thy ===== *)
theory Proxmox_Types
  imports Prelude
begin

text \<open>
  The Proxmox data the handlers and the client look into (\<open>src/proxmox/types.rs\<close>), and the query
  parameters built from the request bodies (\<open>src/api/vms.rs\<close>, \<open>src/proxmox/types.rs\<close>,
  \<open>src/proxmox/client.rs\<close>). Floating-point fields are only copied; they are kept as the 64 bits of
  their representation.
\<close>

type_synonym f64_bits = "64 word"
type_synonym params = "(string \<times> string) list"

section \<open>Records\<close>

record vm_resource =
  vr_vmid :: nat
  vr_name :: string
  vr_node :: string
  vr_kind :: string
  vr_status :: string
  vr_cpu :: "f64_bits option"
  vr_cpus :: "f64_bits option"
  vr_mem :: "nat option"
  vr_maxmem :: "nat option"
  vr_disk :: "nat option"
  vr_maxdisk :: "nat option"
  vr_netin :: "nat option"
  vr_netout :: "nat option"
  vr_diskread :: "nat option"
  vr_diskwrite :: "nat option"
  vr_uptime :: "nat option"
  vr_template :: "nat option"
  vr_tags :: "string option"

record lxc_status =
  ls_vmid :: nat
  ls_name :: string
  ls_node :: string
  ls_status :: string
  ls_cpu :: "f64_bits option"
  ls_cpus :: "f64_bits option"
  ls_mem :: "nat option"
  ls_maxmem :: "nat option"
  ls_disk :: "nat option"
  ls_maxdisk :: "nat option"
  ls_uptime :: "nat option"
  ls_template :: "nat option"

record storage_resource =
  sr_storage :: string
  sr_kind :: string
  sr_total :: nat
  sr_used :: nat
  sr_avail :: nat
  sr_used_fraction :: "f64_bits option"
  sr_enabled :: "nat option"
  sr_shared :: "nat option"
  sr_content :: "string option"

record storage_content_entry =
  sc_volid :: string
  sc_storage :: string
  sc_content :: string
  sc_volid_name :: "string option"
  sc_size :: nat
  sc_used :: "nat option"
  sc_format :: "string option"
  sc_ctime :: "nat option"

record node_network =
  nn_iface :: string
  nn_kind :: string
  nn_active :: "nat option"
  nn_address :: "string option"
  nn_gateway :: "string option"
  nn_address6 :: "string option"
  nn_gateway6 :: "string option"
  nn_bridge_ports :: "string option"
  nn_iface_vlan_raw_device :: "string option"
  nn_vlan_id :: "nat option"
  nn_autostart :: "nat option"
  nn_comments :: "string option"

record replication_job =
  rj_id :: nat
  rj_enable :: "nat option"
  rj_source_node :: "string option"
  rj_source_vmid :: "nat option"
  rj_target :: "string option"
  rj_target_vmid :: "nat option"
  rj_rate :: "nat option"
  rj_schedule :: "string option"
  rj_comment :: "string option"
  rj_kind :: "string option"

record create_replication_job_req =
  cj_source_vmid :: nat
  cj_source_node :: "string option"
  cj_target :: string
  cj_target_vmid :: "nat option"
  cj_rate :: "nat option"
  cj_schedule :: string
  cj_comment :: "string option"
  cj_enable :: bool

record update_replication_job_req =
  uj_enable :: "bool option"
  uj_rate :: "nat option"
  uj_schedule :: "string option"
  uj_comment :: "string option"

record ha_group =
  hg_group :: string
  hg_nodes :: "string option"
  hg_kind :: "string option"
  hg_comment :: "string option"
  hg_nofailback :: "nat option"
  hg_restricted :: "nat option"

record create_vm_request =
  cv_vmid :: "nat option"
  cv_name :: "string option"
  cv_description :: "string option"
  cv_cores :: "nat option"
  cv_sockets :: "nat option"
  cv_memory :: "nat option"
  cv_balloon :: "nat option"
  cv_boot :: "string option"
  cv_bios :: "string option"
  cv_machine :: "string option"
  cv_scsihw :: "string option"
  cv_cpu :: "string option"
  cv_arch :: "string option"
  cv_tags :: "string option"
  cv_template :: "nat option"
  cv_onboot :: "nat option"
  cv_agent :: "nat option"
  cv_storage :: "string option"
  cv_disk_size :: "string option"
  cv_net_model :: "string option"
  cv_net_bridge :: "string option"
  cv_ostype :: "string option"
  cv_ide2 :: "string option"
  cv_start :: "bool option"
  cv_numa_enabled :: "bool option"

record clone_vm_request =
  cw_newid :: nat
  cw_target :: "string option"
  cw_name :: "string option"
  cw_storage :: "string option"
  cw_full :: bool
  cw_snapname :: "string option"
  cw_description :: "string option"
  cw_start :: "bool option"
  cw_pool :: "string option"

record update_vm_config_request =
  uv_name :: "string option"
  uv_description :: "string option"
  uv_cores :: "nat option"
  uv_sockets :: "nat option"
  uv_memory :: "nat option"
  uv_balloon :: "nat option"
  uv_boot :: "string option"
  uv_bios :: "string option"
  uv_machine :: "string option"
  uv_scsihw :: "string option"
  uv_cpu :: "string option"
  uv_tags :: "string option"
  uv_template :: "nat option"
  uv_onboot :: "nat option"
  uv_agent :: "nat option"
  uv_delete :: "string option"
  uv_ciuser :: "string option"
  uv_sshkeys :: "string option"
  uv_ipconfig :: "string option"
  uv_nameserver :: "string option"
  uv_searchdomain :: "string option"
  uv_net :: "string option"

record backup_entry =
  be_volid :: string
  be_storage :: string
  be_filename :: "string option"
  be_size :: nat
  be_format :: "string option"
  be_ctime :: "nat option"
  be_notes :: "string option"

record backup_vm_request =
  bk_storage :: string
  bk_mode :: string
  bk_compress :: string
  bk_remove :: "bool option"
  bk_notes :: "string option"
  bk_performance :: "string option"

record create_snapshot_request =
  cs_snapname :: string
  cs_description :: "string option"
  cs_vmstate :: bool

record delete_snapshot_request =
  ds_force :: bool

record resize_disk_request =
  rd_disk :: string
  rd_size :: string

record lxc_action_request =
  la_force :: "bool option"
  la_timeout :: "nat option"

record delete_lxc_request =
  dl_purge :: bool
  dl_force :: bool
  dl_skiplock :: bool

record create_lxc_request =
  xc_vmid :: "nat option"
  xc_hostname :: string
  xc_ostemplate :: string
  xc_storage :: "string option"
  xc_memory :: "nat option"
  xc_cores :: "nat option"
  xc_password :: "string option"
  xc_rootfs :: "string option"
  xc_net :: "string option"
  xc_force :: "bool option"
  xc_unprivileged :: "bool option"
  xc_description :: "string option"
  xc_onboot :: "nat option"
  xc_tags :: "string option"
  xc_ssh_public_keys :: "string option"
  xc_start :: "bool option"

record lxc_config =
  xf_hostname :: "string option"
  xf_memory :: "nat option"
  xf_cores :: "nat option"
  xf_description :: "string option"
  xf_onboot :: "nat option"
  xf_tags :: "string option"
  xf_nameserver :: "string option"
  xf_searchdomain :: "string option"
  xf_rootfs :: "string option"
  xf_net :: "string option"
  xf_features :: "string option"
  xf_protection :: "nat option"
  xf_start :: "bool option"
  xf_hookscript :: "string option"
  xf_console :: "nat option"
  xf_swap :: "nat option"

section \<open>Parameters\<close>

definition bit01 :: "bool \<Rightarrow> string" where "bit01 b = (if b then ''1'' else ''0'')"

definition opt_with :: "string \<Rightarrow> ('a \<Rightarrow> string) \<Rightarrow> 'a option \<Rightarrow> params" where
  "opt_with k f x = (case x of None \<Rightarrow> [] | Some v \<Rightarrow> [(k, f v)])"

definition opt_str :: "string \<Rightarrow> string option \<Rightarrow> params" where "opt_str k x = opt_with k (\<lambda>v. v) x"
definition opt_nat :: "string \<Rightarrow> nat option \<Rightarrow> params" where "opt_nat k x = opt_with k show_nat x"
definition opt_bit :: "string \<Rightarrow> bool option \<Rightarrow> params" where "opt_bit k x = opt_with k bit01 x"

definition create_vm_params :: "create_vm_request \<Rightarrow> params" where
  "create_vm_params r =
     opt_nat ''vmid'' (cv_vmid r)
     @ opt_str ''name'' (cv_name r)
     @ opt_str ''description'' (cv_description r)
     @ opt_nat ''cores'' (cv_cores r)
     @ opt_nat ''sockets'' (cv_sockets r)
     @ opt_nat ''memory'' (cv_memory r)
     @ opt_nat ''balloon'' (cv_balloon r)
     @ opt_str ''boot'' (cv_boot r)
     @ opt_str ''bios'' (cv_bios r)
     @ opt_str ''machine'' (cv_machine r)
     @ opt_str ''scsihw'' (cv_scsihw r)
     @ opt_str ''cpu'' (cv_cpu r)
     @ opt_str ''arch'' (cv_arch r)
     @ opt_str ''tags'' (cv_tags r)
     @ opt_nat ''template'' (cv_template r)
     @ opt_nat ''onboot'' (cv_onboot r)
     @ opt_nat ''agent'' (cv_agent r)
     @ opt_str ''storage'' (cv_storage r)
     @ opt_with ''sata0'' (\<lambda>v. v @ '':'' @ v) (cv_disk_size r)
     @ opt_with ''net0'' (\<lambda>v. v @ '',bridge='' @ (case cv_net_bridge r of None \<Rightarrow> ''vmbr0'' | Some b \<Rightarrow> b))
         (cv_net_model r)
     @ opt_str ''ostype'' (cv_ostype r)
     @ opt_str ''ide2'' (cv_ide2 r)
     @ opt_bit ''start'' (cv_start r)
     @ opt_bit ''numa'' (cv_numa_enabled r)"

definition clone_vm_params :: "clone_vm_request \<Rightarrow> params" where
  "clone_vm_params r =
     [(''newid'', show_nat (cw_newid r))]
     @ opt_str ''target'' (cw_target r)
     @ opt_str ''name'' (cw_name r)
     @ opt_str ''storage'' (cw_storage r)
     @ [(''full'', bit01 (cw_full r))]
     @ opt_str ''snapname'' (cw_snapname r)
     @ opt_str ''description'' (cw_description r)
     @ opt_bit ''start'' (cw_start r)
     @ opt_str ''pool'' (cw_pool r)"

definition update_vm_config_params :: "update_vm_config_request \<Rightarrow> params" where
  "update_vm_config_params r =
     opt_str ''name'' (uv_name r)
     @ opt_str ''description'' (uv_description r)
     @ opt_nat ''cores'' (uv_cores r)
     @ opt_nat ''sockets'' (uv_sockets r)
     @ opt_nat ''memory'' (uv_memory r)
     @ opt_nat ''balloon'' (uv_balloon r)
     @ opt_str ''boot'' (uv_boot r)
     @ opt_str ''bios'' (uv_bios r)
     @ opt_str ''machine'' (uv_machine r)
     @ opt_str ''scsihw'' (uv_scsihw r)
     @ opt_str ''cpu'' (uv_cpu r)
     @ opt_str ''tags'' (uv_tags r)
     @ opt_nat ''template'' (uv_template r)
     @ opt_nat ''onboot'' (uv_onboot r)
     @ opt_nat ''agent'' (uv_agent r)
     @ opt_str ''delete'' (uv_delete r)
     @ opt_str ''ciuser'' (uv_ciuser r)
     @ opt_str ''sshkeys'' (uv_sshkeys r)
     @ opt_str ''ipconfig'' (uv_ipconfig r)
     @ opt_str ''nameserver'' (uv_nameserver r)
     @ opt_str ''searchdomain'' (uv_searchdomain r)
     @ opt_str ''net0'' (uv_net r)"

definition backup_vm_params :: "backup_vm_request \<Rightarrow> params" where
  "backup_vm_params r =
     [(''storage'', bk_storage r)]
     @ [(''mode'', bk_mode r)]
     @ [(''compress'', bk_compress r)]
     @ opt_bit ''remove'' (bk_remove r)
     @ opt_str ''notes'' (bk_notes r)
     @ opt_str ''performance'' (bk_performance r)"

definition lxc_create_params :: "create_lxc_request \<Rightarrow> params" where
  "lxc_create_params r =
     [(''hostname'', xc_hostname r)]
     @ [(''ostemplate'', xc_ostemplate r)]
     @ opt_nat ''vmid'' (xc_vmid r)
     @ opt_str ''storage'' (xc_storage r)
     @ opt_nat ''memory'' (xc_memory r)
     @ opt_nat ''cores'' (xc_cores r)
     @ opt_str ''password'' (xc_password r)
     @ opt_str ''rootfs'' (xc_rootfs r)
     @ opt_str ''net'' (xc_net r)
     @ opt_bit ''force'' (xc_force r)
     @ opt_bit ''unprivileged'' (xc_unprivileged r)
     @ opt_str ''description'' (xc_description r)
     @ opt_nat ''onboot'' (xc_onboot r)
     @ opt_str ''tags'' (xc_tags r)
     @ opt_str ''ssh-public-keys'' (xc_ssh_public_keys r)
     @ opt_bit ''start'' (xc_start r)"

definition lxc_config_params :: "lxc_config \<Rightarrow> params" where
  "lxc_config_params r =
     opt_str ''hostname'' (xf_hostname r)
     @ opt_nat ''memory'' (xf_memory r)
     @ opt_nat ''cores'' (xf_cores r)
     @ opt_str ''description'' (xf_description r)
     @ opt_nat ''onboot'' (xf_onboot r)
     @ opt_str ''tags'' (xf_tags r)
     @ opt_str ''nameserver'' (xf_nameserver r)
     @ opt_str ''searchdomain'' (xf_searchdomain r)
     @ opt_str ''rootfs'' (xf_rootfs r)
     @ opt_str ''net'' (xf_net r)
     @ opt_str ''features'' (xf_features r)
     @ opt_nat ''protection'' (xf_protection r)
     @ opt_bit ''start'' (xf_start r)
     @ opt_str ''hookscript'' (xf_hookscript r)
     @ opt_nat ''console'' (xf_console r)
     @ opt_nat ''swap'' (xf_swap r)"

definition create_replication_params :: "create_replication_job_req \<Rightarrow> params" where
  "create_replication_params r =
     [(''source-vmid'', show_nat (cj_source_vmid r)), (''target'', cj_target r),
      (''schedule'', cj_schedule r), (''enable'', bit01 (cj_enable r))]
     @ opt_str ''source-node'' (cj_source_node r)
     @ opt_nat ''target-vmid'' (cj_target_vmid r)
     @ opt_nat ''rate'' (cj_rate r)
     @ opt_str ''comment'' (cj_comment r)"

definition update_replication_params :: "update_replication_job_req \<Rightarrow> params" where
  "update_replication_params r =
     opt_bit ''enable'' (uj_enable r)
     @ opt_nat ''rate'' (uj_rate r)
     @ opt_str ''schedule'' (uj_schedule r)
     @ opt_str ''comment'' (uj_comment r)"

section \<open>Reading parameters back\<close>

lemma map_of_opt_with [simp]: "map_of (opt_with k f x @ ps) k'
    = (if k' = k \<and> x \<noteq> None then map_option f x else map_of ps k')"
  by (auto simp: opt_with_def split: option.split)

lemma keys_opt_with: "map fst (opt_with k f x) = (if x = None then [] else [k])"
  by (auto simp: opt_with_def split: option.split)

lemmas param_defs = opt_str_def opt_nat_def opt_bit_def

lemma bit01_inj [simp]: "bit01 a = bit01 b \<longleftrightarrow> a = b"
  by (simp add: bit01_def)

text \<open>A parameter list without repeated keys: what \<open>?key=value\<close> pairs a server reads is unambiguous.\<close>

lemma distinct_keys_opt:
  "distinct (map fst (opt_with k f x @ ps)) \<longleftrightarrow> distinct (map fst ps) \<and> (x = None \<or> k \<notin> fst ` set ps)"
  by (auto simp: opt_with_def split: option.split)

lemma fst_opt_with: "fst ` set (opt_with k f x) = (if x = None then {} else {k})"
  by (auto simp: opt_with_def split: option.split)

lemma map_of_opt_end [simp]: "map_of (opt_with k f x) k' = (if k' = k then map_option f x else None)"
  by (auto simp: opt_with_def split: option.split)

lemma inj_show: "inj show_nat"
  by (simp add: inj_def show_nat_inj)

lemma inj_bit01: "inj bit01"
  by (simp add: inj_def)

lemma map_option_inj: "inj f \<Longrightarrow> map_option f x = map_option f y \<longleftrightarrow> x = y"
  by (cases x; cases y) (auto simp: inj_def)

lemma distinct_opt_step:
  "map_of ps k = None \<Longrightarrow> distinct (map fst ps) \<Longrightarrow> distinct (map fst (opt_with k f x @ ps))"
  unfolding distinct_keys_opt by (simp add: map_of_eq_None_iff)

lemma length_opt_with: "length (opt_with k f x) = of_bool (x \<noteq> None)"
  by (simp add: opt_with_def split: option.split)

text \<open>Every field of the record is read back from the parameters.\<close>

lemma update_params_read:
  "map_of (update_vm_config_params r) ''name'' = uv_name r"
  "map_of (update_vm_config_params r) ''description'' = uv_description r"
  "map_of (update_vm_config_params r) ''cores'' = map_option show_nat (uv_cores r)"
  "map_of (update_vm_config_params r) ''sockets'' = map_option show_nat (uv_sockets r)"
  "map_of (update_vm_config_params r) ''memory'' = map_option show_nat (uv_memory r)"
  "map_of (update_vm_config_params r) ''balloon'' = map_option show_nat (uv_balloon r)"
  "map_of (update_vm_config_params r) ''boot'' = uv_boot r"
  "map_of (update_vm_config_params r) ''bios'' = uv_bios r"
  "map_of (update_vm_config_params r) ''machine'' = uv_machine r"
  "map_of (update_vm_config_params r) ''scsihw'' = uv_scsihw r"
  "map_of (update_vm_config_params r) ''cpu'' = uv_cpu r"
  "map_of (update_vm_config_params r) ''tags'' = uv_tags r"
  "map_of (update_vm_config_params r) ''template'' = map_option show_nat (uv_template r)"
  "map_of (update_vm_config_params r) ''onboot'' = map_option show_nat (uv_onboot r)"
  "map_of (update_vm_config_params r) ''agent'' = map_option show_nat (uv_agent r)"
  "map_of (update_vm_config_params r) ''delete'' = uv_delete r"
  "map_of (update_vm_config_params r) ''ciuser'' = uv_ciuser r"
  "map_of (update_vm_config_params r) ''sshkeys'' = uv_sshkeys r"
  "map_of (update_vm_config_params r) ''ipconfig'' = uv_ipconfig r"
  "map_of (update_vm_config_params r) ''nameserver'' = uv_nameserver r"
  "map_of (update_vm_config_params r) ''searchdomain'' = uv_searchdomain r"
  "map_of (update_vm_config_params r) ''net0'' = uv_net r"
  by (simp_all add: update_vm_config_params_def param_defs option.map_ident del: map_of_append)

lemma update_params_inj: "update_vm_config_params r = update_vm_config_params r' \<Longrightarrow> r = r'"
proof -
  assume eq: "update_vm_config_params r = update_vm_config_params r'"
  note read = update_params_read[of r, unfolded eq update_params_read[of r'], unfolded map_option_inj[OF inj_show]]
  show "r = r'" by (rule update_vm_config_request.equality) (simp_all add: read)
qed

section \<open>Properties\<close>

text \<open>Update parameters are faithful: two update requests produce the same parameter list only if they
  agree in every field, no key occurs twice, and a field that is absent sends no parameter.\<close>

theorem update_params_faithful:
  "inj update_vm_config_params \<and> distinct (map fst (update_vm_config_params r))
   \<and> length (update_vm_config_params r) =
       sum_list (map of_bool [uv_name r \<noteq> None, uv_description r \<noteq> None, uv_cores r \<noteq> None, uv_sockets r \<noteq> None,
         uv_memory r \<noteq> None, uv_balloon r \<noteq> None, uv_boot r \<noteq> None, uv_bios r \<noteq> None, uv_machine r \<noteq> None,
         uv_scsihw r \<noteq> None, uv_cpu r \<noteq> None, uv_tags r \<noteq> None, uv_template r \<noteq> None, uv_onboot r \<noteq> None,
         uv_agent r \<noteq> None, uv_delete r \<noteq> None, uv_ciuser r \<noteq> None, uv_sshkeys r \<noteq> None,
         uv_ipconfig r \<noteq> None, uv_nameserver r \<noteq> None, uv_searchdomain r \<noteq> None, uv_net r \<noteq> None])"
proof (intro conjI)
  show "inj update_vm_config_params" by (simp add: inj_def update_params_inj)
  show "distinct (map fst (update_vm_config_params r))"
    unfolding update_vm_config_params_def param_defs
    by (intro distinct_opt_step) (simp_all add: keys_opt_with del: map_of_append)
  show "length (update_vm_config_params r) = sum_list (map of_bool [uv_name r \<noteq> None, uv_description r \<noteq> None,
      uv_cores r \<noteq> None, uv_sockets r \<noteq> None, uv_memory r \<noteq> None, uv_balloon r \<noteq> None, uv_boot r \<noteq> None,
      uv_bios r \<noteq> None, uv_machine r \<noteq> None, uv_scsihw r \<noteq> None, uv_cpu r \<noteq> None, uv_tags r \<noteq> None,
      uv_template r \<noteq> None, uv_onboot r \<noteq> None, uv_agent r \<noteq> None, uv_delete r \<noteq> None, uv_ciuser r \<noteq> None,
      uv_sshkeys r \<noteq> None, uv_ipconfig r \<noteq> None, uv_nameserver r \<noteq> None, uv_searchdomain r \<noteq> None, uv_net r \<noteq> None])"
    by (simp add: update_vm_config_params_def param_defs length_opt_with)
qed

end
