(* ===== verification/Proxmox_Api.thy ===== *)
theory Proxmox_Api
  imports Proxmox_Client Proxmox_Types
begin

text \<open>
  One definition per call of the Proxmox client (\<open>src/proxmox/client.rs\<close>): its path, its
  parameters, its helper and its deadline. Decoders of structured results are arguments \<open>dec\<close>.
\<close>

definition px_delete_vm :: "'w px_env \<Rightarrow> string \<Rightarrow> nat \<Rightarrow> bool \<Rightarrow> bool \<Rightarrow> bool \<Rightarrow> ('w, string) px" where
  "px_delete_vm env node vmid purge force skiplock =
     post_with_query env (pe_string env) (''nodes/'' @ node @ ''/qemu/'' @ show_nat vmid) [(''purge'', bit01 purge), (''force'', bit01 force), (''skiplock'', bit01 skiplock)]"

definition px_vm_config :: "'w px_env \<Rightarrow> (string \<Rightarrow> (string, 'a) result) \<Rightarrow> string \<Rightarrow> nat \<Rightarrow> ('w, 'a) px" where
  "px_vm_config env dec node vmid =
     px_get env dec (''nodes/'' @ node @ ''/qemu/'' @ show_nat vmid @ ''/config'')"

definition px_task_status :: "'w px_env \<Rightarrow> (string \<Rightarrow> (string, 'a) result) \<Rightarrow> string \<Rightarrow> string \<Rightarrow> ('w, 'a) px" where
  "px_task_status env dec node upid =
     px_get env dec (''nodes/'' @ node @ ''/tasks/'' @ upid @ ''/status'')"

definition px_vnc_proxy :: "'w px_env \<Rightarrow> (string \<Rightarrow> (string, 'a) result) \<Rightarrow> string \<Rightarrow> nat \<Rightarrow> ('w, 'a) px" where
  "px_vnc_proxy env dec node vmid =
     post_no_default env dec (''nodes/'' @ node @ ''/qemu/'' @ show_nat vmid @ ''/vncproxy'') []"

definition px_list_vms :: "'w px_env \<Rightarrow> (string \<Rightarrow> (string, vm_resource list) result) \<Rightarrow> ('w, vm_resource list) px" where
  "px_list_vms env dec =
     px_get_within env ''list_vms'' list_vms_timeout_secs dec (''cluster/resources?type=vm'')"

definition px_lxc_detail :: "'w px_env \<Rightarrow> (string \<Rightarrow> (string, 'a) result) \<Rightarrow> string \<Rightarrow> nat \<Rightarrow> ('w, 'a) px" where
  "px_lxc_detail env dec node vmid =
     px_get_within env ''lxc_detail'' list_vms_timeout_secs dec (''nodes/'' @ node @ ''/lxc/'' @ show_nat vmid @ ''/status/current'')"

definition px_list_storages :: "'w px_env \<Rightarrow> (string \<Rightarrow> (string, 'a) result) \<Rightarrow> string \<Rightarrow> ('w, 'a) px" where
  "px_list_storages env dec node =
     px_get_within env ''list_storages'' list_vms_timeout_secs dec (''nodes/'' @ node @ ''/storage'')"

definition px_storage_content :: "'w px_env \<Rightarrow> (string \<Rightarrow> (string, 'a) result) \<Rightarrow> string \<Rightarrow> string \<Rightarrow> ('w, 'a) px" where
  "px_storage_content env dec node storage =
     px_get_within env ''storage_content'' list_vms_timeout_secs dec (''nodes/'' @ node @ ''/storage/'' @ storage @ ''/content'')"

definition px_list_networks :: "'w px_env \<Rightarrow> (string \<Rightarrow> (string, 'a) result) \<Rightarrow> string \<Rightarrow> ('w, 'a) px" where
  "px_list_networks env dec node =
     px_get_within env ''list_networks'' list_vms_timeout_secs dec (''nodes/'' @ node @ ''/network'')"

definition px_migrate_vm :: "'w px_env \<Rightarrow> string \<Rightarrow> nat \<Rightarrow> string \<Rightarrow> bool \<Rightarrow> ('w, string) px" where
  "px_migrate_vm env node vmid target online =
     post_with_query env (pe_string env) (''nodes/'' @ node @ ''/qemu/'' @ show_nat vmid @ ''/migrate'') [(''target'', target), (''online'', bit01 online)]"

definition px_list_ha_groups :: "'w px_env \<Rightarrow> (string \<Rightarrow> (string, 'a) result) \<Rightarrow> ('w, 'a) px" where
  "px_list_ha_groups env dec =
     px_get env dec (''cluster/ha/groups'')"

definition px_create_ha_group :: "'w px_env \<Rightarrow> string \<Rightarrow> string option \<Rightarrow> string option \<Rightarrow> bool \<Rightarrow> bool \<Rightarrow> ('w, string) px" where
  "px_create_ha_group env grp nodes comment nofailback restricted =
     post_with_query env (pe_string env) (''cluster/ha/groups/'' @ grp) ([(''nofailback'', bit01 nofailback), (''restricted'', bit01 restricted)] @ opt_str ''nodes'' nodes @ opt_str ''comment'' comment)"

definition px_update_ha_group :: "'w px_env \<Rightarrow> string \<Rightarrow> string option \<Rightarrow> string option \<Rightarrow> bool \<Rightarrow> bool \<Rightarrow> ('w, string) px" where
  "px_update_ha_group env grp nodes comment nofailback restricted =
     post_with_query env (pe_string env) (''cluster/ha/groups/'' @ grp) ([(''nofailback'', bit01 nofailback), (''restricted'', bit01 restricted)] @ opt_str ''nodes'' nodes @ opt_str ''comment'' comment)"

definition px_delete_ha_group :: "'w px_env \<Rightarrow> string \<Rightarrow> ('w, string) px" where
  "px_delete_ha_group env grp =
     post_with_query env (pe_string env) (''cluster/ha/groups/'' @ grp) [(''force'', ''1'')]"

definition px_list_replication_jobs :: "'w px_env \<Rightarrow> (string \<Rightarrow> (string, 'a) result) \<Rightarrow> ('w, 'a) px" where
  "px_list_replication_jobs env dec =
     px_get env dec (''cluster/replication'')"

definition px_create_replication_job :: "'w px_env \<Rightarrow> create_replication_job_req \<Rightarrow> ('w, string) px" where
  "px_create_replication_job env job =
     post_with_query env (pe_string env) (''cluster/replication'') (create_replication_params job)"

definition px_update_replication_job :: "'w px_env \<Rightarrow> nat \<Rightarrow> update_replication_job_req \<Rightarrow> ('w, string) px" where
  "px_update_replication_job env jid job =
     post_with_query env (pe_string env) (''cluster/replication/'' @ show_nat jid) (update_replication_params job)"

definition px_delete_replication_job :: "'w px_env \<Rightarrow> nat \<Rightarrow> ('w, string) px" where
  "px_delete_replication_job env jid =
     post_with_query env (pe_string env) (''cluster/replication/'' @ show_nat jid) []"

definition px_get_replication_status :: "'w px_env \<Rightarrow> (string \<Rightarrow> (string, 'a) result) \<Rightarrow> nat \<Rightarrow> ('w, 'a) px" where
  "px_get_replication_status env dec jid =
     px_get env dec (''cluster/replication/'' @ show_nat jid @ ''/log'')"

definition px_create_vm :: "'w px_env \<Rightarrow> string \<Rightarrow> params \<Rightarrow> ('w, string) px" where
  "px_create_vm env node params =
     post_with_query env (pe_string env) (''nodes/'' @ node @ ''/qemu'') params"

definition px_clone_vm :: "'w px_env \<Rightarrow> string \<Rightarrow> nat \<Rightarrow> params \<Rightarrow> ('w, string) px" where
  "px_clone_vm env node vmid params =
     post_with_query env (pe_string env) (''nodes/'' @ node @ ''/qemu/'' @ show_nat vmid @ ''/clone'') params"

definition px_update_vm_config :: "'w px_env \<Rightarrow> string \<Rightarrow> nat \<Rightarrow> params \<Rightarrow> ('w, string) px" where
  "px_update_vm_config env node vmid params =
     post_with_query env (pe_string env) (''nodes/'' @ node @ ''/qemu/'' @ show_nat vmid @ ''/config'') params"

definition px_list_snapshots :: "'w px_env \<Rightarrow> (string \<Rightarrow> (string, 'a) result) \<Rightarrow> string \<Rightarrow> nat \<Rightarrow> ('w, 'a) px" where
  "px_list_snapshots env dec node vmid =
     px_get env dec (''nodes/'' @ node @ ''/qemu/'' @ show_nat vmid @ ''/snapshot'')"

definition px_create_snapshot :: "'w px_env \<Rightarrow> string \<Rightarrow> nat \<Rightarrow> params \<Rightarrow> ('w, string) px" where
  "px_create_snapshot env node vmid params =
     post_with_query env (pe_string env) (''nodes/'' @ node @ ''/qemu/'' @ show_nat vmid @ ''/snapshot'') params"

definition px_delete_snapshot :: "'w px_env \<Rightarrow> string \<Rightarrow> nat \<Rightarrow> string \<Rightarrow> bool \<Rightarrow> ('w, string) px" where
  "px_delete_snapshot env node vmid snapname force =
     post_with_query env (pe_string env) (''nodes/'' @ node @ ''/qemu/'' @ show_nat vmid @ ''/snapshot/'' @ snapname) [(''force'', bit01 force)]"

definition px_rollback_snapshot :: "'w px_env \<Rightarrow> string \<Rightarrow> nat \<Rightarrow> string \<Rightarrow> ('w, string) px" where
  "px_rollback_snapshot env node vmid snapname =
     post_with_query env (pe_string env) (''nodes/'' @ node @ ''/qemu/'' @ show_nat vmid @ ''/snapshot/'' @ snapname @ ''/rollback'') []"

definition px_backup_vm :: "'w px_env \<Rightarrow> string \<Rightarrow> nat \<Rightarrow> params \<Rightarrow> ('w, string) px" where
  "px_backup_vm env node vmid params =
     post_with_query env (pe_string env) (''nodes/'' @ node @ ''/qemu/'' @ show_nat vmid @ ''/backup'') params"

definition px_lxc_action :: "'w px_env \<Rightarrow> string \<Rightarrow> nat \<Rightarrow> string \<Rightarrow> params \<Rightarrow> ('w, string) px" where
  "px_lxc_action env node vmid action params =
     post_with_query env (pe_string env) (''nodes/'' @ node @ ''/lxc/'' @ show_nat vmid @ ''/status/'' @ action) params"

definition px_lxc_delete :: "'w px_env \<Rightarrow> string \<Rightarrow> nat \<Rightarrow> bool \<Rightarrow> bool \<Rightarrow> bool \<Rightarrow> ('w, string) px" where
  "px_lxc_delete env node vmid purge force skiplock =
     post_with_query env (pe_string env) (''nodes/'' @ node @ ''/lxc/'' @ show_nat vmid) [(''purge'', bit01 purge), (''force'', bit01 force), (''skiplock'', bit01 skiplock)]"

definition px_delete_storage_content :: "'w px_env \<Rightarrow> string \<Rightarrow> string \<Rightarrow> string \<Rightarrow> ('w, string) px" where
  "px_delete_storage_content env node storage volid =
     post_with_query env (pe_string env) (''nodes/'' @ node @ ''/storage/'' @ storage @ ''/content/'' @ volid) []"

definition px_resize_disk :: "'w px_env \<Rightarrow> string \<Rightarrow> nat \<Rightarrow> string \<Rightarrow> string \<Rightarrow> ('w, string) px" where
  "px_resize_disk env node vmid disk sz =
     post_with_query env (pe_string env) (''nodes/'' @ node @ ''/qemu/'' @ show_nat vmid @ ''/resize'') [(''disk'', disk), (''size'', sz)]"

definition px_reset_vm :: "'w px_env \<Rightarrow> string \<Rightarrow> nat \<Rightarrow> ('w, string) px" where
  "px_reset_vm env node vmid =
     px_post env (pe_string env) (''nodes/'' @ node @ ''/qemu/'' @ show_nat vmid @ ''/status/reset'')"

definition px_suspend_vm :: "'w px_env \<Rightarrow> string \<Rightarrow> nat \<Rightarrow> ('w, string) px" where
  "px_suspend_vm env node vmid =
     px_post env (pe_string env) (''nodes/'' @ node @ ''/qemu/'' @ show_nat vmid @ ''/status/suspend'')"

definition px_resume_vm :: "'w px_env \<Rightarrow> string \<Rightarrow> nat \<Rightarrow> ('w, string) px" where
  "px_resume_vm env node vmid =
     px_post env (pe_string env) (''nodes/'' @ node @ ''/qemu/'' @ show_nat vmid @ ''/status/resume'')"

definition px_template_convert :: "'w px_env \<Rightarrow> string \<Rightarrow> nat \<Rightarrow> ('w, string) px" where
  "px_template_convert env node vmid =
     px_post env (pe_string env) (''nodes/'' @ node @ ''/qemu/'' @ show_nat vmid @ ''/template'')"

definition px_sendkey :: "'w px_env \<Rightarrow> string \<Rightarrow> nat \<Rightarrow> string \<Rightarrow> ('w, string) px" where
  "px_sendkey env node vmid key =
     post_no_default env (pe_string env) (''nodes/'' @ node @ ''/qemu/'' @ show_nat vmid @ ''/sendkey'') [(''key'', key)]"

definition px_vm_rrddata :: "'w px_env \<Rightarrow> (string \<Rightarrow> (string, 'a) result) \<Rightarrow> string \<Rightarrow> nat \<Rightarrow> string \<Rightarrow> ('w, 'a) px" where
  "px_vm_rrddata env dec node vmid timeframe =
     px_get env dec (''nodes/'' @ node @ ''/qemu/'' @ show_nat vmid @ ''/rrddata?timeframe='' @ timeframe)"

definition px_task_log :: "'w px_env \<Rightarrow> (string \<Rightarrow> (string, 'a) result) \<Rightarrow> string \<Rightarrow> string \<Rightarrow> ('w, 'a) px" where
  "px_task_log env dec node upid =
     px_get env dec (''nodes/'' @ node @ ''/tasks/'' @ upid @ ''/log'')"

definition px_delete_task :: "'w px_env \<Rightarrow> string \<Rightarrow> string \<Rightarrow> ('w, string) px" where
  "px_delete_task env node upid =
     delete_json env (pe_string env) (''nodes/'' @ node @ ''/tasks/'' @ upid)"

definition px_lxc_create :: "'w px_env \<Rightarrow> string \<Rightarrow> create_lxc_request \<Rightarrow> ('w, string) px" where
  "px_lxc_create env node req =
     post_with_query env (pe_string env) (''nodes/'' @ node @ ''/lxc'') (lxc_create_params req)"

definition px_lxc_update_config :: "'w px_env \<Rightarrow> string \<Rightarrow> nat \<Rightarrow> lxc_config \<Rightarrow> ('w, string) px" where
  "px_lxc_update_config env node vmid config =
     put_with_query env (pe_string env) (''nodes/'' @ node @ ''/lxc/'' @ show_nat vmid @ ''/config'') (lxc_config_params config)"

definition px_network_config_update :: "'w px_env \<Rightarrow> string \<Rightarrow> string \<Rightarrow> ('w, string) px" where
  "px_network_config_update env node config =
     put_json env (pe_string env) (''nodes/'' @ node @ ''/network'') config"

definition px_network_config_apply :: "'w px_env \<Rightarrow> string \<Rightarrow> ('w, string) px" where
  "px_network_config_apply env node =
     px_post env (pe_string env) (''nodes/'' @ node @ ''/network'')"

definition px_cluster_status :: "'w px_env \<Rightarrow> (string \<Rightarrow> (string, 'a) result) \<Rightarrow> ('w, 'a) px" where
  "px_cluster_status env dec =
     px_get env dec (''cluster/status'')"

definition px_cluster_config_info :: "'w px_env \<Rightarrow> (string \<Rightarrow> (string, 'a) result) \<Rightarrow> ('w, 'a) px" where
  "px_cluster_config_info env dec =
     px_get env dec (''cluster/config'')"

definition px_cluster_options :: "'w px_env \<Rightarrow> (string \<Rightarrow> (string, 'a) result) \<Rightarrow> ('w, 'a) px" where
  "px_cluster_options env dec =
     px_get env dec (''cluster/options'')"

definition px_cluster_log :: "'w px_env \<Rightarrow> (string \<Rightarrow> (string, 'a) result) \<Rightarrow> ('w, 'a) px" where
  "px_cluster_log env dec =
     px_get env dec (''cluster/log'')"

definition px_cluster_tasks :: "'w px_env \<Rightarrow> (string \<Rightarrow> (string, 'a) result) \<Rightarrow> ('w, 'a) px" where
  "px_cluster_tasks env dec =
     px_get env dec (''cluster/tasks'')"

section \<open>Calls with logic of their own\<close>

text \<open>Containers are the entries of kind \<open>lxc\<close> of the list of guests.\<close>

definition px_list_lxcs :: "'w px_env \<Rightarrow> (string \<Rightarrow> (string, vm_resource list) result) \<Rightarrow> ('w, vm_resource list) px" where
  "px_list_lxcs env dec cw =
     (case px_get_within env ''list_lxcs'' list_vms_timeout_secs dec ''cluster/resources?type=vm'' cw of
        (Inl e, cw') \<Rightarrow> (Err e, cw')
      | (Inr all, cw') \<Rightarrow> (Ok (filter (\<lambda>r. vr_kind r = ''lxc'') all), cw'))"

definition px_ping :: "'w px_env \<Rightarrow> (string \<Rightarrow> (string, 'a) result) \<Rightarrow> ('w, unit) px" where
  "px_ping env dec cw =
     (case px_get_within env ''ping'' ping_timeout_secs dec ''version'' cw of
        (Inl e, cw') \<Rightarrow> (Err e, cw') | (Inr _, cw') \<Rightarrow> (Ok (), cw'))"

definition backup_of :: "storage_content_entry \<Rightarrow> backup_entry" where
  "backup_of c = \<lparr> be_volid = sc_volid c, be_storage = sc_storage c, be_filename = sc_volid_name c,
                   be_size = sc_size c, be_format = sc_format c, be_ctime = sc_ctime c, be_notes = None \<rparr>"

definition is_backup_of :: "nat \<Rightarrow> storage_content_entry \<Rightarrow> bool" where
  "is_backup_of vmid c = (sc_content c = ''backup'' \<and> contains_str (show_nat vmid) (sc_volid c))"

text \<open>A storage whose contents cannot be listed is skipped.\<close>

fun scan_backups :: "'w px_env \<Rightarrow> (string \<Rightarrow> (string, storage_content_entry list) result) \<Rightarrow> string \<Rightarrow> nat
    \<Rightarrow> storage_resource list \<Rightarrow> backup_entry list \<Rightarrow> px_client \<times> 'w \<Rightarrow> backup_entry list \<times> px_client \<times> 'w" where
  "scan_backups env dec node vmid [] acc cw = (acc, cw)"
| "scan_backups env dec node vmid (st # sts) acc cw =
     (case px_storage_content env dec node (sr_storage st) cw of
        (Inl e, cw') \<Rightarrow> scan_backups env dec node vmid sts acc cw'
      | (Inr cs, cw') \<Rightarrow>
          scan_backups env dec node vmid sts (acc @ map backup_of (filter (is_backup_of vmid) cs)) cw')"

definition px_list_backups :: "'w px_env \<Rightarrow> (string \<Rightarrow> (string, storage_resource list) result)
    \<Rightarrow> (string \<Rightarrow> (string, storage_content_entry list) result) \<Rightarrow> string \<Rightarrow> nat \<Rightarrow> ('w, backup_entry list) px" where
  "px_list_backups env dec_storages dec_content node vmid cw =
     (case px_list_storages env dec_storages node cw of
        (Inl e, cw') \<Rightarrow> (Err e, cw')
      | (Inr sts, cw') \<Rightarrow> (let (bs, cw'') = scan_backups env dec_content node vmid sts [] cw' in (Ok bs, cw'')))"

text \<open>The upload does not use a helper: its body is a multipart form.\<close>

definition px_upload_file :: "'w px_env \<Rightarrow> (string \<Rightarrow> (string, 'a) result) \<Rightarrow> string \<Rightarrow> string \<Rightarrow> string
    \<Rightarrow> string \<Rightarrow> string \<Rightarrow> ('w, 'a) px" where
  "px_upload_file env dec node storage content filename data cw =
     (let path = ''nodes/'' @ node @ ''/storage/'' @ storage @ ''/upload'' in
      finish client_timeout
        (px_request env dec POST True (timeout_error (''upload_file '' @ path) post_timeout_secs) path []
           (Multipart filename content data) cw))"

section \<open>Every call meets the contract\<close>

lemmas px_call_defs =
  px_delete_vm_def px_vm_config_def px_task_status_def px_vnc_proxy_def
  px_list_vms_def px_lxc_detail_def px_list_storages_def px_storage_content_def
  px_list_networks_def px_migrate_vm_def px_list_ha_groups_def px_create_ha_group_def
  px_update_ha_group_def px_delete_ha_group_def px_list_replication_jobs_def px_create_replication_job_def
  px_update_replication_job_def px_delete_replication_job_def px_get_replication_status_def px_create_vm_def
  px_clone_vm_def px_update_vm_config_def px_list_snapshots_def px_create_snapshot_def
  px_delete_snapshot_def px_rollback_snapshot_def px_backup_vm_def px_lxc_action_def
  px_lxc_delete_def px_delete_storage_content_def px_resize_disk_def px_reset_vm_def
  px_suspend_vm_def px_resume_vm_def px_template_convert_def px_sendkey_def
  px_vm_rrddata_def px_task_log_def px_delete_task_def px_lxc_create_def
  px_lxc_update_config_def px_network_config_update_def px_network_config_apply_def px_cluster_status_def
  px_cluster_config_info_def px_cluster_options_def px_cluster_log_def px_cluster_tasks_def

lemma px_calls [client_calls]:
  "client_call (\<lambda>env. px_delete_vm env node vmid purge force skiplock)"
  "client_call (\<lambda>env. px_vm_config env dec node vmid)"
  "client_call (\<lambda>env. px_task_status env dec node upid)"
  "client_call (\<lambda>env. px_vnc_proxy env dec node vmid)"
  "client_call (\<lambda>env. px_list_vms env dec_vms)"
  "client_call (\<lambda>env. px_lxc_detail env dec node vmid)"
  "client_call (\<lambda>env. px_list_storages env dec node)"
  "client_call (\<lambda>env. px_storage_content env dec node storage)"
  "client_call (\<lambda>env. px_list_networks env dec node)"
  "client_call (\<lambda>env. px_migrate_vm env node vmid target online)"
  "client_call (\<lambda>env. px_list_ha_groups env dec)"
  "client_call (\<lambda>env. px_create_ha_group env grp nodes comment nofailback restricted)"
  "client_call (\<lambda>env. px_update_ha_group env grp nodes comment nofailback restricted)"
  "client_call (\<lambda>env. px_delete_ha_group env grp)"
  "client_call (\<lambda>env. px_list_replication_jobs env dec)"
  "client_call (\<lambda>env. px_create_replication_job env job)"
  "client_call (\<lambda>env. px_update_replication_job env jid upd)"
  "client_call (\<lambda>env. px_delete_replication_job env jid)"
  "client_call (\<lambda>env. px_get_replication_status env dec jid)"
  "client_call (\<lambda>env. px_create_vm env node params)"
  "client_call (\<lambda>env. px_clone_vm env node vmid params)"
  "client_call (\<lambda>env. px_update_vm_config env node vmid params)"
  "client_call (\<lambda>env. px_list_snapshots env dec node vmid)"
  "client_call (\<lambda>env. px_create_snapshot env node vmid params)"
  "client_call (\<lambda>env. px_delete_snapshot env node vmid snapname force)"
  "client_call (\<lambda>env. px_rollback_snapshot env node vmid snapname)"
  "client_call (\<lambda>env. px_backup_vm env node vmid params)"
  "client_call (\<lambda>env. px_lxc_action env node vmid action params)"
  "client_call (\<lambda>env. px_lxc_delete env node vmid purge force skiplock)"
  "client_call (\<lambda>env. px_delete_storage_content env node storage volid)"
  "client_call (\<lambda>env. px_resize_disk env node vmid disk sz)"
  "client_call (\<lambda>env. px_reset_vm env node vmid)"
  "client_call (\<lambda>env. px_suspend_vm env node vmid)"
  "client_call (\<lambda>env. px_resume_vm env node vmid)"
  "client_call (\<lambda>env. px_template_convert env node vmid)"
  "client_call (\<lambda>env. px_sendkey env node vmid key)"
  "client_call (\<lambda>env. px_vm_rrddata env dec node vmid timeframe)"
  "client_call (\<lambda>env. px_task_log env dec node upid)"
  "client_call (\<lambda>env. px_delete_task env node upid)"
  "client_call (\<lambda>env. px_lxc_create env node req)"
  "client_call (\<lambda>env. px_lxc_update_config env node vmid config)"
  "client_call (\<lambda>env. px_network_config_update env node body)"
  "client_call (\<lambda>env. px_network_config_apply env node)"
  "client_call (\<lambda>env. px_cluster_status env dec)"
  "client_call (\<lambda>env. px_cluster_config_info env dec)"
  "client_call (\<lambda>env. px_cluster_options env dec)"
  "client_call (\<lambda>env. px_cluster_log env dec)"
  "client_call (\<lambda>env. px_cluster_tasks env dec)"
  by (simp_all add: px_call_defs helper_calls helper_calls_string)

lemma px_list_lxcs_call [client_calls]: "client_call (\<lambda>env. px_list_lxcs env dec)"
proof
  show "px_list_lxcs env dec (c, w) = (r, c', w') \<Longrightarrow> pc_config c' = pc_config c"
    for env :: "'w px_env" and c w r c' w'
    by (auto simp: px_list_lxcs_def split: prod.splits sum.splits dest: client_call.keeps_config[OF helper_calls(2)])
  show "same_to (px_host c) env env' \<Longrightarrow> px_list_lxcs env dec (c, w) = px_list_lxcs env' dec (c, w)"
    for env env' :: "'w px_env" and c w
    using client_call.confined[OF helper_calls(2)[of "''list_lxcs''" list_vms_timeout_secs dec "''cluster/resources?type=vm''"], of c env env' w]
    by (simp add: px_list_lxcs_def)
qed

lemma px_ping_call [client_calls]: "client_call (\<lambda>env. px_ping env dec)"
proof
  show "px_ping env dec (c, w) = (r, c', w') \<Longrightarrow> pc_config c' = pc_config c"
    for env :: "'w px_env" and c w r c' w'
    by (auto simp: px_ping_def split: prod.splits sum.splits dest: client_call.keeps_config[OF helper_calls(2)])
  show "same_to (px_host c) env env' \<Longrightarrow> px_ping env dec (c, w) = px_ping env' dec (c, w)"
    for env env' :: "'w px_env" and c w
    using client_call.confined[OF helper_calls(2)[of "''ping''" ping_timeout_secs dec "''version''"], of c env env' w]
    by (simp add: px_ping_def)
qed

lemma storage_content_call: "client_call (\<lambda>env. px_storage_content env dec node storage)"
  by (rule client_calls)

lemma list_storages_call: "client_call (\<lambda>env. px_list_storages env dec node)"
  by (rule client_calls)

lemma scan_backups_config:
  "scan_backups env dec node vmid sts acc (c, w) = (bs, c', w') \<Longrightarrow> pc_config c' = pc_config c"
proof (induction sts arbitrary: acc c w)
  case (Cons st sts)
  obtain r c1 w1 where call: "px_storage_content env dec node (sr_storage st) (c, w) = (r, c1, w1)"
    by (metis prod_cases3)
  from client_call.keeps_config[OF storage_content_call call] Cons call show ?case by (auto split: sum.splits)
qed simp

lemma scan_backups_confined:
  "same_to (px_host c) env env' \<Longrightarrow>
     scan_backups env dec node vmid sts acc (c, w) = scan_backups env' dec node vmid sts acc (c, w)"
proof (induction sts arbitrary: acc c w)
  case (Cons st sts)
  obtain r c1 w1 where call: "px_storage_content env' dec node (sr_storage st) (c, w) = (r, c1, w1)"
    by (metis prod_cases3)
  have "px_storage_content env dec node (sr_storage st) (c, w) = (r, c1, w1)"
    using client_call.confined[OF storage_content_call Cons.prems, of dec node "sr_storage st" w] call by simp
  moreover have "same_to (px_host c1) env env'"
    using Cons.prems client_call.keeps_host[OF storage_content_call call] by simp
  ultimately show ?case using call Cons.IH by (auto split: sum.split)
qed simp

lemma px_list_backups_call [client_calls]: "client_call (\<lambda>env. px_list_backups env ds dc node vmid)"
proof
  fix env env' :: "'w px_env" and c w r c' w'
  obtain r1 c1 w1 where call: "px_list_storages env ds node (c, w) = (r1, c1, w1)" by (metis prod_cases3)
  show "px_list_backups env ds dc node vmid (c, w) = (r, c', w') \<Longrightarrow> pc_config c' = pc_config c"
    using client_call.keeps_config[OF list_storages_call call] call
    by (auto simp: px_list_backups_def split: sum.splits prod.splits dest: scan_backups_config)
  assume s: "same_to (px_host c) env env'"
  have "px_list_storages env' ds node (c, w) = (r1, c1, w1)"
    using client_call.confined[OF list_storages_call s, of ds node w] call by simp
  moreover have "same_to (px_host c1) env env'"
    using s client_call.keeps_host[OF list_storages_call call] by simp
  ultimately show "px_list_backups env ds dc node vmid (c, w) = px_list_backups env' ds dc node vmid (c, w)"
    using call by (auto simp: px_list_backups_def scan_backups_confined split: sum.split)
qed

section \<open>Property\<close>

lemma contains_str_append: "contains_str s (a @ s @ b)"
  by (auto simp: contains_str_iff)

text \<open>Backups of other machines: every backup entry whose volume name contains the digits of a machine
  id, say the backup of the machine with one more digit, is listed as a backup of that machine.\<close>

theorem backups_overmatch:
  "\<forall>d c. sc_content c = ''backup'' \<and> 0 < vmid \<and> d < 10
     \<and> sc_volid c = ''local:backup/vzdump-qemu-'' @ show_nat (10 * vmid + d) @ rest \<longrightarrow> is_backup_of vmid c"
proof (intro allI impI)
  fix d :: nat and c :: storage_content_entry
  assume a: "sc_content c = ''backup'' \<and> 0 < vmid \<and> d < 10
     \<and> sc_volid c = ''local:backup/vzdump-qemu-'' @ show_nat (10 * vmid + d) @ rest"
  then have "show_nat (10 * vmid + d) = show_nat vmid @ [digit_char d]"
    by (subst show_nat.simps) simp
  then have "sc_volid c = ''local:backup/vzdump-qemu-'' @ show_nat vmid @ (digit_char d # rest)" using a by simp
  then show "is_backup_of vmid c" using a contains_str_append unfolding is_backup_of_def by metis
qed

theorem backups_overmatch_witness:
  "is_backup_of 10 \<lparr> sc_volid = ''local:backup/vzdump-qemu-'' @ show_nat 100 @ ''.vma'', sc_storage = ''local'',
     sc_content = ''backup'', sc_volid_name = None, sc_size = 5, sc_used = None, sc_format = None, sc_ctime = None \<rparr>"
  by (rule backups_overmatch[of 10 "''.vma''", rule_format, of _ 0]) simp

end
