(* ===== verification/Roles_Users.thy ===== *)
theory Roles_Users
  imports App_Error
begin

text \<open>
  User accounts, the role hierarchy and per-user cluster restrictions (\<open>src/auth/user.rs\<close>).
  bcrypt is third-party: hashing and verification are the parameters \<open>hash\<close> and \<open>vp\<close>
  (\<open>vp password stored_hash\<close>, the error of \<open>verify_password\<close> being \<open>Inl\<close>).
\<close>

section \<open>Roles\<close>

datatype role = Admin | Operator | Viewer

fun rank :: "role \<Rightarrow> nat" where
  "rank Admin = 0" | "rank Operator = 1" | "rank Viewer = 2"

definition can :: "role \<Rightarrow> role \<Rightarrow> bool" where
  "can r required = (rank r \<le> rank required)"

fun role_as_str :: "role \<Rightarrow> string" where
  "role_as_str Admin = ''admin''"
| "role_as_str Operator = ''operator''"
| "role_as_str Viewer = ''viewer''"

definition role_from_str :: "string \<Rightarrow> (string, role) result" where
  "role_from_str s =
     (let t = to_ascii_lowercase s in
      if t = ''admin'' then Ok Admin
      else if t = ''operator'' then Ok Operator
      else if t = ''viewer'' then Ok Viewer
      else Err (''unknown role '' @ quoted t @ '' (expected admin|operator|viewer)''))"

text \<open>Roles ordered by privilege, so that \<open>Admin\<close> is the greatest.\<close>

instantiation role :: linorder
begin

definition less_eq_role :: "role \<Rightarrow> role \<Rightarrow> bool" where
  "less_eq_role a b = (rank b \<le> rank a)"

definition less_role :: "role \<Rightarrow> role \<Rightarrow> bool" where
  "less_role a b = (rank b < rank a)"

instance
proof
  fix x y z :: role
  show "x < y \<longleftrightarrow> x \<le> y \<and> \<not> y \<le> x" by (auto simp: less_role_def less_eq_role_def)
  show "x \<le> x" by (simp add: less_eq_role_def)
  show "x \<le> y \<Longrightarrow> y \<le> z \<Longrightarrow> x \<le> z" by (simp add: less_eq_role_def)
  show "x \<le> y \<Longrightarrow> y \<le> x \<Longrightarrow> x = y" by (cases x; cases y) (simp_all add: less_eq_role_def)
  show "x \<le> y \<or> y \<le> x" by (auto simp: less_eq_role_def)
qed

end

lemma can_iff_le: "can r required \<longleftrightarrow> required \<le> r"
  by (simp add: can_def less_eq_role_def)

lemma can_simps [simp]: "can Admin r" "can r Viewer" "can Viewer Operator = False"
  "can Viewer Admin = False" "can Operator Admin = False" "can r r"
  by (cases r; simp add: can_def)+

lemma can_Admin_iff: "can r Admin \<longleftrightarrow> r = Admin"
  by (cases r) simp_all

lemma can_trans: "can a b \<Longrightarrow> can b c \<Longrightarrow> can a c"
  by (simp add: can_def)

lemma role_as_str_lower: "to_ascii_lowercase (role_as_str r) = role_as_str r"
  by (cases r; simp add: to_ascii_lowercase_def to_ascii_lower_def byte_of_def)

lemma role_from_str_Ok: "role_from_str s = Ok r \<longleftrightarrow> to_ascii_lowercase s = role_as_str r"
  by (cases r) (auto simp: role_from_str_def Let_def)

section \<open>Accounts\<close>

record user =
  u_id :: string
  u_username :: string
  u_display_name :: string
  u_email :: "string option"
  u_password_hash :: string
  u_role :: role
  u_enabled :: bool
  u_totp_secret :: "string option"
  u_totp_enabled :: bool
  u_backup_codes :: "string list"

record user_config =
  uc_id :: string
  uc_username :: string
  uc_display_name :: string
  uc_email :: "string option"
  uc_role :: string
  uc_password_hash :: "string option"
  uc_password :: "string option"
  uc_enabled :: bool
  uc_allowed_clusters :: "string list"

type_synonym bcrypt_hash = "string \<Rightarrow> nat \<Rightarrow> (string, string) result"
type_synonym bcrypt_verify = "string \<Rightarrow> string \<Rightarrow> (string, bool) result"

definition hash_password :: "bcrypt_hash \<Rightarrow> string \<Rightarrow> (string, string) result" where
  "hash_password bc p = bc p 12"

definition verify_password :: "bcrypt_verify \<Rightarrow> string \<Rightarrow> string \<Rightarrow> (string, bool) result" where
  "verify_password bv p h = bv p h"

definition user_from_config :: "bcrypt_hash \<Rightarrow> user_config \<Rightarrow> (string, user) result" where
  "user_from_config bc cfg =
     (case role_from_str (uc_role cfg) of
        Inl _ \<Rightarrow> Err (''user '' @ quoted (uc_username cfg) @ '' has unknown role '' @ quoted (uc_role cfg))
      | Inr r \<Rightarrow>
          rbind (case uc_password_hash cfg of
                   Some h \<Rightarrow> Ok h
                 | None \<Rightarrow> (case uc_password cfg of
                       Some p \<Rightarrow> map_err (\<lambda>e. ''bcrypt hash failed: '' @ e) (hash_password bc p)
                     | None \<Rightarrow> Err (''user '' @ quoted (uc_username cfg)
                                  @ '' has neither password_hash nor password'')))
            (\<lambda>h. Ok \<lparr> u_id = uc_id cfg, u_username = uc_username cfg,
                     u_display_name = (if uc_display_name cfg = [] then uc_username cfg
                                       else uc_display_name cfg),
                     u_email = uc_email cfg, u_password_hash = h, u_role = r,
                     u_enabled = uc_enabled cfg, u_totp_secret = None, u_totp_enabled = False,
                     u_backup_codes = [] \<rparr>))"

section \<open>The user store\<close>

record user_store =
  us_users :: "(string, user) hmap"
  us_allowed :: "(string, string list) hmap"

definition us_new :: user_store where
  "us_new = \<lparr> us_users = hm_empty, us_allowed = hm_empty \<rparr>"

definition with_users :: "user list \<Rightarrow> user_store" where
  "with_users us = fold (\<lambda>u s. s \<lparr> us_users := hm_put (u_username u) u (us_users s) \<rparr>) us us_new"

definition us_get :: "user_store \<Rightarrow> string \<Rightarrow> user option" where
  "us_get s name = hm_get (us_users s) name"

definition from_configs :: "bcrypt_hash \<Rightarrow> user_config list \<Rightarrow> (string, user_store) result" where
  "from_configs bc cfgs =
     rbind (collect_results (map (user_from_config bc) cfgs))
       (\<lambda>us. Ok \<lparr> us_users = hm_of_pairs (map (\<lambda>u. (u_username u, u)) us),
                 us_allowed = hm_of_pairs (map (\<lambda>c. (uc_username c, uc_allowed_clusters c)) cfgs) \<rparr>)"

definition authenticate :: "bcrypt_verify \<Rightarrow> user_store \<Rightarrow> string \<Rightarrow> string \<Rightarrow> user option" where
  "authenticate bv s name password =
     (case us_get s name of
        None \<Rightarrow> None
      | Some u \<Rightarrow>
          if \<not> u_enabled u then None
          else let ok = (case ok_of (verify_password bv password (u_password_hash u)) of
                           None \<Rightarrow> False | Some b \<Rightarrow> b)
               in if ok then Some u else None)"

definition user_can_access_cluster :: "user_store \<Rightarrow> string \<Rightarrow> string \<Rightarrow> bool" where
  "user_can_access_cluster s name cluster =
     (case hm_get (us_allowed s) name of
        None \<Rightarrow> True
      | Some restrictions \<Rightarrow>
          if restrictions = [] then True else list_ex (\<lambda>c. c = cluster) restrictions)"

definition user_allowed_clusters :: "user_store \<Rightarrow> string \<Rightarrow> string list option" where
  "user_allowed_clusters s name = hm_get (us_allowed s) name"

definition add_user :: "user \<Rightarrow> user_store \<Rightarrow> (string, unit) result \<times> user_store" where
  "add_user u s =
     (if hm_contains (us_users s) (u_username u)
      then (Err (''user '' @ quoted (u_username u) @ '' already exists''), s)
      else (Ok (), s \<lparr> us_users := hm_put (u_username u) u (us_users s) \<rparr>))"

text \<open>
  \<open>update_user\<close> mutates the account in place, field by field, so an unknown role returns an error
  after the display name and the e-mail address have been written.
\<close>

definition update_user :: "string \<Rightarrow> string option \<Rightarrow> string option \<Rightarrow> string option
    \<Rightarrow> string option \<Rightarrow> bool option \<Rightarrow> user_store \<Rightarrow> (string, unit) result \<times> user_store" where
  "update_user name display_name email r password_hash enabled s =
     (case us_get s name of
        None \<Rightarrow> (Err (''user '' @ quoted name @ '' not found''), s)
      | Some u0 \<Rightarrow>
         let put = (\<lambda>u. s \<lparr> us_users := hm_put name u (us_users s) \<rparr>);
             u1 = (case display_name of None \<Rightarrow> u0 | Some dn \<Rightarrow> u0 \<lparr> u_display_name := dn \<rparr>);
             u2 = (case email of None \<Rightarrow> u1 | Some e \<Rightarrow> u1 \<lparr> u_email := Some e \<rparr>);
             rest = (\<lambda>u3. let u4 = (case password_hash of None \<Rightarrow> u3
                                    | Some ph \<Rightarrow> u3 \<lparr> u_password_hash := ph \<rparr>);
                              u5 = (case enabled of None \<Rightarrow> u4 | Some en \<Rightarrow> u4 \<lparr> u_enabled := en \<rparr>)
                          in (Ok (), put u5))
         in case r of
              None \<Rightarrow> rest u2
            | Some rs \<Rightarrow> (case role_from_str rs of
                 Inl _ \<Rightarrow> (Err (''unknown role '' @ quoted rs @ '' (expected admin|operator|viewer)''), put u2)
               | Inr nr \<Rightarrow> rest (u2 \<lparr> u_role := nr \<rparr>)))"

definition delete_user :: "string \<Rightarrow> user_store \<Rightarrow> (string, unit) result \<times> user_store" where
  "delete_user name s =
     (if hm_contains (us_users s) name
      then (Ok (), s \<lparr> us_users := hm_del name (us_users s), us_allowed := hm_del name (us_allowed s) \<rparr>)
      else (Err (''user '' @ quoted name @ '' not found''), s))"

definition list_users :: "user_store \<Rightarrow> user list" where
  "list_users s = hm_values (us_users s)"

section \<open>Well-formed stores\<close>

definition us_ok :: "user_store \<Rightarrow> bool" where
  "us_ok s = (hm_ok (us_users s) \<and> hm_ok (us_allowed s)
              \<and> list_all (\<lambda>(k, u). u_username u = k) (us_users s))"

lemma us_ok_getD: "us_ok s \<Longrightarrow> us_get s n = Some u \<Longrightarrow> u_username u = n"
  by (auto simp: us_ok_def us_get_def list_all_iff dest!: hm_get_in_set)

lemma us_ok_put [step_inv]:
  "us_ok s \<Longrightarrow> u_username u = n \<Longrightarrow> us_ok (s \<lparr> us_users := hm_put n u (us_users s) \<rparr>)"
  by (auto simp: us_ok_def list_all_iff hm_put_set)

lemma us_ok_new [simp]: "us_ok us_new"
  by (simp add: us_ok_def us_new_def hm_empty_def hm_ok_def)

lemma us_ok_with_users [step_inv]: "us_ok (with_users us)"
proof -
  have "us_ok s \<Longrightarrow> us_ok (fold (\<lambda>u s. s \<lparr> us_users := hm_put (u_username u) u (us_users s) \<rparr>) us s)" for s
    by (induction us arbitrary: s) (auto intro: us_ok_put)
  then show ?thesis by (simp add: with_users_def)
qed

lemma us_ok_add [step_inv]: "us_ok s \<Longrightarrow> us_ok (snd (add_user u s))"
  by (simp add: add_user_def us_ok_put)

lemma us_ok_delete [step_inv]: "us_ok s \<Longrightarrow> us_ok (snd (delete_user n s))"
  by (auto simp: delete_user_def us_ok_def list_all_iff hm_del_set)

lemma us_ok_update [step_inv]: "us_ok s \<Longrightarrow> us_ok (snd (update_user n dn e r ph en s))"
  by (auto simp: update_user_def Let_def dest: us_ok_getD intro!: us_ok_put
      split: option.splits sum.splits)

lemma us_ok_from_configs [step_inv]:
  assumes "from_configs bc cfgs = Inr s" shows "us_ok s"
proof -
  obtain us where s: "us_users s = hm_of_pairs (map (\<lambda>u. (u_username u, u)) us)"
      "us_allowed s = hm_of_pairs (map (\<lambda>c. (uc_username c, uc_allowed_clusters c)) cfgs)"
    using assms by (auto simp: from_configs_def rbind_Inr_iff)
  have "u_username u = k" if "(k, u) \<in> set (us_users s)" for k u
    using that hm_get_iff[of "us_users s" k u] by (auto simp: s hm_get_of_pairs dest!: map_of_SomeD)
  then show ?thesis by (auto simp: us_ok_def s list_all_iff)
qed

section \<open>Lookups after updates\<close>

lemma us_get_add: "us_get (snd (add_user u s)) n
    = (if n = u_username u \<and> us_get s n = None then Some u else us_get s n)"
  by (auto simp: add_user_def us_get_def hm_get_put hm_contains_def)

lemma us_get_delete: "us_get (snd (delete_user name s)) n = (if n = name then None else us_get s n)"
  by (auto simp: delete_user_def us_get_def hm_get_del hm_contains_def)

lemma us_get_update_other: "n \<noteq> name \<Longrightarrow> us_get (snd (update_user name dn e r ph en s)) n = us_get s n"
  by (auto simp: update_user_def us_get_def hm_get_put Let_def split: option.splits sum.splits)

lemma allowed_update [simp]: "us_allowed (snd (update_user name dn e r ph en s)) = us_allowed s"
  by (auto simp: update_user_def Let_def split: option.splits sum.splits)

lemma allowed_add [simp]: "us_allowed (snd (add_user u s)) = us_allowed s"
  by (simp add: add_user_def)

lemma access_delete: "hm_contains (us_users s) name \<Longrightarrow>
    user_can_access_cluster (snd (delete_user name s)) n c
      = (n = name \<or> user_can_access_cluster s n c)"
  by (auto simp: delete_user_def user_can_access_cluster_def hm_get_del split: option.splits)

lemma access_cong: "us_allowed s = us_allowed s' \<Longrightarrow>
    user_can_access_cluster s n c = user_can_access_cluster s' n c"
  by (simp add: user_can_access_cluster_def)

lemma access_iff: "user_can_access_cluster s n c \<longleftrightarrow>
    (case user_allowed_clusters s n of None \<Rightarrow> True | Some cs \<Rightarrow> cs = [] \<or> c \<in> set cs)"
  by (auto simp: user_can_access_cluster_def user_allowed_clusters_def list_ex_iff split: option.splits)

lemma authenticate_Some: "authenticate bv s n p = Some u \<longleftrightarrow>
    us_get s n = Some u \<and> u_enabled u \<and> verify_password bv p (u_password_hash u) = Inr True"
  by (auto simp: authenticate_def Let_def ok_of_def split: option.splits sum.splits)

text \<open>The account a successful update leaves, and what an unknown role leaves.\<close>

lemma update_user_Ok_get:
  assumes "fst (update_user n dn e r ph en s) = Inr ()" "us_get s n = Some u"
  shows "\<exists>u'. us_get (snd (update_user n dn e r ph en s)) n = Some u'
     \<and> u_enabled u' = (case en of None \<Rightarrow> u_enabled u | Some b \<Rightarrow> b)
     \<and> u_password_hash u' = (case ph of None \<Rightarrow> u_password_hash u | Some h \<Rightarrow> h)
     \<and> (case r of None \<Rightarrow> u_role u' = u_role u | Some rs \<Rightarrow> role_from_str rs = Inr (u_role u'))
     \<and> u_id u' = u_id u \<and> u_username u' = u_username u"
  using assms by (auto simp: update_user_def us_get_def hm_get_put Let_def split: option.splits sum.splits)

lemma from_configs_Ok_iff: "is_ok (from_configs bc cfgs) \<longleftrightarrow> (\<forall>c\<in>set cfgs. is_ok (user_from_config bc c))"
proof -
  have "is_ok (collect_results (map (user_from_config bc) cfgs)) \<longleftrightarrow> (\<forall>c\<in>set cfgs. is_ok (user_from_config bc c))"
    by (induction cfgs) (auto simp: is_ok_def split: sum.splits)
  then show ?thesis
    by (auto simp: from_configs_def is_ok_def split: sum.splits)
qed

lemma from_configs_get:
  assumes "from_configs bc cfgs = Inr s"
  shows "us_get s n = (case find (\<lambda>c. uc_username c = n) (rev cfgs) of None \<Rightarrow> None
                       | Some c \<Rightarrow> ok_of (user_from_config bc c))"
    and "user_allowed_clusters s n
           = map_option uc_allowed_clusters (find (\<lambda>c. uc_username c = n) (rev cfgs))"
proof -
  have name: "u_username u = uc_username c" if "user_from_config bc c = Inr u" for u c
    using that by (auto simp: user_from_config_def rbind_Inr_iff split: sum.splits)
  obtain us where us: "map (user_from_config bc) cfgs = map Inr us"
    and s: "us_users s = hm_of_pairs (map (\<lambda>u. (u_username u, u)) us)"
      "us_allowed s = hm_of_pairs (map (\<lambda>c. (uc_username c, uc_allowed_clusters c)) cfgs)"
    using assms by (auto simp: from_configs_def rbind_Inr_iff dest: collect_results_OkD)
  have "map (user_from_config bc) (rev cfgs) = map Inr (rev us)"
    using us by (metis rev_map)
  moreover have "map (user_from_config bc) cs = map Inr vs \<Longrightarrow>
      map_of (map (\<lambda>u. (u_username u, u)) vs) n
        = (case find (\<lambda>c. uc_username c = n) cs of None \<Rightarrow> None
           | Some c \<Rightarrow> ok_of (user_from_config bc c))" for cs vs
    by (induction cs arbitrary: vs) (auto simp: Cons_eq_map_conv, (metis name)+)
  ultimately show "us_get s n = (case find (\<lambda>c. uc_username c = n) (rev cfgs) of None \<Rightarrow> None
                       | Some c \<Rightarrow> ok_of (user_from_config bc c))"
    by (simp add: us_get_def s hm_get_of_pairs rev_map)
  have "map_of (map (\<lambda>c. (uc_username c, uc_allowed_clusters c)) cs) n
      = map_option uc_allowed_clusters (find (\<lambda>c. uc_username c = n) cs)" for cs
    by (induction cs) auto
  then show "user_allowed_clusters s n
           = map_option uc_allowed_clusters (find (\<lambda>c. uc_username c = n) (rev cfgs))"
    by (simp add: user_allowed_clusters_def s hm_get_of_pairs rev_map)
qed

section \<open>Properties\<close>

text \<open>Parsing and printing of roles agree: a text parses to a role exactly when its ASCII lower case is
  the role's printed form, and the privilege test between two roles is the linear order
  \<open>Viewer < Operator < Admin\<close> on them.\<close>

theorem role_parse_print:
  "(role_from_str s = Ok r \<longleftrightarrow> to_ascii_lowercase s = role_as_str r)
   \<and> (can r required \<longleftrightarrow> required \<le> r) \<and> role_from_str (role_as_str r) = Ok r
   \<and> Viewer < Operator \<and> Operator < Admin"
  by (simp add: role_from_str_Ok can_iff_le role_as_str_lower less_role_def)

text \<open>Disabling an account through \<open>update_user\<close> locks it out whatever the password, and changes
  neither the outcome of any other account's login nor any cluster restriction.\<close>

theorem disabling_locks_out:
  assumes "fst (update_user n dn e r ph (Some False) s) = Ok ()"
  shows "authenticate bv (snd (update_user n dn e r ph (Some False) s)) n p = None
     \<and> (\<forall>m. m \<noteq> n \<longrightarrow> authenticate bv (snd (update_user n dn e r ph (Some False) s)) m p
                         = authenticate bv s m p)
     \<and> us_allowed (snd (update_user n dn e r ph (Some False) s)) = us_allowed s"
proof -
  have "us_get s n \<noteq> None"
    using assms by (auto simp: update_user_def split: option.splits)
  then obtain u where u: "us_get s n = Some u" by blast
  obtain u' where "us_get (snd (update_user n dn e r ph (Some False) s)) n = Some u'" "\<not> u_enabled u'"
    using update_user_Ok_get[OF assms u] by auto
  then show ?thesis
    by (simp add: authenticate_def us_get_update_other)
qed

definition demo_user :: user where
  "demo_user = \<lparr> u_id = ''1'', u_username = ''ann'', u_display_name = ''Ann'', u_email = None,
     u_password_hash = ''h'', u_role = Viewer, u_enabled = True, u_totp_secret = None,
     u_totp_enabled = False, u_backup_codes = [] \<rparr>"

definition demo_users :: user_store where
  "demo_users = \<lparr> us_users = [(''ann'', demo_user)], us_allowed = [(''ann'', [''c1''])] \<rparr>"

theorem disabling_locks_out_witness:
  "authenticate (\<lambda>p h. Inr True) (snd (update_user ''ann'' None None None None (Some False) demo_users)) ''ann'' ''x'' = None
   \<and> authenticate (\<lambda>p h. Inr True) demo_users ''ann'' ''x'' = Some demo_user"
proof -
  have "fst (update_user ''ann'' None None None None (Some False) demo_users) = Inr ()"
    by (simp add: update_user_def us_get_def hm_get_def demo_users_def Let_def)
  from disabling_locks_out[OF this, of "\<lambda>p h. Inr True" "''x''"] show ?thesis
    by (simp add: authenticate_def us_get_def hm_get_def demo_users_def demo_user_def verify_password_def)
qed

text \<open>A failing update is not atomic: with an unknown role, \<open>update_user\<close> returns an error although
  the display name and e-mail address it was given are stored; the role, the password hash and the
  enabled flag keep their values.\<close>

theorem update_error_not_atomic:
  assumes "us_get s n = Some u" and "role_from_str rs = Err msg"
  shows "\<not> is_ok (fst (update_user n (Some dn) (Some e) (Some rs) ph en s))
     \<and> us_get (snd (update_user n (Some dn) (Some e) (Some rs) ph en s)) n
         = Some (u \<lparr> u_display_name := dn, u_email := Some e \<rparr>)"
  using assms by (simp add: update_user_def Let_def us_get_def hm_get_put)

theorem update_error_not_atomic_witness:
  "map_option u_display_name (us_get (snd (update_user ''ann'' (Some ''Eve'') (Some ''e'') (Some ''root'')
      None (Some False) demo_users)) ''ann'') = Some ''Eve''"
proof -
  have "us_get demo_users ''ann'' = Some demo_user"
    by (simp add: us_get_def hm_get_def demo_users_def)
  moreover obtain m where "role_from_str ''root'' = Inl m"
    by (simp add: role_from_str_def to_ascii_lowercase_def to_ascii_lower_def byte_of_def)
  ultimately show ?thesis
    using update_error_not_atomic[of demo_users "''ann''" demo_user "''root''" m "''Eve''" "''e''" None "Some False"]
    by simp
qed

text \<open>Seeding from the configuration succeeds exactly when every account entry is valid, and then both
  the account and the cluster restriction of a name are those of its last entry.\<close>

theorem from_configs_last_wins:
  "is_ok (from_configs bc cfgs) = list_all (\<lambda>c. is_ok (user_from_config bc c)) cfgs
   \<and> (\<forall>s n. from_configs bc cfgs = Ok s \<longrightarrow>
        us_ok s
        \<and> us_get s n = (case find (\<lambda>c. uc_username c = n) (rev cfgs) of None \<Rightarrow> None
                        | Some c \<Rightarrow> ok_of (user_from_config bc c))
        \<and> user_allowed_clusters s n
            = map_option uc_allowed_clusters (find (\<lambda>c. uc_username c = n) (rev cfgs)))"
  by (auto simp: from_configs_Ok_iff list_all_iff from_configs_get us_ok_from_configs)

definition demo_config :: "string \<Rightarrow> string list \<Rightarrow> user_config" where
  "demo_config h cs = \<lparr> uc_id = ''1'', uc_username = ''ann'', uc_display_name = [], uc_email = None,
     uc_role = ''viewer'', uc_password_hash = Some h, uc_password = None, uc_enabled = True,
     uc_allowed_clusters = cs \<rparr>"

theorem from_configs_last_wins_witness:
  "\<exists>s. from_configs (\<lambda>p c. Inl ''off'') [demo_config ''h1'' [], demo_config ''h2'' [''c1'']] = Ok s
     \<and> map_option u_password_hash (us_get s ''ann'') = Some ''h2''
     \<and> user_allowed_clusters s ''ann'' = Some [''c1'']"
proof -
  let ?cs = "[demo_config ''h1'' [], demo_config ''h2'' [''c1'']]"
  have role: "role_from_str ''viewer'' = Inr Viewer"
    by (simp add: role_from_str_def to_ascii_lowercase_def to_ascii_lower_def byte_of_def)
  have "list_all (\<lambda>c. is_ok (user_from_config (\<lambda>p c. Inl ''off'') c)) ?cs"
    by (simp add: user_from_config_def demo_config_def role)
  then have "is_ok (from_configs (\<lambda>p c. Inl ''off'') ?cs)"
    using from_configs_last_wins[of "\<lambda>p c. Inl ''off''" ?cs] by simp
  then obtain s where s: "from_configs (\<lambda>p c. Inl ''off'') ?cs = Inr s" by (auto simp: is_ok_iff)
  with from_configs_last_wins[of "\<lambda>p c. Inl ''off''" ?cs] show ?thesis
    by (auto simp: demo_config_def user_from_config_def role)
qed

text \<open>Deleting an account removes its cluster restriction with it, so an account created again under
  the same name may access every cluster, while nobody else's access changes.\<close>

theorem recreated_user_is_unrestricted:
  assumes "us_get s n = Some u0" and "u_username u = n"
  shows "let s' = snd (add_user u (snd (delete_user n s))) in
           us_get s' n = Some u \<and> (\<forall>c. user_can_access_cluster s' n c)
           \<and> (\<forall>m c. m \<noteq> n \<longrightarrow> user_can_access_cluster s' m c = user_can_access_cluster s m c)"
proof -
  have c: "hm_contains (us_users s) n" using assms(1) by (simp add: hm_contains_def us_get_def)
  have "user_can_access_cluster (snd (add_user u (snd (delete_user n s)))) m c
      = user_can_access_cluster (snd (delete_user n s)) m c" for m c
    by (rule access_cong) simp
  then show ?thesis
    using assms(2) by (auto simp: Let_def us_get_add us_get_delete access_delete[OF c])
qed

theorem recreated_user_is_unrestricted_witness:
  "\<not> user_can_access_cluster demo_users ''ann'' ''c2''
   \<and> user_can_access_cluster (snd (add_user demo_user (snd (delete_user ''ann'' demo_users)))) ''ann'' ''c2''"
proof -
  have "us_get demo_users ''ann'' = Some demo_user" "u_username demo_user = ''ann''"
    by (simp_all add: us_get_def hm_get_def demo_users_def demo_user_def)
  from recreated_user_is_unrestricted[OF this] show ?thesis
    by (simp add: Let_def user_can_access_cluster_def demo_users_def hm_get_def)
qed

end
