(* ===== verification/Auth_Middleware.thy ===== *)
theory Auth_Middleware
  imports Http Roles_Users
begin

text \<open>
  Bearer authentication, cluster access control and role checks (\<open>src/auth/middleware.rs\<close>). Token
  decoding is the parameter \<open>decode\<close> (RS256 verification is the \<open>jsonwebtoken\<close> crate), and
  \<open>HeaderValue::to_str\<close> of the \<open>http\<close> crate is \<open>to_str\<close>.
\<close>

type_synonym jwt_decode = "string \<Rightarrow> (string, claims) result"
type_synonym header_to_str = "string \<Rightarrow> string option"

definition bearer_prefix :: string where "bearer_prefix = ''Bearer ''"

definition unauthorized :: "string \<Rightarrow> http_response" where "unauthorized msg = response 401 msg"
definition forbidden :: "string \<Rightarrow> http_response" where "forbidden msg = response 403 msg"

definition extract_bearer :: "header_to_str \<Rightarrow> http_request \<Rightarrow> (http_response, string) result" where
  "extract_bearer to_str req =
     (case map_of (hq_headers req) ''authorization'' of
        None \<Rightarrow> Err (unauthorized ''missing Authorization header'')
      | Some raw \<Rightarrow>
          (case to_str raw of
             None \<Rightarrow> Err (unauthorized ''malformed Authorization header'')
           | Some header \<Rightarrow>
               (case strip_prefix bearer_prefix header of
                  None \<Rightarrow> Err (unauthorized ''Authorization must be Bearer scheme'')
                | Some token \<Rightarrow>
                    if token = [] then Err (unauthorized ''empty Bearer token'') else Ok token)))"

definition require_auth :: "header_to_str \<Rightarrow> jwt_decode \<Rightarrow> 'st handler \<Rightarrow> 'st handler" where
  "require_auth to_str decode next req st =
     (case extract_bearer to_str req of
        Inl resp \<Rightarrow> (resp, st)
      | Inr token \<Rightarrow>
          (case decode token of
             Inr cl \<Rightarrow> next (req \<lparr> hq_claims := Some cl \<rparr>) st
           | Inl e \<Rightarrow> (response 401 ''Invalid or expired token'', st)))"

definition extract_cluster_from_path :: "string \<Rightarrow> string option" where
  "extract_cluster_from_path path =
     (let segments = filter (\<lambda>s. s \<noteq> []) (split_on (CHR ''/'') path) in
      if length segments \<ge> 4 \<and> segments ! 0 = ''api'' \<and> segments ! 1 = ''v1''
      then Some (segments ! 3) else None)"

definition require_cluster_access :: "('st \<Rightarrow> user_store) \<Rightarrow> 'st handler \<Rightarrow> 'st handler" where
  "require_cluster_access users next req st =
     (case hq_claims req of
        None \<Rightarrow> (unauthorized (''auth context missing '' @ em_dash @ '' require_auth must precede require_cluster_access''), st)
      | Some cl \<Rightarrow>
          (case extract_cluster_from_path (hq_path req) of
             None \<Rightarrow> (response 400 ''No cluster specified in request path'', st)
           | Some cluster \<Rightarrow>
               if user_can_access_cluster (users st) (cl_username cl) cluster then next req st
               else (forbidden (''Access denied to cluster '' @ quoted cluster), st)))"

text \<open>The extractor \<open>AuthContext\<close>, its role, and the role check of the handlers.\<close>

record auth_context =
  ac_claims :: claims

definition from_request_parts :: "http_request \<Rightarrow> (http_response, auth_context) result" where
  "from_request_parts req =
     (case hq_claims req of
        None \<Rightarrow> Err (unauthorized (''auth context missing '' @ em_dash @ '' require_auth middleware not applied''))
      | Some cl \<Rightarrow> Ok \<lparr> ac_claims = cl \<rparr>)"

definition ac_role :: "auth_context \<Rightarrow> (string, role) result" where
  "ac_role auth = role_from_str (cl_role (ac_claims auth))"

definition require_role :: "auth_context \<Rightarrow> role \<Rightarrow> (http_response, unit) result" where
  "require_role auth required =
     (case ac_role auth of
        Inr r \<Rightarrow> if can r required then Ok () else Err (forbidden ''insufficient role'')
      | Inl bad \<Rightarrow> Err (forbidden (''unknown role in token: '' @ bad)))"

section \<open>The middleware as guards\<close>

definition auth_pass :: "header_to_str \<Rightarrow> jwt_decode \<Rightarrow> http_request \<Rightarrow> 'st \<Rightarrow> http_request option" where
  "auth_pass to_str decode req st =
     (case extract_bearer to_str req of Inl _ \<Rightarrow> None
      | Inr token \<Rightarrow> (case decode token of Inl _ \<Rightarrow> None | Inr cl \<Rightarrow> Some (req \<lparr> hq_claims := Some cl \<rparr>)))"

definition auth_refuse :: "header_to_str \<Rightarrow> http_request \<Rightarrow> 'st \<Rightarrow> http_response" where
  "auth_refuse to_str req st =
     (case extract_bearer to_str req of Inl resp \<Rightarrow> resp | Inr _ \<Rightarrow> response 401 ''Invalid or expired token'')"

definition cluster_pass :: "('st \<Rightarrow> user_store) \<Rightarrow> http_request \<Rightarrow> 'st \<Rightarrow> http_request option" where
  "cluster_pass users req st =
     (case hq_claims req of None \<Rightarrow> None
      | Some cl \<Rightarrow> (case extract_cluster_from_path (hq_path req) of None \<Rightarrow> None
          | Some c \<Rightarrow> if user_can_access_cluster (users st) (cl_username cl) c then Some req else None))"

definition cluster_refuse :: "http_request \<Rightarrow> 'st \<Rightarrow> http_response" where
  "cluster_refuse req st =
     (case hq_claims req of
        None \<Rightarrow> unauthorized (''auth context missing '' @ em_dash @ '' require_auth must precede require_cluster_access'')
      | Some cl \<Rightarrow> (case extract_cluster_from_path (hq_path req) of
          None \<Rightarrow> response 400 ''No cluster specified in request path''
        | Some c \<Rightarrow> forbidden (''Access denied to cluster '' @ quoted c)))"

interpretation auth: guard "require_auth to_str decode" "auth_pass to_str decode" "auth_refuse to_str"
  by unfold_locales (simp add: require_auth_def auth_pass_def auth_refuse_def split: sum.split)

interpretation cluster: guard "require_cluster_access users" "cluster_pass users" cluster_refuse
  by unfold_locales (simp add: require_cluster_access_def cluster_pass_def cluster_refuse_def split: option.split)

interpretation scoped: guard_pair "require_auth to_str decode" "auth_pass to_str decode" "auth_refuse to_str"
    "require_cluster_access users" "cluster_pass users" cluster_refuse
  by unfold_locales

lemma extract_bearer_Ok: "extract_bearer to_str req = Inr token \<longleftrightarrow>
    token \<noteq> [] \<and> (\<exists>raw. map_of (hq_headers req) ''authorization'' = Some raw
        \<and> to_str raw = Some (bearer_prefix @ token))"
  by (auto simp: extract_bearer_def strip_prefix_Some split: option.splits if_splits)

lemma extract_bearer_status: "extract_bearer to_str req = Inl resp \<Longrightarrow> hs_status resp = 401"
  by (auto simp: extract_bearer_def unauthorized_def split: option.splits if_splits)

lemma auth_pass_Some: "auth_pass to_str decode req st = Some req' \<longleftrightarrow>
    (\<exists>token cl. extract_bearer to_str req = Inr token \<and> decode token = Inr cl
       \<and> req' = req \<lparr> hq_claims := Some cl \<rparr>)"
  by (auto simp: auth_pass_def split: sum.splits)

lemma auth_refuse_status: "hs_status (auth_refuse to_str req st) = 401"
  by (auto simp: auth_refuse_def dest: extract_bearer_status split: sum.splits)

lemma cluster_refuse_status: "hs_status (cluster_refuse req st) \<in> {400, 401, 403}"
  by (auto simp: cluster_refuse_def unauthorized_def forbidden_def split: option.splits)

lemma require_role_Ok: "require_role auth required = Inr () \<longleftrightarrow>
    (\<exists>r. to_ascii_lowercase (cl_role (ac_claims auth)) = role_as_str r \<and> required \<le> r)"
  by (auto simp: require_role_def ac_role_def role_from_str_Ok[symmetric] can_iff_le split: sum.splits if_splits)

lemma require_role_Err: "require_role auth required = Inl resp \<Longrightarrow> hs_status resp = 403"
  by (auto simp: require_role_def forbidden_def split: sum.splits if_splits)

section \<open>Property\<close>

text \<open>Authentication gate: a request reaches the handler behind \<open>require_auth\<close> exactly when it has a
  non-empty bearer token that decodes, and then with the token's claims and everything else
  unchanged; any other request is answered with status 401 and leaves the state as it was.\<close>

theorem require_auth_gate:
  "(\<exists>token cl. extract_bearer to_str req = Ok token \<and> decode token = Ok cl
      \<and> require_auth to_str decode next req st = next (req \<lparr> hq_claims := Some cl \<rparr>) st)
   \<or> (\<exists>resp. require_auth to_str decode next req st = (resp, st) \<and> hs_status resp = 401
      \<and> (\<nexists>token cl. token \<noteq> [] \<and> decode token = Ok cl
            \<and> (\<exists>raw. map_of (hq_headers req) ''authorization'' = Some raw
                 \<and> to_str raw = Some (''Bearer '' @ token))))"
proof (cases "auth_pass to_str decode req st")
  case None
  have "\<nexists>token cl. extract_bearer to_str req = Inr token \<and> decode token = Inr cl"
    using None by (auto simp: auth_pass_def split: sum.splits)
  then have "\<nexists>token cl. token \<noteq> [] \<and> decode token = Inr cl
      \<and> (\<exists>raw. map_of (hq_headers req) ''authorization'' = Some raw \<and> to_str raw = Some (''Bearer '' @ token))"
    unfolding extract_bearer_Ok bearer_prefix_def by blast
  with auth.refused[OF None, of "next"] auth_refuse_status[of to_str req st] show ?thesis by blast
next
  case (Some req')
  from auth.passed[OF this, of "next"] Some show ?thesis by (auto simp: auth_pass_Some)
qed

end
