(* ===== verification/Clients.thy ===== *)
theory Clients
  imports Proxmox_Api Auth_Middleware
begin

text \<open>
  The clients of all clusters in the shared state (\<open>src/state.rs\<close>): lookup by name, the clients a
  user may see, calls to one or to several clusters, and the readiness cache. A fleet is the vector
  of clients and the world. The futures of a \<open>join_all\<close> are run one at a time in an arbitrary order,
  which is an argument.
\<close>

type_synonym 'w fleet = "px_client list \<times> 'w"
type_synonym ('w, 'a) fleet_op = "'w fleet \<Rightarrow> (app_error, 'a) result \<times> 'w fleet"

section \<open>Lookup\<close>

fun client_index :: "string \<Rightarrow> px_client list \<Rightarrow> nat option" where
  "client_index name [] = None"
| "client_index name (c # cs) =
     (if px_name c = name then Some 0 else map_option Suc (client_index name cs))"

definition not_configured :: "string \<Rightarrow> string" where
  "not_configured cluster = ''cluster '' @ quoted cluster @ '' not configured''"

text \<open>Running a call on one client of the vector.\<close>

definition at_client :: "nat \<Rightarrow> ('w, 'a) px \<Rightarrow> ('w, 'a) fleet_op" where
  "at_client i f st =
     (let (r, c', w') = f (fst st ! i, snd st) in (r, (fst st)[i := c'], w'))"

text \<open>The common start of the handlers: the client of the cluster, or 404.\<close>

definition on_cluster :: "string \<Rightarrow> ('w, 'a) px \<Rightarrow> ('w, 'a) fleet_op" where
  "on_cluster cluster f st =
     (case client_index cluster (fst st) of
        None \<Rightarrow> (Err (NotFound (not_configured cluster)), st)
      | Some i \<Rightarrow> at_client i f st)"

definition map_reply :: "('a \<Rightarrow> 'b) \<Rightarrow> (app_error, 'a) result \<times> 'w fleet \<Rightarrow> (app_error, 'b) result \<times> 'w fleet" where
  "map_reply g x = (map_sum id g (fst x), snd x)"

text \<open>
  The clients a user may see: all of them when the store names no restriction, those the store
  lists otherwise.
\<close>

definition clients_for_user :: "user_store \<Rightarrow> string \<Rightarrow> px_client list \<Rightarrow> nat list" where
  "clients_for_user users username cs =
     (case user_allowed_clusters users username of
        None \<Rightarrow> [0..<length cs]
      | Some allowed \<Rightarrow> filter (\<lambda>i. List.member allowed (px_name (cs ! i))) [0..<length cs])"

text \<open>The role check at the head of a handler: its 403 becomes an error with the handler's message.\<close>

definition role_gate :: "'w px_env \<Rightarrow> role \<Rightarrow> string \<Rightarrow> auth_context \<Rightarrow> ('w, 'a) fleet_op \<Rightarrow> ('w, 'a) fleet_op" where
  "role_gate env required msg auth k st =
     (case require_role auth required of
        Inl resp \<Rightarrow>
          (Err (if hs_status resp = 403 then Forbidden msg
                else Internal (''auth middleware returned '' @ pe_status env (hs_status resp))), st)
      | Inr _ \<Rightarrow> k st)"

section \<open>Several clusters\<close>

fun run_order :: "nat list \<Rightarrow> (nat \<Rightarrow> 's \<Rightarrow> 'r \<times> 's) \<Rightarrow> 's \<Rightarrow> (nat \<times> 'r) list \<times> 's" where
  "run_order [] f s = ([], s)"
| "run_order (i # js) f s =
     (let (r, s1) = f i s; (rs, s2) = run_order js f s1 in ((i, r) # rs, s2))"

text \<open>\<open>join_all\<close>: the results in the order of the futures, whatever the order they ran in.\<close>

definition join_all :: "nat list \<Rightarrow> nat \<Rightarrow> (nat \<Rightarrow> 's \<Rightarrow> 'r \<times> 's) \<Rightarrow> 's \<Rightarrow> 'r list \<times> 's" where
  "join_all order n f s =
     (let (rs, s') = run_order order f s in (List.map_filter (map_of rs) [0..<n], s'))"

definition each_client :: "nat list \<Rightarrow> nat list \<Rightarrow> ('w, 'a) px \<Rightarrow> 'w fleet
    \<Rightarrow> (string \<times> (app_error, 'a) result) list \<times> 'w fleet" where
  "each_client order sel f =
     join_all order (length sel)
       (\<lambda>k st. let (r, st') = at_client (sel ! k) f st in ((px_name (fst st ! (sel ! k)), r), st'))"

section \<open>Readiness\<close>

datatype cluster_status = Healthy | Unhealthy

fun is_healthy :: "cluster_status \<Rightarrow> bool" where
  "is_healthy Healthy = True"
| "is_healthy Unhealthy = False"

record readiness_snapshot =
  rn_clusters :: "(string, cluster_status) hmap"
  rn_checked_at :: nat

definition all_healthy :: "readiness_snapshot \<Rightarrow> bool" where
  "all_healthy s = list_all is_healthy (hm_values (rn_clusters s))"

text \<open>\<open>Instant\<close>s are nanoseconds; \<open>duration_since\<close> saturates at zero, like subtraction of naturals.\<close>

definition readiness_cache_ttl :: nat where "readiness_cache_ttl = 10 * 10 ^ 9"

type_synonym ready_cache = "(string, cluster_status \<times> nat) hmap"

definition is_stale :: "nat \<Rightarrow> ready_cache \<Rightarrow> string \<Rightarrow> bool" where
  "is_stale now cache name =
     (case hm_get cache name of None \<Rightarrow> True | Some (_, ts) \<Rightarrow> now - ts > readiness_cache_ttl)"

definition probe_status :: "(app_error, unit) result \<Rightarrow> cluster_status" where
  "probe_status r = (if is_ok r then Healthy else Unhealthy)"

definition readiness :: "'w px_env \<Rightarrow> (string \<Rightarrow> (string, json) result) \<Rightarrow> ('w \<Rightarrow> nat) \<Rightarrow> nat list
    \<Rightarrow> ready_cache \<times> 'w fleet \<Rightarrow> readiness_snapshot \<times> ready_cache \<times> 'w fleet" where
  "readiness env dec instant order cst =
     (let (cache, st) = cst;
          now = instant (snd st);
          to_probe = filter (\<lambda>i. is_stale now cache (px_name (fst st ! i))) [0..<length (fst st)];
          (results, st') = (if to_probe = [] then ([], st) else each_client order to_probe (px_ping env dec) st);
          cache' = fold (\<lambda>(name, r) m. hm_put name (probe_status r, instant (snd st')) m) results cache
      in (\<lparr> rn_clusters = map (\<lambda>(k, s, _). (k, s)) cache', rn_checked_at = now \<rparr>, cache', st'))"

section \<open>Lemmas on lookup\<close>

lemma client_index_Some: "client_index name cs = Some i \<Longrightarrow>
    i < length cs \<and> px_name (cs ! i) = name \<and> (\<forall>j<i. px_name (cs ! j) \<noteq> name)"
proof (induction cs arbitrary: i)
  case (Cons c cs)
  show ?case
  proof (cases "px_name c = name")
    case True
    then show ?thesis using Cons.prems by auto
  next
    case False
    then obtain k where k: "client_index name cs = Some k" "i = Suc k" using Cons.prems by auto
    from Cons.IH[OF k(1)] k(2) False show ?thesis by (auto simp: nth_Cons split: nat.split)
  qed
qed simp

lemma client_index_None: "client_index name cs = None \<longleftrightarrow> name \<notin> px_name ` set cs"
  by (induction cs) auto

lemma map_reply_simps [simp]:
  "snd (map_reply g x) = snd x" "is_ok (fst (map_reply g x)) = is_ok (fst x)"
  "map_reply g (Inl e, st) = (Inl e, st)" "map_reply g (Inr a, st) = (Inr (g a), st)"
  by (auto simp: map_reply_def is_ok_def split: sum.split)

lemma role_gate_refused:
  assumes "\<nexists>r. to_ascii_lowercase (cl_role (ac_claims auth)) = role_as_str r \<and> required \<le> r"
  shows "role_gate env required msg auth k st = (Inl (Forbidden msg), st)"
proof (cases "require_role auth required")
  case (Inl resp)
  then show ?thesis using require_role_Err[OF Inl] by (simp add: role_gate_def)
next
  case (Inr u)
  then show ?thesis using assms require_role_Ok by simp
qed

lemma role_gate_passed:
  assumes "to_ascii_lowercase (cl_role (ac_claims auth)) = role_as_str r" "required \<le> r"
  shows "role_gate env required msg auth k st = k st"
proof -
  have "require_role auth required = Inr ()" using assms require_role_Ok by blast
  then show ?thesis by (simp add: role_gate_def)
qed

lemma role_gate_cases: "role_gate env required msg auth k st = (Inl (Forbidden msg), st)
    \<or> role_gate env required msg auth k st = k st"
  using role_gate_refused role_gate_passed by blast

section \<open>Calls keep the fleet in place\<close>

context client_call
begin

lemma at_client_configs: "at_client i (f env) (cs, w) = (r, cs', w') \<Longrightarrow> map pc_config cs' = map pc_config cs"
proof -
  assume a: "at_client i (f env) (cs, w) = (r, cs', w')"
  obtain r0 c0 w0 where f: "f env (cs ! i, w) = (r0, c0, w0)" by (metis prod_cases3)
  have cs': "cs' = cs[i := c0]" using a f by (auto simp: at_client_def)
  show ?thesis
  proof (cases "i < length cs")
    case True
    then show ?thesis using keeps_config[OF f] unfolding cs' map_update
      by (metis list_update_id length_map nth_map)
  next
    case False
    then show ?thesis by (simp add: cs' list_update_beyond)
  qed
qed

lemma at_client_others: "at_client i (f env) (cs, w) = (r, cs', w') \<Longrightarrow> j \<noteq> i \<Longrightarrow> cs' ! j = cs ! j"
  by (auto simp: at_client_def split: prod.splits)

lemma on_cluster_configs: "on_cluster cl (f env) (cs, w) = (r, cs', w') \<Longrightarrow> map pc_config cs' = map pc_config cs"
  by (auto simp: on_cluster_def at_client_configs split: option.splits)

lemma on_cluster_others:
  assumes "on_cluster cl (f env) (cs, w) = (r, cs', w')" "px_name (cs ! j) \<noteq> cl"
  shows "cs' ! j = cs ! j"
proof (cases "client_index cl cs")
  case None
  then show ?thesis using assms(1) by (simp add: on_cluster_def)
next
  case (Some i)
  from client_index_Some[OF this] assms(2) have "j \<noteq> i" by auto
  then show ?thesis using assms(1) Some at_client_others by (auto simp: on_cluster_def)
qed

lemma at_client_confined:
  "same_to (px_host (cs ! i)) env env' \<Longrightarrow> at_client i (f env) (cs, w) = at_client i (f env') (cs, w)"
  using confined[of "cs ! i" env env' w] by (simp add: at_client_def)

lemma on_cluster_confined:
  assumes "\<And>c. c \<in> set cs \<Longrightarrow> px_name c = cl \<Longrightarrow> same_to (px_host c) env env'"
  shows "on_cluster cl (f env) (cs, w) = on_cluster cl (f env') (cs, w)"
proof (cases "client_index cl cs")
  case None
  then show ?thesis by (simp add: on_cluster_def)
next
  case (Some i)
  then have "same_to (px_host (cs ! i)) env env'" using client_index_Some[OF Some] by (intro assms) auto
  from at_client_confined[OF this] Some show ?thesis by (simp add: on_cluster_def)
qed

end

section \<open>Outcomes of a join\<close>

lemma run_order_keys: "map fst (fst (run_order order f s)) = order"
  by (induction order f s rule: run_order.induct) (auto split: prod.splits)

text \<open>
  A property of outcomes that each future establishes from an invariant of the state and the futures
  still to run.
\<close>

lemma run_order_outcomes:
  assumes "I s (set order)" "distinct order" "run_order order f s = (rs, s')"
    and "\<And>i s r s1 js. I s js \<Longrightarrow> i \<in> js \<Longrightarrow> f i s = (r, s1) \<Longrightarrow> P i r \<and> I s1 (js - {i})"
  shows "(\<forall>(i, r)\<in>set rs. P i r) \<and> I s' {}"
  using assms(1-3)
proof (induction order arbitrary: s rs)
  case Nil
  then show ?case by simp
next
  case (Cons i js)
  obtain r s1 where f: "f i s = (r, s1)" by fastforce
  obtain rs1 s2 where run: "run_order js f s1 = (rs1, s2)" by fastforce
  have eq: "rs = (i, r) # rs1" "s' = s2" using Cons.prems(3) f run by auto
  have one: "P i r \<and> I s1 (set js)"
    using assms(4)[OF Cons.prems(1) _ f] Cons.prems(2) by auto
  have "(\<forall>(i, r)\<in>set rs1. P i r) \<and> I s2 {}"
    using Cons.IH[of s1 rs1] one run Cons.prems(2) eq(2) by simp
  then show ?case using one eq by simp
qed

lemma join_all_outcomes:
  assumes "mset order = mset [0..<n]" "I s {0..<n}" "join_all order n f s = (rs, s')"
    and step: "\<And>i s r s1 js. I s js \<Longrightarrow> i \<in> js \<Longrightarrow> f i s = (r, s1) \<Longrightarrow> P i r \<and> I s1 (js - {i})"
  shows "length rs = n \<and> (\<forall>i<n. P i (rs ! i)) \<and> I s' {}"
proof -
  obtain ps where run: "run_order order f s = (ps, s')" and rs: "rs = List.map_filter (map_of ps) [0..<n]"
    using assms(3) by (auto simp: join_all_def split: prod.splits)
  have d: "distinct order" by (metis assms(1) distinct_upt mset_eq_imp_distinct_iff)
  have so: "set order = {0..<n}" by (metis assms(1) mset_eq_setD set_upt)
  have keys: "map fst ps = order" using run_order_keys[of order f s] run by simp
  have out: "(\<forall>(i, r)\<in>set ps. P i r) \<and> I s' {}"
    using run_order_outcomes[where I = I and P = P, OF _ d run step] assms(2) so by simp
  have some: "i < n \<Longrightarrow> \<exists>r. map_of ps i = Some r" for i
    using keys so by (metis atLeastLessThan_iff image_set le0 map_of_eq_None_iff not_None_eq)
  have "rs = map (\<lambda>i. the (map_of ps i)) [0..<n]"
    unfolding rs map_filter_def using some by (simp cong: filter_cong)
  moreover have "P i (the (map_of ps i))" if "i < n" for i
    using some[OF that] out map_of_SomeD[of ps i] by auto
  ultimately show ?thesis using out by simp
qed

context client_call
begin

lemma each_client_outcomes:
  assumes "mset order = mset [0..<length sel]" "distinct sel" "\<forall>i\<in>set sel. i < length cs"
    and "each_client order sel (f env) (cs, w) = (rs, cs', w')"
  shows "length rs = length sel
     \<and> (\<forall>k<length sel. \<exists>v. rs ! k = (px_name (cs ! (sel ! k)), fst (f env (cs ! (sel ! k), v))))
     \<and> map pc_config cs' = map pc_config cs \<and> (\<forall>i. i \<notin> set sel \<longrightarrow> cs' ! i = cs ! i)"
proof -
  define I :: "'w fleet \<Rightarrow> nat set \<Rightarrow> bool" where "I = (\<lambda>st js. map pc_config (fst st) = map pc_config cs
      \<and> js \<subseteq> {0..<length sel} \<and> (\<forall>k\<in>js. fst st ! (sel ! k) = cs ! (sel ! k))
      \<and> (\<forall>i. i \<notin> set sel \<longrightarrow> fst st ! i = cs ! i))"
  define g where "g = (\<lambda>k st. let (r, st') = at_client (sel ! k) (f env) st in ((px_name (fst st ! (sel ! k)), r), st'))"
  define P where "P = (\<lambda>k r. \<exists>v. r = (px_name (cs ! (sel ! k)), fst (f env (cs ! (sel ! k), v))))"
  have step: "P i r \<and> I s1 (js - {i})" if "I s js" "i \<in> js" "g i s = (r, s1)" for i s r s1 js
  proof -
    obtain c2 w2 where s: "s = (c2, w2)" by fastforce
    obtain r0 c3 w3 where ac: "at_client (sel ! i) (f env) (c2, w2) = (r0, c3, w3)" by (metis prod_cases3)
    have i: "i < length sel" using that by (auto simp: I_def)
    have ne: "k \<in> js - {i} \<Longrightarrow> sel ! k \<noteq> sel ! i" for k
      using that(1) i assms(2) by (auto simp: I_def nth_eq_iff_index_eq)
    have eq: "c2 ! (sel ! i) = cs ! (sel ! i)" using that s by (auto simp: I_def)
    have r: "r = (px_name (cs ! (sel ! i)), r0)" "s1 = (c3, w3)" using that(3) ac s eq by (auto simp: g_def)
    have "r0 = fst (f env (cs ! (sel ! i), w2))" using ac eq by (auto simp: at_client_def split: prod.splits)
    then have "P i r" using r by (auto simp: P_def)
    moreover have "I s1 (js - {i})"
      using that(1) at_client_configs[OF ac] at_client_others[OF ac] ne i s r
      by (auto simp: I_def) (metis nth_mem)+
    ultimately show ?thesis by simp
  qed
  have run: "join_all order (length sel) g (cs, w) = (rs, cs', w')"
    using assms(4) by (simp add: each_client_def g_def)
  have init: "I (cs, w) {0..<length sel}" by (simp add: I_def)
  have "length rs = length sel \<and> (\<forall>i<length sel. P i (rs ! i)) \<and> I (cs', w') {}"
    by (rule join_all_outcomes[where I = I and P = P and f = g, OF assms(1) init run]) (rule step)
  then show ?thesis by (simp add: P_def I_def)
qed

end

end
