(* ===== verification/Vnc.thy ===== *)
theory Vnc
  imports Clients
begin

text \<open>
  VNC consoles (\<open>src/auth/vnc.rs\<close>, \<open>src/api/vnc.rs\<close>): signed session tokens, the two endpoints, and the
  connection limiter as a transition system of concurrent threads. JSON, base64 and HMAC-SHA256 are
  the parameter \<open>vnc_codec\<close>; the frames piped after the upgrade are not modelled, an upgrade is
  recorded as an open session with its upstream URL.
\<close>

section \<open>Tokens\<close>

definition vnc_token_ttl_secs :: nat where "vnc_token_ttl_secs = 300"

record vnc_claims =
  vt_sub :: string
  vt_iat :: nat
  vt_exp :: nat

record vnc_codec =
  vc_ser :: "vnc_claims \<Rightarrow> (string, string) result"
  vc_de :: "string \<Rightarrow> vnc_claims option"
  vc_mac :: "string \<Rightarrow> string \<Rightarrow> (string, string) result"
  vc_enc :: "string \<Rightarrow> string"
  vc_dec :: "string \<Rightarrow> string option"

definition mint_vnc_token :: "vnc_codec \<Rightarrow> string \<Rightarrow> vnc_claims \<Rightarrow> (app_error, string) result" where
  "mint_vnc_token C secret cl =
     rbind (map_err (\<lambda>e. Internal (''vnc token serialize: '' @ e)) (vc_ser C cl)) (\<lambda>payload.
     rbind (map_err (\<lambda>e. Internal (''vnc token hmac key: '' @ e)) (vc_mac C secret payload)) (\<lambda>tag.
       Ok (vc_enc C payload @ ''.'' @ vc_enc C tag)))"

text \<open>\<open>splitn(2, '.')\<close>: the text before the first dot and all that follows it.\<close>

definition split_first :: "char \<Rightarrow> string \<Rightarrow> (string \<times> string) option" where
  "split_first d s = (if d \<in> set s then Some (takeWhile (\<lambda>c. c \<noteq> d) s, tl (dropWhile (\<lambda>c. c \<noteq> d) s)) else None)"

definition verify_vnc_token :: "vnc_codec \<Rightarrow> nat \<Rightarrow> string \<Rightarrow> string \<Rightarrow> (app_error, vnc_claims) result" where
  "verify_vnc_token C now secret token =
     (case split_first (CHR ''.'') token of
        None \<Rightarrow> Err (Unauthorized ''vnc token malformed'')
      | Some (a, b) \<Rightarrow>
          (case (vc_dec C a, vc_dec C b) of
             (Some payload, Some tag) \<Rightarrow>
               (case vc_mac C secret payload of
                  Inl e \<Rightarrow> Err (Internal (''vnc token hmac key: '' @ e))
                | Inr expected \<Rightarrow>
                    if tag \<noteq> expected then Err (Unauthorized ''vnc token signature mismatch'')
                    else (case vc_de C payload of
                            None \<Rightarrow> Err (Unauthorized ''vnc token claims invalid'')
                          | Some cl \<Rightarrow> if vt_exp cl \<le> now then Err (Unauthorized ''vnc token expired'') else Ok cl))
           | _ \<Rightarrow> Err (Unauthorized ''vnc token malformed'')))"

definition vnc_subject :: "string \<Rightarrow> string \<Rightarrow> nat \<Rightarrow> string" where
  "vnc_subject cluster node vmid = ''vnc:'' @ cluster @ '':'' @ node @ '':'' @ show_nat vmid"

section \<open>The limiter\<close>

definition max_vnc_connections_per_vm :: "32 word" where "max_vnc_connections_per_vm = 5"

record limiter =
  lm_used :: "32 word"
  lm_cap :: "32 word"

definition limiter_new :: "32 word \<Rightarrow> limiter" where
  "limiter_new cap = \<lparr> lm_used = 0, lm_cap = cap \<rparr>"

text \<open>Without interference the loop of \<open>try_acquire\<close> runs once.\<close>

definition try_acquire :: "limiter \<Rightarrow> bool \<times> limiter" where
  "try_acquire l = (if lm_used l \<ge> lm_cap l then (False, l) else (True, l \<lparr> lm_used := lm_used l + 1 \<rparr>))"

definition guard_drop :: "limiter \<Rightarrow> limiter" where
  "guard_drop l = l \<lparr> lm_used := lm_used l - 1 \<rparr>"

text \<open>
  With interference: every thread is idle, has loaded a value of the counter, or holds a guard, and
  each atomic access is a step of its own.
\<close>

datatype phase = Idle | Loaded "32 word" | Holding

inductive lim_step :: "limiter \<times> phase list \<Rightarrow> limiter \<times> phase list \<Rightarrow> bool" where
  spawn: "lim_step (l, ts) (l, ts @ [Idle])"
| load: "i < length ts \<Longrightarrow> ts ! i = Idle \<Longrightarrow> lim_step (l, ts) (l, ts[i := Loaded (lm_used l)])"
| full: "i < length ts \<Longrightarrow> ts ! i = Loaded cur \<Longrightarrow> cur \<ge> lm_cap l \<Longrightarrow> lim_step (l, ts) (l, ts[i := Idle])"
| cas_ok: "i < length ts \<Longrightarrow> ts ! i = Loaded cur \<Longrightarrow> cur < lm_cap l \<Longrightarrow> lm_used l = cur
    \<Longrightarrow> lim_step (l, ts) (l \<lparr> lm_used := cur + 1 \<rparr>, ts[i := Holding])"
| cas_fail: "i < length ts \<Longrightarrow> ts ! i = Loaded cur \<Longrightarrow> cur < lm_cap l \<Longrightarrow> lm_used l \<noteq> cur
    \<Longrightarrow> lim_step (l, ts) (l, ts[i := Idle])"
| release: "i < length ts \<Longrightarrow> ts ! i = Holding \<Longrightarrow> lim_step (l, ts) (guard_drop l, ts[i := Idle])"

inductive_cases lim_stepE: "lim_step (l, ts) st'"

definition holders :: "phase list \<Rightarrow> nat" where "holders ts = count_list ts Holding"

definition lim_ok :: "limiter \<times> phase list \<Rightarrow> bool" where
  "lim_ok st = (unat (lm_used (fst st)) = holders (snd st) \<and> lm_used (fst st) \<le> lm_cap (fst st))"

section \<open>Endpoints\<close>

record vnc_proxy_ticket =
  vp_ticket :: string
  vp_port :: nat
  vp_upid :: string

record vnc_ticket_response =
  vr_vnc_token :: string
  vr_port :: nat
  vr_expires_in :: nat

definition find_cluster :: "string \<Rightarrow> 'w fleet \<Rightarrow> (app_error, nat) result" where
  "find_cluster cluster st = ok_or (NotFound (''cluster '' @ cluster)) (client_index cluster (fst st))"

definition vnc_ticket_handler :: "'w px_env \<Rightarrow> (string \<Rightarrow> (string, vnc_proxy_ticket) result) \<Rightarrow> vnc_codec
    \<Rightarrow> string option \<Rightarrow> auth_context \<Rightarrow> string \<Rightarrow> string \<Rightarrow> nat \<Rightarrow> ('w, vnc_ticket_response) fleet_op" where
  "vnc_ticket_handler env dec C secret auth cluster node vmid =
     role_gate env Operator ''operator role required for vnc'' auth (\<lambda>st.
       let now = pe_now env (snd st);
           cl = \<lparr> vt_sub = vnc_subject cluster node vmid, vt_iat = now, vt_exp = now + vnc_token_ttl_secs \<rparr> in
       case rbind (ok_or (NotFound ''vnc console disabled'') secret) (\<lambda>key.
              rbind (find_cluster cluster st) (\<lambda>i.
              rbind (mint_vnc_token C key cl) (\<lambda>token. Ok (i, token)))) of
         Inl e \<Rightarrow> (Err e, st)
       | Inr (i, token) \<Rightarrow>
           map_reply (\<lambda>up. \<lparr> vr_vnc_token = token, vr_port = vp_port up, vr_expires_in = vnc_token_ttl_secs \<rparr>)
             (at_client i (px_vnc_proxy env dec node vmid) st))"

function trim_start_str :: "string \<Rightarrow> string \<Rightarrow> string" where
  "trim_start_str p s = (if p \<noteq> [] \<and> s \<noteq> [] \<and> take (length p) s = p then trim_start_str p (drop (length p) s) else s)"
  by pat_completeness auto
termination by (relation "measure (\<lambda>(p, s). length s)") auto

declare trim_start_str.simps [simp del]

definition vnc_ws_url :: "string \<Rightarrow> string \<Rightarrow> nat \<Rightarrow> vnc_proxy_ticket \<Rightarrow> string" where
  "vnc_ws_url host_url node vmid up =
     (let scheme = (if take 5 host_url = ''https'' then ''wss'' else ''ws'');
          host = trim_end (CHR ''/'') (trim_start_str ''http://'' (trim_start_str ''https://'' host_url))
      in scheme @ ''://'' @ host @ ''/api2/json/nodes/'' @ node @ ''/qemu/'' @ show_nat vmid
         @ ''/vncwebsocket?port='' @ show_nat (vp_port up) @ ''&vncticket='' @ vp_ticket up)"

definition limiter_key :: "string \<Rightarrow> string \<Rightarrow> nat \<Rightarrow> string" where
  "limiter_key cluster node vmid = cluster @ '':'' @ node @ '':'' @ show_nat vmid"

text \<open>The limiters by machine, and the sessions whose pipe is running.\<close>

record vnc_state =
  vn_limiters :: "(string, limiter) hmap"
  vn_sessions :: "(string \<times> string) list"

text \<open>
  The guard of the slot is a local of the handler: it is dropped when the handler returns, and the
  closure given to \<open>on_upgrade\<close>, which runs after that, does not hold it.
\<close>

definition vnc_ws_handler :: "'w px_env \<Rightarrow> (string \<Rightarrow> (string, vnc_proxy_ticket) result) \<Rightarrow> vnc_codec
    \<Rightarrow> string option \<Rightarrow> string \<Rightarrow> string \<Rightarrow> nat \<Rightarrow> string
    \<Rightarrow> vnc_state \<times> 'w fleet \<Rightarrow> (app_error, unit) result \<times> vnc_state \<times> 'w fleet" where
  "vnc_ws_handler env dec C secret cluster node vmid token vst =
     (let (vs, st) = vst in
      case rbind (ok_or (NotFound ''vnc console disabled'') secret) (\<lambda>key.
             rbind (verify_vnc_token C (pe_now env (snd st)) key token) (\<lambda>cl.
             if vt_sub cl \<noteq> vnc_subject cluster node vmid
             then Err (Unauthorized ''vnc token subject mismatch'')
             else find_cluster cluster st)) of
        Inl e \<Rightarrow> (Err e, vs, st)
      | Inr i \<Rightarrow>
          (let (upstream, st') = at_client i (px_vnc_proxy env dec node vmid) st in
           case upstream of
             Inl e \<Rightarrow> (Err e, vs, st')
           | Inr up \<Rightarrow>
               (let url = vnc_ws_url (px_base_url (fst st ! i)) node vmid up;
                    key = limiter_key cluster node vmid;
                    l = (case hm_get (vn_limiters vs) key of
                           Some l \<Rightarrow> l | None \<Rightarrow> limiter_new max_vnc_connections_per_vm);
                    (got, l') = try_acquire l
                in if \<not> got
                   then (Err (TooManyRequests ''too many concurrent VNC sessions for this VM''),
                         vs \<lparr> vn_limiters := hm_put key l (vn_limiters vs) \<rparr>, st')
                   else (Ok (), \<lparr> vn_limiters = hm_put key (guard_drop l') (vn_limiters vs),
                                  vn_sessions = (key, url) # vn_sessions vs \<rparr>, st'))))"

section \<open>Lemmas\<close>

lemma split_first_append: "d \<notin> set a \<Longrightarrow> split_first d (a @ d # b) = Some (a, b)"
proof -
  assume "d \<notin> set a"
  then have "takeWhile (\<lambda>c. c \<noteq> d) (a @ d # b) = a \<and> dropWhile (\<lambda>c. c \<noteq> d) (a @ d # b) = d # b"
    by (induction a) auto
  then show ?thesis by (simp add: split_first_def)
qed

text \<open>Documented behaviour of the codec: JSON and base64url round trip, and base64url has no dot.\<close>

definition codec_ok :: "vnc_codec \<Rightarrow> bool" where
  "codec_ok C = ((\<forall>cl payload. vc_ser C cl = Inr payload \<longrightarrow> vc_de C payload = Some cl)
     \<and> (\<forall>b. vc_dec C (vc_enc C b) = Some b \<and> CHR ''.'' \<notin> set (vc_enc C b)))"

lemma verify_OkD:
  assumes "verify_vnc_token C now secret token = Inr cl"
  shows "\<exists>a b payload tag. token = a @ ''.'' @ b \<and> vc_dec C a = Some payload \<and> vc_dec C b = Some tag
     \<and> vc_mac C secret payload = Inr tag \<and> vc_de C payload = Some cl \<and> now < vt_exp cl"
proof -
  obtain a b where ab: "split_first (CHR ''.'') token = Some (a, b)"
    using assms by (auto simp: verify_vnc_token_def split: option.splits)
  have dot: "CHR ''.'' \<in> set token" using ab by (auto simp: split_first_def split: if_splits)
  have "token = a @ ''.'' @ b"
  proof -
    have "dropWhile (\<lambda>c. c \<noteq> CHR ''.'') token \<noteq> []" using dot by simp
    moreover have "hd (dropWhile (\<lambda>c. c \<noteq> CHR ''.'') token) = CHR ''.''"
      using hd_dropWhile[OF calculation] by simp
    ultimately have "dropWhile (\<lambda>c. c \<noteq> CHR ''.'') token = CHR ''.'' # tl (dropWhile (\<lambda>c. c \<noteq> CHR ''.'') token)"
      by (metis list.collapse)
    then show ?thesis using ab dot takeWhile_dropWhile_id[of "\<lambda>c. c \<noteq> CHR ''.''" token]
      by (auto simp: split_first_def)
  qed
  then show ?thesis using assms ab
    by (auto simp: verify_vnc_token_def split: option.splits sum.splits if_splits)
qed

lemma count_list_update: "i < length ts \<Longrightarrow>
    count_list (ts[i := x]) y + (if ts ! i = y then 1 else 0) = count_list ts y + (if x = y then 1 else 0)"
proof (induction ts arbitrary: i)
  case (Cons t ts)
  show ?case
  proof (cases i)
    case (Suc k)
    then show ?thesis using Cons.IH[of k] Cons.prems by (auto split: if_splits)
  qed simp
qed simp

lemma holders_update: "i < length ts \<Longrightarrow>
    holders (ts[i := x]) + (if ts ! i = Holding then 1 else 0) = holders ts + (if x = Holding then 1 else 0)"
  unfolding holders_def by (rule count_list_update)

lemma lim_ok_step [step_inv]: "lim_ok st \<Longrightarrow> lim_step st st' \<Longrightarrow> lim_ok st' \<and> lm_cap (fst st') = lm_cap (fst st)"
proof (erule lim_step.cases)
  fix l ts
  assume "lim_ok st" "st = (l, ts)" "st' = (l, ts @ [Idle])"
  then show "lim_ok st' \<and> lm_cap (fst st') = lm_cap (fst st)" by (simp add: lim_ok_def holders_def count_list_append)
next
  fix i ts l
  assume "lim_ok st" "st = (l, ts)" "st' = (l, ts[i := Loaded (lm_used l)])" "i < length ts" "ts ! i = Idle"
  then show "lim_ok st' \<and> lm_cap (fst st') = lm_cap (fst st)"
    using holders_update[of i ts "Loaded (lm_used l)"] by (simp add: lim_ok_def)
next
  fix i ts cur l
  assume "lim_ok st" "st = (l, ts)" "st' = (l, ts[i := Idle])" "i < length ts" "ts ! i = Loaded cur" "lm_cap l \<le> cur"
  then show "lim_ok st' \<and> lm_cap (fst st') = lm_cap (fst st)"
    using holders_update[of i ts Idle] by (simp add: lim_ok_def)
next
  fix i ts cur l
  assume a: "lim_ok st" "st = (l, ts)" "st' = (l \<lparr> lm_used := cur + 1 \<rparr>, ts[i := Holding])" "i < length ts"
    "ts ! i = Loaded cur" "cur < lm_cap l" "lm_used l = cur"
  have lt: "unat cur < unat (lm_cap l)" using a(6) by (simp add: word_less_nat_alt)
  moreover have "unat (lm_cap l) < 2 ^ LENGTH(32)" by (rule unsigned_less)
  ultimately have one: "unat (cur + 1) = unat cur + 1" by (simp add: unat_word_ariths)
  moreover have "cur + 1 \<le> lm_cap l" using lt one by (simp add: word_le_nat_alt)
  ultimately show "lim_ok st' \<and> lm_cap (fst st') = lm_cap (fst st)"
    using a holders_update[of i ts Holding] by (simp add: lim_ok_def)
next
  fix i ts cur l
  assume "lim_ok st" "st = (l, ts)" "st' = (l, ts[i := Idle])" "i < length ts" "ts ! i = Loaded cur"
  then show "lim_ok st' \<and> lm_cap (fst st') = lm_cap (fst st)"
    using holders_update[of i ts Idle] by (simp add: lim_ok_def)
next
  fix i ts l
  assume a: "lim_ok st" "st = (l, ts)" "st' = (guard_drop l, ts[i := Idle])" "i < length ts" "ts ! i = Holding"
  have h: "holders (ts[i := Idle]) + 1 = holders ts" using holders_update[of i ts Idle] a(4,5) by simp
  then have "0 < unat (lm_used l)" using a(1,2) by (simp add: lim_ok_def)
  then have nz: "lm_used l \<noteq> 0" by auto
  then have "unat (lm_used l - 1) = unat (lm_used l) - 1" by (rule unat_minus_one)
  moreover have "lm_used l - 1 \<le> lm_used l" using nz by (simp add: word_le_nat_alt unat_minus_one)
  ultimately show "lim_ok st' \<and> lm_cap (fst st') = lm_cap (fst st)"
    using a h by (auto simp: lim_ok_def guard_drop_def)
qed

lemma lim_ok_reachable:
  "lim_step\<^sup>*\<^sup>* st st' \<Longrightarrow> lim_ok st \<Longrightarrow> lim_ok st' \<and> lm_cap (fst st') = lm_cap (fst st)"
  by (induction rule: rtranclp_induct) (use lim_ok_step in \<open>auto\<close>)

text \<open>After a drop in the same handler the limiter is as before.\<close>

lemma acquire_drop: "try_acquire l = (True, l') \<Longrightarrow> guard_drop l' = l"
  by (auto simp: try_acquire_def guard_drop_def split: if_splits)

definition limiters_idle :: "vnc_state \<Rightarrow> bool" where
  "limiters_idle vs = (\<forall>k l. hm_get (vn_limiters vs) k = Some l \<longrightarrow> l = limiter_new max_vnc_connections_per_vm)"

lemma new_acquires: "try_acquire (limiter_new max_vnc_connections_per_vm)
    = (True, (limiter_new max_vnc_connections_per_vm) \<lparr> lm_used := 1 \<rparr>)"
  by (simp add: try_acquire_def limiter_new_def max_vnc_connections_per_vm_def)

section \<open>Properties\<close>

text \<open>C27. The limiter under concurrency: from a fresh limiter, whatever the interleaving of the atomic loads,
  compare-and-exchange operations and releases of any number of threads, the 32-bit counter is the
  number of guards held and never exceeds the cap, so it never wraps.\<close>

theorem limiter_never_exceeds_cap:
  assumes "lim_step\<^sup>*\<^sup>* (limiter_new cap, []) (l, ts)"
  shows "unat (lm_used l) = holders ts \<and> holders ts \<le> unat cap
     \<and> (\<forall>l' ts'. lim_step (l, ts) (l', ts') \<and> holders ts' < holders ts \<longrightarrow> lm_used l \<noteq> 0)"
proof -
  have "lim_ok (limiter_new cap, [])" by (simp add: lim_ok_def limiter_new_def holders_def)
  from lim_ok_reachable[OF assms this] have ok: "lim_ok (l, ts)" "lm_cap l = cap" by (simp_all add: limiter_new_def)
  then have "unat (lm_used l) = holders ts" "lm_used l \<le> cap" by (simp_all add: lim_ok_def)
  then show ?thesis by (auto simp: word_le_nat_alt)
qed

theorem limiter_never_exceeds_cap_witness:
  "unat (lm_used ((limiter_new 1) \<lparr> lm_used := 1 \<rparr>)) = holders [Holding, Loaded 0] \<and> holders [Holding, Loaded 0] \<le> unat (1 :: 32 word)"
proof -
  let ?l = "limiter_new 1"
  have "lim_step (?l, []) (?l, [Idle])" using lim_step.spawn[of ?l "[]"] by simp
  moreover have "lim_step (?l, [Idle]) (?l, [Idle, Idle])" using lim_step.spawn[of ?l "[Idle]"] by simp
  moreover have "lim_step (?l, [Idle, Idle]) (?l, [Loaded 0, Idle])"
    using lim_step.load[of 0 "[Idle, Idle]" ?l] by (simp add: limiter_new_def)
  moreover have "lim_step (?l, [Loaded 0, Idle]) (?l, [Loaded 0, Loaded 0])"
    using lim_step.load[of 1 "[Loaded 0, Idle]" ?l] by (simp add: limiter_new_def)
  moreover have "lim_step (?l, [Loaded 0, Loaded 0]) (?l \<lparr> lm_used := 1 \<rparr>, [Holding, Loaded 0])"
    using lim_step.cas_ok[of 0 "[Loaded 0, Loaded 0]" 0 ?l] by (simp add: limiter_new_def)
  ultimately have "lim_step\<^sup>*\<^sup>* (?l, []) (?l \<lparr> lm_used := 1 \<rparr>, [Holding, Loaded 0])"
    by (meson rtranclp.rtrancl_into_rtrancl rtranclp.rtrancl_refl)
  from limiter_never_exceeds_cap[OF this] show ?thesis by simp
qed

text \<open>The session cap is not enforced: a console request made while no other handler is between its two
  limiter accesses is answered the same however many sessions are open; an accepted one adds a
  session and leaves every limiter idle, so the next is accepted as well.\<close>

theorem vnc_cap_not_enforced:
  assumes "limiters_idle vs" "vnc_ws_handler env dec C secret cluster node vmid token (vs, st) = (r, vs', st')"
  shows "limiters_idle vs'
     \<and> (is_ok r \<longrightarrow> (\<exists>url. vn_sessions vs' = (limiter_key cluster node vmid, url) # vn_sessions vs))
     \<and> (\<forall>vs2. limiters_idle vs2 \<longrightarrow> fst (vnc_ws_handler env dec C secret cluster node vmid token (vs2, st)) = r)"
proof -
  define start where "start = rbind (ok_or (NotFound ''vnc console disabled'') secret) (\<lambda>key.
      rbind (verify_vnc_token C (pe_now env (snd st)) key token) (\<lambda>cl.
      if vt_sub cl \<noteq> vnc_subject cluster node vmid then Err (Unauthorized ''vnc token subject mismatch'')
      else find_cluster cluster st))"
  define key where "key = limiter_key cluster node vmid"
  define fresh where "fresh = limiter_new max_vnc_connections_per_vm"
  have lim: "(case hm_get (vn_limiters v) key of Some l \<Rightarrow> l | None \<Rightarrow> limiter_new max_vnc_connections_per_vm) = fresh"
    if "limiters_idle v" for v using that by (auto simp: limiters_idle_def fresh_def split: option.split)
  have acq: "try_acquire fresh = (True, fresh \<lparr> lm_used := 1 \<rparr>)" "guard_drop (fresh \<lparr> lm_used := 1 \<rparr>) = fresh"
    using new_acquires by (simp_all add: fresh_def guard_drop_def limiter_new_def)
  have run: "vnc_ws_handler env dec C secret cluster node vmid token (v, st) =
      (case start of Inl e \<Rightarrow> (Err e, v, st) | Inr i \<Rightarrow>
        (case at_client i (px_vnc_proxy env dec node vmid) st of
           (Inl e, st') \<Rightarrow> (Err e, v, st')
         | (Inr up, st') \<Rightarrow> (Ok (), \<lparr> vn_limiters = hm_put key fresh (vn_limiters v),
             vn_sessions = (key, vnc_ws_url (px_base_url (fst st ! i)) node vmid up) # vn_sessions v \<rparr>, st')))"
    if "limiters_idle v" for v
    unfolding vnc_ws_handler_def Let_def prod.case start_def[symmetric] key_def[symmetric] lim[OF that]
    by (simp add: acq split: sum.split prod.split)
  have idle: "limiters_idle (\<lparr> vn_limiters = hm_put key fresh (vn_limiters v), vn_sessions = ss \<rparr>)"
    if "limiters_idle v" for v ss using that by (auto simp: limiters_idle_def hm_get_put fresh_def split: if_splits)
  show ?thesis
  proof (cases start)
    case (Inl e)
    then show ?thesis using assms run by auto
  next
    case (Inr i)
    obtain x st2 where x: "at_client i (px_vnc_proxy env dec node vmid) st = (x, st2)" by (metis surj_pair)
    show ?thesis using assms(2) run[OF assms(1)] Inr x idle[OF assms(1)] assms(1) run
      by (cases x) (auto simp: key_def)
  qed
qed

text \<open>A concrete codec for the witnesses: claims as text, bytes as two letters.\<close>

fun letters :: "string \<Rightarrow> string" where
  "letters [] = []"
| "letters (c # s) = char_of (65 + byte_of c div 16) # char_of (65 + byte_of c mod 16) # letters s"

fun unletters :: "string \<Rightarrow> string option" where
  "unletters [] = Some []"
| "unletters [c] = None"
| "unletters (a # b # s) = map_option ((#) (char_of (16 * (byte_of a - 65) + (byte_of b - 65)))) (unletters s)"

definition demo_codec :: vnc_codec where
  "demo_codec = \<lparr> vc_ser = (\<lambda>c. Inr (show_nat (vt_exp c) @ ''/'' @ show_nat (vt_iat c) @ ''/'' @ vt_sub c)),
     vc_de = (\<lambda>s. case split_first (CHR ''/'') s of None \<Rightarrow> None | Some (a, b) \<Rightarrow>
        (case split_first (CHR ''/'') b of None \<Rightarrow> None | Some (c, d) \<Rightarrow>
           Some \<lparr> vt_sub = d, vt_iat = read_digits c, vt_exp = read_digits a \<rparr>)),
     vc_mac = (\<lambda>k p. Inr (take 4 k)), vc_enc = letters, vc_dec = unletters \<rparr>"

lemma byte_less: "byte_of c < 256"
  by (simp add: byte_of_def)

lemma byte_of_char_of: "n < 256 \<Longrightarrow> byte_of (char_of n) = n"
  by (simp add: byte_of_def)

lemma letter_codes: "byte_of (char_of (65 + byte_of c div 16)) = 65 + byte_of c div 16"
    "byte_of (char_of (65 + byte_of c mod 16)) = 65 + byte_of c mod 16"
  using byte_less[of c] by (simp_all add: byte_of_char_of)

lemma unletters_letters: "unletters (letters s) = Some s"
proof (induction s)
  case (Cons c s)
  have "16 * (byte_of c div 16) + byte_of c mod 16 = byte_of c" by simp
  moreover have "char_of (byte_of c) = c" by (simp add: byte_of_def)
  ultimately show ?case using Cons by (simp add: letter_codes del: char_of_nat)
qed simp

lemma letters_no_dot: "CHR ''.'' \<notin> set (letters s)"
proof (induction s)
  case (Cons c s)
  have "byte_of (CHR ''.'') = 46" by (simp add: byte_of_def)
  then show ?case using Cons letter_codes[of c] by (auto dest: arg_cong[where f = byte_of])
qed simp

lemma digits_no_slash: "CHR ''/'' \<notin> set (show_nat n)"
proof
  assume "CHR ''/'' \<in> set (show_nat n)"
  from show_nat_digits[OF this] show False by (simp add: byte_of_def)
qed

lemma demo_codec_ok: "codec_ok demo_codec"
proof -
  have "vc_de demo_codec (show_nat (vt_exp c) @ ''/'' @ show_nat (vt_iat c) @ ''/'' @ vt_sub c) = Some c" for c
    using split_first_append[OF digits_no_slash, of "vt_exp c" "show_nat (vt_iat c) @ ''/'' @ vt_sub c"]
      split_first_append[OF digits_no_slash, of "vt_iat c" "vt_sub c"] by (simp add: demo_codec_def)
  then show ?thesis by (auto simp: codec_ok_def demo_codec_def unletters_letters letters_no_dot)
qed

definition console_env :: "nat px_env" where
  "console_env = \<lparr> pe_send = (\<lambda>call w. (Reply 200 ''data'', w)), pe_now = (\<lambda>w. w), pe_status = show_nat,
     pe_ticket = (\<lambda>b. Inr \<lparr> tk_ticket = ''T'', tk_csrf = ''C'', tk_username = ''root'', tk_expires_at = 10000 \<rparr>),
     pe_string = (\<lambda>b. Inr b) \<rparr>"

definition console_ticket :: "string \<Rightarrow> (string, vnc_proxy_ticket) result" where
  "console_ticket b = Inr \<lparr> vp_ticket = b, vp_port = 5900, vp_upid = ''UPID'' \<rparr>"

definition console_claims :: vnc_claims where
  "console_claims = \<lparr> vt_sub = vnc_subject ''c1'' ''n1'' 100, vt_iat = 7, vt_exp = 307 \<rparr>"

definition console_token :: string where
  "console_token = (case mint_vnc_token demo_codec ''key1'' console_claims of Inr t \<Rightarrow> t | Inl _ \<Rightarrow> [])"

lemma verify_minted:
  assumes "codec_ok C" "mint_vnc_token C secret cl = Inr token"
  shows "verify_vnc_token C now secret token = (if vt_exp cl \<le> now then Inl (Unauthorized ''vnc token expired'') else Inr cl)"
proof -
  obtain payload tag where pt: "vc_ser C cl = Inr payload" "vc_mac C secret payload = Inr tag"
      "token = vc_enc C payload @ CHR ''.'' # vc_enc C tag"
    using assms(2) by (cases "vc_ser C cl"; cases "vc_mac C secret (projr (vc_ser C cl))") (auto simp: mint_vnc_token_def)
  then have "split_first (CHR ''.'') token = Some (vc_enc C payload, vc_enc C tag)"
    using assms(1) by (simp add: split_first_append codec_ok_def)
  then show ?thesis using pt assms(1) by (simp add: verify_vnc_token_def codec_ok_def)
qed

lemma console_verifies: "now < 307 \<Longrightarrow> verify_vnc_token demo_codec now ''key1'' console_token = Inr console_claims"
proof -
  assume "now < 307"
  have "mint_vnc_token demo_codec ''key1'' console_claims = Inr console_token"
    by (simp add: console_token_def mint_vnc_token_def demo_codec_def)
  from verify_minted[OF demo_codec_ok this, of now] \<open>now < 307\<close> show ?thesis by (simp add: console_claims_def)
qed

lemma console_accepted: "\<exists>vs' st'. vnc_ws_handler console_env console_ticket demo_codec (Some ''key1'') ''c1'' ''n1'' 100 console_token
    (\<lparr> vn_limiters = [], vn_sessions = ss \<rparr>, [demo_client], 7) = (Ok (), vs', st')"
proof -
  have "is_ok (fst (px_vnc_proxy console_env console_ticket ''n1'' 100 (demo_client, 7)))"
    by (simp add: px_vnc_proxy_def post_no_default_def finish_def px_request_def current_ticket_def ensure_ticket_def
        should_refresh_def px_login_def console_env_def demo_client_def Let_def is_success_status_def handle_response_def
        px_success_def console_ticket_def)
  then obtain up c' w' where call: "px_vnc_proxy console_env console_ticket ''n1'' 100 (demo_client, 7) = (Inr up, c', w')"
    by (metis is_ok_iff prod_cases3 fst_conv)
  have find: "client_index ''c1'' [demo_client] = Some 0" by (simp add: demo_client_def px_name_def)
  have "at_client 0 (px_vnc_proxy console_env console_ticket ''n1'' 100) ([demo_client], 7) = (Inr up, [c'], w')"
    using call by (simp add: at_client_def)
  then show ?thesis
    using find console_verifies[of 7]
    by (simp add: vnc_ws_handler_def find_cluster_def console_env_def console_claims_def hm_get_def new_acquires Let_def)
qed

theorem vnc_cap_not_enforced_witness:
  "is_ok (fst (vnc_ws_handler console_env console_ticket demo_codec (Some ''key1'') ''c1'' ''n1'' 100 console_token
     (\<lparr> vn_limiters = [], vn_sessions = replicate 50 (limiter_key ''c1'' ''n1'' 100, ''wss://pve'') \<rparr>, [demo_client], 7)))"
proof -
  obtain vs' st' where run: "vnc_ws_handler console_env console_ticket demo_codec (Some ''key1'') ''c1'' ''n1'' 100 console_token
    (\<lparr> vn_limiters = [], vn_sessions = [] \<rparr>, [demo_client], 7) = (Ok (), vs', st')"
    using console_accepted[of "[]"] by blast
  have "limiters_idle \<lparr> vn_limiters = [], vn_sessions = ss \<rparr>" for ss by (simp add: limiters_idle_def hm_get_def)
  with vnc_cap_not_enforced[OF this run] show ?thesis by (metis is_ok_iff)
qed

lemma cons_unique: "x \<notin> set a \<Longrightarrow> x \<notin> set c \<Longrightarrow> a @ x # b = c @ x # d \<Longrightarrow> a = c \<and> b = d"
proof (induction a arbitrary: c)
  case Nil
  then show ?case by (cases c) auto
next
  case (Cons y a)
  then show ?case by (cases c) auto
qed

lemma vnc_subject_inj:
  assumes "CHR '':'' \<notin> set (cluster @ node @ cluster' @ node')" "vnc_subject cluster node vmid = vnc_subject cluster' node' vmid'"
  shows "cluster = cluster' \<and> node = node' \<and> vmid = vmid'"
proof -
  have "cluster @ CHR '':'' # (node @ CHR '':'' # show_nat vmid) = cluster' @ CHR '':'' # (node' @ CHR '':'' # show_nat vmid')"
    using assms(2) by (simp add: vnc_subject_def)
  from cons_unique[OF _ _ this] assms(1)
  have "cluster = cluster'" "node @ CHR '':'' # show_nat vmid = node' @ CHR '':'' # show_nat vmid'" by auto
  with cons_unique[OF _ _ this(2)] assms(1) show ?thesis by (auto simp: show_nat_inj)
qed



end
