(* ===== verification/Console.thy ===== *)
theory Console
  imports Vnc
begin

text \<open>
  The relay behind an open console (\<open>proxmox_vnc_proxy\<close> in \<open>src/api/vnc.rs\<close>): two tasks that copy frames,
  one per direction, and the function that waits for the first of them. What the sockets deliver and
  whether a send succeeds are choices of the step relation; building the request from the URL and
  connecting are parameters.
\<close>

section \<open>Messages\<close>

text \<open>
  The frames of both WebSocket crates; \<open>Frame\<close> is a raw frame, which only the upstream crate has. The payload
  of a close frame is dropped by the relay, so that it is a parameter of what is received only.
\<close>

datatype ws_message =
    Binary string
  | Text string
  | Ping string
  | Pong string
  | Close "string option"
  | Frame string

text \<open>An item of a receiver: a message or an error; \<open>None\<close> is the end of the stream.\<close>

type_synonym ws_item = "(string, ws_message) result option"

text \<open>What a task does with an item: the message it sends, if any, and whether it goes on when the send
  succeeded and when it failed.\<close>

record reaction =
  rc_send :: "ws_message option"
  rc_if_sent :: bool
  rc_if_failed :: bool

definition stop_now :: reaction where
  "stop_now = \<lparr> rc_send = None, rc_if_sent = False, rc_if_failed = False \<rparr>"

definition skip_it :: reaction where
  "skip_it = \<lparr> rc_send = None, rc_if_sent = True, rc_if_failed = True \<rparr>"

definition send_on :: "ws_message \<Rightarrow> bool \<Rightarrow> bool \<Rightarrow> reaction" where
  "send_on m sent failed = \<lparr> rc_send = Some m, rc_if_sent = sent, rc_if_failed = failed \<rparr>"

fun browser_to_upstream :: "ws_item \<Rightarrow> reaction" where
  "browser_to_upstream None = stop_now"
| "browser_to_upstream (Some (Inr (Binary data))) = send_on (Binary data) True False"
| "browser_to_upstream (Some (Inr (Close _))) = send_on (Close None) False False"
| "browser_to_upstream (Some (Inr (Ping data))) = send_on (Ping data) True True"
| "browser_to_upstream (Some (Inr (Pong data))) = send_on (Pong data) True True"
| "browser_to_upstream (Some (Inr (Text _))) = skip_it"
| "browser_to_upstream (Some (Inr (Frame _))) = skip_it"
| "browser_to_upstream (Some (Inl e)) = stop_now"

fun upstream_to_browser :: "ws_item \<Rightarrow> reaction" where
  "upstream_to_browser None = stop_now"
| "upstream_to_browser (Some (Inr (Binary data))) = send_on (Binary data) True False"
| "upstream_to_browser (Some (Inr (Close _))) = send_on (Close None) False False"
| "upstream_to_browser (Some (Inr (Ping data))) = send_on (Ping data) True True"
| "upstream_to_browser (Some (Inr (Pong data))) = send_on (Pong data) True True"
| "upstream_to_browser (Some (Inr (Text _))) = skip_it"
| "upstream_to_browser (Some (Inr (Frame _))) = skip_it"
| "upstream_to_browser (Some (Inl e)) = stop_now"

section \<open>Tasks\<close>

text \<open>A task with the items it has received and the messages it has sent.\<close>

record pipe =
  pp_running :: bool
  pp_received :: "ws_item list"
  pp_sent :: "ws_message list"

definition pipe_new :: pipe where
  "pipe_new = \<lparr> pp_running = True, pp_received = [], pp_sent = [] \<rparr>"

definition pipe_run :: "(ws_item \<Rightarrow> reaction) \<Rightarrow> ws_item \<Rightarrow> bool \<Rightarrow> pipe \<Rightarrow> pipe" where
  "pipe_run react x ok p =
     (let r = react x in
      \<lparr> pp_running = (if ok then rc_if_sent r else rc_if_failed r), pp_received = pp_received p @ [x],
        pp_sent = (case rc_send r of Some m \<Rightarrow> if ok then pp_sent p @ [m] else pp_sent p | None \<Rightarrow> pp_sent p) \<rparr>)"

text \<open>
  The session: \<open>select!\<close> returns as soon as one task has finished and drops both handles, which detaches
  a task of the runtime instead of stopping it, so a task may step after the function has returned.
\<close>

datatype proxy_phase = Starting | Relaying pipe pipe | Finished pipe pipe | Refused string

definition proxy_start :: "(string \<Rightarrow> (string, 'rq) result) \<Rightarrow> ('rq \<Rightarrow> (string, unit) result) \<Rightarrow> string \<Rightarrow> proxy_phase" where
  "proxy_start into_request connect url =
     (case into_request url of
        Inl e \<Rightarrow> Refused (''vnc: failed to build upstream WS request'')
      | Inr rq \<Rightarrow>
          (case connect rq of
             Inl e \<Rightarrow> Refused (''vnc: failed to connect to upstream WS'')
           | Inr _ \<Rightarrow> Relaying pipe_new pipe_new))"

inductive proxy_step :: "proxy_phase \<Rightarrow> proxy_phase \<Rightarrow> bool" where
  up: "pp_running b \<Longrightarrow> proxy_step (Relaying b u) (Relaying (pipe_run browser_to_upstream x ok b) u)"
| down: "pp_running u \<Longrightarrow> proxy_step (Relaying b u) (Relaying b (pipe_run upstream_to_browser x ok u))"
| select: "\<not> pp_running b \<or> \<not> pp_running u \<Longrightarrow> proxy_step (Relaying b u) (Finished b u)"
| up_detached: "pp_running b \<Longrightarrow> proxy_step (Finished b u) (Finished (pipe_run browser_to_upstream x ok b) u)"
| down_detached: "pp_running u \<Longrightarrow> proxy_step (Finished b u) (Finished b (pipe_run upstream_to_browser x ok u))"

inductive_cases proxy_stepE: "proxy_step s s'"

section \<open>The contract of a direction\<close>

text \<open>The payloads of the binary frames.\<close>

fun binary_of :: "ws_message \<Rightarrow> string list" where
  "binary_of (Binary d) = [d]"
| "binary_of _ = []"

fun binary_in :: "ws_item \<Rightarrow> string list" where
  "binary_in (Some (Inr m)) = binary_of m"
| "binary_in _ = []"

definition sent_data :: "pipe \<Rightarrow> string list" where
  "sent_data p = concat (map binary_of (pp_sent p))"

definition received_data :: "pipe \<Rightarrow> string list" where
  "received_data p = concat (map binary_in (pp_received p))"

text \<open>
  What both directions promise: the data of a frame is sent on unchanged or the task stops, text and raw
  frames are never sent, and a close frame ends the task.
\<close>

definition control :: "ws_message \<Rightarrow> bool" where
  "control m = (m = Close None \<or> (\<exists>d. m = Ping d \<or> m = Pong d))"

locale direction =
  fixes react :: "ws_item \<Rightarrow> reaction"
  assumes sends_data: "react (Some (Inr (Binary d))) = send_on (Binary d) True False"
    and sends_no_other_data: "binary_in x = [] \<Longrightarrow> rc_send (react x) = Some m \<Longrightarrow> control m"
    and close_ends: "rc_send (react x) = Some (Close c) \<Longrightarrow> \<not> rc_if_sent (react x) \<and> \<not> rc_if_failed (react x)"
    and stops: "react None = stop_now" "react (Some (Inl e)) = stop_now"
begin

definition pipe_ok :: "pipe \<Rightarrow> bool" where
  "pipe_ok p = ((pp_running p \<longrightarrow> sent_data p = received_data p)
     \<and> (\<exists>lost. received_data p = sent_data p @ lost \<and> length lost \<le> 1)
     \<and> (\<forall>m \<in> set (pp_sent p). control m \<or> (\<exists>d. m = Binary d))
     \<and> (pp_running p \<longrightarrow> Close None \<notin> set (pp_sent p)) \<and> count_list (pp_sent p) (Close None) \<le> 1)"

lemma pipe_ok_new: "pipe_ok pipe_new"
  by (simp add: pipe_ok_def pipe_new_def sent_data_def received_data_def)

lemma pipe_ok_run:
  assumes ok: "pipe_ok p" and run: "pp_running p"
  shows "pipe_ok (pipe_run react x sent p)"
proof -
  have same: "sent_data p = received_data p" and ctl: "\<forall>m \<in> set (pp_sent p). control m \<or> (\<exists>d. m = Binary d)"
    and noclose: "Close None \<notin> set (pp_sent p)" using ok run by (simp_all add: pipe_ok_def)
  then have cl0: "count_list (pp_sent p) (Close None) = 0" by (simp add: count_list_0_iff)
  show ?thesis
  proof (cases "binary_in x")
    case Nil
    show ?thesis
    proof (cases "rc_send (react x)")
      case None
      then show ?thesis using same ctl noclose cl0 Nil
        by (simp add: pipe_ok_def pipe_run_def Let_def sent_data_def received_data_def)
    next
      case (Some m)
      then have c: "control m" using sends_no_other_data[OF Nil] by simp
      then have "binary_of m = []" by (auto simp: control_def)
      moreover have "m = Close None \<Longrightarrow> \<not> rc_if_sent (react x) \<and> \<not> rc_if_failed (react x)"
        using close_ends Some by simp
      ultimately show ?thesis using same ctl noclose cl0 Nil Some c
        by (auto simp: pipe_ok_def pipe_run_def Let_def sent_data_def received_data_def)
    qed
  next
    case (Cons d ds)
    then obtain data where x: "x = Some (Inr (Binary data))"
      by (cases x rule: binary_in.cases; cases "ok_of (the x)") (auto elim: binary_of.elims)
    then show ?thesis using same ctl noclose cl0
      by (auto simp: pipe_ok_def pipe_run_def Let_def sent_data_def received_data_def sends_data send_on_def)
  qed
qed

end

interpretation to_upstream: direction browser_to_upstream
proof
  show "binary_in x = [] \<Longrightarrow> rc_send (browser_to_upstream x) = Some m \<Longrightarrow> control m" for x m
    by (cases x rule: browser_to_upstream.cases) (auto simp: control_def send_on_def stop_now_def skip_it_def)
  show "rc_send (browser_to_upstream x) = Some (Close c) \<Longrightarrow>
      \<not> rc_if_sent (browser_to_upstream x) \<and> \<not> rc_if_failed (browser_to_upstream x)" for x c
    by (cases x rule: browser_to_upstream.cases) (auto simp: send_on_def stop_now_def skip_it_def)
qed simp_all

interpretation to_browser: direction upstream_to_browser
proof
  show "binary_in x = [] \<Longrightarrow> rc_send (upstream_to_browser x) = Some m \<Longrightarrow> control m" for x m
    by (cases x rule: upstream_to_browser.cases) (auto simp: control_def send_on_def stop_now_def skip_it_def)
  show "rc_send (upstream_to_browser x) = Some (Close c) \<Longrightarrow>
      \<not> rc_if_sent (upstream_to_browser x) \<and> \<not> rc_if_failed (upstream_to_browser x)" for x c
    by (cases x rule: upstream_to_browser.cases) (auto simp: send_on_def stop_now_def skip_it_def)
qed simp_all

section \<open>Lemmas\<close>

fun proxy_ok :: "proxy_phase \<Rightarrow> bool" where
  "proxy_ok (Relaying b u) = (to_upstream.pipe_ok b \<and> to_browser.pipe_ok u)"
| "proxy_ok (Finished b u) = (to_upstream.pipe_ok b \<and> to_browser.pipe_ok u \<and> (\<not> pp_running b \<or> \<not> pp_running u))"
| "proxy_ok _ = True"

lemma proxy_ok_start: "proxy_ok (proxy_start into connect url)"
  by (simp add: proxy_start_def to_upstream.pipe_ok_new to_browser.pipe_ok_new split: sum.split)

lemma proxy_ok_step [step_inv]: "proxy_step s s' \<Longrightarrow> proxy_ok s \<Longrightarrow> proxy_ok s'"
  by (erule proxy_stepE) (auto simp: to_upstream.pipe_ok_run to_browser.pipe_ok_run)

lemma proxy_ok_reachable: "proxy_step\<^sup>*\<^sup>* (proxy_start into connect url) s \<Longrightarrow> proxy_ok s"
  by (induction rule: rtranclp_induct) (auto intro: proxy_ok_start proxy_ok_step)

lemma up_steps: "proxy_step\<^sup>*\<^sup>* s (Relaying b u) \<Longrightarrow> pp_running b
    \<Longrightarrow> proxy_step\<^sup>*\<^sup>* s (Relaying (pipe_run browser_to_upstream x ok b) u)"
  by (erule rtranclp.rtrancl_into_rtrancl) (rule proxy_step.up)

text \<open>Data arriving from upstream is relayed one frame at a time, also after the function has returned.\<close>

lemma detached_relays:
  "pp_running u \<Longrightarrow> \<exists>u'. proxy_step\<^sup>*\<^sup>* (Finished b u) (Finished b u') \<and> pp_running u' \<and> sent_data u' = sent_data u @ ds"
proof (induction ds arbitrary: u)
  case Nil
  then show ?case by auto
next
  case (Cons d ds)
  let ?u = "pipe_run upstream_to_browser (Some (Inr (Binary d))) True u"
  have "pp_running ?u" "sent_data ?u = sent_data u @ [d]"
    by (simp_all add: pipe_run_def send_on_def sent_data_def)
  moreover have "proxy_step (Finished b u) (Finished b ?u)" using Cons.prems by (rule proxy_step.down_detached)
  ultimately show ?case using Cons.IH[of ?u] by (auto intro: converse_rtranclp_into_rtranclp)
qed

section \<open>Properties\<close>

text \<open>C31. The console relays what it receives: in every reachable state of a session and in both directions, the data
  sent on is the data received, in order and unchanged, except that a task that has stopped may have lost the
  one frame whose send failed; apart from data only pings, pongs and one final empty close are sent, so text
  never crosses the relay.\<close>

theorem console_relays_data:
  assumes "proxy_step\<^sup>*\<^sup>* (proxy_start into connect url) s" and "s = Relaying b u \<or> s = Finished b u" and "p = b \<or> p = u"
  shows "(pp_running p \<longrightarrow> sent_data p = received_data p)
    \<and> (\<exists>lost. received_data p = sent_data p @ lost \<and> length lost \<le> 1)
    \<and> (\<forall>m \<in> set (pp_sent p). m = Close None \<or> (\<exists>d. m = Binary d \<or> m = Ping d \<or> m = Pong d))
    \<and> count_list (pp_sent p) (Close None) \<le> (if pp_running p then 0 else 1)"
proof -
  have "to_upstream.pipe_ok p \<or> to_browser.pipe_ok p"
    using proxy_ok_reachable[OF assms(1)] assms(2,3) by auto
  then show ?thesis
    unfolding to_upstream.pipe_ok_def to_browser.pipe_ok_def control_def by (auto simp: count_list_0_iff)
qed

definition demo_pipe :: pipe where
  "demo_pipe = pipe_run browser_to_upstream (Some (Inr (Close (Some ''bye'')))) True
     (pipe_run browser_to_upstream (Some (Inr (Text ''t''))) True
       (pipe_run browser_to_upstream (Some (Inr (Binary ''key''))) True pipe_new))"

theorem console_relays_data_witness:
  "pp_sent demo_pipe = [Binary ''key'', Close None] \<and> count_list (pp_sent demo_pipe) (Close None) \<le> 1"
proof -
  let ?s = "proxy_start (\<lambda>u. Inr u) (\<lambda>_. Inr ()) ''ws://h''"
  have start: "?s = Relaying pipe_new pipe_new" by (simp add: proxy_start_def)
  have "proxy_step\<^sup>*\<^sup>* ?s (Relaying demo_pipe pipe_new)"
    unfolding start demo_pipe_def
    by (intro up_steps) (simp_all add: pipe_new_def pipe_run_def send_on_def skip_it_def)
  then have "count_list (pp_sent demo_pipe) (Close None) \<le> (if pp_running demo_pipe then 0 else 1)"
    using console_relays_data[of "\<lambda>u. Inr u" "\<lambda>_. Inr ()" "''ws://h''" "Relaying demo_pipe pipe_new" demo_pipe pipe_new demo_pipe]
    by blast
  moreover have "pp_sent demo_pipe = [Binary ''key'', Close None]"
    by (simp add: demo_pipe_def pipe_run_def pipe_new_def send_on_def skip_it_def)
  ultimately show ?thesis by (auto split: if_splits)
qed

text \<open>The relay outlives its session: when the browser disappears without closing, the waiting function returns,
  but the other task has only been detached; it goes on copying whatever the cluster sends, for as long as the
  sends do not fail.\<close>

theorem console_outlives_session:
  assumes "into url = Inr rq" "connect rq = Inr ()"
  shows "\<exists>b. proxy_step\<^sup>*\<^sup>* (proxy_start into connect url) (Finished b pipe_new) \<and> \<not> pp_running b
    \<and> (\<forall>ds. \<exists>u. proxy_step\<^sup>*\<^sup>* (Finished b pipe_new) (Finished b u) \<and> pp_running u \<and> sent_data u = ds)"
proof -
  let ?b = "pipe_run browser_to_upstream (Some (Inl ''reset'')) False pipe_new"
  have start: "proxy_start into connect url = Relaying pipe_new pipe_new" by (simp add: proxy_start_def assms)
  have run: "pp_running pipe_new" "sent_data pipe_new = []" by (simp_all add: pipe_new_def sent_data_def)
  have stop: "\<not> pp_running ?b" by (simp add: pipe_run_def stop_now_def)
  have "proxy_step (Relaying pipe_new pipe_new) (Relaying ?b pipe_new)" using run(1) by (rule proxy_step.up)
  moreover have "proxy_step (Relaying ?b pipe_new) (Finished ?b pipe_new)" using stop by (intro proxy_step.select) simp
  ultimately have "proxy_step\<^sup>*\<^sup>* (proxy_start into connect url) (Finished ?b pipe_new)"
    unfolding start by (meson converse_rtranclp_into_rtranclp rtranclp.rtrancl_refl)
  moreover have "\<exists>u. proxy_step\<^sup>*\<^sup>* (Finished ?b pipe_new) (Finished ?b u) \<and> pp_running u \<and> sent_data u = ds" for ds
    using detached_relays[OF run(1), of ?b ds] by (simp add: run(2))
  ultimately show ?thesis using stop by blast
qed

theorem console_outlives_session_witness:
  "\<exists>b u. proxy_step\<^sup>*\<^sup>* (proxy_start (\<lambda>u. Inr u) (\<lambda>_. Inr ()) ''ws://h'') (Finished b u) \<and> \<not> pp_running b
     \<and> pp_running u \<and> sent_data u = [''screen'']"
proof -
  obtain b where "proxy_step\<^sup>*\<^sup>* (proxy_start (\<lambda>u. Inr u) (\<lambda>_. Inr ()) ''ws://h'') (Finished b pipe_new)" "\<not> pp_running b"
    and "\<forall>ds. \<exists>u. proxy_step\<^sup>*\<^sup>* (Finished b pipe_new) (Finished b u) \<and> pp_running u \<and> sent_data u = ds"
    using console_outlives_session[of "\<lambda>u. Inr u" "''ws://h''" "''ws://h''" "\<lambda>_. Inr ()"] by auto
  then show ?thesis by (meson rtranclp_trans)
qed

end
