(* ===== verification/Console_Tls.thy ===== *)
theory Console_Tls
  imports Console
begin

text \<open>
  The TLS settings meant for the console's connection to a cluster (\<open>tls_connector\<close> and \<open>NoCertVerifier\<close> in
  \<open>src/proxmox/client.rs\<close>), and what the connection of \<open>src/api/vnc.rs\<close> makes of them. The provider of the
  cryptography, the bundled roots and the checks of \<open>rustls\<close> are parameters.
\<close>

section \<open>The connector\<close>

datatype 'r server_check = NoCertVerifier | WithRoots "'r list"

text \<open>The provider that is installed, or the default one; then the certificate check of the cluster's setting.\<close>

definition tls_connector :: "'p option \<Rightarrow> 'p \<Rightarrow> ('p \<Rightarrow> (string, unit) result) \<Rightarrow> 'r list \<Rightarrow> px_client
    \<Rightarrow> ('p \<times> 'r server_check) option" where
  "tls_connector installed aws_lc_rs safe_versions tls_server_roots c =
     (let provider = opt_or aws_lc_rs installed
      in case ok_of (safe_versions provider) of
           None \<Rightarrow> None
         | Some _ \<Rightarrow>
             Some (provider, if cc_insecure_skip_verify (pc_config c) then NoCertVerifier else WithRoots tls_server_roots))"

text \<open>The questions a handshake asks: \<open>NoCertVerifier\<close> affirms them all, otherwise \<open>rustls\<close> checks.\<close>

datatype ('chain, 'sig) tls_question = ServerCert 'chain | Tls12Signature 'sig | Tls13Signature 'sig

fun tls_verify :: "('r list \<Rightarrow> ('chain, 'sig) tls_question \<Rightarrow> (string, unit) result) \<Rightarrow> 'r server_check
    \<Rightarrow> ('chain, 'sig) tls_question \<Rightarrow> (string, unit) result" where
  "tls_verify webpki NoCertVerifier (ServerCert chain) = Ok ()"
| "tls_verify webpki NoCertVerifier (Tls12Signature s) = Ok ()"
| "tls_verify webpki NoCertVerifier (Tls13Signature s) = Ok ()"
| "tls_verify webpki (WithRoots roots) q = webpki roots q"

section \<open>The connection of a console\<close>

text \<open>From the ticket to the open connection: the URL is all the connection is made from.\<close>

definition console_connect :: "(string \<Rightarrow> (string, 'rq) result) \<Rightarrow> ('rq \<Rightarrow> (string, unit) result) \<Rightarrow> px_client \<Rightarrow> string \<Rightarrow> nat
    \<Rightarrow> vnc_proxy_ticket \<Rightarrow> proxy_phase" where
  "console_connect into_request connect c node vmid up =
     proxy_start into_request connect (vnc_ws_url (px_base_url c) node vmid up)"

definition with_tls_settings :: "bool \<Rightarrow> string option \<Rightarrow> px_client \<Rightarrow> px_client" where
  "with_tls_settings insecure ca c =
     c \<lparr> pc_config := (pc_config c) \<lparr> cc_insecure_skip_verify := insecure, cc_ca_cert_pem := ca \<rparr> \<rparr>"

section \<open>Properties\<close>

text \<open>The connector affirms everything for a cluster set to skip verification, and checks against the bundled roots
  otherwise. The certificate authority configured for the cluster has no part in it, although the HTTP client of the same
  cluster trusts it.\<close>

theorem tls_connector_trust:
  assumes "tls_connector installed aws safe roots (with_tls_settings insecure ca c) = Some (provider, check)"
  shows "provider = opt_or aws installed \<and> tls_verify webpki check q = (if insecure then Ok () else webpki roots q)
    \<and> tls_connector installed aws safe roots (with_tls_settings insecure ca' c) = Some (provider, check)"
proof -
  have "tls_verify webpki NoCertVerifier q = Ok ()" by (cases q) simp_all
  then show ?thesis using assms
    by (auto simp: tls_connector_def with_tls_settings_def Let_def split: option.splits if_splits)
qed

theorem tls_connector_trust_witness:
  "tls_verify (\<lambda>roots q. if q = ServerCert (hd roots) then Ok () else Err ''unknown issuer'')
     (snd (the (tls_connector None (0 :: nat) (\<lambda>_. Ok ()) [1 :: nat] (with_tls_settings False (Some ''own ca'') demo_client))))
     (ServerCert 2 :: (nat, nat) tls_question) = Err ''unknown issuer''"
proof -
  have "tls_connector None (0 :: nat) (\<lambda>_. Ok ()) [1 :: nat] (with_tls_settings False (Some ''own ca'') demo_client)
      = Some (0, WithRoots [1])" by (simp add: tls_connector_def with_tls_settings_def)
  from tls_connector_trust[OF this, of "\<lambda>roots q. if q = ServerCert (hd roots) then Ok () else Err ''unknown issuer''"
      "ServerCert 2 :: (nat, nat) tls_question"] this show ?thesis by simp
qed

text \<open>The relay does not use the connector: whatever TLS settings the cluster has, its console connects, or fails
  to connect, in the same way.\<close>

theorem console_ignores_tls_settings:
  "console_connect into_request connect (with_tls_settings insecure ca c) node vmid up
    = console_connect into_request connect c node vmid up"
  by (simp add: console_connect_def with_tls_settings_def px_base_url_def)

end
