(* ===== verification/Serde.thy ===== *)
theory Serde
  imports Http
begin

text \<open>
  Reading and writing JSON values as the derived \<open>Deserialize\<close> and \<open>Serialize\<close> implementations of the
  program's structs do (the attributes \<open>default\<close>, \<open>rename\<close> and \<open>skip_serializing_if\<close>): a struct is read from
  an object, whose unknown members are skipped, whose repeated known members are an error and whose
  missing members take their default if they have one, or from an array with the fields in order.
  Parsing the text into a value is the \<open>serde_json\<close> crate's. A decoder yields \<open>None\<close> for every data
  error; the texts of the errors are not modelled.
\<close>

type_synonym 'a de = "json \<Rightarrow> 'a option"

section \<open>Plain values\<close>

fun de_string :: "string de" where
  "de_string (JStr s) = Some s" | "de_string _ = None"

fun de_bool :: "bool de" where
  "de_bool (JBool b) = Some b" | "de_bool _ = None"

text \<open>Unsigned integers of \<open>w\<close> bits; a number with a sign, a fraction or an exponent is not one.\<close>

fun de_uint :: "nat \<Rightarrow> nat de" where
  "de_uint w (JNum n) = (if n < 2 ^ w then Some n else None)" | "de_uint w _ = None"

fun de_opt :: "'a de \<Rightarrow> 'a option de" where
  "de_opt d j = (case j of JNull \<Rightarrow> Some None | _ \<Rightarrow> map_option Some (d j))"

declare de_uint.simps [simp del] de_opt.simps [simp del]

fun collect_options :: "'a option list \<Rightarrow> 'a list option" where
  "collect_options [] = Some []"
| "collect_options (x # xs) = (case x of None \<Rightarrow> None | Some v \<Rightarrow> map_option (Cons v) (collect_options xs))"

fun de_list :: "'a de \<Rightarrow> 'a list de" where
  "de_list d (JArr xs) = collect_options (map d xs)" | "de_list d _ = None"

fun ser_opt :: "('a \<Rightarrow> json) \<Rightarrow> 'a option \<Rightarrow> json" where
  "ser_opt f None = JNull" | "ser_opt f (Some x) = f x"

section \<open>Structs\<close>

text \<open>Where the fields come from: the members of an object, or the elements of an array not yet read.\<close>

datatype source = Members "(string \<times> json) list" | Elements "json list"

type_synonym 'a fields = "source \<Rightarrow> ('a \<times> source) option"

definition fret :: "'a \<Rightarrow> 'a fields" where "fret x s = Some (x, s)"

definition fbind :: "'a fields \<Rightarrow> ('a \<Rightarrow> 'b fields) \<Rightarrow> 'b fields" where
  "fbind m k s = (case m s of None \<Rightarrow> None | Some (x, s') \<Rightarrow> k x s')"

text \<open>One field: its decoder, its value when no member has its name, its value when the array has ended.\<close>

definition field :: "'a option \<Rightarrow> 'a option \<Rightarrow> string \<Rightarrow> 'a de \<Rightarrow> 'a fields" where
  "field absent short name d s =
     (case s of
        Members kvs \<Rightarrow>
          (case filter (\<lambda>kv. fst kv = name) kvs of
             [] \<Rightarrow> map_option (\<lambda>x. (x, s)) absent
           | [kv] \<Rightarrow> map_option (\<lambda>x. (x, s)) (d (snd kv))
           | _ \<Rightarrow> None)
      | Elements [] \<Rightarrow> map_option (\<lambda>x. (x, s)) short
      | Elements (j # js) \<Rightarrow> map_option (\<lambda>x. (x, Elements js)) (d j))"

text \<open>A required field, an \<open>Option\<close> without and with the attribute \<open>default\<close>, and a default of its own.\<close>

definition req :: "string \<Rightarrow> 'a de \<Rightarrow> 'a fields" where "req = field None None"
definition opt :: "string \<Rightarrow> 'a de \<Rightarrow> 'a option fields" where "opt name d = field (Some None) None name (de_opt d)"
definition optd :: "string \<Rightarrow> 'a de \<Rightarrow> 'a option fields" where "optd name d = field (Some None) (Some None) name (de_opt d)"
definition dflt :: "'a \<Rightarrow> string \<Rightarrow> 'a de \<Rightarrow> 'a fields" where "dflt v = field (Some v) (Some v)"

definition de_struct :: "'a fields \<Rightarrow> 'a de" where
  "de_struct p j =
     (case j of
        JObj kvs \<Rightarrow> map_option fst (p (Members kvs))
      | JArr xs \<Rightarrow> (case p (Elements xs) of Some (x, Elements []) \<Rightarrow> Some x | _ \<Rightarrow> None)
      | _ \<Rightarrow> None)"

text \<open>Writing: a member that is always there, and one that is left out when it is \<open>None\<close>.\<close>

definition mem :: "string \<Rightarrow> json \<Rightarrow> (string \<times> json) list" where "mem name j = [(name, j)]"

definition mem_some :: "string \<Rightarrow> ('a \<Rightarrow> json) \<Rightarrow> 'a option \<Rightarrow> (string \<times> json) list" where
  "mem_some name f x = (case x of None \<Rightarrow> [] | Some v \<Rightarrow> [(name, f v)])"

section \<open>Laws\<close>

named_theorems serde_fields \<open>reading a field from the members written for it\<close>

lemma fret_eq [simp]: "fret x s = Some (x, s)" by (simp add: fret_def)

lemma filter_mem [simp]:
  "filter (\<lambda>kv. fst kv = name) (mem name' j) = (if name' = name then [(name, j)] else [])"
  "filter (\<lambda>kv. fst kv = name) (mem_some name' f x) =
     (if name' = name then (case x of None \<Rightarrow> [] | Some v \<Rightarrow> [(name, f v)]) else [])"
  by (auto simp: mem_def mem_some_def split: option.split)

lemma fbind_req [serde_fields]:
  "filter (\<lambda>kv. fst kv = name) kvs = [(name, j)] \<Longrightarrow> d j = Some x \<Longrightarrow> fbind (req name d) k (Members kvs) = k x (Members kvs)"
  by (simp add: fbind_def req_def field_def)

lemma fbind_dflt [serde_fields]:
  "filter (\<lambda>kv. fst kv = name) kvs = [(name, j)] \<Longrightarrow> d j = Some x \<Longrightarrow> fbind (dflt v name d) k (Members kvs) = k x (Members kvs)"
  by (simp add: fbind_def dflt_def field_def)

lemma fbind_optd [serde_fields]:
  "filter (\<lambda>kv. fst kv = name) kvs = [(name, ser_opt f x)] \<Longrightarrow> (\<And>v. x = Some v \<Longrightarrow> d (f v) = Some v \<and> f v \<noteq> JNull)
     \<Longrightarrow> fbind (optd name d) k (Members kvs) = k x (Members kvs)"
  by (cases x) (auto simp: fbind_def optd_def field_def de_opt.simps split: json.splits)

lemma fbind_optd_some [serde_fields]:
  "filter (\<lambda>kv. fst kv = name) kvs = (case x of None \<Rightarrow> [] | Some v \<Rightarrow> [(name, f v)])
     \<Longrightarrow> (\<And>v. x = Some v \<Longrightarrow> d (f v) = Some v \<and> f v \<noteq> JNull)
     \<Longrightarrow> fbind (optd name d) k (Members kvs) = k x (Members kvs)"
  by (cases x) (auto simp: fbind_def optd_def field_def de_opt.simps split: json.splits)

text \<open>
  What a struct reads: only the members with the names of its fields, and of those only the sequence of
  values, so neither the order of the members nor unknown members matter.
\<close>

definition named :: "string \<Rightarrow> (string \<times> json) list \<Rightarrow> json list" where
  "named name kvs = map snd (filter (\<lambda>kv. fst kv = name) kvs)"

definition agree_on :: "string set \<Rightarrow> (string \<times> json) list \<Rightarrow> (string \<times> json) list \<Rightarrow> bool" where
  "agree_on names kvs kvs' = (\<forall>n\<in>names. named n kvs = named n kvs')"

definition reads :: "string set \<Rightarrow> 'a fields \<Rightarrow> bool" where
  "reads names p = (\<forall>kvs kvs'. agree_on names kvs kvs' \<longrightarrow>
     (case p (Members kvs) of
        None \<Rightarrow> p (Members kvs') = None
      | Some (x, s) \<Rightarrow> s = Members kvs \<and> p (Members kvs') = Some (x, Members kvs')))"

lemma readsD:
  assumes "reads names p" "agree_on names kvs kvs'"
  shows "p (Members kvs) = None \<and> p (Members kvs') = None
    \<or> (\<exists>x. p (Members kvs) = Some (x, Members kvs) \<and> p (Members kvs') = Some (x, Members kvs'))"
  using assms unfolding reads_def by (cases "p (Members kvs)") fastforce+

lemma reads_ret [intro]: "reads names (fret x)"
  by (simp add: reads_def)

lemma reads_field [intro]:
  assumes "name \<in> names"
  shows "reads names (field absent short name d)"
proof -
  have "field absent short name d (Members kvs) = (case named name kvs of
        [] \<Rightarrow> map_option (\<lambda>x. (x, Members kvs)) absent
      | [j] \<Rightarrow> map_option (\<lambda>x. (x, Members kvs)) (d j) | _ \<Rightarrow> None)" for kvs
    by (simp add: field_def named_def split: list.split)
  then show ?thesis using assms
    by (auto simp: reads_def agree_on_def split: list.split option.splits)
qed

lemma reads_bind [intro]:
  assumes "reads names m" "\<And>x. reads names (k x)"
  shows "reads names (fbind m k)"
  unfolding reads_def
proof (intro allI impI)
  fix kvs kvs'
  assume a: "agree_on names kvs kvs'"
  from readsD[OF assms(1) a] show "case fbind m k (Members kvs) of
        None \<Rightarrow> fbind m k (Members kvs') = None
      | Some (x, s) \<Rightarrow> s = Members kvs \<and> fbind m k (Members kvs') = Some (x, Members kvs')"
  proof (elim disjE conjE exE)
    fix x
    assume "m (Members kvs) = Some (x, Members kvs)" "m (Members kvs') = Some (x, Members kvs')"
    with readsD[OF assms(2)[of x] a] show ?thesis by (auto simp: fbind_def)
  qed (simp add: fbind_def)
qed

lemma reads_fields [intro]:
  "name \<in> names \<Longrightarrow> reads names (req name d)" "name \<in> names \<Longrightarrow> reads names (opt name d')"
  "name \<in> names \<Longrightarrow> reads names (optd name d')" "name \<in> names \<Longrightarrow> reads names (dflt v name d)"
  by (auto simp: req_def opt_def optd_def dflt_def)

lemma de_struct_agree: "reads names p \<Longrightarrow> agree_on names kvs kvs' \<Longrightarrow> de_struct p (JObj kvs) = de_struct p (JObj kvs')"
  by (auto simp: de_struct_def dest: readsD)

text \<open>Members may come in any order when no name is repeated.\<close>

lemma named_perm:
  assumes "distinct (map fst kvs)" "mset kvs = mset kvs'"
  shows "named n kvs = named n kvs'"
proof -
  have d': "distinct (map fst kvs')" using assms by (metis mset_map mset_eq_imp_distinct_iff)
  have "named n xs = (case map_of xs n of None \<Rightarrow> [] | Some j \<Rightarrow> [j])" if "distinct (map fst xs)" for xs
    using that by (induction xs) (auto simp: named_def filter_empty_conv image_iff split: option.split)
  moreover have "map_of kvs = map_of kvs'"
    using assms d' by (intro map_of_inject_set[THEN iffD2]) (auto dest: mset_eq_setD)
  ultimately show ?thesis using assms(1) d' by simp
qed

lemma agree_perm: "distinct (map fst kvs) \<Longrightarrow> mset kvs = mset kvs' \<Longrightarrow> agree_on names kvs kvs'"
  by (simp add: agree_on_def named_perm)

lemma agree_unknown: "fst ` set extra \<inter> names = {} \<Longrightarrow> agree_on names (kvs @ extra) kvs"
  by (auto simp: agree_on_def named_def filter_empty_conv)

text \<open>
  A value that was written is read back from its members in any order, with any members the struct does
  not name among them.
\<close>

definition reads_back :: "'a de \<Rightarrow> ('a \<Rightarrow> json) \<Rightarrow> ('a \<Rightarrow> bool) \<Rightarrow> string list \<Rightarrow> bool" where
  "reads_back d ser fits names = (\<forall>r extra kvs'. fits r \<longrightarrow>
     (case ser r of
        JObj kvs \<Rightarrow> distinct (map fst kvs') \<longrightarrow> mset kvs' = mset (kvs @ extra) \<longrightarrow> fst ` set extra \<inter> set names = {}
          \<longrightarrow> d (JObj kvs') = Some r
      | _ \<Rightarrow> False))"

lemma reads_backI:
  assumes "reads (set names) p" "\<And>r. fits r \<Longrightarrow> de_struct p (ser r) = Some r" "\<And>r. \<exists>kvs. ser r = JObj kvs"
  shows "reads_back (de_struct p) ser fits names"
  unfolding reads_back_def
proof (intro allI impI)
  fix r extra kvs'
  assume f: "fits r"
  obtain kvs where k: "ser r = JObj kvs" using assms(3) by blast
  have "de_struct p (JObj kvs') = Some r"
    if "distinct (map fst kvs')" "mset kvs' = mset (kvs @ extra)" "fst ` set extra \<inter> set names = {}"
  proof -
    from that have "agree_on (set names) kvs' kvs"
      using agree_perm[of kvs' "kvs @ extra" "set names"] agree_unknown[of extra "set names" kvs]
      by (simp add: agree_on_def)
    from de_struct_agree[OF assms(1) this] show ?thesis using assms(2)[OF f] k by simp
  qed
  then show "case ser r of
      JObj kvs \<Rightarrow> distinct (map fst kvs') \<longrightarrow> mset kvs' = mset (kvs @ extra) \<longrightarrow> fst ` set extra \<inter> set names = {}
        \<longrightarrow> de_struct p (JObj kvs') = Some r
    | _ \<Rightarrow> False" by (simp add: k)
qed

text \<open>What every value a reader yields satisfies, from what the decoders of its fields yield.\<close>

definition gives :: "('a \<Rightarrow> bool) \<Rightarrow> 'a de \<Rightarrow> bool" where
  "gives P d = (\<forall>j x. d j = Some x \<longrightarrow> P x)"

definition yields :: "('a \<Rightarrow> bool) \<Rightarrow> 'a fields \<Rightarrow> bool" where
  "yields P p = (\<forall>s x s'. p s = Some (x, s') \<longrightarrow> P x)"

lemma yields_ret: "P x \<Longrightarrow> yields P (fret x)"
  by (simp add: yields_def)

lemma yields_bind: "yields Q m \<Longrightarrow> (\<And>x. Q x \<Longrightarrow> yields P (k x)) \<Longrightarrow> yields P (fbind m k)"
  by (force simp: yields_def fbind_def split: option.splits)

lemma yields_field:
  "gives P d \<Longrightarrow> (\<And>x. absent = Some x \<Longrightarrow> P x) \<Longrightarrow> (\<And>x. short = Some x \<Longrightarrow> P x) \<Longrightarrow> yields P (field absent short name d)"
  by (auto simp: yields_def gives_def field_def split: source.splits list.splits)

lemma gives_opt: "gives P d \<Longrightarrow> gives (case_option True P) (de_opt d)"
  by (auto simp: gives_def de_opt.simps split: json.splits)

lemma yields_fields:
  "gives P d \<Longrightarrow> yields P (req name d)"
  "gives P d \<Longrightarrow> yields (case_option True P) (opt name d)"
  "gives P d \<Longrightarrow> yields (case_option True P) (optd name d)"
  "gives P d \<Longrightarrow> P v \<Longrightarrow> yields P (dflt v name d)"
  using gives_opt[of P d] by (auto simp: req_def opt_def optd_def dflt_def intro!: yields_field)

lemma gives_struct: "yields P p \<Longrightarrow> gives P (de_struct p)"
  by (fastforce simp: gives_def yields_def de_struct_def split: json.splits option.splits source.splits list.splits)

lemma gives_any: "gives (\<lambda>_. True) d"
  by (simp add: gives_def)

lemma gives_uint: "gives (\<lambda>n. n < 2 ^ w) (de_uint w)"
proof -
  have "de_uint w j = Some n \<Longrightarrow> n < 2 ^ w" for j n by (cases j) (auto simp: de_uint.simps split: if_splits)
  then show ?thesis by (simp add: gives_def)
qed

lemma collect_options_all: "collect_options xs = Some ys \<Longrightarrow> list_all2 (\<lambda>x y. x = Some y) xs ys"
  by (induction xs arbitrary: ys) (auto split: option.splits)

lemma collect_options_map: "(\<And>x. x \<in> set xs \<Longrightarrow> f x = Some (g x)) \<Longrightarrow> collect_options (map f xs) = Some (map g xs)"
  by (induction xs) auto

lemma gives_list: "gives P d \<Longrightarrow> gives (list_all P) (de_list d)"
proof -
  assume g: "gives P d"
  have "list_all P xs" if eq: "de_list d j = Some xs" for j xs
  proof -
    from eq obtain js where "collect_options (map d js) = Some xs" by (cases j) auto
    from collect_options_all[OF this] g show ?thesis
      by (fastforce simp: list_all_length list_all2_conv_all_nth gives_def)
  qed
  then show ?thesis by (simp add: gives_def)
qed

end
