(* ===== verification/Handlers.thy ===== *)
theory Handlers
  imports Clients
begin

text \<open>
  The shapes the API handlers share: the operator check at the head of a handler, one call to the
  cluster a path names, and the listings that ask every cluster and report failures per cluster.
  The handlers of \<open>api/vms.rs\<close>, \<open>api/lxcs.rs\<close>, \<open>api/storages.rs\<close> and the others are instances.
\<close>

section \<open>Gates\<close>

definition operator_gate :: "'w px_env \<Rightarrow> auth_context \<Rightarrow> ('w, 'a) fleet_op \<Rightarrow> ('w, 'a) fleet_op" where
  "operator_gate env auth = role_gate env Operator ''operator role required'' auth"

section \<open>Listings over all clusters\<close>

text \<open>One pass over the outcomes of all clusters: rows of the successes, messages of the failures.\<close>

fun gather :: "(string \<Rightarrow> 'a \<Rightarrow> 'b list) \<Rightarrow> (string \<times> (app_error, 'a) result) list
    \<Rightarrow> 'b list \<Rightarrow> (string, string) hmap \<Rightarrow> 'b list \<times> (string, string) hmap" where
  "gather rows_of [] rows errors = (rows, errors)"
| "gather rows_of ((name, r) # rest) rows errors =
     (case r of
        Inr listed \<Rightarrow> gather rows_of rest (rows @ rows_of name listed) errors
      | Inl e \<Rightarrow> gather rows_of rest rows (hm_put name (display_error e) errors))"

definition list_endpoint :: "nat list \<Rightarrow> ('w, 'a) px \<Rightarrow> (string \<Rightarrow> 'a \<Rightarrow> 'b list) \<Rightarrow> 'w fleet
    \<Rightarrow> ('b list \<times> (string, string) hmap) \<times> 'w fleet" where
  "list_endpoint order f rows_of st =
     (let (results, st') = each_client order [0..<length (fst st)] f st
      in (gather rows_of results [] hm_empty, st'))"

text \<open>The same pass when the successes are stored under the name of their cluster.\<close>

fun gather_data :: "(string \<times> (app_error, 'a) result) list \<Rightarrow> (string, 'a) hmap \<Rightarrow> (string, string) hmap
    \<Rightarrow> (string, 'a) hmap \<times> (string, string) hmap" where
  "gather_data [] data errors = (data, errors)"
| "gather_data ((name, r) # rest) data errors =
     (case r of
        Inr value \<Rightarrow> gather_data rest (hm_put name value data) errors
      | Inl e \<Rightarrow> gather_data rest data (hm_put name (display_error e) errors))"

definition data_endpoint :: "nat list \<Rightarrow> ('w, 'a) px \<Rightarrow> 'w fleet
    \<Rightarrow> ((string, 'a) hmap \<times> (string, string) hmap) \<times> 'w fleet" where
  "data_endpoint order f st =
     (let (results, st') = each_client order [0..<length (fst st)] f st
      in (gather_data results hm_empty hm_empty, st'))"

section \<open>Staying within one cluster\<close>

text \<open>An operation that stays within one cluster.\<close>

definition stays :: "string \<Rightarrow> 'w fleet \<Rightarrow> (app_error, 'a) result \<times> 'w fleet \<Rightarrow> bool" where
  "stays cl st x = (let cs = fst st; cs' = fst (snd x) in
     map pc_config cs' = map pc_config cs \<and> (\<forall>j. px_name (cs ! j) \<noteq> cl \<longrightarrow> cs' ! j = cs ! j)
     \<and> (cl \<notin> px_name ` set cs \<longrightarrow> snd x = st \<and> \<not> is_ok (fst x)))"

definition within :: "string \<Rightarrow> ('w px_env \<Rightarrow> ('w, 'a) fleet_op) \<Rightarrow> bool" where
  "within cl h = (\<forall>env st. stays cl st (h env st)
     \<and> (\<forall>env'. (\<forall>c\<in>set (fst st). px_name c = cl \<longrightarrow> same_to (px_host c) env env') \<longrightarrow> h env st = h env' st))"

lemma within_on_cluster:
  assumes f: "client_call f"
  shows "within cl (\<lambda>env. on_cluster cl (f env))"
  unfolding within_def
proof (intro allI conjI impI)
  fix env :: "'a px_env" and st :: "'a fleet"
  obtain cs w where st: "st = (cs, w)" by fastforce
  obtain r cs' w' where run: "on_cluster cl (f env) (cs, w) = (r, cs', w')" by (metis prod_cases3)
  have "cl \<notin> px_name ` set cs \<Longrightarrow> client_index cl cs = None" by (simp add: client_index_None)
  then show "stays cl st (on_cluster cl (f env) st)"
    using client_call.on_cluster_configs[OF f run] client_call.on_cluster_others[OF f run] run
    by (auto simp: stays_def st on_cluster_def)
next
  fix env env' :: "'a px_env" and st :: "'a fleet"
  assume s: "\<forall>c\<in>set (fst st). px_name c = cl \<longrightarrow> same_to (px_host c) env env'"
  obtain cs w where st: "st = (cs, w)" by fastforce
  show "on_cluster cl (f env) st = on_cluster cl (f env') st"
    unfolding st by (rule client_call.on_cluster_confined[OF f]) (use s st in auto)
qed

lemma within_map_reply: "within cl h \<Longrightarrow> within cl (\<lambda>env st. map_reply g (h env st))"
  by (simp add: within_def stays_def Let_def)

lemma within_refuse: "within cl (\<lambda>env st. (Inl e, st))"
  by (simp add: within_def stays_def)

lemma within_if: "within cl a \<Longrightarrow> within cl b \<Longrightarrow> within cl (\<lambda>env st. if P then a env st else b env st)"
  by (cases P) simp_all

lemma rbind_is_okD: "is_ok (rbind r g) \<Longrightarrow> is_ok r"
  by (cases r) simp_all

lemma within_rbind:
  "within cl h \<Longrightarrow> (\<And>env st. h' env st = (let (r, st') = h env st in (rbind r g, st'))) \<Longrightarrow> within cl h'"
  by (auto simp: within_def stays_def Let_def split_beta dest: rbind_is_okD)

lemma within_ext: "within cl h' \<Longrightarrow> (\<And>env st. h env st = h' env st) \<Longrightarrow> within cl h"
  by (simp add: within_def)

lemma within_gate: "within cl h \<Longrightarrow> within cl (\<lambda>env st. operator_gate env auth (h env) st)"
  unfolding operator_gate_def
proof (cases "require_role auth Operator")
  case (Inr u)
  assume "within cl h"
  with Inr show "within cl (\<lambda>env st. role_gate env Operator ''operator role required'' auth (h env) st)"
    by (simp add: role_gate_def)
next
  case (Inl resp)
  then show "within cl (\<lambda>env st. role_gate env Operator ''operator role required'' auth (h env) st)"
    using require_role_Err[OF Inl] by (simp add: role_gate_def within_refuse)
qed

text \<open>The same, written out.\<close>

lemma withinD:
  assumes "within cl h"
  shows "(let (r, cs', w') = h env st in
        map pc_config cs' = map pc_config (fst st) \<and> (\<forall>j. px_name (fst st ! j) \<noteq> cl \<longrightarrow> cs' ! j = fst st ! j)
        \<and> (cl \<notin> px_name ` set (fst st) \<longrightarrow> (cs', w') = st \<and> \<not> is_ok r))
   \<and> (\<forall>env'. (\<forall>c\<in>set (fst st). px_name c = cl \<longrightarrow> same_to (px_host c) env env') \<longrightarrow> h env' st = h env st)"
proof -
  have "stays cl st (h env st)"
    "\<And>env'. (\<forall>c\<in>set (fst st). px_name c = cl \<longrightarrow> same_to (px_host c) env env') \<Longrightarrow> h env st = h env' st"
    using assms unfolding within_def by blast+
  then show ?thesis unfolding stays_def Let_def by (simp add: split_beta)
qed

text \<open>A role that is no operator.\<close>

lemma no_operator:
  "to_ascii_lowercase (cl_role (ac_claims auth)) = ''viewer'' \<Longrightarrow>
    \<nexists>r. to_ascii_lowercase (cl_role (ac_claims auth)) = role_as_str r \<and> Operator \<le> r"
proof
  assume v: "to_ascii_lowercase (cl_role (ac_claims auth)) = ''viewer''"
  assume "\<exists>r. to_ascii_lowercase (cl_role (ac_claims auth)) = role_as_str r \<and> Operator \<le> r"
  then obtain r where "''viewer'' = role_as_str r" "Operator \<le> r" by (auto simp: v)
  then show False by (cases r) (simp_all add: less_eq_role_def)
qed

definition demo_auth :: "string \<Rightarrow> auth_context" where
  "demo_auth r = \<lparr> ac_claims = \<lparr> cl_sub = ''u1'', cl_username = ''alice'', cl_role = r, cl_iat = 0, cl_exp = 900 \<rparr> \<rparr>"

lemma demo_viewer: "to_ascii_lowercase (cl_role (ac_claims (demo_auth ''viewer''))) = ''viewer''"
proof -
  have "to_ascii_lowercase ''viewer'' = ''viewer''" by code_simp
  then show ?thesis by (simp add: demo_auth_def)
qed

lemmas within_intros = within_gate within_map_reply within_on_cluster

section \<open>Outcomes of listings\<close>

lemma gather_rows: "fst (gather rows_of rs rows errs) =
    rows @ concat (map (\<lambda>(n, r). case r of Inl _ \<Rightarrow> [] | Inr listed \<Rightarrow> rows_of n listed) rs)"
  by (induction rows_of rs rows errs rule: gather.induct) (auto split: sum.split)

lemma gather_errors: "distinct (map fst rs) \<Longrightarrow>
    hm_get (snd (gather rows_of rs rows errs)) n =
      (case map_of rs n of Some (Inl e) \<Rightarrow> Some (display_error e) | _ \<Rightarrow> hm_get errs n)"
proof (induction rows_of rs rows errs rule: gather.induct)
  case (2 rows_of name r rest rows errors)
  have "map_of rest name = None" using 2(3) by (auto simp: map_of_eq_None_iff)
  then show ?case using 2 by (cases r) (auto simp: hm_get_put split: option.split sum.split)
qed simp

lemma gather_data_get: "distinct (map fst rs) \<Longrightarrow>
    hm_get (fst (gather_data rs data errs)) n = (case map_of rs n of Some (Inr x) \<Rightarrow> Some x | _ \<Rightarrow> hm_get data n)
    \<and> hm_get (snd (gather_data rs data errs)) n =
        (case map_of rs n of Some (Inl e) \<Rightarrow> Some (display_error e) | _ \<Rightarrow> hm_get errs n)"
proof (induction rs data errs rule: gather_data.induct)
  case (2 name r rest data errors)
  have "map_of rest name = None" using 2(3) by (auto simp: map_of_eq_None_iff)
  then show ?case using 2 by (cases r) (auto simp: hm_get_put split: option.split sum.split)
qed simp

text \<open>
  What a listing reports: every cluster, in the order of the configuration, contributes the rows of its
  answer or its error message, one or the other.
\<close>

definition listing_of :: "px_client list \<Rightarrow> (px_client \<times> 'w \<Rightarrow> (app_error, 'a) result) \<Rightarrow> (string \<Rightarrow> 'a \<Rightarrow> 'b list)
    \<Rightarrow> 'b list \<Rightarrow> (string, string) hmap \<Rightarrow> bool" where
  "listing_of cs answer rows_of rows errs =
     (\<exists>os. length os = length cs \<and> (\<forall>i<length cs. \<exists>v. os ! i = answer (cs ! i, v))
      \<and> rows = concat (map (\<lambda>i. case os ! i of Inl _ \<Rightarrow> [] | Inr listed \<Rightarrow> rows_of (px_name (cs ! i)) listed) [0..<length cs])
      \<and> (\<forall>i<length cs. hm_get errs (px_name (cs ! i)) = (case os ! i of Inl e \<Rightarrow> Some (display_error e) | Inr _ \<Rightarrow> None)))"

context client_call
begin

lemma each_cluster_outcomes:
  assumes "mset order = mset [0..<length cs]" "distinct (map px_name cs)"
    and "each_client order [0..<length cs] (f env) (cs, w) = (rs, cs', w')"
  shows "\<exists>os. length os = length cs \<and> (\<forall>i<length cs. \<exists>v. os ! i = fst (f env (cs ! i, v)))
     \<and> rs = map (\<lambda>i. (px_name (cs ! i), os ! i)) [0..<length cs] \<and> distinct (map fst rs)
     \<and> (\<forall>i<length cs. map_of rs (px_name (cs ! i)) = Some (os ! i)) \<and> map pc_config cs' = map pc_config cs"
proof -
  from each_client_outcomes[OF _ _ _ assms(3)] assms(1)
  have rs: "length rs = length cs" "\<forall>i<length cs. \<exists>v. rs ! i = (px_name (cs ! i), fst (f env (cs ! i, v)))"
    "map pc_config cs' = map pc_config cs" by auto
  define os where "os = map snd rs"
  have os: "length os = length cs" "\<forall>i<length cs. \<exists>v. os ! i = fst (f env (cs ! i, v))"
    using rs by (auto simp: os_def) (metis nth_map snd_conv)
  have rs_eq: "rs = map (\<lambda>i. (px_name (cs ! i), os ! i)) [0..<length cs]"
    using rs by (intro nth_equalityI) (auto simp: os_def)
  have names: "map fst rs = map px_name cs" unfolding rs_eq by (intro nth_equalityI) auto
  have "map_of rs (px_name (cs ! i)) = Some (os ! i)" if "i < length cs" for i
    using that assms(2) names rs(1) by (subst map_of_eq_Some_iff) (auto simp: rs_eq)
  with os rs_eq names assms(2) rs(3) show ?thesis by (intro exI[of _ os]) simp
qed

lemma list_endpoint_outcomes:
  assumes "mset order = mset [0..<length cs]" "distinct (map px_name cs)"
    and "list_endpoint order (f env) rows_of (cs, w) = ((rows, errs), st')"
  shows "\<exists>os. length os = length cs \<and> (\<forall>i<length cs. \<exists>v. os ! i = fst (f env (cs ! i, v)))
     \<and> rows = concat (map (\<lambda>i. case os ! i of Inl _ \<Rightarrow> [] | Inr listed \<Rightarrow> rows_of (px_name (cs ! i)) listed) [0..<length cs])
     \<and> (\<forall>i<length cs. hm_get errs (px_name (cs ! i)) = (case os ! i of Inl e \<Rightarrow> Some (display_error e) | Inr _ \<Rightarrow> None))
     \<and> map pc_config (fst st') = map pc_config cs"
proof -
  obtain rs cs' w' where each: "each_client order [0..<length cs] (f env) (cs, w) = (rs, cs', w')"
    by (metis prod_cases3)
  from each_cluster_outcomes[OF assms(1,2) each] obtain os where os: "length os = length cs"
      "\<forall>i<length cs. \<exists>v. os ! i = fst (f env (cs ! i, v))" "rs = map (\<lambda>i. (px_name (cs ! i), os ! i)) [0..<length cs]"
      "distinct (map fst rs)" "\<forall>i<length cs. map_of rs (px_name (cs ! i)) = Some (os ! i)"
      "map pc_config cs' = map pc_config cs" by blast
  have res: "rows = fst (gather rows_of rs [] hm_empty)" "errs = snd (gather rows_of rs [] hm_empty)" "st' = (cs', w')"
    using assms(3) each by (auto simp: list_endpoint_def)
  have "rows = concat (map (\<lambda>i. case os ! i of Inl _ \<Rightarrow> [] | Inr listed \<Rightarrow> rows_of (px_name (cs ! i)) listed) [0..<length cs])"
    unfolding res(1) gather_rows by (subst os(3)) (simp add: comp_def)
  moreover have "hm_get errs (px_name (cs ! i)) = (case os ! i of Inl e \<Rightarrow> Some (display_error e) | Inr _ \<Rightarrow> None)"
    if "i < length cs" for i
    using os(5) that by (simp add: res(2) gather_errors[OF os(4)] del: map_of_eq_Some_iff split: sum.split)
  ultimately show ?thesis using os(1,2,6) res(3) by (intro exI[of _ os]) simp
qed

lemma data_endpoint_outcomes:
  assumes "mset order = mset [0..<length cs]" "distinct (map px_name cs)"
    and "data_endpoint order (f env) (cs, w) = ((data, errs), st')"
  shows "\<exists>os. length os = length cs \<and> (\<forall>i<length cs. (\<exists>v. os ! i = fst (f env (cs ! i, v)))
       \<and> hm_get data (px_name (cs ! i)) = ok_of (os ! i)
       \<and> hm_get errs (px_name (cs ! i)) = (case os ! i of Inl e \<Rightarrow> Some (display_error e) | Inr _ \<Rightarrow> None))
     \<and> map pc_config (fst st') = map pc_config cs"
proof -
  obtain rs cs' w' where each: "each_client order [0..<length cs] (f env) (cs, w) = (rs, cs', w')"
    by (metis prod_cases3)
  from each_cluster_outcomes[OF assms(1,2) each] obtain os where os: "length os = length cs"
      "\<forall>i<length cs. \<exists>v. os ! i = fst (f env (cs ! i, v))" "distinct (map fst rs)"
      "\<forall>i<length cs. map_of rs (px_name (cs ! i)) = Some (os ! i)" "map pc_config cs' = map pc_config cs" by blast
  have res: "data = fst (gather_data rs hm_empty hm_empty)" "errs = snd (gather_data rs hm_empty hm_empty)" "st' = (cs', w')"
    using assms(3) each by (auto simp: data_endpoint_def)
  have "hm_get data (px_name (cs ! i)) = ok_of (os ! i)
      \<and> hm_get errs (px_name (cs ! i)) = (case os ! i of Inl e \<Rightarrow> Some (display_error e) | Inr _ \<Rightarrow> None)"
    if "i < length cs" for i
    using os(4) that by (simp add: res(1,2) gather_data_get[OF os(3)] del: map_of_eq_Some_iff split: sum.split)
  then show ?thesis using os(1,2,5) res(3) by (intro exI[of _ os]) simp
qed

lemma list_endpoint_listing:
  assumes "mset order = mset [0..<length cs]" "distinct (map px_name cs)"
    and "list_endpoint order (f env) rows_of (cs, w) = ((rows, errs), st')"
  shows "listing_of cs (\<lambda>cw. fst (f env cw)) rows_of rows errs"
  using list_endpoint_outcomes[OF assms] unfolding listing_of_def by blast

end

end
