(* ===== verification/Dashboard.thy ===== *)
theory Dashboard
  imports Handlers
begin

text \<open>
  The dashboards: aggregation of the clusters a user may see (\<open>src/api/dashboard.rs\<close>) and the layouts
  users store for themselves (\<open>src/dashboard_custom/mod.rs\<close>). Counters are 32-bit and byte sums 64-bit
  words, which wrap as in release builds; the addition of doubles is the parameter \<open>fadd\<close>. The file
  system and \<open>serde_json\<close> are parameters of the layouts.
\<close>

section \<open>Composing client calls\<close>

text \<open>One call after another, the second chosen by the result of the first, meets the contract of calls.\<close>

definition then_call :: "('w px_env \<Rightarrow> ('w, 'a) px) \<Rightarrow> ((app_error, 'a) result \<Rightarrow> 'w px_env \<Rightarrow> ('w, 'b) px)
    \<Rightarrow> 'w px_env \<Rightarrow> ('w, 'b) px" where
  "then_call f g env cw = (let (r, cw') = f env cw in g r env cw')"

lemma client_call_return: "client_call (\<lambda>env cw. (r, cw))"
  by unfold_locales simp_all

lemma client_call_then:
  assumes "client_call f" "\<And>r. client_call (g r)"
  shows "client_call (then_call f g)"
proof
  fix env env' :: "'a px_env" and c w r c' w'
  obtain r0 c0 w0 where f: "f env (c, w) = (r0, c0, w0)" by (metis prod_cases3)
  show "then_call f g env (c, w) = (r, c', w') \<Longrightarrow> pc_config c' = pc_config c"
    using client_call.keeps_config[OF assms(1) f] client_call.keeps_config[OF assms(2)] f by (auto simp: then_call_def)
  assume s: "same_to (px_host c) env env'"
  then have "f env' (c, w) = (r0, c0, w0)" using client_call.confined[OF assms(1), of c env env' w] f by simp
  moreover have "g r0 env (c0, w0) = g r0 env' (c0, w0)"
    using client_call.confined[OF assms(2), of c0 env env' r0 w0] client_call.keeps_host[OF assms(1) f] s by simp
  ultimately show "then_call f g env (c, w) = then_call f g env' (c, w)" using f by (simp add: then_call_def)
qed

section \<open>One cluster\<close>

record px_version =
  pv_version :: string
  pv_release :: string
  pv_repoid :: string

record cluster_dashboard =
  cd_name :: string
  cd_reachable :: bool
  cd_version :: "string option"
  cd_release :: "string option"
  cd_vms_total :: "32 word"
  cd_vms_running :: "32 word"
  cd_vms_stopped :: "32 word"
  cd_lxcs_total :: "32 word"
  cd_lxcs_running :: "32 word"
  cd_lxcs_stopped :: "32 word"
  cd_storage_pools :: "32 word"
  cd_allocated_cpus :: f64_bits
  cd_allocated_memory :: "64 word"
  cd_error :: "string option"

definition unreachable_cluster :: "string \<Rightarrow> string \<Rightarrow> cluster_dashboard" where
  "unreachable_cluster name e =
     \<lparr> cd_name = name, cd_reachable = False, cd_version = None, cd_release = None, cd_vms_total = 0,
       cd_vms_running = 0, cd_vms_stopped = 0, cd_lxcs_total = 0, cd_lxcs_running = 0, cd_lxcs_stopped = 0,
       cd_storage_pools = 0, cd_allocated_cpus = 0, cd_allocated_memory = 0, cd_error = Some e \<rparr>"

text \<open>The counters of the loop over the resources of a cluster.\<close>

record guest_counts =
  gc_vms_total :: "32 word"
  gc_vms_running :: "32 word"
  gc_vms_stopped :: "32 word"
  gc_lxcs_total :: "32 word"
  gc_lxcs_running :: "32 word"
  gc_lxcs_stopped :: "32 word"
  gc_cpus :: f64_bits
  gc_memory :: "64 word"

definition no_guests :: guest_counts where
  "no_guests = \<lparr> gc_vms_total = 0, gc_vms_running = 0, gc_vms_stopped = 0, gc_lxcs_total = 0,
     gc_lxcs_running = 0, gc_lxcs_stopped = 0, gc_cpus = 0, gc_memory = 0 \<rparr>"

definition count_vm :: "string \<Rightarrow> guest_counts \<Rightarrow> guest_counts" where
  "count_vm status c =
     (let c1 = c \<lparr> gc_vms_total := gc_vms_total c + 1 \<rparr>
      in if status = ''running'' then c1 \<lparr> gc_vms_running := gc_vms_running c + 1 \<rparr>
         else if status = ''stopped'' then c1 \<lparr> gc_vms_stopped := gc_vms_stopped c + 1 \<rparr>
         else c1)"

definition count_lxc :: "string \<Rightarrow> guest_counts \<Rightarrow> guest_counts" where
  "count_lxc status c =
     (let c1 = c \<lparr> gc_lxcs_total := gc_lxcs_total c + 1 \<rparr>
      in if status = ''running'' then c1 \<lparr> gc_lxcs_running := gc_lxcs_running c + 1 \<rparr>
         else if status = ''stopped'' then c1 \<lparr> gc_lxcs_stopped := gc_lxcs_stopped c + 1 \<rparr>
         else c1)"

definition count_allocation :: "(f64_bits \<Rightarrow> f64_bits \<Rightarrow> f64_bits) \<Rightarrow> vm_resource \<Rightarrow> guest_counts \<Rightarrow> guest_counts" where
  "count_allocation fadd r c =
     (let c1 = (case vr_cpus r of None \<Rightarrow> c | Some cpus \<Rightarrow> c \<lparr> gc_cpus := fadd (gc_cpus c) cpus \<rparr>)
      in case vr_maxmem r of None \<Rightarrow> c1 | Some maxmem \<Rightarrow> c1 \<lparr> gc_memory := gc_memory c1 + of_nat maxmem \<rparr>)"

fun count_guests :: "(f64_bits \<Rightarrow> f64_bits \<Rightarrow> f64_bits) \<Rightarrow> vm_resource list \<Rightarrow> guest_counts \<Rightarrow> guest_counts" where
  "count_guests fadd [] c = c"
| "count_guests fadd (r # rs) c =
     (if vr_kind r = ''qemu'' then count_guests fadd rs (count_allocation fadd r (count_vm (vr_status r) c))
      else if vr_kind r = ''lxc'' then count_guests fadd rs (count_allocation fadd r (count_lxc (vr_status r) c))
      else count_guests fadd rs c)"

definition reachable_dashboard :: "string \<Rightarrow> px_version \<Rightarrow> guest_counts \<Rightarrow> nat \<Rightarrow> cluster_dashboard" where
  "reachable_dashboard name v c pools =
     \<lparr> cd_name = name, cd_reachable = True, cd_version = Some (pv_version v), cd_release = Some (pv_release v),
       cd_vms_total = gc_vms_total c, cd_vms_running = gc_vms_running c, cd_vms_stopped = gc_vms_stopped c,
       cd_lxcs_total = gc_lxcs_total c, cd_lxcs_running = gc_lxcs_running c, cd_lxcs_stopped = gc_lxcs_stopped c,
       cd_storage_pools = of_nat pools, cd_allocated_cpus = gc_cpus c, cd_allocated_memory = gc_memory c,
       cd_error = None \<rparr>"

record dash_decoders =
  dd_version :: "string \<Rightarrow> (string, px_version) result"
  dd_resources :: "string \<Rightarrow> (string, vm_resource list) result"
  dd_storages :: "string \<Rightarrow> (string, storage_resource list) result"
  dd_fadd :: "f64_bits \<Rightarrow> f64_bits \<Rightarrow> f64_bits"

text \<open>The two requests are joined and run in either order; of two failures that of the resources is reported.\<close>

definition finish_dashboard :: "dash_decoders \<Rightarrow> string \<Rightarrow> px_version \<Rightarrow> (app_error, vm_resource list) result
    \<Rightarrow> (app_error, storage_resource list) result \<Rightarrow> (app_error, cluster_dashboard) result" where
  "finish_dashboard d name v resources storages =
     rbind resources (\<lambda>rs. rbind storages (\<lambda>ss.
       Ok (reachable_dashboard name v (count_guests (dd_fadd d) rs no_guests) (length ss))))"

definition collect_cluster_dashboard :: "dash_decoders \<Rightarrow> bool \<Rightarrow> 'w px_env \<Rightarrow> ('w, cluster_dashboard) px" where
  "collect_cluster_dashboard d storages_first env cw =
     (let name = px_name (fst cw);
          (version, cw1) = px_get env (dd_version d) ''version'' cw
      in case version of
           Inl e \<Rightarrow> (Ok (unreachable_cluster name (display_error e)), cw1)
         | Inr v \<Rightarrow>
             if storages_first
             then (let (storages, cw2) = px_get env (dd_storages d) ''storage'' cw1;
                       (resources, cw3) = px_get env (dd_resources d) ''cluster/resources?type=vm'' cw2
                   in (finish_dashboard d name v resources storages, cw3))
             else (let (resources, cw2) = px_get env (dd_resources d) ''cluster/resources?type=vm'' cw1;
                       (storages, cw3) = px_get env (dd_storages d) ''storage'' cw2
                   in (finish_dashboard d name v resources storages, cw3)))"

section \<open>All clusters of a user\<close>

record dashboard_totals =
  dt_vms_total :: "32 word"
  dt_vms_running :: "32 word"
  dt_vms_stopped :: "32 word"
  dt_lxcs_total :: "32 word"
  dt_lxcs_running :: "32 word"
  dt_lxcs_stopped :: "32 word"
  dt_storage_pools :: "32 word"
  dt_allocated_cpus :: f64_bits
  dt_allocated_memory :: "64 word"

definition zero_totals :: dashboard_totals where
  "zero_totals = \<lparr> dt_vms_total = 0, dt_vms_running = 0, dt_vms_stopped = 0, dt_lxcs_total = 0,
     dt_lxcs_running = 0, dt_lxcs_stopped = 0, dt_storage_pools = 0, dt_allocated_cpus = 0,
     dt_allocated_memory = 0 \<rparr>"

definition add_totals :: "(f64_bits \<Rightarrow> f64_bits \<Rightarrow> f64_bits) \<Rightarrow> dashboard_totals \<Rightarrow> cluster_dashboard \<Rightarrow> dashboard_totals" where
  "add_totals fadd t cd =
     \<lparr> dt_vms_total = dt_vms_total t + cd_vms_total cd, dt_vms_running = dt_vms_running t + cd_vms_running cd,
       dt_vms_stopped = dt_vms_stopped t + cd_vms_stopped cd, dt_lxcs_total = dt_lxcs_total t + cd_lxcs_total cd,
       dt_lxcs_running = dt_lxcs_running t + cd_lxcs_running cd,
       dt_lxcs_stopped = dt_lxcs_stopped t + cd_lxcs_stopped cd,
       dt_storage_pools = dt_storage_pools t + cd_storage_pools cd,
       dt_allocated_cpus = fadd (dt_allocated_cpus t) (cd_allocated_cpus cd),
       dt_allocated_memory = dt_allocated_memory t + cd_allocated_memory cd \<rparr>"

fun gather_dashboards :: "(f64_bits \<Rightarrow> f64_bits \<Rightarrow> f64_bits) \<Rightarrow> (string \<times> (app_error, cluster_dashboard) result) list
    \<Rightarrow> cluster_dashboard list \<Rightarrow> dashboard_totals \<Rightarrow> cluster_dashboard list \<times> dashboard_totals" where
  "gather_dashboards fadd [] clusters totals = (clusters, totals)"
| "gather_dashboards fadd ((name, r) # rest) clusters totals =
     (case r of
        Inr cd \<Rightarrow> gather_dashboards fadd rest (clusters @ [cd]) (add_totals fadd totals cd)
      | Inl e \<Rightarrow> gather_dashboards fadd rest (clusters @ [unreachable_cluster name (display_error e)]) totals)"

record dashboard_response =
  dr_clusters :: "cluster_dashboard list"
  dr_totals :: dashboard_totals

definition dashboard :: "dash_decoders \<Rightarrow> bool \<Rightarrow> 'w px_env \<Rightarrow> user_store \<Rightarrow> auth_context \<Rightarrow> nat list \<Rightarrow> 'w fleet
    \<Rightarrow> dashboard_response \<times> 'w fleet" where
  "dashboard d storages_first env users auth order st =
     (let sel = clients_for_user users (cl_username (ac_claims auth)) (fst st);
          (results, st') = each_client order sel (collect_cluster_dashboard d storages_first env) st;
          (clusters, totals) = gather_dashboards (dd_fadd d) results [] zero_totals
      in (\<lparr> dr_clusters = clusters, dr_totals = totals \<rparr>, st'))"

section \<open>Stored layouts\<close>

record widget_config =
  wi_id :: string
  wi_type :: string
  wi_title :: "string option"
  wi_x :: nat
  wi_y :: nat
  wi_width :: nat
  wi_height :: nat

record layout_row =
  lo_row :: nat
  lo_widgets :: "string list"

record custom_dashboard =
  cu_user_id :: string
  cu_widgets :: "widget_config list"
  cu_layout :: "layout_row list"

type_synonym layouts = "(string, custom_dashboard) hmap"

text \<open>
  The service: the map in memory and the content of its file, if there is one. Creating the
  directory, serialising and writing may fail; \<open>fs_write\<close> also gives the content the file is left with.
\<close>

record layout_service =
  ly_dashboards :: layouts
  ly_file :: "string option"

record layout_fs =
  fs_mkdir :: "(string, unit) result"
  fs_print :: "layouts \<Rightarrow> (string, string) result"
  fs_write :: "string \<Rightarrow> string option \<Rightarrow> (string, unit) result \<times> string option"
  fs_parse :: "string \<Rightarrow> (string, layouts) result"
  fs_read :: "string \<Rightarrow> (string, string) result"

definition layouts_new :: "layout_fs \<Rightarrow> string option \<Rightarrow> layout_service" where
  "layouts_new F file =
     \<lparr> ly_dashboards = (case file of None \<Rightarrow> hm_empty
          | Some on_disk \<Rightarrow> (case fs_read F on_disk of Inl e \<Rightarrow> hm_empty
              | Inr content \<Rightarrow> (case fs_parse F content of Inl e \<Rightarrow> hm_empty | Inr cfg \<Rightarrow> cfg))),
       ly_file = file \<rparr>"

definition default_dashboard :: "string \<Rightarrow> custom_dashboard" where
  "default_dashboard user_id =
     \<lparr> cu_user_id = user_id,
       cu_widgets = [
         \<lparr> wi_id = ''cluster-health-1'', wi_type = ''cluster_health'', wi_title = Some ''Cluster Health'',
           wi_x = 1, wi_y = 1, wi_width = 6, wi_height = 2 \<rparr>,
         \<lparr> wi_id = ''vm-list-1'', wi_type = ''vm_list'', wi_title = Some ''VM Overview'',
           wi_x = 7, wi_y = 1, wi_width = 6, wi_height = 2 \<rparr>],
       cu_layout = [\<lparr> lo_row = 1, lo_widgets = [''cluster-health-1'', ''vm-list-1''] \<rparr>] \<rparr>"

definition get_dashboard :: "string \<Rightarrow> layout_service \<Rightarrow> custom_dashboard" where
  "get_dashboard user_id s = opt_or (default_dashboard user_id) (hm_get (ly_dashboards s) user_id)"

definition persist :: "layout_fs \<Rightarrow> layout_service \<Rightarrow> (string, unit) result \<times> layout_service" where
  "persist F s =
     (case fs_mkdir F of
        Inl e \<Rightarrow> (Err (''Failed to create data directory: '' @ e), s)
      | Inr _ \<Rightarrow>
          (case fs_print F (ly_dashboards s) of
             Inl e \<Rightarrow> (Err (''Failed to serialize dashboards: '' @ e), s)
           | Inr content \<Rightarrow>
               (let (r, file') = fs_write F content (ly_file s)
                in (map_err (\<lambda>e. ''Failed to write dashboard config: '' @ e) r, s \<lparr> ly_file := file' \<rparr>))))"

definition save_dashboard :: "layout_fs \<Rightarrow> string \<Rightarrow> custom_dashboard \<Rightarrow> layout_service \<Rightarrow> (string, unit) result \<times> layout_service" where
  "save_dashboard F user_id config s = persist F (s \<lparr> ly_dashboards := hm_put user_id config (ly_dashboards s) \<rparr>)"

definition delete_dashboard :: "layout_fs \<Rightarrow> string \<Rightarrow> layout_service \<Rightarrow> (string, unit) result \<times> layout_service" where
  "delete_dashboard F user_id s = persist F (s \<lparr> ly_dashboards := hm_del user_id (ly_dashboards s) \<rparr>)"

definition get_custom_dashboard :: "auth_context \<Rightarrow> layout_service \<Rightarrow> custom_dashboard" where
  "get_custom_dashboard auth s = get_dashboard (cl_username (ac_claims auth)) s"

definition save_custom_dashboard :: "layout_fs \<Rightarrow> auth_context \<Rightarrow> custom_dashboard \<Rightarrow> layout_service \<Rightarrow> json \<times> layout_service" where
  "save_custom_dashboard F auth body s =
     (let (r, s') = save_dashboard F (cl_username (ac_claims auth)) body s
      in (case r of Inr _ \<Rightarrow> JObj [(''status'', JStr ''saved'')] | Inl e \<Rightarrow> JObj [(''error'', JStr e)], s'))"

record widget_type_info =
  wt_type :: string
  wt_label :: string
  wt_description :: string
  wt_width :: nat
  wt_height :: nat

definition available_widget_types :: "widget_type_info list" where
  "available_widget_types = [
     \<lparr> wt_type = ''vm_list'', wt_label = ''VM List'', wt_description = ''List of virtual machines with status'', wt_width = 6, wt_height = 3 \<rparr>,
     \<lparr> wt_type = ''cluster_health'', wt_label = ''Cluster Health'', wt_description = ''Health status of all clusters'', wt_width = 6, wt_height = 2 \<rparr>,
     \<lparr> wt_type = ''resource_usage'', wt_label = ''Resource Usage'', wt_description = ''CPU and memory usage overview'', wt_width = 4, wt_height = 2 \<rparr>,
     \<lparr> wt_type = ''recent_audit'', wt_label = ''Recent Audit'', wt_description = ''Recent audit log entries'', wt_width = 12, wt_height = 3 \<rparr>,
     \<lparr> wt_type = ''ha_status'', wt_label = ''HA Status'', wt_description = ''High availability group status'', wt_width = 6, wt_height = 2 \<rparr>,
     \<lparr> wt_type = ''ceph_status'', wt_label = ''Ceph Status'', wt_description = ''Ceph storage cluster health'', wt_width = 6, wt_height = 2 \<rparr>]"

definition get_available_widget_types :: "json list" where
  "get_available_widget_types = map (\<lambda>t. JObj [(''type'', JStr (wt_type t)), (''label'', JStr (wt_label t)),
     (''description'', JStr (wt_description t)), (''default_width'', JNum (wt_width t)),
     (''default_height'', JNum (wt_height t))]) available_widget_types"

section \<open>Lemmas\<close>

text \<open>Collecting the data of a cluster is a chain of calls of its client.\<close>

definition after_version :: "dash_decoders \<Rightarrow> bool \<Rightarrow> (app_error, px_version) result \<Rightarrow> 'w px_env \<Rightarrow> ('w, cluster_dashboard) px" where
  "after_version d storages_first version =
     (case version of
        Inl e \<Rightarrow> (\<lambda>env cw. (Ok (unreachable_cluster (px_name (fst cw)) (display_error e)), cw))
      | Inr v \<Rightarrow>
          if storages_first
          then then_call (\<lambda>env. px_get env (dd_storages d) ''storage'') (\<lambda>ss.
                 then_call (\<lambda>env. px_get env (dd_resources d) ''cluster/resources?type=vm'') (\<lambda>rs.
                   \<lambda>env cw. (finish_dashboard d (px_name (fst cw)) v rs ss, cw)))
          else then_call (\<lambda>env. px_get env (dd_resources d) ''cluster/resources?type=vm'') (\<lambda>rs.
                 then_call (\<lambda>env. px_get env (dd_storages d) ''storage'') (\<lambda>ss.
                   \<lambda>env cw. (finish_dashboard d (px_name (fst cw)) v rs ss, cw))))"

lemma px_get_name: "px_name (fst (snd (px_get env dec path cw))) = px_name (fst cw)"
  by (cases cw; cases "px_get env dec path cw") (auto dest: client_call.keeps_name[OF helper_calls(1)])

lemma collect_chain: "collect_cluster_dashboard d storages_first =
    then_call (\<lambda>env. px_get env (dd_version d) ''version'') (after_version d storages_first)"
  by (intro ext) (simp add: collect_cluster_dashboard_def then_call_def after_version_def split_beta Let_def
      px_get_name split: sum.split)

lemma client_call_pure:
  "(\<And>env cw. snd (f env cw) = cw) \<Longrightarrow> (\<And>env env' cw. f env cw = f env' cw) \<Longrightarrow> client_call f"
  by unfold_locales (auto dest: arg_cong[where f = snd])

lemma collect_call [client_calls]: "client_call (collect_cluster_dashboard d storages_first)"
  unfolding collect_chain
proof (rule client_call_then[OF helper_calls(1)])
  fix version :: "(app_error, px_version) result"
  show "client_call (after_version d storages_first version)"
    by (cases version; cases storages_first; simp only: after_version_def sum.case if_True if_False)
      (rule client_call_then[OF helper_calls(1)] client_call_pure snd_conv refl)+
qed

lemma unreachable_fields [simp]:
  "cd_name (unreachable_cluster n e) = n" "cd_reachable (unreachable_cluster n e) = False" "cd_error (unreachable_cluster n e) = Some e"
  "cd_vms_total (unreachable_cluster n e) = 0" "cd_vms_running (unreachable_cluster n e) = 0" "cd_vms_stopped (unreachable_cluster n e) = 0"
  "cd_lxcs_total (unreachable_cluster n e) = 0" "cd_lxcs_running (unreachable_cluster n e) = 0" "cd_lxcs_stopped (unreachable_cluster n e) = 0"
  "cd_storage_pools (unreachable_cluster n e) = 0" "cd_allocated_memory (unreachable_cluster n e) = 0"
  by (simp_all add: unreachable_cluster_def)

lemma collect_row: "fst (collect_cluster_dashboard d sf env cw) = Inr cd \<Longrightarrow>
    cd_name cd = px_name (fst cw) \<and> (cd_reachable cd \<longleftrightarrow> cd_error cd = None)"
  by (auto simp: collect_cluster_dashboard_def finish_dashboard_def reachable_dashboard_def rbind_def Let_def split_beta
      split: sum.splits if_splits)

definition row_of_result :: "string \<times> (app_error, cluster_dashboard) result \<Rightarrow> cluster_dashboard" where
  "row_of_result nr = (case snd nr of Inr cd \<Rightarrow> cd | Inl e \<Rightarrow> unreachable_cluster (fst nr) (display_error e))"

lemma gather_dashboards_rows: "fst (gather_dashboards fadd rs clusters totals) = clusters @ map row_of_result rs"
  by (induction fadd rs clusters totals rule: gather_dashboards.induct) (auto simp: row_of_result_def split: sum.split)

lemma gather_dashboards_totals:
  "dt_vms_total (snd (gather_dashboards fadd rs cl t)) = dt_vms_total t + sum_list (map (cd_vms_total \<circ> row_of_result) rs)"
  "dt_vms_running (snd (gather_dashboards fadd rs cl t)) = dt_vms_running t + sum_list (map (cd_vms_running \<circ> row_of_result) rs)"
  "dt_vms_stopped (snd (gather_dashboards fadd rs cl t)) = dt_vms_stopped t + sum_list (map (cd_vms_stopped \<circ> row_of_result) rs)"
  "dt_lxcs_total (snd (gather_dashboards fadd rs cl t)) = dt_lxcs_total t + sum_list (map (cd_lxcs_total \<circ> row_of_result) rs)"
  "dt_lxcs_running (snd (gather_dashboards fadd rs cl t)) = dt_lxcs_running t + sum_list (map (cd_lxcs_running \<circ> row_of_result) rs)"
  "dt_lxcs_stopped (snd (gather_dashboards fadd rs cl t)) = dt_lxcs_stopped t + sum_list (map (cd_lxcs_stopped \<circ> row_of_result) rs)"
  "dt_storage_pools (snd (gather_dashboards fadd rs cl t)) = dt_storage_pools t + sum_list (map (cd_storage_pools \<circ> row_of_result) rs)"
  "dt_allocated_memory (snd (gather_dashboards fadd rs cl t)) = dt_allocated_memory t + sum_list (map (cd_allocated_memory \<circ> row_of_result) rs)"
  by (induction fadd rs cl t rule: gather_dashboards.induct)
    (auto simp: row_of_result_def add_totals_def add_ac split: sum.split)

definition of_kind :: "string \<Rightarrow> vm_resource \<Rightarrow> bool" where "of_kind k r = (vr_kind r = k)"

definition kind_in :: "string \<Rightarrow> string \<Rightarrow> vm_resource \<Rightarrow> bool" where
  "kind_in k status r = (vr_kind r = k \<and> vr_status r = status)"

lemma count_steps:
  "gc_vms_total (count_allocation fadd r c) = gc_vms_total c" "gc_vms_running (count_allocation fadd r c) = gc_vms_running c"
  "gc_vms_stopped (count_allocation fadd r c) = gc_vms_stopped c" "gc_lxcs_total (count_allocation fadd r c) = gc_lxcs_total c"
  "gc_lxcs_running (count_allocation fadd r c) = gc_lxcs_running c" "gc_lxcs_stopped (count_allocation fadd r c) = gc_lxcs_stopped c"
  "gc_memory (count_allocation fadd r c) = gc_memory c + of_nat (opt_or 0 (vr_maxmem r))"
  "gc_memory (count_vm st c) = gc_memory c" "gc_memory (count_lxc st c) = gc_memory c"
  by (simp_all add: count_allocation_def count_vm_def count_lxc_def Let_def opt_or_def split: option.split)

lemma count_guests_exact:
  "gc_vms_total (count_guests fadd rs c) = gc_vms_total c + of_nat (length (filter (of_kind ''qemu'') rs))"
  "gc_vms_running (count_guests fadd rs c) = gc_vms_running c + of_nat (length (filter (kind_in ''qemu'' ''running'') rs))"
  "gc_vms_stopped (count_guests fadd rs c) = gc_vms_stopped c + of_nat (length (filter (kind_in ''qemu'' ''stopped'') rs))"
  "gc_lxcs_total (count_guests fadd rs c) = gc_lxcs_total c + of_nat (length (filter (of_kind ''lxc'') rs))"
  "gc_lxcs_running (count_guests fadd rs c) = gc_lxcs_running c + of_nat (length (filter (kind_in ''lxc'' ''running'') rs))"
  "gc_lxcs_stopped (count_guests fadd rs c) = gc_lxcs_stopped c + of_nat (length (filter (kind_in ''lxc'' ''stopped'') rs))"
  "gc_memory (count_guests fadd rs c) = gc_memory c
     + of_nat (sum_list (map (\<lambda>r. opt_or 0 (vr_maxmem r)) (filter (\<lambda>r. of_kind ''qemu'' r \<or> of_kind ''lxc'' r) rs)))"
  by (induction fadd rs c rule: count_guests.induct)
    (simp_all add: count_steps of_kind_def kind_in_def, simp_all add: count_vm_def count_lxc_def Let_def add_ac)

lemma clients_for_user_props: "distinct (clients_for_user users name cs)"
  "\<forall>i\<in>set (clients_for_user users name cs). i < length cs"
  "user_allowed_clusters users name = Some allowed \<Longrightarrow>
     set (clients_for_user users name cs) = {i. i < length cs \<and> px_name (cs ! i) \<in> set allowed}"
  by (auto simp: clients_for_user_def split: option.splits)

lemma filter_disjoint:
  "(\<And>x. P x \<Longrightarrow> R x) \<Longrightarrow> (\<And>x. Q x \<Longrightarrow> R x) \<Longrightarrow> (\<And>x. \<not> (P x \<and> Q x)) \<Longrightarrow>
    length (filter P xs) + length (filter Q xs) \<le> length (filter R xs)"
  by (induction xs) (auto simp: le_Suc_eq)

lemma persist_memory: "ly_dashboards (snd (persist F s)) = ly_dashboards s"
  by (simp add: persist_def Let_def split_beta split: sum.split)

lemma persist_ok: "is_ok (fst (persist F s)) \<Longrightarrow> \<exists>t. fs_print F (ly_dashboards s) = Ok t
    \<and> is_ok (fst (fs_write F t (ly_file s))) \<and> snd (persist F s) = s \<lparr> ly_file := snd (fs_write F t (ly_file s)) \<rparr>"
  by (cases "fs_mkdir F"; cases "fs_print F (ly_dashboards s)")
    (auto simp: persist_def Let_def split_beta is_ok_def map_err_def split: sum.splits)

section \<open>Properties\<close>


definition demo_dash :: dash_decoders where
  "demo_dash = \<lparr> dd_version = Inl, dd_resources = Inl, dd_storages = Inl, dd_fadd = (+) \<rparr>"


text \<open>The counters of a cluster equal their specification: with fewer than \<open>2^32\<close> guests they are the numbers of
  machines and containers with the respective status, so running and stopped never exceed the total;
  the memory is the sum of the configured sizes, modulo \<open>2^64\<close>; other resources do not count.\<close>

theorem guest_counts_exact:
  assumes "length rs < 2 ^ 32" "c = count_guests fadd rs no_guests"
  shows "unat (gc_vms_total c) = length (filter (of_kind ''qemu'') rs)
    \<and> unat (gc_vms_running c) = length (filter (kind_in ''qemu'' ''running'') rs)
    \<and> unat (gc_vms_stopped c) = length (filter (kind_in ''qemu'' ''stopped'') rs)
    \<and> unat (gc_lxcs_total c) = length (filter (of_kind ''lxc'') rs)
    \<and> unat (gc_lxcs_running c) = length (filter (kind_in ''lxc'' ''running'') rs)
    \<and> unat (gc_lxcs_stopped c) = length (filter (kind_in ''lxc'' ''stopped'') rs)
    \<and> unat (gc_vms_running c) + unat (gc_vms_stopped c) \<le> unat (gc_vms_total c)
    \<and> unat (gc_lxcs_running c) + unat (gc_lxcs_stopped c) \<le> unat (gc_lxcs_total c)
    \<and> gc_memory c = of_nat (sum_list (map (\<lambda>r. opt_or 0 (vr_maxmem r)) (filter (\<lambda>r. of_kind ''qemu'' r \<or> of_kind ''lxc'' r) rs)))"
proof -
  have len: "unat (of_nat (length (filter P rs)) :: 32 word) = length (filter P rs)" for P
  proof -
    have "length (filter P rs) < 2 ^ LENGTH(32)"
      by (rule le_less_trans[OF length_filter_le]) (use assms(1) in simp)
    then show ?thesis by (simp add: unsigned_of_nat take_bit_nat_eq_self del: len_num0)
  qed
  have "length (filter (kind_in k ''running'') rs) + length (filter (kind_in k ''stopped'') rs) \<le> length (filter (of_kind k) rs)" for k
    by (rule filter_disjoint) (auto simp: kind_in_def of_kind_def)
  then show ?thesis by (simp add: assms(2) count_guests_exact no_guests_def len)
qed

definition demo_guest :: "string \<Rightarrow> string \<Rightarrow> vm_resource" where
  "demo_guest kind status = \<lparr> vr_vmid = 100, vr_name = ''g'', vr_node = ''n1'', vr_kind = kind, vr_status = status,
     vr_cpu = None, vr_cpus = None, vr_mem = None, vr_maxmem = Some 5, vr_disk = None, vr_maxdisk = None,
     vr_netin = None, vr_netout = None, vr_diskread = None, vr_diskwrite = None, vr_uptime = None,
     vr_template = None, vr_tags = None \<rparr>"

theorem guest_counts_exact_witness:
  "gc_memory (count_guests (+) [demo_guest ''qemu'' ''running'', demo_guest ''pool'' ''running'', demo_guest ''lxc'' ''paused''] no_guests) = 10"
  using guest_counts_exact[of "[demo_guest ''qemu'' ''running'', demo_guest ''pool'' ''running'', demo_guest ''lxc'' ''paused'']" _ "(+)"]
  by (simp add: of_kind_def demo_guest_def)

text \<open>Layouts: a saved layout is what its user sees from then on and nobody else's changes, even when writing
  the file failed and the reply is an error; and after a successful save a restart of the service
  loads the same layouts, provided the file system returns what was written and \<open>serde_json\<close> reads
  what it printed.\<close>

theorem layout_saved:
  assumes "save_dashboard F user_id config s = (r, s')"
  shows "get_dashboard user_id s' = config \<and> (\<forall>other. other \<noteq> user_id \<longrightarrow> get_dashboard other s' = get_dashboard other s)
    \<and> (is_ok r \<longrightarrow> (\<forall>c old. is_ok (fst (fs_write F c old)) \<longrightarrow> snd (fs_write F c old) = Some c)
        \<longrightarrow> (\<forall>m t. fs_print F m = Ok t \<longrightarrow> fs_parse F t = Ok m) \<longrightarrow> (\<forall>c. fs_read F c = Ok c)
        \<longrightarrow> ly_dashboards (layouts_new F (ly_file s')) = ly_dashboards s')"
proof -
  define s0 where "s0 = s \<lparr> ly_dashboards := hm_put user_id config (ly_dashboards s) \<rparr>"
  have run: "persist F s0 = (r, s')" using assms by (simp add: save_dashboard_def s0_def)
  have mem: "ly_dashboards s' = hm_put user_id config (ly_dashboards s)"
    using persist_memory[of F s0] run by (simp add: s0_def)
  have "ly_dashboards (layouts_new F (ly_file s')) = ly_dashboards s'"
    if "is_ok r" "\<forall>c old. is_ok (fst (fs_write F c old)) \<longrightarrow> snd (fs_write F c old) = Some c"
      "\<forall>m t. fs_print F m = Ok t \<longrightarrow> fs_parse F t = Ok m" "\<forall>c. fs_read F c = Ok c"
  proof -
    from persist_ok[of F s0] run that(1) obtain t where "fs_print F (ly_dashboards s0) = Ok t"
        "is_ok (fst (fs_write F t (ly_file s0)))" "s' = s0 \<lparr> ly_file := snd (fs_write F t (ly_file s0)) \<rparr>" by auto
    then show ?thesis using that(2-4) by (simp add: layouts_new_def)
  qed
  with mem show ?thesis by (simp add: get_dashboard_def hm_get_put)
qed

definition demo_fs :: layout_fs where
  "demo_fs = \<lparr> fs_mkdir = Ok (), fs_print = (\<lambda>m. Ok (map (\<lambda>_. CHR ''x'') m)),
     fs_write = (\<lambda>c old. (Err ''disk full'', old)), fs_parse = (\<lambda>t. Err ''bad''), fs_read = Ok \<rparr>"

theorem layout_saved_witness:
  "get_dashboard ''alice'' (snd (save_dashboard demo_fs ''alice'' (default_dashboard ''bob'') (layouts_new demo_fs None)))
     = default_dashboard ''bob''"
  using layout_saved[of demo_fs "''alice''" "default_dashboard ''bob''" "layouts_new demo_fs None"] by (metis surj_pair snd_conv)

end
