(* ===== verification/Lxc_Api.thy ===== *)
theory Lxc_Api
  imports Handlers
begin

text \<open>
  The container endpoints (\<open>src/api/lxcs.rs\<close>): one definition per handler, over the fleet of clients,
  and the dispatcher \<open>lxc_serve\<close> of a parsed request. JSON decoding and the text \<open>serde_json\<close> gives to
  a number or a nested value are parameters.
\<close>

section \<open>Data\<close>

record lxc_row =
  xr_cluster :: string
  xr_vmid :: nat
  xr_name :: string
  xr_node :: string
  xr_status :: string
  xr_cpu :: "f64_bits option"
  xr_cpus :: "f64_bits option"
  xr_mem :: "nat option"
  xr_maxmem :: "nat option"
  xr_uptime :: "nat option"
  xr_template :: "nat option"

definition lxc_row_of :: "string \<Rightarrow> vm_resource \<Rightarrow> lxc_row" where
  "lxc_row_of cluster r =
     \<lparr> xr_cluster = cluster, xr_vmid = vr_vmid r, xr_name = vr_name r, xr_node = vr_node r,
       xr_status = vr_status r, xr_cpu = vr_cpu r, xr_cpus = vr_cpus r, xr_mem = vr_mem r,
       xr_maxmem = vr_maxmem r, xr_uptime = vr_uptime r, xr_template = vr_template r \<rparr>"

record lxcs_response =
  xs_lxcs :: "lxc_row list"
  xs_errors :: "(string, string) hmap"

text \<open>The body of a creation; \<open>extra\<close> collects the members without a field of their own.\<close>

record create_lxc_body =
  lb_vmid :: "nat option"
  lb_hostname :: "string option"
  lb_rootfs :: "string option"
  lb_storage :: "string option"
  lb_ostemplate :: "string option"
  lb_memory :: "nat option"
  lb_cores :: "nat option"
  lb_swap :: "nat option"
  lb_password :: "string option"
  lb_ssh_public_keys :: "string option"
  lb_net0 :: "string option"
  lb_unprivileged :: "bool option"
  lb_start :: "bool option"
  lb_extra :: "(string, json) hmap"

definition create_lxc_body_params :: "create_lxc_body \<Rightarrow> params" where
  "create_lxc_body_params b =
     opt_nat ''vmid'' (lb_vmid b) @ opt_str ''hostname'' (lb_hostname b) @ opt_str ''rootfs'' (lb_rootfs b)
     @ opt_str ''storage'' (lb_storage b) @ opt_str ''ostemplate'' (lb_ostemplate b)
     @ opt_nat ''memory'' (lb_memory b) @ opt_nat ''cores'' (lb_cores b) @ opt_nat ''swap'' (lb_swap b)
     @ opt_str ''password'' (lb_password b) @ opt_str ''ssh-public-keys'' (lb_ssh_public_keys b)
     @ opt_str ''net0'' (lb_net0 b) @ opt_bit ''unprivileged'' (lb_unprivileged b)
     @ opt_bit ''start'' (lb_start b)"

text \<open>\<open>jf_f64\<close> is the \<open>Display\<close> text of the double nearest to a number that is no \<open>u64\<close>, \<open>jf_text\<close> the
  compact JSON text of a value.\<close>

record json_fmt =
  jf_f64 :: "string \<Rightarrow> string"
  jf_text :: "json \<Rightarrow> string"

fun param_value :: "json_fmt \<Rightarrow> json \<Rightarrow> string" where
  "param_value fmt (JStr s) = s"
| "param_value fmt (JNum n) = show_nat n"
| "param_value fmt (JNumber t) = jf_f64 fmt t"
| "param_value fmt (JBool b) = bit01 b"
| "param_value fmt v = jf_text fmt v"

text \<open>A body that is no object has no parameters.\<close>

definition flatten_params :: "json_fmt \<Rightarrow> json \<Rightarrow> params" where
  "flatten_params fmt body =
     (case body of JObj members \<Rightarrow> map (\<lambda>(k, v). (k, param_value fmt v)) members | _ \<Rightarrow> [])"

section \<open>Handlers\<close>

definition list_lxcs :: "'w px_env \<Rightarrow> (string \<Rightarrow> (string, vm_resource list) result) \<Rightarrow> nat list
    \<Rightarrow> 'w fleet \<Rightarrow> lxcs_response \<times> 'w fleet" where
  "list_lxcs env dec order st =
     (let ((lxcs, errors), st') = list_endpoint order (px_list_lxcs env dec) (\<lambda>name. map (lxc_row_of name)) st
      in (\<lparr> xs_lxcs = lxcs, xs_errors = errors \<rparr>, st'))"

definition lxc_detail :: "'w px_env \<Rightarrow> (string \<Rightarrow> (string, lxc_status option) result) \<Rightarrow> string \<Rightarrow> string \<Rightarrow> nat
    \<Rightarrow> ('w, lxc_status) fleet_op" where
  "lxc_detail env dec cluster node vmid st =
     (let (r, st') = on_cluster cluster (px_lxc_detail env dec node vmid) st
      in (rbind r (ok_or (NotFound (''LXC '' @ show_nat vmid @ '' not found in '' @ cluster @ ''/'' @ node))), st'))"

definition lxc_reply :: "string \<Rightarrow> nat \<Rightarrow> string \<Rightarrow> string \<Rightarrow> json" where
  "lxc_reply cluster vmid action upid =
     JObj [(''vmid'', JNum vmid), (''action'', JStr action), (''upid'', JStr upid), (''cluster'', JStr cluster)]"

definition lxc_actions :: "string list" where
  "lxc_actions = [''start'', ''stop'', ''shutdown'', ''reboot'']"

definition lxc_action_params :: "lxc_action_request option \<Rightarrow> params" where
  "lxc_action_params body =
     (case body of None \<Rightarrow> [] | Some b \<Rightarrow> opt_bit ''force'' (la_force b) @ opt_nat ''timeout'' (la_timeout b))"

definition lxc_action_handler :: "'w px_env \<Rightarrow> auth_context \<Rightarrow> string \<Rightarrow> string \<Rightarrow> nat \<Rightarrow> string
    \<Rightarrow> lxc_action_request option \<Rightarrow> ('w, json) fleet_op" where
  "lxc_action_handler env auth cluster node vmid action body =
     operator_gate env auth (\<lambda>st.
       if List.member lxc_actions action
       then map_reply (lxc_reply cluster vmid action)
              (on_cluster cluster (px_lxc_action env node vmid action (lxc_action_params body)) st)
       else (Err (BadRequest (''unknown lxc action '' @ quoted action
               @ ''; expected start|stop|shutdown|reboot'')), st))"

definition lxc_delete_handler :: "'w px_env \<Rightarrow> auth_context \<Rightarrow> string \<Rightarrow> string \<Rightarrow> nat
    \<Rightarrow> delete_lxc_request option \<Rightarrow> ('w, json) fleet_op" where
  "lxc_delete_handler env auth cluster node vmid body =
     (let opts = opt_or \<lparr> dl_purge = False, dl_force = False, dl_skiplock = False \<rparr> body
      in operator_gate env auth (\<lambda>st. map_reply (lxc_reply cluster vmid ''delete'')
           (on_cluster cluster (px_lxc_delete env node vmid (dl_purge opts) (dl_force opts) (dl_skiplock opts)) st)))"

definition lxc_create_handler :: "'w px_env \<Rightarrow> (string \<Rightarrow> (string, json) result) \<Rightarrow> auth_context \<Rightarrow> string \<Rightarrow> string
    \<Rightarrow> create_lxc_body \<Rightarrow> ('w, json) fleet_op" where
  "lxc_create_handler env dec auth cluster node body =
     operator_gate env auth (\<lambda>st. map_reply (\<lambda>r. JObj [(''node'', JStr node), (''cluster'', JStr cluster), (''result'', r)])
       (on_cluster cluster (post_with_query env dec (''nodes/'' @ node @ ''/lxc'') (create_lxc_body_params body)) st))"

definition lxc_config_path :: "string \<Rightarrow> nat \<Rightarrow> string" where
  "lxc_config_path node vmid = ''nodes/'' @ node @ ''/lxc/'' @ show_nat vmid @ ''/config''"

definition lxc_config_handler :: "'w px_env \<Rightarrow> (string \<Rightarrow> (string, json) result) \<Rightarrow> string \<Rightarrow> string \<Rightarrow> nat
    \<Rightarrow> ('w, json) fleet_op" where
  "lxc_config_handler env dec cluster node vmid = on_cluster cluster (px_get env dec (lxc_config_path node vmid))"

definition lxc_update_config_handler :: "'w px_env \<Rightarrow> (string \<Rightarrow> (string, json) result) \<Rightarrow> json_fmt \<Rightarrow> auth_context
    \<Rightarrow> string \<Rightarrow> string \<Rightarrow> nat \<Rightarrow> json \<Rightarrow> ('w, json) fleet_op" where
  "lxc_update_config_handler env dec fmt auth cluster node vmid body =
     operator_gate env auth (\<lambda>st. map_reply (\<lambda>r. JObj [(''vmid'', JNum vmid), (''cluster'', JStr cluster), (''result'', r)])
       (on_cluster cluster (post_with_query env dec (lxc_config_path node vmid) (flatten_params fmt body)) st))"

section \<open>Dispatch\<close>

text \<open>Path variables, then body; the first two requests only read.\<close>

datatype lxc_request =
    LxcDetail string string nat
  | LxcConfig string string nat
  | LxcAction string string nat string "lxc_action_request option"
  | LxcDelete string string nat "delete_lxc_request option"
  | LxcCreate string string create_lxc_body
  | LxcConfigure string string nat json

datatype lxc_answer = LxcStatusReply lxc_status | LxcJson json

fun lxc_serve :: "(string \<Rightarrow> (string, lxc_status option) result) \<Rightarrow> (string \<Rightarrow> (string, json) result) \<Rightarrow> json_fmt
    \<Rightarrow> auth_context \<Rightarrow> lxc_request \<Rightarrow> 'w px_env \<Rightarrow> ('w, lxc_answer) fleet_op" where
  "lxc_serve ds dj fmt auth (LxcDetail cl node vmid) env st = map_reply LxcStatusReply (lxc_detail env ds cl node vmid st)"
| "lxc_serve ds dj fmt auth (LxcConfig cl node vmid) env st = map_reply LxcJson (lxc_config_handler env dj cl node vmid st)"
| "lxc_serve ds dj fmt auth (LxcAction cl node vmid action body) env st =
     map_reply LxcJson (lxc_action_handler env auth cl node vmid action body st)"
| "lxc_serve ds dj fmt auth (LxcDelete cl node vmid body) env st =
     map_reply LxcJson (lxc_delete_handler env auth cl node vmid body st)"
| "lxc_serve ds dj fmt auth (LxcCreate cl node body) env st =
     map_reply LxcJson (lxc_create_handler env dj auth cl node body st)"
| "lxc_serve ds dj fmt auth (LxcConfigure cl node vmid body) env st =
     map_reply LxcJson (lxc_update_config_handler env dj fmt auth cl node vmid body st)"

fun lxc_cluster :: "lxc_request \<Rightarrow> string" where
  "lxc_cluster (LxcDetail cl _ _) = cl" | "lxc_cluster (LxcConfig cl _ _) = cl"
| "lxc_cluster (LxcAction cl _ _ _ _) = cl" | "lxc_cluster (LxcDelete cl _ _ _) = cl"
| "lxc_cluster (LxcCreate cl _ _) = cl" | "lxc_cluster (LxcConfigure cl _ _ _) = cl"

fun lxc_writes :: "lxc_request \<Rightarrow> bool" where
  "lxc_writes (LxcDetail _ _ _) = False" | "lxc_writes (LxcConfig _ _ _) = False" | "lxc_writes _ = True"

section \<open>Lemmas\<close>

lemmas lxc_handler_defs = lxc_config_handler_def lxc_action_handler_def lxc_delete_handler_def
  lxc_create_handler_def lxc_update_config_handler_def

lemma within_lxc_detail: "within cl (\<lambda>env. lxc_detail env dec cl node vmid)"
proof -
  have w: "within cl (\<lambda>env. on_cluster cl (px_lxc_detail env dec node vmid))"
    by (rule within_on_cluster) (rule client_calls)
  show ?thesis by (rule within_rbind[OF w]) (simp add: lxc_detail_def)
qed

lemma within_lxc_action: "within cl (\<lambda>env. lxc_action_handler env auth cl node vmid action body)"
proof -
  have "within cl (\<lambda>env st. if List.member lxc_actions action
       then map_reply (lxc_reply cl vmid action)
              (on_cluster cl (px_lxc_action env node vmid action (lxc_action_params body)) st)
       else (Inl (BadRequest (''unknown lxc action '' @ quoted action
               @ ''; expected start|stop|shutdown|reboot'')), st))"
    by (intro within_if within_map_reply within_on_cluster within_refuse client_calls)
  from within_gate[OF this, of auth] show ?thesis by (simp add: lxc_action_handler_def)
qed

lemma lxc_serve_within: "within (lxc_cluster req) (lxc_serve ds dj fmt auth req)"
proof (cases req)
  case (LxcDetail cl node vmid)
  then show ?thesis by (auto intro: within_ext[OF within_map_reply[OF within_lxc_detail]])
next
  case (LxcAction cl node vmid action body)
  then show ?thesis by (auto intro: within_ext[OF within_map_reply[OF within_lxc_action]])
next
  case (LxcConfig cl node vmid)
  have "within cl (\<lambda>env. lxc_config_handler env dj cl node vmid)"
    unfolding lxc_config_handler_def by (rule within_on_cluster, rule client_calls)
  then show ?thesis using LxcConfig by (auto intro: within_ext[OF within_map_reply])
next
  case (LxcDelete cl node vmid body)
  have "within cl (\<lambda>env. lxc_delete_handler env auth cl node vmid body)"
    unfolding lxc_delete_handler_def Let_def
    by (rule within_gate[OF within_map_reply[OF within_on_cluster]], rule client_calls)
  then show ?thesis using LxcDelete by (auto intro: within_ext[OF within_map_reply])
next
  case (LxcCreate cl node body)
  have "within cl (\<lambda>env. lxc_create_handler env dj auth cl node body)"
    unfolding lxc_create_handler_def
    by (rule within_gate[OF within_map_reply[OF within_on_cluster]], rule client_calls)
  then show ?thesis using LxcCreate by (auto intro: within_ext[OF within_map_reply])
next
  case (LxcConfigure cl node vmid body)
  have "within cl (\<lambda>env. lxc_update_config_handler env dj fmt auth cl node vmid body)"
    unfolding lxc_update_config_handler_def
    by (rule within_gate[OF within_map_reply[OF within_on_cluster]], rule client_calls)
  then show ?thesis using LxcConfigure by (auto intro: within_ext[OF within_map_reply])
qed

lemma lxc_serve_gated:
  assumes "\<nexists>r. to_ascii_lowercase (cl_role (ac_claims auth)) = role_as_str r \<and> Operator \<le> r" "lxc_writes req"
  shows "lxc_serve ds dj fmt auth req env st = (Inl (Forbidden ''operator role required''), st)"
proof -
  have gate: "operator_gate env auth k st = (Inl (Forbidden ''operator role required''), st)"
    for k :: "('w, 'b) fleet_op" and env st
    unfolding operator_gate_def by (rule role_gate_refused[OF assms(1)])
  show ?thesis using assms(2) by (cases req) (simp_all add: lxc_handler_defs Let_def gate)
qed

lemma create_lxc_read:
  "map_of (create_lxc_body_params b) ''vmid'' = map_option show_nat (lb_vmid b)"
  "map_of (create_lxc_body_params b) ''hostname'' = lb_hostname b"
  "map_of (create_lxc_body_params b) ''rootfs'' = lb_rootfs b"
  "map_of (create_lxc_body_params b) ''storage'' = lb_storage b"
  "map_of (create_lxc_body_params b) ''ostemplate'' = lb_ostemplate b"
  "map_of (create_lxc_body_params b) ''memory'' = map_option show_nat (lb_memory b)"
  "map_of (create_lxc_body_params b) ''cores'' = map_option show_nat (lb_cores b)"
  "map_of (create_lxc_body_params b) ''swap'' = map_option show_nat (lb_swap b)"
  "map_of (create_lxc_body_params b) ''password'' = lb_password b"
  "map_of (create_lxc_body_params b) ''ssh-public-keys'' = lb_ssh_public_keys b"
  "map_of (create_lxc_body_params b) ''net0'' = lb_net0 b"
  "map_of (create_lxc_body_params b) ''unprivileged'' = map_option bit01 (lb_unprivileged b)"
  "map_of (create_lxc_body_params b) ''start'' = map_option bit01 (lb_start b)"
  by (simp_all add: create_lxc_body_params_def param_defs option.map_ident del: map_of_append)

section \<open>Properties\<close>

text \<open>Container requests are guarded: a request that changes something is refused with the 403 error,
  without any call, unless the token carries the operator or admin role; and every request stays
  within the cluster it names: it keeps all configurations and every other client, fails without a
  call when the cluster is not configured, and depends on the network only through calls to it.\<close>

theorem container_requests_guarded:
  "(lxc_writes req \<longrightarrow> (\<nexists>r. to_ascii_lowercase (cl_role (ac_claims auth)) = role_as_str r \<and> Operator \<le> r) \<longrightarrow>
      lxc_serve ds dj fmt auth req env st = (Err (Forbidden ''operator role required''), st))
   \<and> (let (r, cs', w') = lxc_serve ds dj fmt auth req env st in
        map pc_config cs' = map pc_config (fst st)
        \<and> (\<forall>j. px_name (fst st ! j) \<noteq> lxc_cluster req \<longrightarrow> cs' ! j = fst st ! j)
        \<and> (lxc_cluster req \<notin> px_name ` set (fst st) \<longrightarrow> (cs', w') = st \<and> \<not> is_ok r))
   \<and> (\<forall>env'. (\<forall>c\<in>set (fst st). px_name c = lxc_cluster req \<longrightarrow> same_to (px_host c) env env')
        \<longrightarrow> lxc_serve ds dj fmt auth req env' st = lxc_serve ds dj fmt auth req env st)"
  using lxc_serve_gated[of auth req ds dj fmt env st] withinD[OF lxc_serve_within[of req ds dj fmt auth], of env st]
  by blast

theorem container_requests_guarded_witness:
  "lxc_serve Inl Inl \<lparr> jf_f64 = id, jf_text = (\<lambda>_. []) \<rparr> (demo_auth ''viewer'')
     (LxcAction ''c1'' ''n1'' 100 ''stop'' None) dead_env ([demo_client], 7)
     = (Err (Forbidden ''operator role required''), [demo_client], 7)"
  by (rule container_requests_guarded[THEN conjunct1, rule_format, OF _ no_operator[OF demo_viewer]]) simp

text \<open>What the creation of a container sends: two bodies send the same parameters exactly if they agree in
  every named field; no parameter occurs twice; and the additional members, documented as passed
  through, never reach the cluster.\<close>

theorem create_lxc_params_faithful:
  "(create_lxc_body_params a = create_lxc_body_params b \<longleftrightarrow> a \<lparr> lb_extra := [] \<rparr> = b \<lparr> lb_extra := [] \<rparr>)
   \<and> distinct (map fst (create_lxc_body_params a))"
proof (intro conjI iffI)
  assume eq: "create_lxc_body_params a = create_lxc_body_params b"
  note read = create_lxc_read[of a, unfolded eq create_lxc_read[of b], unfolded map_option_inj[OF inj_show] map_option_inj[OF inj_bit01]]
  show "a \<lparr> lb_extra := [] \<rparr> = b \<lparr> lb_extra := [] \<rparr>" by (rule create_lxc_body.equality) (simp_all add: read)
next
  assume eq: "a \<lparr> lb_extra := [] \<rparr> = b \<lparr> lb_extra := [] \<rparr>"
  have "create_lxc_body_params (x \<lparr> lb_extra := [] \<rparr>) = create_lxc_body_params x" for x
    by (simp add: create_lxc_body_params_def)
  with eq show "create_lxc_body_params a = create_lxc_body_params b" by metis
next
  show "distinct (map fst (create_lxc_body_params a))"
    unfolding create_lxc_body_params_def param_defs
    by (intro distinct_opt_step) (simp_all add: keys_opt_with del: map_of_append)
qed

end
