(* ===== verification/Infra_Api.thy ===== *)
theory Infra_Api
  imports Lxc_Api
begin

text \<open>
  The endpoints for storages, networks, tasks, HA groups and replication (\<open>src/api/storages.rs\<close>,
  \<open>networks.rs\<close>, \<open>tasks.rs\<close>, \<open>hagroups.rs\<close>, \<open>replication.rs\<close>) and the read-only views of all clusters
  (\<open>cluster.rs\<close>, \<open>ceph.rs\<close>, \<open>sdn.rs\<close>, \<open>firewall.rs\<close>). JSON and base64 decoding are parameters.
\<close>

section \<open>Views of all clusters\<close>

definition errors_json :: "(string, string) hmap \<Rightarrow> json" where
  "errors_json errors = JObj (map (\<lambda>(name, e). (name, JStr e)) errors)"

definition opt_json :: "('a \<Rightarrow> json) \<Rightarrow> 'a option \<Rightarrow> json" where
  "opt_json f x = (case x of None \<Rightarrow> JNull | Some v \<Rightarrow> f v)"

text \<open>The raw answer of every cluster under its name, failures under \<open>errors\<close>.\<close>

definition raw_view :: "'w px_env \<Rightarrow> (string \<Rightarrow> (string, json) result) \<Rightarrow> string \<Rightarrow> nat list \<Rightarrow> 'w fleet \<Rightarrow> json \<times> 'w fleet" where
  "raw_view env dec path order st =
     (let ((data, errors), st') = data_endpoint order (px_get env dec path) st
      in (JObj [(''data'', JObj data), (''errors'', errors_json errors)], st'))"

definition ceph_status :: "'w px_env \<Rightarrow> (string \<Rightarrow> (string, json) result) \<Rightarrow> nat list \<Rightarrow> 'w fleet \<Rightarrow> json \<times> 'w fleet" where
  "ceph_status env dec = raw_view env dec ''cluster/ceph/status''"

definition ceph_pools :: "'w px_env \<Rightarrow> (string \<Rightarrow> (string, json) result) \<Rightarrow> nat list \<Rightarrow> 'w fleet \<Rightarrow> json \<times> 'w fleet" where
  "ceph_pools env dec = raw_view env dec ''cluster/ceph/pool''"

definition sdn_zones :: "'w px_env \<Rightarrow> (string \<Rightarrow> (string, json) result) \<Rightarrow> nat list \<Rightarrow> 'w fleet \<Rightarrow> json \<times> 'w fleet" where
  "sdn_zones env dec = raw_view env dec ''cluster/sdn/zones''"

definition sdn_vnets :: "'w px_env \<Rightarrow> (string \<Rightarrow> (string, json) result) \<Rightarrow> nat list \<Rightarrow> 'w fleet \<Rightarrow> json \<times> 'w fleet" where
  "sdn_vnets env dec = raw_view env dec ''cluster/sdn/vnets''"

definition firewall_rules :: "'w px_env \<Rightarrow> (string \<Rightarrow> (string, json) result) \<Rightarrow> nat list \<Rightarrow> 'w fleet \<Rightarrow> json \<times> 'w fleet" where
  "firewall_rules env dec = raw_view env dec ''cluster/firewall/rules''"

definition ha_status :: "'w px_env \<Rightarrow> (string \<Rightarrow> (string, json) result) \<Rightarrow> nat list \<Rightarrow> 'w fleet \<Rightarrow> json \<times> 'w fleet" where
  "ha_status env dec = raw_view env dec ''cluster/ha/status''"

text \<open>The views of \<open>cluster.rs\<close> keep the successes only; a failure is logged.\<close>

definition collect_aggregated :: "'w px_env \<Rightarrow> (string \<Rightarrow> (string, json) result) \<Rightarrow> string \<Rightarrow> nat list \<Rightarrow> 'w fleet
    \<Rightarrow> (string, json) hmap \<times> 'w fleet" where
  "collect_aggregated env dec path order st =
     (let ((data, errors), st') = data_endpoint order (px_get env dec path) st in (data, st'))"

definition cluster_entries :: "(string, json) hmap \<Rightarrow> json" where
  "cluster_entries data = JArr (map (\<lambda>(cluster, value). JObj [(''cluster'', JStr cluster), (''data'', value)]) data)"

definition cluster_status_handler :: "'w px_env \<Rightarrow> (string \<Rightarrow> (string, json) result) \<Rightarrow> nat list \<Rightarrow> 'w fleet \<Rightarrow> json \<times> 'w fleet" where
  "cluster_status_handler env dec order st =
     (let (data, st') = collect_aggregated env dec ''cluster/status'' order st
      in (JObj [(''clusters'', cluster_entries data), (''errors'', errors_json hm_empty)], st'))"

definition cluster_view :: "'w px_env \<Rightarrow> (string \<Rightarrow> (string, json) result) \<Rightarrow> string \<Rightarrow> nat list \<Rightarrow> 'w fleet \<Rightarrow> json \<times> 'w fleet" where
  "cluster_view env dec path order st =
     (let (data, st') = collect_aggregated env dec path order st in (JObj [(''clusters'', cluster_entries data)], st'))"

definition cluster_config_handler :: "'w px_env \<Rightarrow> (string \<Rightarrow> (string, json) result) \<Rightarrow> nat list \<Rightarrow> 'w fleet \<Rightarrow> json \<times> 'w fleet" where
  "cluster_config_handler env dec = cluster_view env dec ''cluster/config''"

definition cluster_options_handler :: "'w px_env \<Rightarrow> (string \<Rightarrow> (string, json) result) \<Rightarrow> nat list \<Rightarrow> 'w fleet \<Rightarrow> json \<times> 'w fleet" where
  "cluster_options_handler env dec = cluster_view env dec ''cluster/options''"

definition cluster_log_handler :: "'w px_env \<Rightarrow> (string \<Rightarrow> (string, json) result) \<Rightarrow> nat list \<Rightarrow> 'w fleet \<Rightarrow> json \<times> 'w fleet" where
  "cluster_log_handler env dec = cluster_view env dec ''cluster/log''"

definition cluster_tasks_handler :: "'w px_env \<Rightarrow> (string \<Rightarrow> (string, json) result) \<Rightarrow> nat list \<Rightarrow> 'w fleet \<Rightarrow> json \<times> 'w fleet" where
  "cluster_tasks_handler env dec = cluster_view env dec ''cluster/tasks''"

section \<open>Storages\<close>

text \<open>A listed item with the cluster and the node it is reported for; the listings name the cluster twice.\<close>

record storage_row =
  sw_cluster :: string
  sw_node :: string
  sw_storage :: string
  sw_kind :: string
  sw_total :: nat
  sw_used :: nat
  sw_avail :: nat
  sw_used_fraction :: "f64_bits option"
  sw_enabled :: "nat option"
  sw_shared :: "nat option"
  sw_content :: "string option"

definition storage_row_of :: "string \<Rightarrow> string \<Rightarrow> storage_resource \<Rightarrow> storage_row" where
  "storage_row_of cluster node s =
     \<lparr> sw_cluster = cluster, sw_node = node, sw_storage = sr_storage s, sw_kind = sr_kind s,
       sw_total = sr_total s, sw_used = sr_used s, sw_avail = sr_avail s,
       sw_used_fraction = sr_used_fraction s, sw_enabled = sr_enabled s, sw_shared = sr_shared s,
       sw_content = sr_content s \<rparr>"

record storages_response =
  ss_storages :: "storage_row list"
  ss_errors :: "(string, string) hmap"

definition list_storages_handler :: "'w px_env \<Rightarrow> (string \<Rightarrow> (string, storage_resource list) result) \<Rightarrow> nat list
    \<Rightarrow> 'w fleet \<Rightarrow> storages_response \<times> 'w fleet" where
  "list_storages_handler env dec order st =
     (let ((storages, errors), st') = list_endpoint order (px_get env dec ''storage'')
              (\<lambda>name. map (storage_row_of name name)) st
      in (\<lparr> ss_storages = storages, ss_errors = errors \<rparr>, st'))"

definition storage_content_handler :: "'w px_env \<Rightarrow> (string \<Rightarrow> (string, storage_content_entry list) result)
    \<Rightarrow> string \<Rightarrow> string \<Rightarrow> string \<Rightarrow> ('w, storage_content_entry list) fleet_op" where
  "storage_content_handler env dec cluster node storage = on_cluster cluster (px_storage_content env dec node storage)"

definition json_str_member :: "string \<Rightarrow> json \<Rightarrow> string option" where
  "json_str_member k body =
     (case body of JObj members \<Rightarrow> (case map_of members k of Some (JStr s) \<Rightarrow> Some s | _ \<Rightarrow> None) | _ \<Rightarrow> None)"

text \<open>The fields of an upload: content type, file name, decoded data.\<close>

definition upload_fields :: "(string \<Rightarrow> (string, string) result) \<Rightarrow> json \<Rightarrow> (app_error, string \<times> string \<times> string) result" where
  "upload_fields b64 body =
     (case json_str_member ''content'' body of
        None \<Rightarrow> Err (BadRequest (''missing '' @ quoted ''content'' @ '' field (iso|vztmpl|snippets)''))
      | Some content \<Rightarrow>
          (case json_str_member ''filename'' body of
             None \<Rightarrow> Err (BadRequest (''missing '' @ quoted ''filename'' @ '' field''))
           | Some filename \<Rightarrow>
               (case json_str_member ''data'' body of
                  None \<Rightarrow> Err (BadRequest (''missing '' @ quoted ''data'' @ '' field (base64-encoded file)''))
                | Some data_b64 \<Rightarrow>
                    (case b64 data_b64 of
                       Inl e \<Rightarrow> Err (BadRequest (''invalid base64 data: '' @ e))
                     | Inr data \<Rightarrow> Ok (content, filename, data)))))"

record upload_response =
  up_volid :: string
  up_msg :: "string option"

definition upload_call :: "(string \<Rightarrow> (string, upload_response) result) \<Rightarrow> (string \<Rightarrow> (string, string) result) \<Rightarrow> string \<Rightarrow> string
    \<Rightarrow> json \<Rightarrow> 'w px_env \<Rightarrow> ('w, upload_response) px" where
  "upload_call dec b64 node storage body env cw =
     (case upload_fields b64 body of
        Inl e \<Rightarrow> (Err e, cw)
      | Inr (content, filename, data) \<Rightarrow> px_upload_file env dec node storage content filename data cw)"

definition storage_upload_handler :: "'w px_env \<Rightarrow> (string \<Rightarrow> (string, upload_response) result)
    \<Rightarrow> (string \<Rightarrow> (string, string) result) \<Rightarrow> auth_context \<Rightarrow> string \<Rightarrow> string \<Rightarrow> string \<Rightarrow> json \<Rightarrow> ('w, json) fleet_op" where
  "storage_upload_handler env dec b64 auth cluster node storage body =
     operator_gate env auth (\<lambda>st. map_reply (\<lambda>r. JObj [(''volid'', JStr (up_volid r)), (''msg'', opt_json JStr (up_msg r)),
         (''storage'', JStr storage), (''cluster'', JStr cluster)])
       (on_cluster cluster (upload_call dec b64 node storage body env) st))"

definition delete_storage_content_handler :: "'w px_env \<Rightarrow> auth_context \<Rightarrow> string \<Rightarrow> string \<Rightarrow> string \<Rightarrow> string
    \<Rightarrow> ('w, json) fleet_op" where
  "delete_storage_content_handler env auth cluster node storage volid =
     operator_gate env auth (\<lambda>st. map_reply (\<lambda>upid. JObj [(''volid'', JStr volid), (''upid'', JStr upid),
         (''storage'', JStr storage), (''cluster'', JStr cluster)])
       (on_cluster cluster (px_delete_storage_content env node storage volid) st))"

section \<open>Networks\<close>

record network_row =
  nr_cluster :: string
  nr_node :: string
  nr_iface :: string
  nr_kind :: string
  nr_active :: "nat option"
  nr_address :: "string option"
  nr_gateway :: "string option"
  nr_address6 :: "string option"
  nr_gateway6 :: "string option"
  nr_bridge_ports :: "string option"
  nr_iface_vlan_raw_device :: "string option"
  nr_vlan_id :: "nat option"
  nr_autostart :: "nat option"
  nr_comments :: "string option"

definition network_row_of :: "string \<Rightarrow> string \<Rightarrow> node_network \<Rightarrow> network_row" where
  "network_row_of cluster node n =
     \<lparr> nr_cluster = cluster, nr_node = node, nr_iface = nn_iface n,
       nr_kind = nn_kind n, nr_active = nn_active n, nr_address = nn_address n,
       nr_gateway = nn_gateway n, nr_address6 = nn_address6 n, nr_gateway6 = nn_gateway6 n,
       nr_bridge_ports = nn_bridge_ports n, nr_iface_vlan_raw_device = nn_iface_vlan_raw_device n, nr_vlan_id = nn_vlan_id n,
       nr_autostart = nn_autostart n, nr_comments = nn_comments n \<rparr>"

record networks_response =
  ns_networks :: "network_row list"
  ns_errors :: "(string, string) hmap"

definition list_networks_handler :: "'w px_env \<Rightarrow> (string \<Rightarrow> (string, node_network list) result) \<Rightarrow> nat list
    \<Rightarrow> 'w fleet \<Rightarrow> networks_response \<times> 'w fleet" where
  "list_networks_handler env dec order st =
     (let ((networks, errors), st') = list_endpoint order (px_get env dec ''network'')
              (\<lambda>name. map (network_row_of name name)) st
      in (\<lparr> ns_networks = networks, ns_errors = errors \<rparr>, st'))"

definition node_networks_handler :: "'w px_env \<Rightarrow> (string \<Rightarrow> (string, node_network list) result) \<Rightarrow> string \<Rightarrow> string
    \<Rightarrow> ('w, node_network list) fleet_op" where
  "node_networks_handler env dec cluster node = on_cluster cluster (px_list_networks env dec node)"

definition vlan_row :: "string \<Rightarrow> node_network \<Rightarrow> json" where
  "vlan_row cluster n =
     JObj [(''cluster'', JStr cluster), (''iface'', JStr (nn_iface n)), (''vlan_id'', opt_json JNum (nn_vlan_id n)),
           (''raw_device'', opt_json JStr (nn_iface_vlan_raw_device n)), (''active'', opt_json JNum (nn_active n)),
           (''address'', opt_json JStr (nn_address n)), (''comments'', opt_json JStr (nn_comments n))]"

definition list_vlans :: "'w px_env \<Rightarrow> (string \<Rightarrow> (string, node_network list) result) \<Rightarrow> nat list
    \<Rightarrow> 'w fleet \<Rightarrow> json \<times> 'w fleet" where
  "list_vlans env dec order st =
     (let ((vlans, errors), st') = list_endpoint order (px_get env dec ''network'')
              (\<lambda>name ns. map (vlan_row name) (filter (\<lambda>n. nn_kind n = ''vlan'') ns)) st
      in (JObj [(''vlans'', JArr vlans), (''errors'', errors_json errors)], st'))"

definition network_reply :: "string \<Rightarrow> string \<Rightarrow> json \<Rightarrow> json" where
  "network_reply cluster node r = JObj [(''node'', JStr node), (''cluster'', JStr cluster), (''result'', r)]"

definition network_config_update_handler :: "'w px_env \<Rightarrow> (string \<Rightarrow> (string, json) result) \<Rightarrow> json_fmt \<Rightarrow> auth_context
    \<Rightarrow> string \<Rightarrow> string \<Rightarrow> json \<Rightarrow> ('w, json) fleet_op" where
  "network_config_update_handler env dec fmt auth cluster node body =
     operator_gate env auth (\<lambda>st. map_reply (network_reply cluster node)
       (on_cluster cluster (post_with_query env dec (''nodes/'' @ node @ ''/network'') (flatten_params fmt body)) st))"

definition network_config_apply_handler :: "'w px_env \<Rightarrow> (string \<Rightarrow> (string, json) result) \<Rightarrow> auth_context
    \<Rightarrow> string \<Rightarrow> string \<Rightarrow> ('w, json) fleet_op" where
  "network_config_apply_handler env dec auth cluster node =
     operator_gate env auth (\<lambda>st. map_reply (network_reply cluster node)
       (on_cluster cluster (post_with_query env dec (''nodes/'' @ node @ ''/network'') []) st))"

section \<open>Tasks\<close>

record task_status =
  tk_upid :: string
  tk_node :: "string option"
  tk_status :: string
  tk_exitstatus :: "string option"
  tk_starttime :: "nat option"
  tk_endtime :: "nat option"
  tk_type :: "string option"
  tk_user :: "string option"

definition task_status_handler :: "'w px_env \<Rightarrow> (string \<Rightarrow> (string, task_status) result) \<Rightarrow> string \<Rightarrow> string \<Rightarrow> string
    \<Rightarrow> ('w, task_status) fleet_op" where
  "task_status_handler env dec cluster node upid = on_cluster cluster (px_task_status env dec node upid)"

definition task_log_handler :: "'w px_env \<Rightarrow> (string \<Rightarrow> (string, json) result) \<Rightarrow> string \<Rightarrow> string \<Rightarrow> string
    \<Rightarrow> ('w, json) fleet_op" where
  "task_log_handler env dec cluster node upid =
     on_cluster cluster (px_get env dec (''nodes/'' @ node @ ''/tasks/'' @ upid @ ''/log''))"

definition task_delete_handler :: "'w px_env \<Rightarrow> (string \<Rightarrow> (string, json) result) \<Rightarrow> auth_context \<Rightarrow> string \<Rightarrow> string \<Rightarrow> string
    \<Rightarrow> ('w, json) fleet_op" where
  "task_delete_handler env dec auth cluster node upid =
     operator_gate env auth (on_cluster cluster
       (post_with_query env dec (''nodes/'' @ node @ ''/tasks/'' @ upid) []))"

section \<open>HA groups\<close>

record ha_group_row =
  hr_cluster :: string
  hr_group :: string
  hr_nodes :: "string option"
  hr_kind :: "string option"
  hr_comment :: "string option"
  hr_nofailback :: "nat option"
  hr_restricted :: "nat option"

definition ha_group_row_of :: "string \<Rightarrow> ha_group \<Rightarrow> ha_group_row" where
  "ha_group_row_of cluster g =
     \<lparr> hr_cluster = cluster, hr_group = hg_group g, hr_nodes = hg_nodes g, hr_kind = hg_kind g,
       hr_comment = hg_comment g, hr_nofailback = hg_nofailback g, hr_restricted = hg_restricted g \<rparr>"

record ha_groups_response =
  hs_groups :: "ha_group_row list"
  hs_errors :: "(string, string) hmap"

record ha_group_create_request =
  hc_nodes :: "string option"
  hc_comment :: "string option"
  hc_nofailback :: bool
  hc_restricted :: bool

record ha_group_action_response =
  ga_cluster :: string
  ga_group :: string
  ga_action :: string
  ga_result :: string

definition ha_reply :: "string \<Rightarrow> string \<Rightarrow> string \<Rightarrow> string \<Rightarrow> ha_group_action_response" where
  "ha_reply cluster grp action result =
     \<lparr> ga_cluster = cluster, ga_group = grp, ga_action = action, ga_result = result \<rparr>"

definition list_ha_groups_handler :: "'w px_env \<Rightarrow> (string \<Rightarrow> (string, ha_group list) result) \<Rightarrow> nat list
    \<Rightarrow> 'w fleet \<Rightarrow> ha_groups_response \<times> 'w fleet" where
  "list_ha_groups_handler env dec order st =
     (let ((groups, errors), st') = list_endpoint order (px_list_ha_groups env dec) (\<lambda>name. map (ha_group_row_of name)) st
      in (\<lparr> hs_groups = groups, hs_errors = errors \<rparr>, st'))"

definition create_ha_group_handler :: "'w px_env \<Rightarrow> auth_context \<Rightarrow> string \<Rightarrow> string \<Rightarrow> ha_group_create_request
    \<Rightarrow> ('w, ha_group_action_response) fleet_op" where
  "create_ha_group_handler env auth cluster grp body =
     operator_gate env auth (\<lambda>st. map_reply (ha_reply cluster grp ''create'')
       (on_cluster cluster (px_create_ha_group env grp (hc_nodes body) (hc_comment body)
          (hc_nofailback body) (hc_restricted body)) st))"

definition delete_ha_group_handler :: "'w px_env \<Rightarrow> auth_context \<Rightarrow> string \<Rightarrow> string \<Rightarrow> ('w, ha_group_action_response) fleet_op" where
  "delete_ha_group_handler env auth cluster grp =
     operator_gate env auth (\<lambda>st. map_reply (ha_reply cluster grp ''delete'')
       (on_cluster cluster (px_delete_ha_group env grp) st))"

section \<open>Replication\<close>

record replication_row =
  rw_cluster :: string
  rw_id :: nat
  rw_enable :: "nat option"
  rw_source_node :: "string option"
  rw_source_vmid :: "nat option"
  rw_target :: "string option"
  rw_target_vmid :: "nat option"
  rw_rate :: "nat option"
  rw_schedule :: "string option"
  rw_comment :: "string option"
  rw_kind :: "string option"

definition replication_row_of :: "string \<Rightarrow> replication_job \<Rightarrow> replication_row" where
  "replication_row_of cluster job =
     \<lparr> rw_cluster = cluster, rw_id = rj_id job, rw_enable = rj_enable job, rw_source_node = rj_source_node job,
       rw_source_vmid = rj_source_vmid job, rw_target = rj_target job, rw_target_vmid = rj_target_vmid job,
       rw_rate = rj_rate job, rw_schedule = rj_schedule job, rw_comment = rj_comment job, rw_kind = rj_kind job \<rparr>"

record replication_list_response =
  rl_jobs :: "replication_row list"
  rl_errors :: "(string, string) hmap"

record create_replication_request =
  cq_source_node :: string
  cq_target :: string
  cq_target_vmid :: "nat option"
  cq_rate :: "nat option"
  cq_schedule :: string
  cq_comment :: "string option"

record replication_action_response =
  ra_cluster :: string
  ra_id :: string
  ra_action :: string
  ra_result :: string

definition replication_reply :: "string \<Rightarrow> string \<Rightarrow> string \<Rightarrow> string \<Rightarrow> replication_action_response" where
  "replication_reply cluster jobid action result =
     \<lparr> ra_cluster = cluster, ra_id = jobid, ra_action = action, ra_result = result \<rparr>"

record replication_status =
  rt_job :: nat
  rt_state :: "string option"
  rt_last_sync :: "nat option"
  rt_last_try :: "nat option"
  rt_run_duration :: "nat option"
  rt_error :: "string option"
  rt_bytes :: "nat option"

record replication_status_response =
  ro_cluster :: string
  ro_id :: nat
  ro_status :: "replication_status list"

definition list_replication_handler :: "'w px_env \<Rightarrow> (string \<Rightarrow> (string, replication_job list) result) \<Rightarrow> nat list
    \<Rightarrow> 'w fleet \<Rightarrow> replication_list_response \<times> 'w fleet" where
  "list_replication_handler env dec order st =
     (let ((jobs, errors), st') = list_endpoint order (px_list_replication_jobs env dec) (\<lambda>name. map (replication_row_of name)) st
      in (\<lparr> rl_jobs = jobs, rl_errors = errors \<rparr>, st'))"

definition replication_job_of :: "nat \<Rightarrow> create_replication_request \<Rightarrow> create_replication_job_req" where
  "replication_job_of vmid body =
     \<lparr> cj_source_vmid = vmid, cj_source_node = Some (cq_source_node body), cj_target = cq_target body,
       cj_target_vmid = cq_target_vmid body, cj_rate = cq_rate body, cj_schedule = cq_schedule body,
       cj_comment = cq_comment body, cj_enable = True \<rparr>"

definition create_replication_handler :: "'w px_env \<Rightarrow> auth_context \<Rightarrow> string \<Rightarrow> nat \<Rightarrow> create_replication_request
    \<Rightarrow> ('w, replication_action_response) fleet_op" where
  "create_replication_handler env auth cluster vmid body =
     operator_gate env auth (\<lambda>st. map_reply (replication_reply cluster (show_nat vmid) ''create'')
       (on_cluster cluster (px_create_replication_job env (replication_job_of vmid body)) st))"

definition delete_replication_handler :: "'w px_env \<Rightarrow> auth_context \<Rightarrow> string \<Rightarrow> nat \<Rightarrow> ('w, replication_action_response) fleet_op" where
  "delete_replication_handler env auth cluster jobid =
     operator_gate env auth (\<lambda>st. map_reply (replication_reply cluster (show_nat jobid) ''delete'')
       (on_cluster cluster (px_delete_replication_job env jobid) st))"

definition replication_status_handler :: "'w px_env \<Rightarrow> (string \<Rightarrow> (string, replication_status list) result) \<Rightarrow> string \<Rightarrow> nat
    \<Rightarrow> ('w, replication_status_response) fleet_op" where
  "replication_status_handler env dec cluster jobid st =
     map_reply (\<lambda>status. \<lparr> ro_cluster = cluster, ro_id = jobid, ro_status = status \<rparr>)
       (on_cluster cluster (px_get_replication_status env dec jobid) st)"

section \<open>Dispatch\<close>

datatype infra_request =
    StorageContentOf string string string
  | StorageUpload string string string json
  | StorageDelete string string string string
  | NodeNetworks string string
  | NetworkUpdate string string json
  | NetworkApply string string
  | TaskStatusOf string string string
  | TaskLog string string string
  | TaskDelete string string string
  | HaCreate string string ha_group_create_request
  | HaDelete string string
  | ReplicationCreate string nat create_replication_request
  | ReplicationDelete string nat
  | ReplicationStatusOf string nat

datatype infra_reply =
    InfraJson json
  | ContentReply "storage_content_entry list"
  | NetworksReply "node_network list"
  | TaskReply task_status
  | HaReply ha_group_action_response
  | ReplicationActionReply replication_action_response
  | ReplicationReply replication_status_response

record infra_decoders =
  id_json :: "string \<Rightarrow> (string, json) result"
  id_content :: "string \<Rightarrow> (string, storage_content_entry list) result"
  id_upload :: "string \<Rightarrow> (string, upload_response) result"
  id_base64 :: "string \<Rightarrow> (string, string) result"
  id_networks :: "string \<Rightarrow> (string, node_network list) result"
  id_task :: "string \<Rightarrow> (string, task_status) result"
  id_replication :: "string \<Rightarrow> (string, replication_status list) result"
  id_fmt :: json_fmt

fun infra_serve :: "infra_decoders \<Rightarrow> auth_context \<Rightarrow> infra_request \<Rightarrow> 'w px_env \<Rightarrow> ('w, infra_reply) fleet_op" where
  "infra_serve d auth (StorageContentOf cl node storage) env st =
     map_reply ContentReply (storage_content_handler env (id_content d) cl node storage st)"
| "infra_serve d auth (StorageUpload cl node storage body) env st =
     map_reply InfraJson (storage_upload_handler env (id_upload d) (id_base64 d) auth cl node storage body st)"
| "infra_serve d auth (StorageDelete cl node storage volid) env st =
     map_reply InfraJson (delete_storage_content_handler env auth cl node storage volid st)"
| "infra_serve d auth (NodeNetworks cl node) env st =
     map_reply NetworksReply (node_networks_handler env (id_networks d) cl node st)"
| "infra_serve d auth (NetworkUpdate cl node body) env st =
     map_reply InfraJson (network_config_update_handler env (id_json d) (id_fmt d) auth cl node body st)"
| "infra_serve d auth (NetworkApply cl node) env st =
     map_reply InfraJson (network_config_apply_handler env (id_json d) auth cl node st)"
| "infra_serve d auth (TaskStatusOf cl node upid) env st =
     map_reply TaskReply (task_status_handler env (id_task d) cl node upid st)"
| "infra_serve d auth (TaskLog cl node upid) env st =
     map_reply InfraJson (task_log_handler env (id_json d) cl node upid st)"
| "infra_serve d auth (TaskDelete cl node upid) env st =
     map_reply InfraJson (task_delete_handler env (id_json d) auth cl node upid st)"
| "infra_serve d auth (HaCreate cl grp body) env st =
     map_reply HaReply (create_ha_group_handler env auth cl grp body st)"
| "infra_serve d auth (HaDelete cl grp) env st =
     map_reply HaReply (delete_ha_group_handler env auth cl grp st)"
| "infra_serve d auth (ReplicationCreate cl vmid body) env st =
     map_reply ReplicationActionReply (create_replication_handler env auth cl vmid body st)"
| "infra_serve d auth (ReplicationDelete cl jobid) env st =
     map_reply ReplicationActionReply (delete_replication_handler env auth cl jobid st)"
| "infra_serve d auth (ReplicationStatusOf cl jobid) env st =
     map_reply ReplicationReply (replication_status_handler env (id_replication d) cl jobid st)"

fun infra_cluster :: "infra_request \<Rightarrow> string" where
  "infra_cluster (StorageContentOf cl _ _) = cl" | "infra_cluster (StorageUpload cl _ _ _) = cl"
| "infra_cluster (StorageDelete cl _ _ _) = cl" | "infra_cluster (NodeNetworks cl _) = cl"
| "infra_cluster (NetworkUpdate cl _ _) = cl" | "infra_cluster (NetworkApply cl _) = cl"
| "infra_cluster (TaskStatusOf cl _ _) = cl" | "infra_cluster (TaskLog cl _ _) = cl"
| "infra_cluster (TaskDelete cl _ _) = cl" | "infra_cluster (HaCreate cl _ _) = cl"
| "infra_cluster (HaDelete cl _) = cl" | "infra_cluster (ReplicationCreate cl _ _) = cl"
| "infra_cluster (ReplicationDelete cl _) = cl" | "infra_cluster (ReplicationStatusOf cl _) = cl"

fun infra_writes :: "infra_request \<Rightarrow> bool" where
  "infra_writes (StorageContentOf _ _ _) = False" | "infra_writes (NodeNetworks _ _) = False"
| "infra_writes (TaskStatusOf _ _ _) = False" | "infra_writes (TaskLog _ _ _) = False"
| "infra_writes (ReplicationStatusOf _ _) = False" | "infra_writes _ = True"

section \<open>Lemmas\<close>

lemmas infra_handler_defs = storage_upload_handler_def delete_storage_content_handler_def
  network_config_update_handler_def network_config_apply_handler_def task_delete_handler_def
  create_ha_group_handler_def delete_ha_group_handler_def create_replication_handler_def
  delete_replication_handler_def

lemmas infra_read_defs = storage_content_handler_def node_networks_handler_def task_status_handler_def
  task_log_handler_def

text \<open>An upload either fails before any call or is one call of the client.\<close>

lemma px_upload_file_call: "client_call (\<lambda>env. px_upload_file env dec node storage content filename data)"
  unfolding px_upload_file_def[abs_def] Let_def by (rule finish_request_call) simp

lemma upload_call: "client_call (\<lambda>env. upload_call dec b64 node storage body env)"
proof (cases "upload_fields b64 body")
  case (Inl e)
  then show ?thesis unfolding upload_call_def by unfold_locales simp_all
next
  case (Inr x)
  obtain content filename data where x: "x = (content, filename, data)" by (cases x)
  note px_upload_file_call[of dec node storage content filename data]
  then show ?thesis by (simp add: upload_call_def[abs_def] Inr x)
qed

lemma infra_writes_within:
  "within cl (\<lambda>env. storage_upload_handler env du b64 auth cl node storage body)"
  "within cl (\<lambda>env. delete_storage_content_handler env auth cl node storage volid)"
  "within cl (\<lambda>env. network_config_update_handler env dj fmt auth cl node body)"
  "within cl (\<lambda>env. network_config_apply_handler env dj auth cl node)"
  "within cl (\<lambda>env. create_ha_group_handler env auth cl grp ha)"
  "within cl (\<lambda>env. delete_ha_group_handler env auth cl grp)"
  "within cl (\<lambda>env. create_replication_handler env auth cl vmid rep)"
  "within cl (\<lambda>env. delete_replication_handler env auth cl jobid)"
  unfolding infra_handler_defs
  by (rule within_gate[OF within_map_reply[OF within_on_cluster]], rule client_calls upload_call)+

lemma task_delete_within: "within cl (\<lambda>env. task_delete_handler env dj auth cl node upid)"
  unfolding task_delete_handler_def by (rule within_gate[OF within_on_cluster], rule client_calls)

lemma infra_reads_within:
  "within cl (\<lambda>env. storage_content_handler env dc cl node storage)"
  "within cl (\<lambda>env. node_networks_handler env dn cl node)"
  "within cl (\<lambda>env. task_status_handler env dt cl node upid)"
  "within cl (\<lambda>env. task_log_handler env dj cl node upid)"
  unfolding infra_read_defs by (rule within_on_cluster, rule client_calls)+

lemma replication_status_within: "within cl (\<lambda>env. replication_status_handler env dr cl jobid)"
  unfolding replication_status_handler_def by (rule within_map_reply[OF within_on_cluster], rule client_calls)

lemma infra_serve_within: "within (infra_cluster req) (infra_serve d auth req)"
  by (cases req; simp only: infra_cluster.simps)
    (rule within_ext[OF within_map_reply], rule infra_writes_within task_delete_within infra_reads_within
      replication_status_within, simp only: infra_serve.simps)+

lemma infra_serve_gated:
  assumes "\<nexists>r. to_ascii_lowercase (cl_role (ac_claims auth)) = role_as_str r \<and> Operator \<le> r" "infra_writes req"
  shows "infra_serve d auth req env st = (Inl (Forbidden ''operator role required''), st)"
proof -
  have gate: "operator_gate env auth k st = (Inl (Forbidden ''operator role required''), st)"
    for k :: "('w, 'b) fleet_op" and env st
    unfolding operator_gate_def by (rule role_gate_refused[OF assms(1)])
  show ?thesis using assms(2) by (cases req) (simp_all add: infra_handler_defs gate)
qed

section \<open>Properties\<close>

text \<open>Requests for storages, networks, tasks, HA groups and replication are guarded like those for machines:
  what changes something needs the operator role, and every request stays within the cluster it names.\<close>

theorem infra_requests_guarded:
  "(infra_writes req \<longrightarrow> (\<nexists>r. to_ascii_lowercase (cl_role (ac_claims auth)) = role_as_str r \<and> Operator \<le> r) \<longrightarrow>
      infra_serve d auth req env st = (Err (Forbidden ''operator role required''), st))
   \<and> (let (r, cs', w') = infra_serve d auth req env st in
        map pc_config cs' = map pc_config (fst st)
        \<and> (\<forall>j. px_name (fst st ! j) \<noteq> infra_cluster req \<longrightarrow> cs' ! j = fst st ! j)
        \<and> (infra_cluster req \<notin> px_name ` set (fst st) \<longrightarrow> (cs', w') = st \<and> \<not> is_ok r))
   \<and> (\<forall>env'. (\<forall>c\<in>set (fst st). px_name c = infra_cluster req \<longrightarrow> same_to (px_host c) env env')
        \<longrightarrow> infra_serve d auth req env' st = infra_serve d auth req env st)"
  using infra_serve_gated[of auth req d env st] withinD[OF infra_serve_within[of req d auth], of env st]
  by blast

definition demo_infra :: infra_decoders where
  "demo_infra = \<lparr> id_json = (\<lambda>b. Inr (JStr b)), id_content = (\<lambda>b. Inr []),
     id_upload = (\<lambda>b. Inr \<lparr> up_volid = b, up_msg = None \<rparr>), id_base64 = Inr, id_networks = (\<lambda>b. Inr []),
     id_task = Inl, id_replication = (\<lambda>b. Inr []), id_fmt = \<lparr> jf_f64 = id, jf_text = (\<lambda>_. []) \<rparr> \<rparr>"

theorem infra_requests_guarded_witness:
  "infra_serve demo_infra (demo_auth ''viewer'') (HaDelete ''c1'' ''g1'') dead_env ([demo_client], 7)
     = (Err (Forbidden ''operator role required''), [demo_client], 7)"
  by (rule infra_requests_guarded[THEN conjunct1, rule_format, OF _ no_operator[OF demo_viewer]]) simp



text \<open>The raw views keep failures apart: a cluster appears under \<open>data\<close> exactly when it answered and under
  \<open>errors\<close> exactly when it did not; the view of the cluster status, which has an \<open>errors\<close> member too,
  shows the clusters that answered and leaves that member empty whatever happened to the others.\<close>

theorem cluster_status_hides_failures:
  assumes "mset order = mset [0..<length cs]" "distinct (map px_name cs)"
  shows "\<exists>os data errors. length os = length cs
     \<and> (\<forall>i<length cs. (\<exists>v. os ! i = fst (px_get env dec ''cluster/status'' (cs ! i, v)))
          \<and> hm_get data (px_name (cs ! i)) = ok_of (os ! i)
          \<and> hm_get errors (px_name (cs ! i)) = (case os ! i of Inl e \<Rightarrow> Some (display_error e) | Inr _ \<Rightarrow> None))
     \<and> fst (raw_view env dec ''cluster/status'' order (cs, w)) = JObj [(''data'', JObj data), (''errors'', errors_json errors)]
     \<and> fst (cluster_status_handler env dec order (cs, w)) = JObj [(''clusters'', cluster_entries data), (''errors'', JObj [])]"
proof -
  obtain data errs st' where run: "data_endpoint order (px_get env dec ''cluster/status'') (cs, w) = ((data, errs), st')"
    by (metis surj_pair)
  from client_call.data_endpoint_outcomes[OF helper_calls(1) assms run] obtain os where
    os: "length os = length cs" "\<forall>i<length cs. (\<exists>v. os ! i = fst (px_get env dec ''cluster/status'' (cs ! i, v)))
          \<and> hm_get data (px_name (cs ! i)) = ok_of (os ! i)
          \<and> hm_get errs (px_name (cs ! i)) = (case os ! i of Inl e \<Rightarrow> Some (display_error e) | Inr _ \<Rightarrow> None)" by blast
  show ?thesis
    by (intro exI[of _ os] exI[of _ data] exI[of _ errs] conjI)
      (use os run in \<open>simp_all add: raw_view_def cluster_status_handler_def collect_aggregated_def errors_json_def hm_empty_def\<close>)
qed

theorem cluster_status_hides_failures_witness:
  "\<exists>r v data errors. r = fst (px_get dead_env (\<lambda>b. Inr (JStr b)) ''cluster/status'' (demo_client, v))
     \<and> hm_get data ''c1'' = ok_of r
     \<and> fst (cluster_status_handler dead_env (\<lambda>b. Inr (JStr b)) [0] ([demo_client], 7))
         = JObj [(''clusters'', cluster_entries data), (''errors'', errors)]"
proof -
  have n: "px_name demo_client = ''c1''" by (simp add: px_name_def demo_client_def)
  from cluster_status_hides_failures[of "[0]" "[demo_client]" dead_env "\<lambda>b. Inr (JStr b)" 7]
  obtain os data where "\<exists>v. os ! 0 = fst (px_get dead_env (\<lambda>b. Inr (JStr b)) ''cluster/status'' (demo_client, v))"
      "hm_get data ''c1'' = ok_of (os ! 0)"
      "fst (cluster_status_handler dead_env (\<lambda>b. Inr (JStr b)) [0] ([demo_client], 7))
         = JObj [(''clusters'', cluster_entries data), (''errors'', JObj [])]"
    by (auto simp: n)
  then show ?thesis by blast
qed

end
