(* ===== verification/Proxmox_Json.thy ===== *)
theory Proxmox_Json
  imports Serde Dashboard Infra_Api Vnc
begin

text \<open>
  How the data of the Proxmox interface is read from and written to JSON (\<open>src/proxmox/types.rs\<close>): for every
  struct its derived decoder and, where the handlers send it on, its encoder; the bodies of the requests the
  handlers accept are decoded only. Doubles go through \<open>f64_json\<close>, the number parser and printer of the
  \<open>serde_json\<close> crate, which prints a double that is no number as null.
\<close>

section \<open>Doubles and ranges\<close>

record f64_json =
  fj_of :: "json \<Rightarrow> f64_bits option"
  fj_to :: "f64_bits \<Rightarrow> json"

definition fits :: "nat \<Rightarrow> nat \<Rightarrow> bool" where "fits w n = (n < 2 ^ w)"

definition fits_opt :: "nat \<Rightarrow> nat option \<Rightarrow> bool" where
  "fits_opt w x = (case x of None \<Rightarrow> True | Some n \<Rightarrow> n < 2 ^ w)"

text \<open>The printer of doubles is read back, which is what the crate documents for finite doubles.\<close>

definition f64_opt_ok :: "f64_json \<Rightarrow> f64_bits option \<Rightarrow> bool" where
  "f64_opt_ok F x = (case x of None \<Rightarrow> True | Some v \<Rightarrow> fj_of F (fj_to F v) = Some v \<and> fj_to F v \<noteq> JNull)"

section \<open>The response wrapper and tickets\<close>

definition de_api_response :: "'a de \<Rightarrow> 'a de" where
  "de_api_response d = de_struct (req ''data'' d)"

text \<open>A console ticket is read through a private struct with plain strings; it is never written.\<close>

definition de_vnc_proxy_ticket :: "vnc_proxy_ticket de" where
  "de_vnc_proxy_ticket = de_struct (
     fbind (req ''ticket'' de_string) (\<lambda>ticket. fbind (req ''port'' (de_uint 16)) (\<lambda>port.
     fbind (req ''upid'' de_string) (\<lambda>upid. fret \<lparr> vp_ticket = ticket, vp_port = port, vp_upid = upid \<rparr>))))"

definition de_ticket :: "(json \<Rightarrow> int option) \<Rightarrow> ticket de" where
  "de_ticket de_i64 = de_struct (
     fbind (req ''ticket'' de_string) (\<lambda>t. fbind (req ''csrf_token'' de_string) (\<lambda>csrf.
     fbind (req ''username'' de_string) (\<lambda>u. fbind (req ''expires_at'' de_i64) (\<lambda>e.
     fret \<lparr> tk_ticket = t, tk_csrf = csrf, tk_username = u, tk_expires_at = e \<rparr>)))))"

definition de_ticket_response :: "(json \<Rightarrow> int option) \<Rightarrow> ticket de" where
  "de_ticket_response de_i64 = de_struct (req ''data'' (de_ticket de_i64))"

section \<open>Data of the cluster\<close>

record vm_config =
  vk_name :: "string option"
  vk_description :: "string option"
  vk_cores :: "nat option"
  vk_sockets :: "nat option"
  vk_memory :: "nat option"
  vk_balloon :: "nat option"
  vk_boot :: "string option"
  vk_bios :: "string option"
  vk_machine :: "string option"
  vk_scsihw :: "string option"
  vk_cpu :: "string option"
  vk_tags :: "string option"
  vk_template :: "nat option"
  vk_onboot :: "nat option"
  vk_agent :: "nat option"

definition de_vm_config :: "vm_config de" where
  "de_vm_config = de_struct (
     fbind (optd ''name'' de_string) (\<lambda>x0. fbind (optd ''description'' de_string) (\<lambda>x1.
     fbind (optd ''cores'' (de_uint 32)) (\<lambda>x2. fbind (optd ''sockets'' (de_uint 32)) (\<lambda>x3.
     fbind (optd ''memory'' (de_uint 64)) (\<lambda>x4. fbind (optd ''balloon'' (de_uint 64)) (\<lambda>x5.
     fbind (optd ''boot'' de_string) (\<lambda>x6. fbind (optd ''bios'' de_string) (\<lambda>x7.
     fbind (optd ''machine'' de_string) (\<lambda>x8. fbind (optd ''scsihw'' de_string) (\<lambda>x9.
     fbind (optd ''cpu'' de_string) (\<lambda>x10. fbind (optd ''tags'' de_string) (\<lambda>x11.
     fbind (optd ''template'' (de_uint 8)) (\<lambda>x12. fbind (optd ''onboot'' (de_uint 8)) (\<lambda>x13.
     fbind (optd ''agent'' (de_uint 8)) (\<lambda>x14.
     fret \<lparr> vk_name = x0, vk_description = x1, vk_cores = x2, vk_sockets = x3, vk_memory = x4,
       vk_balloon = x5, vk_boot = x6, vk_bios = x7, vk_machine = x8, vk_scsihw = x9, vk_cpu = x10, vk_tags = x11,
       vk_template = x12, vk_onboot = x13, vk_agent = x14 \<rparr>))))))))))))))))"

definition ser_vm_config :: "vm_config \<Rightarrow> json" where
  "ser_vm_config r = JObj (
     mem ''name'' (ser_opt JStr (vk_name r)) @ mem ''description'' (ser_opt JStr (vk_description r))
     @ mem ''cores'' (ser_opt JNum (vk_cores r)) @ mem ''sockets'' (ser_opt JNum (vk_sockets r))
     @ mem ''memory'' (ser_opt JNum (vk_memory r)) @ mem ''balloon'' (ser_opt JNum (vk_balloon r))
     @ mem ''boot'' (ser_opt JStr (vk_boot r)) @ mem ''bios'' (ser_opt JStr (vk_bios r))
     @ mem ''machine'' (ser_opt JStr (vk_machine r)) @ mem ''scsihw'' (ser_opt JStr (vk_scsihw r))
     @ mem ''cpu'' (ser_opt JStr (vk_cpu r)) @ mem ''tags'' (ser_opt JStr (vk_tags r))
     @ mem ''template'' (ser_opt JNum (vk_template r)) @ mem ''onboot'' (ser_opt JNum (vk_onboot r))
     @ mem ''agent'' (ser_opt JNum (vk_agent r)))"

definition vm_config_fits :: "vm_config \<Rightarrow> bool" where
  "vm_config_fits r = (
     fits_opt 32 (vk_cores r) \<and> fits_opt 32 (vk_sockets r) \<and> fits_opt 64 (vk_memory r)
     \<and> fits_opt 64 (vk_balloon r) \<and> fits_opt 8 (vk_template r) \<and> fits_opt 8 (vk_onboot r)
     \<and> fits_opt 8 (vk_agent r))"

definition de_task_status :: "task_status de" where
  "de_task_status = de_struct (
     fbind (req ''upid'' de_string) (\<lambda>x0. fbind (optd ''node'' de_string) (\<lambda>x1.
     fbind (req ''status'' de_string) (\<lambda>x2. fbind (optd ''exitstatus'' de_string) (\<lambda>x3.
     fbind (optd ''starttime'' (de_uint 64)) (\<lambda>x4. fbind (optd ''endtime'' (de_uint 64)) (\<lambda>x5.
     fbind (optd ''type'' de_string) (\<lambda>x6. fbind (optd ''user'' de_string) (\<lambda>x7.
     fret \<lparr> tk_upid = x0, tk_node = x1, tk_status = x2, tk_exitstatus = x3, tk_starttime = x4,
       tk_endtime = x5, tk_type = x6, tk_user = x7 \<rparr>)))))))))"

definition ser_task_status :: "task_status \<Rightarrow> json" where
  "ser_task_status r = JObj (
     mem ''upid'' (JStr (tk_upid r)) @ mem ''node'' (ser_opt JStr (tk_node r)) @ mem ''status'' (JStr (tk_status r))
     @ mem ''exitstatus'' (ser_opt JStr (tk_exitstatus r)) @ mem ''starttime'' (ser_opt JNum (tk_starttime r))
     @ mem ''endtime'' (ser_opt JNum (tk_endtime r)) @ mem ''type'' (ser_opt JStr (tk_type r))
     @ mem ''user'' (ser_opt JStr (tk_user r)))"

definition task_status_fits :: "task_status \<Rightarrow> bool" where
  "task_status_fits r = (
     fits_opt 64 (tk_starttime r) \<and> fits_opt 64 (tk_endtime r))"

definition de_px_version :: "px_version de" where
  "de_px_version = de_struct (
     fbind (req ''version'' de_string) (\<lambda>x0. fbind (req ''release'' de_string) (\<lambda>x1.
     fbind (req ''repoid'' de_string) (\<lambda>x2.
     fret \<lparr> pv_version = x0, pv_release = x1, pv_repoid = x2 \<rparr>))))"

definition ser_px_version :: "px_version \<Rightarrow> json" where
  "ser_px_version r = JObj (
     mem ''version'' (JStr (pv_version r)) @ mem ''release'' (JStr (pv_release r))
     @ mem ''repoid'' (JStr (pv_repoid r)))"

record node_status =
  nd_node :: string
  nd_status :: string
  nd_cpu :: "f64_bits option"
  nd_level :: "string option"
  nd_maxcpu :: "nat option"
  nd_mem :: "nat option"
  nd_maxmem :: "nat option"
  nd_disk :: "nat option"
  nd_maxdisk :: "nat option"
  nd_uptime :: "nat option"

definition de_node_status :: "f64_json \<Rightarrow> node_status de" where
  "de_node_status F = de_struct (
     fbind (req ''node'' de_string) (\<lambda>x0. fbind (req ''status'' de_string) (\<lambda>x1.
     fbind (optd ''cpu'' (fj_of F)) (\<lambda>x2. fbind (optd ''level'' de_string) (\<lambda>x3.
     fbind (optd ''maxcpu'' (de_uint 32)) (\<lambda>x4. fbind (optd ''mem'' (de_uint 64)) (\<lambda>x5.
     fbind (optd ''maxmem'' (de_uint 64)) (\<lambda>x6. fbind (optd ''disk'' (de_uint 64)) (\<lambda>x7.
     fbind (optd ''maxdisk'' (de_uint 64)) (\<lambda>x8. fbind (optd ''uptime'' (de_uint 64)) (\<lambda>x9.
     fret \<lparr> nd_node = x0, nd_status = x1, nd_cpu = x2, nd_level = x3, nd_maxcpu = x4, nd_mem = x5,
       nd_maxmem = x6, nd_disk = x7, nd_maxdisk = x8, nd_uptime = x9 \<rparr>)))))))))))"

definition ser_node_status :: "f64_json \<Rightarrow> node_status \<Rightarrow> json" where
  "ser_node_status F r = JObj (
     mem ''node'' (JStr (nd_node r)) @ mem ''status'' (JStr (nd_status r))
     @ mem ''cpu'' (ser_opt (fj_to F) (nd_cpu r)) @ mem ''level'' (ser_opt JStr (nd_level r))
     @ mem ''maxcpu'' (ser_opt JNum (nd_maxcpu r)) @ mem ''mem'' (ser_opt JNum (nd_mem r))
     @ mem ''maxmem'' (ser_opt JNum (nd_maxmem r)) @ mem ''disk'' (ser_opt JNum (nd_disk r))
     @ mem ''maxdisk'' (ser_opt JNum (nd_maxdisk r)) @ mem ''uptime'' (ser_opt JNum (nd_uptime r)))"

definition node_status_fits :: "f64_json \<Rightarrow> node_status \<Rightarrow> bool" where
  "node_status_fits F r = (
     f64_opt_ok F (nd_cpu r) \<and> fits_opt 32 (nd_maxcpu r) \<and> fits_opt 64 (nd_mem r)
     \<and> fits_opt 64 (nd_maxmem r) \<and> fits_opt 64 (nd_disk r) \<and> fits_opt 64 (nd_maxdisk r)
     \<and> fits_opt 64 (nd_uptime r))"

definition de_vm_resource :: "f64_json \<Rightarrow> vm_resource de" where
  "de_vm_resource F = de_struct (
     fbind (req ''vmid'' (de_uint 32)) (\<lambda>x0. fbind (req ''name'' de_string) (\<lambda>x1.
     fbind (req ''node'' de_string) (\<lambda>x2. fbind (dflt [] ''type'' de_string) (\<lambda>x3.
     fbind (req ''status'' de_string) (\<lambda>x4. fbind (optd ''cpu'' (fj_of F)) (\<lambda>x5.
     fbind (optd ''cpus'' (fj_of F)) (\<lambda>x6. fbind (optd ''mem'' (de_uint 64)) (\<lambda>x7.
     fbind (optd ''maxmem'' (de_uint 64)) (\<lambda>x8. fbind (optd ''disk'' (de_uint 64)) (\<lambda>x9.
     fbind (optd ''maxdisk'' (de_uint 64)) (\<lambda>x10. fbind (optd ''netin'' (de_uint 64)) (\<lambda>x11.
     fbind (optd ''netout'' (de_uint 64)) (\<lambda>x12. fbind (optd ''diskread'' (de_uint 64)) (\<lambda>x13.
     fbind (optd ''diskwrite'' (de_uint 64)) (\<lambda>x14. fbind (optd ''uptime'' (de_uint 64)) (\<lambda>x15.
     fbind (optd ''template'' (de_uint 8)) (\<lambda>x16. fbind (optd ''tags'' de_string) (\<lambda>x17.
     fret \<lparr> vr_vmid = x0, vr_name = x1, vr_node = x2, vr_kind = x3, vr_status = x4, vr_cpu = x5,
       vr_cpus = x6, vr_mem = x7, vr_maxmem = x8, vr_disk = x9, vr_maxdisk = x10, vr_netin = x11,
       vr_netout = x12, vr_diskread = x13, vr_diskwrite = x14, vr_uptime = x15, vr_template = x16, vr_tags = x17 \<rparr>)))))))))))))))))))"

definition ser_vm_resource :: "f64_json \<Rightarrow> vm_resource \<Rightarrow> json" where
  "ser_vm_resource F r = JObj (
     mem ''vmid'' (JNum (vr_vmid r)) @ mem ''name'' (JStr (vr_name r)) @ mem ''node'' (JStr (vr_node r))
     @ mem ''type'' (JStr (vr_kind r)) @ mem ''status'' (JStr (vr_status r))
     @ mem ''cpu'' (ser_opt (fj_to F) (vr_cpu r)) @ mem ''cpus'' (ser_opt (fj_to F) (vr_cpus r))
     @ mem ''mem'' (ser_opt JNum (vr_mem r)) @ mem ''maxmem'' (ser_opt JNum (vr_maxmem r))
     @ mem ''disk'' (ser_opt JNum (vr_disk r)) @ mem ''maxdisk'' (ser_opt JNum (vr_maxdisk r))
     @ mem ''netin'' (ser_opt JNum (vr_netin r)) @ mem ''netout'' (ser_opt JNum (vr_netout r))
     @ mem ''diskread'' (ser_opt JNum (vr_diskread r)) @ mem ''diskwrite'' (ser_opt JNum (vr_diskwrite r))
     @ mem ''uptime'' (ser_opt JNum (vr_uptime r)) @ mem ''template'' (ser_opt JNum (vr_template r))
     @ mem ''tags'' (ser_opt JStr (vr_tags r)))"

definition vm_resource_fits :: "f64_json \<Rightarrow> vm_resource \<Rightarrow> bool" where
  "vm_resource_fits F r = (
     fits 32 (vr_vmid r) \<and> f64_opt_ok F (vr_cpu r) \<and> f64_opt_ok F (vr_cpus r)
     \<and> fits_opt 64 (vr_mem r) \<and> fits_opt 64 (vr_maxmem r) \<and> fits_opt 64 (vr_disk r)
     \<and> fits_opt 64 (vr_maxdisk r) \<and> fits_opt 64 (vr_netin r) \<and> fits_opt 64 (vr_netout r)
     \<and> fits_opt 64 (vr_diskread r) \<and> fits_opt 64 (vr_diskwrite r) \<and> fits_opt 64 (vr_uptime r)
     \<and> fits_opt 8 (vr_template r))"

definition de_lxc_status :: "f64_json \<Rightarrow> lxc_status de" where
  "de_lxc_status F = de_struct (
     fbind (req ''vmid'' (de_uint 32)) (\<lambda>x0. fbind (req ''name'' de_string) (\<lambda>x1.
     fbind (req ''node'' de_string) (\<lambda>x2. fbind (req ''status'' de_string) (\<lambda>x3.
     fbind (optd ''cpu'' (fj_of F)) (\<lambda>x4. fbind (optd ''cpus'' (fj_of F)) (\<lambda>x5.
     fbind (optd ''mem'' (de_uint 64)) (\<lambda>x6. fbind (optd ''maxmem'' (de_uint 64)) (\<lambda>x7.
     fbind (optd ''disk'' (de_uint 64)) (\<lambda>x8. fbind (optd ''maxdisk'' (de_uint 64)) (\<lambda>x9.
     fbind (optd ''uptime'' (de_uint 64)) (\<lambda>x10. fbind (optd ''template'' (de_uint 8)) (\<lambda>x11.
     fret \<lparr> ls_vmid = x0, ls_name = x1, ls_node = x2, ls_status = x3, ls_cpu = x4, ls_cpus = x5,
       ls_mem = x6, ls_maxmem = x7, ls_disk = x8, ls_maxdisk = x9, ls_uptime = x10, ls_template = x11 \<rparr>)))))))))))))"

definition ser_lxc_status :: "f64_json \<Rightarrow> lxc_status \<Rightarrow> json" where
  "ser_lxc_status F r = JObj (
     mem ''vmid'' (JNum (ls_vmid r)) @ mem ''name'' (JStr (ls_name r)) @ mem ''node'' (JStr (ls_node r))
     @ mem ''status'' (JStr (ls_status r)) @ mem ''cpu'' (ser_opt (fj_to F) (ls_cpu r))
     @ mem ''cpus'' (ser_opt (fj_to F) (ls_cpus r)) @ mem ''mem'' (ser_opt JNum (ls_mem r))
     @ mem ''maxmem'' (ser_opt JNum (ls_maxmem r)) @ mem ''disk'' (ser_opt JNum (ls_disk r))
     @ mem ''maxdisk'' (ser_opt JNum (ls_maxdisk r)) @ mem ''uptime'' (ser_opt JNum (ls_uptime r))
     @ mem ''template'' (ser_opt JNum (ls_template r)))"

definition lxc_status_fits :: "f64_json \<Rightarrow> lxc_status \<Rightarrow> bool" where
  "lxc_status_fits F r = (
     fits 32 (ls_vmid r) \<and> f64_opt_ok F (ls_cpu r) \<and> f64_opt_ok F (ls_cpus r)
     \<and> fits_opt 64 (ls_mem r) \<and> fits_opt 64 (ls_maxmem r) \<and> fits_opt 64 (ls_disk r)
     \<and> fits_opt 64 (ls_maxdisk r) \<and> fits_opt 64 (ls_uptime r) \<and> fits_opt 8 (ls_template r))"

definition de_storage_resource :: "f64_json \<Rightarrow> storage_resource de" where
  "de_storage_resource F = de_struct (
     fbind (req ''storage'' de_string) (\<lambda>x0. fbind (req ''type'' de_string) (\<lambda>x1.
     fbind (dflt 0 ''total'' (de_uint 64)) (\<lambda>x2. fbind (dflt 0 ''used'' (de_uint 64)) (\<lambda>x3.
     fbind (dflt 0 ''avail'' (de_uint 64)) (\<lambda>x4. fbind (optd ''used_fraction'' (fj_of F)) (\<lambda>x5.
     fbind (optd ''enabled'' (de_uint 8)) (\<lambda>x6. fbind (optd ''shared'' (de_uint 8)) (\<lambda>x7.
     fbind (optd ''content'' de_string) (\<lambda>x8.
     fret \<lparr> sr_storage = x0, sr_kind = x1, sr_total = x2, sr_used = x3, sr_avail = x4,
       sr_used_fraction = x5, sr_enabled = x6, sr_shared = x7, sr_content = x8 \<rparr>))))))))))"

definition ser_storage_resource :: "f64_json \<Rightarrow> storage_resource \<Rightarrow> json" where
  "ser_storage_resource F r = JObj (
     mem ''storage'' (JStr (sr_storage r)) @ mem ''type'' (JStr (sr_kind r)) @ mem ''total'' (JNum (sr_total r))
     @ mem ''used'' (JNum (sr_used r)) @ mem ''avail'' (JNum (sr_avail r))
     @ mem ''used_fraction'' (ser_opt (fj_to F) (sr_used_fraction r))
     @ mem ''enabled'' (ser_opt JNum (sr_enabled r)) @ mem ''shared'' (ser_opt JNum (sr_shared r))
     @ mem ''content'' (ser_opt JStr (sr_content r)))"

definition storage_resource_fits :: "f64_json \<Rightarrow> storage_resource \<Rightarrow> bool" where
  "storage_resource_fits F r = (
     fits 64 (sr_total r) \<and> fits 64 (sr_used r) \<and> fits 64 (sr_avail r)
     \<and> f64_opt_ok F (sr_used_fraction r) \<and> fits_opt 8 (sr_enabled r) \<and> fits_opt 8 (sr_shared r))"

definition de_storage_content_entry :: "storage_content_entry de" where
  "de_storage_content_entry = de_struct (
     fbind (req ''volid'' de_string) (\<lambda>x0. fbind (req ''storage'' de_string) (\<lambda>x1.
     fbind (req ''content'' de_string) (\<lambda>x2. fbind (optd ''volid_name'' de_string) (\<lambda>x3.
     fbind (dflt 0 ''size'' (de_uint 64)) (\<lambda>x4. fbind (optd ''used'' (de_uint 64)) (\<lambda>x5.
     fbind (optd ''format'' de_string) (\<lambda>x6. fbind (optd ''ctime'' (de_uint 64)) (\<lambda>x7.
     fret \<lparr> sc_volid = x0, sc_storage = x1, sc_content = x2, sc_volid_name = x3, sc_size = x4,
       sc_used = x5, sc_format = x6, sc_ctime = x7 \<rparr>)))))))))"

definition ser_storage_content_entry :: "storage_content_entry \<Rightarrow> json" where
  "ser_storage_content_entry r = JObj (
     mem ''volid'' (JStr (sc_volid r)) @ mem ''storage'' (JStr (sc_storage r))
     @ mem ''content'' (JStr (sc_content r)) @ mem ''volid_name'' (ser_opt JStr (sc_volid_name r))
     @ mem ''size'' (JNum (sc_size r)) @ mem ''used'' (ser_opt JNum (sc_used r))
     @ mem ''format'' (ser_opt JStr (sc_format r)) @ mem ''ctime'' (ser_opt JNum (sc_ctime r)))"

definition storage_content_entry_fits :: "storage_content_entry \<Rightarrow> bool" where
  "storage_content_entry_fits r = (
     fits 64 (sc_size r) \<and> fits_opt 64 (sc_used r) \<and> fits_opt 64 (sc_ctime r))"

definition de_node_network :: "node_network de" where
  "de_node_network = de_struct (
     fbind (req ''iface'' de_string) (\<lambda>x0. fbind (req ''type'' de_string) (\<lambda>x1.
     fbind (optd ''active'' (de_uint 8)) (\<lambda>x2. fbind (optd ''address'' de_string) (\<lambda>x3.
     fbind (optd ''gateway'' de_string) (\<lambda>x4. fbind (optd ''address6'' de_string) (\<lambda>x5.
     fbind (optd ''gateway6'' de_string) (\<lambda>x6. fbind (optd ''bridge_ports'' de_string) (\<lambda>x7.
     fbind (optd ''iface_vlan_raw_device'' de_string) (\<lambda>x8.
     fbind (optd ''vlan_id'' (de_uint 32)) (\<lambda>x9. fbind (optd ''autostart'' (de_uint 8)) (\<lambda>x10.
     fbind (optd ''comments'' de_string) (\<lambda>x11.
     fret \<lparr> nn_iface = x0, nn_kind = x1, nn_active = x2, nn_address = x3, nn_gateway = x4,
       nn_address6 = x5, nn_gateway6 = x6, nn_bridge_ports = x7, nn_iface_vlan_raw_device = x8, nn_vlan_id = x9,
       nn_autostart = x10, nn_comments = x11 \<rparr>)))))))))))))"

definition ser_node_network :: "node_network \<Rightarrow> json" where
  "ser_node_network r = JObj (
     mem ''iface'' (JStr (nn_iface r)) @ mem ''type'' (JStr (nn_kind r))
     @ mem ''active'' (ser_opt JNum (nn_active r)) @ mem ''address'' (ser_opt JStr (nn_address r))
     @ mem ''gateway'' (ser_opt JStr (nn_gateway r)) @ mem ''address6'' (ser_opt JStr (nn_address6 r))
     @ mem ''gateway6'' (ser_opt JStr (nn_gateway6 r)) @ mem ''bridge_ports'' (ser_opt JStr (nn_bridge_ports r))
     @ mem ''iface_vlan_raw_device'' (ser_opt JStr (nn_iface_vlan_raw_device r))
     @ mem ''vlan_id'' (ser_opt JNum (nn_vlan_id r)) @ mem ''autostart'' (ser_opt JNum (nn_autostart r))
     @ mem ''comments'' (ser_opt JStr (nn_comments r)))"

definition node_network_fits :: "node_network \<Rightarrow> bool" where
  "node_network_fits r = (
     fits_opt 8 (nn_active r) \<and> fits_opt 32 (nn_vlan_id r) \<and> fits_opt 8 (nn_autostart r))"

definition de_replication_job :: "replication_job de" where
  "de_replication_job = de_struct (
     fbind (req ''id'' (de_uint 64)) (\<lambda>x0. fbind (optd ''enable'' (de_uint 8)) (\<lambda>x1.
     fbind (optd ''source_node'' de_string) (\<lambda>x2. fbind (optd ''source_vmid'' (de_uint 32)) (\<lambda>x3.
     fbind (optd ''target'' de_string) (\<lambda>x4. fbind (optd ''target_vmid'' (de_uint 32)) (\<lambda>x5.
     fbind (optd ''rate'' (de_uint 32)) (\<lambda>x6. fbind (optd ''schedule'' de_string) (\<lambda>x7.
     fbind (optd ''comment'' de_string) (\<lambda>x8. fbind (optd ''type'' de_string) (\<lambda>x9.
     fret \<lparr> rj_id = x0, rj_enable = x1, rj_source_node = x2, rj_source_vmid = x3, rj_target = x4,
       rj_target_vmid = x5, rj_rate = x6, rj_schedule = x7, rj_comment = x8, rj_kind = x9 \<rparr>)))))))))))"

definition ser_replication_job :: "replication_job \<Rightarrow> json" where
  "ser_replication_job r = JObj (
     mem ''id'' (JNum (rj_id r)) @ mem ''enable'' (ser_opt JNum (rj_enable r))
     @ mem ''source_node'' (ser_opt JStr (rj_source_node r)) @ mem ''source_vmid'' (ser_opt JNum (rj_source_vmid r))
     @ mem ''target'' (ser_opt JStr (rj_target r)) @ mem ''target_vmid'' (ser_opt JNum (rj_target_vmid r))
     @ mem ''rate'' (ser_opt JNum (rj_rate r)) @ mem ''schedule'' (ser_opt JStr (rj_schedule r))
     @ mem ''comment'' (ser_opt JStr (rj_comment r)) @ mem ''type'' (ser_opt JStr (rj_kind r)))"

definition replication_job_fits :: "replication_job \<Rightarrow> bool" where
  "replication_job_fits r = (
     fits 64 (rj_id r) \<and> fits_opt 8 (rj_enable r) \<and> fits_opt 32 (rj_source_vmid r)
     \<and> fits_opt 32 (rj_target_vmid r) \<and> fits_opt 32 (rj_rate r))"

definition de_replication_status :: "replication_status de" where
  "de_replication_status = de_struct (
     fbind (req ''id'' (de_uint 64)) (\<lambda>x0. fbind (optd ''state'' de_string) (\<lambda>x1.
     fbind (optd ''last_sync'' (de_uint 64)) (\<lambda>x2. fbind (optd ''last_try'' (de_uint 64)) (\<lambda>x3.
     fbind (optd ''duration'' (de_uint 64)) (\<lambda>x4. fbind (optd ''error'' de_string) (\<lambda>x5.
     fbind (optd ''bytes'' (de_uint 64)) (\<lambda>x6.
     fret \<lparr> rt_job = x0, rt_state = x1, rt_last_sync = x2, rt_last_try = x3, rt_run_duration = x4,
       rt_error = x5, rt_bytes = x6 \<rparr>))))))))"

definition ser_replication_status :: "replication_status \<Rightarrow> json" where
  "ser_replication_status r = JObj (
     mem ''id'' (JNum (rt_job r)) @ mem ''state'' (ser_opt JStr (rt_state r))
     @ mem ''last_sync'' (ser_opt JNum (rt_last_sync r)) @ mem ''last_try'' (ser_opt JNum (rt_last_try r))
     @ mem ''duration'' (ser_opt JNum (rt_run_duration r)) @ mem ''error'' (ser_opt JStr (rt_error r))
     @ mem ''bytes'' (ser_opt JNum (rt_bytes r)))"

definition replication_status_fits :: "replication_status \<Rightarrow> bool" where
  "replication_status_fits r = (
     fits 64 (rt_job r) \<and> fits_opt 64 (rt_last_sync r) \<and> fits_opt 64 (rt_last_try r)
     \<and> fits_opt 64 (rt_run_duration r) \<and> fits_opt 64 (rt_bytes r))"

definition de_ha_group :: "ha_group de" where
  "de_ha_group = de_struct (
     fbind (req ''group'' de_string) (\<lambda>x0. fbind (optd ''nodes'' de_string) (\<lambda>x1.
     fbind (optd ''type'' de_string) (\<lambda>x2. fbind (optd ''comment'' de_string) (\<lambda>x3.
     fbind (optd ''nofailback'' (de_uint 8)) (\<lambda>x4. fbind (optd ''restricted'' (de_uint 8)) (\<lambda>x5.
     fret \<lparr> hg_group = x0, hg_nodes = x1, hg_kind = x2, hg_comment = x3, hg_nofailback = x4,
       hg_restricted = x5 \<rparr>)))))))"

definition ser_ha_group :: "ha_group \<Rightarrow> json" where
  "ser_ha_group r = JObj (
     mem ''group'' (JStr (hg_group r)) @ mem ''nodes'' (ser_opt JStr (hg_nodes r))
     @ mem ''type'' (ser_opt JStr (hg_kind r)) @ mem ''comment'' (ser_opt JStr (hg_comment r))
     @ mem ''nofailback'' (ser_opt JNum (hg_nofailback r)) @ mem ''restricted'' (ser_opt JNum (hg_restricted r)))"

definition ha_group_fits :: "ha_group \<Rightarrow> bool" where
  "ha_group_fits r = (
     fits_opt 8 (hg_nofailback r) \<and> fits_opt 8 (hg_restricted r))"

record snapshot_entry =
  sn_name :: string
  sn_description :: "string option"
  sn_snaptime :: "nat option"
  sn_vmstate :: "nat option"
  sn_parent :: "string option"

definition de_snapshot_entry :: "snapshot_entry de" where
  "de_snapshot_entry = de_struct (
     fbind (req ''name'' de_string) (\<lambda>x0. fbind (optd ''description'' de_string) (\<lambda>x1.
     fbind (optd ''snaptime'' (de_uint 64)) (\<lambda>x2. fbind (optd ''vmstate'' (de_uint 8)) (\<lambda>x3.
     fbind (optd ''parent'' de_string) (\<lambda>x4.
     fret \<lparr> sn_name = x0, sn_description = x1, sn_snaptime = x2, sn_vmstate = x3, sn_parent = x4 \<rparr>))))))"

definition ser_snapshot_entry :: "snapshot_entry \<Rightarrow> json" where
  "ser_snapshot_entry r = JObj (
     mem ''name'' (JStr (sn_name r)) @ mem ''description'' (ser_opt JStr (sn_description r))
     @ mem ''snaptime'' (ser_opt JNum (sn_snaptime r)) @ mem ''vmstate'' (ser_opt JNum (sn_vmstate r))
     @ mem ''parent'' (ser_opt JStr (sn_parent r)))"

definition snapshot_entry_fits :: "snapshot_entry \<Rightarrow> bool" where
  "snapshot_entry_fits r = (
     fits_opt 64 (sn_snaptime r) \<and> fits_opt 8 (sn_vmstate r))"

definition de_backup_entry :: "backup_entry de" where
  "de_backup_entry = de_struct (
     fbind (req ''volid'' de_string) (\<lambda>x0. fbind (req ''storage'' de_string) (\<lambda>x1.
     fbind (optd ''filename'' de_string) (\<lambda>x2. fbind (dflt 0 ''size'' (de_uint 64)) (\<lambda>x3.
     fbind (optd ''format'' de_string) (\<lambda>x4. fbind (optd ''ctime'' (de_uint 64)) (\<lambda>x5.
     fbind (optd ''notes'' de_string) (\<lambda>x6.
     fret \<lparr> be_volid = x0, be_storage = x1, be_filename = x2, be_size = x3, be_format = x4, be_ctime = x5,
       be_notes = x6 \<rparr>))))))))"

definition ser_backup_entry :: "backup_entry \<Rightarrow> json" where
  "ser_backup_entry r = JObj (
     mem ''volid'' (JStr (be_volid r)) @ mem ''storage'' (JStr (be_storage r))
     @ mem ''filename'' (ser_opt JStr (be_filename r)) @ mem ''size'' (JNum (be_size r))
     @ mem ''format'' (ser_opt JStr (be_format r)) @ mem ''ctime'' (ser_opt JNum (be_ctime r))
     @ mem ''notes'' (ser_opt JStr (be_notes r)))"

definition backup_entry_fits :: "backup_entry \<Rightarrow> bool" where
  "backup_entry_fits r = (
     fits 64 (be_size r) \<and> fits_opt 64 (be_ctime r))"

definition de_upload_response :: "upload_response de" where
  "de_upload_response = de_struct (
     fbind (req ''volid'' de_string) (\<lambda>x0. fbind (optd ''msg'' de_string) (\<lambda>x1.
     fret \<lparr> up_volid = x0, up_msg = x1 \<rparr>)))"

definition ser_upload_response :: "upload_response \<Rightarrow> json" where
  "ser_upload_response r = JObj (
     mem ''volid'' (JStr (up_volid r)) @ mem ''msg'' (ser_opt JStr (up_msg r)))"

record rrd_data_entry =
  rr_time :: nat
  rr_cpu :: "f64_bits option"
  rr_mem :: "nat option"
  rr_maxmem :: "nat option"
  rr_disk :: "nat option"
  rr_maxdisk :: "nat option"
  rr_netin :: "nat option"
  rr_netout :: "nat option"
  rr_diskread :: "nat option"
  rr_diskwrite :: "nat option"

definition de_rrd_data_entry :: "f64_json \<Rightarrow> rrd_data_entry de" where
  "de_rrd_data_entry F = de_struct (
     fbind (req ''time'' (de_uint 64)) (\<lambda>x0. fbind (optd ''cpu'' (fj_of F)) (\<lambda>x1.
     fbind (optd ''mem'' (de_uint 64)) (\<lambda>x2. fbind (optd ''maxmem'' (de_uint 64)) (\<lambda>x3.
     fbind (optd ''disk'' (de_uint 64)) (\<lambda>x4. fbind (optd ''maxdisk'' (de_uint 64)) (\<lambda>x5.
     fbind (optd ''netin'' (de_uint 64)) (\<lambda>x6. fbind (optd ''netout'' (de_uint 64)) (\<lambda>x7.
     fbind (optd ''diskread'' (de_uint 64)) (\<lambda>x8. fbind (optd ''diskwrite'' (de_uint 64)) (\<lambda>x9.
     fret \<lparr> rr_time = x0, rr_cpu = x1, rr_mem = x2, rr_maxmem = x3, rr_disk = x4, rr_maxdisk = x5,
       rr_netin = x6, rr_netout = x7, rr_diskread = x8, rr_diskwrite = x9 \<rparr>)))))))))))"

definition ser_rrd_data_entry :: "f64_json \<Rightarrow> rrd_data_entry \<Rightarrow> json" where
  "ser_rrd_data_entry F r = JObj (
     mem ''time'' (JNum (rr_time r)) @ mem ''cpu'' (ser_opt (fj_to F) (rr_cpu r))
     @ mem ''mem'' (ser_opt JNum (rr_mem r)) @ mem ''maxmem'' (ser_opt JNum (rr_maxmem r))
     @ mem ''disk'' (ser_opt JNum (rr_disk r)) @ mem ''maxdisk'' (ser_opt JNum (rr_maxdisk r))
     @ mem ''netin'' (ser_opt JNum (rr_netin r)) @ mem ''netout'' (ser_opt JNum (rr_netout r))
     @ mem ''diskread'' (ser_opt JNum (rr_diskread r)) @ mem ''diskwrite'' (ser_opt JNum (rr_diskwrite r)))"

definition rrd_data_entry_fits :: "f64_json \<Rightarrow> rrd_data_entry \<Rightarrow> bool" where
  "rrd_data_entry_fits F r = (
     fits 64 (rr_time r) \<and> f64_opt_ok F (rr_cpu r) \<and> fits_opt 64 (rr_mem r)
     \<and> fits_opt 64 (rr_maxmem r) \<and> fits_opt 64 (rr_disk r) \<and> fits_opt 64 (rr_maxdisk r)
     \<and> fits_opt 64 (rr_netin r) \<and> fits_opt 64 (rr_netout r) \<and> fits_opt 64 (rr_diskread r)
     \<and> fits_opt 64 (rr_diskwrite r))"

record task_log_entry =
  tl_line :: nat
  tl_t :: nat
  tl_msg :: string

definition de_task_log_entry :: "task_log_entry de" where
  "de_task_log_entry = de_struct (
     fbind (req ''line'' (de_uint 32)) (\<lambda>x0. fbind (req ''t'' (de_uint 64)) (\<lambda>x1.
     fbind (req ''msg'' de_string) (\<lambda>x2.
     fret \<lparr> tl_line = x0, tl_t = x1, tl_msg = x2 \<rparr>))))"

definition ser_task_log_entry :: "task_log_entry \<Rightarrow> json" where
  "ser_task_log_entry r = JObj (
     mem ''line'' (JNum (tl_line r)) @ mem ''t'' (JNum (tl_t r)) @ mem ''msg'' (JStr (tl_msg r)))"

definition task_log_entry_fits :: "task_log_entry \<Rightarrow> bool" where
  "task_log_entry_fits r = (
     fits 32 (tl_line r) \<and> fits 64 (tl_t r))"

record cluster_status_entry =
  cz_quorate :: "bool option"
  cz_name :: "string option"
  cz_version :: "nat option"
  cz_nodes :: nat
  cz_quorum :: nat
  cz_flags :: "string option"

definition de_cluster_status_entry :: "cluster_status_entry de" where
  "de_cluster_status_entry = de_struct (
     fbind (optd ''quorate'' de_bool) (\<lambda>x0. fbind (optd ''name'' de_string) (\<lambda>x1.
     fbind (optd ''version'' (de_uint 64)) (\<lambda>x2. fbind (req ''nodes'' (de_uint 32)) (\<lambda>x3.
     fbind (req ''quorum'' (de_uint 32)) (\<lambda>x4. fbind (optd ''flags'' de_string) (\<lambda>x5.
     fret \<lparr> cz_quorate = x0, cz_name = x1, cz_version = x2, cz_nodes = x3, cz_quorum = x4, cz_flags = x5 \<rparr>)))))))"

definition ser_cluster_status_entry :: "cluster_status_entry \<Rightarrow> json" where
  "ser_cluster_status_entry r = JObj (
     mem ''quorate'' (ser_opt JBool (cz_quorate r)) @ mem ''name'' (ser_opt JStr (cz_name r))
     @ mem ''version'' (ser_opt JNum (cz_version r)) @ mem ''nodes'' (JNum (cz_nodes r))
     @ mem ''quorum'' (JNum (cz_quorum r)) @ mem ''flags'' (ser_opt JStr (cz_flags r)))"

definition cluster_status_entry_fits :: "cluster_status_entry \<Rightarrow> bool" where
  "cluster_status_entry_fits r = (
     fits_opt 64 (cz_version r) \<and> fits 32 (cz_nodes r) \<and> fits 32 (cz_quorum r))"

record cluster_config_info =
  cq_cluster :: "string option"
  cq_cluster_network :: "string option"
  cq_cluster_limit_netfilter :: "string option"
  cq_ha_enabled :: "bool option"
  cq_ha_mode :: "string option"
  cq_type :: "string option"
  cq_autostop_after :: "nat option"
  cq_migrate_speed :: "nat option"
  cq_migrate_downtime :: "nat option"

definition de_cluster_config_info :: "cluster_config_info de" where
  "de_cluster_config_info = de_struct (
     fbind (optd ''cluster'' de_string) (\<lambda>x0. fbind (optd ''cluster_network'' de_string) (\<lambda>x1.
     fbind (optd ''cluster_limit_netfilter'' de_string) (\<lambda>x2.
     fbind (optd ''ha_enabled'' de_bool) (\<lambda>x3. fbind (optd ''ha_mode'' de_string) (\<lambda>x4.
     fbind (optd ''type'' de_string) (\<lambda>x5. fbind (optd ''autostop_after'' (de_uint 64)) (\<lambda>x6.
     fbind (optd ''migrate_speed'' (de_uint 64)) (\<lambda>x7.
     fbind (optd ''migrate_downtime'' (de_uint 64)) (\<lambda>x8.
     fret \<lparr> cq_cluster = x0, cq_cluster_network = x1, cq_cluster_limit_netfilter = x2, cq_ha_enabled = x3,
       cq_ha_mode = x4, cq_type = x5, cq_autostop_after = x6, cq_migrate_speed = x7, cq_migrate_downtime = x8 \<rparr>))))))))))"

definition ser_cluster_config_info :: "cluster_config_info \<Rightarrow> json" where
  "ser_cluster_config_info r = JObj (
     mem ''cluster'' (ser_opt JStr (cq_cluster r)) @ mem ''cluster_network'' (ser_opt JStr (cq_cluster_network r))
     @ mem ''cluster_limit_netfilter'' (ser_opt JStr (cq_cluster_limit_netfilter r))
     @ mem ''ha_enabled'' (ser_opt JBool (cq_ha_enabled r)) @ mem ''ha_mode'' (ser_opt JStr (cq_ha_mode r))
     @ mem ''type'' (ser_opt JStr (cq_type r)) @ mem ''autostop_after'' (ser_opt JNum (cq_autostop_after r))
     @ mem ''migrate_speed'' (ser_opt JNum (cq_migrate_speed r))
     @ mem ''migrate_downtime'' (ser_opt JNum (cq_migrate_downtime r)))"

definition cluster_config_info_fits :: "cluster_config_info \<Rightarrow> bool" where
  "cluster_config_info_fits r = (
     fits_opt 64 (cq_autostop_after r) \<and> fits_opt 64 (cq_migrate_speed r)
     \<and> fits_opt 64 (cq_migrate_downtime r))"

record cluster_options =
  cx_mac_prefix :: "string option"
  cx_console_viewer :: "string option"
  cx_language :: "string option"
  cx_keyboard :: "string option"
  cx_email_from :: "string option"
  cx_migration_type :: "string option"
  cx_migration_unsecure :: "bool option"
  cx_userpw_change_min_age :: "nat option"
  cx_userpw_change_max_age :: "nat option"
  cx_bwlimit_default :: "nat option"
  cx_max_workers :: "nat option"
  cx_ha_autostart_delay :: "nat option"
  cx_crs_ha :: "string option"
  cx_next_id :: "nat option"
  cx_http_proxy :: "string option"
  cx_console_https :: "bool option"
  cx_max_vmid :: "nat option"
  cx_min_vmid :: "nat option"
  cx_proxy_users :: "string option"
  cx_users_group :: "string option"
  cx_group_blacklist :: "string option"

definition de_cluster_options :: "cluster_options de" where
  "de_cluster_options = de_struct (
     fbind (optd ''mac_prefix'' de_string) (\<lambda>x0. fbind (optd ''console_viewer'' de_string) (\<lambda>x1.
     fbind (optd ''language'' de_string) (\<lambda>x2. fbind (optd ''keyboard'' de_string) (\<lambda>x3.
     fbind (optd ''email_from'' de_string) (\<lambda>x4. fbind (optd ''migration_type'' de_string) (\<lambda>x5.
     fbind (optd ''migration_unsecure'' de_bool) (\<lambda>x6.
     fbind (optd ''userpw_change_min_age'' (de_uint 32)) (\<lambda>x7.
     fbind (optd ''userpw_change_max_age'' (de_uint 32)) (\<lambda>x8.
     fbind (optd ''bwlimit_default'' (de_uint 64)) (\<lambda>x9.
     fbind (optd ''max_workers'' (de_uint 32)) (\<lambda>x10.
     fbind (optd ''ha_autostart_delay'' (de_uint 32)) (\<lambda>x11. fbind (optd ''crs_ha'' de_string) (\<lambda>x12.
     fbind (optd ''next_id'' (de_uint 32)) (\<lambda>x13. fbind (optd ''http_proxy'' de_string) (\<lambda>x14.
     fbind (optd ''console_https'' de_bool) (\<lambda>x15. fbind (optd ''max_vmid'' (de_uint 32)) (\<lambda>x16.
     fbind (optd ''min_vmid'' (de_uint 32)) (\<lambda>x17. fbind (optd ''proxy_users'' de_string) (\<lambda>x18.
     fbind (optd ''users_group'' de_string) (\<lambda>x19. fbind (optd ''group_blacklist'' de_string) (\<lambda>x20.
     fret \<lparr> cx_mac_prefix = x0, cx_console_viewer = x1, cx_language = x2, cx_keyboard = x3,
       cx_email_from = x4, cx_migration_type = x5, cx_migration_unsecure = x6, cx_userpw_change_min_age = x7,
       cx_userpw_change_max_age = x8, cx_bwlimit_default = x9, cx_max_workers = x10, cx_ha_autostart_delay = x11,
       cx_crs_ha = x12, cx_next_id = x13, cx_http_proxy = x14, cx_console_https = x15, cx_max_vmid = x16,
       cx_min_vmid = x17, cx_proxy_users = x18, cx_users_group = x19, cx_group_blacklist = x20 \<rparr>))))))))))))))))))))))"

definition ser_cluster_options :: "cluster_options \<Rightarrow> json" where
  "ser_cluster_options r = JObj (
     mem ''mac_prefix'' (ser_opt JStr (cx_mac_prefix r))
     @ mem ''console_viewer'' (ser_opt JStr (cx_console_viewer r)) @ mem ''language'' (ser_opt JStr (cx_language r))
     @ mem ''keyboard'' (ser_opt JStr (cx_keyboard r)) @ mem ''email_from'' (ser_opt JStr (cx_email_from r))
     @ mem ''migration_type'' (ser_opt JStr (cx_migration_type r))
     @ mem ''migration_unsecure'' (ser_opt JBool (cx_migration_unsecure r))
     @ mem ''userpw_change_min_age'' (ser_opt JNum (cx_userpw_change_min_age r))
     @ mem ''userpw_change_max_age'' (ser_opt JNum (cx_userpw_change_max_age r))
     @ mem ''bwlimit_default'' (ser_opt JNum (cx_bwlimit_default r))
     @ mem ''max_workers'' (ser_opt JNum (cx_max_workers r))
     @ mem ''ha_autostart_delay'' (ser_opt JNum (cx_ha_autostart_delay r))
     @ mem ''crs_ha'' (ser_opt JStr (cx_crs_ha r)) @ mem ''next_id'' (ser_opt JNum (cx_next_id r))
     @ mem ''http_proxy'' (ser_opt JStr (cx_http_proxy r))
     @ mem ''console_https'' (ser_opt JBool (cx_console_https r)) @ mem ''max_vmid'' (ser_opt JNum (cx_max_vmid r))
     @ mem ''min_vmid'' (ser_opt JNum (cx_min_vmid r)) @ mem ''proxy_users'' (ser_opt JStr (cx_proxy_users r))
     @ mem ''users_group'' (ser_opt JStr (cx_users_group r))
     @ mem ''group_blacklist'' (ser_opt JStr (cx_group_blacklist r)))"

definition cluster_options_fits :: "cluster_options \<Rightarrow> bool" where
  "cluster_options_fits r = (
     fits_opt 32 (cx_userpw_change_min_age r) \<and> fits_opt 32 (cx_userpw_change_max_age r)
     \<and> fits_opt 64 (cx_bwlimit_default r) \<and> fits_opt 32 (cx_max_workers r)
     \<and> fits_opt 32 (cx_ha_autostart_delay r) \<and> fits_opt 32 (cx_next_id r)
     \<and> fits_opt 32 (cx_max_vmid r) \<and> fits_opt 32 (cx_min_vmid r))"

record cluster_log_entry =
  cg_time :: nat
  cg_msg :: string
  cg_node :: "string option"
  cg_tag :: "string option"
  cg_pri :: "nat option"

definition de_cluster_log_entry :: "cluster_log_entry de" where
  "de_cluster_log_entry = de_struct (
     fbind (req ''time'' (de_uint 64)) (\<lambda>x0. fbind (req ''msg'' de_string) (\<lambda>x1.
     fbind (optd ''node'' de_string) (\<lambda>x2. fbind (optd ''tag'' de_string) (\<lambda>x3.
     fbind (optd ''pri'' (de_uint 32)) (\<lambda>x4.
     fret \<lparr> cg_time = x0, cg_msg = x1, cg_node = x2, cg_tag = x3, cg_pri = x4 \<rparr>))))))"

definition ser_cluster_log_entry :: "cluster_log_entry \<Rightarrow> json" where
  "ser_cluster_log_entry r = JObj (
     mem ''time'' (JNum (cg_time r)) @ mem ''msg'' (JStr (cg_msg r)) @ mem ''node'' (ser_opt JStr (cg_node r))
     @ mem ''tag'' (ser_opt JStr (cg_tag r)) @ mem ''pri'' (ser_opt JNum (cg_pri r)))"

definition cluster_log_entry_fits :: "cluster_log_entry \<Rightarrow> bool" where
  "cluster_log_entry_fits r = (
     fits 64 (cg_time r) \<and> fits_opt 32 (cg_pri r))"

record cluster_task =
  cy_upid :: string
  cy_node :: string
  cy_pid :: string
  cy_pstart :: nat
  cy_starttime :: nat
  cy_endtime :: nat
  cy_status :: string
  cy_type :: string
  cy_user :: string
  cy_id :: "string option"

definition de_cluster_task :: "cluster_task de" where
  "de_cluster_task = de_struct (
     fbind (req ''upid'' de_string) (\<lambda>x0. fbind (req ''node'' de_string) (\<lambda>x1.
     fbind (req ''pid'' de_string) (\<lambda>x2. fbind (req ''pstart'' (de_uint 64)) (\<lambda>x3.
     fbind (req ''starttime'' (de_uint 64)) (\<lambda>x4. fbind (req ''endtime'' (de_uint 64)) (\<lambda>x5.
     fbind (req ''status'' de_string) (\<lambda>x6. fbind (req ''type'' de_string) (\<lambda>x7.
     fbind (req ''user'' de_string) (\<lambda>x8. fbind (optd ''id'' de_string) (\<lambda>x9.
     fret \<lparr> cy_upid = x0, cy_node = x1, cy_pid = x2, cy_pstart = x3, cy_starttime = x4, cy_endtime = x5,
       cy_status = x6, cy_type = x7, cy_user = x8, cy_id = x9 \<rparr>)))))))))))"

definition ser_cluster_task :: "cluster_task \<Rightarrow> json" where
  "ser_cluster_task r = JObj (
     mem ''upid'' (JStr (cy_upid r)) @ mem ''node'' (JStr (cy_node r)) @ mem ''pid'' (JStr (cy_pid r))
     @ mem ''pstart'' (JNum (cy_pstart r)) @ mem ''starttime'' (JNum (cy_starttime r))
     @ mem ''endtime'' (JNum (cy_endtime r)) @ mem ''status'' (JStr (cy_status r)) @ mem ''type'' (JStr (cy_type r))
     @ mem ''user'' (JStr (cy_user r)) @ mem ''id'' (ser_opt JStr (cy_id r)))"

definition cluster_task_fits :: "cluster_task \<Rightarrow> bool" where
  "cluster_task_fits r = (
     fits 64 (cy_pstart r) \<and> fits 64 (cy_starttime r) \<and> fits 64 (cy_endtime r))"

section \<open>Bodies of requests\<close>

definition de_create_replication_job_req :: "create_replication_job_req de" where
  "de_create_replication_job_req = de_struct (
     fbind (req ''source_vmid'' (de_uint 32)) (\<lambda>x0. fbind (optd ''source_node'' de_string) (\<lambda>x1.
     fbind (req ''target'' de_string) (\<lambda>x2. fbind (optd ''target_vmid'' (de_uint 32)) (\<lambda>x3.
     fbind (optd ''rate'' (de_uint 32)) (\<lambda>x4. fbind (req ''schedule'' de_string) (\<lambda>x5.
     fbind (optd ''comment'' de_string) (\<lambda>x6. fbind (dflt True ''enable'' de_bool) (\<lambda>x7.
     fret \<lparr> cj_source_vmid = x0, cj_source_node = x1, cj_target = x2, cj_target_vmid = x3, cj_rate = x4,
       cj_schedule = x5, cj_comment = x6, cj_enable = x7 \<rparr>)))))))))"

definition de_create_vm_request :: "create_vm_request de" where
  "de_create_vm_request = de_struct (
     fbind (optd ''vmid'' (de_uint 32)) (\<lambda>x0. fbind (optd ''name'' de_string) (\<lambda>x1.
     fbind (optd ''description'' de_string) (\<lambda>x2. fbind (optd ''cores'' (de_uint 32)) (\<lambda>x3.
     fbind (optd ''sockets'' (de_uint 32)) (\<lambda>x4. fbind (optd ''memory'' (de_uint 64)) (\<lambda>x5.
     fbind (optd ''balloon'' (de_uint 64)) (\<lambda>x6. fbind (optd ''boot'' de_string) (\<lambda>x7.
     fbind (optd ''bios'' de_string) (\<lambda>x8. fbind (optd ''machine'' de_string) (\<lambda>x9.
     fbind (optd ''scsihw'' de_string) (\<lambda>x10. fbind (optd ''cpu'' de_string) (\<lambda>x11.
     fbind (optd ''arch'' de_string) (\<lambda>x12. fbind (optd ''tags'' de_string) (\<lambda>x13.
     fbind (optd ''template'' (de_uint 8)) (\<lambda>x14. fbind (optd ''onboot'' (de_uint 8)) (\<lambda>x15.
     fbind (optd ''agent'' (de_uint 8)) (\<lambda>x16. fbind (optd ''storage'' de_string) (\<lambda>x17.
     fbind (optd ''disk_size'' de_string) (\<lambda>x18. fbind (optd ''net_model'' de_string) (\<lambda>x19.
     fbind (optd ''net_bridge'' de_string) (\<lambda>x20. fbind (optd ''ostype'' de_string) (\<lambda>x21.
     fbind (optd ''ide2'' de_string) (\<lambda>x22. fbind (optd ''start'' de_bool) (\<lambda>x23.
     fbind (optd ''numa_enabled'' de_bool) (\<lambda>x24.
     fret \<lparr> cv_vmid = x0, cv_name = x1, cv_description = x2, cv_cores = x3, cv_sockets = x4,
       cv_memory = x5, cv_balloon = x6, cv_boot = x7, cv_bios = x8, cv_machine = x9, cv_scsihw = x10,
       cv_cpu = x11, cv_arch = x12, cv_tags = x13, cv_template = x14, cv_onboot = x15, cv_agent = x16,
       cv_storage = x17, cv_disk_size = x18, cv_net_model = x19, cv_net_bridge = x20, cv_ostype = x21,
       cv_ide2 = x22, cv_start = x23, cv_numa_enabled = x24 \<rparr>))))))))))))))))))))))))))"

definition de_clone_vm_request :: "clone_vm_request de" where
  "de_clone_vm_request = de_struct (
     fbind (req ''newid'' (de_uint 32)) (\<lambda>x0. fbind (optd ''target'' de_string) (\<lambda>x1.
     fbind (optd ''name'' de_string) (\<lambda>x2. fbind (optd ''storage'' de_string) (\<lambda>x3.
     fbind (dflt True ''full'' de_bool) (\<lambda>x4. fbind (optd ''snapname'' de_string) (\<lambda>x5.
     fbind (optd ''description'' de_string) (\<lambda>x6. fbind (optd ''start'' de_bool) (\<lambda>x7.
     fbind (optd ''pool'' de_string) (\<lambda>x8.
     fret \<lparr> cw_newid = x0, cw_target = x1, cw_name = x2, cw_storage = x3, cw_full = x4, cw_snapname = x5,
       cw_description = x6, cw_start = x7, cw_pool = x8 \<rparr>))))))))))"

definition de_update_vm_config_request :: "update_vm_config_request de" where
  "de_update_vm_config_request = de_struct (
     fbind (optd ''name'' de_string) (\<lambda>x0. fbind (optd ''description'' de_string) (\<lambda>x1.
     fbind (optd ''cores'' (de_uint 32)) (\<lambda>x2. fbind (optd ''sockets'' (de_uint 32)) (\<lambda>x3.
     fbind (optd ''memory'' (de_uint 64)) (\<lambda>x4. fbind (optd ''balloon'' (de_uint 64)) (\<lambda>x5.
     fbind (optd ''boot'' de_string) (\<lambda>x6. fbind (optd ''bios'' de_string) (\<lambda>x7.
     fbind (optd ''machine'' de_string) (\<lambda>x8. fbind (optd ''scsihw'' de_string) (\<lambda>x9.
     fbind (optd ''cpu'' de_string) (\<lambda>x10. fbind (optd ''tags'' de_string) (\<lambda>x11.
     fbind (optd ''template'' (de_uint 8)) (\<lambda>x12. fbind (optd ''onboot'' (de_uint 8)) (\<lambda>x13.
     fbind (optd ''agent'' (de_uint 8)) (\<lambda>x14. fbind (optd ''delete'' de_string) (\<lambda>x15.
     fbind (optd ''ciuser'' de_string) (\<lambda>x16. fbind (optd ''sshkeys'' de_string) (\<lambda>x17.
     fbind (optd ''ipconfig'' de_string) (\<lambda>x18. fbind (optd ''nameserver'' de_string) (\<lambda>x19.
     fbind (optd ''searchdomain'' de_string) (\<lambda>x20. fbind (optd ''net'' de_string) (\<lambda>x21.
     fret \<lparr> uv_name = x0, uv_description = x1, uv_cores = x2, uv_sockets = x3, uv_memory = x4,
       uv_balloon = x5, uv_boot = x6, uv_bios = x7, uv_machine = x8, uv_scsihw = x9, uv_cpu = x10, uv_tags = x11,
       uv_template = x12, uv_onboot = x13, uv_agent = x14, uv_delete = x15, uv_ciuser = x16, uv_sshkeys = x17,
       uv_ipconfig = x18, uv_nameserver = x19, uv_searchdomain = x20, uv_net = x21 \<rparr>)))))))))))))))))))))))"

definition de_backup_vm_request :: "backup_vm_request de" where
  "de_backup_vm_request = de_struct (
     fbind (dflt ''local'' ''storage'' de_string) (\<lambda>x0.
     fbind (dflt ''snapshot'' ''mode'' de_string) (\<lambda>x1.
     fbind (dflt ''zstd'' ''compress'' de_string) (\<lambda>x2. fbind (optd ''remove'' de_bool) (\<lambda>x3.
     fbind (optd ''notes'' de_string) (\<lambda>x4. fbind (optd ''performance'' de_string) (\<lambda>x5.
     fret \<lparr> bk_storage = x0, bk_mode = x1, bk_compress = x2, bk_remove = x3, bk_notes = x4,
       bk_performance = x5 \<rparr>)))))))"

definition de_create_snapshot_request :: "create_snapshot_request de" where
  "de_create_snapshot_request = de_struct (
     fbind (req ''snapname'' de_string) (\<lambda>x0. fbind (optd ''description'' de_string) (\<lambda>x1.
     fbind (dflt True ''vmstate'' de_bool) (\<lambda>x2.
     fret \<lparr> cs_snapname = x0, cs_description = x1, cs_vmstate = x2 \<rparr>))))"

definition de_delete_snapshot_request :: "delete_snapshot_request de" where
  "de_delete_snapshot_request = de_struct (
     fbind (dflt False ''force'' de_bool) (\<lambda>x0.
     fret \<lparr> ds_force = x0 \<rparr>))"

definition de_resize_disk_request :: "resize_disk_request de" where
  "de_resize_disk_request = de_struct (
     fbind (req ''disk'' de_string) (\<lambda>x0. fbind (req ''size'' de_string) (\<lambda>x1.
     fret \<lparr> rd_disk = x0, rd_size = x1 \<rparr>)))"

definition de_lxc_action_request :: "lxc_action_request de" where
  "de_lxc_action_request = de_struct (
     fbind (optd ''force'' de_bool) (\<lambda>x0. fbind (optd ''timeout'' (de_uint 32)) (\<lambda>x1.
     fret \<lparr> la_force = x0, la_timeout = x1 \<rparr>)))"

definition de_delete_lxc_request :: "delete_lxc_request de" where
  "de_delete_lxc_request = de_struct (
     fbind (dflt False ''purge'' de_bool) (\<lambda>x0. fbind (dflt False ''force'' de_bool) (\<lambda>x1.
     fbind (dflt False ''skiplock'' de_bool) (\<lambda>x2.
     fret \<lparr> dl_purge = x0, dl_force = x1, dl_skiplock = x2 \<rparr>))))"

section \<open>Lemmas\<close>

lemma de_ser_opt [simp]:
  "de_opt de_string (ser_opt JStr x) = Some x" "de_opt de_bool (ser_opt JBool y) = Some y"
  "fits_opt w z \<Longrightarrow> de_opt (de_uint w) (ser_opt JNum z) = Some z"
  "f64_opt_ok F v \<Longrightarrow> de_opt (fj_of F) (ser_opt (fj_to F) v) = Some v"
  by (cases x; cases y; cases z; cases v; auto simp: fits_opt_def f64_opt_ok_def de_opt.simps de_uint.simps split: json.splits)+

lemma de_plain [simp]: "fits w n \<Longrightarrow> de_uint w (JNum n) = Some n"
  by (simp add: fits_def de_uint.simps)

lemma field_members:
  "fbind (field a b name d) k (Members kvs) = (case filter (\<lambda>kv. fst kv = name) kvs of
       [] \<Rightarrow> (case a of None \<Rightarrow> None | Some x \<Rightarrow> k x (Members kvs))
     | [kv] \<Rightarrow> (case d (snd kv) of None \<Rightarrow> None | Some x \<Rightarrow> k x (Members kvs))
     | _ \<Rightarrow> None)"
  by (auto simp: fbind_def field_def split: list.split option.split)

lemma field_some [simp]:
  "(case (case x of None \<Rightarrow> [] | Some v \<Rightarrow> [(name, JStr v)]) of
       [] \<Rightarrow> k None | [kv] \<Rightarrow> (case de_opt de_string (snd kv) of None \<Rightarrow> None | Some y \<Rightarrow> k y) | _ \<Rightarrow> None) = k x"
  "(case (case y of None \<Rightarrow> [] | Some v \<Rightarrow> [(name, JBool v)]) of
       [] \<Rightarrow> k' None | [kv] \<Rightarrow> (case de_opt de_bool (snd kv) of None \<Rightarrow> None | Some y \<Rightarrow> k' y) | _ \<Rightarrow> None) = k' y"
  "fits_opt w z \<Longrightarrow> (case (case z of None \<Rightarrow> [] | Some v \<Rightarrow> [(name, JNum v)]) of
       [] \<Rightarrow> k'' None | [kv] \<Rightarrow> (case de_opt (de_uint w) (snd kv) of None \<Rightarrow> None | Some y \<Rightarrow> k'' y) | _ \<Rightarrow> None) = k'' z"
  by (cases x; cases y; cases z; simp add: fits_opt_def de_opt.simps de_uint.simps)+

lemmas serde_read = de_struct_def field_members req_def opt_def optd_def dflt_def

lemma vm_config_roundtrip: "vm_config_fits r \<Longrightarrow> de_vm_config (ser_vm_config r) = Some r"
  by (simp add: de_vm_config_def ser_vm_config_def vm_config_fits_def serde_read)

lemma task_status_roundtrip: "task_status_fits r \<Longrightarrow> de_task_status (ser_task_status r) = Some r"
  by (simp add: de_task_status_def ser_task_status_def task_status_fits_def serde_read)

lemma px_version_roundtrip: "de_px_version (ser_px_version r) = Some r"
  by (simp add: de_px_version_def ser_px_version_def serde_read)

lemma node_status_roundtrip: "node_status_fits F r \<Longrightarrow> de_node_status F (ser_node_status F r) = Some r"
  by (simp add: de_node_status_def ser_node_status_def node_status_fits_def serde_read)

lemma vm_resource_roundtrip: "vm_resource_fits F r \<Longrightarrow> de_vm_resource F (ser_vm_resource F r) = Some r"
  by (simp add: de_vm_resource_def ser_vm_resource_def vm_resource_fits_def serde_read)

lemma lxc_status_roundtrip: "lxc_status_fits F r \<Longrightarrow> de_lxc_status F (ser_lxc_status F r) = Some r"
  by (simp add: de_lxc_status_def ser_lxc_status_def lxc_status_fits_def serde_read)

lemma storage_resource_roundtrip: "storage_resource_fits F r \<Longrightarrow> de_storage_resource F (ser_storage_resource F r) = Some r"
  by (simp add: de_storage_resource_def ser_storage_resource_def storage_resource_fits_def serde_read)

lemma storage_content_entry_roundtrip: "storage_content_entry_fits r \<Longrightarrow> de_storage_content_entry (ser_storage_content_entry r) = Some r"
  by (simp add: de_storage_content_entry_def ser_storage_content_entry_def storage_content_entry_fits_def serde_read)

lemma node_network_roundtrip: "node_network_fits r \<Longrightarrow> de_node_network (ser_node_network r) = Some r"
  by (simp add: de_node_network_def ser_node_network_def node_network_fits_def serde_read)

lemma replication_job_roundtrip: "replication_job_fits r \<Longrightarrow> de_replication_job (ser_replication_job r) = Some r"
  by (simp add: de_replication_job_def ser_replication_job_def replication_job_fits_def serde_read)

lemma replication_status_roundtrip: "replication_status_fits r \<Longrightarrow> de_replication_status (ser_replication_status r) = Some r"
  by (simp add: de_replication_status_def ser_replication_status_def replication_status_fits_def serde_read)

lemma ha_group_roundtrip: "ha_group_fits r \<Longrightarrow> de_ha_group (ser_ha_group r) = Some r"
  by (simp add: de_ha_group_def ser_ha_group_def ha_group_fits_def serde_read)

lemma snapshot_entry_roundtrip: "snapshot_entry_fits r \<Longrightarrow> de_snapshot_entry (ser_snapshot_entry r) = Some r"
  by (simp add: de_snapshot_entry_def ser_snapshot_entry_def snapshot_entry_fits_def serde_read)

lemma backup_entry_roundtrip: "backup_entry_fits r \<Longrightarrow> de_backup_entry (ser_backup_entry r) = Some r"
  by (simp add: de_backup_entry_def ser_backup_entry_def backup_entry_fits_def serde_read)

lemma upload_response_roundtrip: "de_upload_response (ser_upload_response r) = Some r"
  by (simp add: de_upload_response_def ser_upload_response_def serde_read)

lemma rrd_data_entry_roundtrip: "rrd_data_entry_fits F r \<Longrightarrow> de_rrd_data_entry F (ser_rrd_data_entry F r) = Some r"
  by (simp add: de_rrd_data_entry_def ser_rrd_data_entry_def rrd_data_entry_fits_def serde_read)

lemma task_log_entry_roundtrip: "task_log_entry_fits r \<Longrightarrow> de_task_log_entry (ser_task_log_entry r) = Some r"
  by (simp add: de_task_log_entry_def ser_task_log_entry_def task_log_entry_fits_def serde_read)

lemma cluster_status_entry_roundtrip: "cluster_status_entry_fits r \<Longrightarrow> de_cluster_status_entry (ser_cluster_status_entry r) = Some r"
  by (simp add: de_cluster_status_entry_def ser_cluster_status_entry_def cluster_status_entry_fits_def serde_read)

lemma cluster_config_info_roundtrip: "cluster_config_info_fits r \<Longrightarrow> de_cluster_config_info (ser_cluster_config_info r) = Some r"
  by (simp add: de_cluster_config_info_def ser_cluster_config_info_def cluster_config_info_fits_def serde_read)

lemma cluster_options_roundtrip: "cluster_options_fits r \<Longrightarrow> de_cluster_options (ser_cluster_options r) = Some r"
  by (simp add: de_cluster_options_def ser_cluster_options_def cluster_options_fits_def serde_read)

lemma cluster_log_entry_roundtrip: "cluster_log_entry_fits r \<Longrightarrow> de_cluster_log_entry (ser_cluster_log_entry r) = Some r"
  by (simp add: de_cluster_log_entry_def ser_cluster_log_entry_def cluster_log_entry_fits_def serde_read)

lemma cluster_task_roundtrip: "cluster_task_fits r \<Longrightarrow> de_cluster_task (ser_cluster_task r) = Some r"
  by (simp add: de_cluster_task_def ser_cluster_task_def cluster_task_fits_def serde_read)

section \<open>Any order, unknown members\<close>

text \<open>Every name is a literal, so that it is one of the field names is decided by rewriting.\<close>

lemmas reads_members = reads_bind reads_fields reads_ret

lemma vm_config_reads_back:
  "reads_back de_vm_config ser_vm_config vm_config_fits
     [''name'', ''description'', ''cores'', ''sockets'', ''memory'', ''balloon'', ''boot'', ''bios'',
      ''machine'', ''scsihw'', ''cpu'', ''tags'', ''template'', ''onboot'', ''agent'']"
  unfolding de_vm_config_def
  by (rule reads_backI[OF _ vm_config_roundtrip[unfolded de_vm_config_def]])
    ((intro reads_members; simp) | simp add: ser_vm_config_def)+

lemma task_status_reads_back:
  "reads_back de_task_status ser_task_status task_status_fits
     [''upid'', ''node'', ''status'', ''exitstatus'', ''starttime'', ''endtime'', ''type'', ''user'']"
  unfolding de_task_status_def
  by (rule reads_backI[OF _ task_status_roundtrip[unfolded de_task_status_def]])
    ((intro reads_members; simp) | simp add: ser_task_status_def)+

lemma px_version_reads_back:
  "reads_back de_px_version ser_px_version (\<lambda>_. True)
     [''version'', ''release'', ''repoid'']"
  unfolding de_px_version_def
  by (rule reads_backI[OF _ px_version_roundtrip[unfolded de_px_version_def]])
    ((intro reads_members; simp) | simp add: ser_px_version_def)+

lemma node_status_reads_back:
  "reads_back (de_node_status F) (ser_node_status F) (node_status_fits F)
     [''node'', ''status'', ''cpu'', ''level'', ''maxcpu'', ''mem'', ''maxmem'', ''disk'', ''maxdisk'',
      ''uptime'']"
  unfolding de_node_status_def
  by (rule reads_backI[OF _ node_status_roundtrip[unfolded de_node_status_def]])
    ((intro reads_members; simp) | simp add: ser_node_status_def)+

lemma vm_resource_reads_back:
  "reads_back (de_vm_resource F) (ser_vm_resource F) (vm_resource_fits F)
     [''vmid'', ''name'', ''node'', ''type'', ''status'', ''cpu'', ''cpus'', ''mem'', ''maxmem'',
      ''disk'', ''maxdisk'', ''netin'', ''netout'', ''diskread'', ''diskwrite'', ''uptime'', ''template'',
      ''tags'']"
  unfolding de_vm_resource_def
  by (rule reads_backI[OF _ vm_resource_roundtrip[unfolded de_vm_resource_def]])
    ((intro reads_members; simp) | simp add: ser_vm_resource_def)+

lemma lxc_status_reads_back:
  "reads_back (de_lxc_status F) (ser_lxc_status F) (lxc_status_fits F)
     [''vmid'', ''name'', ''node'', ''status'', ''cpu'', ''cpus'', ''mem'', ''maxmem'', ''disk'',
      ''maxdisk'', ''uptime'', ''template'']"
  unfolding de_lxc_status_def
  by (rule reads_backI[OF _ lxc_status_roundtrip[unfolded de_lxc_status_def]])
    ((intro reads_members; simp) | simp add: ser_lxc_status_def)+

lemma storage_resource_reads_back:
  "reads_back (de_storage_resource F) (ser_storage_resource F) (storage_resource_fits F)
     [''storage'', ''type'', ''total'', ''used'', ''avail'', ''used_fraction'', ''enabled'', ''shared'',
      ''content'']"
  unfolding de_storage_resource_def
  by (rule reads_backI[OF _ storage_resource_roundtrip[unfolded de_storage_resource_def]])
    ((intro reads_members; simp) | simp add: ser_storage_resource_def)+

lemma storage_content_entry_reads_back:
  "reads_back de_storage_content_entry ser_storage_content_entry storage_content_entry_fits
     [''volid'', ''storage'', ''content'', ''volid_name'', ''size'', ''used'', ''format'', ''ctime'']"
  unfolding de_storage_content_entry_def
  by (rule reads_backI[OF _ storage_content_entry_roundtrip[unfolded de_storage_content_entry_def]])
    ((intro reads_members; simp) | simp add: ser_storage_content_entry_def)+

lemma node_network_reads_back:
  "reads_back de_node_network ser_node_network node_network_fits
     [''iface'', ''type'', ''active'', ''address'', ''gateway'', ''address6'', ''gateway6'',
      ''bridge_ports'', ''iface_vlan_raw_device'', ''vlan_id'', ''autostart'', ''comments'']"
  unfolding de_node_network_def
  by (rule reads_backI[OF _ node_network_roundtrip[unfolded de_node_network_def]])
    ((intro reads_members; simp) | simp add: ser_node_network_def)+

lemma replication_job_reads_back:
  "reads_back de_replication_job ser_replication_job replication_job_fits
     [''id'', ''enable'', ''source_node'', ''source_vmid'', ''target'', ''target_vmid'', ''rate'',
      ''schedule'', ''comment'', ''type'']"
  unfolding de_replication_job_def
  by (rule reads_backI[OF _ replication_job_roundtrip[unfolded de_replication_job_def]])
    ((intro reads_members; simp) | simp add: ser_replication_job_def)+

lemma replication_status_reads_back:
  "reads_back de_replication_status ser_replication_status replication_status_fits
     [''id'', ''state'', ''last_sync'', ''last_try'', ''duration'', ''error'', ''bytes'']"
  unfolding de_replication_status_def
  by (rule reads_backI[OF _ replication_status_roundtrip[unfolded de_replication_status_def]])
    ((intro reads_members; simp) | simp add: ser_replication_status_def)+

lemma ha_group_reads_back:
  "reads_back de_ha_group ser_ha_group ha_group_fits
     [''group'', ''nodes'', ''type'', ''comment'', ''nofailback'', ''restricted'']"
  unfolding de_ha_group_def
  by (rule reads_backI[OF _ ha_group_roundtrip[unfolded de_ha_group_def]])
    ((intro reads_members; simp) | simp add: ser_ha_group_def)+

lemma snapshot_entry_reads_back:
  "reads_back de_snapshot_entry ser_snapshot_entry snapshot_entry_fits
     [''name'', ''description'', ''snaptime'', ''vmstate'', ''parent'']"
  unfolding de_snapshot_entry_def
  by (rule reads_backI[OF _ snapshot_entry_roundtrip[unfolded de_snapshot_entry_def]])
    ((intro reads_members; simp) | simp add: ser_snapshot_entry_def)+

lemma backup_entry_reads_back:
  "reads_back de_backup_entry ser_backup_entry backup_entry_fits
     [''volid'', ''storage'', ''filename'', ''size'', ''format'', ''ctime'', ''notes'']"
  unfolding de_backup_entry_def
  by (rule reads_backI[OF _ backup_entry_roundtrip[unfolded de_backup_entry_def]])
    ((intro reads_members; simp) | simp add: ser_backup_entry_def)+

lemma upload_response_reads_back:
  "reads_back de_upload_response ser_upload_response (\<lambda>_. True)
     [''volid'', ''msg'']"
  unfolding de_upload_response_def
  by (rule reads_backI[OF _ upload_response_roundtrip[unfolded de_upload_response_def]])
    ((intro reads_members; simp) | simp add: ser_upload_response_def)+

lemma rrd_data_entry_reads_back:
  "reads_back (de_rrd_data_entry F) (ser_rrd_data_entry F) (rrd_data_entry_fits F)
     [''time'', ''cpu'', ''mem'', ''maxmem'', ''disk'', ''maxdisk'', ''netin'', ''netout'', ''diskread'',
      ''diskwrite'']"
  unfolding de_rrd_data_entry_def
  by (rule reads_backI[OF _ rrd_data_entry_roundtrip[unfolded de_rrd_data_entry_def]])
    ((intro reads_members; simp) | simp add: ser_rrd_data_entry_def)+

lemma task_log_entry_reads_back:
  "reads_back de_task_log_entry ser_task_log_entry task_log_entry_fits
     [''line'', ''t'', ''msg'']"
  unfolding de_task_log_entry_def
  by (rule reads_backI[OF _ task_log_entry_roundtrip[unfolded de_task_log_entry_def]])
    ((intro reads_members; simp) | simp add: ser_task_log_entry_def)+

lemma cluster_status_entry_reads_back:
  "reads_back de_cluster_status_entry ser_cluster_status_entry cluster_status_entry_fits
     [''quorate'', ''name'', ''version'', ''nodes'', ''quorum'', ''flags'']"
  unfolding de_cluster_status_entry_def
  by (rule reads_backI[OF _ cluster_status_entry_roundtrip[unfolded de_cluster_status_entry_def]])
    ((intro reads_members; simp) | simp add: ser_cluster_status_entry_def)+

lemma cluster_config_info_reads_back:
  "reads_back de_cluster_config_info ser_cluster_config_info cluster_config_info_fits
     [''cluster'', ''cluster_network'', ''cluster_limit_netfilter'', ''ha_enabled'', ''ha_mode'',
      ''type'', ''autostop_after'', ''migrate_speed'', ''migrate_downtime'']"
  unfolding de_cluster_config_info_def
  by (rule reads_backI[OF _ cluster_config_info_roundtrip[unfolded de_cluster_config_info_def]])
    ((intro reads_members; simp) | simp add: ser_cluster_config_info_def)+

lemma cluster_options_reads_back:
  "reads_back de_cluster_options ser_cluster_options cluster_options_fits
     [''mac_prefix'', ''console_viewer'', ''language'', ''keyboard'', ''email_from'', ''migration_type'',
      ''migration_unsecure'', ''userpw_change_min_age'', ''userpw_change_max_age'', ''bwlimit_default'',
      ''max_workers'', ''ha_autostart_delay'', ''crs_ha'', ''next_id'', ''http_proxy'', ''console_https'',
      ''max_vmid'', ''min_vmid'', ''proxy_users'', ''users_group'', ''group_blacklist'']"
  unfolding de_cluster_options_def
  by (rule reads_backI[OF _ cluster_options_roundtrip[unfolded de_cluster_options_def]])
    ((intro reads_members; simp) | simp add: ser_cluster_options_def)+

lemma cluster_log_entry_reads_back:
  "reads_back de_cluster_log_entry ser_cluster_log_entry cluster_log_entry_fits
     [''time'', ''msg'', ''node'', ''tag'', ''pri'']"
  unfolding de_cluster_log_entry_def
  by (rule reads_backI[OF _ cluster_log_entry_roundtrip[unfolded de_cluster_log_entry_def]])
    ((intro reads_members; simp) | simp add: ser_cluster_log_entry_def)+

lemma cluster_task_reads_back:
  "reads_back de_cluster_task ser_cluster_task cluster_task_fits
     [''upid'', ''node'', ''pid'', ''pstart'', ''starttime'', ''endtime'', ''status'', ''type'',
      ''user'', ''id'']"
  unfolding de_cluster_task_def
  by (rule reads_backI[OF _ cluster_task_roundtrip[unfolded de_cluster_task_def]])
    ((intro reads_members; simp) | simp add: ser_cluster_task_def)+

section \<open>The round trip\<close>



end
