(* ===== verification/Vm_Api.thy ===== *)
theory Vm_Api
  imports Handlers
begin

text \<open>
  The virtual machine endpoints (\<open>src/api/vms.rs\<close>): one definition per handler, over the fleet of
  clients. \<open>vm_write\<close> collects the handlers that check the operator role, as the router registers
  them. \<open>str::to_lowercase\<close> (Unicode) is the parameter \<open>lower\<close>; results the handlers pass through
  unread stay JSON values.
\<close>

section \<open>Requests and replies\<close>

record vms_query =
  vq_search :: "string option"

record vm_row =
  vm_cluster :: string
  vm_vmid :: nat
  vm_name :: string
  vm_node :: string
  vm_status :: string
  vm_cpu :: "f64_bits option"
  vm_cpus :: "f64_bits option"
  vm_mem :: "nat option"
  vm_maxmem :: "nat option"
  vm_uptime :: "nat option"
  vm_tags :: "string option"

definition vm_row_of :: "string \<Rightarrow> vm_resource \<Rightarrow> vm_row" where
  "vm_row_of cluster r = \<lparr> vm_cluster = cluster, vm_vmid = vr_vmid r, vm_name = vr_name r,
     vm_node = vr_node r, vm_status = vr_status r, vm_cpu = vr_cpu r, vm_cpus = vr_cpus r,
     vm_mem = vr_mem r, vm_maxmem = vr_maxmem r, vm_uptime = vr_uptime r, vm_tags = vr_tags r \<rparr>"

record vms_response =
  vs_vms :: "vm_row list"
  vs_errors :: "(string, string) hmap"

record vm_action_response =
  va_vmid :: nat
  va_action :: string
  va_upid :: string

record delete_vm_request =
  dv_purge :: bool
  dv_force :: bool
  dv_skiplock :: bool

definition delete_vm_defaults :: delete_vm_request where
  "delete_vm_defaults = \<lparr> dv_purge = False, dv_force = False, dv_skiplock = False \<rparr>"

record migrate_request =
  mg_target :: string
  mg_online :: bool

text \<open>The body as \<open>serde\<close> reads it: a missing \<open>online\<close> is true.\<close>

definition migrate_body :: "string \<Rightarrow> bool option \<Rightarrow> migrate_request" where
  "migrate_body target online =
     \<lparr> mg_target = target, mg_online = (case online of None \<Rightarrow> True | Some b \<Rightarrow> b) \<rparr>"

record bulk_vm_ref =
  bv_cluster :: string
  bv_node :: string
  bv_vmid :: nat

record bulk_result_row =
  br_cluster :: string
  br_node :: string
  br_vmid :: nat
  br_action :: string
  br_status :: string
  br_message :: string

text \<open>The query as \<open>serde\<close> reads it: a missing timeframe is one hour.\<close>

definition default_timeframe :: string where "default_timeframe = ''hour''"

definition rrd_timeframe :: "string option \<Rightarrow> string" where
  "rrd_timeframe q = (case q of None \<Rightarrow> default_timeframe | Some t \<Rightarrow> t)"

section \<open>Reading\<close>

definition search_filter :: "(string \<Rightarrow> string) \<Rightarrow> string option \<Rightarrow> vm_row list \<Rightarrow> vm_row list" where
  "search_filter lower search rows =
     (case search of None \<Rightarrow> rows
      | Some s \<Rightarrow> filter (\<lambda>row. contains_str (lower s) (lower (vm_name row))) rows)"

definition list_vms :: "'w px_env \<Rightarrow> (string \<Rightarrow> (string, vm_resource list) result) \<Rightarrow> (string \<Rightarrow> string)
    \<Rightarrow> nat list \<Rightarrow> vms_query \<Rightarrow> 'w fleet \<Rightarrow> vms_response \<times> 'w fleet" where
  "list_vms env dec lower order query st =
     (let ((vms, errors), st') = list_endpoint order (px_list_vms env dec) (\<lambda>name. map (vm_row_of name)) st
      in (\<lparr> vs_vms = search_filter lower (vq_search query) vms, vs_errors = errors \<rparr>, st'))"

definition vm_detail :: "'w px_env \<Rightarrow> (string \<Rightarrow> (string, vm_resource list) result) \<Rightarrow> string \<Rightarrow> nat
    \<Rightarrow> ('w, vm_row) fleet_op" where
  "vm_detail env dec cluster vmid st =
     (let (r, st') = on_cluster cluster (px_list_vms env dec) st in
      (rbind r (\<lambda>vms. ok_or (NotFound (''VM '' @ show_nat vmid @ '' not found in '' @ cluster))
                    (map_option (vm_row_of cluster) (find (\<lambda>v. vr_vmid v = vmid) vms))), st'))"

definition vm_config_handler :: "'w px_env \<Rightarrow> (string \<Rightarrow> (string, json) result) \<Rightarrow> string \<Rightarrow> string \<Rightarrow> nat
    \<Rightarrow> ('w, json) fleet_op" where
  "vm_config_handler env dec cluster node vmid = on_cluster cluster (px_vm_config env dec node vmid)"

definition vm_rrddata_handler :: "'w px_env \<Rightarrow> (string \<Rightarrow> (string, json) result) \<Rightarrow> string \<Rightarrow> string \<Rightarrow> nat
    \<Rightarrow> string option \<Rightarrow> ('w, json) fleet_op" where
  "vm_rrddata_handler env dec cluster node vmid timeframe =
     on_cluster cluster
       (px_get env dec (''nodes/'' @ node @ ''/qemu/'' @ show_nat vmid @ ''/rrddata?timeframe='' @ rrd_timeframe timeframe))"

section \<open>Actions\<close>

definition action_reply :: "nat \<Rightarrow> string \<Rightarrow> string \<Rightarrow> vm_action_response" where
  "action_reply vmid action upid = \<lparr> va_vmid = vmid, va_action = action, va_upid = upid \<rparr>"

definition status_path :: "string \<Rightarrow> nat \<Rightarrow> string \<Rightarrow> string" where
  "status_path node vmid action = ''nodes/'' @ node @ ''/qemu/'' @ show_nat vmid @ ''/status/'' @ action"

definition vm_action :: "'w px_env \<Rightarrow> string \<Rightarrow> string \<Rightarrow> nat \<Rightarrow> string \<Rightarrow> ('w, vm_action_response) fleet_op" where
  "vm_action env cluster node vmid action st =
     map_reply (action_reply vmid action)
       (on_cluster cluster (px_post env (pe_string env) (status_path node vmid action)) st)"

definition vm_delete :: "'w px_env \<Rightarrow> string \<Rightarrow> string \<Rightarrow> nat \<Rightarrow> delete_vm_request \<Rightarrow> ('w, vm_action_response) fleet_op" where
  "vm_delete env cluster node vmid opts st =
     map_reply (action_reply vmid ''delete'')
       (on_cluster cluster (px_delete_vm env node vmid (dv_purge opts) (dv_force opts) (dv_skiplock opts)) st)"

definition vm_actions :: "string list" where
  "vm_actions = [''start'', ''stop'', ''shutdown'', ''reboot'', ''reset'', ''suspend'', ''resume'']"

definition vm_action_handler :: "'w px_env \<Rightarrow> auth_context \<Rightarrow> string \<Rightarrow> string \<Rightarrow> nat \<Rightarrow> string
    \<Rightarrow> delete_vm_request option \<Rightarrow> ('w, vm_action_response) fleet_op" where
  "vm_action_handler env auth cluster node vmid action body =
     operator_gate env auth (\<lambda>st.
       if List.member vm_actions action then vm_action env cluster node vmid action st
       else if action = ''delete''
       then vm_delete env cluster node vmid (case body of None \<Rightarrow> delete_vm_defaults | Some b \<Rightarrow> b) st
       else (Err (BadRequest (''unknown action '' @ quoted action
               @ ''; expected start|stop|shutdown|reboot|reset|suspend|resume|delete'')), st))"

definition migrate_vm_handler :: "'w px_env \<Rightarrow> auth_context \<Rightarrow> string \<Rightarrow> string \<Rightarrow> nat \<Rightarrow> migrate_request
    \<Rightarrow> ('w, vm_action_response) fleet_op" where
  "migrate_vm_handler env auth cluster node vmid body =
     operator_gate env auth (\<lambda>st. map_reply (action_reply vmid ''migrate'')
       (on_cluster cluster (px_migrate_vm env node vmid (mg_target body) (mg_online body)) st))"

section \<open>Bulk actions\<close>

definition bulk_row :: "bulk_vm_ref \<Rightarrow> string \<Rightarrow> (string, string) result \<Rightarrow> bulk_result_row" where
  "bulk_row vm action r =
     \<lparr> br_cluster = bv_cluster vm, br_node = bv_node vm, br_vmid = bv_vmid vm, br_action = action,
       br_status = (case r of Inl _ \<Rightarrow> ''error'' | Inr _ \<Rightarrow> ''ok''),
       br_message = (case r of Inl msg \<Rightarrow> msg | Inr upid \<Rightarrow> upid) \<rparr>"

text \<open>One future of a bulk action; an unconfigured cluster is reported without the prefix of 404 errors.\<close>

definition bulk_one :: "string \<Rightarrow> (bulk_vm_ref \<Rightarrow> ('w, string) px) \<Rightarrow> bulk_vm_ref
    \<Rightarrow> 'w fleet \<Rightarrow> bulk_result_row \<times> 'w fleet" where
  "bulk_one action f vm st =
     (case client_index (bv_cluster vm) (fst st) of
        None \<Rightarrow> (bulk_row vm action (Err (not_configured (bv_cluster vm))), st)
      | Some i \<Rightarrow> (let (r, st') = at_client i (f vm) st in (bulk_row vm action (map_err display_error r), st')))"

definition bulk_action :: "'w px_env \<Rightarrow> nat list \<Rightarrow> string \<Rightarrow> bulk_vm_ref list
    \<Rightarrow> 'w fleet \<Rightarrow> bulk_result_row list \<times> 'w fleet" where
  "bulk_action env order action vms =
     join_all order (length vms) (\<lambda>k. bulk_one action
       (\<lambda>vm. px_post env (pe_string env) (status_path (bv_node vm) (bv_vmid vm) action)) (vms ! k))"

definition bulk_delete_all :: "'w px_env \<Rightarrow> nat list \<Rightarrow> bulk_vm_ref list
    \<Rightarrow> 'w fleet \<Rightarrow> bulk_result_row list \<times> 'w fleet" where
  "bulk_delete_all env order vms =
     join_all order (length vms) (\<lambda>k. bulk_one ''delete''
       (\<lambda>vm. px_delete_vm env (bv_node vm) (bv_vmid vm) False False False) (vms ! k))"

definition always_ok :: "('w fleet \<Rightarrow> 'a \<times> 'w fleet) \<Rightarrow> ('w, 'a) fleet_op" where
  "always_ok f st = (let (x, st') = f st in (Ok x, st'))"

definition bulk_start :: "'w px_env \<Rightarrow> nat list \<Rightarrow> auth_context \<Rightarrow> bulk_vm_ref list \<Rightarrow> ('w, bulk_result_row list) fleet_op" where
  "bulk_start env order auth vms = operator_gate env auth (always_ok (bulk_action env order ''start'' vms))"

definition bulk_stop :: "'w px_env \<Rightarrow> nat list \<Rightarrow> auth_context \<Rightarrow> bulk_vm_ref list \<Rightarrow> ('w, bulk_result_row list) fleet_op" where
  "bulk_stop env order auth vms = operator_gate env auth (always_ok (bulk_action env order ''stop'' vms))"

definition bulk_reboot :: "'w px_env \<Rightarrow> nat list \<Rightarrow> auth_context \<Rightarrow> bulk_vm_ref list \<Rightarrow> ('w, bulk_result_row list) fleet_op" where
  "bulk_reboot env order auth vms = operator_gate env auth (always_ok (bulk_action env order ''reboot'' vms))"

definition bulk_delete :: "'w px_env \<Rightarrow> nat list \<Rightarrow> auth_context \<Rightarrow> bulk_vm_ref list \<Rightarrow> ('w, bulk_result_row list) fleet_op" where
  "bulk_delete env order auth vms = operator_gate env auth (always_ok (bulk_delete_all env order vms))"

section \<open>Creation, configuration, snapshots and backups\<close>

definition create_vm_handler :: "'w px_env \<Rightarrow> auth_context \<Rightarrow> string \<Rightarrow> string \<Rightarrow> create_vm_request \<Rightarrow> ('w, json) fleet_op" where
  "create_vm_handler env auth cluster node body =
     operator_gate env auth (\<lambda>st. map_reply (\<lambda>upid. JObj [(''vmid_str'', JStr upid), (''node'', JStr node), (''cluster'', JStr cluster)])
       (on_cluster cluster (px_create_vm env node (create_vm_params body)) st))"

definition clone_vm_handler :: "'w px_env \<Rightarrow> auth_context \<Rightarrow> string \<Rightarrow> string \<Rightarrow> nat \<Rightarrow> clone_vm_request \<Rightarrow> ('w, json) fleet_op" where
  "clone_vm_handler env auth cluster node vmid body =
     operator_gate env auth (\<lambda>st. map_reply (\<lambda>upid. JObj [(''vmid'', JNum vmid), (''newid'', JNum (cw_newid body)), (''upid'', JStr upid), (''cluster'', JStr cluster)])
       (on_cluster cluster (px_clone_vm env node vmid (clone_vm_params body)) st))"

definition update_vm_config_handler :: "'w px_env \<Rightarrow> auth_context \<Rightarrow> string \<Rightarrow> string \<Rightarrow> nat \<Rightarrow> update_vm_config_request \<Rightarrow> ('w, json) fleet_op" where
  "update_vm_config_handler env auth cluster node vmid body =
     operator_gate env auth (\<lambda>st. map_reply (\<lambda>upid. JObj [(''vmid'', JNum vmid), (''upid'', JStr upid), (''cluster'', JStr cluster)])
       (on_cluster cluster (px_update_vm_config env node vmid (update_vm_config_params body)) st))"

definition list_snapshots_handler :: "'w px_env \<Rightarrow> (string \<Rightarrow> (string, json) result) \<Rightarrow> auth_context \<Rightarrow> string \<Rightarrow> string
    \<Rightarrow> nat \<Rightarrow> ('w, json) fleet_op" where
  "list_snapshots_handler env dec auth cluster node vmid =
     operator_gate env auth (\<lambda>st. map_reply (\<lambda>snaps. JObj [(''snapshots'', snaps)])
       (on_cluster cluster (px_list_snapshots env dec node vmid) st))"

definition create_snapshot_params :: "create_snapshot_request \<Rightarrow> params" where
  "create_snapshot_params body =
     [(''snapname'', cs_snapname body), (''vmstate'', bit01 (cs_vmstate body))]
     @ opt_str ''description'' (cs_description body)"

definition create_snapshot_handler :: "'w px_env \<Rightarrow> auth_context \<Rightarrow> string \<Rightarrow> string \<Rightarrow> nat \<Rightarrow> create_snapshot_request \<Rightarrow> ('w, json) fleet_op" where
  "create_snapshot_handler env auth cluster node vmid body =
     operator_gate env auth (\<lambda>st. map_reply (\<lambda>upid. JObj [(''vmid'', JNum vmid), (''snapname'', JStr (cs_snapname body)), (''upid'', JStr upid), (''cluster'', JStr cluster)])
       (on_cluster cluster (px_create_snapshot env node vmid (create_snapshot_params body)) st))"

definition delete_snapshot_handler :: "'w px_env \<Rightarrow> auth_context \<Rightarrow> string \<Rightarrow> string \<Rightarrow> nat \<Rightarrow> string \<Rightarrow> delete_snapshot_request option \<Rightarrow> ('w, json) fleet_op" where
  "delete_snapshot_handler env auth cluster node vmid snapname body =
     operator_gate env auth (\<lambda>st. map_reply (\<lambda>upid. JObj [(''vmid'', JNum vmid), (''snapname'', JStr snapname), (''upid'', JStr upid), (''cluster'', JStr cluster)])
       (on_cluster cluster (px_delete_snapshot env node vmid snapname
          (case body of None \<Rightarrow> False | Some b \<Rightarrow> ds_force b)) st))"

definition rollback_snapshot_handler :: "'w px_env \<Rightarrow> auth_context \<Rightarrow> string \<Rightarrow> string \<Rightarrow> nat \<Rightarrow> string \<Rightarrow> ('w, json) fleet_op" where
  "rollback_snapshot_handler env auth cluster node vmid snapname =
     operator_gate env auth (\<lambda>st. map_reply (\<lambda>upid. JObj [(''vmid'', JNum vmid), (''snapname'', JStr snapname), (''upid'', JStr upid), (''cluster'', JStr cluster)])
       (on_cluster cluster (px_rollback_snapshot env node vmid snapname) st))"

definition backup_vm_handler :: "'w px_env \<Rightarrow> auth_context \<Rightarrow> string \<Rightarrow> string \<Rightarrow> nat \<Rightarrow> backup_vm_request \<Rightarrow> ('w, json) fleet_op" where
  "backup_vm_handler env auth cluster node vmid body =
     operator_gate env auth (\<lambda>st. map_reply (\<lambda>upid. JObj [(''vmid'', JNum vmid), (''upid'', JStr upid), (''cluster'', JStr cluster)])
       (on_cluster cluster (px_backup_vm env node vmid (backup_vm_params body)) st))"

definition list_backups_handler :: "'w px_env \<Rightarrow> (string \<Rightarrow> (string, storage_resource list) result)
    \<Rightarrow> (string \<Rightarrow> (string, storage_content_entry list) result) \<Rightarrow> auth_context \<Rightarrow> string \<Rightarrow> string
    \<Rightarrow> nat \<Rightarrow> ('w, backup_entry list) fleet_op" where
  "list_backups_handler env dec_storages dec_content auth cluster node vmid =
     operator_gate env auth (on_cluster cluster (px_list_backups env dec_storages dec_content node vmid))"

definition resize_disk_handler :: "'w px_env \<Rightarrow> auth_context \<Rightarrow> string \<Rightarrow> string \<Rightarrow> nat \<Rightarrow> resize_disk_request \<Rightarrow> ('w, json) fleet_op" where
  "resize_disk_handler env auth cluster node vmid body =
     operator_gate env auth (\<lambda>st. map_reply (\<lambda>upid. JObj [(''vmid'', JNum vmid), (''disk'', JStr (rd_disk body)), (''size'', JStr (rd_size body)), (''upid'', JStr upid), (''cluster'', JStr cluster)])
       (on_cluster cluster (px_resize_disk env node vmid (rd_disk body) (rd_size body)) st))"

definition vm_template_handler :: "'w px_env \<Rightarrow> auth_context \<Rightarrow> string \<Rightarrow> string \<Rightarrow> nat \<Rightarrow> ('w, vm_action_response) fleet_op" where
  "vm_template_handler env auth cluster node vmid =
     operator_gate env auth (\<lambda>st. map_reply (action_reply vmid ''template'')
       (on_cluster cluster (px_post env (pe_string env) (''nodes/'' @ node @ ''/qemu/'' @ show_nat vmid @ ''/template'')) st))"

definition vm_sendkey_handler :: "'w px_env \<Rightarrow> auth_context \<Rightarrow> string \<Rightarrow> string \<Rightarrow> nat \<Rightarrow> string \<Rightarrow> ('w, vm_action_response) fleet_op" where
  "vm_sendkey_handler env auth cluster node vmid key =
     operator_gate env auth (\<lambda>st. map_reply (action_reply vmid ''sendkey'')
       (on_cluster cluster (post_with_query env (pe_string env) (''nodes/'' @ node @ ''/qemu/'' @ show_nat vmid @ ''/sendkey'')
          [(''key'', key)]) st))"

section \<open>The routes that check the operator role\<close>

datatype vm_request =
    ActionOn string string nat string "delete_vm_request option"
  | Migrate string string nat migrate_request
  | Create string string create_vm_request
  | Clone string string nat clone_vm_request
  | Configure string string nat update_vm_config_request
  | Snapshots string string nat
  | Snapshot string string nat create_snapshot_request
  | DropSnapshot string string nat string "delete_snapshot_request option"
  | Rollback string string nat string
  | Backup string string nat backup_vm_request
  | Backups string string nat
  | ResizeDisk string string nat resize_disk_request
  | Template string string nat
  | Sendkey string string nat string
  | BulkStart "bulk_vm_ref list"
  | BulkStop "bulk_vm_ref list"
  | BulkReboot "bulk_vm_ref list"
  | BulkDelete "bulk_vm_ref list"

datatype vm_reply =
    ActionReply vm_action_response
  | ValueReply json
  | BackupsReply "backup_entry list"
  | BulkReply "bulk_result_row list"

text \<open>The decoders of the structured results.\<close>

record decoders =
  dc_value :: "string \<Rightarrow> (string, json) result"
  dc_storages :: "string \<Rightarrow> (string, storage_resource list) result"
  dc_content :: "string \<Rightarrow> (string, storage_content_entry list) result"

fun vm_serve :: "decoders \<Rightarrow> nat list \<Rightarrow> auth_context \<Rightarrow> vm_request \<Rightarrow> 'w px_env \<Rightarrow> ('w, vm_reply) fleet_op" where
  "vm_serve d order auth (ActionOn cl node vmid action body) env st =
     map_reply ActionReply (vm_action_handler env auth cl node vmid action body st)"
| "vm_serve d order auth (Migrate cl node vmid body) env st =
     map_reply ActionReply (migrate_vm_handler env auth cl node vmid body st)"
| "vm_serve d order auth (Create cl node body) env st =
     map_reply ValueReply (create_vm_handler env auth cl node body st)"
| "vm_serve d order auth (Clone cl node vmid body) env st =
     map_reply ValueReply (clone_vm_handler env auth cl node vmid body st)"
| "vm_serve d order auth (Configure cl node vmid body) env st =
     map_reply ValueReply (update_vm_config_handler env auth cl node vmid body st)"
| "vm_serve d order auth (Snapshots cl node vmid) env st =
     map_reply ValueReply (list_snapshots_handler env (dc_value d) auth cl node vmid st)"
| "vm_serve d order auth (Snapshot cl node vmid body) env st =
     map_reply ValueReply (create_snapshot_handler env auth cl node vmid body st)"
| "vm_serve d order auth (DropSnapshot cl node vmid snapname body) env st =
     map_reply ValueReply (delete_snapshot_handler env auth cl node vmid snapname body st)"
| "vm_serve d order auth (Rollback cl node vmid snapname) env st =
     map_reply ValueReply (rollback_snapshot_handler env auth cl node vmid snapname st)"
| "vm_serve d order auth (Backup cl node vmid body) env st =
     map_reply ValueReply (backup_vm_handler env auth cl node vmid body st)"
| "vm_serve d order auth (Backups cl node vmid) env st =
     map_reply BackupsReply (list_backups_handler env (dc_storages d) (dc_content d) auth cl node vmid st)"
| "vm_serve d order auth (ResizeDisk cl node vmid body) env st =
     map_reply ValueReply (resize_disk_handler env auth cl node vmid body st)"
| "vm_serve d order auth (Template cl node vmid) env st =
     map_reply ActionReply (vm_template_handler env auth cl node vmid st)"
| "vm_serve d order auth (Sendkey cl node vmid key) env st =
     map_reply ActionReply (vm_sendkey_handler env auth cl node vmid key st)"
| "vm_serve d order auth (BulkStart vms) env st = map_reply BulkReply (bulk_start env order auth vms st)"
| "vm_serve d order auth (BulkStop vms) env st = map_reply BulkReply (bulk_stop env order auth vms st)"
| "vm_serve d order auth (BulkReboot vms) env st = map_reply BulkReply (bulk_reboot env order auth vms st)"
| "vm_serve d order auth (BulkDelete vms) env st = map_reply BulkReply (bulk_delete env order auth vms st)"

text \<open>The cluster a single-machine request names in its path.\<close>

fun cluster_of :: "vm_request \<Rightarrow> string option" where
  "cluster_of (ActionOn cl _ _ _ _) = Some cl" | "cluster_of (Migrate cl _ _ _) = Some cl"
| "cluster_of (Create cl _ _) = Some cl" | "cluster_of (Clone cl _ _ _) = Some cl"
| "cluster_of (Configure cl _ _ _) = Some cl" | "cluster_of (Snapshots cl _ _) = Some cl"
| "cluster_of (Snapshot cl _ _ _) = Some cl" | "cluster_of (DropSnapshot cl _ _ _ _) = Some cl"
| "cluster_of (Rollback cl _ _ _) = Some cl" | "cluster_of (Backup cl _ _ _) = Some cl"
| "cluster_of (Backups cl _ _) = Some cl" | "cluster_of (ResizeDisk cl _ _ _) = Some cl"
| "cluster_of (Template cl _ _) = Some cl" | "cluster_of (Sendkey cl _ _ _) = Some cl"
| "cluster_of _ = None"

section \<open>Lemmas\<close>

lemmas vm_handler_defs = vm_action_handler_def migrate_vm_handler_def create_vm_handler_def
  clone_vm_handler_def update_vm_config_handler_def list_snapshots_handler_def
  create_snapshot_handler_def delete_snapshot_handler_def rollback_snapshot_handler_def
  backup_vm_handler_def list_backups_handler_def resize_disk_handler_def vm_template_handler_def
  vm_sendkey_handler_def bulk_start_def bulk_stop_def bulk_reboot_def bulk_delete_def
  vm_action_def vm_delete_def

lemma plain_requests:
  "within cl (vm_serve d order auth (Migrate cl node vmid mig))"
  "within cl (vm_serve d order auth (Create cl node cre))"
  "within cl (vm_serve d order auth (Clone cl node vmid clo))"
  "within cl (vm_serve d order auth (Configure cl node vmid con))"
  "within cl (vm_serve d order auth (Snapshots cl node vmid))"
  "within cl (vm_serve d order auth (Snapshot cl node vmid sna))"
  "within cl (vm_serve d order auth (DropSnapshot cl node vmid snapname dro))"
  "within cl (vm_serve d order auth (Rollback cl node vmid snapname))"
  "within cl (vm_serve d order auth (Backup cl node vmid bac))"
  "within cl (vm_serve d order auth (ResizeDisk cl node vmid res))"
  "within cl (vm_serve d order auth (Template cl node vmid))"
  "within cl (vm_serve d order auth (Sendkey cl node vmid key))"
  unfolding vm_serve.simps vm_handler_defs
  by (rule within_map_reply[OF within_gate[OF within_map_reply[OF within_on_cluster]]], rule client_calls)+

lemma vm_serve_within:
  assumes "cluster_of req = Some cl"
  shows "within cl (vm_serve d order auth req)"
proof (cases req)
  case (ActionOn cl' node vmid action body)
  have "within cl' (\<lambda>env st. if List.member vm_actions action then vm_action env cl' node vmid action st
      else if action = ''delete'' then vm_delete env cl' node vmid (case body of None \<Rightarrow> delete_vm_defaults | Some b \<Rightarrow> b) st
      else (Inl (BadRequest (''unknown action '' @ quoted action
               @ ''; expected start|stop|shutdown|reboot|reset|suspend|resume|delete'')), st))"
    unfolding vm_action_def vm_delete_def
    by (intro within_if within_map_reply within_on_cluster within_refuse client_calls)
  then have "within cl' (\<lambda>env. vm_serve d order auth (ActionOn cl' node vmid action body) env)"
    by (rule within_ext[OF within_map_reply[OF within_gate]]) (simp add: vm_action_handler_def)
  then show ?thesis using ActionOn assms by simp
next
  case (Backups cl' node vmid)
  have "within cl' (\<lambda>env. vm_serve d order auth (Backups cl' node vmid) env)"
    by (rule within_ext[OF within_map_reply[OF within_gate[OF within_on_cluster[OF px_list_backups_call]]]])
      (simp add: list_backups_handler_def)
  then show ?thesis using Backups assms by simp
qed (use assms in \<open>auto intro: plain_requests\<close>)

lemma vm_serve_gated:
  assumes "\<nexists>r. to_ascii_lowercase (cl_role (ac_claims auth)) = role_as_str r \<and> Operator \<le> r"
  shows "vm_serve d order auth req env st = (Inl (Forbidden ''operator role required''), st)"
proof -
  have gate: "operator_gate env auth k st = (Inl (Forbidden ''operator role required''), st)"
    for k :: "('w, 'b) fleet_op" and env st
    unfolding operator_gate_def by (rule role_gate_refused[OF assms])
  show ?thesis by (cases req) (simp_all add: vm_handler_defs gate)
qed

lemma bulk_one_row: "bulk_one action f vm st = (row, st') \<Longrightarrow>
    br_cluster row = bv_cluster vm \<and> br_node row = bv_node vm \<and> br_vmid row = bv_vmid vm
    \<and> br_action row = action \<and> br_status row \<in> {''ok'', ''error''}
    \<and> (bv_cluster vm \<notin> px_name ` set (fst st) \<longrightarrow>
         br_status row = ''error'' \<and> br_message row = not_configured (bv_cluster vm) \<and> st' = st)"
  by (auto simp: bulk_one_def bulk_row_def client_index_None[symmetric] split: option.splits prod.splits sum.splits)

lemma bulk_one_configs:
  assumes "client_call g" "bulk_one action (\<lambda>vm. g env) vm (cs, w) = (row, cs', w')"
  shows "map pc_config cs' = map pc_config cs"
  using assms(2) client_call.at_client_configs[OF assms(1)]
  by (auto simp: bulk_one_def split: option.splits prod.splits)

text \<open>The rows of a bulk action, for any order in which its futures run.\<close>

lemma bulk_rows:
  fixes env :: "'w px_env"
  assumes "mset order = mset [0..<length vms]" "\<And>vm. client_call (g vm)"
    and "join_all order (length vms) (\<lambda>k. bulk_one action (\<lambda>vm. g vm env) (vms ! k)) (cs, w) = (rows, st')"
  shows "length rows = length vms \<and> (\<forall>k<length vms.
      br_cluster (rows ! k) = bv_cluster (vms ! k) \<and> br_node (rows ! k) = bv_node (vms ! k)
      \<and> br_vmid (rows ! k) = bv_vmid (vms ! k) \<and> br_action (rows ! k) = action
      \<and> br_status (rows ! k) \<in> {''ok'', ''error''}
      \<and> (bv_cluster (vms ! k) \<notin> px_name ` set cs \<longrightarrow>
           br_status (rows ! k) = ''error'' \<and> br_message (rows ! k) = not_configured (bv_cluster (vms ! k))))"
    (is "_ \<and> (\<forall>k<_. ?P k (rows ! k))")
proof -
  define I :: "'w fleet \<Rightarrow> nat set \<Rightarrow> bool" where "I = (\<lambda>st js. map pc_config (fst st) = map pc_config cs)"
  have names: "I st js \<Longrightarrow> px_name ` set (fst st) = px_name ` set cs" for st js
  proof -
    have "px_name ` X = cc_name ` pc_config ` X" for X by (simp add: px_name_def image_image)
    moreover assume "I st js"
    then have "pc_config ` set (fst st) = pc_config ` set cs" by (metis I_def image_set)
    ultimately show ?thesis by simp
  qed
  have step: "?P k r \<and> I s1 (js - {k})"
    if "I s js" "bulk_one action (\<lambda>vm. g vm env) (vms ! k) s = (r, s1)" for k s r s1 js
  proof
    show "?P k r" using bulk_one_row[OF that(2)] names[OF that(1)] by auto
    obtain c2 w2 c3 w3 where "s = (c2, w2)" "s1 = (c3, w3)" by fastforce
    then show "I s1 (js - {k})"
      using that bulk_one_configs[OF assms(2), of action "vms ! k" env "vms ! k" c2 w2 r c3 w3]
      by (simp add: I_def bulk_one_def)
  qed
  have "length rows = length vms \<and> (\<forall>k<length vms. ?P k (rows ! k)) \<and> I st' {}"
    by (rule join_all_outcomes[where I = I and P = ?P, OF assms(1) _ assms(3)])
      (simp add: I_def, rule step, assumption+)
  then show ?thesis by blast
qed

section \<open>Properties\<close>

text \<open>Operator gate: for every machine request that changes something (and the listing of snapshots and
  backups), a caller whose token does not carry the operator or admin role gets the 403 error, no
  call leaves the server and no client changes.\<close>

theorem vm_requests_need_operator:
  assumes "\<nexists>r. to_ascii_lowercase (cl_role (ac_claims auth)) = role_as_str r \<and> Operator \<le> r"
  shows "vm_serve d order auth req env st = (Err (Forbidden ''operator role required''), st)"
  by (rule vm_serve_gated[OF assms])

definition demo_decoders :: decoders where
  "demo_decoders = \<lparr> dc_value = (\<lambda>b. Inr (JStr b)), dc_storages = (\<lambda>b. Inr []), dc_content = (\<lambda>b. Inr []) \<rparr>"

theorem vm_requests_need_operator_witness:
  "vm_serve demo_decoders [] (demo_auth ''viewer'') (Rollback ''c1'' ''n1'' 100 ''s'') dead_env ([demo_client], 7)
     = (Err (Forbidden ''operator role required''), [demo_client], 7)"
  by (rule vm_requests_need_operator[OF no_operator[OF demo_viewer]])

text \<open>C14. Confinement of single-machine requests: a request that names a cluster leaves the clients of all
  other clusters alone, fails without any call when the cluster is not configured, and depends on
  the network only through calls to that cluster: with any other behaviour of the rest of the
  network it does the same.\<close>

theorem vm_request_confined:
  assumes "cluster_of req = Some cl"
  shows "vm_serve d order auth req env (cs, w) = (r, cs', w') \<longrightarrow>
      map pc_config cs' = map pc_config cs
      \<and> (\<forall>j. px_name (cs ! j) \<noteq> cl \<longrightarrow> cs' ! j = cs ! j)
      \<and> (cl \<notin> px_name ` set cs \<longrightarrow> (cs', w') = (cs, w) \<and> \<not> is_ok r)
      \<and> (\<forall>env'. (\<forall>c\<in>set cs. px_name c = cl \<longrightarrow> same_to (px_host c) env env')
           \<longrightarrow> vm_serve d order auth req env' (cs, w) = (r, cs', w'))"
  using vm_serve_within[OF assms, of d order auth] unfolding within_def stays_def Let_def
  by (metis fst_conv snd_conv)

theorem vm_request_confined_witness:
  "let (r, cs', w') = vm_serve demo_decoders [] (demo_auth ''operator'') (Rollback ''c9'' ''n1'' 100 ''s'') dead_env ([demo_client], 7)
   in cs' = [demo_client] \<and> w' = 7 \<and> \<not> is_ok r"
proof -
  obtain r cs' w' where run: "vm_serve demo_decoders [] (demo_auth ''operator'') (Rollback ''c9'' ''n1'' 100 ''s'')
      dead_env ([demo_client], 7) = (r, cs', w')" by (metis prod_cases3)
  have "''c9'' \<notin> px_name ` set [demo_client]" by (simp add: demo_client_def px_name_def)
  with vm_request_confined[of "Rollback ''c9'' ''n1'' 100 ''s''" "''c9''" demo_decoders "[]" "demo_auth ''operator''"
      dead_env "[demo_client]" 7 r cs' w'] run show ?thesis by simp
qed


definition demo_vms :: "bulk_vm_ref list" where
  "demo_vms = [\<lparr> bv_cluster = ''c1'', bv_node = ''n1'', bv_vmid = 100 \<rparr>, \<lparr> bv_cluster = ''c9'', bv_node = ''n1'', bv_vmid = 7 \<rparr>]"


text \<open>Listing survives failing clusters: whatever the order of the calls, every configured cluster
  contributes either all its machines, in the order of the configuration and then the search
  filter, or an entry in \<open>errors\<close> with the message of its failure, never both and never neither.\<close>

theorem list_vms_partial_failure:
  assumes "mset order = mset [0..<length cs]" "distinct (map px_name cs)"
    and "list_vms env dec lower order q (cs, w) = (resp, st')"
  shows "\<exists>os. length os = length cs \<and> (\<forall>i<length cs. \<exists>v. os ! i = fst (px_list_vms env dec (cs ! i, v)))
     \<and> vs_vms resp = search_filter lower (vq_search q) (concat (map (\<lambda>i.
          case os ! i of Inl _ \<Rightarrow> [] | Inr listed \<Rightarrow> map (vm_row_of (px_name (cs ! i))) listed) [0..<length cs]))
     \<and> (\<forall>i<length cs. hm_get (vs_errors resp) (px_name (cs ! i)) =
          (case os ! i of Inl e \<Rightarrow> Some (display_error e) | Inr _ \<Rightarrow> None))"
proof -
  obtain vms errs st2 where run: "list_endpoint order (px_list_vms env dec) (\<lambda>name. map (vm_row_of name)) (cs, w) = ((vms, errs), st2)"
    by (metis surj_pair)
  have call: "client_call (\<lambda>env. px_list_vms env dec)" by (rule client_calls)
  have resp: "resp = \<lparr> vs_vms = search_filter lower (vq_search q) vms, vs_errors = errs \<rparr>"
    using assms(3) run by (simp add: list_vms_def)
  show ?thesis using client_call.list_endpoint_outcomes[OF call assms(1,2) run] unfolding resp by auto
qed

theorem list_vms_partial_failure_witness:
  "\<exists>r v. r = fst (px_list_vms dead_env Inl (demo_client, v))
     \<and> hm_get (vs_errors (fst (list_vms dead_env Inl id [0] \<lparr> vq_search = None \<rparr> ([demo_client], 7)))) ''c1''
       = (case r of Inl e \<Rightarrow> Some (display_error e) | Inr _ \<Rightarrow> None)"
proof -
  obtain resp st' where run: "list_vms dead_env Inl id [0] \<lparr> vq_search = None \<rparr> ([demo_client], 7) = (resp, st')"
    by (metis surj_pair)
  from list_vms_partial_failure[of "[0]" "[demo_client]" dead_env Inl id "\<lparr> vq_search = None \<rparr>" 7 resp st'] run
  obtain os where "\<exists>v. os ! 0 = fst (px_list_vms dead_env Inl (demo_client, v))"
      "hm_get (vs_errors resp) (px_name demo_client) = (case os ! 0 of Inl e \<Rightarrow> Some (display_error e) | Inr _ \<Rightarrow> None)"
    by auto
  then show ?thesis using run by (auto simp: px_name_def demo_client_def)
qed

text \<open>The node of the path is pasted into the Proxmox URL unescaped: whatever POST target below
  \<open>nodes/\<close> an operator wants, some node name makes the whitelisted start action address it, the
  intended path reduced to a query string.\<close>

theorem node_segment_unescaped:
  "\<exists>node rest. \<forall>c. build_url c (status_path node vmid ''start'') = build_url c (''nodes/'' @ target) @ ''?'' @ rest"
proof (intro exI allI)
  fix c
  show "build_url c (status_path (target @ ''?'') vmid ''start'')
      = build_url c (''nodes/'' @ target) @ ''?'' @ (''/qemu/'' @ show_nat vmid @ ''/status/start'')"
    by (simp add: build_url_def status_path_def trim_start_def)
qed

end
