(* ===== verification/Audit_Store.thy ===== *)
theory Audit_Store
  imports App_Error
begin

text \<open>
  The audit log (\<open>src/audit/store.rs\<close>) and its query endpoint (\<open>src/api/audit.rs\<close>). The table is the list
  of its rows in insertion order; \<open>build_where\<close> yields the conditions it turns into SQL, and
  \<open>sat\<close>, the ordering and \<open>LIMIT\<close>/\<open>OFFSET\<close> are the meaning of that SQL. Unsigned 64-bit values are
  natural numbers with the wrap-around written out. \<open>db\<close> says whether SQLite accepts the statement.
\<close>

datatype audit_error = Sqlite string | Pool string | Pagination string

record audit_entry =
  ae_ts :: int
  ae_request_id :: string
  ae_method :: string
  ae_path :: string
  ae_status :: nat
  ae_duration_ms :: nat
  ae_remote_addr :: "string option"
  ae_user_agent :: "string option"
  ae_user_id :: "string option"

record audit_row =
  ar_id :: int
  ar_entry :: audit_entry

datatype sort_dir = Desc | Asc

record audit_query =
  aq_page :: nat
  aq_per_page :: nat
  aq_method :: "string option"
  aq_path :: "string option"
  aq_status :: "nat option"
  aq_from_ts :: "int option"
  aq_to_ts :: "int option"
  aq_request_id :: "string option"
  aq_sort_dir :: sort_dir

record audit_result =
  qr_entries :: "audit_row list"
  qr_total :: nat
  qr_page :: nat
  qr_per_page :: nat
  qr_pages :: nat

text \<open>The stored columns; the duration column is a signed 64-bit integer.\<close>

record audit_db =
  db_rows :: "(int \<times> audit_entry \<times> int) list"
  db_next :: int

definition empty_db :: audit_db where "empty_db = \<lparr> db_rows = [], db_next = 1 \<rparr>"

section \<open>Writing and reading rows\<close>

definition duration_to_i64 :: "nat \<Rightarrow> int" where
  "duration_to_i64 d = (if d < 2 ^ 63 then int d else i64_max)"

definition duration_of_i64 :: "int \<Rightarrow> nat" where "duration_of_i64 d = nat (max d 0)"

definition audit_log :: "(string, unit) result \<Rightarrow> audit_entry \<Rightarrow> audit_db
    \<Rightarrow> (audit_error, unit) result \<times> audit_db" where
  "audit_log db e s =
     (case db of
        Inl m \<Rightarrow> (Err (Sqlite m), s)
      | Inr _ \<Rightarrow> (Ok (), s \<lparr> db_rows := db_rows s @ [(db_next s, e, duration_to_i64 (ae_duration_ms e))],
                            db_next := db_next s + 1 \<rparr>))"

definition map_row :: "int \<times> audit_entry \<times> int \<Rightarrow> audit_row" where
  "map_row r = (case r of (i, e, d) \<Rightarrow>
     \<lparr> ar_id = i, ar_entry = e \<lparr> ae_duration_ms := duration_of_i64 d \<rparr> \<rparr>)"

section \<open>Conditions\<close>

datatype condition =
    OneEqOne
  | MethodEq string
  | PathInstr string
  | StatusEq nat
  | TsEq int
  | RequestIdEq string

definition opt_cond :: "('a \<Rightarrow> condition) \<Rightarrow> 'a option \<Rightarrow> condition list" where
  "opt_cond f x = (case x of None \<Rightarrow> [] | Some v \<Rightarrow> [f v])"

definition build_where :: "audit_query \<Rightarrow> condition list" where
  "build_where q = [OneEqOne]
     @ opt_cond MethodEq (aq_method q)
     @ opt_cond PathInstr (aq_path q)
     @ opt_cond StatusEq (aq_status q)
     @ opt_cond TsEq (aq_from_ts q)
     @ opt_cond TsEq (aq_to_ts q)
     @ opt_cond RequestIdEq (aq_request_id q)"

fun sat :: "condition \<Rightarrow> audit_entry \<Rightarrow> bool" where
  "sat OneEqOne e = True"
| "sat (MethodEq m) e = (ae_method e = m)"
| "sat (PathInstr p) e = contains_str p (ae_path e)"
| "sat (StatusEq n) e = (ae_status e = n)"
| "sat (TsEq t) e = (ae_ts e = t)"
| "sat (RequestIdEq r) e = (ae_request_id e = r)"

definition matches :: "audit_query \<Rightarrow> audit_entry \<Rightarrow> bool" where
  "matches q e = list_all (\<lambda>c. sat c e) (build_where q)"

section \<open>Queries\<close>

text \<open>\<open>ORDER BY ts dir, id dir\<close> on rows with distinct ids.\<close>

definition ordered :: "sort_dir \<Rightarrow> (int \<times> audit_entry \<times> int) list \<Rightarrow> (int \<times> audit_entry \<times> int) list" where
  "ordered dir rows =
     (let asc = sort_key (\<lambda>(i, e, d). ae_ts e) (sort_key (\<lambda>(i, e, d). i) rows)
      in case dir of Asc \<Rightarrow> asc | Desc \<Rightarrow> rev asc)"

definition u64_to_i64_or :: "nat \<Rightarrow> nat \<Rightarrow> nat" where
  "u64_to_i64_or dflt n = (if n < 2 ^ 63 then n else dflt)"

definition query_rows :: "audit_query \<Rightarrow> audit_db \<Rightarrow> (int \<times> audit_entry \<times> int) list" where
  "query_rows q s = ordered (aq_sort_dir q) (filter (\<lambda>(i, e, d). matches q e) (db_rows s))"

definition audit_query_run :: "(string, unit) result \<Rightarrow> audit_query \<Rightarrow> audit_db
    \<Rightarrow> (audit_error, audit_result) result" where
  "audit_query_run db q s =
     (if aq_page q = 0 then Err (Pagination (''page must be '' @ [CHR 0xE2, CHR 0x89, CHR 0xA5] @ '' 1''))
      else if aq_per_page q = 0 \<or> aq_per_page q > 500
      then Err (Pagination ''per_page must be between 1 and 500'')
      else
        (case db of
           Inl m \<Rightarrow> Err (Sqlite m)
         | Inr _ \<Rightarrow>
             let offset = ((aq_page q - 1) * aq_per_page q) mod 2 ^ 64;
                 total = length (filter (\<lambda>(i, e, d). matches q e) (db_rows s));
                 entries = map map_row (take (u64_to_i64_or 50 (aq_per_page q))
                             (drop (u64_to_i64_or 0 offset) (query_rows q s)));
                 pages = (if total = 0 then 0 else (total - 1) div aq_per_page q + 1)
             in Ok \<lparr> qr_entries = entries, qr_total = total, qr_page = aq_page q,
                     qr_per_page = aq_per_page q, qr_pages = pages \<rparr>))"

text \<open>Without an \<open>ORDER BY\<close>, SQLite may return any match; the model takes the first stored.\<close>

definition find_by_request_id :: "string \<Rightarrow> audit_db \<Rightarrow> audit_entry option" where
  "find_by_request_id rid s =
     map_option (\<lambda>r. ar_entry (map_row r)) (find (\<lambda>(i, e, d). ae_request_id e = rid) (db_rows s))"

section \<open>The endpoint\<close>

record audit_params =
  ap_page :: "nat option"
  ap_per_page :: "nat option"
  ap_method :: "string option"
  ap_path :: "string option"
  ap_status :: "nat option"
  ap_from_ts :: "int option"
  ap_to_ts :: "int option"
  ap_request_id :: "string option"
  ap_sort :: "string option"

definition query_of_params :: "audit_params \<Rightarrow> audit_query" where
  "query_of_params p =
     \<lparr> aq_page = opt_or 1 (ap_page p), aq_per_page = opt_or 50 (ap_per_page p),
       aq_method = ap_method p, aq_path = ap_path p, aq_status = ap_status p,
       aq_from_ts = ap_from_ts p, aq_to_ts = ap_to_ts p, aq_request_id = ap_request_id p,
       aq_sort_dir = (if ap_sort p = Some ''asc'' then Asc else Desc) \<rparr>"

text \<open>Every store error, bad pagination included, becomes status 500.\<close>

definition list_audit :: "(string, unit) result \<Rightarrow> audit_params \<Rightarrow> audit_db
    \<Rightarrow> (nat \<times> string, audit_result) result" where
  "list_audit db p s = map_err (\<lambda>e. (500, ''audit query failed'')) (audit_query_run db (query_of_params p) s)"

section \<open>Lemmas\<close>

definition db_ok :: "audit_db \<Rightarrow> bool" where
  "db_ok s = (sorted_wrt (<) (map fst (db_rows s)) \<and> (\<forall>(i, r)\<in>set (db_rows s). i < db_next s))"

lemma db_ok_empty [simp]: "db_ok empty_db"
  by (simp add: db_ok_def empty_db_def)

lemma db_ok_log [step_inv]: "db_ok s \<Longrightarrow> db_ok (snd (audit_log db e s))"
  by (cases db) (fastforce simp: db_ok_def audit_log_def sorted_wrt_append)+

lemma set_ordered [simp]: "set (ordered dir rows) = set rows"
  by (simp add: ordered_def Let_def split: sort_dir.split)

lemma length_ordered [simp]: "length (ordered dir rows) = length rows"
  by (simp add: ordered_def Let_def split: sort_dir.split)

lemma mset_ordered: "mset (ordered dir rows) = mset rows"
  by (simp add: ordered_def Let_def split: sort_dir.split)

lemma length_query_rows: "length (query_rows q s) = length (filter (\<lambda>(i, e, d). matches q e) (db_rows s))"
  by (simp add: query_rows_def)

lemma matches_iff: "matches q e \<longleftrightarrow>
    (\<forall>m. aq_method q = Some m \<longrightarrow> ae_method e = m) \<and> (\<forall>p. aq_path q = Some p \<longrightarrow> contains_str p (ae_path e))
    \<and> (\<forall>n. aq_status q = Some n \<longrightarrow> ae_status e = n) \<and> (\<forall>t. aq_from_ts q = Some t \<longrightarrow> ae_ts e = t)
    \<and> (\<forall>t. aq_to_ts q = Some t \<longrightarrow> ae_ts e = t) \<and> (\<forall>r. aq_request_id q = Some r \<longrightarrow> ae_request_id e = r)"
  by (auto simp: matches_def build_where_def opt_cond_def split: option.splits)

text \<open>Consecutive windows of a list cover it.\<close>

lemma windows_cover:
  "0 < k \<Longrightarrow> concat (map (\<lambda>p. take k (drop (p * k) xs)) [0..<n]) = take (n * k) xs"
proof (induction n)
  case (Suc n)
  have "take (n * k) xs @ take k (drop (n * k) xs) = take (n * k + k) xs"
    by (simp add: take_add)
  with Suc show ?case by (simp add: add.commute)
qed simp

definition on_page :: "audit_query \<Rightarrow> nat \<Rightarrow> audit_query" where
  "on_page q p = q \<lparr> aq_page := p \<rparr>"

lemma matches_on_page [simp]: "matches (on_page q p) = matches q"
  by (rule ext) (simp add: matches_def build_where_def on_page_def)

lemma query_rows_on_page [simp]: "query_rows (on_page q p) s = query_rows q s"
  by (simp add: query_rows_def) (simp add: on_page_def)

lemma query_page:
  assumes "1 \<le> aq_per_page q" "aq_per_page q \<le> 500" "p * aq_per_page q < 2 ^ 63"
  shows "\<exists>r. audit_query_run (Ok ()) (on_page q (Suc p)) s = Ok r
     \<and> qr_entries r = map map_row (take (aq_per_page q) (drop (p * aq_per_page q) (query_rows q s)))
     \<and> qr_total r = length (query_rows q s)
     \<and> qr_pages r = (length (query_rows q s) + aq_per_page q - 1) div aq_per_page q"
proof -
  have q: "aq_page (on_page q (Suc p)) = Suc p" "aq_per_page (on_page q (Suc p)) = aq_per_page q"
    by (simp_all add: on_page_def)
  have "(Suc p - 1) * aq_per_page q mod 2 ^ 64 = p * aq_per_page q"
    using assms(3) by simp
  moreover have "(if n = 0 then 0 else (n - 1) div k + 1) = (n + k - 1) div k" if "1 \<le> k" for n k :: nat
  proof (cases n)
    case (Suc m)
    then have "(n + k - 1) div k = (m + k) div k" by simp
    with Suc that div_add_self2[of k m] show ?thesis by simp
  qed (use that in simp)
  ultimately show ?thesis
    using assms by (simp add: audit_query_run_def q u64_to_i64_or_def length_query_rows Let_def)
qed

definition before :: "int \<times> audit_entry \<times> int \<Rightarrow> int \<times> audit_entry \<times> int \<Rightarrow> bool" where
  "before a b = (case a of (i, e, _) \<Rightarrow> case b of (j, f, _) \<Rightarrow>
     ae_ts e < ae_ts f \<or> (ae_ts e = ae_ts f \<and> i < j))"

lemma insort_before:
  assumes "sorted_wrt before ys" "\<forall>y\<in>set ys. fst x < fst y"
  shows "sorted_wrt before (insort_key (\<lambda>(i, e, d). ae_ts e) x ys)"
  using assms
proof (induction ys)
  case (Cons y ys)
  then show ?case
    by (cases x; cases y) (auto simp: before_def set_insort_key split: prod.splits)
qed simp

lemma ordered_before:
  assumes "sorted_wrt (<) (map fst rows)"
  shows "sorted_wrt before (ordered Asc rows)" and "sorted_wrt (\<lambda>a b. before b a) (ordered Desc rows)"
proof -
  have first: "(\<lambda>(i, e, d). i) = (fst :: int \<times> audit_entry \<times> int \<Rightarrow> int)"
    by (simp add: fun_eq_iff)
  have "sorted (map (\<lambda>(i, e, d). i) rows)"
    using strict_sorted_imp_sorted[OF assms] by (simp add: first)
  then have id: "sort_key (\<lambda>(i, e, d). i) rows = rows" by (rule sort_key_id_if_sorted)
  have "sorted_wrt before (sort_key (\<lambda>(i, e, d). ae_ts e) rows)"
    using assms
  proof (induction rows)
    case (Cons r rows)
    then show ?case using insort_before[of "sort_key (\<lambda>(i, e, d). ae_ts e) rows" r] by simp
  qed simp
  then show "sorted_wrt before (ordered Asc rows)" "sorted_wrt (\<lambda>a b. before b a) (ordered Desc rows)"
    by (simp_all add: ordered_def id Let_def sorted_wrt_rev)
qed

lemma query_rows_before:
  assumes "db_ok s"
  shows "sorted_wrt (case aq_sort_dir q of Asc \<Rightarrow> before | Desc \<Rightarrow> \<lambda>a b. before b a) (query_rows q s)"
proof -
  have "sorted_wrt (<) (map fst (filter P (db_rows s)))" for P
    using assms by (simp add: db_ok_def sorted_wrt_map sorted_wrt_filter)
  then show ?thesis by (cases "aq_sort_dir q") (simp_all add: query_rows_def ordered_before)
qed

definition page_entries :: "audit_query \<Rightarrow> nat \<Rightarrow> audit_db \<Rightarrow> audit_row list" where
  "page_entries q p s =
     (case audit_query_run (Ok ()) (on_page q p) s of Inl _ \<Rightarrow> [] | Inr r \<Rightarrow> qr_entries r)"

section \<open>Properties\<close>


definition demo_entry :: "int \<Rightarrow> audit_entry" where
  "demo_entry t = \<lparr> ae_ts = t, ae_request_id = ''r'', ae_method = ''POST'', ae_path = ''/api/v1/vms'',
     ae_status = 200, ae_duration_ms = 3, ae_remote_addr = None, ae_user_agent = None, ae_user_id = None \<rparr>"

definition demo_query :: audit_query where
  "demo_query = \<lparr> aq_page = 1, aq_per_page = 2, aq_method = None, aq_path = None, aq_status = None,
     aq_from_ts = None, aq_to_ts = None, aq_request_id = None, aq_sort_dir = Desc \<rparr>"

definition demo_db :: audit_db where
  "demo_db = \<lparr> db_rows = [(1, demo_entry 10, 3), (2, demo_entry 20, 3), (3, demo_entry 15, 3)], db_next = 4 \<rparr>"


text \<open>The time range filter tests equality: with both \<open>from_ts\<close> and \<open>to_ts\<close> given and different, no
  row ever matches, although rows lie in the range; with one bound given, exactly the rows of that
  very second match.\<close>

theorem time_range_is_equality:
  "(aq_from_ts q = Some a \<and> aq_to_ts q = Some b \<and> a \<noteq> b \<longrightarrow> query_rows q s = [])
   \<and> (aq_from_ts q = Some a \<and> matches q e \<longrightarrow> ae_ts e = a)
   \<and> (aq_to_ts q = Some b \<and> matches q e \<longrightarrow> ae_ts e = b)"
proof -
  have "query_rows q s = []" if "aq_from_ts q = Some a" "aq_to_ts q = Some b" "a \<noteq> b"
  proof -
    have "filter (\<lambda>(i, e, d). matches q e) (db_rows s) = []"
      using that by (auto simp: filter_empty_conv matches_iff)
    then show ?thesis by (simp add: query_rows_def ordered_def split: sort_dir.split)
  qed
  then show ?thesis by (auto simp: matches_iff)
qed

theorem time_range_is_equality_witness:
  "query_rows (demo_query \<lparr> aq_from_ts := Some 5, aq_to_ts := Some 30 \<rparr>) demo_db = []
   \<and> length (query_rows demo_query demo_db) = 3"
  using time_range_is_equality[of "demo_query \<lparr> aq_from_ts := Some 5, aq_to_ts := Some 30 \<rparr>" 5 30 demo_db "demo_entry 1"]
  by (simp add: length_query_rows matches_iff demo_query_def demo_db_def)

text \<open>A page number so large that the offset does not fit a signed 64-bit integer returns the rows of
  the first page under the large page number, instead of an empty page.\<close>

theorem huge_page_wraps_to_first:
  assumes "1 \<le> aq_per_page q" and "aq_per_page q \<le> 500"
    and "2 ^ 63 \<le> p * aq_per_page q" and "p * aq_per_page q < 2 ^ 64"
  shows "page_entries q (Suc p) s = page_entries q 1 s"
proof -
  have "(Suc p - 1) * aq_per_page q mod 2 ^ 64 = p * aq_per_page q" using assms(4) by simp
  then have "page_entries q (Suc p) s = map map_row (take (aq_per_page q) (query_rows q s))"
    using assms by (simp add: page_entries_def audit_query_run_def u64_to_i64_or_def Let_def on_page_def
        query_rows_def matches_def build_where_def)
  then show ?thesis using query_page[OF assms(1,2), of 0 s] by (auto simp: page_entries_def)
qed

theorem huge_page_wraps_to_first_witness:
  "page_entries demo_query (Suc (2 ^ 62)) demo_db = page_entries demo_query 1 demo_db"
  by (rule huge_page_wraps_to_first) (simp_all add: demo_query_def)

text \<open>An entry that was logged first under its request id is found again under that id with all its
  fields, the duration saturated at the largest signed 64-bit value.\<close>

theorem log_find_roundtrip:
  assumes "find_by_request_id (ae_request_id e) s = None"
  shows "find_by_request_id (ae_request_id e) (snd (audit_log (Ok ()) e s))
           = Some (e \<lparr> ae_duration_ms := min (ae_duration_ms e) (2 ^ 63 - 1) \<rparr>)
     \<and> (rid \<noteq> ae_request_id e \<longrightarrow>
          find_by_request_id rid (snd (audit_log (Ok ()) e s)) = find_by_request_id rid s)"
proof -
  have app: "find P (xs @ [x]) = (case find P xs of None \<Rightarrow> if P x then Some x else None | Some y \<Rightarrow> Some y)"
    for P and xs :: "(int \<times> audit_entry \<times> int) list" and x
    by (induction xs) auto
  have "duration_of_i64 (duration_to_i64 d) = min d (2 ^ 63 - 1)" for d
    by (simp add: duration_of_i64_def duration_to_i64_def i64_max_def)
  then show ?thesis
    using assms by (auto simp: find_by_request_id_def audit_log_def app map_row_def split: option.split)
qed

theorem log_find_roundtrip_witness:
  "find_by_request_id ''r'' (snd (audit_log (Ok ()) (demo_entry 7) empty_db)) = Some (demo_entry 7)"
proof -
  have "find_by_request_id (ae_request_id (demo_entry 7)) empty_db = None"
    by (simp add: find_by_request_id_def empty_db_def)
  from log_find_roundtrip[OF this, of "''x''"] show ?thesis by (simp add: demo_entry_def)
qed

end
