(* ===== verification/Refresh_Tokens.thy ===== *)
theory Refresh_Tokens
  imports Prelude
begin

text \<open>
  The refresh token store (\<open>src/auth/refresh.rs\<close>): issue, verify, revoke and rotate, with family
  revocation on replay. The random identifier and token of each issue, and each reading of the
  clock, are arguments; \<open>H\<close> is the hexadecimal SHA-256 of a token. That a fresh token is not in
  the store is a guard of the step relation \<open>rs_step\<close>, not a fact about \<open>H\<close>.
\<close>

record refresh_token =
  rt_id :: string
  rt_user :: string
  rt_hash :: string
  rt_expires :: int
  rt_revoked :: bool
  rt_created :: int

record issued_token =
  it_token :: string
  it_id :: string
  it_user :: string
  it_expires :: int

type_synonym refresh_store = "(string, refresh_token) hmap"
type_synonym digest = "string \<Rightarrow> string"

definition default_refresh_ttl_secs :: int where "default_refresh_ttl_secs = 7 * 24 * 3600"

definition hash_token :: "digest \<Rightarrow> string \<Rightarrow> string" where "hash_token H raw = H raw"

definition rs_new :: refresh_store where "rs_new = hm_empty"

definition fresh_record :: "digest \<Rightarrow> string \<Rightarrow> string \<Rightarrow> int \<Rightarrow> string \<Rightarrow> int \<Rightarrow> refresh_token" where
  "fresh_record H new_id raw now user ttl =
     \<lparr> rt_id = new_id, rt_user = user, rt_hash = hash_token H raw, rt_expires = i64_add now ttl,
       rt_revoked = False, rt_created = now \<rparr>"

definition rs_issue :: "digest \<Rightarrow> string \<Rightarrow> string \<Rightarrow> int \<Rightarrow> string \<Rightarrow> int \<Rightarrow> refresh_store
    \<Rightarrow> issued_token \<times> refresh_store" where
  "rs_issue H new_id raw now user ttl s =
     (\<lparr> it_token = raw, it_id = new_id, it_user = user, it_expires = i64_add now ttl \<rparr>,
      hm_put new_id (fresh_record H new_id raw now user ttl) s)"

definition find_hash :: "string \<Rightarrow> refresh_store \<Rightarrow> (string \<times> refresh_token) option" where
  "find_hash h s = find (\<lambda>(k, r). rt_hash r = h) s"

definition rs_verify :: "digest \<Rightarrow> int \<Rightarrow> string \<Rightarrow> refresh_store \<Rightarrow> (string \<times> string) option" where
  "rs_verify H now raw s =
     (case find_hash (hash_token H raw) s of
        None \<Rightarrow> None
      | Some (_, r) \<Rightarrow>
          if rt_revoked r then None
          else if now > rt_expires r then None
          else Some (rt_id r, rt_user r))"

definition rs_revoke :: "string \<Rightarrow> refresh_store \<Rightarrow> bool \<times> refresh_store" where
  "rs_revoke tid s =
     (case hm_get s tid of
        None \<Rightarrow> (False, s)
      | Some r \<Rightarrow> (True, hm_put tid (r \<lparr> rt_revoked := True \<rparr>) s))"

definition live_of :: "string \<Rightarrow> refresh_token \<Rightarrow> bool" where
  "live_of user r = (rt_user r = user \<and> \<not> rt_revoked r)"

definition rs_revoke_all :: "string \<Rightarrow> refresh_store \<Rightarrow> nat \<times> refresh_store" where
  "rs_revoke_all user s =
     (length (filter (live_of user) (hm_values s)),
      hm_map (\<lambda>r. if live_of user r then r \<lparr> rt_revoked := True \<rparr> else r) s)"

text \<open>
  \<open>rotate\<close> reads the clock for the expiry check (\<open>now1\<close>) and again for the new record (\<open>now2\<close>). The
  expiry check comes before the replay check.
\<close>

definition revoke_family :: "string \<Rightarrow> refresh_store \<Rightarrow> refresh_store" where
  "revoke_family user s = hm_map (\<lambda>r. if rt_user r = user then r \<lparr> rt_revoked := True \<rparr> else r) s"

definition rs_rotate :: "digest \<Rightarrow> string \<Rightarrow> string \<Rightarrow> int \<Rightarrow> int \<Rightarrow> string \<Rightarrow> int \<Rightarrow> refresh_store
    \<Rightarrow> issued_token option \<times> refresh_store" where
  "rs_rotate H new_id new_raw now1 now2 raw ttl s =
     (case find_hash (hash_token H raw) s of
        None \<Rightarrow> (None, s)
      | Some (tid, r) \<Rightarrow>
          if now1 > rt_expires r then (None, s)
          else if rt_revoked r then (None, revoke_family (rt_user r) s)
          else
            let s1 = (case hm_get s tid of None \<Rightarrow> s
                      | Some r' \<Rightarrow> hm_put tid (r' \<lparr> rt_revoked := True \<rparr>) s);
                s2 = hm_put new_id (fresh_record H new_id new_raw now2 (rt_user r) ttl) s1
            in (Some \<lparr> it_token = new_raw, it_id = new_id, it_user = rt_user r,
                       it_expires = i64_add now2 ttl \<rparr>, s2))"

definition rs_count :: "refresh_store \<Rightarrow> nat" where "rs_count s = length s"

definition rs_active_count :: "int \<Rightarrow> refresh_store \<Rightarrow> nat" where
  "rs_active_count now s = length (filter (\<lambda>r. \<not> rt_revoked r \<and> rt_expires r > now) (hm_values s))"

section \<open>Well-formed stores\<close>

text \<open>Keys are distinct and repeated in the records, and no two records share a digest.\<close>

definition rs_ok :: "refresh_store \<Rightarrow> bool" where
  "rs_ok s = (hm_ok s \<and> list_all (\<lambda>(k, r). rt_id r = k) s \<and> distinct (map (\<lambda>(k, r). rt_hash r) s))"

definition rs_fresh :: "digest \<Rightarrow> string \<Rightarrow> string \<Rightarrow> refresh_store \<Rightarrow> bool" where
  "rs_fresh H new_id raw s = (\<not> hm_contains s new_id
      \<and> list_all (\<lambda>(k, r). rt_hash r \<noteq> hash_token H raw) s)"

lemma find_hash_Some: "find_hash h s = Some (k, r) \<Longrightarrow> (k, r) \<in> set s \<and> rt_hash r = h"
  unfolding find_hash_def by (drule find_Some_set) simp

lemma hash_unique:
  assumes "rs_ok s" "(k, r) \<in> set s" "(k', r') \<in> set s" "rt_hash r = rt_hash r'"
  shows "k = k' \<and> r = r'"
proof -
  have "inj_on (\<lambda>(k, r). rt_hash r) (set s)"
    using assms(1) by (simp add: rs_ok_def distinct_map)
  from inj_onD[OF this, of "(k, r)" "(k', r')"] have "(k, r) = (k', r')" using assms(2-4) by simp
  then show ?thesis by simp
qed

lemma find_hash_iff:
  assumes "rs_ok s"
  shows "find_hash h s = Some (k, r) \<longleftrightarrow> (k, r) \<in> set s \<and> rt_hash r = h"
proof
  assume *: "(k, r) \<in> set s \<and> rt_hash r = h"
  then have "find_hash h s \<noteq> None"
    by (auto simp: find_hash_def find_None_iff)
  then obtain k' r' where "find_hash h s = Some (k', r')" by auto
  with * find_hash_Some[OF this] hash_unique[OF assms, of k r k' r'] show "find_hash h s = Some (k, r)"
    by auto
qed (rule find_hash_Some)

lemma find_hash_None: "find_hash h s = None \<longleftrightarrow> (\<forall>(k, r)\<in>set s. rt_hash r \<noteq> h)"
  by (auto simp: find_hash_def find_None_iff)

lemma rs_ok_get: "rs_ok s \<Longrightarrow> hm_get s k = Some r \<longleftrightarrow> (k, r) \<in> set s"
  by (simp add: rs_ok_def hm_get_iff)

lemma rs_ok_id: "rs_ok s \<Longrightarrow> (k, r) \<in> set s \<Longrightarrow> rt_id r = k"
  by (auto simp: rs_ok_def list_all_iff)

lemma rs_verify_iff:
  assumes "rs_ok s"
  shows "rs_verify H now raw s = Some (i, u) \<longleftrightarrow>
     (\<exists>r. (i, r) \<in> set s \<and> rt_hash r = hash_token H raw \<and> rt_user r = u \<and> \<not> rt_revoked r \<and> now \<le> rt_expires r)"
proof (cases "find_hash (hash_token H raw) s")
  case None
  moreover from None have "\<forall>(k, r)\<in>set s. rt_hash r \<noteq> hash_token H raw" by (simp add: find_hash_None)
  ultimately show ?thesis by (auto simp: rs_verify_def)
next
  case (Some kr)
  obtain k r where kr: "kr = (k, r)" by (cases kr)
  with Some find_hash_Some have "(k, r) \<in> set s" "rt_hash r = hash_token H raw" by auto
  with Some kr rs_ok_id[OF assms this(1)] show ?thesis
    by (auto simp: rs_verify_def dest: hash_unique[OF assms])
qed

subsection \<open>Updates that keep digests and identifiers\<close>

definition keeps_identity :: "(refresh_token \<Rightarrow> refresh_token) \<Rightarrow> bool" where
  "keeps_identity f = (\<forall>r. rt_id (f r) = rt_id r \<and> rt_hash (f r) = rt_hash r \<and> rt_user (f r) = rt_user r
      \<and> rt_expires (f r) = rt_expires r \<and> (rt_revoked r \<longrightarrow> rt_revoked (f r)))"

text \<open>The store \<open>s\<close> with every record touched by an update that may depend on its key.\<close>

definition rs_touch :: "(string \<Rightarrow> refresh_token \<Rightarrow> refresh_token) \<Rightarrow> refresh_store \<Rightarrow> refresh_store" where
  "rs_touch f s = map (\<lambda>(k, r). (k, f k r)) s"

lemma rs_ok_touch:
  assumes "\<And>k. keeps_identity (f k)" "rs_ok s" shows "rs_ok (rs_touch f s)"
proof -
  have *: "map (\<lambda>(k, r). rt_hash r) (rs_touch f s) = map (\<lambda>(k, r). rt_hash r) s"
    "map fst (rs_touch f s) = map fst s"
    "list_all (\<lambda>(k, r). rt_id r = k) (rs_touch f s) = list_all (\<lambda>(k, r). rt_id r = k) s"
    using assms(1) by (induction s) (auto simp: rs_touch_def keeps_identity_def)
  show ?thesis using assms(2) by (simp only: rs_ok_def hm_ok_def *)
qed

lemma revoke_one_touch:
  assumes "rs_ok s" "hm_get s tid = Some r"
  shows "hm_put tid (r \<lparr> rt_revoked := True \<rparr>) s
     = rs_touch (\<lambda>k x. if k = tid then x \<lparr> rt_revoked := True \<rparr> else x) s"
  using hm_put_at[OF _ assms(2)] assms by (auto simp: rs_touch_def rs_ok_def hm_get_iff hm_ok_def
      dest: eq_key_imp_eq_value)

lemma hm_map_touch: "hm_map f s = rs_touch (\<lambda>_. f) s"
  by (simp add: hm_map_def rs_touch_def)

lemma rs_ok_add:
  assumes "rs_ok s" "rs_fresh H i raw s"
  shows "rs_ok (hm_put i (fresh_record H i raw now user ttl) s)"
  using assms by (auto simp: rs_ok_def rs_fresh_def hm_put_new hm_contains_def hm_ok_def list_all_iff
      fresh_record_def map_of_eq_None_iff hm_get_def image_iff)

lemma hm_contains_touch [simp]: "hm_contains (rs_touch f s) k = hm_contains s k"
  by (induction s) (auto simp: hm_contains_iff rs_touch_def)

lemma rs_fresh_touch: "(\<And>k. keeps_identity (f k)) \<Longrightarrow> rs_fresh H i raw (rs_touch f s) = rs_fresh H i raw s"
  by (auto simp: rs_fresh_def list_all_iff keeps_identity_def) (auto simp: rs_touch_def)

subsection \<open>Rotation\<close>

definition revoke_at :: "string \<Rightarrow> string \<Rightarrow> refresh_token \<Rightarrow> refresh_token" where
  "revoke_at tid k r = (if k = tid then r \<lparr> rt_revoked := True \<rparr> else r)"

lemma keeps_identity_simps [simp]:
  "keeps_identity (revoke_at tid k)"
  "keeps_identity (\<lambda>r. if live_of u r then r \<lparr> rt_revoked := True \<rparr> else r)"
  "keeps_identity (\<lambda>r. if rt_user r = u then r \<lparr> rt_revoked := True \<rparr> else r)"
  by (auto simp: keeps_identity_def revoke_at_def)

lemma revoke_store:
  "rs_ok s \<Longrightarrow> snd (rs_revoke tid s) = (if hm_contains s tid then rs_touch (revoke_at tid) s else s)"
  by (auto simp: rs_revoke_def hm_contains_def revoke_one_touch revoke_at_def[abs_def] split: option.splits)

lemma rotate_Some:
  assumes "rs_ok s" "(tid, r) \<in> set s" "rt_hash r = hash_token H raw"
    and "now1 \<le> rt_expires r" "\<not> rt_revoked r"
  shows "rs_rotate H ni nr now1 now2 raw ttl s =
      (Some \<lparr> it_token = nr, it_id = ni, it_user = rt_user r, it_expires = i64_add now2 ttl \<rparr>,
       hm_put ni (fresh_record H ni nr now2 (rt_user r) ttl) (rs_touch (revoke_at tid) s))"
proof -
  have "find_hash (hash_token H raw) s = Some (tid, r)" "hm_get s tid = Some r"
    using assms by (auto simp: find_hash_iff rs_ok_get)
  with assms show ?thesis
    by (simp add: rs_rotate_def revoke_one_touch revoke_at_def[abs_def])
qed

lemma rotate_replay:
  assumes "rs_ok s" "(tid, r) \<in> set s" "rt_hash r = hash_token H raw"
    and "now1 \<le> rt_expires r" "rt_revoked r"
  shows "rs_rotate H ni nr now1 now2 raw ttl s = (None, revoke_family (rt_user r) s)"
proof -
  have "find_hash (hash_token H raw) s = Some (tid, r)" using assms by (auto simp: find_hash_iff)
  with assms show ?thesis by (simp add: rs_rotate_def)
qed

lemma rotate_expired:
  assumes "rs_ok s" "(tid, r) \<in> set s" "rt_hash r = hash_token H raw" "rt_expires r < now1"
  shows "rs_rotate H ni nr now1 now2 raw ttl s = (None, s)"
proof -
  have "find_hash (hash_token H raw) s = Some (tid, r)" using assms by (auto simp: find_hash_iff)
  with assms show ?thesis by (simp add: rs_rotate_def)
qed

lemma rotate_unknown:
  "\<forall>(k, r)\<in>set s. rt_hash r \<noteq> hash_token H raw \<Longrightarrow> rs_rotate H ni nr now1 now2 raw ttl s = (None, s)"
  by (simp add: rs_rotate_def find_hash_None[symmetric])

lemma rotate_cases [consumes 1, case_names unknown expired replay success]:
  assumes "rs_ok s"
  obtains "\<forall>(k, r)\<in>set s. rt_hash r \<noteq> hash_token H raw"
      "rs_rotate H ni nr now1 now2 raw ttl s = (None, s)"
    | tid r where "(tid, r) \<in> set s" "rt_hash r = hash_token H raw" "rt_expires r < now1"
      "rs_rotate H ni nr now1 now2 raw ttl s = (None, s)"
    | tid r where "(tid, r) \<in> set s" "rt_hash r = hash_token H raw" "now1 \<le> rt_expires r" "rt_revoked r"
      "rs_rotate H ni nr now1 now2 raw ttl s = (None, revoke_family (rt_user r) s)"
    | tid r where "(tid, r) \<in> set s" "rt_hash r = hash_token H raw" "now1 \<le> rt_expires r" "\<not> rt_revoked r"
      "rs_rotate H ni nr now1 now2 raw ttl s =
      (Some \<lparr> it_token = nr, it_id = ni, it_user = rt_user r, it_expires = i64_add now2 ttl \<rparr>,
       hm_put ni (fresh_record H ni nr now2 (rt_user r) ttl) (rs_touch (revoke_at tid) s))"
proof (cases "\<forall>(k, r)\<in>set s. rt_hash r \<noteq> hash_token H raw")
  case True
  then show ?thesis using that(1) rotate_unknown by blast
next
  case False
  then obtain tid r where *: "(tid, r) \<in> set s" "rt_hash r = hash_token H raw" by auto
  show ?thesis
    using that(2)[OF * _ rotate_expired[OF assms *]] that(3)[OF * _ _ rotate_replay[OF assms *]]
      that(4)[OF * _ _ rotate_Some[OF assms *]]
    by (meson linorder_not_less)
qed

section \<open>Reachable stores\<close>

inductive rs_step :: "digest \<Rightarrow> refresh_store \<Rightarrow> refresh_store \<Rightarrow> bool" for H where
  issue: "rs_fresh H i raw s \<Longrightarrow> rs_step H s (snd (rs_issue H i raw now user ttl s))"
| revoke: "rs_step H s (snd (rs_revoke tid s))"
| revoke_all: "rs_step H s (snd (rs_revoke_all user s))"
| rotate: "rs_fresh H i raw' s \<Longrightarrow> rs_step H s (snd (rs_rotate H i raw' now1 now2 raw ttl s))"

definition rs_spent :: "digest \<Rightarrow> refresh_store \<Rightarrow> string \<Rightarrow> bool" where
  "rs_spent H s raw = list_ex (\<lambda>(k, r). rt_hash r = hash_token H raw \<and> rt_revoked r) s"

definition rs_accepts :: "digest \<Rightarrow> refresh_store \<Rightarrow> string \<Rightarrow> bool" where
  "rs_accepts H s raw = (\<exists>now. rs_verify H now raw s \<noteq> None)"

lemma revoke_family_touch: "revoke_family u s
    = rs_touch (\<lambda>_ r. if rt_user r = u then r \<lparr> rt_revoked := True \<rparr> else r) s"
  by (simp add: revoke_family_def hm_map_touch)

lemma revoke_all_touch: "snd (rs_revoke_all u s)
    = rs_touch (\<lambda>_ r. if live_of u r then r \<lparr> rt_revoked := True \<rparr> else r) s"
  by (simp add: rs_revoke_all_def hm_map_touch)

text \<open>Every step touches records identity-preservingly and then adds at most one fresh record.\<close>

lemma rs_step_shape:
  assumes "rs_step H s s'" "rs_ok s"
  obtains f where "\<And>k. keeps_identity (f k)" "s' = rs_touch f s"
  | f i raw now u ttl where "\<And>k. keeps_identity (f k)" "rs_fresh H i raw s"
      "s' = hm_put i (fresh_record H i raw now u ttl) (rs_touch f s)"
  using assms
proof (cases rule: rs_step.cases)
  case (issue i raw now user ttl)
  then show ?thesis using that(2)[of "\<lambda>k r. r" i raw now user ttl]
    by (simp add: rs_issue_def rs_touch_def keeps_identity_def)
next
  case (revoke tid)
  then show ?thesis using that(1)[of "revoke_at tid"] that(1)[of "\<lambda>k r. r"] assms(2)
    by (simp add: revoke_store rs_touch_def[of "\<lambda>k r. r"] keeps_identity_def[of "\<lambda>r. r"] split: if_splits)
next
  case (revoke_all user)
  then show ?thesis using that(1)[of "\<lambda>_ r. if live_of user r then r \<lparr> rt_revoked := True \<rparr> else r"]
    by (simp add: revoke_all_touch)
next
  case (rotate i raw' now1 now2 raw ttl)
  have id: "rs_touch (\<lambda>k r. r) s = s" "keeps_identity (\<lambda>r. r)"
    by (simp_all add: rs_touch_def keeps_identity_def)
  show ?thesis
    using assms(2)
  proof (cases rule: rotate_cases[of s H raw i raw' now1 now2 ttl])
    case unknown
    then show ?thesis using that(1)[of "\<lambda>k r. r"] id rotate by simp
  next
    case (expired tid r)
    then show ?thesis using that(1)[of "\<lambda>k r. r"] id rotate by simp
  next
    case (replay tid r)
    then show ?thesis using rotate
        that(1)[of "\<lambda>_ x. if rt_user x = rt_user r then x \<lparr> rt_revoked := True \<rparr> else x"]
      by (simp add: revoke_family_touch)
  next
    case (success tid r)
    then show ?thesis using that(2)[of "revoke_at tid" i raw' now2 "rt_user r" ttl] rotate by simp
  qed
qed

lemma spent_touch:
  assumes "\<And>k. keeps_identity (f k)" "rs_spent H s raw" shows "rs_spent H (rs_touch f s) raw"
proof -
  obtain k r where "(k, r) \<in> set s" "rt_hash r = hash_token H raw" "rt_revoked r"
    using assms(2) by (auto simp: rs_spent_def list_ex_iff)
  moreover have "rt_hash (f k r) = rt_hash r" "rt_revoked r \<longrightarrow> rt_revoked (f k r)"
    using assms(1)[of k] by (simp_all add: keeps_identity_def)
  ultimately show ?thesis by (force simp: rs_spent_def list_ex_iff rs_touch_def)
qed

lemma rs_ok_step [step_inv]: "rs_ok s \<Longrightarrow> rs_step H s s' \<Longrightarrow> rs_ok s'"
  by (erule (1) rs_step_shape) (simp_all add: rs_ok_touch rs_ok_add rs_fresh_touch)

lemma spent_step: "rs_ok s \<Longrightarrow> rs_step H s s' \<Longrightarrow> rs_spent H s raw \<Longrightarrow> rs_spent H s' raw"
proof (erule (1) rs_step_shape)
  fix f assume "\<And>k. keeps_identity (f k)" "s' = rs_touch f s" "rs_spent H s raw"
  then show "rs_spent H s' raw" by (simp add: spent_touch)
next
  fix f i raw' now u ttl
  assume f: "\<And>k. keeps_identity (f k)" and fr: "rs_fresh H i raw' s" and sp: "rs_spent H s raw"
    and s': "s' = hm_put i (fresh_record H i raw' now u ttl) (rs_touch f s)"
  have "hm_get (rs_touch f s) i = None"
    using fr hm_contains_touch[of f s i] by (simp add: rs_fresh_def hm_contains_def)
  with s' spent_touch[OF f sp] show "rs_spent H s' raw"
    by (auto simp: hm_put_new rs_spent_def)
qed

lemma spent_rejected: "rs_ok s \<Longrightarrow> rs_spent H s raw \<Longrightarrow> \<not> rs_accepts H s raw"
  by (fastforce simp: rs_accepts_def rs_spent_def list_ex_iff rs_verify_iff dest: hash_unique)

interpretation rt: single_use_store rs_ok "rs_step H" "rs_spent H" "rs_accepts H"
  by unfold_locales (fact rs_ok_step spent_step spent_rejected)+

lemma rotate_spends:
  assumes "rs_ok s" "rs_fresh H i raw' s" "rs_rotate H i raw' now1 now2 raw ttl s = (Some iss, s1)"
  shows "rs_ok s1" "rs_spent H s1 raw"
proof -
  show "rs_ok s1"
    using rs_ok_step[OF assms(1) rs_step.rotate[OF assms(2), of now1 now2 raw ttl]] assms(3) by simp
  show "rs_spent H s1 raw"
    using assms(1)
  proof (cases rule: rotate_cases[of s H raw i raw' now1 now2 ttl])
    case (success tid r)
    have "hm_get (rs_touch (revoke_at tid) s) i = None"
      using assms(2) hm_contains_touch[of "revoke_at tid" s i] by (simp add: rs_fresh_def hm_contains_def)
    with success assms(3) show ?thesis
      by (force simp: rs_spent_def hm_put_new rs_touch_def list_ex_iff revoke_at_def)
  qed (use assms(3) in simp_all)
qed

lemma spent_rotate_None: "rs_ok s \<Longrightarrow> rs_spent H s raw \<Longrightarrow> fst (rs_rotate H i raw' now1 now2 raw ttl s) = None"
  by (cases rule: rotate_cases[of s H raw i raw' now1 now2 ttl])
    (auto simp: rs_spent_def list_ex_iff dest: hash_unique)

definition live_count :: "string \<Rightarrow> refresh_store \<Rightarrow> nat" where
  "live_count user s = length (filter (live_of user) (hm_values s))"

lemma live_count_Nil [simp]: "live_count u [] = 0"
  by (simp add: live_count_def hm_values_def)

lemma live_count_Cons [simp]: "live_count u ((k, r) # s) = (if live_of u r then 1 else 0) + live_count u s"
  by (simp add: live_count_def hm_values_def)

lemma live_count_append [simp]: "live_count u (s @ t) = live_count u s + live_count u t"
  by (induction s) auto

lemma live_count_touch: "(\<And>k. keeps_identity (f k)) \<Longrightarrow> live_count u (rs_touch f s) \<le> live_count u s"
proof (induction s)
  case (Cons p s)
  obtain k r where p: "p = (k, r)" by (cases p)
  have "live_of u (f k r) \<Longrightarrow> live_of u r"
    using Cons.prems[of k] by (auto simp: keeps_identity_def live_of_def)
  then show ?case using Cons.IH[OF Cons.prems] by (simp add: p rs_touch_def)
qed (simp add: rs_touch_def)

lemma live_count_revoke_at:
  assumes "(tid, r) \<in> set s" "live_of u r"
  shows "live_count u (rs_touch (revoke_at tid) s) < live_count u s"
  using assms(1)
proof (induction s)
  case (Cons p s)
  obtain k x where p: "p = (k, x)" by (cases p)
  have le: "live_count u (rs_touch (revoke_at tid) s) \<le> live_count u s"
    by (simp add: live_count_touch)
  have head: "live_of u (revoke_at tid k x) \<longrightarrow> live_of u x"
    by (auto simp: revoke_at_def live_of_def)
  show ?case
  proof (cases "p = (tid, r)")
    case True
    then show ?thesis using le assms(2) p by (auto simp: rs_touch_def revoke_at_def live_of_def)
  next
    case False
    then have "live_count u (rs_touch (revoke_at tid) s) < live_count u s"
      using Cons by auto
    with head show ?thesis by (auto simp: rs_touch_def p)
  qed
qed simp

section \<open>Properties\<close>

text \<open>Rotation is single use: once a token has been exchanged, no sequence of operations on the
  store (issue, revoke, revoke all, rotate) makes that token verify or rotate again.\<close>

theorem rotation_single_use:
  assumes "rs_ok s" and "rs_fresh H i raw' s"
    and "rs_rotate H i raw' now1 now2 raw ttl s = (Some iss, s1)"
    and "(rs_step H)\<^sup>*\<^sup>* s1 s2"
  shows "rs_verify H now raw s2 = None
     \<and> fst (rs_rotate H j raw'' now3 now4 raw ttl' s2) = None"
proof -
  note s1 = rotate_spends[OF assms(1-3)]
  show ?thesis
    using rt.spent_forever[OF assms(4) s1] spent_rotate_None[OF rt.inv_steps[OF assms(4) s1(1)]
        rt.spent_steps[OF assms(4) s1]]
    unfolding rs_accepts_def by blast
qed

definition demo_store :: refresh_store where
  "demo_store = [(''1'', \<lparr> rt_id = ''1'', rt_user = ''u'', rt_hash = ''a'', rt_expires = 100,
                          rt_revoked = False, rt_created = 0 \<rparr>)]"

theorem rotation_single_use_witness:
  "rs_verify id 51 ''a'' (snd (rs_rotate id ''2'' ''b'' 50 50 ''a'' 10 demo_store)) = None"
proof -
  have "\<exists>iss s1. rs_rotate id ''2'' ''b'' 50 50 ''a'' 10 demo_store = (Some iss, s1)"
    by (simp add: rs_rotate_def find_hash_def demo_store_def hash_token_def hm_get_def)
  then obtain iss s1 where *: "rs_rotate id ''2'' ''b'' 50 50 ''a'' 10 demo_store = (Some iss, s1)" by blast
  have "rs_ok demo_store" "rs_fresh id ''2'' ''b'' demo_store"
    by (simp_all add: demo_store_def rs_ok_def rs_fresh_def hm_ok_def hm_contains_def hm_get_def hash_token_def)
  from rotation_single_use[OF this * rtranclp.rtrancl_refl] * show ?thesis by simp
qed

text \<open>C11. A successful rotation exchanges a token that verified for one of the same user, and the new
  token verifies as that user until its expiry.\<close>

theorem rotation_hands_over:
  assumes "rs_ok s" and "rs_fresh H i raw' s" and "in_i64 (now2 + ttl)"
    and "rs_rotate H i raw' now1 now2 raw ttl s = (Some iss, s1)"
  shows "\<exists>tid. rs_verify H now1 raw s = Some (tid, it_user iss)
     \<and> (\<forall>now. rs_verify H now (it_token iss) s1
              = (if now \<le> now2 + ttl then Some (it_id iss, it_user iss) else None))"
  using assms(1)
proof (cases rule: rotate_cases[of s H raw i raw' now1 now2 ttl])
  case (success tid r)
  have s1: "s1 = hm_put i (fresh_record H i raw' now2 (rt_user r) ttl) (rs_touch (revoke_at tid) s)"
    and iss: "iss = \<lparr> it_token = raw', it_id = i, it_user = rt_user r, it_expires = i64_add now2 ttl \<rparr>"
    using success assms(4) by auto
  have ok1: "rs_ok s1" using rotate_spends[OF assms(1,2,4)] by simp
  have old: "rs_verify H now1 raw s = Some (tid, it_user iss)"
    using success by (auto simp: rs_verify_iff[OF assms(1)] iss)
  have new: "(i, fresh_record H i raw' now2 (rt_user r) ttl) \<in> set s1"
    using ok1 by (simp add: s1 hm_get_put rs_ok_get[symmetric])
  have "rs_verify H now raw' s1 = (if now \<le> now2 + ttl then Some (i, rt_user r) else None)" for now
  proof -
    have "find_hash (hash_token H raw') s1 = Some (i, fresh_record H i raw' now2 (rt_user r) ttl)"
      using new by (simp add: find_hash_iff[OF ok1] fresh_record_def)
    then show ?thesis using assms(3) by (simp add: rs_verify_def fresh_record_def i64_add_id)
  qed
  with old show ?thesis by (auto simp: iss)
qed (use assms(4) in auto)

theorem rotation_hands_over_witness:
  "rs_verify id 60 ''b'' (snd (rs_rotate id ''2'' ''b'' 50 50 ''a'' 10 demo_store)) = Some (''2'', ''u'')"
proof -
  have *: "rs_rotate id ''2'' ''b'' 50 50 ''a'' 10 demo_store
     = (Some \<lparr> it_token = ''b'', it_id = ''2'', it_user = ''u'', it_expires = i64_add 50 10 \<rparr>,
        snd (rs_rotate id ''2'' ''b'' 50 50 ''a'' 10 demo_store))"
    by (simp add: rs_rotate_def find_hash_def demo_store_def hash_token_def)
  have "rs_ok demo_store" "rs_fresh id ''2'' ''b'' demo_store" "in_i64 (50 + 10)"
    by (simp_all add: demo_store_def rs_ok_def rs_fresh_def hm_ok_def hm_contains_def hm_get_def hash_token_def
        in_i64_def)
  from rotation_hands_over[OF this *] show ?thesis by auto
qed

text \<open>C10. Replaying an exchanged token that has not expired fails and revokes the whole family: every
  record of the token's user becomes revoked, and no record of another user changes.\<close>

theorem replay_revokes_family:
  assumes "rs_ok s" and "(tid, r) \<in> set s" and "rt_hash r = hash_token H raw"
    and "rt_revoked r" and "now1 \<le> rt_expires r"
  shows "fst (rs_rotate H i raw' now1 now2 raw ttl s) = None
     \<and> live_count (rt_user r) (snd (rs_rotate H i raw' now1 now2 raw ttl s)) = 0
     \<and> filter (\<lambda>(k, x). rt_user x \<noteq> rt_user r) (snd (rs_rotate H i raw' now1 now2 raw ttl s))
       = filter (\<lambda>(k, x). rt_user x \<noteq> rt_user r) s"
proof -
  have "live_count u (revoke_family u s) = 0" for u
    by (induction s) (auto simp: revoke_family_def hm_map_def live_of_def)
  moreover have "filter (\<lambda>(k, x). rt_user x \<noteq> u) (revoke_family u s) = filter (\<lambda>(k, x). rt_user x \<noteq> u) s" for u
    by (induction s) (auto simp: revoke_family_def hm_map_def)
  ultimately show ?thesis using rotate_replay[OF assms(1-3,5,4)] by simp
qed

theorem replay_revokes_family_witness:
  "live_count ''u'' (snd (rs_rotate id ''3'' ''c'' 60 60 ''a'' 10
      (snd (rs_rotate id ''2'' ''b'' 50 50 ''a'' 10 demo_store)))) = 0"
proof -
  let ?s = "snd (rs_rotate id ''2'' ''b'' 50 50 ''a'' 10 demo_store)"
  let ?r = "\<lparr> rt_id = ''1'', rt_user = ''u'', rt_hash = ''a'', rt_expires = 100, rt_revoked = True, rt_created = 0 \<rparr>"
  have s: "?s = [(''1'', ?r), (''2'', fresh_record id ''2'' ''b'' 50 ''u'' 10)]"
    by (simp add: rs_rotate_def find_hash_def demo_store_def hash_token_def hm_get_def hm_put_def)
  have "rs_ok ?s" "(''1'', ?r) \<in> set ?s"
    by (simp_all add: s rs_ok_def hm_ok_def fresh_record_def hash_token_def)
  from replay_revokes_family[OF this, of id "''a''" 60 "''3''" "''c''" 60 10] show ?thesis
    by (simp add: hash_token_def)
qed

text \<open>The expiry check precedes the replay check: replaying an exchanged token after its expiry is
  refused but leaves the store unchanged, so the live tokens of its user survive.\<close>

theorem expired_replay_spares_family:
  assumes "rs_ok s" and "rs_spent H s raw"
    and "\<And>k r. (k, r) \<in> set s \<Longrightarrow> rt_hash r = hash_token H raw \<Longrightarrow> rt_expires r < now1"
  shows "rs_rotate H i raw' now1 now2 raw ttl s = (None, s)"
  using assms(1)
proof (cases rule: rotate_cases[of s H raw i raw' now1 now2 ttl])
  case (replay tid r)
  then show ?thesis using assms(3)[of tid r] by simp
next
  case (success tid r)
  then show ?thesis using assms(3)[of tid r] by simp
qed simp_all

theorem expired_replay_spares_family_witness:
  "live_count ''u'' (snd (rs_rotate id ''3'' ''c'' 101 101 ''a'' 10
      (snd (rs_rotate id ''2'' ''b'' 50 50 ''a'' 10 demo_store)))) = 1"
proof -
  let ?s = "snd (rs_rotate id ''2'' ''b'' 50 50 ''a'' 10 demo_store)"
  have s: "?s = [(''1'', \<lparr> rt_id = ''1'', rt_user = ''u'', rt_hash = ''a'', rt_expires = 100,
       rt_revoked = True, rt_created = 0 \<rparr>), (''2'', fresh_record id ''2'' ''b'' 50 ''u'' 10)]"
    by (simp add: rs_rotate_def find_hash_def demo_store_def hash_token_def hm_get_def hm_put_def)
  have ok: "rs_ok ?s" "rs_spent id ?s ''a''"
    by (simp_all add: s rs_ok_def hm_ok_def fresh_record_def hash_token_def rs_spent_def)
  have late: "\<And>k r. (k, r) \<in> set ?s \<Longrightarrow> rt_hash r = hash_token id ''a'' \<Longrightarrow> rt_expires r < 101"
    by (auto simp: s fresh_record_def hash_token_def)
  show ?thesis
    by (subst expired_replay_spares_family[OF ok late]) (simp_all add: s live_of_def fresh_record_def)
qed

text \<open>Rotation never multiplies sessions: for every user, the number of unrevoked tokens after a
  rotation, successful or not, is at most the number before it.\<close>

theorem rotation_bounds_live_tokens:
  assumes "rs_ok s" and "rs_fresh H i raw' s"
  shows "live_count u (snd (rs_rotate H i raw' now1 now2 raw ttl s)) \<le> live_count u s"
  using assms(1)
proof (cases rule: rotate_cases[of s H raw i raw' now1 now2 ttl])
  case (replay tid r)
  then show ?thesis by (simp add: revoke_family_touch live_count_touch)
next
  case (success tid r)
  have "hm_get (rs_touch (revoke_at tid) s) i = None"
    using assms(2) hm_contains_touch[of "revoke_at tid" s i] by (simp add: rs_fresh_def hm_contains_def)
  moreover have "u = rt_user r \<Longrightarrow> live_count u (rs_touch (revoke_at tid) s) < live_count u s"
    using success by (intro live_count_revoke_at[of tid r]) (simp_all add: live_of_def)
  moreover have "live_count u (rs_touch (revoke_at tid) s) \<le> live_count u s"
    by (simp add: live_count_touch)
  ultimately show ?thesis
    using success by (auto simp: hm_put_new live_of_def fresh_record_def)
qed simp_all

theorem rotation_bounds_live_tokens_witness:
  "live_count ''u'' (snd (rs_rotate id ''2'' ''b'' 50 50 ''a'' 10 demo_store)) \<le> live_count ''u'' demo_store"
proof -
  have "rs_ok demo_store" "rs_fresh id ''2'' ''b'' demo_store"
    by (simp_all add: demo_store_def rs_ok_def rs_fresh_def hm_ok_def hm_contains_def hm_get_def hash_token_def)
  from rotation_bounds_live_tokens[OF this] show ?thesis .
qed

text \<open>Revoking all tokens of a user reports exactly the number of that user's unrevoked tokens, leaves
  none of them unrevoked, and leaves the unrevoked tokens of every other user as they were.\<close>

theorem revoke_all_exact:
  "fst (rs_revoke_all u s) = live_count u s
   \<and> live_count u (snd (rs_revoke_all u s)) = 0
   \<and> (u' \<noteq> u \<longrightarrow> live_count u' (snd (rs_revoke_all u s)) = live_count u' s)"
proof -
  have "live_count u (snd (rs_revoke_all u s)) = 0"
    by (induction s) (auto simp: revoke_all_touch rs_touch_def live_of_def)
  moreover have "u' \<noteq> u \<Longrightarrow> live_count u' (snd (rs_revoke_all u s)) = live_count u' s"
    by (induction s) (auto simp: revoke_all_touch rs_touch_def live_of_def)
  ultimately show ?thesis by (simp add: rs_revoke_all_def live_count_def)
qed

theorem revoke_all_exact_witness:
  "fst (rs_revoke_all ''u'' demo_store) = 1 \<and> live_count ''v'' (snd (rs_revoke_all ''u'' demo_store)) = 0"
  using revoke_all_exact[of "''u''" demo_store "''v''"] by (simp add: demo_store_def live_of_def)

text \<open>Verification does not depend on the unspecified iteration order of the hash map: on two
  well-formed stores with the same entries in any order, every token verifies alike.\<close>

theorem verify_order_independent:
  assumes "rs_ok s" and "mset s = mset s'"
  shows "rs_verify H now raw s' = rs_verify H now raw s"
proof -
  have "mset (map fst s) = mset (map fst s')"
    "mset (map (\<lambda>(k, r). rt_hash r) s) = mset (map (\<lambda>(k, r). rt_hash r) s')"
    using assms(2) by simp_all
  then have "rs_ok s'"
    using assms mset_eq_setD[OF assms(2)] mset_eq_imp_distinct_iff
    by (metis rs_ok_def hm_ok_def list_all_iff)
  then have "rs_verify H now raw s' = Some iu \<longleftrightarrow> rs_verify H now raw s = Some iu" for iu
    using rs_verify_iff[OF assms(1)] rs_verify_iff[of s'] mset_eq_setD[OF assms(2)]
    by (cases iu) auto
  then show ?thesis by (metis option.exhaust)
qed

theorem verify_order_independent_witness:
  "rs_verify id 50 ''a'' (rev (demo_store @ [(''2'', fresh_record id ''2'' ''b'' 50 ''u'' 10)])) = Some (''1'', ''u'')"
proof -
  let ?s = "demo_store @ [(''2'', fresh_record id ''2'' ''b'' 50 ''u'' 10)]"
  have "rs_ok ?s" by (simp add: demo_store_def rs_ok_def hm_ok_def fresh_record_def hash_token_def)
  from verify_order_independent[OF this, of "rev ?s" id 50 "''a''"] show ?thesis
    by (simp add: demo_store_def rs_verify_def find_hash_def hash_token_def fresh_record_def)
qed

end
