(* ===== verification/Pre_Auth.thy ===== *)
theory Pre_Auth
  imports Roles_Users
begin

text \<open>
  Pre-authentication sessions of the two-factor login and backup codes (the stores of
  \<open>src/auth/totp.rs\<close>). The random token and the clock are arguments.
\<close>

section \<open>The session store\<close>

record preauth_session =
  pa_user_id :: string
  pa_username :: string
  pa_expires :: int
  pa_consumed :: bool

type_synonym preauth_store = "(string, preauth_session) hmap"

definition preauth_ttl_secs :: int where "preauth_ttl_secs = 300"

definition pa_new :: preauth_store where "pa_new = hm_empty"

definition pa_issue :: "string \<Rightarrow> int \<Rightarrow> string \<Rightarrow> string \<Rightarrow> preauth_store \<Rightarrow> string \<times> preauth_store" where
  "pa_issue token now user_id username s =
     (token, hm_put token \<lparr> pa_user_id = user_id, pa_username = username,
                            pa_expires = i64_add now preauth_ttl_secs, pa_consumed = False \<rparr> s)"

definition pa_consume :: "int \<Rightarrow> string \<Rightarrow> preauth_store \<Rightarrow> preauth_session option \<times> preauth_store" where
  "pa_consume now token s =
     (case hm_get s token of
        None \<Rightarrow> (None, s)
      | Some x \<Rightarrow>
          if pa_expires x < now \<or> pa_consumed x then (None, hm_del token s)
          else let s1 = hm_put token (x \<lparr> pa_consumed := True \<rparr>) s
               in (hm_get s1 token, hm_del token s1))"

definition pa_count :: "preauth_store \<Rightarrow> nat" where "pa_count s = length s"

definition pa_purge :: "int \<Rightarrow> preauth_store \<Rightarrow> nat \<times> preauth_store" where
  "pa_purge now s =
     (let s' = hm_retain (\<lambda>x. pa_expires x \<ge> now \<and> \<not> pa_consumed x) s
      in (length s - length s', s'))"

section \<open>Reachable stores\<close>

text \<open>
  The second component of a state is a ghost: the tokens drawn so far. The generator never draws
  a token twice, which is the guard of \<open>issue\<close>.
\<close>

inductive pa_step :: "preauth_store \<times> string list \<Rightarrow> preauth_store \<times> string list \<Rightarrow> bool" where
  issue: "token \<notin> set drawn \<Longrightarrow> pa_step (s, drawn) (snd (pa_issue token now uid un s), token # drawn)"
| consume: "pa_step (s, drawn) (snd (pa_consume now token s), drawn)"
| purge: "pa_step (s, drawn) (snd (pa_purge now s), drawn)"

inductive_cases pa_stepE: "pa_step (s, drawn) st'"

definition pa_ok :: "preauth_store \<times> string list \<Rightarrow> bool" where
  "pa_ok st = (hm_ok (fst st) \<and> (\<forall>k. hm_contains (fst st) k \<longrightarrow> k \<in> set (snd st))
     \<and> list_all (\<lambda>(k, x). \<not> pa_consumed x) (fst st))"

definition pa_spent :: "preauth_store \<times> string list \<Rightarrow> string \<Rightarrow> bool" where
  "pa_spent st token = (token \<in> set (snd st) \<and> hm_get (fst st) token = None)"

definition pa_accepts :: "preauth_store \<times> string list \<Rightarrow> string \<Rightarrow> bool" where
  "pa_accepts st token = (\<exists>now. fst (pa_consume now token (fst st)) \<noteq> None)"

lemma pa_consume_snd: "hm_ok s \<Longrightarrow> hm_get (snd (pa_consume now token s)) k
    = (if k = token then None else hm_get s k)"
  by (auto simp: pa_consume_def hm_get_del hm_get_put Let_def split: option.splits)

lemma pa_consume_ok: "hm_ok s \<Longrightarrow> hm_ok (snd (pa_consume now token s))"
  by (auto simp: pa_consume_def Let_def split: option.splits)

lemma pa_consume_set: "hm_ok s \<Longrightarrow> set (snd (pa_consume now token s)) \<subseteq> set s"
  by (auto simp: pa_consume_def hm_del_set hm_put_set Let_def split: option.splits if_splits)

lemma pa_consume_fst: "fst (pa_consume now token s) =
    (case hm_get s token of None \<Rightarrow> None
     | Some x \<Rightarrow> if pa_expires x < now \<or> pa_consumed x then None else Some (x \<lparr> pa_consumed := True \<rparr>))"
  by (auto simp: pa_consume_def hm_get_put Let_def split: option.splits)

lemma pa_ok_step [step_inv]: "pa_ok st \<Longrightarrow> pa_step st st' \<Longrightarrow> pa_ok st'"
proof (erule pa_step.cases)
  fix token drawn s now uid un
  assume "pa_ok st" "st = (s, drawn)" "st' = (snd (pa_issue token now uid un s), token # drawn)"
  then show "pa_ok st'"
    by (auto simp: pa_ok_def pa_issue_def list_all_iff hm_put_set hm_contains_def hm_get_put)
next
  fix s drawn now token
  assume "pa_ok st" "st = (s, drawn)" "st' = (snd (pa_consume now token s), drawn)"
  then show "pa_ok st'"
    using pa_consume_set[of s now token]
    by (auto simp: pa_ok_def list_all_iff pa_consume_ok pa_consume_snd hm_contains_def split: if_splits)
next
  fix s drawn now
  assume "pa_ok st" "st = (s, drawn)" "st' = (snd (pa_purge now s), drawn)"
  then show "pa_ok st'"
    by (auto simp: pa_ok_def pa_purge_def Let_def list_all_iff hm_retain_def hm_contains_iff hm_ok_def
        distinct_map inj_on_def)
qed

lemma pa_spent_step: "pa_ok st \<Longrightarrow> pa_step st st' \<Longrightarrow> pa_spent st t \<Longrightarrow> pa_spent st' t"
  by (erule pa_step.cases) (auto simp: pa_spent_def pa_ok_def pa_issue_def hm_get_put pa_consume_snd
      pa_purge_def Let_def hm_get_retain)

lemma pa_spent_rejected: "pa_ok st \<Longrightarrow> pa_spent st t \<Longrightarrow> \<not> pa_accepts st t"
  by (simp add: pa_spent_def pa_accepts_def pa_consume_fst)

interpretation pre: single_use_store pa_ok pa_step pa_spent pa_accepts
  by unfold_locales (fact pa_ok_step pa_spent_step pa_spent_rejected)+

text \<open>Runs of operations as data.\<close>

datatype pa_op = OpIssue string int string string | OpConsume int string | OpPurge int

fun pa_exec :: "pa_op \<Rightarrow> preauth_store \<Rightarrow> preauth_store" where
  "pa_exec (OpIssue token now uid un) s = snd (pa_issue token now uid un s)"
| "pa_exec (OpConsume now token) s = snd (pa_consume now token s)"
| "pa_exec (OpPurge now) s = snd (pa_purge now s)"

definition pa_run :: "pa_op list \<Rightarrow> preauth_store \<Rightarrow> preauth_store" where
  "pa_run ops s = fold pa_exec ops s"

fun spares :: "string \<Rightarrow> int \<Rightarrow> pa_op \<Rightarrow> bool" where
  "spares token expiry (OpIssue t now uid un) = (t \<noteq> token)"
| "spares token expiry (OpConsume now t) = (t \<noteq> token)"
| "spares token expiry (OpPurge now) = (now \<le> expiry)"

lemma pa_exec_ok: "hm_ok s \<Longrightarrow> hm_ok (pa_exec op s)"
  by (cases op) (auto simp: pa_issue_def pa_consume_ok pa_purge_def Let_def)

lemma pa_run_spares:
  assumes "hm_ok s" "hm_get s token = Some x" "\<not> pa_consumed x" "list_all (spares token (pa_expires x)) ops"
  shows "hm_get (pa_run ops s) token = Some x"
  using assms
proof (induction ops arbitrary: s)
  case (Cons op ops)
  then have "hm_get (pa_exec op s) token = Some x"
    by (cases op) (auto simp: pa_issue_def hm_get_put pa_consume_snd pa_purge_def Let_def hm_get_retain)
  with Cons show ?case by (simp add: pa_run_def pa_exec_ok)
qed (simp add: pa_run_def)

section \<open>Backup codes\<close>

definition backup_code_count :: nat where "backup_code_count = 8"
definition backup_code_len :: nat where "backup_code_len = 8"

text \<open>\<open>rng\<close> is the list of 32-bit random numbers drawn; the hash is expected to succeed.\<close>

definition backup_code :: "32 word \<Rightarrow> string" where
  "backup_code r = show_padded 8 (unat r mod 100000000)"

definition generate_backup_codes :: "bcrypt_hash \<Rightarrow> (nat \<Rightarrow> 32 word) \<Rightarrow> (string list \<times> string list) option" where
  "generate_backup_codes bc rng =
     (let plain = map (\<lambda>i. backup_code (rng i)) [0..<backup_code_count] in
      case ok_of (collect_results (map (hash_password bc) plain)) of
        None \<Rightarrow> None
      | Some hashed \<Rightarrow> Some (plain, hashed))"

fun vbc_loop :: "bcrypt_verify \<Rightarrow> string \<Rightarrow> string list \<Rightarrow> bool \<Rightarrow> string list \<Rightarrow> bool \<times> string list" where
  "vbc_loop bv code [] matched remaining = (matched, remaining)"
| "vbc_loop bv code (h # hs) matched remaining =
     (if \<not> matched \<and> unwrap_or False (verify_password bv code h)
      then vbc_loop bv code hs True remaining
      else vbc_loop bv code hs matched (remaining @ [h]))"

definition verify_backup_code :: "bcrypt_verify \<Rightarrow> string list \<Rightarrow> string \<Rightarrow> string list option" where
  "verify_backup_code bv stored code =
     (let (matched, remaining) = vbc_loop bv code stored False []
      in if matched then Some remaining else None)"

abbreviation code_matches :: "bcrypt_verify \<Rightarrow> string \<Rightarrow> string \<Rightarrow> bool" where
  "code_matches bv code h \<equiv> unwrap_or False (verify_password bv code h)"

lemma vbc_loop_matched: "vbc_loop bv code hs True r = (True, r @ hs)"
  by (induction hs arbitrary: r) auto

lemma vbc_loop_split: "vbc_loop bv code hs False r =
    (case dropWhile (\<lambda>h. \<not> code_matches bv code h) hs of
       [] \<Rightarrow> (False, r @ hs)
     | _ # post \<Rightarrow> (True, r @ takeWhile (\<lambda>h. \<not> code_matches bv code h) hs @ post))"
  by (induction hs arbitrary: r)
    (auto simp: vbc_loop_matched simp del: dropWhile_eq_Nil_conv split: list.split)

section \<open>Properties\<close>

text \<open>A pre-authentication token is single use: once it has been presented, successfully or too late,
  no sequence of issuing, consuming and purging makes it consumable again.\<close>

theorem preauth_single_use:
  assumes "pa_ok (s, drawn)" and "token \<in> set drawn"
    and "pa_step\<^sup>*\<^sup>* (snd (pa_consume now token s), drawn) (s', drawn')"
  shows "fst (pa_consume now' token s') = None"
proof -
  have ok: "pa_ok (snd (pa_consume now token s), drawn)"
    using pa_ok_step[OF assms(1) pa_step.consume] by simp
  have "hm_ok s" using assms(1) by (simp add: pa_ok_def)
  then have "pa_spent (snd (pa_consume now token s), drawn) token"
    using assms(2) by (simp add: pa_spent_def pa_consume_snd)
  from pre.spent_forever[OF assms(3) ok this] show ?thesis
    unfolding pa_accepts_def fst_conv by blast
qed

theorem preauth_single_use_witness:
  "fst (pa_consume 10 ''t'' (snd (pa_consume 5 ''t'' (snd (pa_issue ''t'' 0 ''1'' ''ann'' pa_new))))) = None
   \<and> fst (pa_consume 5 ''t'' (snd (pa_issue ''t'' 0 ''1'' ''ann'' pa_new))) \<noteq> None"
proof -
  let ?s = "snd (pa_issue ''t'' 0 ''1'' ''ann'' pa_new)"
  have "pa_ok (?s, [''t''])"
    by (simp add: pa_ok_def pa_issue_def pa_new_def hm_defs)
  from preauth_single_use[OF this _ rtranclp.rtrancl_refl, of "''t''" 10 5] show ?thesis
    by (simp add: pa_consume_def pa_issue_def pa_new_def hm_defs i64_add_def preauth_ttl_secs_def in_i64_def Let_def)
qed

text \<open>An issued token is consumable exactly up to five minutes after it was issued, as the user it was
  issued for, after any sequence of operations that neither presents nor re-issues that token and
  whose purges read a clock not beyond its expiry.\<close>

theorem preauth_window:
  assumes "hm_ok s" and "in_i64 (t0 + 300)" and "list_all (spares token (t0 + 300)) ops"
  shows "map_option (\<lambda>x. (pa_user_id x, pa_username x))
           (fst (pa_consume now token (pa_run ops (snd (pa_issue token t0 uid un s)))))
         = (if now \<le> t0 + 300 then Some (uid, un) else None)"
proof -
  let ?x = "\<lparr> pa_user_id = uid, pa_username = un, pa_expires = t0 + 300, pa_consumed = False \<rparr>"
  have "hm_get (snd (pa_issue token t0 uid un s)) token = Some ?x" "hm_ok (snd (pa_issue token t0 uid un s))"
    using assms(1,2) by (simp_all add: pa_issue_def hm_get_put i64_add_def preauth_ttl_secs_def)
  then have "hm_get (pa_run ops (snd (pa_issue token t0 uid un s))) token = Some ?x"
    using assms(3) by (intro pa_run_spares) simp_all
  then show ?thesis by (simp add: pa_consume_fst)
qed

theorem preauth_window_witness:
  "map_option pa_user_id (fst (pa_consume 300 ''t'' (pa_run [OpConsume 9 ''o'', OpPurge 300]
      (snd (pa_issue ''t'' 0 ''1'' ''ann'' pa_new))))) = Some ''1''"
proof -
  have "hm_ok pa_new" "in_i64 (0 + 300)" "list_all (spares ''t'' (0 + 300)) [OpConsume 9 ''o'', OpPurge 300]"
    by (simp_all add: pa_new_def in_i64_def)
  from preauth_window[OF this, of 300 "''1''" "''ann''"] show ?thesis by auto
qed

text \<open>Purging is unobservable: with a clock that does not run backwards, every later attempt to consume
  any token gives the same answer with and without the purge.\<close>

theorem purge_unobservable:
  assumes "hm_ok s" and "now \<le> now'"
  shows "fst (pa_consume now' token (snd (pa_purge now s))) = fst (pa_consume now' token s)
     \<and> fst (pa_purge now s) + pa_count (snd (pa_purge now s)) = pa_count s"
proof -
  have "length (hm_retain P s) \<le> length s" for P by (simp add: hm_retain_def)
  then show ?thesis
    using assms by (auto simp: pa_consume_fst pa_purge_def Let_def hm_get_retain pa_count_def split: option.splits)
qed

theorem purge_unobservable_witness:
  "fst (pa_consume 301 ''t'' (snd (pa_purge 301 (snd (pa_issue ''t'' 0 ''1'' ''ann'' pa_new))))) = None"
proof -
  have "hm_ok (snd (pa_issue ''t'' 0 ''1'' ''ann'' pa_new))" by (simp add: pa_issue_def pa_new_def)
  from purge_unobservable[OF this, of 301 301 "''t''"] show ?thesis
    by (simp add: pa_consume_fst pa_issue_def pa_new_def hm_get_put i64_add_def preauth_ttl_secs_def in_i64_def)
qed

text \<open>A backup code is accepted exactly when some stored hash matches it, and then precisely the first
  matching hash is removed and the order of the others is kept.\<close>

theorem backup_code_removes_first_match:
  "verify_backup_code bv stored code = Some remaining \<longleftrightarrow>
     (\<exists>pre h post. stored = pre @ h # post \<and> code_matches bv code h
        \<and> list_all (\<lambda>g. \<not> code_matches bv code g) pre \<and> remaining = pre @ post)"
proof (cases "dropWhile (\<lambda>h. \<not> code_matches bv code h) stored")
  case Nil
  then have "verify_backup_code bv stored code = None"
    by (simp add: verify_backup_code_def vbc_loop_split del: dropWhile_eq_Nil_conv)
  with Nil show ?thesis by auto
next
  case (Cons h post)
  let ?P = "\<lambda>h. \<not> code_matches bv code h"
  have split: "stored = takeWhile ?P stored @ h # post" using takeWhile_dropWhile_id[of ?P stored] Cons by simp
  have h: "code_matches bv code h" using Cons by (metis dropWhile_eq_Cons_conv)
  have pre: "list_all ?P (takeWhile ?P stored)" by (auto simp: list_all_iff dest: set_takeWhileD)
  have res: "verify_backup_code bv stored code = Some (takeWhile ?P stored @ post)"
    by (simp add: verify_backup_code_def vbc_loop_split Cons)
  have uniq: "pre @ post' = takeWhile ?P stored @ post"
    if "stored = pre @ h' # post'" "code_matches bv code h'" "list_all ?P pre" for pre h' post'
  proof -
    have "takeWhile ?P (pre @ h' # post') = pre" "dropWhile ?P (pre @ h' # post') = h' # post'"
      using that(2,3) by (simp_all add: list_all_iff takeWhile_append2 dropWhile_append2)
    then show ?thesis using that(1) Cons by simp
  qed
  show ?thesis
  proof
    assume "verify_backup_code bv stored code = Some remaining"
    then show "\<exists>pre h post. stored = pre @ h # post \<and> code_matches bv code h
        \<and> list_all (\<lambda>g. \<not> code_matches bv code g) pre \<and> remaining = pre @ post"
      using res split h pre by (metis option.inject)
  next
    assume "\<exists>pre h post. stored = pre @ h # post \<and> code_matches bv code h
        \<and> list_all (\<lambda>g. \<not> code_matches bv code g) pre \<and> remaining = pre @ post"
    then show "verify_backup_code bv stored code = Some remaining" using res uniq by metis
  qed
qed

end
