(* ===== verification/Base32.thy ===== *)
theory Base32
  imports Prelude
begin

unbundle bit_operations_syntax

text \<open>
  The base32 codec of the TOTP secrets (\<open>base32_encode\<close> and \<open>base32_decode\<close> of
  \<open>src/auth/totp.rs\<close>), with its 64-bit shift buffer kept at its width.
\<close>

definition b32_alphabet :: string where
  "b32_alphabet = ''ABCDEFGHIJKLMNOPQRSTUVWXYZ234567''"

section \<open>Encoder\<close>

text \<open>The inner \<open>while bits >= 5\<close> loop.\<close>

fun b32_emit :: "64 word \<Rightarrow> nat \<Rightarrow> string \<Rightarrow> nat \<times> string" where
  "b32_emit buffer bits out =
     (if bits \<ge> 5
      then b32_emit buffer (bits - 5) (out @ [b32_alphabet ! unat (drop_bit (bits - 5) buffer AND 0x1f)])
      else (bits, out))"

declare b32_emit.simps [simp del]

fun b32_encode_loop :: "8 word list \<Rightarrow> 64 word \<Rightarrow> nat \<Rightarrow> string \<Rightarrow> 64 word \<times> nat \<times> string" where
  "b32_encode_loop [] buffer bits out = (buffer, bits, out)"
| "b32_encode_loop (byte # bytes) buffer bits out =
     (let buffer' = push_bit 8 buffer OR ucast byte;
          (bits', out') = b32_emit buffer' (bits + 8) out
      in b32_encode_loop bytes buffer' bits' out')"

definition base32_encode :: "8 word list \<Rightarrow> string" where
  "base32_encode bytes =
     (let (buffer, bits, out) = b32_encode_loop bytes 0 0 []
      in if bits > 0 then out @ [b32_alphabet ! unat (push_bit (5 - bits) buffer AND 0x1f)] else out)"

section \<open>Decoder\<close>

fun position :: "('a \<Rightarrow> bool) \<Rightarrow> 'a list \<Rightarrow> nat option" where
  "position P [] = None"
| "position P (x # xs) = (if P x then Some 0 else map_option Suc (position P xs))"

definition is_ascii_lowercase :: "char \<Rightarrow> bool" where
  "is_ascii_lowercase c = (97 \<le> byte_of c \<and> byte_of c \<le> 122)"

definition to_ascii_uppercase :: "char \<Rightarrow> char" where
  "to_ascii_uppercase c = (if is_ascii_lowercase c then char_of (byte_of c - 32) else c)"

definition b32_index :: "char \<Rightarrow> nat option" where
  "b32_index ch = (if is_ascii_lowercase ch
                   then position (\<lambda>a. a = to_ascii_uppercase ch) b32_alphabet
                   else position (\<lambda>a. a = ch) b32_alphabet)"

fun b32_decode_loop :: "string \<Rightarrow> 64 word \<Rightarrow> nat \<Rightarrow> 8 word list \<Rightarrow> (string, 8 word list) result" where
  "b32_decode_loop [] buffer bits out = Ok out"
| "b32_decode_loop (ch # s) buffer bits out =
     (case b32_index ch of
        None \<Rightarrow> Err (''invalid base32 char: '' @ [ch])
      | Some idx \<Rightarrow>
          let buffer' = push_bit 5 buffer OR of_nat idx; bits' = bits + 5 in
          if bits' \<ge> 8
          then b32_decode_loop s buffer' (bits' - 8) (out @ [ucast (drop_bit (bits' - 8) buffer')])
          else b32_decode_loop s buffer' bits' out)"

definition base32_decode :: "string \<Rightarrow> (string, 8 word list) result" where
  "base32_decode s = b32_decode_loop s 0 0 []"

section \<open>The shift buffer as a number\<close>

text \<open>The value of a digit list, most significant first, in base \<open>2 ^ k\<close>.\<close>

definition val :: "nat \<Rightarrow> nat list \<Rightarrow> nat" where
  "val k ds = foldl (\<lambda>n d. 2 ^ k * n + d) 0 ds"

lemma val_snoc [simp]: "val k (ds @ [d]) = 2 ^ k * val k ds + d"
  by (simp add: val_def)

lemma val_Nil [simp]: "val k [] = 0"
  by (simp add: val_def)

lemma val_inj:
  assumes "length xs = length ys" "val k xs = val k ys"
    and "\<forall>x\<in>set xs. x < 2 ^ k" "\<forall>y\<in>set ys. y < 2 ^ k"
  shows "xs = ys"
  using assms
proof (induction xs arbitrary: ys rule: rev_induct)
  case (snoc x xs)
  then obtain ys' y where ys: "ys = ys' @ [y]" by (cases ys rule: rev_cases) auto
  have "2 ^ k * val k xs + x = 2 ^ k * val k ys' + y" "x < 2 ^ k" "y < 2 ^ k"
    using snoc.prems ys by simp_all
  then have "x = y \<and> val k xs = val k ys'"
    by (metis add.commute div_mult_self2 div_less mod_mult_self2 mod_less add.right_neutral
        less_nat_zero_code power_not_zero zero_neq_numeral add_0)
  then show ?case using snoc ys by auto
qed simp

text \<open>Shifting in \<open>k\<close> bits, read modulo the bits still in use.\<close>

lemma shift_in:
  fixes buffer w :: "64 word"
  assumes "unat w < 2 ^ k" "k \<le> 8" "m \<le> 64"
  shows "unat (push_bit k buffer OR w) mod 2 ^ m = (2 ^ k * unat buffer + unat w) mod 2 ^ m"
proof -
  have w: "take_bit k w = w"
    using assms(1) by (simp add: word_unat_eq_iff unsigned_take_bit_eq take_bit_nat_eq_self)
  have "push_bit k buffer AND w = 0"
    by (subst w[symmetric]) (simp add: bit_eq_iff bit_simps)
  then have "push_bit k buffer OR w = push_bit k buffer + w"
    by (simp add: disjunctive_add_eq_or)
  moreover have "unat (push_bit k buffer + w) mod 2 ^ m = (2 ^ k * unat buffer + unat w) mod 2 ^ m"
  proof -
    have "(2::nat) ^ m dvd 2 ^ 64" using assms(3) by (rule le_imp_power_dvd)
    then have "(2 ^ k * unat buffer + unat w) mod 2 ^ 64 mod 2 ^ m = (2 ^ k * unat buffer + unat w) mod 2 ^ m"
      by (rule mod_mod_cancel)
    moreover have "push_bit k buffer + w = of_nat (2 ^ k * unat buffer + unat w)"
      by (simp add: push_bit_eq_mult mult.commute)
    then have "unat (push_bit k buffer + w) = take_bit LENGTH(64) (2 ^ k * unat buffer + unat w)"
      by (simp only: unsigned_of_nat of_nat_id)
    ultimately show ?thesis by (simp only: take_bit_eq_mod len_bit0 len_num1) simp
  qed
  ultimately show ?thesis by simp
qed

lemma unat_shift_right:
  fixes buffer :: "64 word"
  shows "unat (drop_bit b buffer) = unat buffer div 2 ^ b"
proof -
  have "unat buffer < 2 ^ LENGTH(64)" by (rule unsigned_less)
  then have "take_bit 64 (unat buffer) = unat buffer"
    by (simp add: take_bit_nat_eq_self)
  then show ?thesis by (simp only: unsigned_drop_bit_eq len_bit0 len_num1 len_num0) (simp add: drop_bit_eq_div)
qed

lemma window:
  fixes buffer :: "64 word"
  shows "unat (drop_bit b buffer AND 0x1f) = unat buffer div 2 ^ b mod 32"
proof -
  have "drop_bit b buffer AND 0x1f = take_bit 5 (drop_bit b buffer)"
    by (simp add: take_bit_eq_mask mask_eq_exp_minus_1)
  then have "unat (drop_bit b buffer AND 0x1f) = take_bit 5 (unat (drop_bit b buffer))"
    by (simp only: unsigned_take_bit_eq)
  then show ?thesis by (simp only: unat_shift_right) (simp add: take_bit_eq_mod)
qed

lemma byte_window:
  fixes buffer :: "64 word"
  shows "unat (ucast (drop_bit b buffer) :: 8 word) = unat buffer div 2 ^ b mod 256"
proof -
  have "unat (ucast (drop_bit b buffer) :: 8 word) = take_bit 8 (unat (drop_bit b buffer))"
    by (simp only: unsigned_ucast_eq) simp
  then show ?thesis by (simp only: unat_shift_right) (simp add: take_bit_eq_mod)
qed

lemma alphabet_index: "i < 32 \<Longrightarrow> b32_index (b32_alphabet ! i) = Some i"
proof -
  have "\<forall>i\<in>set [0..<32]. b32_index (b32_alphabet ! i) = Some i"
    by code_simp
  then show "i < 32 \<Longrightarrow> ?thesis" by simp
qed

section \<open>Round trip\<close>

lemma shift_mod: "(2 ^ k * (n mod 2 ^ b) + d) mod 2 ^ (b + k) = (2 ^ k * n + (d::nat)) mod 2 ^ (b + k)"
proof -
  have "2 ^ k * n + d = 2 ^ k * (2 ^ b * (n div 2 ^ b) + n mod 2 ^ b) + d"
    by (simp only: mult_div_mod_eq)
  also have "\<dots> = (2 ^ k * (n mod 2 ^ b) + d) + 2 ^ (b + k) * (n div 2 ^ b)"
    by (simp only: power_add distrib_left mult.assoc mult.left_commute add.assoc add.commute add.left_commute)
  finally show ?thesis by (simp only: mod_mult_self2)
qed

lemma low_bits: "(a::nat) mod 2 ^ m = b mod 2 ^ m \<Longrightarrow> n \<le> m \<Longrightarrow> a mod 2 ^ n = b mod 2 ^ n"
proof -
  assume eq: "a mod 2 ^ m = b mod 2 ^ m" and "n \<le> m"
  from \<open>n \<le> m\<close> have d: "(2::nat) ^ n dvd 2 ^ m" by (rule le_imp_power_dvd)
  show ?thesis using mod_mod_cancel[OF d, of a] mod_mod_cancel[OF d, of b] eq by simp
qed

lemma shift_div: "(d::nat) < 2 ^ k \<Longrightarrow> (2 ^ k * n + d) div 2 ^ (b + k) = n div 2 ^ b"
proof -
  assume "d < 2 ^ k"
  then have "(2 ^ k * n + d) div 2 ^ k = n" by simp
  then show ?thesis by (metis add.commute div_mult2_eq power_add)
qed

text \<open>
  Invariant of the encoder: the output holds the leading digits of the input read as one number
  and the buffer holds the remaining \<open>bits\<close> bits.
\<close>

definition digits_ok :: "nat list \<Rightarrow> bool" where "digits_ok ds = (\<forall>d\<in>set ds. d < 32)"

definition text_of :: "nat list \<Rightarrow> string" where "text_of ds = map (\<lambda>d. b32_alphabet ! d) ds"

lemma div_mod_window: "(x::nat) div 2 ^ (b + 5) * 32 + x div 2 ^ b mod 32 = x div 2 ^ b"
  by (simp add: power_add div_mult2_eq mult.commute)

lemma mod_div_window: "b + k \<le> m \<Longrightarrow> ((x::nat) mod 2 ^ m) div 2 ^ b mod 2 ^ k = x div 2 ^ b mod 2 ^ k"
proof -
  assume m: "b + k \<le> m"
  have "x mod 2 ^ m div 2 ^ b mod 2 ^ k = take_bit k (drop_bit b (take_bit m x))"
    by (simp add: take_bit_eq_mod drop_bit_eq_div)
  also have "\<dots> = take_bit k (drop_bit b x)"
    using m by (simp add: drop_bit_take_bit)
  finally show ?thesis by (simp add: take_bit_eq_mod drop_bit_eq_div)
qed

lemma emit_digits:
  assumes "unat buffer mod 2 ^ bits = x mod 2 ^ bits" "digits_ok ds" "val 5 ds = x div 2 ^ bits"
    and "b32_emit buffer bits (text_of ds) = (bits', out')"
  shows "\<exists>ds'. out' = text_of ds' \<and> digits_ok ds' \<and> val 5 ds' = x div 2 ^ bits'
     \<and> bits' < 5 \<and> bits' \<le> bits \<and> 5 * length ds' + bits' = 5 * length ds + bits"
  using assms
proof (induction buffer bits "text_of ds" arbitrary: ds rule: b32_emit.induct)
  case (1 buffer bits)
  show ?case
  proof (cases "bits \<ge> 5")
    case False
    then show ?thesis using "1.prems" by (auto simp: b32_emit.simps[of buffer bits])
  next
    case True
    let ?d = "x div 2 ^ (bits - 5) mod 32"
    have "unat buffer div 2 ^ (bits - 5) mod 2 ^ 5 = x div 2 ^ (bits - 5) mod 2 ^ 5"
      using mod_div_window[of "bits - 5" 5 bits "unat buffer"] mod_div_window[of "bits - 5" 5 bits x]
        True "1.prems"(1) by simp
    then have d: "unat (drop_bit (bits - 5) buffer AND 0x1f) = ?d" by (simp add: window)
    have out: "text_of ds @ [b32_alphabet ! unat (drop_bit (bits - 5) buffer AND 0x1f)] = text_of (ds @ [?d])"
      by (simp add: text_of_def d)
    have low: "unat buffer mod 2 ^ (bits - 5) = x mod 2 ^ (bits - 5)"
      using low_bits[OF "1.prems"(1), of "bits - 5"] by simp
    have v: "val 5 (ds @ [?d]) = x div 2 ^ (bits - 5)"
      using "1.prems"(3) True div_mod_window[of x "bits - 5"] by simp
    have run: "b32_emit buffer (bits - 5) (text_of (ds @ [?d])) = (bits', out')"
      using "1.prems"(4) True out by (subst (asm) b32_emit.simps) simp
    have "digits_ok (ds @ [?d])" using "1.prems"(2) by (simp add: digits_ok_def)
    from "1.hyps"[OF True out low this v run] True show ?thesis by fastforce
  qed
qed

lemma encode_loop_digits:
  assumes "unat buffer mod 2 ^ bits = x mod 2 ^ bits" "digits_ok ds" "val 5 ds = x div 2 ^ bits" "bits < 5"
    and "b32_encode_loop bytes buffer bits (text_of ds) = (buffer', bits', out')"
  shows "\<exists>ds'. let x' = foldl (\<lambda>n b. 256 * n + unat b) x bytes in
     out' = text_of ds' \<and> digits_ok ds' \<and> val 5 ds' = x' div 2 ^ bits'
     \<and> unat buffer' mod 2 ^ bits' = x' mod 2 ^ bits' \<and> bits' < 5
     \<and> 5 * length ds' + bits' = 5 * length ds + bits + 8 * length bytes"
  using assms
proof (induction bytes arbitrary: buffer bits ds x)
  case Nil
  then show ?case by (auto simp: Let_def)
next
  case (Cons byte bytes)
  define buf where "buf = push_bit 8 buffer OR (ucast byte :: 64 word)"
  define x1 where "x1 = 256 * x + unat byte"
  obtain b1 o1 where em: "b32_emit buf (bits + 8) (text_of ds) = (b1, o1)" by fastforce
  have "unat byte < 2 ^ LENGTH(8)" by (rule unsigned_less)
  then have lt: "unat byte < 2 ^ 8" by simp
  have "unat (ucast byte :: 64 word) = take_bit 64 (unat byte)" by (simp only: unsigned_ucast_eq) simp
  then have ub: "unat (ucast byte :: 64 word) = unat byte" using lt by (simp add: take_bit_nat_eq_self)
  have "unat buf mod 2 ^ (bits + 8) = (2 ^ 8 * unat buffer + unat byte) mod 2 ^ (bits + 8)"
    using shift_in[of "ucast byte" 8 "bits + 8" buffer] lt Cons.prems(4) by (simp add: buf_def ub)
  also have "\<dots> = (2 ^ 8 * x + unat byte) mod 2 ^ (bits + 8)"
    using shift_mod[of 8 "unat buffer" bits "unat byte"] shift_mod[of 8 x bits "unat byte"]
    by (simp only: Cons.prems(1))
  finally have low: "unat buf mod 2 ^ (bits + 8) = x1 mod 2 ^ (bits + 8)" by (simp add: x1_def)
  have "x1 div 2 ^ (bits + 8) = x div 2 ^ bits"
    using shift_div[OF lt, of x bits] by (simp add: x1_def)
  then have hi: "val 5 ds = x1 div 2 ^ (bits + 8)" using Cons.prems(3) by simp
  from emit_digits[OF low Cons.prems(2) hi em] obtain ds1 where ds1:
    "o1 = text_of ds1" "digits_ok ds1" "val 5 ds1 = x1 div 2 ^ b1" "b1 < 5" "b1 \<le> bits + 8"
    "5 * length ds1 + b1 = 5 * length ds + (bits + 8)" by blast
  have low1: "unat buf mod 2 ^ b1 = x1 mod 2 ^ b1"
    using low_bits[OF low ds1(5)] .
  have run: "b32_encode_loop bytes buf b1 (text_of ds1) = (buffer', bits', out')"
    using Cons.prems(5) em ds1(1) by (simp add: buf_def Let_def)
  from Cons.IH[OF low1 ds1(2,3,4) run] ds1(6) show ?case by (auto simp: Let_def x1_def)
qed

text \<open>Invariant of the decoder.\<close>

definition bytes_val :: "8 word list \<Rightarrow> nat" where "bytes_val bs = val 8 (map unat bs)"

lemma byte_lt: "unat (b :: 8 word) < 2 ^ 8"
proof -
  have "unat b < 2 ^ LENGTH(8)" by (rule unsigned_less)
  then show ?thesis by simp
qed

lemma bytes_val_snoc: "bytes_val (bs @ [b]) = 256 * bytes_val bs + unat b"
  by (simp add: bytes_val_def)

lemma bytes_val_Nil [simp]: "bytes_val [] = 0"
  by (simp add: bytes_val_def)

lemma bytes_val_foldl: "bytes_val bs = foldl (\<lambda>n b. 256 * n + unat b) 0 bs"
  by (induction bs rule: rev_induct) (simp_all add: bytes_val_snoc)

lemma bytes_val_inj: "length bs = length cs \<Longrightarrow> bytes_val bs = bytes_val cs \<Longrightarrow> bs = cs"
  using val_inj[of "map unat bs" "map unat cs" 8] byte_lt
  by (auto simp: bytes_val_def inj_map_eq_map inj_def word_unat_eq_iff)

lemma unat_digit: "d < 32 \<Longrightarrow> unat (of_nat d :: 64 word) = d"
  by (simp add: unsigned_of_nat take_bit_nat_eq_self)

lemma decode_step:
  assumes "unat buffer mod 2 ^ bits = v mod 2 ^ bits" "d < 32" "bits < 8"
  shows "unat (push_bit 5 buffer OR of_nat d :: 64 word) mod 2 ^ (bits + 5) = (32 * v + d) mod 2 ^ (bits + 5)"
proof -
  have "unat (push_bit 5 buffer OR of_nat d :: 64 word) mod 2 ^ (bits + 5)
      = (2 ^ 5 * unat buffer + d) mod 2 ^ (bits + 5)"
    using shift_in[of "of_nat d" 5 "bits + 5" buffer] assms(3) unat_digit[OF assms(2)] assms(2) by simp
  also have "\<dots> = (2 ^ 5 * v + d) mod 2 ^ (bits + 5)"
    using shift_mod[of 5 "unat buffer" bits d] shift_mod[of 5 v bits d] by (simp only: assms(1))
  finally show ?thesis by simp
qed

lemma decode_loop_bytes:
  assumes "unat buffer mod 2 ^ bits = v mod 2 ^ bits" "bytes_val out = v div 2 ^ bits" "bits < 8"
    and "digits_ok ds"
  shows "\<exists>bs p. b32_decode_loop (text_of ds) buffer bits out = Ok bs
     \<and> bytes_val bs = foldl (\<lambda>n d. 32 * n + d) v ds div 2 ^ p \<and> p < 8
     \<and> 8 * length bs + p = 8 * length out + bits + 5 * length ds"
  using assms
proof (induction ds arbitrary: buffer bits out v)
  case Nil
  then show ?case by (auto simp: text_of_def)
next
  case (Cons d ds)
  have d: "d < 32" "digits_ok ds" using Cons.prems(4) by (simp_all add: digits_ok_def)
  define buf where "buf = (push_bit 5 buffer OR of_nat d :: 64 word)"
  define v1 where "v1 = 32 * v + d"
  have low: "unat buf mod 2 ^ (bits + 5) = v1 mod 2 ^ (bits + 5)"
    using decode_step[OF Cons.prems(1) d(1) Cons.prems(3)] by (simp add: buf_def v1_def)
  have hi: "bytes_val out = v1 div 2 ^ (bits + 5)"
    using shift_div[of d 5 v bits] d(1) Cons.prems(2) by (simp add: v1_def)
  show ?case
  proof (cases "bits + 5 \<ge> 8")
    case False
    then have "b32_decode_loop (text_of (d # ds)) buffer bits out = b32_decode_loop (text_of ds) buf (bits + 5) out"
      using d by (simp add: text_of_def alphabet_index buf_def Let_def)
    moreover have "bits + 5 < 8" using False by simp
    ultimately show ?thesis using Cons.IH[OF low hi _ d(2)] by (auto simp: v1_def algebra_simps)
  next
    case True
    define r where "r = bits + 5 - 8"
    have r: "bits + 5 = r + 8" "r < 8" using True Cons.prems(3) by (simp_all add: r_def)
    let ?b = "ucast (drop_bit r buf) :: 8 word"
    have step: "b32_decode_loop (text_of (d # ds)) buffer bits out = b32_decode_loop (text_of ds) buf r (out @ [?b])"
      using d True by (simp add: text_of_def alphabet_index buf_def Let_def r_def)
    have "unat ?b = v1 div 2 ^ r mod 2 ^ 8"
      using mod_div_window[of r 8 "bits + 5" "unat buf"] mod_div_window[of r 8 "bits + 5" v1] low r
      by (simp add: byte_window)
    then have hi1: "bytes_val (out @ [?b]) = v1 div 2 ^ r"
      by (simp add: bytes_val_snoc hi r power_add div_mult2_eq)
    have low1: "unat buf mod 2 ^ r = v1 mod 2 ^ r"
      using low_bits[OF low, of r] r(1) by simp
    have len: "8 * length (out @ [?b]) + r = 8 * length out + bits + 5" using r(1) by simp
    obtain bs p where "b32_decode_loop (text_of ds) buf r (out @ [?b]) = Ok bs"
      "bytes_val bs = foldl (\<lambda>n d. 32 * n + d) v1 ds div 2 ^ p" "p < 8"
      "8 * length bs + p = 8 * length (out @ [?b]) + r + 5 * length ds"
      using Cons.IH[OF low1 hi1 r(2) d(2)] by blast
    then show ?thesis using step len by (intro exI[of _ bs] exI[of _ p]) (simp add: v1_def)
  qed
qed

lemma val5_foldl: "val 5 ds = foldl (\<lambda>n d. 32 * n + d) 0 ds"
  by (simp add: val_def)

lemma encode_digits:
  "\<exists>ds p. base32_encode bytes = text_of ds \<and> digits_ok ds
     \<and> val 5 ds = 2 ^ p * bytes_val bytes \<and> p < 5 \<and> 5 * length ds = 8 * length bytes + p"
proof -
  obtain buffer bits out where run: "b32_encode_loop bytes 0 0 (text_of []) = (buffer, bits, out)"
    by (metis prod_cases3)
  have "digits_ok []" by (simp add: digits_ok_def)
  from encode_loop_digits[OF _ this _ _ run, of 0] obtain ds where ds: "out = text_of ds" "digits_ok ds"
    "val 5 ds = bytes_val bytes div 2 ^ bits" "unat buffer mod 2 ^ bits = bytes_val bytes mod 2 ^ bits"
    "bits < 5" "5 * length ds + bits = 8 * length bytes"
    by (auto simp: Let_def bytes_val_foldl)
  show ?thesis
  proof (cases "bits = 0")
    case True
    then show ?thesis using run ds
      by (intro exI[of _ ds] exI[of _ 0]) (simp add: base32_encode_def text_of_def)
  next
    case False
    let ?k = "5 - bits"
    let ?d = "2 ^ ?k * (bytes_val bytes mod 2 ^ bits)"
    have k: "bits + ?k = 5" using ds(5) by simp
    have "unat (push_bit ?k buffer AND 0x1f) = unat (push_bit ?k buffer OR 0) mod 2 ^ 5"
      using window[of 0 "push_bit ?k buffer"] by simp
    also have "\<dots> = (2 ^ ?k * unat buffer + 0) mod 2 ^ 5"
      using shift_in[of 0 ?k 5 buffer] by simp
    also have "\<dots> = (2 ^ ?k * (unat buffer mod 2 ^ bits) + 0) mod 2 ^ (bits + ?k)"
      using shift_mod[of ?k "unat buffer" bits 0] by (simp only: k)
    also have "\<dots> = ?d"
      using k mult_strict_left_mono[of "bytes_val bytes mod 2 ^ bits" "2 ^ bits" "2 ^ ?k"]
      by (simp add: ds(4) power_add[symmetric] mult.commute)
    finally have d: "unat (push_bit ?k buffer AND 0x1f) = ?d" .
    have "unat (push_bit ?k buffer AND 0x1f) < 32"
      using window[of 0 "push_bit ?k buffer"] by simp
    then have d32: "?d < 32" by (simp only: d)
    have "val 5 (ds @ [?d]) = 2 ^ ?k * bytes_val bytes"
    proof -
      have "(2::nat) ^ 5 = 2 ^ ?k * 2 ^ bits" using k by (metis power_add add.commute)
      then have "val 5 (ds @ [?d]) = 2 ^ ?k * (2 ^ bits * (bytes_val bytes div 2 ^ bits) + bytes_val bytes mod 2 ^ bits)"
        by (simp only: val_snoc ds(3) distrib_left mult.assoc)
      then show ?thesis by (simp only: mult_div_mod_eq)
    qed
    moreover have "base32_encode bytes = text_of (ds @ [?d])"
      using run ds(1) False d by (simp add: base32_encode_def text_of_def)
    ultimately show ?thesis using ds(2,5,6) d32 False
      by (intro exI[of _ "ds @ [?d]"] exI[of _ ?k]) (auto simp: digits_ok_def)
  qed
qed

section \<open>Property\<close>

text \<open>C39. Base32 encoding loses nothing: decoding the encoding of any byte string returns it, for every
  length, although both loops shift a 64-bit buffer that overflows.\<close>

theorem base32_roundtrip: "base32_decode (base32_encode bytes) = Ok bytes"
proof -
  obtain ds p where e: "base32_encode bytes = text_of ds" "digits_ok ds"
    "val 5 ds = 2 ^ p * bytes_val bytes" "p < 5" "5 * length ds = 8 * length bytes + p"
    using encode_digits by blast
  obtain bs q where b: "b32_decode_loop (text_of ds) 0 0 [] = Ok bs"
    "bytes_val bs = val 5 ds div 2 ^ q" "q < 8" "8 * length bs + q = 5 * length ds"
    using decode_loop_bytes[of 0 0 0 "[]" ds] e(2) by (auto simp: bytes_val_def val5_foldl)
  have eq: "8 * length bs + q = 8 * length bytes + p" using e(5) b(4) by simp
  have "length bs = length bytes" "q = p"
    using arg_cong[OF eq, of "\<lambda>n. n div 8"] arg_cong[OF eq, of "\<lambda>n. n mod 8"] e(4) b(3) by simp_all
  then have "bs = bytes" using b(2) e(3) by (intro bytes_val_inj) simp_all
  then show ?thesis using b(1) e(1) by (simp add: base32_decode_def)
qed

end
