(* ===== verification/Totp.thy ===== *)
theory Totp
  imports Base32
begin

text \<open>
  Time-based one-time passwords (\<open>src/auth/totp.rs\<close>): code computation, the acceptance window, the
  \<open>otpauth\<close> URL. HMAC-SHA1 is the parameter \<open>hmac secret message\<close>; that it returns 20 bytes is a
  named hypothesis.
\<close>

section \<open>Codes\<close>

type_synonym hmac_sha1 = "8 word list \<Rightarrow> 8 word list \<Rightarrow> 8 word list"

definition hmac_20 :: "hmac_sha1 \<Rightarrow> bool" where
  "hmac_20 hmac = (\<forall>k m. length (hmac k m) = 20)"

definition to_be_bytes :: "64 word \<Rightarrow> 8 word list" where
  "to_be_bytes w = map (\<lambda>i. ucast (drop_bit (8 * i) w)) [7, 6, 5, 4, 3, 2, 1, 0]"

definition truncated :: "8 word list \<Rightarrow> 32 word" where
  "truncated r =
     (let offset = unat ((r ! 19) AND 0x0f) in
      push_bit 24 (ucast (r ! offset) AND 0x7f)
      OR push_bit 16 (ucast (r ! (offset + 1)))
      OR push_bit 8 (ucast (r ! (offset + 2)))
      OR ucast (r ! (offset + 3)))"

definition compute_totp :: "hmac_sha1 \<Rightarrow> 8 word list \<Rightarrow> 64 word \<Rightarrow> string" where
  "compute_totp hmac secret counter =
     show_padded 6 (unat (truncated (hmac secret (to_be_bytes counter))) mod 1000000)"

text \<open>
  The clock is the number of seconds since the epoch. The inclusive range from
  \<open>counter.saturating_sub(1)\<close> to \<open>counter.saturating_add(1)\<close> is listed on natural numbers; on them
  subtraction saturates at 0, and the upper end is capped at the largest 64-bit value.
\<close>

definition totp_window :: "64 word \<Rightarrow> 64 word list" where
  "totp_window now =
     (let counter = unat (now div 30)
      in map of_nat [counter - 1 ..< Suc (min (counter + 1) (2 ^ 64 - 1))])"

definition verify_totp :: "hmac_sha1 \<Rightarrow> 64 word \<Rightarrow> string \<Rightarrow> string \<Rightarrow> bool" where
  "verify_totp hmac now secret_b32 code =
     (case base32_decode secret_b32 of
        Inl _ \<Rightarrow> False
      | Inr secret \<Rightarrow> list_ex (\<lambda>c. compute_totp hmac secret c = code) (totp_window now))"

text \<open>The 20 random bytes are an argument.\<close>

definition generate_totp_secret :: "8 word list \<Rightarrow> string" where
  "generate_totp_secret buf = base32_encode buf"

section \<open>The enrolment URL\<close>

definition hex_upper :: "nat \<Rightarrow> char" where
  "hex_upper d = (if d < 10 then char_of (48 + d) else char_of (55 + d))"

definition url_plain :: "char \<Rightarrow> bool" where
  "url_plain c = (let b = byte_of c in
     (65 \<le> b \<and> b \<le> 90) \<or> (97 \<le> b \<and> b \<le> 122) \<or> (48 \<le> b \<and> b \<le> 57)
     \<or> b = 45 \<or> b = 46 \<or> b = 95 \<or> b = 126 \<or> b = 58)"

definition url_encode_byte :: "char \<Rightarrow> string" where
  "url_encode_byte c =
     (if url_plain c then [c]
      else if byte_of c = 32 then ''%20''
      else [CHR ''%'', hex_upper (byte_of c div 16), hex_upper (byte_of c mod 16)])"

definition url_encode :: "string \<Rightarrow> string" where
  "url_encode s = concat (map url_encode_byte s)"

definition totp_url :: "string \<Rightarrow> string \<Rightarrow> string \<Rightarrow> string" where
  "totp_url issuer username secret =
     ''otpauth://totp/'' @ url_encode (issuer @ '':'' @ username) @ ''?secret='' @ url_encode secret
     @ ''&issuer='' @ url_encode issuer @ ''&algorithm=SHA1&digits=6&period=30''"

text \<open>Percent decoding, the reference that the encoder is measured against.\<close>

definition unhex :: "char \<Rightarrow> nat" where
  "unhex c = (if byte_of c \<le> 57 then byte_of c - 48 else byte_of c - 55)"

fun url_decode :: "string \<Rightarrow> string" where
  "url_decode [] = []"
| "url_decode (c # s) =
     (if c = CHR ''%''
      then (case s of a # b # r \<Rightarrow> char_of (16 * unhex a + unhex b) # url_decode r | _ \<Rightarrow> [])
      else c # url_decode s)"

section \<open>Windows\<close>

lemma unat_div30: "unat (now div 30) = unat (now :: 64 word) div 30"
  by (simp add: unat_div)

lemma window_set: "set (totp_window now) =
    of_nat ` {c. c \<le> unat (now :: 64 word) div 30 + 1 \<and> unat now div 30 \<le> c + 1}"
proof -
  have "unat now < 2 ^ LENGTH(64)" by (rule unsigned_less)
  then have "unat now div 30 + 1 < 2 ^ 64" by simp
  then have "min (unat now div 30 + 1) (2 ^ 64 - 1) = unat now div 30 + 1" by simp
  then have "set (totp_window now) = of_nat ` {unat now div 30 - 1 ..< Suc (unat now div 30 + 1)}"
    by (simp only: totp_window_def Let_def unat_div30 set_map set_upt)
  moreover have "{n - 1 ..< Suc (n + 1)} = {c. c \<le> n + 1 \<and> n \<le> c + 1}" for n :: nat by auto
  ultimately show ?thesis by simp
qed

lemma length_compute_totp: "length (compute_totp hmac secret c) = 6"
  by (simp add: compute_totp_def length_show_padded)

lemma totp_accept_iff: "verify_totp hmac now secret code \<longleftrightarrow>
     (\<exists>key c. base32_decode secret = Ok key \<and> code = compute_totp hmac key (of_nat c)
        \<and> c \<le> unat now div 30 + 1 \<and> unat now div 30 \<le> c + 1)"
  by (auto simp: verify_totp_def list_ex_iff window_set split: sum.splits)

lemma digit_offset_bound: "unat ((b :: 8 word) AND 0x0f) < 16"
proof -
  have "b AND 0x0f = take_bit 4 b" by (simp add: take_bit_eq_mask mask_eq_exp_minus_1)
  then have "unat (b AND 0x0f) = take_bit 4 (unat b)" by (simp only: unsigned_take_bit_eq)
  then show ?thesis using take_bit_nat_less_exp[of 4 "unat b"] by simp
qed

lemma url_encode_Cons: "url_encode (c # s) = url_encode_byte c @ url_encode s"
  by (simp add: url_encode_def)

lemma byte_bound: "byte_of c < 256"
  using of_char_mod_256[of c, where ?'a = nat] by (simp add: byte_of_def)

lemma char_byte [simp]: "char_of (byte_of c) = c"
  by (simp add: byte_of_def)

lemma byte_of_hex: "d < 16 \<Longrightarrow> byte_of (hex_upper d) = (if d < 10 then 48 + d else 55 + d)"
  by (simp add: hex_upper_def byte_of_def)

lemma unhex_hex [simp]: "d < 16 \<Longrightarrow> unhex (hex_upper d) = d"
  by (simp add: unhex_def byte_of_hex)

lemma url_decode_byte: "url_decode (url_encode_byte c @ s) = c # url_decode s"
proof -
  have hex: "16 * (byte_of c div 16) + byte_of c mod 16 = byte_of c" by simp
  have "byte_of (CHR ''%'') = 37" by (simp add: byte_of_def)
  then have plain: "url_plain c \<Longrightarrow> c \<noteq> CHR ''%''" by (auto simp: url_plain_def Let_def)
  have space: "byte_of c = 32 \<Longrightarrow> c = CHR '' ''"
    by (rule byte_of_inj) (simp add: byte_of_def)
  have u: "unhex (CHR ''2'') = 2" "unhex (CHR ''0'') = 0" by (simp_all add: unhex_def byte_of_def)
  have "byte_of c div 16 < 16" using byte_bound[of c] by simp
  then show ?thesis
    using plain hex char_byte[of c]
    by (auto simp: url_encode_byte_def u simp del: char_byte)
qed

lemma url_encode_byte_safe: "x \<in> set (url_encode_byte c) \<Longrightarrow> url_plain x \<or> x = CHR ''%''"
proof -
  assume x: "x \<in> set (url_encode_byte c)"
  have "byte_of c div 16 < 16" using byte_bound[of c] by simp
  then have "url_plain (hex_upper (byte_of c div 16))" "url_plain (hex_upper (byte_of c mod 16))"
    by (auto simp: url_plain_def byte_of_hex Let_def)
  moreover have "url_plain (CHR ''2'')" "url_plain (CHR ''0'')" by (simp_all add: url_plain_def byte_of_def)
  ultimately show ?thesis using x by (auto simp: url_encode_byte_def split: if_splits)
qed

section \<open>Properties\<close>

text \<open>C38. The acceptance window: whatever is accepted is the code of the current 30-second step or of one
  of its two neighbours under a decodable secret, and the code computed for one instant is accepted
  at every instant at most 30 seconds away.\<close>

theorem totp_window_exact:
  "(verify_totp hmac now secret code \<longleftrightarrow>
     (\<exists>key c. base32_decode secret = Ok key \<and> code = compute_totp hmac key (of_nat c)
        \<and> c \<le> unat now div 30 + 1 \<and> unat now div 30 \<le> c + 1))
   \<and> (base32_decode secret = Ok key \<and> unat t \<le> unat now + 30 \<and> unat now \<le> unat t + 30
      \<longrightarrow> verify_totp hmac now secret (compute_totp hmac key (t div 30)))"
proof -
  have "verify_totp hmac now secret (compute_totp hmac key (t div 30))"
    if a: "base32_decode secret = Ok key" "unat t \<le> unat now + 30" "unat now \<le> unat t + 30"
  proof -
    have "unat t div 30 \<le> (unat now + 30) div 30" using a(2) by (rule div_le_mono)
    moreover have "unat now div 30 \<le> (unat t + 30) div 30" using a(3) by (rule div_le_mono)
    ultimately have "unat t div 30 \<le> unat now div 30 + 1" "unat now div 30 \<le> unat t div 30 + 1" by simp_all
    moreover have "t div 30 = of_nat (unat t div 30)" by (simp flip: unat_div30)
    ultimately show ?thesis using a(1) totp_accept_iff by metis
  qed
  then show ?thesis using totp_accept_iff by blast
qed

theorem totp_window_exact_witness:
  "verify_totp (\<lambda>k m. replicate 12 0 @ m) 1000 ''AEBA''
     (compute_totp (\<lambda>k m. replicate 12 0 @ m) [1, 2] (1030 div 30))"
proof -
  have "base32_decode ''AEBA'' = Inr [1, 2]" by code_simp
  then show ?thesis
    using totp_window_exact[of "\<lambda>k m. replicate 12 0 @ m" 1000 "''AEBA''" "[]" "[1, 2]" 1030] by simp
qed



text \<open>Percent encoding is injective and contains injection: the encoder is inverted by percent decoding,
  and the encoding of any issuer, user name or secret contains none of the delimiters of a URL
  query, so it can neither end a parameter nor start another one.\<close>

theorem url_encode_safe:
  "url_decode (url_encode s) = s
   \<and> set (url_encode s) \<inter> {CHR ''&'', CHR ''='', CHR ''?'', CHR ''#'', CHR ''/'', CHR '' ''} = {}"
proof
  show "url_decode (url_encode s) = s"
    by (induction s) (simp_all add: url_encode_Cons url_decode_byte, simp add: url_encode_def)
  have "x \<in> set (url_encode s) \<Longrightarrow> url_plain x \<or> x = CHR ''%''" for x
    by (auto simp: url_encode_def dest: url_encode_byte_safe)
  moreover have "\<not> url_plain x \<and> x \<noteq> CHR ''%''"
    if "x \<in> {CHR ''&'', CHR ''='', CHR ''?'', CHR ''#'', CHR ''/'', CHR '' ''}" for x
    using that by (auto simp: url_plain_def byte_of_def)
  ultimately show "set (url_encode s) \<inter> {CHR ''&'', CHR ''='', CHR ''?'', CHR ''#'', CHR ''/'', CHR '' ''} = {}"
    by blast
qed

end
