(* ===== verification/Ldap.thy ===== *)
theory Ldap
  imports Http
begin

text \<open>
  LDAP credential verification (\<open>src/auth/ldap.rs\<close>): service bind, search with the filter template,
  attribute extraction, and the second bind as the found entry. The directory (the \<open>ldap3\<close> crate and
  the server) is the parameter \<open>ldap_dir\<close>; TLS options are passed to it.
\<close>

record ldap_config =
  lc_enabled :: bool
  lc_url :: "string option"
  lc_base_dn :: "string option"
  lc_bind_dn :: "string option"
  lc_bind_password :: "string option"
  lc_user_filter :: string
  lc_username_attr :: string
  lc_displayname_attr :: string
  lc_email_attr :: string
  lc_default_role :: string
  lc_auto_create :: bool

record ldap_user_info =
  li_dn :: string
  li_username :: string
  li_display_name :: string
  li_email :: string

record ldap_entry =
  le_dn :: string
  le_attrs :: "(string \<times> string list) list"

text \<open>
  \<open>ld_connect url no_tls_verify\<close>; \<open>ld_bind dn password\<close> tells whether the bind succeeds; \<open>ld_search\<close> is
  \<open>None\<close> when the search fails.
\<close>

record ldap_dir =
  ld_connect :: "string \<Rightarrow> bool \<Rightarrow> bool"
  ld_bind :: "string \<Rightarrow> string \<Rightarrow> bool"
  ld_search :: "string \<Rightarrow> string \<Rightarrow> string list \<Rightarrow> ldap_entry list option"

text \<open>\<open>str::replace\<close> with a non-empty pattern.\<close>

function replace_all :: "string \<Rightarrow> string \<Rightarrow> string \<Rightarrow> string" where
  "replace_all pat by s =
     (if pat = [] \<or> s = [] then s
      else if take (length pat) s = pat then by @ replace_all pat by (drop (length pat) s)
      else hd s # replace_all pat by (tl s))"
  by pat_completeness auto
termination by (relation "measure (\<lambda>(pat, by, s). length s)") auto

declare replace_all.simps [simp del]

definition ldap_filter :: "ldap_config \<Rightarrow> string \<Rightarrow> string" where
  "ldap_filter cfg username = replace_all ''{username}'' username (lc_user_filter cfg)"

definition default_ldap_filter :: string where
  "default_ldap_filter = ''(&(objectClass=person)(uid={username}))''"

definition starts_with :: "string \<Rightarrow> string \<Rightarrow> bool" where
  "starts_with p s = (take (length p) s = p)"

definition first_attr :: "ldap_entry \<Rightarrow> string \<Rightarrow> string option" where
  "first_attr e a = (case map_of (le_attrs e) a of Some (v # _) \<Rightarrow> Some v | _ \<Rightarrow> None)"

definition verify_ldap_credentials :: "ldap_dir \<Rightarrow> ldap_config \<Rightarrow> string \<Rightarrow> string \<Rightarrow> ldap_user_info option" where
  "verify_ldap_credentials dir cfg username password =
     (case (lc_url cfg, lc_base_dn cfg, lc_bind_dn cfg, lc_bind_password cfg) of
        (Some url, Some base_dn, Some bind_dn, Some bind_password) \<Rightarrow>
          if \<not> ld_connect dir url (\<not> starts_with ''ldaps://'' url) then None
          else if \<not> ld_bind dir bind_dn bind_password then None
          else (case ld_search dir base_dn (ldap_filter cfg username)
                       [lc_username_attr cfg, lc_displayname_attr cfg, lc_email_attr cfg] of
                  None \<Rightarrow> None
                | Some [] \<Rightarrow> None
                | Some (entry # _) \<Rightarrow>
                    let username_val = (case first_attr entry (lc_username_attr cfg) of
                                          None \<Rightarrow> username | Some v \<Rightarrow> v);
                        display_name = (case first_attr entry (lc_displayname_attr cfg) of
                                          None \<Rightarrow> username_val | Some v \<Rightarrow> v);
                        email = (case first_attr entry (lc_email_attr cfg) of None \<Rightarrow> [] | Some v \<Rightarrow> v)
                    in if \<not> ld_bind dir (le_dn entry) password then None
                       else Some \<lparr> li_dn = le_dn entry, li_username = username_val,
                                   li_display_name = display_name, li_email = email \<rparr>)
      | _ \<Rightarrow> None)"

definition ldap_user_id :: "string \<Rightarrow> string" where "ldap_user_id username = ''ldap-'' @ username"

lemma ldap_user_id_inj: "ldap_user_id a = ldap_user_id b \<longleftrightarrow> a = b"
  by (simp add: ldap_user_id_def)

lemma default_filter_parts: "default_ldap_filter = ''(&(objectClass=person)(uid='' @ ''{username}'' @ ''))''"
  by (simp add: default_ldap_filter_def)

lemma replace_step: "s \<noteq> [] \<Longrightarrow> hd s \<noteq> CHR ''{'' \<Longrightarrow>
    replace_all ''{username}'' u s = hd s # replace_all ''{username}'' u (tl s)"
  by (subst replace_all.simps) (cases s, auto)

lemma replace_skip: "CHR ''{'' \<notin> set p \<Longrightarrow> replace_all ''{username}'' u (p @ s) = p @ replace_all ''{username}'' u s"
  by (induction p) (auto simp: replace_step)

lemma replace_none: "CHR ''{'' \<notin> set p \<Longrightarrow> replace_all ''{username}'' u p = p"
  using replace_skip[of p u "[]"] by (simp add: replace_all.simps)

lemma replace_hit: "replace_all ''{username}'' u (''{username}'' @ s) = u @ replace_all ''{username}'' u s"
  by (subst replace_all.simps) simp

text \<open>
  The username enters the default filter verbatim: RFC 4515 metacharacters in it are part of the
  filter that is searched.
\<close>

lemma default_filter_verbatim: "lc_user_filter cfg = default_ldap_filter \<Longrightarrow>
    ldap_filter cfg username = ''(&(objectClass=person)(uid='' @ username @ ''))''"
  unfolding ldap_filter_def
  by (simp only: default_filter_parts, subst replace_skip, simp, subst replace_hit, subst replace_none, simp_all)

section \<open>Properties\<close>

text \<open>Soundness of the directory check, and what it checks: a login succeeds only with the password of
  the first entry that matches the filter, but with the default template the login name is pasted
  into that filter unescaped, so \<open>x)(uid=bob\<close> or \<open>*\<close> select other people's entries: the account that
  comes out need not be the name that went in.\<close>

theorem ldap_accepts_filter_match:
  assumes "lc_user_filter cfg = default_ldap_filter" "verify_ldap_credentials dir cfg username password = Some info"
  shows "\<exists>base entry rest. lc_base_dn cfg = Some base
     \<and> ld_search dir base (''(&(objectClass=person)(uid='' @ username @ ''))'')
          [lc_username_attr cfg, lc_displayname_attr cfg, lc_email_attr cfg] = Some (entry # rest)
     \<and> ld_bind dir (le_dn entry) password \<and> li_dn info = le_dn entry
     \<and> li_username info = (case first_attr entry (lc_username_attr cfg) of None \<Rightarrow> username | Some v \<Rightarrow> v)"
  using assms(2) unfolding verify_ldap_credentials_def default_filter_verbatim[OF assms(1)]
  by (auto simp: Let_def split: option.splits if_splits list.splits)

definition demo_ldap :: ldap_config where
  "demo_ldap = \<lparr> lc_enabled = True, lc_url = Some ''ldap://dc:389'', lc_base_dn = Some ''dc=x'', lc_bind_dn = Some ''cn=svc'',
     lc_bind_password = Some ''s'', lc_user_filter = default_ldap_filter, lc_username_attr = ''uid'',
     lc_displayname_attr = ''displayName'', lc_email_attr = ''mail'', lc_default_role = ''viewer'', lc_auto_create = True \<rparr>"

definition demo_dir :: ldap_dir where
  "demo_dir = \<lparr> ld_connect = (\<lambda>u n. True), ld_bind = (\<lambda>d p. (d, p) \<in> {(''cn=svc'', ''s''), (''uid=bob,dc=x'', ''pw'')}),
     ld_search = (\<lambda>b f as. if f = ''(&(objectClass=person)(uid=*))''
                    then Some [\<lparr> le_dn = ''uid=bob,dc=x'', le_attrs = [(''uid'', [''bob''])] \<rparr>] else Some []) \<rparr>"

theorem ldap_accepts_filter_match_witness:
  "\<exists>info entry rest. verify_ldap_credentials demo_dir demo_ldap ''*'' ''pw'' = Some info \<and> li_username info = ''bob''
     \<and> ld_search demo_dir ''dc=x'' ''(&(objectClass=person)(uid=*))'' [''uid'', ''displayName'', ''mail''] = Some (entry # rest)
     \<and> ld_bind demo_dir (le_dn entry) ''pw''"
proof -
  have f: "lc_user_filter demo_ldap = default_ldap_filter" by (simp add: demo_ldap_def)
  have v: "verify_ldap_credentials demo_dir demo_ldap ''*'' ''pw''
      = Some \<lparr> li_dn = ''uid=bob,dc=x'', li_username = ''bob'', li_display_name = ''bob'', li_email = [] \<rparr>"
    unfolding verify_ldap_credentials_def default_filter_verbatim[OF f]
    by (simp add: demo_ldap_def demo_dir_def first_attr_def Let_def)
  from ldap_accepts_filter_match[OF f v] v show ?thesis by (auto simp: demo_ldap_def)
qed

end
