(* ===== verification/Oidc.thy ===== *)
theory Oidc
  imports Http
begin

text \<open>
  Single sign-on (\<open>src/auth/oidc.rs\<close>): the configured providers, the pending logins and the callback.
  The exchange with the providers (discovery, code exchange and token verification of the
  \<open>openidconnect\<close> crate, the HTTP calls to GitHub) is the parameter \<open>sso\<close>; so are the character
  classes of Unicode.
\<close>

section \<open>Providers and pending logins\<close>

datatype provider_client =
    Google string string string string
  | GitHub string string string

record oidc_provider_config =
  op_name :: string
  op_client_id :: string
  op_client_secret :: string
  op_redirect_url :: string

record pending_oidc_state =
  po_provider_name :: string
  po_pkce_verifier :: string
  po_nonce :: "string option"
  po_csrf :: string
  po_created_at :: int

record oidc_user_info =
  oi_provider :: string
  oi_sub :: string
  oi_username :: string
  oi_email :: "string option"
  oi_display_name :: string

record oidc_service =
  os_providers :: "(string, provider_client) hmap"
  os_pending :: "(string, pending_oidc_state) hmap"

text \<open>What Google's verified ID token claims, and the members of GitHub's user object that are read.\<close>

record google_claims =
  gc_subject :: string
  gc_email :: "string option"
  gc_preferred_username :: "string option"
  gc_name :: "string option"

record github_user =
  gu_id :: string
  gu_login :: "string option"
  gu_name :: "string option"
  gu_email :: "string option"

record unicode =
  uc_chars :: "string \<Rightarrow> string list"
  uc_alnum :: "string \<Rightarrow> bool"
  uc_lower :: "string \<Rightarrow> string"

text \<open>
  \<open>sso_discover\<close> is Google's discovery and client construction, \<open>sso_authorize\<close> the authorization
  URL it builds from redirect, challenge, state and nonce; \<open>sso_exchange\<close> exchanges a code with a
  verifier for an ID token and \<open>sso_verify\<close> verifies that against a nonce; \<open>sso_github_token\<close> and the two GitHub calls
  fetch the user and the e-mail addresses (address, primary).
\<close>

record sso =
  sso_discover :: "provider_client \<Rightarrow> (string, unit) result"
  sso_authorize :: "provider_client \<Rightarrow> string \<Rightarrow> string \<Rightarrow> string \<Rightarrow> string"
  sso_exchange :: "provider_client \<Rightarrow> string \<Rightarrow> string \<Rightarrow> (string, string) result"
  sso_verify :: "provider_client \<Rightarrow> string \<Rightarrow> string \<Rightarrow> (string, google_claims) result"
  sso_github_token :: "provider_client \<Rightarrow> string \<Rightarrow> string \<Rightarrow> (string, string) result"
  sso_github_user :: "string \<Rightarrow> (string, github_user) result"
  sso_github_emails :: "string \<Rightarrow> (string, (string option \<times> bool) list option) result"

definition issuer_google :: string where "issuer_google = ''https://accounts.google.com''"

definition expected_providers :: string where
  "expected_providers = '' expected '' @ quoted ''google'' @ '' or '' @ quoted ''github''"

fun oidc_add :: "unicode \<Rightarrow> (provider_client \<Rightarrow> (string, unit) result) \<Rightarrow> oidc_provider_config list
    \<Rightarrow> (string, provider_client) hmap \<Rightarrow> (string, (string, provider_client) hmap) result" where
  "oidc_add uc discover [] m = Ok m"
| "oidc_add uc discover (cfg # cfgs) m =
     (let name = uc_lower uc (op_name cfg) in
      if name = ''google''
      then (let p = Google (op_client_id cfg) (op_client_secret cfg) (op_redirect_url cfg) issuer_google in
            case discover p of
              Inl e \<Rightarrow> Err e
            | Inr _ \<Rightarrow> oidc_add uc discover cfgs (hm_put ''google'' p m))
      else if name = ''github''
      then oidc_add uc discover cfgs
             (hm_put ''github'' (GitHub (op_client_id cfg) (op_client_secret cfg) (op_redirect_url cfg)) m)
      else Err (''unknown OIDC provider '' @ quoted name @ '' '' @ em_dash @ expected_providers))"

definition oidc_new :: "unicode \<Rightarrow> (provider_client \<Rightarrow> (string, unit) result) \<Rightarrow> oidc_provider_config list
    \<Rightarrow> (string, oidc_service option) result" where
  "oidc_new uc discover configs =
     (if configs = [] then Ok None
      else case oidc_add uc discover configs hm_empty of
             Inl e \<Rightarrow> Err e
           | Inr ps \<Rightarrow> Ok (Some \<lparr> os_providers = ps, os_pending = hm_empty \<rparr>))"

section \<open>Login and callback\<close>

text \<open>The random state key, verifier, challenge, nonce and CSRF token of a login, and the clock.\<close>

record oidc_draw =
  od_state_key :: string
  od_verifier :: string
  od_challenge :: string
  od_nonce :: string
  od_csrf :: string
  od_now :: int

definition start_login :: "sso \<Rightarrow> oidc_draw \<Rightarrow> string \<Rightarrow> oidc_service
    \<Rightarrow> (string, string \<times> string) result \<times> oidc_service" where
  "start_login S d provider_name os =
     (let remember = (\<lambda>name nonce. os \<lparr> os_pending := hm_put (od_state_key d)
            \<lparr> po_provider_name = name, po_pkce_verifier = od_verifier d, po_nonce = nonce,
              po_csrf = od_csrf d, po_created_at = od_now d \<rparr> (os_pending os) \<rparr>)
      in case hm_get (os_providers os) provider_name of
           None \<Rightarrow> (Err (''unknown OIDC provider '' @ quoted provider_name @ '' '' @ em_dash @ expected_providers), os)
         | Some p \<Rightarrow> (case p of
             Google _ _ _ _ \<Rightarrow>
               (case sso_discover S p of
                  Inl e \<Rightarrow> (Err e, os)
                | Inr _ \<Rightarrow> (Ok (sso_authorize S p (od_challenge d) (od_csrf d) (od_nonce d), od_state_key d),
                            remember ''google'' (Some (od_nonce d))))
           | GitHub _ _ _ \<Rightarrow>
               (Ok (sso_authorize S p (od_challenge d) (od_csrf d) [], od_state_key d), remember ''github'' None)))"

definition sanitize_username :: "unicode \<Rightarrow> string \<Rightarrow> string" where
  "sanitize_username uc raw =
     uc_lower uc (concat (map (\<lambda>c. if uc_alnum uc c then c else ''_'') (uc_chars uc raw)))"

definition handle_google :: "sso \<Rightarrow> unicode \<Rightarrow> string \<Rightarrow> oidc_service \<Rightarrow> pending_oidc_state
    \<Rightarrow> (string, oidc_user_info) result" where
  "handle_google S uc code os pending =
     (case hm_get (os_providers os) ''google'' of
        None \<Rightarrow> Err ''Google provider not configured''
      | Some (GitHub _ _ _) \<Rightarrow> Err ''internal error: google provider type mismatch''
      | Some (Google a b c d) \<Rightarrow>
          rbind (sso_discover S (Google a b c d)) (\<lambda>_.
          rbind (sso_exchange S (Google a b c d) code (po_pkce_verifier pending)) (\<lambda>id_token.
          rbind (ok_or ''missing nonce for Google callback'' (po_nonce pending)) (\<lambda>nonce.
          rbind (sso_verify S (Google a b c d) id_token nonce) (\<lambda>cl.
            let sub = gc_subject cl;
                preferred = (case gc_preferred_username cl of
                    Some n \<Rightarrow> n | None \<Rightarrow> hd (split_on (CHR ''@'') sub));
                display = (case gc_name cl of Some n \<Rightarrow> n | None \<Rightarrow> preferred)
            in Ok \<lparr> oi_provider = ''google'', oi_sub = sub, oi_username = sanitize_username uc preferred,
                    oi_email = gc_email cl, oi_display_name = display \<rparr>)))))"

definition handle_github :: "sso \<Rightarrow> unicode \<Rightarrow> string \<Rightarrow> oidc_service \<Rightarrow> pending_oidc_state
    \<Rightarrow> (string, oidc_user_info) result" where
  "handle_github S uc code os pending =
     (case hm_get (os_providers os) ''github'' of
        None \<Rightarrow> Err ''GitHub provider not configured''
      | Some (Google _ _ _ _) \<Rightarrow> Err ''internal error: github provider type mismatch''
      | Some (GitHub a b c) \<Rightarrow>
          rbind (sso_github_token S (GitHub a b c) code (po_pkce_verifier pending)) (\<lambda>token.
          rbind (sso_github_user S token) (\<lambda>u.
            let login = (case gu_login u of None \<Rightarrow> ''github-user'' | Some l \<Rightarrow> l);
                display = (case gu_name u of None \<Rightarrow> login | Some n \<Rightarrow> n);
                finish = (\<lambda>email. Ok \<lparr> oi_provider = ''github'', oi_sub = gu_id u,
                    oi_username = sanitize_username uc login, oi_email = email, oi_display_name = display \<rparr>)
            in case gu_email u of
                 Some e \<Rightarrow> finish (Some e)
               | None \<Rightarrow> rbind (sso_github_emails S token) (\<lambda>es. finish
                   (case es of None \<Rightarrow> None
                    | Some addresses \<Rightarrow> (case find (\<lambda>(_, primary). primary) addresses of
                        None \<Rightarrow> None | Some (address, _) \<Rightarrow> address))))))"

text \<open>Times are nanoseconds; \<open>num_minutes\<close> truncates the difference towards zero.\<close>

definition pending_state_ttl_minutes :: int where "pending_state_ttl_minutes = 5"

definition num_minutes :: "int \<Rightarrow> int" where
  "num_minutes ns = sgn ns * (\<bar>ns\<bar> div (60 * 10 ^ 9))"

definition handle_callback :: "sso \<Rightarrow> unicode \<Rightarrow> int \<Rightarrow> string \<Rightarrow> string \<Rightarrow> string \<Rightarrow> oidc_service
    \<Rightarrow> (string, oidc_user_info) result \<times> oidc_service" where
  "handle_callback S uc now state_key code state os =
     (case hm_get (os_pending os) state_key of
        None \<Rightarrow> (Err (''invalid or expired OIDC state key '' @ em_dash @ '' the login session may have timed out''), os)
      | Some pending \<Rightarrow>
          let os' = os \<lparr> os_pending := hm_del state_key (os_pending os) \<rparr> in
          (if num_minutes (now - po_created_at pending) > pending_state_ttl_minutes
           then Err ''OIDC login session expired (state TTL exceeded)''
           else if hd (split_on (CHR ''.'') state) \<noteq> po_csrf pending
           then Err (''CSRF state mismatch '' @ em_dash @ '' possible replay attack'')
           else if po_provider_name pending = ''google'' then handle_google S uc code os' pending
           else if po_provider_name pending = ''github'' then handle_github S uc code os' pending
           else Err (''unknown provider in pending state: '' @ quoted (po_provider_name pending)),
           os'))"

section \<open>Pending logins are single use\<close>

text \<open>As for the other stores, the state keys drawn so far are a ghost component and never repeat.\<close>

inductive oidc_step :: "oidc_service \<times> string list \<Rightarrow> oidc_service \<times> string list \<Rightarrow> bool" where
  start: "od_state_key d \<notin> set drawn \<Longrightarrow>
    oidc_step (os, drawn) (snd (start_login S d provider os), od_state_key d # drawn)"
| callback: "oidc_step (os, drawn) (snd (handle_callback S uc now key code state os), drawn)"

inductive_cases oidc_stepE: "oidc_step (os, drawn) st'"

definition oidc_ok :: "oidc_service \<times> string list \<Rightarrow> bool" where
  "oidc_ok st = (hm_ok (os_pending (fst st)) \<and> (\<forall>k. hm_contains (os_pending (fst st)) k \<longrightarrow> k \<in> set (snd st)))"

definition oidc_spent :: "oidc_service \<times> string list \<Rightarrow> string \<Rightarrow> bool" where
  "oidc_spent st key = (key \<in> set (snd st) \<and> hm_get (os_pending (fst st)) key = None)"

definition oidc_accepts :: "oidc_service \<times> string list \<Rightarrow> string \<Rightarrow> bool" where
  "oidc_accepts st key = (\<exists>S uc now code state. is_ok (fst (handle_callback S uc now key code state (fst st))))"

lemma callback_pending: "os_pending (snd (handle_callback S uc now key code state os)) =
    (if hm_get (os_pending os) key = None then os_pending os else hm_del key (os_pending os))"
  by (simp add: handle_callback_def Let_def split: option.split)

lemma start_pending: "os_pending (snd (start_login S d provider os)) = os_pending os
    \<or> (\<exists>p. os_pending (snd (start_login S d provider os)) = hm_put (od_state_key d) p (os_pending os))"
  by (auto simp: start_login_def Let_def split: option.split provider_client.split sum.split)

lemma callback_providers: "os_providers (snd (handle_callback S uc now key code state os)) = os_providers os"
  by (simp add: handle_callback_def Let_def split: option.split)

lemma oidc_ok_step [step_inv]: "oidc_ok st \<Longrightarrow> oidc_step st st' \<Longrightarrow> oidc_ok st'"
proof (erule oidc_step.cases)
  fix d :: oidc_draw and drawn os S provider
  assume "oidc_ok st" "st = (os, drawn)" "st' = (snd (start_login S d provider os), od_state_key d # drawn)"
  then show "oidc_ok st'" using start_pending[of S d provider os]
    by (auto simp: oidc_ok_def hm_contains_def hm_get_put split: if_splits)
next
  fix os drawn S uc now key code state
  assume "oidc_ok st" "st = (os, drawn)" "st' = (snd (handle_callback S uc now key code state os), drawn)"
  then show "oidc_ok st'" by (auto simp: oidc_ok_def hm_contains_def callback_pending hm_get_del split: if_splits)
qed

lemma oidc_spent_step: "oidc_ok st \<Longrightarrow> oidc_step st st' \<Longrightarrow> oidc_spent st key \<Longrightarrow> oidc_spent st' key"
proof (erule oidc_step.cases)
  fix d :: oidc_draw and drawn os S provider
  assume "oidc_spent st key" "st = (os, drawn)" "st' = (snd (start_login S d provider os), od_state_key d # drawn)"
    "od_state_key d \<notin> set drawn"
  then show "oidc_spent st' key" using start_pending[of S d provider os]
    by (auto simp: oidc_spent_def hm_get_put)
next
  fix os drawn S uc now k code state
  assume "oidc_spent st key" "st = (os, drawn)" "st' = (snd (handle_callback S uc now k code state os), drawn)"
  then show "oidc_spent st' key" by (auto simp: oidc_spent_def callback_pending hm_get_del)
qed

lemma oidc_spent_rejected: "oidc_ok st \<Longrightarrow> oidc_spent st key \<Longrightarrow> \<not> oidc_accepts st key"
  by (simp add: oidc_spent_def oidc_accepts_def handle_callback_def)

interpretation oidc: single_use_store oidc_ok oidc_step oidc_spent oidc_accepts
  by unfold_locales (fact oidc_ok_step oidc_spent_step oidc_spent_rejected)+

section \<open>Properties\<close>

text \<open>C23. Single sign-on callbacks: whatever its outcome, a callback uses up the state key it presents, so
  no later callback with that key succeeds, after any sequence of logins and callbacks; and a
  callback succeeds only if the key is pending, the returned state begins with the stored CSRF
  token, and the login is less than six minutes old.\<close>

theorem oidc_callback_single_use:
  assumes "oidc_ok (os, drawn)" "hm_contains (os_pending os) key"
    and "oidc_step\<^sup>*\<^sup>* (snd (handle_callback S uc now key code state os), drawn) (os2, drawn2)"
  shows "\<not> is_ok (fst (handle_callback S2 uc2 now2 key code2 state2 os2))
    \<and> (is_ok (fst (handle_callback S uc now key code state os)) \<longrightarrow>
        (\<exists>pending. hm_get (os_pending os) key = Some pending
           \<and> (\<exists>rest. state = po_csrf pending @ rest) \<and> now - po_created_at pending < 6 * 60 * 10 ^ 9))"
proof
  have "oidc_ok (snd (handle_callback S uc now key code state os), drawn)"
    using oidc_ok_step[OF assms(1) oidc_step.callback] .
  moreover have "oidc_spent (snd (handle_callback S uc now key code state os), drawn) key"
    using assms(1,2) by (auto simp: oidc_spent_def oidc_ok_def callback_pending hm_get_del)
  ultimately have "\<not> oidc_accepts (os2, drawn2) key"
    using oidc.spent_forever[OF assms(3)] by blast
  then show "\<not> is_ok (fst (handle_callback S2 uc2 now2 key code2 state2 os2))"
    by (auto simp: oidc_accepts_def)
next
  have prefix: "\<exists>rest. s = hd (split_on d s) @ rest" for d and s :: string
  proof (induction s)
    case (Cons c s)
    then show ?case by (cases "split_on d s") auto
  qed simp
  show "is_ok (fst (handle_callback S uc now key code state os)) \<longrightarrow>
        (\<exists>pending. hm_get (os_pending os) key = Some pending
           \<and> (\<exists>rest. state = po_csrf pending @ rest) \<and> now - po_created_at pending < 6 * 60 * 10 ^ 9)"
  proof
    assume ok: "is_ok (fst (handle_callback S uc now key code state os))"
    then obtain p where p: "hm_get (os_pending os) key = Some p"
      by (auto simp: handle_callback_def split: option.splits)
    have young: "\<not> num_minutes (now - po_created_at p) > pending_state_ttl_minutes"
      and csrf: "hd (split_on (CHR ''.'') state) = po_csrf p"
      using ok p by (auto simp: handle_callback_def Let_def split: if_splits)
    have "now - po_created_at p < 6 * 60 * 10 ^ 9"
    proof (rule ccontr)
      assume "\<not> now - po_created_at p < 6 * 60 * 10 ^ 9"
      then have "6 \<le> num_minutes (now - po_created_at p)" by (simp add: num_minutes_def)
      then show False using young by (simp add: pending_state_ttl_minutes_def)
    qed
    then show "\<exists>pending. hm_get (os_pending os) key = Some pending
           \<and> (\<exists>rest. state = po_csrf pending @ rest) \<and> now - po_created_at pending < 6 * 60 * 10 ^ 9"
      using p prefix[of state "CHR ''.''"] csrf by auto
  qed
qed

definition demo_sso :: sso where
  "demo_sso = \<lparr> sso_discover = (\<lambda>p. Inr ()), sso_authorize = (\<lambda>p c s n. ''https://github.com/login''),
     sso_exchange = (\<lambda>p c v. Inl ''no''), sso_verify = (\<lambda>p i n. Inl ''no''), sso_github_token = (\<lambda>p c v. Inr ''gho''),
     sso_github_user = (\<lambda>t. Inr \<lparr> gu_id = ''7'', gu_login = Some ''bob'', gu_name = None, gu_email = Some ''b@x'' \<rparr>),
     sso_github_emails = (\<lambda>t. Inr None) \<rparr>"

definition demo_unicode :: unicode where
  "demo_unicode = \<lparr> uc_chars = map (\<lambda>c. [c]), uc_alnum = (\<lambda>c. True), uc_lower = to_ascii_lowercase \<rparr>"

definition demo_oidc :: oidc_service where
  "demo_oidc = \<lparr> os_providers = [(''github'', GitHub ''id'' ''sec'' ''https://m/cb'')],
     os_pending = [(''k1'', \<lparr> po_provider_name = ''github'', po_pkce_verifier = ''v'', po_nonce = None,
        po_csrf = ''c5'', po_created_at = 0 \<rparr>)] \<rparr>"

theorem oidc_callback_single_use_witness:
  "is_ok (fst (handle_callback demo_sso demo_unicode (359 * 10 ^ 9) ''k1'' ''code'' ''c5.x'' demo_oidc))
   \<and> \<not> is_ok (fst (handle_callback demo_sso demo_unicode (1 + 359 * 10 ^ 9) ''k1'' ''code'' ''c5.x''
        (snd (handle_callback demo_sso demo_unicode (359 * 10 ^ 9) ''k1'' ''code'' ''c5.x'' demo_oidc))))"
proof
  show "is_ok (fst (handle_callback demo_sso demo_unicode (359 * 10 ^ 9) ''k1'' ''code'' ''c5.x'' demo_oidc))"
    by (simp add: handle_callback_def demo_oidc_def hm_get_def num_minutes_def pending_state_ttl_minutes_def
        handle_github_def demo_sso_def Let_def)
  have "oidc_ok (demo_oidc, [''k1''])" "hm_contains (os_pending demo_oidc) ''k1''"
    by (auto simp: oidc_ok_def demo_oidc_def hm_ok_def hm_contains_def hm_get_def split: if_splits)
  from oidc_callback_single_use[OF this rtranclp.rtrancl_refl, of demo_sso demo_unicode "1 + 359 * 10 ^ 9"
      "''code''" "''c5.x''" demo_sso demo_unicode "359 * 10 ^ 9" "''code''" "''c5.x''"]
  show "\<not> is_ok (fst (handle_callback demo_sso demo_unicode (1 + 359 * 10 ^ 9) ''k1'' ''code'' ''c5.x''
        (snd (handle_callback demo_sso demo_unicode (359 * 10 ^ 9) ''k1'' ''code'' ''c5.x'' demo_oidc))))"
    by simp
qed

end
