(* ===== verification/Auth_Api.thy ===== *)
theory Auth_Api
  imports Auth_Middleware Refresh_Tokens Pre_Auth Totp Ldap Oidc
begin

text \<open>
  The authentication endpoints (\<open>src/api/auth.rs\<close>): login with and without a second factor, refresh,
  logout, two-factor set-up, single sign-on, LDAP login and the administration of accounts, over
  the stores of the shared state. Cryptography and token signing are fields of \<open>auth_env\<close>; clock
  readings and random values of a request are the record \<open>draw\<close>.
\<close>

section \<open>State, environment, replies\<close>

record auth_state =
  as_users :: user_store
  as_refresh :: refresh_store
  as_preauth :: preauth_store
  as_oidc :: "oidc_service option"
  as_oidc_users :: "(string, user) hmap"

record auth_env =
  ae_verify :: bcrypt_verify
  ae_hash :: bcrypt_hash
  ae_digest :: digest
  ae_hmac :: hmac_sha1
  ae_encode :: "claims \<Rightarrow> (string, string) result"
  ae_lifetime :: int
  ae_issuer :: string
  ae_ldap :: ldap_config
  ae_dir :: ldap_dir
  ae_sso :: sso
  ae_unicode :: unicode

text \<open>
  \<open>dr_check\<close>, \<open>dr_claims\<close> and \<open>dr_issue\<close> are the clock when a token is checked, when the claims are
  built and when a refresh token is issued; \<open>dr_secs\<close> is the clock of the one-time password.
\<close>

record draw =
  dr_check :: int
  dr_claims :: int
  dr_issue :: int
  dr_secs :: "64 word"
  dr_id :: string
  dr_token :: string
  dr_preauth :: string
  dr_password :: string

record user_view =
  ux_id :: string
  ux_username :: string
  ux_display_name :: string
  ux_email :: "string option"
  ux_role :: string

definition user_view_of :: "user \<Rightarrow> user_view" where
  "user_view_of u = \<lparr> ux_id = u_id u, ux_username = u_username u, ux_display_name = u_display_name u,
     ux_email = u_email u, ux_role = role_as_str (u_role u) \<rparr>"

record login_response =
  lr_token :: string
  lr_expires_in :: int
  lr_token_type :: string
  lr_user :: user_view
  lr_refresh_token :: string

record refresh_response =
  rr_token :: string
  rr_expires_in :: int
  rr_token_type :: string
  rr_refresh_token :: string

datatype login_reply = TwoFactorRequired string | Session login_response

type_synonym 'a auth_op = "auth_state \<Rightarrow> (http_response, 'a) result \<times> auth_state"

definition unauthorized_response :: "string \<Rightarrow> http_response" where
  "unauthorized_response msg = response 401 msg"

definition internal_response :: "string \<Rightarrow> http_response" where
  "internal_response msg = response 500 msg"

definition get_by_id :: "user_store \<Rightarrow> string \<Rightarrow> user option" where
  "get_by_id s uid = find (\<lambda>u. u_id u = uid) (hm_values (us_users s))"

definition claims_for :: "auth_env \<Rightarrow> int \<Rightarrow> user \<Rightarrow> claims" where
  "claims_for env now u = \<lparr> cl_sub = u_id u, cl_username = u_username u, cl_role = role_as_str (u_role u),
     cl_iat = now, cl_exp = i64_add now (ae_lifetime env) \<rparr>"

text \<open>The common end of every login: sign the claims, issue a refresh token, build the response.\<close>

definition open_session :: "auth_env \<Rightarrow> draw \<Rightarrow> user \<Rightarrow> login_response auth_op" where
  "open_session env d u st =
     (case ae_encode env (claims_for env (dr_claims d) u) of
        Inl e \<Rightarrow> (Err (internal_response ''failed to sign token''), st)
      | Inr token \<Rightarrow>
          (let (issued, refresh') = rs_issue (ae_digest env) (dr_id d) (dr_token d) (dr_issue d) (u_id u)
                                      default_refresh_ttl_secs (as_refresh st)
           in (Ok \<lparr> lr_token = token, lr_expires_in = ae_lifetime env, lr_token_type = ''Bearer'',
                    lr_user = user_view_of u, lr_refresh_token = it_token issued \<rparr>,
               st \<lparr> as_refresh := refresh' \<rparr>)))"

section \<open>Password login\<close>

definition login :: "auth_env \<Rightarrow> draw \<Rightarrow> string \<Rightarrow> string \<Rightarrow> login_reply auth_op" where
  "login env d username password st =
     (case authenticate (ae_verify env) (as_users st) username password of
        None \<Rightarrow> (Err (unauthorized_response ''invalid username or password''), st)
      | Some u \<Rightarrow>
          if u_totp_enabled u
          then (let (token, preauth') = pa_issue (dr_preauth d) (dr_issue d) (u_id u) (u_username u) (as_preauth st)
                in (Ok (TwoFactorRequired token), st \<lparr> as_preauth := preauth' \<rparr>))
          else (let (r, st') = open_session env d u st in (map_sum id Session r, st')))"

definition me :: "auth_context \<Rightarrow> claims" where "me auth = ac_claims auth"

section \<open>Refresh and logout\<close>

definition refresh :: "auth_env \<Rightarrow> draw \<Rightarrow> string \<Rightarrow> refresh_response auth_op" where
  "refresh env d raw st =
     (let (rotated, store') = rs_rotate (ae_digest env) (dr_id d) (dr_token d) (dr_check d) (dr_issue d) raw
                                default_refresh_ttl_secs (as_refresh st);
          st' = st \<lparr> as_refresh := store' \<rparr>
      in case rotated of
           None \<Rightarrow> (Err (unauthorized_response ''invalid or expired refresh token''), st')
         | Some fresh \<Rightarrow>
             (case get_by_id (as_users st') (it_user fresh) of
                None \<Rightarrow> (Err (internal_response ''user not found''), st')
              | Some u \<Rightarrow>
                  (case ae_encode env (claims_for env (dr_claims d) u) of
                     Inl e \<Rightarrow> (Err (internal_response ''failed to sign token''), st')
                   | Inr token \<Rightarrow>
                       (Ok \<lparr> rr_token = token, rr_expires_in = ae_lifetime env, rr_token_type = ''Bearer'',
                             rr_refresh_token = it_token fresh \<rparr>, st'))))"

definition logout :: "auth_env \<Rightarrow> draw \<Rightarrow> string \<Rightarrow> bool auth_op" where
  "logout env d raw st =
     (Ok True,
      case rs_verify (ae_digest env) (dr_check d) raw (as_refresh st) of
        None \<Rightarrow> st
      | Some (tid, _) \<Rightarrow> st \<lparr> as_refresh := snd (rs_revoke tid (as_refresh st)) \<rparr>)"

section \<open>Two-factor authentication\<close>

text \<open>The code is tried as a one-time password, then as a backup code; the remaining codes are dropped.\<close>

definition second_factor_ok :: "auth_env \<Rightarrow> draw \<Rightarrow> user \<Rightarrow> string \<Rightarrow> bool" where
  "second_factor_ok env d u code =
     (let valid_totp = (case u_totp_secret u of None \<Rightarrow> False
                        | Some secret \<Rightarrow> verify_totp (ae_hmac env) (dr_secs d) secret code);
          used_backup = (if valid_totp then False
                         else verify_backup_code (ae_verify env) (u_backup_codes u) code \<noteq> None)
      in valid_totp \<or> used_backup)"

definition two_factor_complete :: "auth_env \<Rightarrow> draw \<Rightarrow> string \<Rightarrow> string \<Rightarrow> login_response auth_op" where
  "two_factor_complete env d preauth_token code st =
     (let (consumed, preauth') = pa_consume (dr_check d) preauth_token (as_preauth st);
          st' = st \<lparr> as_preauth := preauth' \<rparr>
      in case consumed of
           None \<Rightarrow> (Err (unauthorized_response ''invalid or expired pre-auth token''), st')
         | Some session \<Rightarrow>
             (case get_by_id (as_users st') (pa_user_id session) of
                None \<Rightarrow> (Err (internal_response ''user not found''), st')
              | Some u \<Rightarrow>
                  if \<not> second_factor_ok env d u code
                  then (Err (unauthorized_response ''invalid TOTP code or backup code''), st')
                  else open_session env d u st'))"

record setup_reply =
  sp_secret :: string
  sp_url :: string
  sp_backup_codes :: "string list"

text \<open>The hashes of the backup codes are computed and dropped; \<open>None\<close> of the generator is its panic.\<close>

definition two_factor_setup :: "auth_env \<Rightarrow> 8 word list \<Rightarrow> (nat \<Rightarrow> 32 word) \<Rightarrow> auth_context
    \<Rightarrow> auth_state \<Rightarrow> (http_response, setup_reply) result option \<times> auth_state" where
  "two_factor_setup env secret_bytes rnd auth st =
     (let secret = generate_totp_secret secret_bytes;
          url = totp_url (ae_issuer env) (cl_username (ac_claims auth)) secret
      in case generate_backup_codes (ae_hash env) rnd of
           None \<Rightarrow> (None, st)
         | Some (plain, hashed) \<Rightarrow>
             (Some (Ok \<lparr> sp_secret = secret, sp_url = url, sp_backup_codes = plain \<rparr>), st))"

definition two_factor_verify :: "auth_env \<Rightarrow> draw \<Rightarrow> (nat \<Rightarrow> 32 word) \<Rightarrow> auth_context \<Rightarrow> string \<Rightarrow> string
    \<Rightarrow> auth_state \<Rightarrow> (http_response, string) result option \<times> auth_state" where
  "two_factor_verify env d rnd auth secret code st =
     (if \<not> verify_totp (ae_hmac env) (dr_secs d) secret code
      then (Some (Err (unauthorized_response (''invalid TOTP code '' @ em_dash @ '' check your authenticator app''))), st)
      else case generate_backup_codes (ae_hash env) rnd of
             None \<Rightarrow> (None, st)
           | Some _ \<Rightarrow> (Some (Ok ''2fa_enabled''), st))"

definition two_factor_disable :: "auth_env \<Rightarrow> auth_context \<Rightarrow> string option \<Rightarrow> string auth_op" where
  "two_factor_disable env auth password st =
     (case authenticate (ae_verify env) (as_users st) (cl_username (ac_claims auth))
             (case password of None \<Rightarrow> [] | Some p \<Rightarrow> p) of
        None \<Rightarrow> (Err (unauthorized_response ''invalid password''), st)
      | Some _ \<Rightarrow> (Ok ''2fa_disabled'', st))"

section \<open>Single sign-on\<close>

definition oidc_login :: "auth_env \<Rightarrow> oidc_draw \<Rightarrow> string \<Rightarrow> (string \<times> string) auth_op" where
  "oidc_login env od provider st =
     (case as_oidc st of
        None \<Rightarrow> (Err (response 400 ''OIDC is not configured''), st)
      | Some os \<Rightarrow>
          (let (r, os') = start_login (ae_sso env) od provider os
           in (map_err (response 400) r, st \<lparr> as_oidc := Some os' \<rparr>)))"

definition oidc_key :: "oidc_user_info \<Rightarrow> string" where
  "oidc_key info = oi_provider info @ '':'' @ oi_sub info"

definition oidc_new_user :: "draw \<Rightarrow> oidc_user_info \<Rightarrow> user" where
  "oidc_new_user d info = \<lparr> u_id = oidc_key info, u_username = oi_username info,
     u_display_name = oi_display_name info, u_email = oi_email info, u_password_hash = dr_password d,
     u_role = Viewer, u_enabled = True, u_totp_secret = None, u_totp_enabled = False, u_backup_codes = [] \<rparr>"

definition oidc_callback :: "auth_env \<Rightarrow> draw \<Rightarrow> int \<Rightarrow> string \<Rightarrow> string \<Rightarrow> string \<Rightarrow> login_response auth_op" where
  "oidc_callback env d now_ns state_key code state st =
     (case as_oidc st of
        None \<Rightarrow> (Err (response 400 ''OIDC is not configured''), st)
      | Some os \<Rightarrow>
          (let (r, os') = handle_callback (ae_sso env) (ae_unicode env) now_ns state_key code state os;
               st' = st \<lparr> as_oidc := Some os' \<rparr>
           in case r of
                Inl e \<Rightarrow> (Err (response 401 e), st')
              | Inr info \<Rightarrow>
                  (case hm_get (as_oidc_users st') (oidc_key info) of
                     Some existing \<Rightarrow>
                       if \<not> u_enabled existing then (Err (response 403 ''account is disabled''), st')
                       else open_session env d existing st'
                   | None \<Rightarrow>
                       (let u = oidc_new_user d info
                        in open_session env d u
                             (st' \<lparr> as_oidc_users := hm_put (oidc_key info) u (as_oidc_users st') \<rparr>)))))"

section \<open>LDAP login\<close>

definition ldap_new_user :: "auth_env \<Rightarrow> draw \<Rightarrow> ldap_user_info \<Rightarrow> user" where
  "ldap_new_user env d info = \<lparr> u_id = ldap_user_id (li_username info), u_username = li_username info,
     u_display_name = li_display_name info,
     u_email = (if li_email info = [] then None else Some (li_email info)), u_password_hash = dr_password d,
     u_role = unwrap_or Viewer (role_from_str (lc_default_role (ae_ldap env))),
     u_enabled = True, u_totp_secret = None, u_totp_enabled = False, u_backup_codes = [] \<rparr>"

definition ldap_login :: "auth_env \<Rightarrow> draw \<Rightarrow> string \<Rightarrow> string \<Rightarrow> login_response auth_op" where
  "ldap_login env d username password st =
     (let cfg = ae_ldap env in
      if \<not> lc_enabled cfg \<or> lc_url cfg = None
      then (Err (unauthorized_response ''LDAP authentication is not enabled''), st)
      else (case verify_ldap_credentials (ae_dir env) cfg username password of
              None \<Rightarrow> (Err (unauthorized_response ''invalid LDAP username or password''), st)
            | Some info \<Rightarrow>
                (case us_get (as_users st) (li_username info) of
                   Some existing \<Rightarrow>
                     if \<not> u_enabled existing then (Err (unauthorized_response ''account is disabled''), st)
                     else open_session env d existing st
                 | None \<Rightarrow>
                     if \<not> lc_auto_create cfg
                     then (Err (unauthorized_response ''LDAP user not found locally and auto-create is disabled''), st)
                     else (let u = ldap_new_user env d info
                           in open_session env d u (st \<lparr> as_users := snd (add_user u (as_users st)) \<rparr>)))))"

section \<open>Administration of accounts\<close>

definition admin_gate :: "auth_context \<Rightarrow> 'a auth_op \<Rightarrow> 'a auth_op" where
  "admin_gate auth k st = (case require_role auth Admin of Inl resp \<Rightarrow> (Err resp, st) | Inr _ \<Rightarrow> k st)"

record create_user_request =
  cu_id :: string
  cu_username :: string
  cu_display_name :: "string option"
  cu_email :: "string option"
  cu_role :: string
  cu_password :: string
  cu_enabled :: bool

record update_user_request =
  uu_display_name :: "string option"
  uu_email :: "string option"
  uu_role :: "string option"
  uu_password :: "string option"
  uu_enabled :: "bool option"

definition list_users_handler :: "auth_context \<Rightarrow> user_view list auth_op" where
  "list_users_handler auth = admin_gate auth (\<lambda>st. (Ok (map user_view_of (list_users (as_users st))), st))"

definition create_user_handler :: "auth_env \<Rightarrow> auth_context \<Rightarrow> create_user_request \<Rightarrow> string auth_op" where
  "create_user_handler env auth req =
     admin_gate auth (\<lambda>st.
       case hash_password (ae_hash env) (cu_password req) of
         Inl e \<Rightarrow> (Err (response 500 (''failed to hash password: '' @ e)), st)
       | Inr h \<Rightarrow>
           (case role_from_str (cu_role req) of
              Inl e \<Rightarrow> (Err (response 400 e), st)
            | Inr r \<Rightarrow>
                (let u = \<lparr> u_id = cu_id req, u_username = cu_username req,
                           u_display_name = (case cu_display_name req of None \<Rightarrow> [] | Some n \<Rightarrow> n),
                           u_email = cu_email req, u_password_hash = h, u_role = r, u_enabled = cu_enabled req,
                           u_totp_secret = None, u_totp_enabled = False, u_backup_codes = [] \<rparr>;
                     (added, users') = add_user u (as_users st)
                 in case added of
                      Inl e \<Rightarrow> (Err (response 409 e), st \<lparr> as_users := users' \<rparr>)
                    | Inr _ \<Rightarrow> (Ok (cu_username req), st \<lparr> as_users := users' \<rparr>))))"

definition update_user_handler :: "auth_env \<Rightarrow> auth_context \<Rightarrow> string \<Rightarrow> update_user_request \<Rightarrow> string auth_op" where
  "update_user_handler env auth username req =
     admin_gate auth (\<lambda>st.
       let apply = (\<lambda>ph. let (r, users') = update_user username (uu_display_name req) (uu_email req) (uu_role req)
                                        ph (uu_enabled req) (as_users st)
                        in case r of
                             Inl e \<Rightarrow> (Err (response 404 e), st \<lparr> as_users := users' \<rparr>)
                           | Inr _ \<Rightarrow> (Ok username, st \<lparr> as_users := users' \<rparr>))
       in case uu_password req of
            None \<Rightarrow> apply None
          | Some pw \<Rightarrow> (case hash_password (ae_hash env) pw of
                Inl e \<Rightarrow> (Err (response 500 (''failed to hash password: '' @ e)), st)
              | Inr h \<Rightarrow> apply (Some h)))"

definition delete_user_handler :: "auth_context \<Rightarrow> string \<Rightarrow> string auth_op" where
  "delete_user_handler auth username =
     admin_gate auth (\<lambda>st.
       let (r, users') = delete_user username (as_users st)
       in case r of
            Inl e \<Rightarrow> (Err (response 404 e), st \<lparr> as_users := users' \<rparr>)
          | Inr _ \<Rightarrow> (Ok username, st \<lparr> as_users := users' \<rparr>))"

section \<open>Lemmas\<close>

lemma open_session_Ok: "open_session env d u st = (Inr s, st') \<Longrightarrow>
    ae_encode env (claims_for env (dr_claims d) u) = Inr (lr_token s)
    \<and> lr_user s = user_view_of u \<and> lr_refresh_token s = dr_token d
    \<and> st' = st \<lparr> as_refresh := snd (rs_issue (ae_digest env) (dr_id d) (dr_token d) (dr_issue d) (u_id u)
          default_refresh_ttl_secs (as_refresh st)) \<rparr>"
  by (auto simp: open_session_def rs_issue_def split: sum.splits)

lemma open_session_signed: "ae_encode env (claims_for env (dr_claims d) u) = Inr tok \<Longrightarrow>
    \<exists>s. fst (open_session env d u st) = Inr s \<and> lr_token s = tok \<and> lr_user s = user_view_of u"
  by (simp add: open_session_def rs_issue_def)

lemma authenticate_SomeD: "authenticate bv s name pw = Some u \<Longrightarrow>
    us_get s name = Some u \<and> u_enabled u \<and> bv pw (u_password_hash u) = Inr True"
  by (auto simp: authenticate_def ok_of_def verify_password_def Let_def split: option.splits if_splits sum.splits)

lemma get_by_id_disable:
  assumes "us_ok s" "get_by_id s uid = Some u"
  shows "get_by_id (snd (update_user (u_username u) None None None None (Some False) s)) uid
    = Some (u \<lparr> u_enabled := False \<rparr>)"
proof -
  define m where "m = us_users s"
  have m: "hm_ok m" "list_all (\<lambda>(k, v). u_username v = k) m" using assms(1) by (auto simp: us_ok_def m_def)
  have found: "find (\<lambda>v. u_id v = uid) (map snd m) = Some u" using assms(2) by (simp add: get_by_id_def hm_values_def m_def)
  then have "(u_username u, u) \<in> set m"
    using m(2) by (fastforce simp: list_all_iff dest!: find_Some_set)
  then have get: "hm_get m (u_username u) = Some u" using m(1) by (simp add: hm_get_iff)
  have put: "hm_put (u_username u) (u \<lparr> u_enabled := False \<rparr>) m =
      map (\<lambda>(k, x). (k, if k = u_username u then u \<lparr> u_enabled := False \<rparr> else x)) m"
    using hm_put_at[OF m(1) get] .
  have uid: "u_id u = uid" using found by (auto dest!: find_Some_set)
  have "distinct (map fst xs) \<Longrightarrow> list_all (\<lambda>(k, v). u_username v = k) xs \<Longrightarrow>
      find (\<lambda>v. u_id v = uid) (map snd xs) = Some u \<Longrightarrow>
      find (\<lambda>v. u_id v = uid) (map snd (map (\<lambda>(k, x). (k, if k = u_username u then u \<lparr> u_enabled := False \<rparr> else x)) xs))
        = Some (u \<lparr> u_enabled := False \<rparr>)" for xs
    using uid by (induction xs) (auto split: if_splits)
  from this[of m] m found have "find (\<lambda>v. u_id v = uid) (map snd (hm_put (u_username u) (u \<lparr> u_enabled := False \<rparr>) m))
      = Some (u \<lparr> u_enabled := False \<rparr>)" unfolding put by (simp add: hm_ok_def)
  then show ?thesis using get by (simp add: update_user_def us_get_def Let_def get_by_id_def hm_values_def m_def)
qed

section \<open>Properties\<close>

text \<open>C12. Password login: a successful login proves the password of an enabled account. If the account has
  a second factor the reply is only a pre-auth token and no refresh token is issued; otherwise the
  session carries that account's signed claims and a refresh token that verifies as that account.\<close>

theorem login_sound:
  assumes "login env d username password st = (Ok r, st')" "rs_ok (as_refresh st)"
    and "rs_fresh (ae_digest env) (dr_id d) (dr_token d) (as_refresh st)"
    and "in_i64 (dr_issue d + default_refresh_ttl_secs)"
  shows "\<exists>u. us_get (as_users st) username = Some u \<and> u_enabled u
     \<and> ae_verify env password (u_password_hash u) = Ok True
     \<and> (case r of
          TwoFactorRequired t \<Rightarrow> u_totp_enabled u \<and> as_refresh st' = as_refresh st
            \<and> hm_get (as_preauth st') t \<noteq> None
        | Session s \<Rightarrow> \<not> u_totp_enabled u
            \<and> ae_encode env (claims_for env (dr_claims d) u) = Ok (lr_token s)
            \<and> rs_verify (ae_digest env) (dr_issue d) (lr_refresh_token s) (as_refresh st') = Some (dr_id d, u_id u))"
proof -
  obtain u where a: "authenticate (ae_verify env) (as_users st) username password = Some u"
    using assms(1) by (auto simp: login_def split: option.splits)
  note u = authenticate_SomeD[OF a]
  show ?thesis
  proof (cases "u_totp_enabled u")
    case True
    then show ?thesis using assms(1) a u by (auto simp: login_def pa_issue_def hm_get_put)
  next
    case False
    then obtain s where s: "open_session env d u st = (Inr s, st')" "r = Session s"
      using assms(1) a by (cases "open_session env d u st") (auto simp: login_def map_sum_def split: sum.splits)
    note os = open_session_Ok[OF s(1)]
    have ok: "rs_ok (as_refresh st')" using rs_ok_add[OF assms(2,3)] os by (simp add: rs_issue_def)
    have "rs_verify (ae_digest env) (dr_issue d) (dr_token d) (as_refresh st') = Some (dr_id d, u_id u)"
      unfolding rs_verify_iff[OF ok] using os ok assms(2,4)
      by (intro exI[of _ "fresh_record (ae_digest env) (dr_id d) (dr_token d) (dr_issue d) (u_id u) default_refresh_ttl_secs"])
        (simp add: rs_issue_def fresh_record_def hm_put_set rs_ok_def i64_add_id default_refresh_ttl_secs_def)
    then show ?thesis using u False s os by auto
  qed
qed

definition ann :: user where
  "ann = \<lparr> u_id = ''1'', u_username = ''ann'', u_display_name = ''Ann'', u_email = None, u_password_hash = ''h'',
     u_role = Admin, u_enabled = True, u_totp_secret = None, u_totp_enabled = True, u_backup_codes = [''b''] \<rparr>"

definition bob :: user where
  "bob = ann \<lparr> u_id := ''2'', u_username := ''bob'', u_totp_enabled := False \<rparr>"

definition demo_auth_state :: auth_state where
  "demo_auth_state = \<lparr> as_users = \<lparr> us_users = [(''ann'', ann), (''bob'', bob)], us_allowed = [] \<rparr>,
     as_refresh = [], as_preauth = [], as_oidc = None, as_oidc_users = [] \<rparr>"

definition demo_auth_env :: auth_env where
  "demo_auth_env = \<lparr> ae_verify = (\<lambda>p h. Inr True), ae_hash = (\<lambda>p n. Inr ''h''), ae_digest = id,
     ae_hmac = (\<lambda>k m. replicate 20 0), ae_encode = (\<lambda>c. Inr (cl_sub c)), ae_lifetime = 3600, ae_issuer = ''moxui'',
     ae_ldap = demo_ldap, ae_dir = demo_dir, ae_sso = demo_sso, ae_unicode = demo_unicode \<rparr>"

definition demo_draw :: draw where
  "demo_draw = \<lparr> dr_check = 10, dr_claims = 10, dr_issue = 10, dr_secs = 10, dr_id = ''i1'', dr_token = ''r1'',
     dr_preauth = ''p1'', dr_password = ''uuid'' \<rparr>"

theorem login_sound_witness:
  "\<exists>s st'. login demo_auth_env demo_draw ''bob'' ''pw'' demo_auth_state = (Ok (Session s), st')
     \<and> rs_verify id 10 (lr_refresh_token s) (as_refresh st') = Some (''i1'', ''2'')"
proof -
  have "\<exists>s st'. login demo_auth_env demo_draw ''bob'' ''pw'' demo_auth_state = (Ok (Session s), st')"
    by (simp add: login_def authenticate_def us_get_def hm_get_def demo_auth_state_def demo_auth_env_def
        verify_password_def open_session_def rs_issue_def ann_def bob_def Let_def)
  then obtain s st' where run: "login demo_auth_env demo_draw ''bob'' ''pw'' demo_auth_state = (Ok (Session s), st')" by blast
  have "rs_ok (as_refresh demo_auth_state)"
    "rs_fresh (ae_digest demo_auth_env) (dr_id demo_draw) (dr_token demo_draw) (as_refresh demo_auth_state)"
    "in_i64 (dr_issue demo_draw + default_refresh_ttl_secs)"
    by (simp_all add: demo_auth_state_def rs_ok_def hm_ok_def rs_fresh_def hm_contains_def hm_get_def demo_draw_def
        default_refresh_ttl_secs_def in_i64_def)
  from login_sound[OF run this] run show ?thesis
    by (auto simp: demo_auth_state_def us_get_def hm_get_def demo_auth_env_def demo_draw_def ann_def bob_def)
qed

text \<open>C13. Two-step login: for an enabled account with a second factor whose id is its own, login followed by
  completion within 300 seconds with an accepted code opens a session with the account's claims, and
  the pre-auth token is used up: presenting it again fails.\<close>

theorem two_step_login:
  assumes "authenticate (ae_verify env) (as_users st) username password = Some u" "u_totp_enabled u"
    and "get_by_id (as_users st) (u_id u) = Some u"
    and "dr_check d2 \<le> dr_issue d + 300" "in_i64 (dr_issue d + 300)"
    and "second_factor_ok env d2 u code" "ae_encode env (claims_for env (dr_claims d2) u) = Ok tok"
  shows "let (r1, st1) = login env d username password st;
             (r2, st2) = two_factor_complete env d2 (dr_preauth d) code st1
         in r1 = Ok (TwoFactorRequired (dr_preauth d))
          \<and> (\<exists>s. r2 = Ok s \<and> lr_token s = tok \<and> lr_user s = user_view_of u)
          \<and> \<not> is_ok (fst (two_factor_complete env d3 (dr_preauth d) code2 st2))"
proof -
  define pre where "pre = snd (pa_issue (dr_preauth d) (dr_issue d) (u_id u) (u_username u) (as_preauth st))"
  have l: "login env d username password st = (Ok (TwoFactorRequired (dr_preauth d)), st \<lparr> as_preauth := pre \<rparr>)"
    using assms(1,2) by (simp add: login_def pre_def pa_issue_def)
  have get: "hm_get pre (dr_preauth d) = Some \<lparr> pa_user_id = u_id u, pa_username = u_username u,
      pa_expires = dr_issue d + 300, pa_consumed = False \<rparr>"
    using assms(5) by (simp add: pre_def pa_issue_def hm_get_put preauth_ttl_secs_def i64_add_id)
  obtain x post where c: "pa_consume (dr_check d2) (dr_preauth d) pre = (Some x, post)" and x: "pa_user_id x = u_id u"
    using get assms(4) by (auto simp: pa_consume_def hm_get_put Let_def)
  have gone: "hm_get post (dr_preauth d) = None"
    using get assms(4) c by (auto simp: pa_consume_def hm_get_put hm_get_del Let_def)
  obtain s where s: "fst (open_session env d2 u (st \<lparr> as_preauth := post \<rparr>)) = Ok s"
      "lr_token s = tok" "lr_user s = user_view_of u" using open_session_signed[OF assms(7)] by blast
  have t: "two_factor_complete env d2 (dr_preauth d) code (st \<lparr> as_preauth := pre \<rparr>)
      = open_session env d2 u (st \<lparr> as_preauth := post \<rparr>)"
    using c x assms(3,6) by (simp add: two_factor_complete_def)
  have "as_preauth (snd (open_session env d2 u (st \<lparr> as_preauth := post \<rparr>))) = post"
    by (simp add: open_session_def rs_issue_def split: sum.split)
  then have "\<not> is_ok (fst (two_factor_complete env d3 (dr_preauth d) code2
      (snd (open_session env d2 u (st \<lparr> as_preauth := post \<rparr>)))))"
    using gone by (simp add: two_factor_complete_def pa_consume_def)
  then show ?thesis using l t s by (simp add: split_beta)
qed

theorem two_step_login_witness:
  "\<exists>s. fst (two_factor_complete demo_auth_env demo_draw ''p1'' ''c''
     (snd (login demo_auth_env demo_draw ''ann'' ''pw'' demo_auth_state))) = Ok s \<and> lr_token s = ''1''"
proof -
  have "authenticate (ae_verify demo_auth_env) (as_users demo_auth_state) ''ann'' ''pw'' = Some ann" "u_totp_enabled ann"
    "get_by_id (as_users demo_auth_state) (u_id ann) = Some ann" "dr_check demo_draw \<le> dr_issue demo_draw + 300"
    "in_i64 (dr_issue demo_draw + 300)" "second_factor_ok demo_auth_env demo_draw ann ''c''"
    "ae_encode demo_auth_env (claims_for demo_auth_env (dr_claims demo_draw) ann) = Ok ''1''"
    by (simp_all add: authenticate_def us_get_def hm_get_def demo_auth_state_def demo_auth_env_def verify_password_def
        ann_def get_by_id_def hm_values_def demo_draw_def in_i64_def second_factor_ok_def verify_backup_code_def claims_for_def)
  moreover have "dr_preauth demo_draw = ''p1''" by (simp add: demo_draw_def)
  ultimately show ?thesis using two_step_login[of demo_auth_env demo_auth_state "''ann''" "''pw''" ann demo_draw demo_draw
      "''c''" "''1''" demo_draw "''x''"] by (auto simp: Let_def split_beta)
qed

text \<open>LDAP login asks for no second factor: for an enabled local account with two-factor
  authentication, the directory password alone opens a session with the local account's role, and
  the account is the one whose name the directory returned, not the name typed in.\<close>

theorem ldap_login_skips_second_factor:
  assumes "lc_enabled (ae_ldap env)" "verify_ldap_credentials (ae_dir env) (ae_ldap env) username password = Some info"
    and "us_get (as_users st) (li_username info) = Some u" "u_enabled u" "u_totp_enabled u"
    and "ae_encode env (claims_for env (dr_claims d) u) = Ok tok"
  shows "\<exists>s. fst (ldap_login env d username password st) = Ok s \<and> lr_token s = tok \<and> lr_user s = user_view_of u
     \<and> \<not> (\<exists>s'. fst (login env d (li_username info) password st) = Ok (Session s'))"
proof -
  obtain url where "lc_url (ae_ldap env) = Some url"
    using assms(2) by (auto simp: verify_ldap_credentials_def split: option.splits)
  then have "ldap_login env d username password st = open_session env d u st"
    using assms by (simp add: ldap_login_def Let_def)
  moreover have "\<not> (\<exists>s'. fst (login env d (li_username info) password st) = Ok (Session s'))"
    using assms(3,5) by (auto simp: login_def authenticate_def pa_issue_def Let_def split: option.splits if_splits)
  ultimately show ?thesis using open_session_signed[OF assms(6)] by simp
qed

theorem ldap_login_skips_second_factor_witness:
  "\<exists>s. fst (ldap_login demo_auth_env demo_draw ''*'' ''pw''
     (demo_auth_state \<lparr> as_users := \<lparr> us_users = [(''bob'', bob \<lparr> u_totp_enabled := True \<rparr>)], us_allowed = [] \<rparr> \<rparr>)) = Ok s
     \<and> lr_token s = ''2''"
proof -
  let ?u = "bob \<lparr> u_totp_enabled := True \<rparr>"
  let ?st = "demo_auth_state \<lparr> as_users := \<lparr> us_users = [(''bob'', ?u)], us_allowed = [] \<rparr> \<rparr>"
  have f: "lc_user_filter demo_ldap = default_ldap_filter" by (simp add: demo_ldap_def)
  have "lc_enabled (ae_ldap demo_auth_env)" by (simp add: demo_auth_env_def demo_ldap_def)
  moreover have "verify_ldap_credentials (ae_dir demo_auth_env) (ae_ldap demo_auth_env) ''*'' ''pw''
      = Some \<lparr> li_dn = ''uid=bob,dc=x'', li_username = ''bob'', li_display_name = ''bob'', li_email = [] \<rparr>"
    unfolding verify_ldap_credentials_def demo_auth_env_def auth_env.simps default_filter_verbatim[OF f]
    by (simp add: demo_ldap_def demo_dir_def first_attr_def Let_def)
  moreover have "us_get (as_users ?st) (li_username \<lparr> li_dn = ''uid=bob,dc=x'', li_username = ''bob'',
      li_display_name = ''bob'', li_email = [] \<rparr>) = Some ?u" by (simp add: us_get_def hm_get_def)
  moreover have "u_enabled ?u" "u_totp_enabled ?u"
    "ae_encode demo_auth_env (claims_for demo_auth_env (dr_claims demo_draw) ?u) = Ok ''2''"
    by (simp_all add: bob_def ann_def demo_auth_env_def claims_for_def)
  ultimately show ?thesis using ldap_login_skips_second_factor[of demo_auth_env "''*''" "''pw''" _ ?st ?u demo_draw "''2''"]
    by blast
qed

text \<open>Disabling an account does not end its sessions: after an administrator disables it, every password
  is refused, but a refresh token that verified still yields a signed token with the account's role
  and a new refresh token, so a session can be prolonged forever.\<close>

theorem disabled_account_keeps_refreshing:
  assumes "us_ok (as_users st)" "get_by_id (as_users st) uid = Some u"
    and "rs_ok (as_refresh st)" "rs_verify (ae_digest env) (dr_check d) raw (as_refresh st) = Some (tid, uid)"
    and "ae_encode env (claims_for env (dr_claims d) u) = Ok tok"
    and "disabled = snd (update_user (u_username u) None None None None (Some False) (as_users st))"
  shows "authenticate bv disabled (u_username u) password = None
     \<and> (\<exists>r. fst (refresh env d raw (st \<lparr> as_users := disabled \<rparr>)) = Ok r \<and> rr_token r = tok
            \<and> rr_refresh_token r = dr_token d)"
proof
  have "(u_username u, u) \<in> set (us_users (as_users st))"
    using assms(1,2) by (fastforce simp: get_by_id_def hm_values_def us_ok_def list_all_iff dest!: find_Some_set)
  then have get: "us_get (as_users st) (u_username u) = Some u"
    using assms(1) by (simp add: us_get_def us_ok_def hm_get_iff)
  then show "authenticate bv disabled (u_username u) password = None"
    using assms(6) by (simp add: update_user_def Let_def authenticate_def us_get_def hm_get_put)
  obtain r where r: "(tid, r) \<in> set (as_refresh st)" "rt_hash r = hash_token (ae_digest env) raw" "rt_user r = uid"
      "\<not> rt_revoked r" "dr_check d \<le> rt_expires r"
    using assms(4) rs_verify_iff[OF assms(3)] by blast
  have "get_by_id disabled uid = Some (u \<lparr> u_enabled := False \<rparr>)"
    using get_by_id_disable[OF assms(1,2)] assms(6) by simp
  moreover have "claims_for env (dr_claims d) (u \<lparr> u_enabled := False \<rparr>) = claims_for env (dr_claims d) u"
    by (simp add: claims_for_def)
  ultimately show "\<exists>r. fst (refresh env d raw (st \<lparr> as_users := disabled \<rparr>)) = Ok r \<and> rr_token r = tok
            \<and> rr_refresh_token r = dr_token d"
    using rotate_Some[OF assms(3) r(1,2) r(5,4)] r(3) assms(5) by (simp add: refresh_def)
qed

theorem disabled_account_keeps_refreshing_witness:
  "\<exists>r. fst (refresh demo_auth_env demo_draw ''a'' (demo_auth_state \<lparr>
       as_refresh := [(''9'', \<lparr> rt_id = ''9'', rt_user = ''2'', rt_hash = ''a'', rt_expires = 100, rt_revoked = False, rt_created = 0 \<rparr>)],
       as_users := snd (update_user ''bob'' None None None None (Some False) (as_users demo_auth_state)) \<rparr>)) = Ok r
     \<and> rr_token r = ''2''"
proof -
  let ?st = "demo_auth_state \<lparr> as_refresh := [(''9'', \<lparr> rt_id = ''9'', rt_user = ''2'', rt_hash = ''a'', rt_expires = 100,
      rt_revoked = False, rt_created = 0 \<rparr>)] \<rparr>"
  have "us_ok (as_users ?st)" by (simp add: us_ok_def demo_auth_state_def hm_ok_def ann_def bob_def)
  moreover have "get_by_id (as_users ?st) ''2'' = Some bob"
    by (simp add: get_by_id_def hm_values_def demo_auth_state_def ann_def bob_def)
  moreover have "rs_ok (as_refresh ?st)" by (simp add: rs_ok_def hm_ok_def)
  moreover have "rs_verify (ae_digest demo_auth_env) (dr_check demo_draw) ''a'' (as_refresh ?st) = Some (''9'', ''2'')"
    by (simp add: rs_verify_def find_hash_def hash_token_def demo_auth_env_def demo_draw_def)
  moreover have "ae_encode demo_auth_env (claims_for demo_auth_env (dr_claims demo_draw) bob) = Ok ''2''"
    by (simp add: demo_auth_env_def claims_for_def bob_def ann_def)
  ultimately have "\<exists>r. fst (refresh demo_auth_env demo_draw ''a'' (?st \<lparr> as_users :=
      snd (update_user (u_username bob) None None None None (Some False) (as_users ?st)) \<rparr>)) = Ok r \<and> rr_token r = ''2''"
    using disabled_account_keeps_refreshing[of ?st "''2''" bob demo_auth_env demo_draw "''a''" "''9''" "''2''" _ "\<lambda>p h. Ok True" "[]"]
    by blast
  moreover have "u_username bob = ''bob''" "as_users ?st = as_users demo_auth_state" by (simp_all add: bob_def)
  ultimately show ?thesis by simp
qed

text \<open>Refresh rotates before it looks the account up: for a session whose account is not in the user
  store, as are all accounts made by single sign-on, the first refresh answers 500 and has already
  spent the token: it never verifies again.\<close>

theorem refresh_burns_token_of_unknown_account:
  assumes "rs_ok (as_refresh st)" "rs_fresh (ae_digest env) (dr_id d) (dr_token d) (as_refresh st)"
    and "rs_verify (ae_digest env) (dr_check d) raw (as_refresh st) = Some (tid, uid)"
    and "get_by_id (as_users st) uid = None"
  shows "fst (refresh env d raw st) = Err (internal_response ''user not found'')
     \<and> rs_verify (ae_digest env) now raw (as_refresh (snd (refresh env d raw st))) = None"
proof -
  obtain r where r: "(tid, r) \<in> set (as_refresh st)" "rt_hash r = hash_token (ae_digest env) raw" "rt_user r = uid"
      "\<not> rt_revoked r" "dr_check d \<le> rt_expires r"
    using assms(3) rs_verify_iff[OF assms(1)] by blast
  obtain iss store where rot: "rs_rotate (ae_digest env) (dr_id d) (dr_token d) (dr_check d) (dr_issue d) raw
      default_refresh_ttl_secs (as_refresh st) = (Some iss, store)" and iss: "it_user iss = uid"
    using rotate_Some[OF assms(1) r(1,2) r(5,4)] r(3) by simp
  have "refresh env d raw st = (Err (internal_response ''user not found''), st \<lparr> as_refresh := store \<rparr>)"
    using rot iss assms(4) by (simp add: refresh_def)
  moreover have "\<not> rs_accepts (ae_digest env) store raw"
    using rotate_spends[OF assms(1,2) rot] spent_rejected by blast
  ultimately show ?thesis unfolding rs_accepts_def
    by (cases "rs_verify (ae_digest env) now raw store") auto
qed

theorem refresh_burns_token_of_unknown_account_witness:
  "rs_verify id 11 ''a'' (as_refresh (snd (refresh demo_auth_env demo_draw ''a'' (demo_auth_state \<lparr>
       as_refresh := [(''9'', \<lparr> rt_id = ''9'', rt_user = ''github:7'', rt_hash = ''a'', rt_expires = 100,
         rt_revoked = False, rt_created = 0 \<rparr>)] \<rparr>)))) = None"
proof -
  let ?st = "demo_auth_state \<lparr> as_refresh := [(''9'', \<lparr> rt_id = ''9'', rt_user = ''github:7'', rt_hash = ''a'',
      rt_expires = 100, rt_revoked = False, rt_created = 0 \<rparr>)] \<rparr>"
  have "rs_ok (as_refresh ?st)" by (simp add: rs_ok_def hm_ok_def)
  moreover have "rs_fresh (ae_digest demo_auth_env) (dr_id demo_draw) (dr_token demo_draw) (as_refresh ?st)"
    by (simp add: rs_fresh_def hm_contains_def hm_get_def demo_draw_def demo_auth_env_def hash_token_def)
  moreover have "rs_verify (ae_digest demo_auth_env) (dr_check demo_draw) ''a'' (as_refresh ?st) = Some (''9'', ''github:7'')"
    by (simp add: rs_verify_def find_hash_def hash_token_def demo_auth_env_def demo_draw_def)
  moreover have "get_by_id (as_users ?st) ''github:7'' = None"
    by (simp add: get_by_id_def hm_values_def demo_auth_state_def ann_def bob_def)
  ultimately have "rs_verify (ae_digest demo_auth_env) 11 ''a'' (as_refresh (snd (refresh demo_auth_env demo_draw ''a'' ?st))) = None"
    by (blast dest: refresh_burns_token_of_unknown_account)
  then show ?thesis by (simp add: demo_auth_env_def)
qed

text \<open>Backup codes can be used again and again: completing a login never changes an account, so a code
  that completed one login completes every later login of the account that presents it with a
  fresh pre-auth session.\<close>

theorem backup_code_reusable:
  assumes "two_factor_complete env d t code st = (Ok s, st')"
    and "hm_get (as_preauth st) t = Some session" "get_by_id (as_users st) (pa_user_id session) = Some u"
    and "verify_backup_code (ae_verify env) (u_backup_codes u) code \<noteq> None"
    and "hm_get (as_preauth st') t2 = Some session2" "pa_user_id session2 = pa_user_id session"
    and "dr_check d2 \<le> pa_expires session2" "\<not> pa_consumed session2"
    and "ae_encode env (claims_for env (dr_claims d2) u) = Ok tok"
  shows "as_users st' = as_users st
     \<and> (\<exists>s2. fst (two_factor_complete env d2 t2 code st') = Ok s2 \<and> lr_token s2 = tok)"
proof
  show same: "as_users st' = as_users st"
    using assms(1) by (auto simp: two_factor_complete_def open_session_def rs_issue_def Let_def
        split: prod.splits option.splits if_splits sum.splits)
  have ok: "second_factor_ok env d2 u code" using assms(4) by (simp add: second_factor_ok_def Let_def)
  obtain x post where c: "pa_consume (dr_check d2) t2 (as_preauth st') = (Some x, post)" "pa_user_id x = pa_user_id session"
    using assms(5-8) by (auto simp: pa_consume_def hm_get_put Let_def)
  obtain s2 where s2: "fst (open_session env d2 u (st' \<lparr> as_preauth := post \<rparr>)) = Ok s2" "lr_token s2 = tok"
    using open_session_signed[OF assms(9)] by blast
  have "two_factor_complete env d2 t2 code st' = open_session env d2 u (st' \<lparr> as_preauth := post \<rparr>)"
    using c assms(3) ok same by (simp add: two_factor_complete_def)
  then show "\<exists>s2. fst (two_factor_complete env d2 t2 code st') = Ok s2 \<and> lr_token s2 = tok" using s2 by simp
qed

theorem backup_code_reusable_witness:
  "let sess = \<lparr> pa_user_id = ''1'', pa_username = ''ann'', pa_expires = 300, pa_consumed = False \<rparr>;
       st = demo_auth_state \<lparr> as_preauth := [(''p1'', sess), (''p2'', sess)] \<rparr>;
       st' = snd (two_factor_complete demo_auth_env demo_draw ''p1'' ''code'' st)
   in \<exists>s2. fst (two_factor_complete demo_auth_env demo_draw ''p2'' ''code'' st') = Ok s2 \<and> lr_token s2 = ''1''"
proof -
  define sess where "sess = \<lparr> pa_user_id = ''1'', pa_username = ''ann'', pa_expires = 300, pa_consumed = False \<rparr>"
  define st where "st = demo_auth_state \<lparr> as_preauth := [(''p1'', sess), (''p2'', sess)] \<rparr>"
  have run: "\<exists>s. two_factor_complete demo_auth_env demo_draw ''p1'' ''code'' st
      = (Ok s, snd (two_factor_complete demo_auth_env demo_draw ''p1'' ''code'' st))"
    "hm_get (as_preauth (snd (two_factor_complete demo_auth_env demo_draw ''p1'' ''code'' st))) ''p2'' = Some sess"
    by (auto simp: two_factor_complete_def st_def sess_def pa_consume_def hm_get_def hm_put_def hm_del_def Let_def
        demo_draw_def demo_auth_state_def get_by_id_def hm_values_def ann_def bob_def second_factor_ok_def
        demo_auth_env_def verify_backup_code_def verify_password_def open_session_def rs_issue_def AList.delete_eq)
  then obtain s where run1: "two_factor_complete demo_auth_env demo_draw ''p1'' ''code'' st
      = (Ok s, snd (two_factor_complete demo_auth_env demo_draw ''p1'' ''code'' st))" by blast
  have u: "hm_get (as_preauth st) ''p1'' = Some sess" "get_by_id (as_users st) (pa_user_id sess) = Some ann"
    "verify_backup_code (ae_verify demo_auth_env) (u_backup_codes ann) ''code'' \<noteq> None"
    "dr_check demo_draw \<le> pa_expires sess" "\<not> pa_consumed sess"
    "ae_encode demo_auth_env (claims_for demo_auth_env (dr_claims demo_draw) ann) = Ok ''1''"
    by (simp_all add: st_def sess_def hm_get_def demo_auth_state_def get_by_id_def hm_values_def ann_def demo_draw_def
        demo_auth_env_def verify_backup_code_def verify_password_def claims_for_def)
  from backup_code_reusable[OF run1 u(1-3) run(2) refl u(4-6)] show ?thesis
    by (simp add: st_def[unfolded sess_def, symmetric] Let_def)
qed

text \<open>Two-factor set-up has no effect: setup, verify and disable leave the whole state as it was, although
  they report the second factor as enabled or disabled; every later login behaves as if they had not
  been called.\<close>

theorem two_factor_setup_inert:
  "snd (two_factor_setup env bytes rnd auth st) = st
   \<and> snd (two_factor_verify env d rnd auth secret code st) = st
   \<and> snd (two_factor_disable env auth pw st) = st
   \<and> login env d2 name password (snd (two_factor_verify env d rnd auth secret code st)) = login env d2 name password st"
proof -
  have v: "snd (two_factor_verify env d rnd auth secret code st) = st"
    by (simp add: two_factor_verify_def split: option.split)
  show ?thesis unfolding v
    by (auto simp: two_factor_setup_def two_factor_disable_def Let_def split: option.split)
qed

text \<open>Account administration is reserved to administrators: with any other role the four handlers answer
  403 and change nothing; with the admin role, creating an account never replaces an existing one
  and the account can then be looked up exactly as requested.\<close>

theorem account_administration:
  "(require_role auth Admin \<noteq> Ok () \<longrightarrow>
      hs_status (projl (fst (create_user_handler env auth req st))) = 403 \<and> snd (create_user_handler env auth req st) = st
      \<and> hs_status (projl (fst (update_user_handler env auth name upd st))) = 403 \<and> snd (update_user_handler env auth name upd st) = st
      \<and> hs_status (projl (fst (delete_user_handler auth name st))) = 403 \<and> snd (delete_user_handler auth name st) = st
      \<and> hs_status (projl (fst (list_users_handler auth st))) = 403 \<and> snd (list_users_handler auth st) = st)
   \<and> (\<forall>n. us_get (as_users st) n \<noteq> None \<longrightarrow>
        us_get (as_users (snd (create_user_handler env auth req st))) n = us_get (as_users st) n)
   \<and> (is_ok (fst (create_user_handler env auth req st)) \<longrightarrow>
        (\<exists>h r. ae_hash env (cu_password req) 12 = Ok h \<and> to_ascii_lowercase (cu_role req) = role_as_str r
         \<and> us_get (as_users st) (cu_username req) = None
         \<and> (\<exists>u. us_get (as_users (snd (create_user_handler env auth req st))) (cu_username req) = Some u
              \<and> u_id u = cu_id req \<and> u_role u = r \<and> u_password_hash u = h \<and> u_enabled u = cu_enabled req)))"
proof (intro conjI impI allI)
  assume "require_role auth Admin \<noteq> Ok ()"
  then obtain resp where resp: "require_role auth Admin = Inl resp" by (cases "require_role auth Admin") auto
  have gate: "admin_gate auth k st = (Inl resp, st)" for k :: "'a auth_op" by (simp add: admin_gate_def resp)
  have gate': "admin_gate auth k st = (Inl resp, st)" for k :: "user_view list auth_op" by (simp add: admin_gate_def resp)
  have gate'': "admin_gate auth k st = (Inl resp, st)" for k :: "string auth_op" by (simp add: admin_gate_def resp)
  note defs = create_user_handler_def update_user_handler_def delete_user_handler_def list_users_handler_def
    gate' gate'' require_role_Err[OF resp]
  show "hs_status (projl (fst (create_user_handler env auth req st))) = 403" "snd (create_user_handler env auth req st) = st"
    "hs_status (projl (fst (update_user_handler env auth name upd st))) = 403" "snd (update_user_handler env auth name upd st) = st"
    "hs_status (projl (fst (delete_user_handler auth name st))) = 403" "snd (delete_user_handler auth name st) = st"
    "hs_status (projl (fst (list_users_handler auth st))) = 403" "snd (list_users_handler auth st) = st"
    by (simp_all add: defs)
next
  fix n assume "us_get (as_users st) n \<noteq> None"
  then show "us_get (as_users (snd (create_user_handler env auth req st))) n = us_get (as_users st) n"
    by (auto simp: create_user_handler_def admin_gate_def add_user_def us_get_def hm_get_put hm_contains_def Let_def
        split: sum.split)
next
  assume "is_ok (fst (create_user_handler env auth req st))"
  then show "\<exists>h r. ae_hash env (cu_password req) 12 = Ok h \<and> to_ascii_lowercase (cu_role req) = role_as_str r
         \<and> us_get (as_users st) (cu_username req) = None
         \<and> (\<exists>u. us_get (as_users (snd (create_user_handler env auth req st))) (cu_username req) = Some u
              \<and> u_id u = cu_id req \<and> u_role u = r \<and> u_password_hash u = h \<and> u_enabled u = cu_enabled req)"
    by (auto simp: create_user_handler_def admin_gate_def add_user_def us_get_def hm_get_put hm_contains_def
        hash_password_def role_from_str_Ok[symmetric] Let_def split: sum.splits if_splits)
qed

definition demo_create :: create_user_request where
  "demo_create = \<lparr> cu_id = ''7'', cu_username = ''eve'', cu_display_name = None, cu_email = None, cu_role = ''viewer'',
     cu_password = ''pw'', cu_enabled = True \<rparr>"

definition admin_ctx :: "string \<Rightarrow> auth_context" where
  "admin_ctx r = \<lparr> ac_claims = \<lparr> cl_sub = ''1'', cl_username = ''ann'', cl_role = r, cl_iat = 0, cl_exp = 9 \<rparr> \<rparr>"

theorem account_administration_witness:
  "hs_status (projl (fst (create_user_handler demo_auth_env (admin_ctx ''bad'') demo_create demo_auth_state))) = 403
   \<and> (\<exists>u. us_get (as_users (snd (create_user_handler demo_auth_env (admin_ctx ''admin'') demo_create demo_auth_state))) ''eve'' = Some u
        \<and> u_id u = ''7'')"
proof
  have low: "to_ascii_lowercase ''bad'' = ''bad''" "to_ascii_lowercase ''admin'' = ''admin''"
    "to_ascii_lowercase ''viewer'' = ''viewer''" by code_simp+
  have "require_role (admin_ctx ''bad'') Admin \<noteq> Ok ()"
    by (simp add: require_role_def ac_role_def admin_ctx_def role_from_str_def low)
  then show "hs_status (projl (fst (create_user_handler demo_auth_env (admin_ctx ''bad'') demo_create demo_auth_state))) = 403"
    using account_administration[of "admin_ctx ''bad''" demo_auth_env demo_create demo_auth_state] by blast
  have "is_ok (fst (create_user_handler demo_auth_env (admin_ctx ''admin'') demo_create demo_auth_state))"
    by (simp add: create_user_handler_def admin_gate_def require_role_def ac_role_def admin_ctx_def role_from_str_def low
        demo_create_def demo_auth_env_def hash_password_def add_user_def hm_contains_def hm_get_def demo_auth_state_def Let_def)
  then obtain u where "us_get (as_users (snd (create_user_handler demo_auth_env (admin_ctx ''admin'') demo_create demo_auth_state)))
      (cu_username demo_create) = Some u" "u_id u = cu_id demo_create"
    using account_administration[of "admin_ctx ''admin''" demo_auth_env demo_create demo_auth_state] by blast
  moreover have "cu_username demo_create = ''eve''" "cu_id demo_create = ''7''" by (simp_all add: demo_create_def)
  ultimately show "\<exists>u. us_get (as_users (snd (create_user_handler demo_auth_env (admin_ctx ''admin'') demo_create demo_auth_state))) ''eve'' = Some u
        \<and> u_id u = ''7''" by metis
qed

end
