(* ===== verification/Webauthn.thy ===== *)
theory Webauthn
  imports Auth_Api
begin

text \<open>
  Passkeys (\<open>src/auth/webauthn.rs\<close>, \<open>src/api/webauthn.rs\<close>): the stores of credentials and pending
  challenges, and the four endpoints. The protocol itself is the \<open>webauthn-rs\<close> crate, the parameter
  \<open>wa_crate\<close>; its passkeys, challenges and messages are opaque types. The maps are locked one at a
  time, so each operation is composed of steps that lock one map once, and the last section
  interleaves these steps. No code can panic under one of the locks, so they are never poisoned.
\<close>

section \<open>The crate and the store\<close>

record ('k, 'r, 'a, 'cred, 'asr, 'z) wa_crate =
  wc_start_reg :: "string \<Rightarrow> string \<Rightarrow> string \<Rightarrow> string \<Rightarrow> string list option \<Rightarrow> (string, string \<times> 'r) result"
  wc_finish_reg :: "'cred \<Rightarrow> 'r \<Rightarrow> (string, 'k) result"
  wc_start_auth :: "string \<Rightarrow> 'k list \<Rightarrow> (string, string \<times> 'a) result"
  wc_finish_auth :: "'asr \<Rightarrow> 'a \<Rightarrow> (string, 'z) result"
  wc_needs_update :: "'z \<Rightarrow> bool"
  wc_result_cred :: "'z \<Rightarrow> string"
  wc_cred_id :: "'k \<Rightarrow> string"
  wc_update :: "'z \<Rightarrow> 'k \<Rightarrow> 'k"
  wc_parse_uuid :: "string \<Rightarrow> string option"

record ('k, 'r, 'a) wa_state =
  wa_credentials :: "(string, 'k list) hmap"
  wa_reg_state :: "(string, 'r) hmap"
  wa_auth_state :: "(string, 'a) hmap"

datatype wa_error = WaCrate string | WaInternal string

fun display_wa_error :: "wa_error \<Rightarrow> string" where
  "display_wa_error (WaCrate e) = ''webauthn: '' @ e"
| "display_wa_error (WaInternal s) = ''internal: '' @ s"

definition wa_new :: "('k, 'r, 'a) wa_state" where
  "wa_new = \<lparr> wa_credentials = hm_empty, wa_reg_state = hm_empty, wa_auth_state = hm_empty \<rparr>"

section \<open>Steps that lock one map\<close>

definition put_reg :: "string \<Rightarrow> 'r \<Rightarrow> ('k, 'r, 'a) wa_state \<Rightarrow> ('k, 'r, 'a) wa_state" where
  "put_reg uid r s = s \<lparr> wa_reg_state := hm_put uid r (wa_reg_state s) \<rparr>"

definition take_reg :: "string \<Rightarrow> ('k, 'r, 'a) wa_state \<Rightarrow> 'r option \<times> ('k, 'r, 'a) wa_state" where
  "take_reg uid s = (hm_get (wa_reg_state s) uid, s \<lparr> wa_reg_state := hm_del uid (wa_reg_state s) \<rparr>)"

definition push_key :: "string \<Rightarrow> 'k \<Rightarrow> ('k, 'r, 'a) wa_state \<Rightarrow> ('k, 'r, 'a) wa_state" where
  "push_key uid k s =
     s \<lparr> wa_credentials := hm_put uid (opt_or [] (hm_get (wa_credentials s) uid) @ [k]) (wa_credentials s) \<rparr>"

definition put_auth :: "string \<Rightarrow> 'a \<Rightarrow> ('k, 'r, 'a) wa_state \<Rightarrow> ('k, 'r, 'a) wa_state" where
  "put_auth uid a s = s \<lparr> wa_auth_state := hm_put uid a (wa_auth_state s) \<rparr>"

definition take_auth :: "string \<Rightarrow> ('k, 'r, 'a) wa_state \<Rightarrow> 'a option \<times> ('k, 'r, 'a) wa_state" where
  "take_auth uid s = (hm_get (wa_auth_state s) uid, s \<lparr> wa_auth_state := hm_del uid (wa_auth_state s) \<rparr>)"

definition take_keys :: "string \<Rightarrow> ('k, 'r, 'a) wa_state \<Rightarrow> 'k list \<times> ('k, 'r, 'a) wa_state" where
  "take_keys uid s =
     (opt_or [] (hm_get (wa_credentials s) uid), s \<lparr> wa_credentials := hm_del uid (wa_credentials s) \<rparr>)"

definition put_keys :: "string \<Rightarrow> 'k list \<Rightarrow> ('k, 'r, 'a) wa_state \<Rightarrow> ('k, 'r, 'a) wa_state" where
  "put_keys uid ks s = s \<lparr> wa_credentials := hm_put uid ks (wa_credentials s) \<rparr>"

definition update_keys :: "('k, 'r, 'a, 'cred, 'asr, 'z) wa_crate \<Rightarrow> 'z \<Rightarrow> 'k list \<Rightarrow> 'k list" where
  "update_keys W z = map (\<lambda>k. if wc_cred_id W k = wc_result_cred W z then wc_update W z k else k)"

section \<open>The operations\<close>

text \<open>\<open>uuid4\<close> is the random UUID used when the user id is not one; \<open>rnd\<close> the randomness of the crate.\<close>

definition start_registration :: "('k, 'r, 'a, 'cred, 'asr, 'z) wa_crate \<Rightarrow> string \<Rightarrow> string \<Rightarrow> string \<Rightarrow> string
    \<Rightarrow> ('k, 'r, 'a) wa_state \<Rightarrow> (wa_error, string \<times> 'r) result \<times> ('k, 'r, 'a) wa_state" where
  "start_registration W uuid4 rnd uid username s =
     (let exclude = map_option (map (wc_cred_id W)) (hm_get (wa_credentials s) uid);
          user_uuid = opt_or uuid4 (wc_parse_uuid W uid)
      in case wc_start_reg W rnd user_uuid username username exclude of
           Inl e \<Rightarrow> (Err (WaCrate e), s)
         | Inr (ccr, r) \<Rightarrow> (Ok (ccr, r), put_reg uid r s))"

definition finish_registration :: "('k, 'r, 'a, 'cred, 'asr, 'z) wa_crate \<Rightarrow> string \<Rightarrow> 'cred
    \<Rightarrow> ('k, 'r, 'a) wa_state \<Rightarrow> (wa_error, 'k) result \<times> ('k, 'r, 'a) wa_state" where
  "finish_registration W uid rsp s =
     (let (pending, s1) = take_reg uid s
      in case pending of
           None \<Rightarrow> (Err (WaInternal ''no pending registration for this user''), s1)
         | Some r \<Rightarrow>
             (case wc_finish_reg W rsp r of
                Inl e \<Rightarrow> (Err (WaCrate e), s1)
              | Inr k \<Rightarrow> (Ok k, push_key uid k s1)))"

definition has_credentials :: "('k, 'r, 'a) wa_state \<Rightarrow> string \<Rightarrow> bool" where
  "has_credentials s uid = (case hm_get (wa_credentials s) uid of None \<Rightarrow> False | Some ks \<Rightarrow> ks \<noteq> [])"

definition start_authentication :: "('k, 'r, 'a, 'cred, 'asr, 'z) wa_crate \<Rightarrow> string \<Rightarrow> string
    \<Rightarrow> ('k, 'r, 'a) wa_state \<Rightarrow> (wa_error, string \<times> 'a) result \<times> ('k, 'r, 'a) wa_state" where
  "start_authentication W rnd uid s =
     (let creds = opt_or [] (hm_get (wa_credentials s) uid)
      in if creds = [] then (Err (WaInternal ''no passkeys enrolled for this user''), s)
         else case wc_start_auth W rnd creds of
                Inl e \<Rightarrow> (Err (WaCrate e), s)
              | Inr (rcr, a) \<Rightarrow> (Ok (rcr, a), put_auth uid a s))"

definition finish_authentication :: "('k, 'r, 'a, 'cred, 'asr, 'z) wa_crate \<Rightarrow> string \<Rightarrow> 'asr
    \<Rightarrow> ('k, 'r, 'a) wa_state \<Rightarrow> (wa_error, 'z) result \<times> ('k, 'r, 'a) wa_state" where
  "finish_authentication W uid rsp s =
     (let (pending, s1) = take_auth uid s
      in case pending of
           None \<Rightarrow> (Err (WaInternal ''no pending authentication for this user''), s1)
         | Some a \<Rightarrow>
             (case wc_finish_auth W rsp a of
                Inl e \<Rightarrow> (Err (WaCrate e), s1)
              | Inr z \<Rightarrow>
                  (Ok z, if wc_needs_update W z
                         then (let (ks, s2) = take_keys uid s1 in put_keys uid (update_keys W z ks) s2)
                         else s1)))"

section \<open>The endpoints\<close>

text \<open>The shared state of the endpoints; without configuration there is no passkey store.\<close>

type_synonym ('k, 'r, 'a, 'b) wa_op =
  "auth_state \<times> ('k, 'r, 'a) wa_state option \<Rightarrow> (http_response, 'b) result \<times> auth_state \<times> ('k, 'r, 'a) wa_state option"

definition with_webauthn :: "(auth_state \<Rightarrow> ('k, 'r, 'a) wa_state \<Rightarrow> (http_response, 'b) result \<times> auth_state \<times> ('k, 'r, 'a) wa_state)
    \<Rightarrow> ('k, 'r, 'a, 'b) wa_op" where
  "with_webauthn f st =
     (case snd st of
        None \<Rightarrow> (Err (response 404 ''WebAuthn is not configured on this server''), st)
      | Some w \<Rightarrow> (let (r, ast, w') = f (fst st) w in (r, ast, Some w')))"

definition register_start :: "('k, 'r, 'a, 'cred, 'asr, 'z) wa_crate \<Rightarrow> string \<Rightarrow> string \<Rightarrow> auth_context
    \<Rightarrow> ('k, 'r, 'a, string) wa_op" where
  "register_start W uuid4 rnd auth =
     with_webauthn (\<lambda>ast w.
       let (r, w') = start_registration W uuid4 rnd (cl_sub (ac_claims auth)) (cl_username (ac_claims auth)) w
       in (case r of
             Inl e \<Rightarrow> Err (response 500 (''WebAuthn registration start failed: '' @ display_wa_error e))
           | Inr (challenge, _) \<Rightarrow> Ok challenge, ast, w'))"

definition register_complete :: "('k, 'r, 'a, 'cred, 'asr, 'z) wa_crate \<Rightarrow> auth_context \<Rightarrow> 'cred
    \<Rightarrow> ('k, 'r, 'a, string) wa_op" where
  "register_complete W auth credential =
     with_webauthn (\<lambda>ast w.
       let (r, w') = finish_registration W (cl_sub (ac_claims auth)) credential w
       in (case r of
             Inl e \<Rightarrow> Err (response 400 (''WebAuthn registration failed: '' @ display_wa_error e))
           | Inr _ \<Rightarrow> Ok ''ok'', ast, w'))"

definition user_not_found :: "string \<Rightarrow> http_response" where
  "user_not_found username = response 404 (''User '' @ quoted username @ '' not found'')"

definition passkey_login_start :: "('k, 'r, 'a, 'cred, 'asr, 'z) wa_crate \<Rightarrow> string \<Rightarrow> string
    \<Rightarrow> ('k, 'r, 'a, string) wa_op" where
  "passkey_login_start W rnd username =
     with_webauthn (\<lambda>ast w.
       case us_get (as_users ast) username of
         None \<Rightarrow> (Err (user_not_found username), ast, w)
       | Some u \<Rightarrow>
           (let (r, w') = start_authentication W rnd (u_id u) w
            in (case r of
                  Inl e \<Rightarrow> Err (response 400 (''WebAuthn login start failed: '' @ display_wa_error e))
                | Inr (challenge, _) \<Rightarrow> Ok challenge, ast, w')))"

definition passkey_login_complete :: "('k, 'r, 'a, 'cred, 'asr, 'z) wa_crate \<Rightarrow> auth_env \<Rightarrow> draw \<Rightarrow> string \<Rightarrow> 'asr
    \<Rightarrow> ('k, 'r, 'a, login_response) wa_op" where
  "passkey_login_complete W env d username credential =
     with_webauthn (\<lambda>ast w.
       case us_get (as_users ast) username of
         None \<Rightarrow> (Err (user_not_found username), ast, w)
       | Some u \<Rightarrow>
           (let (r, w') = finish_authentication W (u_id u) credential w
            in case r of
                 Inl e \<Rightarrow> (Err (response 400 (''WebAuthn authentication failed: '' @ display_wa_error e)), ast, w')
               | Inr _ \<Rightarrow> (let (r', ast') = open_session env d u ast in (r', ast', w'))))"

section \<open>Interleaving the steps\<close>

text \<open>
  The program counter of a request that completes a registration or an authentication: before the
  pending challenge is taken, after the crate has accepted the answer, and between taking a user's
  passkeys out of the map and putting them back.
\<close>

datatype ('k, 'cred, 'asr, 'z) wa_pc =
    RegFinish string 'cred
  | RegPush string 'k
  | AuthFinish string 'asr
  | AuthTake string 'z
  | AuthPut string 'z "'k list"
  | Finished bool

fun wa_advance :: "('k, 'r, 'a, 'cred, 'asr, 'z) wa_crate \<Rightarrow> ('k, 'cred, 'asr, 'z) wa_pc \<Rightarrow> ('k, 'r, 'a) wa_state
    \<Rightarrow> ('k, 'cred, 'asr, 'z) wa_pc \<times> ('k, 'r, 'a) wa_state" where
  "wa_advance W (RegFinish uid rsp) s =
     (let (pending, s1) = take_reg uid s
      in (case pending of None \<Rightarrow> Finished False
          | Some r \<Rightarrow> (case wc_finish_reg W rsp r of Inl e \<Rightarrow> Finished False | Inr k \<Rightarrow> RegPush uid k), s1))"
| "wa_advance W (RegPush uid k) s = (Finished True, push_key uid k s)"
| "wa_advance W (AuthFinish uid rsp) s =
     (let (pending, s1) = take_auth uid s
      in (case pending of None \<Rightarrow> Finished False
          | Some a \<Rightarrow> (case wc_finish_auth W rsp a of Inl e \<Rightarrow> Finished False
                       | Inr z \<Rightarrow> if wc_needs_update W z then AuthTake uid z else Finished True), s1))"
| "wa_advance W (AuthTake uid z) s = (let (ks, s1) = take_keys uid s in (AuthPut uid z ks, s1))"
| "wa_advance W (AuthPut uid z ks) s = (Finished True, put_keys uid (update_keys W z ks) s)"
| "wa_advance W (Finished b) s = (Finished b, s)"

text \<open>The steps a request has left, and the run of a request without interference.\<close>

fun wa_left :: "('k, 'cred, 'asr, 'z) wa_pc \<Rightarrow> nat" where
  "wa_left (AuthFinish uid rsp) = 3" | "wa_left (RegFinish uid rsp) = 2" | "wa_left (AuthTake uid z) = 2"
| "wa_left (RegPush uid k) = 1" | "wa_left (AuthPut uid z ks) = 1" | "wa_left (Finished b) = 0"

definition wa_alone :: "('k, 'r, 'a, 'cred, 'asr, 'z) wa_crate \<Rightarrow> ('k, 'cred, 'asr, 'z) wa_pc \<Rightarrow> ('k, 'r, 'a) wa_state
    \<Rightarrow> ('k, 'cred, 'asr, 'z) wa_pc \<times> ('k, 'r, 'a) wa_state" where
  "wa_alone W pc s = ((\<lambda>(p, t). wa_advance W p t) ^^ wa_left pc) (pc, s)"

text \<open>
  New requests arrive, challenges are stored, and any request takes its next step. The challenges
  drawn so far are a ghost component; the crate never draws one twice.
\<close>

inductive wa_step :: "('k, 'r, 'a, 'cred, 'asr, 'z) wa_crate
    \<Rightarrow> ('k, 'r, 'a) wa_state \<times> ('k, 'cred, 'asr, 'z) wa_pc list \<times> 'a list
    \<Rightarrow> ('k, 'r, 'a) wa_state \<times> ('k, 'cred, 'asr, 'z) wa_pc list \<times> 'a list \<Rightarrow> bool" for W where
  challenge: "a \<notin> set drawn \<Longrightarrow> wa_step W (s, ts, drawn) (put_auth uid a s, ts, a # drawn)"
| reg_challenge: "wa_step W (s, ts, drawn) (put_reg uid r s, ts, drawn)"
| arrive_reg: "wa_step W (s, ts, drawn) (s, ts @ [RegFinish uid cred], drawn)"
| arrive_auth: "wa_step W (s, ts, drawn) (s, ts @ [AuthFinish uid asr], drawn)"
| run: "i < length ts \<Longrightarrow> wa_advance W (ts ! i) s = (pc, s') \<Longrightarrow> wa_step W (s, ts, drawn) (s', ts[i := pc], drawn)"

inductive_cases wa_stepE: "wa_step W (s, ts, drawn) st'"

definition wa_ok :: "('k, 'r, 'a) wa_state \<times> ('k, 'cred, 'asr, 'z) wa_pc list \<times> 'a list \<Rightarrow> bool" where
  "wa_ok st = (let (s, ts, drawn) = st in
     (\<forall>uid a. hm_get (wa_auth_state s) uid = Some a \<longrightarrow> a \<in> set drawn)
     \<and> (\<forall>u v a. hm_get (wa_auth_state s) u = Some a \<longrightarrow> hm_get (wa_auth_state s) v = Some a \<longrightarrow> u = v)
     \<and> hm_ok (wa_auth_state s))"

definition wa_accepts :: "('k, 'r, 'a) wa_state \<times> ('k, 'cred, 'asr, 'z) wa_pc list \<times> 'a list \<Rightarrow> 'a \<Rightarrow> bool" where
  "wa_accepts st a = (\<exists>uid. fst (take_auth uid (fst st)) = Some a)"

definition wa_spent :: "('k, 'r, 'a) wa_state \<times> ('k, 'cred, 'asr, 'z) wa_pc list \<times> 'a list \<Rightarrow> 'a \<Rightarrow> bool" where
  "wa_spent st a = (a \<in> set (snd (snd st)) \<and> (\<forall>uid. hm_get (wa_auth_state (fst st)) uid \<noteq> Some a))"

section \<open>Lemmas\<close>

lemmas wa_map_defs = put_reg_def take_reg_def push_key_def put_auth_def take_auth_def take_keys_def put_keys_def

text \<open>The challenges after one step of a request: at most those before, without the one it took.\<close>

lemma advance_auth_state: "wa_auth_state (snd (wa_advance W pc s)) =
    (case pc of AuthFinish uid rsp \<Rightarrow> hm_del uid (wa_auth_state s) | _ \<Rightarrow> wa_auth_state s)"
  by (cases pc) (simp_all add: wa_map_defs Let_def)

lemma wa_step_auth:
  assumes "wa_step W (s, ts, drawn) (s', ts', drawn')"
  shows "(\<exists>uid a. a \<notin> set drawn \<and> wa_auth_state s' = hm_put uid a (wa_auth_state s) \<and> drawn' = a # drawn)
    \<or> (\<exists>uid. wa_auth_state s' = hm_del uid (wa_auth_state s)) \<and> drawn' = drawn
    \<or> wa_auth_state s' = wa_auth_state s \<and> drawn' = drawn"
  using assms
proof (cases rule: wa_step.cases)
  case (run i pc)
  then have "wa_auth_state s' = (case ts ! i of AuthFinish uid rsp \<Rightarrow> hm_del uid (wa_auth_state s) | _ \<Rightarrow> wa_auth_state s)"
    using advance_auth_state[of W "ts ! i" s] by simp
  with run show ?thesis by (auto split: wa_pc.splits)
qed (auto simp: wa_map_defs)

lemma wa_ok_step [step_inv]: "wa_ok st \<Longrightarrow> wa_step W st st' \<Longrightarrow> wa_ok st'"
proof -
  assume ok: "wa_ok st" and step: "wa_step W st st'"
  obtain s ts drawn s' ts' drawn' where st: "st = (s, ts, drawn)" "st' = (s', ts', drawn')"
    by (metis prod_cases3)
  from wa_step_auth[OF step[unfolded st]] ok show "wa_ok st'"
    unfolding st wa_ok_def Let_def prod.case
    by (elim disjE exE conjE) (auto simp: hm_get_put hm_get_del split: if_splits)
qed

lemma wa_spent_step: "wa_ok st \<Longrightarrow> wa_step W st st' \<Longrightarrow> wa_spent st a \<Longrightarrow> wa_spent st' a"
proof -
  assume ok: "wa_ok st" and step: "wa_step W st st'" and sp: "wa_spent st a"
  obtain s ts drawn s' ts' drawn' where st: "st = (s, ts, drawn)" "st' = (s', ts', drawn')"
    by (metis prod_cases3)
  from wa_step_auth[OF step[unfolded st]] ok sp show "wa_spent st' a"
    unfolding st wa_ok_def wa_spent_def Let_def prod.case fst_conv snd_conv
    by (elim disjE exE conjE) (auto simp: hm_get_put hm_get_del split: if_splits)
qed

lemma wa_spent_rejected: "wa_ok st \<Longrightarrow> wa_spent st a \<Longrightarrow> \<not> wa_accepts st a"
  by (simp add: wa_spent_def wa_accepts_def take_auth_def)

interpretation wa: single_use_store wa_ok "wa_step W" wa_spent wa_accepts
  by unfold_locales (fact wa_ok_step wa_spent_step wa_spent_rejected)+

text \<open>Without interference a request does what the operation does.\<close>

lemma finish_registration_alone: "wa_alone W (RegFinish uid rsp) s =
    (Finished (is_ok (fst (finish_registration W uid rsp s))), snd (finish_registration W uid rsp s))"
  by (simp add: wa_alone_def finish_registration_def numeral_2_eq_2 Let_def take_reg_def
      split: option.split sum.split)

lemma finish_authentication_alone: "wa_alone W (AuthFinish uid rsp) s =
    (Finished (is_ok (fst (finish_authentication W uid rsp s))), snd (finish_authentication W uid rsp s))"
  by (simp add: wa_alone_def finish_authentication_def numeral_3_eq_3 Let_def take_auth_def take_keys_def
      split: option.split sum.split)

lemma advance_left: "wa_left (fst (wa_advance W pc s)) < wa_left pc \<or> (\<exists>b. pc = Finished b)"
  by (cases pc) (auto simp: wa_map_defs Let_def split: option.split sum.split)

lemma with_webauthn_Some: "\<exists>r ast' w'. with_webauthn f (ast, Some w) = (r, ast', Some w')"
  by (simp add: with_webauthn_def split_beta)

lemma keys_of_others:
  "uid' \<noteq> uid \<Longrightarrow> hm_get (wa_credentials (snd (finish_authentication W uid rsp s))) uid' = hm_get (wa_credentials s) uid'"
  by (simp add: finish_authentication_def wa_map_defs Let_def hm_get_put hm_get_del split: option.split sum.split)

section \<open>Properties\<close>

text \<open>Passkey challenges are single use: once a request has taken the pending challenge of a user,
  accepted or not, no later request verifies an assertion against that challenge, in any
  interleaving of the single locks of any number of registrations and logins.\<close>

theorem passkey_challenge_single_use:
  assumes "wa_ok (s, ts, drawn)" "i < length ts" "ts ! i = AuthFinish uid rsp"
    and "hm_get (wa_auth_state s) uid = Some a" "wa_advance W (ts ! i) s = (pc, s1)"
    and "(wa_step W)\<^sup>*\<^sup>* (s1, ts[i := pc], drawn) (s2, ts2, drawn2)"
  shows "fst (take_auth uid2 s2) \<noteq> Some a"
proof -
  have ok: "wa_ok (s1, ts[i := pc], drawn)" using wa_ok_step[OF assms(1) wa_step.run[OF assms(2,5)]] .
  have "wa_auth_state s1 = hm_del uid (wa_auth_state s)"
    using advance_auth_state[of W "ts ! i" s] assms(3,5) by simp
  then have "wa_spent (s1, ts[i := pc], drawn) a"
    using assms(1,4) by (auto simp: wa_spent_def wa_ok_def hm_get_del)
  from wa.spent_forever[OF assms(6) ok this] show ?thesis by (simp add: wa_accepts_def)
qed

text \<open>A crate with transparent passkeys (a credential id and a counter), challenges and answers.\<close>

definition demo_wa :: "(string \<times> nat, string, string, string, string \<times> nat, string \<times> nat) wa_crate" where
  "demo_wa = \<lparr> wc_start_reg = (\<lambda>rnd uuid n dn ex. Ok (rnd, rnd)), wc_finish_reg = (\<lambda>c r. Ok (c, 0)),
     wc_start_auth = (\<lambda>rnd ks. Ok (rnd, rnd)), wc_finish_auth = (\<lambda>z a. if a = ''ch'' then Ok z else Err ''bad''),
     wc_needs_update = (\<lambda>z. 0 < snd z), wc_result_cred = fst, wc_cred_id = fst,
     wc_update = (\<lambda>z k. (fst k, snd z)), wc_parse_uuid = (\<lambda>_. None) \<rparr>"

definition demo_keys :: "(string \<times> nat, string, string) wa_state" where
  "demo_keys = \<lparr> wa_credentials = [(''2'', [(''k1'', 4)])], wa_reg_state = [], wa_auth_state = [(''2'', ''ch'')] \<rparr>"

theorem passkey_challenge_single_use_witness:
  "fst (take_auth ''2'' (snd (wa_advance demo_wa (AuthFinish ''2'' (''k1'', 5)) demo_keys))) \<noteq> Some ''ch''"
proof -
  let ?ts = "[AuthFinish ''2'' (''k1'', 5) :: (string \<times> nat, string, string \<times> nat, string \<times> nat) wa_pc]"
  have ok: "wa_ok (demo_keys, ?ts, [''ch''])" by (simp add: wa_ok_def demo_keys_def hm_get_def hm_ok_def)
  obtain pc s1 where adv: "wa_advance demo_wa (?ts ! 0) demo_keys = (pc, s1)" by fastforce
  from passkey_challenge_single_use[of demo_keys ?ts "[''ch'']" 0 "''2''" "(''k1'', 5)" "''ch''" demo_wa pc s1
      s1 "?ts[0 := pc]" "[''ch'']" "''2''", OF ok _ _ _ adv] adv
  show ?thesis by (simp add: demo_keys_def hm_get_def)
qed

text \<open>A registration can be lost: while a login of the same user stores an updated counter, it holds the
  user's passkeys outside the map, and a registration that completes in between reports success
  although the login then overwrites it. In either serial order the new passkey is kept.\<close>

theorem passkey_registration_lost:
  assumes "hm_get (wa_credentials s) uid = Some ks" "k \<notin> set (update_keys W z ks)"
  shows "\<exists>s'. (wa_step W)\<^sup>*\<^sup>* (s, [AuthTake uid z, RegPush uid k], drawn) (s', [Finished True, Finished True], drawn)
       \<and> hm_get (wa_credentials s') uid = Some (update_keys W z ks) \<and> k \<notin> set (update_keys W z ks)
       \<and> hm_get (wa_credentials (snd (wa_alone W (RegPush uid k) (snd (wa_alone W (AuthTake uid z) s))))) uid
           = Some (update_keys W z ks @ [k])
       \<and> hm_get (wa_credentials (snd (wa_alone W (AuthTake uid z) (snd (wa_alone W (RegPush uid k) s))))) uid
           = Some (update_keys W z (ks @ [k]))"
proof -
  define s1 where "s1 = snd (take_keys uid s)"
  define s2 where "s2 = push_key uid k s1"
  define s3 where "s3 = put_keys uid (update_keys W z ks) s2"
  have t1: "wa_step W (s, [AuthTake uid z, RegPush uid k], drawn) (s1, [AuthPut uid z ks, RegPush uid k], drawn)"
    using wa_step.run[of 0 "[AuthTake uid z, RegPush uid k]" W s "AuthPut uid z ks" s1 drawn] assms(1)
    by (simp add: s1_def take_keys_def)
  have t2: "wa_step W (s1, [AuthPut uid z ks, RegPush uid k], drawn) (s2, [AuthPut uid z ks, Finished True], drawn)"
    using wa_step.run[of 1 "[AuthPut uid z ks, RegPush uid k]" W s1 "Finished True" s2 drawn] by (simp add: s2_def)
  have t3: "wa_step W (s2, [AuthPut uid z ks, Finished True], drawn) (s3, [Finished True, Finished True], drawn)"
    using wa_step.run[of 0 "[AuthPut uid z ks, Finished True]" W s2 "Finished True" s3 drawn] by (simp add: s3_def)
  have "(wa_step W)\<^sup>*\<^sup>* (s, [AuthTake uid z, RegPush uid k], drawn) (s3, [Finished True, Finished True], drawn)"
    using t1 t2 t3 by (meson rtranclp.rtrancl_into_rtrancl rtranclp.rtrancl_refl)
  then show ?thesis using assms
    by (intro exI[of _ s3]) (simp add: s3_def put_keys_def hm_get_put wa_alone_def numeral_2_eq_2 wa_map_defs Let_def)
qed

text \<open>C22. What a passkey login proves: a session is opened only for the account of the given name, with an
  assertion the crate accepted for that account's pending challenge, which is then gone; nobody
  else's passkeys change, and a failed login issues nothing.\<close>

theorem passkey_login_sound:
  assumes "passkey_login_complete W env d username rsp (ast, Some w) = (r, ast', Some w')"
  shows "(is_ok r \<longrightarrow> (\<exists>u a z tok. us_get (as_users ast) username = Some u
            \<and> hm_get (wa_auth_state w) (u_id u) = Some a \<and> wc_finish_auth W rsp a = Ok z
            \<and> hm_get (wa_auth_state w') (u_id u) = None
            \<and> ae_encode env (claims_for env (dr_claims d) u) = Ok tok
            \<and> (\<forall>uid. uid \<noteq> u_id u \<longrightarrow> hm_get (wa_credentials w') uid = hm_get (wa_credentials w) uid)))
    \<and> (\<not> is_ok r \<longrightarrow> ast' = ast) \<and> as_users ast' = as_users ast"
proof (cases "us_get (as_users ast) username")
  case None
  then show ?thesis using assms by (auto simp: passkey_login_complete_def with_webauthn_def)
next
  case (Some u)
  obtain f w1 where fin: "finish_authentication W (u_id u) rsp w = (f, w1)" by fastforce
  have gone: "hm_get (wa_auth_state w1) (u_id u) = None"
    using fin by (auto simp: finish_authentication_def wa_map_defs Let_def hm_get_del split: option.splits sum.splits if_splits)
  have others: "uid \<noteq> u_id u \<Longrightarrow> hm_get (wa_credentials w1) uid = hm_get (wa_credentials w) uid" for uid
    using keys_of_others[of uid "u_id u" W rsp w] fin by simp
  show ?thesis
  proof (cases f)
    case (Inl e)
    then show ?thesis using assms Some fin by (auto simp: passkey_login_complete_def with_webauthn_def)
  next
    case (Inr z)
    then obtain a where a: "hm_get (wa_auth_state w) (u_id u) = Some a" "wc_finish_auth W rsp a = Ok z"
      using fin by (auto simp: finish_authentication_def take_auth_def Let_def split: option.splits sum.splits)
    obtain r1 ast1 where os: "open_session env d u ast = (r1, ast1)" by fastforce
    have eq: "r = r1" "ast' = ast1" "w' = w1"
      using assms Some fin Inr os by (auto simp: passkey_login_complete_def with_webauthn_def)
    then show ?thesis using Some a gone others os
      by (auto simp: open_session_def Let_def split: sum.splits prod.splits)
  qed
qed


theorem passkey_registration_lost_witness:
  "\<exists>s'. (wa_step demo_wa)\<^sup>*\<^sup>* (demo_keys, [AuthTake ''2'' (''k1'', 5), RegPush ''2'' (''k2'', 0)], [])
        (s', [Finished True, Finished True], []) \<and> hm_get (wa_credentials s') ''2'' = Some [(''k1'', 5)]"
proof -
  have "hm_get (wa_credentials demo_keys) ''2'' = Some [(''k1'', 4)]" by (simp add: demo_keys_def hm_get_def)
  moreover have upd: "update_keys demo_wa (''k1'', 5) [(''k1'', 4)] = [(''k1'', 5)]"
    by (simp add: update_keys_def demo_wa_def)
  ultimately show ?thesis
    using passkey_registration_lost[of demo_keys "''2''" "[(''k1'', 4)]" "(''k2'', 0)" demo_wa "(''k1'', 5)" "[]"]
    by auto
qed

theorem passkey_login_sound_witness:
  "\<exists>r ast w'. passkey_login_complete demo_wa demo_auth_env demo_draw ''bob'' (''k1'', 5) (demo_auth_state, Some demo_keys)
      = (r, ast, Some w') \<and> is_ok r \<and> hm_get (wa_auth_state w') ''2'' = None"
proof -
  obtain r ast w' where run: "passkey_login_complete demo_wa demo_auth_env demo_draw ''bob'' (''k1'', 5)
      (demo_auth_state, Some demo_keys) = (r, ast, Some w')"
    using with_webauthn_Some unfolding passkey_login_complete_def by blast
  moreover have ok: "is_ok r"
    using run by (auto simp: passkey_login_complete_def with_webauthn_def demo_auth_state_def us_get_def hm_get_def
      ann_def bob_def finish_authentication_def demo_keys_def demo_wa_def wa_map_defs open_session_def
      demo_auth_env_def rs_issue_def Let_def)
  moreover have "us_get (as_users demo_auth_state) ''bob'' = Some bob" "u_id bob = ''2''"
    by (simp_all add: demo_auth_state_def us_get_def hm_get_def ann_def bob_def)
  ultimately show ?thesis using passkey_login_sound[OF run] by auto
qed

text \<open>Disabling an account does not stop its passkeys: after an administrator disables it, every password
  is refused, but a passkey login that would succeed still succeeds.\<close>

theorem disabled_account_passkey_login:
  assumes "us_get (as_users ast) username = Some u" "u_username u = username"
    and "is_ok (fst (passkey_login_complete W env d username rsp (ast, Some w)))"
    and "disabled = snd (update_user username None None None None (Some False) (as_users ast))"
  shows "authenticate bv disabled username password = None
    \<and> is_ok (fst (passkey_login_complete W env d username rsp (ast \<lparr> as_users := disabled \<rparr>, Some w)))"
proof -
  have get: "us_get disabled username = Some (u \<lparr> u_enabled := False \<rparr>)"
    using assms(1,2,4) by (simp add: update_user_def us_get_def Let_def hm_get_put)
  have claims: "claims_for env (dr_claims d) (u \<lparr> u_enabled := False \<rparr>) = claims_for env (dr_claims d) u"
    by (simp add: claims_for_def)
  have "is_ok (fst (passkey_login_complete W env d username rsp (ast \<lparr> as_users := disabled \<rparr>, Some w)))"
    using assms(1,3) get claims
    by (cases "finish_authentication W (u_id u) rsp w"; cases "fst (finish_authentication W (u_id u) rsp w)";
        cases "ae_encode env (claims_for env (dr_claims d) u)")
       (simp_all add: passkey_login_complete_def with_webauthn_def open_session_def rs_issue_def Let_def)
  then show ?thesis using get by (simp add: authenticate_def)
qed

theorem disabled_account_passkey_login_witness:
  "is_ok (fst (passkey_login_complete demo_wa demo_auth_env demo_draw ''bob'' (''k1'', 5)
     (demo_auth_state \<lparr> as_users := snd (update_user ''bob'' None None None None (Some False) (as_users demo_auth_state)) \<rparr>,
      Some demo_keys)))"
proof -
  have bob: "us_get (as_users demo_auth_state) ''bob'' = Some bob" "u_username bob = ''bob''"
    by (simp_all add: demo_auth_state_def us_get_def hm_get_def ann_def bob_def)
  have ok: "is_ok (fst (passkey_login_complete demo_wa demo_auth_env demo_draw ''bob'' (''k1'', 5) (demo_auth_state, Some demo_keys)))"
    by (simp add: passkey_login_complete_def with_webauthn_def demo_auth_state_def us_get_def hm_get_def
      ann_def bob_def finish_authentication_def demo_keys_def demo_wa_def wa_map_defs open_session_def
      demo_auth_env_def rs_issue_def Let_def)
  show ?thesis using disabled_account_passkey_login[OF bob ok refl, of "\<lambda>p h. Ok True" "[]"] by (rule conjunct2)
qed

text \<open>Every request that completes a registration or an authentication ends after at most three locks,
  whatever the other requests do to the maps between its steps.\<close>

theorem passkey_request_terminates:
  "wa_left pc \<le> length ss \<Longrightarrow> \<exists>b. fold (\<lambda>s p. fst (wa_advance W p s)) ss pc = Finished b"
proof (induction ss arbitrary: pc)
  case Nil
  then show ?case by (cases pc) simp_all
next
  case (Cons s ss)
  have "wa_left (fst (wa_advance W pc s)) \<le> length ss"
    using Cons.prems advance_left[of W pc s] by (cases pc) auto
  from Cons.IH[OF this] show ?case by simp
qed

theorem passkey_request_terminates_witness:
  "\<exists>b. fold (\<lambda>s p. fst (wa_advance demo_wa p s)) [demo_keys, wa_new, demo_keys] (AuthFinish ''2'' (''k1'', 5)) = Finished b"
  using passkey_request_terminates[of "AuthFinish ''2'' (''k1'', 5)" "[demo_keys, wa_new, demo_keys]" demo_wa] by simp

end
