(* ===== verification/Bodies.thy ===== *)
theory Bodies
  imports Proxmox_Json Vm_Api Lxc_Api Audit_Store Webauthn "HOL-Library.Countable"
begin

text \<open>
  The bodies and queries the handlers accept, as their derived decoders read them (the request structs of
  \<open>src/api/\<close> and \<open>src/proxmox/types.rs\<close>), and the dashboards as \<open>src/dashboard_custom/mod.rs\<close> stores them in its file.
  A query is the list of its decoded pairs (splitting and percent decoding are the \<open>serde_urlencoded\<close>
  crate's); a credential of a passkey is decoded by the \<open>webauthn-rs\<close> crate.
\<close>

section \<open>Requests on machines and clusters\<close>

definition de_delete_vm_request :: "delete_vm_request de" where
  "de_delete_vm_request = de_struct (
     fbind (dflt False ''purge'' de_bool) (\<lambda>x0. fbind (dflt False ''force'' de_bool) (\<lambda>x1.
     fbind (dflt False ''skiplock'' de_bool) (\<lambda>x2.
     fret \<lparr> dv_purge = x0, dv_force = x1, dv_skiplock = x2 \<rparr>))))"

definition de_migrate_request :: "migrate_request de" where
  "de_migrate_request = de_struct (
     fbind (req ''target'' de_string) (\<lambda>target. fbind (dflt True ''online'' de_bool) (\<lambda>online.
     fret (migrate_body target (Some online)))))"

definition de_bulk_vm_ref :: "bulk_vm_ref de" where
  "de_bulk_vm_ref = de_struct (
     fbind (req ''cluster'' de_string) (\<lambda>x0. fbind (req ''node'' de_string) (\<lambda>x1.
     fbind (req ''vmid'' (de_uint 32)) (\<lambda>x2.
     fret \<lparr> bv_cluster = x0, bv_node = x1, bv_vmid = x2 \<rparr>))))"

definition de_bulk_action_request :: "bulk_vm_ref list de" where
  "de_bulk_action_request = de_struct (req ''vms'' (de_list de_bulk_vm_ref))"

definition de_sendkey_request :: "string de" where
  "de_sendkey_request = de_struct (req ''key'' de_string)"

definition de_ha_group_create_request :: "ha_group_create_request de" where
  "de_ha_group_create_request = de_struct (
     fbind (optd ''nodes'' de_string) (\<lambda>x0. fbind (optd ''comment'' de_string) (\<lambda>x1.
     fbind (dflt False ''nofailback'' de_bool) (\<lambda>x2.
     fbind (dflt False ''restricted'' de_bool) (\<lambda>x3.
     fret \<lparr> hc_nodes = x0, hc_comment = x1, hc_nofailback = x2, hc_restricted = x3 \<rparr>)))))"

definition de_create_replication_request :: "create_replication_request de" where
  "de_create_replication_request = de_struct (
     fbind (req ''source_node'' de_string) (\<lambda>x0. fbind (req ''target'' de_string) (\<lambda>x1.
     fbind (optd ''target_vmid'' (de_uint 32)) (\<lambda>x2. fbind (optd ''rate'' (de_uint 32)) (\<lambda>x3.
     fbind (req ''schedule'' de_string) (\<lambda>x4. fbind (optd ''comment'' de_string) (\<lambda>x5.
     fret \<lparr> cq_source_node = x0, cq_target = x1, cq_target_vmid = x2, cq_rate = x3, cq_schedule = x4,
       cq_comment = x5 \<rparr>)))))))"

definition de_update_replication_job_req :: "update_replication_job_req de" where
  "de_update_replication_job_req = de_struct (
     fbind (optd ''enable'' de_bool) (\<lambda>x0. fbind (optd ''rate'' (de_uint 32)) (\<lambda>x1.
     fbind (optd ''schedule'' de_string) (\<lambda>x2. fbind (optd ''comment'' de_string) (\<lambda>x3.
     fret \<lparr> uj_enable = x0, uj_rate = x1, uj_schedule = x2, uj_comment = x3 \<rparr>)))))"

definition de_create_lxc_request :: "create_lxc_request de" where
  "de_create_lxc_request = de_struct (
     fbind (optd ''vmid'' (de_uint 32)) (\<lambda>x0. fbind (req ''hostname'' de_string) (\<lambda>x1.
     fbind (req ''ostemplate'' de_string) (\<lambda>x2. fbind (optd ''storage'' de_string) (\<lambda>x3.
     fbind (optd ''memory'' (de_uint 64)) (\<lambda>x4. fbind (optd ''cores'' (de_uint 32)) (\<lambda>x5.
     fbind (optd ''password'' de_string) (\<lambda>x6. fbind (optd ''rootfs'' de_string) (\<lambda>x7.
     fbind (optd ''net'' de_string) (\<lambda>x8. fbind (optd ''force'' de_bool) (\<lambda>x9.
     fbind (optd ''unprivileged'' de_bool) (\<lambda>x10. fbind (optd ''description'' de_string) (\<lambda>x11.
     fbind (optd ''onboot'' (de_uint 8)) (\<lambda>x12. fbind (optd ''tags'' de_string) (\<lambda>x13.
     fbind (optd ''ssh_public_keys'' de_string) (\<lambda>x14. fbind (optd ''start'' de_bool) (\<lambda>x15.
     fret \<lparr> xc_vmid = x0, xc_hostname = x1, xc_ostemplate = x2, xc_storage = x3, xc_memory = x4,
       xc_cores = x5, xc_password = x6, xc_rootfs = x7, xc_net = x8, xc_force = x9, xc_unprivileged = x10,
       xc_description = x11, xc_onboot = x12, xc_tags = x13, xc_ssh_public_keys = x14, xc_start = x15
       \<rparr>)))))))))))))))))"

definition de_lxc_config :: "lxc_config de" where
  "de_lxc_config = de_struct (
     fbind (optd ''hostname'' de_string) (\<lambda>x0. fbind (optd ''memory'' (de_uint 64)) (\<lambda>x1.
     fbind (optd ''cores'' (de_uint 32)) (\<lambda>x2. fbind (optd ''description'' de_string) (\<lambda>x3.
     fbind (optd ''onboot'' (de_uint 8)) (\<lambda>x4. fbind (optd ''tags'' de_string) (\<lambda>x5.
     fbind (optd ''nameserver'' de_string) (\<lambda>x6. fbind (optd ''searchdomain'' de_string) (\<lambda>x7.
     fbind (optd ''rootfs'' de_string) (\<lambda>x8. fbind (optd ''net'' de_string) (\<lambda>x9.
     fbind (optd ''features'' de_string) (\<lambda>x10. fbind (optd ''protection'' (de_uint 8)) (\<lambda>x11.
     fbind (optd ''start'' de_bool) (\<lambda>x12. fbind (optd ''hookscript'' de_string) (\<lambda>x13.
     fbind (optd ''console'' (de_uint 8)) (\<lambda>x14. fbind (optd ''swap'' (de_uint 32)) (\<lambda>x15.
     fret \<lparr> xf_hostname = x0, xf_memory = x1, xf_cores = x2, xf_description = x3, xf_onboot = x4,
       xf_tags = x5, xf_nameserver = x6, xf_searchdomain = x7, xf_rootfs = x8, xf_net = x9, xf_features = x10,
       xf_protection = x11, xf_start = x12, xf_hookscript = x13, xf_console = x14, xf_swap = x15
       \<rparr>)))))))))))))))))"

text \<open>
  The body of a new container collects the members it does not name (the attribute \<open>flatten\<close>), the last of
  several with one name; such a struct is read from an object only.
\<close>

definition create_lxc_body_fields :: "string list" where
  "create_lxc_body_fields = [''vmid'', ''hostname'', ''rootfs'', ''storage'', ''ostemplate'', ''memory'', ''cores'', ''swap'',
     ''password'', ''ssh_public_keys'', ''net0'', ''unprivileged'', ''start'']"

definition create_lxc_body_read :: "(string, json) hmap \<Rightarrow> create_lxc_body fields" where
  "create_lxc_body_read extra =
     fbind (optd ''vmid'' (de_uint 32)) (\<lambda>x0. fbind (optd ''hostname'' de_string) (\<lambda>x1.
     fbind (optd ''rootfs'' de_string) (\<lambda>x2. fbind (optd ''storage'' de_string) (\<lambda>x3.
     fbind (optd ''ostemplate'' de_string) (\<lambda>x4. fbind (optd ''memory'' (de_uint 32)) (\<lambda>x5.
     fbind (optd ''cores'' (de_uint 32)) (\<lambda>x6. fbind (optd ''swap'' (de_uint 32)) (\<lambda>x7.
     fbind (optd ''password'' de_string) (\<lambda>x8. fbind (optd ''ssh_public_keys'' de_string) (\<lambda>x9.
     fbind (optd ''net0'' de_string) (\<lambda>x10. fbind (optd ''unprivileged'' de_bool) (\<lambda>x11.
     fbind (optd ''start'' de_bool) (\<lambda>x12.
     fret \<lparr> lb_vmid = x0, lb_hostname = x1, lb_rootfs = x2, lb_storage = x3, lb_ostemplate = x4, lb_memory = x5,
       lb_cores = x6, lb_swap = x7, lb_password = x8, lb_ssh_public_keys = x9, lb_net0 = x10, lb_unprivileged = x11,
       lb_start = x12, lb_extra = extra \<rparr>)))))))))))))"

definition de_create_lxc_body :: "create_lxc_body de" where
  "de_create_lxc_body j =
     (case j of
        JObj kvs \<Rightarrow> de_struct (create_lxc_body_read
          (hm_of_pairs (filter (\<lambda>kv. \<not> List.member create_lxc_body_fields (fst kv)) kvs))) (JObj kvs)
      | _ \<Rightarrow> None)"

section \<open>Requests on accounts and sessions\<close>

definition de_login_request :: "(string \<times> string) de" where
  "de_login_request = de_struct (
     fbind (req ''username'' de_string) (\<lambda>username. fbind (req ''password'' de_string) (\<lambda>password. fret (username, password))))"

definition de_refresh_request :: "string de" where
  "de_refresh_request = de_struct (req ''refresh_token'' de_string)"

definition de_logout_request :: "string de" where
  "de_logout_request = de_struct (req ''refresh_token'' de_string)"

definition de_two_factor_complete_request :: "(string \<times> string) de" where
  "de_two_factor_complete_request = de_struct (
     fbind (req ''preauth_token'' de_string) (\<lambda>token. fbind (req ''code'' de_string) (\<lambda>code. fret (token, code))))"

definition de_two_factor_verify_request :: "(string \<times> string) de" where
  "de_two_factor_verify_request = de_struct (
     fbind (req ''secret'' de_string) (\<lambda>secret. fbind (req ''code'' de_string) (\<lambda>code. fret (secret, code))))"

text \<open>Disabling reads one member of a plain value: \<open>as_str\<close> of \<open>get\<close>, where the last of several members counts.\<close>

definition disable_password :: "json \<Rightarrow> string option" where
  "disable_password body =
     (case body of JObj kvs \<Rightarrow> Option.bind (map_of (rev kvs) ''password'') de_string | _ \<Rightarrow> None)"

definition de_oidc_login_request :: "string de" where
  "de_oidc_login_request = de_struct (req ''provider'' de_string)"

definition de_oidc_callback_request :: "(string \<times> string \<times> string) de" where
  "de_oidc_callback_request = de_struct (
     fbind (req ''state_key'' de_string) (\<lambda>key. fbind (req ''code'' de_string) (\<lambda>code.
     fbind (req ''state'' de_string) (\<lambda>state. fret (key, code, state)))))"

definition de_ldap_login_request :: "(string \<times> string) de" where
  "de_ldap_login_request = de_struct (
     fbind (req ''username'' de_string) (\<lambda>username. fbind (req ''password'' de_string) (\<lambda>password. fret (username, password))))"

definition de_create_user_request :: "create_user_request de" where
  "de_create_user_request = de_struct (
     fbind (req ''id'' de_string) (\<lambda>x0. fbind (req ''username'' de_string) (\<lambda>x1.
     fbind (optd ''display_name'' de_string) (\<lambda>x2. fbind (optd ''email'' de_string) (\<lambda>x3.
     fbind (req ''role'' de_string) (\<lambda>x4. fbind (req ''password'' de_string) (\<lambda>x5.
     fbind (dflt True ''enabled'' de_bool) (\<lambda>x6.
     fret \<lparr> cu_id = x0, cu_username = x1, cu_display_name = x2, cu_email = x3, cu_role = x4,
       cu_password = x5, cu_enabled = x6 \<rparr>))))))))"

definition de_update_user_request :: "update_user_request de" where
  "de_update_user_request = de_struct (
     fbind (optd ''display_name'' de_string) (\<lambda>x0. fbind (optd ''email'' de_string) (\<lambda>x1.
     fbind (optd ''role'' de_string) (\<lambda>x2. fbind (optd ''password'' de_string) (\<lambda>x3.
     fbind (optd ''enabled'' de_bool) (\<lambda>x4.
     fret \<lparr> uu_display_name = x0, uu_email = x1, uu_role = x2, uu_password = x3, uu_enabled = x4
       \<rparr>))))))"

definition de_passkey_login_start :: "string de" where
  "de_passkey_login_start = de_struct (req ''username'' de_string)"

definition de_passkey_login_complete :: "'asr de \<Rightarrow> (string \<times> 'asr) de" where
  "de_passkey_login_complete d = de_struct (
     fbind (req ''username'' de_string) (\<lambda>username. fbind (req ''credential'' d) (\<lambda>cred. fret (username, cred))))"

definition de_registration_complete :: "'cred de \<Rightarrow> 'cred de" where
  "de_registration_complete d = de_struct (req ''credential'' d)"

section \<open>Queries\<close>

text \<open>\<open>FromStr\<close> of the unsigned integers: an optional plus sign, then at least one digit, within the width.\<close>

definition is_digit :: "char \<Rightarrow> bool" where
  "is_digit c = (48 \<le> byte_of c \<and> byte_of c \<le> 57)"

definition read_unsigned :: "string \<Rightarrow> nat option" where
  "read_unsigned s = (if s \<noteq> [] \<and> list_all is_digit s then Some (read_digits s) else None)"

definition parse_uint :: "nat \<Rightarrow> string \<Rightarrow> nat option" where
  "parse_uint w s =
     (case read_unsigned (if s \<noteq> [] \<and> hd s = CHR ''+'' then tl s else s) of
        None \<Rightarrow> None | Some n \<Rightarrow> if n < 2 ^ w then Some n else None)"

definition parse_i64 :: "string \<Rightarrow> int option" where
  "parse_i64 s =
     (let (sign, ds) = (if s \<noteq> [] \<and> hd s = CHR ''-'' then (-1, tl s)
                        else if s \<noteq> [] \<and> hd s = CHR ''+'' then (1, tl s) else (1, s))
      in case read_unsigned ds of None \<Rightarrow> None
         | Some n \<Rightarrow> if in_i64 (sign * int n) then Some (sign * int n) else None)"

text \<open>A pair of a query is read as a member with a text; numbers are read from the text.\<close>

definition de_query :: "'a fields \<Rightarrow> (string \<times> string) list \<Rightarrow> 'a option" where
  "de_query p pairs = map_option fst (p (Members (map (\<lambda>(k, v). (k, JStr v)) pairs)))"

definition de_text :: "(string \<Rightarrow> 'a option) \<Rightarrow> 'a de" where
  "de_text f j = Option.bind (de_string j) f"

definition de_vms_query :: "(string \<times> string) list \<Rightarrow> vms_query option" where
  "de_vms_query = de_query (fbind (optd ''search'' de_string) (\<lambda>search. fret \<lparr> vq_search = search \<rparr>))"

definition de_rrd_data_query :: "(string \<times> string) list \<Rightarrow> string option" where
  "de_rrd_data_query = de_query (dflt default_timeframe ''timeframe'' de_string)"

definition de_vnc_ws_query :: "(string \<times> string) list \<Rightarrow> string option" where
  "de_vnc_ws_query = de_query (req ''vnc_token'' de_string)"

definition de_audit_params :: "(string \<times> string) list \<Rightarrow> audit_params option" where
  "de_audit_params = de_query (
     fbind (opt ''page'' (de_text (parse_uint 64))) (\<lambda>page. fbind (opt ''per_page'' (de_text (parse_uint 64))) (\<lambda>per_page.
     fbind (opt ''method'' de_string) (\<lambda>meth. fbind (opt ''path'' de_string) (\<lambda>path.
     fbind (opt ''status'' (de_text (parse_uint 16))) (\<lambda>status. fbind (opt ''from_ts'' (de_text parse_i64)) (\<lambda>from_ts.
     fbind (opt ''to_ts'' (de_text parse_i64)) (\<lambda>to_ts. fbind (opt ''request_id'' de_string) (\<lambda>rid.
     fbind (opt ''sort'' de_string) (\<lambda>sort.
     fret \<lparr> ap_page = page, ap_per_page = per_page, ap_method = meth, ap_path = path, ap_status = status,
       ap_from_ts = from_ts, ap_to_ts = to_ts, ap_request_id = rid, ap_sort = sort \<rparr>))))))))))"

section \<open>Stored dashboards\<close>

definition de_widget_config :: "widget_config de" where
  "de_widget_config = de_struct (
     fbind (req ''id'' de_string) (\<lambda>x0. fbind (req ''type'' de_string) (\<lambda>x1.
     fbind (optd ''title'' de_string) (\<lambda>x2. fbind (req ''x'' (de_uint 32)) (\<lambda>x3.
     fbind (req ''y'' (de_uint 32)) (\<lambda>x4. fbind (req ''width'' (de_uint 32)) (\<lambda>x5.
     fbind (req ''height'' (de_uint 32)) (\<lambda>x6.
     fret \<lparr> wi_id = x0, wi_type = x1, wi_title = x2, wi_x = x3, wi_y = x4, wi_width = x5, wi_height =
       x6 \<rparr>))))))))"

definition de_layout_row :: "layout_row de" where
  "de_layout_row = de_struct (
     fbind (req ''row'' (de_uint 32)) (\<lambda>x0. fbind (req ''widgets'' (de_list de_string)) (\<lambda>x1.
     fret \<lparr> lo_row = x0, lo_widgets = x1 \<rparr>)))"

definition de_custom_dashboard :: "custom_dashboard de" where
  "de_custom_dashboard = de_struct (
     fbind (req ''user_id'' de_string) (\<lambda>x0.
     fbind (dflt [] ''widgets'' (de_list de_widget_config)) (\<lambda>x1.
     fbind (dflt [] ''layout'' (de_list de_layout_row)) (\<lambda>x2.
     fret \<lparr> cu_user_id = x0, cu_widgets = x1, cu_layout = x2 \<rparr>))))"

definition ser_list :: "('a \<Rightarrow> json) \<Rightarrow> 'a list \<Rightarrow> json" where "ser_list f xs = JArr (map f xs)"

definition ser_widget_config :: "widget_config \<Rightarrow> json" where
  "ser_widget_config r = JObj (
     mem ''id'' (JStr (wi_id r)) @ mem ''type'' (JStr (wi_type r)) @ mem ''title'' (ser_opt JStr (wi_title r))
     @ mem ''x'' (JNum (wi_x r)) @ mem ''y'' (JNum (wi_y r)) @ mem ''width'' (JNum (wi_width r))
     @ mem ''height'' (JNum (wi_height r)))"

definition ser_layout_row :: "layout_row \<Rightarrow> json" where
  "ser_layout_row r = JObj (
     mem ''row'' (JNum (lo_row r)) @ mem ''widgets'' (ser_list JStr (lo_widgets r)))"

definition ser_custom_dashboard :: "custom_dashboard \<Rightarrow> json" where
  "ser_custom_dashboard r = JObj (
     mem ''user_id'' (JStr (cu_user_id r)) @ mem ''widgets'' (ser_list ser_widget_config (cu_widgets r))
     @ mem ''layout'' (ser_list ser_layout_row (cu_layout r)))"

text \<open>A hash map is read from an object, the last of several members of one name counting; it is written in
  the order of its iteration.\<close>

definition de_hmap :: "'a de \<Rightarrow> (string, 'a) hmap de" where
  "de_hmap d j =
     (case j of
        JObj kvs \<Rightarrow> map_option hm_of_pairs (collect_options (map (\<lambda>kv. map_option (Pair (fst kv)) (d (snd kv))) kvs))
      | _ \<Rightarrow> None)"

definition ser_hmap :: "('a \<Rightarrow> json) \<Rightarrow> (string, 'a) hmap \<Rightarrow> json" where
  "ser_hmap f m = JObj (map (\<lambda>kv. (fst kv, f (snd kv))) m)"

definition de_all_dashboards :: "layouts de" where
  "de_all_dashboards = de_struct (req ''dashboards'' (de_hmap de_custom_dashboard))"

definition ser_all_dashboards :: "layouts \<Rightarrow> json" where
  "ser_all_dashboards m = JObj (mem ''dashboards'' (ser_hmap ser_custom_dashboard m))"

definition de_save_custom_dashboard :: "custom_dashboard de" where
  "de_save_custom_dashboard = de_struct (req ''dashboard'' de_custom_dashboard)"

text \<open>The file system of the service with these encodings: text and values are related by the \<open>serde_json\<close> crate.\<close>

definition serde_fs :: "(json \<Rightarrow> string) \<Rightarrow> (string \<Rightarrow> (string, json) result) \<Rightarrow> layout_fs \<Rightarrow> layout_fs" where
  "serde_fs print parse F =
     F \<lparr> fs_print := (\<lambda>m. Ok (print (ser_all_dashboards m))),
         fs_parse := (\<lambda>t. rbind (parse t) (\<lambda>j. ok_or ''invalid data'' (de_all_dashboards j))) \<rparr>"

section \<open>Lemmas\<close>

definition widget_fits :: "widget_config \<Rightarrow> bool" where
  "widget_fits w = (fits 32 (wi_x w) \<and> fits 32 (wi_y w) \<and> fits 32 (wi_width w) \<and> fits 32 (wi_height w))"

definition dashboard_fits :: "custom_dashboard \<Rightarrow> bool" where
  "dashboard_fits d = (list_all widget_fits (cu_widgets d) \<and> list_all (\<lambda>r. fits 32 (lo_row r)) (cu_layout d))"

lemma de_ser_list: "(\<And>x. x \<in> set xs \<Longrightarrow> d (f x) = Some x) \<Longrightarrow> de_list d (ser_list f xs) = Some xs"
  using collect_options_map[of xs "\<lambda>x. d (f x)" "\<lambda>x. x"] by (simp add: ser_list_def o_def)

lemma widget_config_roundtrip: "widget_fits w \<Longrightarrow> de_widget_config (ser_widget_config w) = Some w"
  by (simp add: de_widget_config_def ser_widget_config_def widget_fits_def serde_read)

lemma layout_row_roundtrip: "fits 32 (lo_row r) \<Longrightarrow> de_layout_row (ser_layout_row r) = Some r"
  by (simp add: de_layout_row_def ser_layout_row_def de_ser_list serde_read)

lemma custom_dashboard_roundtrip: "dashboard_fits d \<Longrightarrow> de_custom_dashboard (ser_custom_dashboard d) = Some d"
  by (simp add: de_custom_dashboard_def ser_custom_dashboard_def dashboard_fits_def list_all_iff
      de_ser_list widget_config_roundtrip layout_row_roundtrip serde_read)

lemma all_dashboards_roundtrip:
  assumes "list_all (\<lambda>kv. dashboard_fits (snd kv)) m"
  shows "de_all_dashboards (ser_all_dashboards m) = Some (hm_of_pairs m)"
proof -
  have "collect_options (map (\<lambda>kv. map_option (Pair (fst kv)) (de_custom_dashboard (ser_custom_dashboard (snd kv)))) m) = Some m"
    using collect_options_map[of m _ "\<lambda>kv. kv"] assms by (simp add: custom_dashboard_roundtrip list_all_iff)
  then show ?thesis
    by (simp add: de_all_dashboards_def ser_all_dashboards_def de_struct_def req_def field_def de_hmap_def ser_hmap_def o_def
        del: collect_options.simps)
qed

lemma gives_widget: "gives widget_fits de_widget_config"
  unfolding de_widget_config_def
  by (rule gives_struct, (rule yields_bind yields_fields gives_any gives_uint)+, rule yields_ret)
    (simp add: widget_fits_def fits_def)

lemma gives_layout_row: "gives (\<lambda>r. fits 32 (lo_row r)) de_layout_row"
  unfolding de_layout_row_def
  by (rule gives_struct, (rule yields_bind yields_fields gives_any gives_uint)+, rule yields_ret) (simp add: fits_def)

lemma gives_custom_dashboard: "gives dashboard_fits de_custom_dashboard"
  unfolding de_custom_dashboard_def
  by (rule gives_struct, rule yields_bind, rule yields_fields, rule gives_any, rule yields_bind,
      rule yields_fields(4)[OF gives_list[OF gives_widget]], simp, rule yields_bind,
      rule yields_fields(4)[OF gives_list[OF gives_layout_row]], simp, rule yields_ret)
    (simp add: dashboard_fits_def)

lemma gives_save_custom_dashboard: "gives dashboard_fits de_save_custom_dashboard"
  unfolding de_save_custom_dashboard_def by (intro gives_struct yields_fields gives_custom_dashboard)

section \<open>Dashboards survive a restart\<close>

definition layouts_ok :: "layout_service \<Rightarrow> bool" where
  "layouts_ok s = (hm_ok (ly_dashboards s) \<and> list_all (\<lambda>kv. dashboard_fits (snd kv)) (ly_dashboards s))"

lemma layouts_ok_put:
  "layouts_ok s \<Longrightarrow> dashboard_fits d \<Longrightarrow> ly_dashboards s' = hm_put user d (ly_dashboards s) \<Longrightarrow> layouts_ok s'"
  by (auto simp: layouts_ok_def list_all_iff hm_put_set)

lemma hm_of_pairs_get: "hm_ok m \<Longrightarrow> hm_get (hm_of_pairs m) k = hm_get m k"
  unfolding hm_get_of_pairs hm_ok_def
  by (auto simp: hm_get_def rev_map[symmetric] intro!: fun_cong[OF map_of_inject_set[THEN iffD2]])

text \<open>The values \<open>serde_json\<close> reads back as it printed them: no member twice, no number beyond 64 bits and no fraction.\<close>

fun json_plain :: "json \<Rightarrow> bool" where
  "json_plain (JNum n) = fits 64 n"
| "json_plain (JNumber t) = False"
| "json_plain (JArr js) = list_all json_plain js"
| "json_plain (JObj kvs) = (distinct (map fst kvs) \<and> list_all (\<lambda>kv. json_plain (snd kv)) kvs)"
| "json_plain j = True"

lemma json_plain_list: "list_all (\<lambda>x. json_plain (f x)) xs \<Longrightarrow> json_plain (ser_list f xs)"
  by (simp add: ser_list_def list_all_iff)

lemma fits_wider: "fits 32 n \<Longrightarrow> fits 64 n"
  by (simp add: fits_def)

lemma json_plain_text: "json_plain (ser_opt JStr t)"
  by (cases t) simp_all

lemma widget_plain: "widget_fits w \<Longrightarrow> json_plain (ser_widget_config w)"
  by (simp add: widget_fits_def ser_widget_config_def mem_def json_plain_text fits_wider)

lemma row_plain: "fits 32 (lo_row r) \<Longrightarrow> json_plain (ser_layout_row r)"
  by (simp add: ser_layout_row_def mem_def fits_wider json_plain_list list_all_iff)

lemma dashboard_plain: "dashboard_fits d \<Longrightarrow> json_plain (ser_custom_dashboard d)"
  by (simp add: ser_custom_dashboard_def dashboard_fits_def mem_def json_plain_list list_all_iff widget_plain row_plain)

lemma written_plain: "layouts_ok s \<Longrightarrow> json_plain (ser_all_dashboards (ly_dashboards s))"
  by (auto simp: ser_all_dashboards_def ser_hmap_def layouts_ok_def hm_ok_def list_all_iff o_def mem_def dashboard_plain)

lemma reloaded_dashboards:
  assumes "layouts_ok s" "\<forall>j. json_plain j \<longrightarrow> parse (print j) = Ok j" "\<forall>c. fs_read F c = Ok c"
  shows "ly_dashboards (layouts_new (serde_fs print parse F) (Some (print (ser_all_dashboards (ly_dashboards s)))))
       = hm_of_pairs (ly_dashboards s)"
  using assms written_plain[OF assms(1)] all_dashboards_roundtrip[of "ly_dashboards s"]
  by (simp add: layouts_new_def serde_fs_def rbind_def ok_or_def layouts_ok_def)

lemma saved_file:
  assumes "save_dashboard (serde_fs print parse F) user d s = (Ok (), s')"
    and "\<forall>c old. is_ok (fst (fs_write F c old)) \<longrightarrow> snd (fs_write F c old) = Some c"
  shows "ly_dashboards s' = hm_put user d (ly_dashboards s) \<and> ly_file s' = Some (print (ser_all_dashboards (ly_dashboards s')))"
proof -
  define s0 where "s0 = s \<lparr> ly_dashboards := hm_put user d (ly_dashboards s) \<rparr>"
  have run: "persist (serde_fs print parse F) s0 = (Ok (), s')" using assms(1) by (simp add: save_dashboard_def s0_def)
  with persist_ok[of "serde_fs print parse F" s0] persist_memory[of "serde_fs print parse F" s0] assms(2) show ?thesis
    by (auto simp: s0_def serde_fs_def is_ok_def)
qed

text \<open>C30. A dashboard a user posts is the one the user sees after the process has been restarted, and nobody
  else's has changed: what the decoder of the request accepts is written to the file and read back from it
  as the same dashboards, provided the crate reads back what it has printed and a write that succeeds
  leaves the file with what was written.\<close>

theorem posted_dashboard_survives_restart:
  assumes "de_save_custom_dashboard body = Some d" "layouts_ok s" "\<forall>j. json_plain j \<longrightarrow> parse (print j) = Ok j"
    and "\<forall>c old. is_ok (fst (fs_write F c old)) \<longrightarrow> snd (fs_write F c old) = Some c" "\<forall>c. fs_read F c = Ok c"
    and "save_dashboard (serde_fs print parse F) user d s = (Ok (), s')"
  shows "layouts_ok s'
     \<and> get_dashboard u (layouts_new (serde_fs print parse F) (ly_file s')) = (if u = user then d else get_dashboard u s)"
proof -
  note saved = saved_file[OF assms(6,4)]
  have "dashboard_fits d" using gives_save_custom_dashboard assms(1) by (simp add: gives_def)
  then have ok: "layouts_ok s'" using layouts_ok_put[OF assms(2)] saved by blast
  then have "hm_ok (ly_dashboards s')" by (simp add: layouts_ok_def)
  with reloaded_dashboards[OF ok assms(3,5)] saved have "get_dashboard u (layouts_new (serde_fs print parse F) (ly_file s'))
      = opt_or (default_dashboard u) (hm_get (hm_put user d (ly_dashboards s)) u)"
    by (simp add: get_dashboard_def hm_of_pairs_get)
  with ok show ?thesis by (simp add: get_dashboard_def hm_get_put opt_or_def)
qed

text \<open>A printer and a parser that meet the contract: values are countable.\<close>

instance json :: countable
  by countable_datatype

definition demo_print :: "json \<Rightarrow> string" where "demo_print j = show_nat (to_nat j)"
definition demo_parse :: "string \<Rightarrow> (string, json) result" where "demo_parse t = Ok (from_nat (read_digits t))"

definition demo_disk :: layout_fs where
  "demo_disk = demo_fs \<lparr> fs_write := (\<lambda>c old. (Ok (), Some c)) \<rparr>"

definition demo_post :: json where
  "demo_post = JObj [(''dashboard'', JObj [(''layout'', JArr [JObj [(''widgets'', JArr [JStr ''w'']), (''row'', JNum 2)]]),
     (''user_id'', JStr ''ann'')])]"

theorem posted_dashboard_survives_restart_witness:
  "\<exists>d s'. de_save_custom_dashboard demo_post = Some d
     \<and> save_dashboard (serde_fs demo_print demo_parse demo_disk) ''ann'' d \<lparr> ly_dashboards = [], ly_file = None \<rparr> = (Ok (), s')
     \<and> cu_layout (get_dashboard ''ann'' (layouts_new (serde_fs demo_print demo_parse demo_disk) (ly_file s')))
         = [\<lparr> lo_row = 2, lo_widgets = [''w''] \<rparr>]"
proof -
  let ?F = "serde_fs demo_print demo_parse demo_disk" and ?s = "\<lparr> ly_dashboards = [], ly_file = None \<rparr> :: layout_service"
  define d where "d = \<lparr> cu_user_id = ''ann'', cu_widgets = [], cu_layout = [\<lparr> lo_row = 2, lo_widgets = [''w''] \<rparr>] \<rparr>"
  have d: "de_save_custom_dashboard demo_post = Some d" 
    by (simp add: demo_post_def d_def de_save_custom_dashboard_def de_custom_dashboard_def de_layout_row_def serde_read field_def
        de_uint.simps)
  obtain s' where saved: "save_dashboard ?F ''ann'' d ?s = (Ok (), s')"
    by (simp add: save_dashboard_def persist_def serde_fs_def demo_disk_def demo_fs_def map_err_def)
  have "get_dashboard ''ann'' (layouts_new ?F (ly_file s')) = d"
    using posted_dashboard_survives_restart[OF d _ _ _ _ saved, of "''ann''"]
    by (simp add: layouts_ok_def hm_ok_def demo_print_def demo_parse_def demo_disk_def demo_fs_def)
  then show ?thesis using d saved by (auto simp: d_def)
qed

end
