(* ===== verification/Security.thy ===== *)
theory Security
  imports Http
begin

text \<open>
  Rate limiting by peer address (\<open>src/security/rate_limiter.rs\<close>), the API key marker
  (\<open>src/security/api_key.rs\<close>) and the security headers (\<open>src/api/mod.rs\<close>). The keyed quota is the
  \<open>governor\<close> crate: \<open>chk key l\<close> is its decision and its next state.
\<close>

section \<open>Rate limiting\<close>

record rate_limit_config =
  rl_requests_per_second :: nat
  rl_burst_size :: nat

text \<open>\<open>None\<close> is the panic of \<open>NonZeroU32::new(..).unwrap()\<close>. The rate saturates at \<open>u32::MAX\<close>.\<close>

definition ip_rate_limiter_new :: "rate_limit_config \<Rightarrow> (nat \<times> nat) option" where
  "ip_rate_limiter_new cfg =
     (let rps = (if rl_requests_per_second cfg < 2 ^ 32 then rl_requests_per_second cfg else 2 ^ 32 - 1) in
      if rps = 0 then None
      else if rl_burst_size cfg = 0 then None
      else Some (rps, rl_burst_size cfg))"

definition port_bytes :: "16 word \<Rightarrow> 8 word list" where
  "port_bytes p = [ucast (drop_bit 8 p), ucast p]"

fun key_from_addr :: "socket_addr \<Rightarrow> 8 word list" where
  "key_from_addr (SockV4 octets port) = take 4 octets @ port_bytes port @ [4] @ replicate 9 0"
| "key_from_addr (SockV6 octets port) = take 16 octets"

definition uuid_nil :: "8 word list" where "uuid_nil = replicate 16 0"

definition client_key :: "http_request \<Rightarrow> 8 word list" where
  "client_key req = (case hq_peer req of None \<Rightarrow> uuid_nil | Some a \<Rightarrow> key_from_addr a)"

definition rate_limit_call :: "(8 word list \<Rightarrow> 'l \<Rightarrow> bool \<times> 'l) \<Rightarrow> 'st handler
    \<Rightarrow> http_request \<Rightarrow> 'l \<times> 'st \<Rightarrow> http_response \<times> 'l \<times> 'st" where
  "rate_limit_call chk next req ls =
     (let (allowed, l) = chk (client_key req) (fst ls) in
      if \<not> allowed then (response 429 ''rate limit exceeded'', l, snd ls)
      else (let (resp, st) = next req (snd ls) in (resp, l, st)))"

text \<open>The non-keyed limiter of the login endpoints: 5 per second, bursts of 10.\<close>

definition login_rate_limiter :: "nat \<times> nat" where "login_rate_limiter = (5, 10)"

section \<open>API keys\<close>

record api_key_config =
  ak_enabled :: bool
  ak_key :: "string option"

definition api_key_call :: "api_key_config \<Rightarrow> 'st handler \<Rightarrow> 'st handler" where
  "api_key_call cfg next req st =
     (if ak_enabled cfg
      then (case ak_key cfg of
              None \<Rightarrow> next req st
            | Some k \<Rightarrow>
                if map_of (hq_headers req) ''x-api-key'' = Some k
                then next (req \<lparr> hq_api_key_ok := True \<rparr>) st else next req st)
      else next req st)"

section \<open>Security headers\<close>

definition insert_if_absent :: "string \<Rightarrow> string \<Rightarrow> (string \<times> string) list \<Rightarrow> (string \<times> string) list" where
  "insert_if_absent k v hs = (if map_of hs k = None then hm_put k v hs else hs)"

definition security_headers_middleware :: "'st handler \<Rightarrow> 'st handler" where
  "security_headers_middleware next req st =
     (let (resp, st') = next req st;
          h0 = hs_headers resp;
          h1 = insert_if_absent ''strict-transport-security'' ''max-age=31536000; includeSubDomains'' h0;
          h2 = insert_if_absent ''x-content-type-options'' ''nosniff'' h1;
          h3 = insert_if_absent ''x-frame-options'' ''DENY'' h2;
          h4 = insert_if_absent ''referrer-policy'' ''no-referrer'' h3;
          h5 = insert_if_absent ''content-security-policy'' (''default-src '' @ quoted ''self'') h4
      in (resp \<lparr> hs_headers := h5 \<rparr>, st'))"

section \<open>Lemmas\<close>

lemma map_of_insert_if_absent: "map_of (insert_if_absent k v hs) k'
    = (if k' = k \<and> map_of hs k = None then Some v else map_of hs k')"
  using hm_get_put[of k v hs k'] by (auto simp: insert_if_absent_def hm_get_def)

lemma port_bytes_inj: "port_bytes p = port_bytes q \<longleftrightarrow> p = q"
proof
  assume eq: "port_bytes p = port_bytes q"
  have "bit p n \<longleftrightarrow> bit q n" if "n < 16" for n
  proof (cases "n < 8")
    case True
    have "ucast p = (ucast q :: 8 word)" using eq by (simp add: port_bytes_def)
    then have "bit (ucast p :: 8 word) n = bit (ucast q :: 8 word) n" by simp
    then show ?thesis using True by (simp add: bit_ucast_iff)
  next
    case False
    have "ucast (drop_bit 8 p) = (ucast (drop_bit 8 q) :: 8 word)" using eq by (simp add: port_bytes_def)
    then have "bit (ucast (drop_bit 8 p) :: 8 word) (n - 8) = bit (ucast (drop_bit 8 q) :: 8 word) (n - 8)" by simp
    moreover have "n - 8 < 8" using that by simp
    ultimately show ?thesis using False by (simp add: bit_ucast_iff bit_drop_bit_eq)
  qed
  then show "p = q" by (auto intro!: bit_word_eqI)
qed simp

section \<open>Properties\<close>

text \<open>The rate limiter does not count per client address: for IPv4 the key contains the port, so two
  connections of one address share a quota only if they also share the port, while for IPv6 the
  port is ignored; requests without a recorded peer all share the nil key, which no IPv4 peer has.\<close>

theorem rate_key_includes_port:
  "(length ip = 4 \<and> length ip' = 4 \<longrightarrow>
      (key_from_addr (SockV4 ip p) = key_from_addr (SockV4 ip' p') \<longleftrightarrow> ip = ip' \<and> p = p'))
   \<and> key_from_addr (SockV6 ip6 p) = key_from_addr (SockV6 ip6 p')
   \<and> (length ip = 4 \<longrightarrow> key_from_addr (SockV4 ip p) \<noteq> uuid_nil)
   \<and> (hq_peer req = None \<longrightarrow> client_key req = uuid_nil)"
proof -
  have nil: "key_from_addr (SockV4 ip p) \<noteq> uuid_nil" if "length ip = 4"
  proof
    assume "key_from_addr (SockV4 ip p) = uuid_nil"
    then have "key_from_addr (SockV4 ip p) ! 6 = uuid_nil ! 6" by simp
    then show False using that by (simp add: uuid_nil_def nth_append port_bytes_def)
  qed
  have eq: "key_from_addr (SockV4 ip p) = key_from_addr (SockV4 ip' p') \<longleftrightarrow> ip = ip' \<and> p = p'"
    if "length ip = 4" "length ip' = 4"
    using that port_bytes_inj[of p p'] by (auto simp: port_bytes_def)
  show ?thesis using nil eq by (simp add: client_key_def)
qed

theorem rate_key_includes_port_witness:
  "key_from_addr (SockV4 [10, 0, 0, 1] 5000) \<noteq> key_from_addr (SockV4 [10, 0, 0, 1] 5001)"
  using rate_key_includes_port[of "[10, 0, 0, 1]" "[10, 0, 0, 1]" 5000 5001] by simp

text \<open>Every response that leaves the server carries the five security headers; a value the handler
  set itself is kept, any other header is untouched, and the middleware adds nothing else.\<close>

theorem security_headers_present:
  "let hs = hs_headers (fst (security_headers_middleware next req st));
       hs0 = hs_headers (fst (next req st));
       defaults = [''strict-transport-security'' \<mapsto> ''max-age=31536000; includeSubDomains'',
                   ''x-content-type-options'' \<mapsto> ''nosniff'', ''x-frame-options'' \<mapsto> ''DENY'',
                   ''referrer-policy'' \<mapsto> ''no-referrer'',
                   ''content-security-policy'' \<mapsto> ''default-src '' @ quoted ''self'']
   in map_of hs = defaults ++ map_of hs0 \<and> snd (security_headers_middleware next req st) = snd (next req st)"
  by (auto simp: security_headers_middleware_def Let_def case_prod_beta map_of_insert_if_absent fun_eq_iff
      map_add_def split: option.splits)

end
