(* ===== verification/Router.thy ===== *)
theory Router
  imports Auth_Middleware Audit_Store Security
begin

text \<open>
  The audit middleware (\<open>src/audit/middleware.rs\<close>) and the router with its layers (\<open>src/api/mod.rs\<close>):
  which routes are public, which need a token, which need access to the cluster they name, and the
  order in which the layers run.
\<close>

section \<open>The audit middleware\<close>

definition is_state_changing :: "http_method \<Rightarrow> bool" where
  "is_state_changing m = (m = POST \<or> m = PUT \<or> m = PATCH \<or> m = DELETE)"

fun method_str :: "http_method \<Rightarrow> string" where
  "method_str GET = ''GET''" | "method_str POST = ''POST''" | "method_str PUT = ''PUT''"
| "method_str PATCH = ''PATCH''" | "method_str DELETE = ''DELETE''" | "method_str HEAD = ''HEAD''"
| "method_str OPTIONS = ''OPTIONS''" | "method_str (OtherMethod m) = m"

definition extract_header :: "header_to_str \<Rightarrow> (string \<times> string) list \<Rightarrow> string \<Rightarrow> string option" where
  "extract_header to_str hs name = (case map_of hs name of None \<Rightarrow> None | Some v \<Rightarrow> to_str v)"

definition extract_or_generate_request_id :: "header_to_str \<Rightarrow> string \<Rightarrow> (string \<times> string) list \<Rightarrow> string" where
  "extract_or_generate_request_id to_str uuid hs = opt_or uuid (extract_header to_str hs ''x-request-id'')"

definition extract_remote_addr :: "header_to_str \<Rightarrow> (string \<times> string) list \<Rightarrow> string option" where
  "extract_remote_addr to_str hs =
     (case extract_header to_str hs ''x-forwarded-for'' of
        Some a \<Rightarrow> Some a | None \<Rightarrow> extract_header to_str hs ''x-real-ip'')"

text \<open>
  What the middleware reads from its surroundings: a fresh UUID, the elapsed milliseconds, the
  clock after the handler ran, whether SQLite accepts the row, and whether the request id is a
  valid header value.
\<close>

record audit_env =
  ve_to_str :: header_to_str
  ve_uuid :: string
  ve_elapsed_ms :: nat
  ve_now :: int
  ve_db :: "(string, unit) result"
  ve_header_ok :: "string \<Rightarrow> bool"

definition audit_entry_for :: "audit_env \<Rightarrow> http_request \<Rightarrow> nat \<Rightarrow> audit_entry" where
  "audit_entry_for env req status =
     \<lparr> ae_ts = ve_now env,
       ae_request_id = extract_or_generate_request_id (ve_to_str env) (ve_uuid env) (hq_headers req),
       ae_method = method_str (hq_method req), ae_path = hq_path req, ae_status = status,
       ae_duration_ms = min (ve_elapsed_ms env) (2 ^ 64 - 1),
       ae_remote_addr = extract_remote_addr (ve_to_str env) (hq_headers req),
       ae_user_agent = extract_header (ve_to_str env) (hq_headers req) ''user-agent'',
       ae_user_id = map_option cl_sub (hq_claims req) \<rparr>"

definition audit_middleware :: "audit_env \<Rightarrow> 'st handler \<Rightarrow> http_request \<Rightarrow> audit_db \<times> 'st
    \<Rightarrow> http_response \<times> audit_db \<times> 'st" where
  "audit_middleware env next req ast =
     (let rid = extract_or_generate_request_id (ve_to_str env) (ve_uuid env) (hq_headers req);
          (resp0, st) = next req (snd ast);
          status = hs_status resp0;
          resp = (if ve_header_ok env rid
                  then resp0 \<lparr> hs_headers := hm_put ''x-request-id'' rid (hs_headers resp0) \<rparr> else resp0);
          should_log = (is_state_changing (hq_method req) \<or> \<not> (200 \<le> status \<and> status < 300));
          db = (if should_log then snd (audit_log (ve_db env) (audit_entry_for env req status) (fst ast))
                else fst ast)
      in (resp, db, st))"

section \<open>Routes\<close>

type_synonym route = "string \<times> (http_method \<times> string) list"

definition public_routes :: "route list" where
  "public_routes = [
    (''/metrics'', [(GET, ''health::metrics_handler'')]),
    (''/health'', [(GET, ''health::health'')]),
    (''/livez'', [(GET, ''health::livez'')]),
    (''/readyz'', [(GET, ''health::readyz'')]),
    (''/api/v1/auth/login'', [(POST, ''auth::login'')]),
    (''/api/v1/auth/refresh'', [(POST, ''auth::refresh'')]),
    (''/api/v1/auth/logout'', [(POST, ''auth::logout'')]),
    (''/api/v1/auth/2fa/complete'', [(POST, ''auth::two_factor_complete'')]),
    (''/api/v1/auth/oidc/login'', [(POST, ''auth::oidc_login'')]),
    (''/api/v1/auth/oidc/callback'', [(POST, ''auth::oidc_callback'')]),
    (''/api/v1/auth/webauthn/login/start'', [(POST, ''webauthn::login_start'')]),
    (''/api/v1/auth/webauthn/login/complete'', [(POST, ''webauthn::login_complete'')]),
    (''/api/v1/auth/ldap/login'', [(POST, ''auth::ldap_login'')])]"

definition protected_routes :: "route list" where
  "protected_routes = [
    (''/api/v1/auth/me'', [(GET, ''auth::me'')]),
    (''/api/v1/dashboard'', [(GET, ''dashboard::dashboard'')]),
    (''/api/v1/dashboard/custom'', [(GET, ''dashboard::get_custom_dashboard''), (POST, ''dashboard::save_custom_dashboard'')]),
    (''/api/v1/dashboard/custom/widget-types'', [(GET, ''dashboard::get_available_widget_types'')]),
    (''/api/v1/audit'', [(GET, ''audit::list_audit'')]),
    (''/api/v1/vms'', [(GET, ''vms::list_vms'')]),
    (''/api/v1/vms/bulk/start'', [(POST, ''vms::bulk_start'')]),
    (''/api/v1/vms/bulk/stop'', [(POST, ''vms::bulk_stop'')]),
    (''/api/v1/vms/bulk/reboot'', [(POST, ''vms::bulk_reboot'')]),
    (''/api/v1/vms/bulk/delete'', [(POST, ''vms::bulk_delete'')]),
    (''/api/v1/lxcs'', [(GET, ''lxcs::list_lxcs'')]),
    (''/api/v1/storages'', [(GET, ''storages::list_storages'')]),
    (''/api/v1/networks'', [(GET, ''networks::list_networks'')]),
    (''/api/v1/hagroups'', [(GET, ''hagroups::list_ha_groups'')]),
    (''/api/v1/hagroups/:cluster/:group'', [(POST, ''hagroups::create_ha_group''), (DELETE, ''hagroups::delete_ha_group'')]),
    (''/api/v1/replication'', [(GET, ''replication::list_replication_jobs'')]),
    (''/api/v1/auth/2fa/setup'', [(POST, ''auth::two_factor_setup'')]),
    (''/api/v1/auth/2fa/verify'', [(POST, ''auth::two_factor_verify'')]),
    (''/api/v1/auth/2fa/disable'', [(POST, ''auth::two_factor_disable'')]),
    (''/api/v1/auth/webauthn/register/start'', [(POST, ''webauthn::register_start'')]),
    (''/api/v1/auth/webauthn/register/complete'', [(POST, ''webauthn::register_complete'')]),
    (''/api/v1/users'', [(GET, ''auth::list_users''), (POST, ''auth::create_user'')]),
    (''/api/v1/users/:username'', [(PUT, ''auth::update_user''), (DELETE, ''auth::delete_user'')]),
    (''/api/v1/ceph/status'', [(GET, ''ceph::ceph_status'')]),
    (''/api/v1/ceph/pools'', [(GET, ''ceph::ceph_pools'')]),
    (''/api/v1/firewall/rules'', [(GET, ''firewall::firewall_rules'')]),
    (''/api/v1/sdn/zones'', [(GET, ''sdn::sdn_zones'')]),
    (''/api/v1/sdn/vnets'', [(GET, ''sdn::sdn_vnets'')]),
    (''/api/v1/hagroups/status'', [(GET, ''hagroups::ha_status'')]),
    (''/api/v1/networks/vlans'', [(GET, ''networks::list_vlans'')]),
    (''/api/v1/cluster/status'', [(GET, ''cluster::cluster_status'')]),
    (''/api/v1/cluster/config'', [(GET, ''cluster::cluster_config'')]),
    (''/api/v1/cluster/options'', [(GET, ''cluster::cluster_options'')]),
    (''/api/v1/cluster/log'', [(GET, ''cluster::cluster_log'')]),
    (''/api/v1/cluster/tasks'', [(GET, ''cluster::cluster_tasks'')])]"

definition cluster_scoped_routes :: "route list" where
  "cluster_scoped_routes = [
    (''/api/v1/vms/:cluster/:vmid'', [(GET, ''vms::vm_detail'')]),
    (''/api/v1/vms/:cluster/:node/:vmid/:action'', [(POST, ''vms::vm_action_handler'')]),
    (''/api/v1/vms/:cluster/:node/:vmid/migrate'', [(POST, ''vms::migrate_vm_handler'')]),
    (''/api/v1/vms/:cluster/:node/create'', [(POST, ''vms::create_vm_handler'')]),
    (''/api/v1/vms/:cluster/:node/:vmid/clone'', [(POST, ''vms::clone_vm_handler'')]),
    (''/api/v1/vms/:cluster/:node/:vmid/config'', [(GET, ''vms::vm_config_handler''), (PUT, ''vms::update_vm_config_handler'')]),
    (''/api/v1/vms/:cluster/:node/:vmid/snapshot'', [(GET, ''vms::list_snapshots_handler''), (POST, ''vms::create_snapshot_handler'')]),
    (''/api/v1/vms/:cluster/:node/:vmid/snapshot/:snapname'', [(DELETE, ''vms::delete_snapshot_handler'')]),
    (''/api/v1/vms/:cluster/:node/:vmid/snapshot/:snapname/rollback'', [(POST, ''vms::rollback_snapshot_handler'')]),
    (''/api/v1/vms/:cluster/:node/:vmid/backup'', [(POST, ''vms::backup_vm_handler'')]),
    (''/api/v1/vms/:cluster/:node/:vmid/backups'', [(GET, ''vms::list_backups_handler'')]),
    (''/api/v1/vms/:cluster/:node/:vmid/resize-disk'', [(POST, ''vms::resize_disk_handler'')]),
    (''/api/v1/lxcs/:cluster/:node/:vmid'', [(GET, ''lxcs::lxc_detail'')]),
    (''/api/v1/lxcs/:cluster/:node/:vmid/:action'', [(POST, ''lxcs::lxc_action_handler'')]),
    (''/api/v1/lxcs/:cluster/:node/:vmid/delete'', [(POST, ''lxcs::lxc_delete_handler'')]),
    (''/api/v1/storages/:cluster/:node/:storage/content'', [(GET, ''storages::storage_content'')]),
    (''/api/v1/storages/:cluster/:node/:storage/upload'', [(POST, ''storages::storage_upload_handler'')]),
    (''/api/v1/storages/:cluster/:node/:storage/content/:volid'', [(DELETE, ''storages::delete_storage_content_handler'')]),
    (''/api/v1/networks/:cluster/:node'', [(GET, ''networks::node_networks'')]),
    (''/api/v1/tasks/:cluster/:node/:upid'', [(GET, ''tasks::task_status'')]),
    (''/api/v1/vms/:cluster/:node/:vmid/vnc/ticket'', [(POST, ''vnc::vnc_ticket_handler'')]),
    (''/api/v1/vms/:cluster/:node/:vmid/vnc/ws'', [(GET, ''vnc::vnc_ws_handler'')]),
    (''/api/v1/replication/:cluster/:vmid'', [(POST, ''replication::create_replication_job'')]),
    (''/api/v1/replication/:cluster/:vmid/delete'', [(DELETE, ''replication::delete_replication_job'')]),
    (''/api/v1/replication/:cluster/:vmid/status'', [(GET, ''replication::get_replication_status'')]),
    (''/api/v1/vms/:cluster/:node/:vmid/template'', [(POST, ''vms::vm_template_handler'')]),
    (''/api/v1/vms/:cluster/:node/:vmid/sendkey'', [(POST, ''vms::vm_sendkey_handler'')]),
    (''/api/v1/vms/:cluster/:node/:vmid/rrddata'', [(GET, ''vms::vm_rrddata_handler'')]),
    (''/api/v1/tasks/:cluster/:node/:upid/log'', [(GET, ''tasks::task_log'')]),
    (''/api/v1/tasks/:cluster/:node/:upid/delete'', [(POST, ''tasks::task_delete'')]),
    (''/api/v1/lxcs/:cluster/:node/create'', [(POST, ''lxcs::lxc_create_handler'')]),
    (''/api/v1/lxcs/:cluster/:node/:vmid/config'', [(GET, ''lxcs::lxc_config_handler''), (PUT, ''lxcs::lxc_update_config_handler'')]),
    (''/api/v1/networks/:cluster/:node/config'', [(PUT, ''networks::network_config_update_handler'')]),
    (''/api/v1/networks/:cluster/:node/apply'', [(POST, ''networks::network_config_apply_handler'')])]"

text \<open>Patterns match segment by segment; a parameter binds one non-empty segment.\<close>

fun match_segs :: "string list \<Rightarrow> string list \<Rightarrow> (string \<times> string) list option" where
  "match_segs [] [] = Some []"
| "match_segs (p # ps) (s # ss) =
     (if p \<noteq> [] \<and> hd p = CHR '':''
      then (if s = [] then None else map_option (\<lambda>b. (tl p, s) # b) (match_segs ps ss))
      else if p = s then match_segs ps ss else None)"
| "match_segs _ _ = None"

definition match_route :: "string \<Rightarrow> string \<Rightarrow> (string \<times> string) list option" where
  "match_route pattern path = match_segs (split_on (CHR ''/'') pattern) (split_on (CHR ''/'') path)"

section \<open>Layers\<close>

datatype scope = Public | Protected | ClusterScoped

text \<open>
  \<open>route_layer\<close> wraps what is already there, so the layer added last runs first: authentication,
  then the cluster check.
\<close>

fun scoped :: "header_to_str \<Rightarrow> jwt_decode \<Rightarrow> ('st \<Rightarrow> user_store) \<Rightarrow> scope \<Rightarrow> 'st handler \<Rightarrow> 'st handler" where
  "scoped to_str decode users Public h = h"
| "scoped to_str decode users Protected h = require_auth to_str decode h"
| "scoped to_str decode users ClusterScoped h =
     require_auth to_str decode (require_cluster_access users h)"

text \<open>
  The whole stack around one matched handler, outermost first: security headers, CORS (the
  \<open>tower-http\<close> layer, a parameter), rate limit, audit, and the layers of the route's scope.
\<close>

definition serve :: "(8 word list \<Rightarrow> 'l \<Rightarrow> bool \<times> 'l) \<Rightarrow> (('l \<times> audit_db \<times> 'st) handler \<Rightarrow> ('l \<times> audit_db \<times> 'st) handler)
    \<Rightarrow> audit_env \<Rightarrow> jwt_decode \<Rightarrow> ('st \<Rightarrow> user_store) \<Rightarrow> scope \<Rightarrow> 'st handler \<Rightarrow> ('l \<times> audit_db \<times> 'st) handler" where
  "serve chk cors env decode users sc h =
     security_headers_middleware
       (cors (rate_limit_call chk (audit_middleware env (scoped (ve_to_str env) decode users sc h))))"

section \<open>Lemmas\<close>

definition cluster_pattern :: "string \<Rightarrow> bool" where
  "cluster_pattern pat =
     (case split_on (CHR ''/'') pat of
        e # a # v # r # c # rest \<Rightarrow> e = [] \<and> a = ''api'' \<and> v = ''v1'' \<and> r \<noteq> [] \<and> hd r \<noteq> CHR '':'' \<and> c = '':cluster''
      | _ \<Rightarrow> False)"

lemma cluster_patterns: "list_all (\<lambda>r. cluster_pattern (fst r)) cluster_scoped_routes"
  by code_simp

lemma match_lit: "p = [] \<or> hd p \<noteq> CHR '':'' \<Longrightarrow>
    match_segs (p # ps) ss = Some b \<longleftrightarrow> (\<exists>ss'. ss = p # ss' \<and> match_segs ps ss' = Some b)"
  by (cases ss) auto

lemma match_par: "match_segs ((CHR '':'' # n) # ps) ss = Some b \<longleftrightarrow>
    (\<exists>s ss' b'. ss = s # ss' \<and> s \<noteq> [] \<and> b = (n, s) # b' \<and> match_segs ps ss' = Some b')"
  by (cases ss) auto

lemma match_cluster_pattern:
  assumes "cluster_pattern pat" "match_route pat path = Some b"
  shows "\<exists>c. c \<noteq> [] \<and> map_of b ''cluster'' = Some c \<and> extract_cluster_from_path path = Some c"
proof -
  obtain r rest where pat: "split_on (CHR ''/'') pat = [] # ''api'' # ''v1'' # r # '':cluster'' # rest"
    and r: "r \<noteq> []" "hd r \<noteq> CHR '':''"
    using assms(1) by (auto simp: cluster_pattern_def split: list.splits)
  obtain c ss b' where "split_on (CHR ''/'') path = [] # ''api'' # ''v1'' # r # c # ss" "c \<noteq> []"
    "b = (''cluster'', c) # b'"
    using assms(2) r by (auto simp: match_route_def pat match_lit match_par)
  then show ?thesis using r by (auto simp: extract_cluster_from_path_def Let_def)
qed

lemma scoped_cases:
  "scoped to_str decode users ClusterScoped h req st =
     (case auth_pass to_str decode req st of
        None \<Rightarrow> (auth_refuse to_str req st, st)
      | Some req' \<Rightarrow> (case cluster_pass users req' st of
          None \<Rightarrow> (cluster_refuse req' st, st)
        | Some req'' \<Rightarrow> h req'' st))"
  by (simp add: auth.guard_eq cluster.guard_eq split: option.split)

section \<open>Properties\<close>

text \<open>Cluster isolation: for every path that matches a cluster-scoped route, the handler runs only for
  a caller whose token decodes and whose user may access the very cluster bound to the route's
  \<open>:cluster\<close> parameter; every other request is answered 401 or 403 with the state untouched.\<close>

theorem cluster_isolation:
  assumes "(pat, ms) \<in> set cluster_scoped_routes" and "match_route pat (hq_path req) = Some binds"
  shows "(\<exists>token cl c. extract_bearer to_str req = Ok token \<and> decode token = Ok cl
            \<and> map_of binds ''cluster'' = Some c \<and> user_can_access_cluster (users st) (cl_username cl) c
            \<and> scoped to_str decode users ClusterScoped h req st = h (req \<lparr> hq_claims := Some cl \<rparr>) st)
     \<or> (\<exists>resp. scoped to_str decode users ClusterScoped h req st = (resp, st) \<and> hs_status resp \<in> {401, 403})"
proof (cases "auth_pass to_str decode req st")
  case None
  then show ?thesis using auth_refuse_status[of to_str req st] by (simp add: auth.guard_eq)
next
  case (Some req')
  then obtain token cl where cl: "extract_bearer to_str req = Inr token" "decode token = Inr cl"
    "req' = req \<lparr> hq_claims := Some cl \<rparr>" by (auto simp: auth_pass_Some)
  have "cluster_pattern pat" using assms(1) cluster_patterns by (auto simp: list_all_iff)
  from match_cluster_pattern[OF this assms(2)] obtain c where c: "map_of binds ''cluster'' = Some c"
    "extract_cluster_from_path (hq_path req) = Some c" by blast
  show ?thesis
  proof (cases "user_can_access_cluster (users st) (cl_username cl) c")
    case True
    then have "cluster_pass users req' st = Some req'" by (simp add: cluster_pass_def cl c)
    then have "scoped to_str decode users ClusterScoped h req st = h req' st"
      using Some by (simp add: auth.guard_eq cluster.guard_eq)
    then show ?thesis using True cl c(1) by auto
  next
    case False
    then have "cluster_pass users req' st = None" by (simp add: cluster_pass_def cl c)
    then have "scoped to_str decode users ClusterScoped h req st = (cluster_refuse req' st, st)"
      using Some by (simp add: auth.guard_eq cluster.guard_eq)
    moreover have "hs_status (cluster_refuse req' st) = 403" by (simp add: cluster_refuse_def cl c forbidden_def)
    ultimately show ?thesis by simp
  qed
qed

definition demo_request :: "string \<Rightarrow> http_request" where
  "demo_request path = \<lparr> hq_method = POST, hq_path = path, hq_headers = [(''authorization'', ''Bearer t'')],
     hq_claims = None, hq_api_key_ok = False, hq_peer = None \<rparr>"

definition demo_claims :: claims where
  "demo_claims = \<lparr> cl_sub = ''1'', cl_username = ''ann'', cl_role = ''viewer'', cl_iat = 0, cl_exp = 9 \<rparr>"

text \<open>A handler that records that it ran.\<close>

definition demo_handler :: "nat handler" where
  "demo_handler req st = (response 200 ''ran'', st + 1)"

theorem cluster_isolation_witness:
  "snd (scoped Some (\<lambda>t. Inr demo_claims) (\<lambda>_. demo_users) ClusterScoped demo_handler
      (demo_request ''/api/v1/vms/c2/100'') 0) = 0
   \<and> snd (scoped Some (\<lambda>t. Inr demo_claims) (\<lambda>_. demo_users) ClusterScoped demo_handler
      (demo_request ''/api/v1/vms/c1/100'') 0) = 1"
proof -
  have mem: "(''/api/v1/vms/:cluster/:vmid'', [(GET, ''vms::vm_detail'')]) \<in> set cluster_scoped_routes"
    by (simp add: cluster_scoped_routes_def)
  have m: "match_route ''/api/v1/vms/:cluster/:vmid'' (hq_path (demo_request ''/api/v1/vms/c2/100''))
      = Some [(''cluster'', ''c2''), (''vmid'', ''100'')]"
    by (simp add: match_route_def demo_request_def)
  have no: "\<not> user_can_access_cluster demo_users ''ann'' ''c2''"
    by (simp add: user_can_access_cluster_def demo_users_def hm_get_def)
  have "snd (scoped Some (\<lambda>t. Inr demo_claims) (\<lambda>_. demo_users) ClusterScoped demo_handler
      (demo_request ''/api/v1/vms/c2/100'') 0) = 0"
    using cluster_isolation[OF mem m, of Some "\<lambda>t. Inr demo_claims" "\<lambda>_. demo_users" 0 demo_handler] no
    by (auto simp: demo_claims_def)
  moreover have "snd (scoped Some (\<lambda>t. Inr demo_claims) (\<lambda>_. demo_users) ClusterScoped demo_handler
      (demo_request ''/api/v1/vms/c1/100'') 0) = 1"
    by (simp add: require_auth_def extract_bearer_def demo_request_def strip_prefix_def bearer_prefix_def
        require_cluster_access_def extract_cluster_from_path_def Let_def demo_claims_def
        user_can_access_cluster_def demo_users_def hm_get_def demo_handler_def)
  ultimately show ?thesis by simp
qed

text \<open>Routes that escape the cluster check: exactly one route outside the cluster-scoped group binds a
  \<open>:cluster\<close> parameter, the creation and deletion of a high-availability group, and behind it (as
  behind the bulk operations, which name clusters in their body) the handler runs for every valid
  token whatever clusters its user may access.\<close>

theorem ha_group_route_unchecked:
  "filter (\<lambda>r. '':cluster'' \<in> set (split_on (CHR ''/'') (fst r))) (public_routes @ protected_routes)
     = [(''/api/v1/hagroups/:cluster/:group'',
         [(POST, ''hagroups::create_ha_group''), (DELETE, ''hagroups::delete_ha_group'')])]
   \<and> (extract_bearer to_str req = Ok token \<and> decode token = Ok cl \<longrightarrow>
        scoped to_str decode users Protected h req st = h (req \<lparr> hq_claims := Some cl \<rparr>) st)"
proof
  show "filter (\<lambda>r. '':cluster'' \<in> set (split_on (CHR ''/'') (fst r))) (public_routes @ protected_routes)
     = [(''/api/v1/hagroups/:cluster/:group'',
         [(POST, ''hagroups::create_ha_group''), (DELETE, ''hagroups::delete_ha_group'')])]"
    by code_simp
qed (simp add: require_auth_def)

theorem ha_group_route_unchecked_witness:
  "\<not> user_can_access_cluster demo_users ''ann'' ''c2''
   \<and> snd (scoped Some (\<lambda>t. Inr demo_claims) (\<lambda>_. demo_users) Protected demo_handler
        (demo_request ''/api/v1/hagroups/c2/g'') 0) = 1"
proof -
  have "extract_bearer Some (demo_request ''/api/v1/hagroups/c2/g'') = Inr ''t''"
    by (simp add: extract_bearer_def demo_request_def strip_prefix_def bearer_prefix_def)
  then show ?thesis
    using ha_group_route_unchecked[of Some "demo_request ''/api/v1/hagroups/c2/g''" "''t''" "\<lambda>t. Inr demo_claims"
        demo_claims "\<lambda>_. demo_users" demo_handler 0]
    by (simp add: user_can_access_cluster_def demo_users_def hm_get_def demo_handler_def)
qed

text \<open>What is audited: a request leaves at most one row, appended after the handler ran and with the
  status the client sees, exactly when its method changes state or its status is not a success
  and SQLite accepts the row; and since the audit layer is outside authentication, the row of a
  request that arrives without claims never names its user, even when a token was accepted.\<close>

theorem audit_rows_anonymous:
  assumes "hq_claims req = None"
    and "audit_middleware env (scoped to_str decode users sc h) req (db, st) = (resp, db', st')"
  shows "(let logged = (is_state_changing (hq_method req) \<or> \<not> (200 \<le> hs_status resp \<and> hs_status resp < 300))
                        \<and> is_ok (ve_db env) in
            (\<not> logged \<longrightarrow> db' = db)
            \<and> (logged \<longrightarrow> (\<exists>e d. db_rows db' = db_rows db @ [(db_next db, e, d)] \<and> ae_status e = hs_status resp
                 \<and> ae_path e = hq_path req \<and> ae_method e = method_str (hq_method req) \<and> ae_user_id e = None)))
     \<and> st' = snd (scoped to_str decode users sc h req st)"
proof -
  obtain r0 st0 where run: "scoped to_str decode users sc h req st = (r0, st0)" by fastforce
  have resp: "hs_status resp = hs_status r0" and st': "st' = st0"
    and db': "db' = (if is_state_changing (hq_method req) \<or> \<not> (200 \<le> hs_status r0 \<and> hs_status r0 < 300)
                     then snd (audit_log (ve_db env) (audit_entry_for env req (hs_status r0)) db) else db)"
    using assms(2) by (auto simp: audit_middleware_def run Let_def split: if_splits)
  show ?thesis
    using assms(1)
    by (cases "ve_db env") (auto simp: Let_def db' resp st' run audit_log_def audit_entry_for_def)
qed

theorem audit_rows_anonymous_witness:
  "\<exists>env resp e d. audit_middleware env (scoped Some (\<lambda>t. Inr demo_claims) (\<lambda>_. demo_users) Protected demo_handler)
       (demo_request ''/api/v1/users'') (empty_db, 0) = (resp, \<lparr> db_rows = [(1, e, d)], db_next = 2 \<rparr>, 1)
     \<and> ae_user_id e = None"
proof -
  let ?env = "\<lparr> ve_to_str = Some, ve_uuid = ''u'', ve_elapsed_ms = 1, ve_now = 5, ve_db = Inr (),
     ve_header_ok = (\<lambda>_. True) \<rparr>"
  let ?h = "scoped Some (\<lambda>t. Inr demo_claims) (\<lambda>_. demo_users) Protected demo_handler"
  let ?req = "demo_request ''/api/v1/users''"
  have none: "hq_claims ?req = None" and post: "hq_method ?req = POST" by (simp_all add: demo_request_def)
  have h: "?h ?req 0 = (response 200 ''ran'', 1)"
    by (simp add: require_auth_def extract_bearer_def demo_request_def strip_prefix_def bearer_prefix_def
        demo_handler_def)
  obtain resp db' st' where run: "audit_middleware ?env ?h ?req (empty_db, 0) = (resp, db', st')"
    by (metis prod_cases3)
  have "st' = 1" "db_next db' = 2"
    using run by (auto simp: audit_middleware_def h[simplified] Let_def is_state_changing_def post audit_log_def empty_db_def)
  moreover obtain e d where "db_rows db' = [(1, e, d)]" "ae_user_id e = None"
    using audit_rows_anonymous[OF none run]
    by (auto simp: Let_def is_state_changing_def demo_request_def empty_db_def)
  ultimately have "audit_middleware ?env ?h ?req (empty_db, 0) = (resp, \<lparr> db_rows = [(1, e, d)], db_next = 2 \<rparr>, 1)"
    using run by (cases db') simp
  then show ?thesis using \<open>ae_user_id e = None\<close> by blast
qed

end
