(* ===== verification/Auth_System.thy ===== *)
theory Auth_System
  imports Auth_Api
begin

text \<open>
  The authentication endpoints together (\<open>src/api/auth.rs\<close>, as mounted by \<open>src/api/mod.rs\<close>): every request
  is served on one shared state. What holds of one store under its own operations holds of it under any
  sequence of requests, because a request changes a store only by operations of that store.
\<close>

section \<open>Requests and their dispatch\<close>

datatype auth_request =
    PasswordLogin string string
  | Refresh string
  | Logout string
  | CompleteTwoFactor string string
  | SetupTwoFactor auth_context "8 word list" "nat \<Rightarrow> 32 word"
  | VerifyTwoFactor auth_context "nat \<Rightarrow> 32 word" string string
  | DisableTwoFactor auth_context "string option"
  | OidcLogin oidc_draw string
  | OidcCallback int string string string
  | LdapLogin string string
  | ListUsers auth_context
  | CreateUser auth_context create_user_request
  | UpdateUser auth_context string update_user_request
  | DeleteUser auth_context string

text \<open>What the client sees of the answer: accepted, or the refusing response. \<open>Aborted\<close> is the panic of the
  generator of backup codes.\<close>

datatype auth_outcome = Accepted | Refused http_response | Aborted

fun outcome_of :: "(http_response, 'a) result \<Rightarrow> auth_outcome" where
  "outcome_of (Inr _) = Accepted"
| "outcome_of (Inl r) = Refused r"

definition answered :: "(http_response, 'a) result \<times> auth_state \<Rightarrow> auth_outcome \<times> auth_state" where
  "answered = (\<lambda>(r, st). (outcome_of r, st))"

definition answered_option :: "(http_response, 'a) result option \<times> auth_state \<Rightarrow> auth_outcome \<times> auth_state" where
  "answered_option = (\<lambda>(r, st). (case r of None \<Rightarrow> Aborted | Some x \<Rightarrow> outcome_of x, st))"

fun auth_serve :: "auth_env \<Rightarrow> draw \<Rightarrow> auth_request \<Rightarrow> auth_state \<Rightarrow> auth_outcome \<times> auth_state" where
  "auth_serve env d (PasswordLogin username password) st = answered (login env d username password st)"
| "auth_serve env d (Refresh raw) st = answered (refresh env d raw st)"
| "auth_serve env d (Logout raw) st = answered (logout env d raw st)"
| "auth_serve env d (CompleteTwoFactor token code) st = answered (two_factor_complete env d token code st)"
| "auth_serve env d (SetupTwoFactor auth bytes rnd) st = answered_option (two_factor_setup env bytes rnd auth st)"
| "auth_serve env d (VerifyTwoFactor auth rnd secret code) st = answered_option (two_factor_verify env d rnd auth secret code st)"
| "auth_serve env d (DisableTwoFactor auth password) st = answered (two_factor_disable env auth password st)"
| "auth_serve env d (OidcLogin od provider) st = answered (oidc_login env od provider st)"
| "auth_serve env d (OidcCallback now_ns key code state) st = answered (oidc_callback env d now_ns key code state st)"
| "auth_serve env d (LdapLogin username password) st = answered (ldap_login env d username password st)"
| "auth_serve env d (ListUsers auth) st = answered (list_users_handler auth st)"
| "auth_serve env d (CreateUser auth req) st = answered (create_user_handler env auth req st)"
| "auth_serve env d (UpdateUser auth username req) st = answered (update_user_handler env auth username req st)"
| "auth_serve env d (DeleteUser auth username) st = answered (delete_user_handler auth username st)"

text \<open>
  One request with its draws. The pre-authentication tokens and OIDC state keys drawn so far are ghost
  components; a draw never repeats one, nor an identifier or token in use in the refresh store.
\<close>

type_synonym auth_system = "auth_state \<times> string list \<times> string list"

definition keys_drawn :: "auth_request \<Rightarrow> string list" where
  "keys_drawn req = (case req of OidcLogin od _ \<Rightarrow> [od_state_key od] | _ \<Rightarrow> [])"

definition tokens_drawn :: "draw \<Rightarrow> auth_request \<Rightarrow> string list" where
  "tokens_drawn d req = (case req of PasswordLogin _ _ \<Rightarrow> [dr_preauth d] | _ \<Rightarrow> [])"

inductive auth_step :: "auth_env \<Rightarrow> auth_system \<Rightarrow> auth_system \<Rightarrow> bool" for env where
  request: "rs_fresh (ae_digest env) (dr_id d) (dr_token d) (as_refresh st)
    \<Longrightarrow> set (tokens_drawn d req) \<inter> set pre = {} \<Longrightarrow> set (keys_drawn req) \<inter> set keys = {}
    \<Longrightarrow> auth_step env (st, pre, keys) (snd (auth_serve env d req st), tokens_drawn d req @ pre, keys_drawn req @ keys)"

inductive_cases auth_stepE: "auth_step env (st, pre, keys) s'"

section \<open>What a request does to each store\<close>

lemma snd_answered [simp]: "snd (answered x) = snd x" "snd (answered_option y) = snd y"
  by (simp_all add: answered_def answered_option_def split_beta)

lemma open_session_effect: "snd (open_session env d u st) = st
    \<or> snd (open_session env d u st) = st \<lparr> as_refresh := snd (rs_issue (ae_digest env) (dr_id d) (dr_token d) (dr_issue d)
        (u_id u) default_refresh_ttl_secs (as_refresh st)) \<rparr>"
  by (auto simp: open_session_def split_beta Let_def split: sum.split)

lemma open_session_refresh:
  assumes "rs_fresh (ae_digest env) (dr_id d) (dr_token d) (as_refresh st)"
  shows "(rs_step (ae_digest env))\<^sup>*\<^sup>* (as_refresh st) (as_refresh (snd (open_session env d u st)))"
  using open_session_effect[of env d u st]
proof
  assume "snd (open_session env d u st) = st"
  then show ?thesis by simp
qed (simp add: r_into_rtranclp rs_step.issue[OF assms])

lemma open_session_frame [simp]:
  "as_users (snd (open_session env d u st)) = as_users st"
  "as_preauth (snd (open_session env d u st)) = as_preauth st"
  "as_oidc (snd (open_session env d u st)) = as_oidc st"
  "as_oidc_users (snd (open_session env d u st)) = as_oidc_users st"
  using open_session_effect[of env d u st] by auto

lemma admin_gate_effect: "snd (admin_gate auth k st) = (if is_ok (require_role auth Admin) then snd (k st) else st)"
  by (auto simp: admin_gate_def split: sum.split)

lemmas handler_defs = login_def refresh_def logout_def two_factor_complete_def two_factor_setup_def two_factor_verify_def
  two_factor_disable_def oidc_login_def oidc_callback_def ldap_login_def list_users_handler_def create_user_handler_def
  update_user_handler_def delete_user_handler_def admin_gate_effect

lemma admin_handlers_frame [simp]:
  "as_refresh (snd (list_users_handler auth st)) = as_refresh st"
  "as_refresh (snd (create_user_handler env auth cr st)) = as_refresh st"
  "as_refresh (snd (update_user_handler env auth n ur st)) = as_refresh st"
  "as_refresh (snd (delete_user_handler auth n st)) = as_refresh st"
  by (auto simp: handler_defs split_beta Let_def split: sum.split option.split)

lemma serve_refresh:
  assumes "rs_fresh (ae_digest env) (dr_id d) (dr_token d) (as_refresh st)"
  shows "(rs_step (ae_digest env))\<^sup>*\<^sup>* (as_refresh st) (as_refresh (snd (auth_serve env d req st)))"
proof (cases req)
  case (PasswordLogin n p)
  then show ?thesis using open_session_refresh[OF assms]
    by (auto simp: login_def split_beta Let_def split: option.split)
next
  case (Refresh raw)
  then show ?thesis using rs_step.rotate[OF assms]
    by (auto simp: refresh_def split_beta Let_def split: option.split sum.split)
next
  case (Logout raw)
  then show ?thesis by (auto simp: logout_def split: option.split intro: rs_step.revoke)
next
  case (CompleteTwoFactor t c)
  then show ?thesis using open_session_refresh[of env d "st \<lparr> as_preauth := x \<rparr>" for x] assms
    by (auto simp: two_factor_complete_def split_beta Let_def split: option.split)
next
  case (OidcCallback n k c s)
  then show ?thesis using open_session_refresh[of env d "st \<lparr> as_oidc := x \<rparr>" for x] assms
      open_session_refresh[of env d "st \<lparr> as_oidc := x, as_oidc_users := y \<rparr>" for x y]
    by (auto simp: oidc_callback_def split_beta Let_def split: option.split sum.split)
next
  case (LdapLogin n p)
  then show ?thesis using open_session_refresh[OF assms] open_session_refresh[of env d "st \<lparr> as_users := x \<rparr>" for x] assms
    by (auto simp: ldap_login_def split_beta Let_def split: option.split)
qed (auto simp: two_factor_setup_def two_factor_verify_def two_factor_disable_def oidc_login_def
       split_beta Let_def split: option.split sum.split)

lemma serve_preauth:
  "as_preauth (snd (auth_serve env d req st)) =
     (case req of
        CompleteTwoFactor token code \<Rightarrow> snd (pa_consume (dr_check d) token (as_preauth st))
      | PasswordLogin username password \<Rightarrow>
          (case authenticate (ae_verify env) (as_users st) username password of
             None \<Rightarrow> as_preauth st
           | Some u \<Rightarrow> if u_totp_enabled u
                      then snd (pa_issue (dr_preauth d) (dr_issue d) (u_id u) (u_username u) (as_preauth st))
                      else as_preauth st)
      | _ \<Rightarrow> as_preauth st)"
  by (cases req) (auto simp: handler_defs split_beta Let_def split: option.split sum.split)

lemma serve_oidc:
  "as_oidc (snd (auth_serve env d req st)) =
     (case as_oidc st of
        None \<Rightarrow> None
      | Some os \<Rightarrow>
          (case req of
             OidcLogin od provider \<Rightarrow> Some (snd (start_login (ae_sso env) od provider os))
           | OidcCallback now_ns key code state \<Rightarrow>
               Some (snd (handle_callback (ae_sso env) (ae_unicode env) now_ns key code state os))
           | _ \<Rightarrow> Some os))"
  by (cases req) (auto simp: handler_defs split_beta Let_def split: option.split sum.split)

lemma serve_oidc_users:
  "as_oidc_users (snd (auth_serve env d req st)) = as_oidc_users st
   \<or> (\<exists>info. as_oidc_users (snd (auth_serve env d req st)) = hm_put (oidc_key info) (oidc_new_user d info) (as_oidc_users st))"
  by (cases req) (auto simp: handler_defs split_beta Let_def split: option.split sum.split)

definition admin_request :: "auth_request \<Rightarrow> bool" where
  "admin_request req = (case req of
      CreateUser auth _ \<Rightarrow> is_ok (require_role auth Admin)
    | UpdateUser auth _ _ \<Rightarrow> is_ok (require_role auth Admin)
    | DeleteUser auth _ \<Rightarrow> is_ok (require_role auth Admin)
    | _ \<Rightarrow> False)"

text \<open>Besides the administrators' requests only the first LDAP login of a name touches the accounts: it adds one.\<close>

lemma serve_users:
  assumes "\<not> admin_request req"
  shows "as_users (snd (auth_serve env d req st)) = as_users st
    \<or> (\<exists>name info password. req = LdapLogin name password \<and> us_get (as_users st) (li_username info) = None
         \<and> as_users (snd (auth_serve env d req st)) = snd (add_user (ldap_new_user env d info) (as_users st))
         \<and> lc_auto_create (ae_ldap env)
         \<and> verify_ldap_credentials (ae_dir env) (ae_ldap env) name password = Some info)"
  using assms by (cases req) (auto simp: handler_defs admin_request_def split_beta Let_def split: option.split sum.split)

section \<open>The invariant of the system\<close>

definition auth_init :: "user_store \<Rightarrow> oidc_service option \<Rightarrow> auth_system" where
  "auth_init users oidc = (\<lparr> as_users = users, as_refresh = rs_new, as_preauth = pa_new, as_oidc = oidc,
     as_oidc_users = hm_empty \<rparr>, [], [])"

definition sso_user_ok :: "string \<times> user \<Rightarrow> bool" where
  "sso_user_ok = (\<lambda>(k, u). u_id u = k \<and> u_role u = Viewer \<and> \<not> u_totp_enabled u)"

fun auth_ok :: "auth_system \<Rightarrow> bool" where
  "auth_ok (st, pre, keys) = (us_ok (as_users st) \<and> rs_ok (as_refresh st) \<and> pa_ok (as_preauth st, pre)
     \<and> (case as_oidc st of None \<Rightarrow> True | Some os \<Rightarrow> oidc_ok (os, keys))
     \<and> hm_ok (as_oidc_users st) \<and> list_all sso_user_ok (as_oidc_users st))"

lemma pa_more: "pa_ok (s, drawn) \<Longrightarrow> pa_ok (s, ts @ drawn)"
  by (auto simp: pa_ok_def)

lemma pa_spent_more: "pa_spent (s, drawn) t \<Longrightarrow> pa_spent (s, ts @ drawn) t"
  by (auto simp: pa_spent_def)

lemma serve_preauth_step:
  assumes "set (tokens_drawn d req) \<inter> set pre = {}"
  shows "(as_preauth (snd (auth_serve env d req st)) = as_preauth st)
    \<or> pa_step (as_preauth st, pre) (as_preauth (snd (auth_serve env d req st)), tokens_drawn d req @ pre)"
  using assms pa_step.consume[of "as_preauth st" pre] pa_step.issue[of "dr_preauth d" pre]
  by (cases req) (auto simp: serve_preauth tokens_drawn_def simp del: auth_serve.simps split: option.split)

lemma serve_oidc_step:
  assumes "set (keys_drawn req) \<inter> set keys = {}" "as_oidc st = Some os"
  shows "\<exists>os'. as_oidc (snd (auth_serve env d req st)) = Some os'
    \<and> (os' = os \<or> oidc_step (os, keys) (os', keys_drawn req @ keys))"
  using assms oidc_step.callback[of os keys] oidc_step.start[of _ keys os]
  by (cases req) (auto simp: serve_oidc keys_drawn_def simp del: auth_serve.simps)

lemma oidc_more: "oidc_ok (s, drawn) \<Longrightarrow> oidc_ok (s, ks @ drawn)"
  by (auto simp: oidc_ok_def)

lemma rs_ok_steps: "(rs_step H)\<^sup>*\<^sup>* s s' \<Longrightarrow> rs_ok s \<Longrightarrow> rs_ok s'"
  by (rule rt.inv_steps)

lemma sso_users_kept: "hm_ok m \<Longrightarrow> list_all sso_user_ok m \<Longrightarrow> list_all sso_user_ok (hm_put (oidc_key info) (oidc_new_user d info) m)"
  by (auto simp: list_all_iff hm_put_set sso_user_ok_def oidc_new_user_def)

lemma serve_us_ok: "us_ok (as_users st) \<Longrightarrow> us_ok (as_users (snd (auth_serve env d req st)))"
  by (cases req) (auto simp: handler_defs split_beta Let_def
      intro: us_ok_add us_ok_delete us_ok_update split: option.split sum.split)

lemma auth_ok_step: "auth_ok s \<Longrightarrow> auth_step env s s' \<Longrightarrow> auth_ok s'"
proof (erule auth_step.cases)
  fix d st req pre keys
  assume ok: "auth_ok s" and s: "s = (st, pre, keys)"
    and s': "s' = (snd (auth_serve env d req st), tokens_drawn d req @ pre, keys_drawn req @ keys)"
    and fresh: "rs_fresh (ae_digest env) (dr_id d) (dr_token d) (as_refresh st)"
      "set (tokens_drawn d req) \<inter> set pre = {}" "set (keys_drawn req) \<inter> set keys = {}"
  define st' where "st' = snd (auth_serve env d req st)"
  have inv: "us_ok (as_users st)" "rs_ok (as_refresh st)" "pa_ok (as_preauth st, pre)" "hm_ok (as_oidc_users st)"
    "list_all sso_user_ok (as_oidc_users st)" using ok by (auto simp: s)
  have "us_ok (as_users st')" unfolding st'_def by (rule serve_us_ok[OF inv(1)])
  moreover have "rs_ok (as_refresh st')" unfolding st'_def by (rule rs_ok_steps[OF serve_refresh[OF fresh(1)] inv(2)])
  moreover have "pa_ok (as_preauth st', tokens_drawn d req @ pre)"
    using serve_preauth_step[OF fresh(2), of env st] pa_more[OF inv(3)] pa_ok_step[OF inv(3)] by (auto simp: st'_def simp del: auth_serve.simps)
  moreover have "case as_oidc st' of None \<Rightarrow> True | Some os \<Rightarrow> oidc_ok (os, keys_drawn req @ keys)"
  proof (cases "as_oidc st")
    case None
    then show ?thesis by (simp add: st'_def serve_oidc del: auth_serve.simps)
  next
    case (Some os)
    then have "oidc_ok (os, keys)" using ok by (simp add: s)
    with serve_oidc_step[OF fresh(3) Some, of env d] show ?thesis
      by (auto simp: st'_def simp del: auth_serve.simps intro: oidc_ok_step oidc_more)
  qed
  moreover have "hm_ok (as_oidc_users st') \<and> list_all sso_user_ok (as_oidc_users st')"
    using serve_oidc_users[of env d req st] inv(4,5) sso_users_kept by (auto simp: st'_def simp del: auth_serve.simps)
  ultimately show "auth_ok s'" by (simp add: s' st'_def[symmetric] del: auth_serve.simps)
qed

definition refresh_spent :: "auth_env \<Rightarrow> auth_system \<Rightarrow> string \<Rightarrow> bool" where
  "refresh_spent env s raw = rs_spent (ae_digest env) (as_refresh (fst s)) raw"

definition refresh_accepts :: "auth_env \<Rightarrow> auth_system \<Rightarrow> string \<Rightarrow> bool" where
  "refresh_accepts env s raw = (\<exists>d. fst (auth_serve env d (Refresh raw) (fst s)) = Accepted)"

definition login_spent :: "auth_system \<Rightarrow> string \<Rightarrow> bool" where
  "login_spent s token = pa_spent (as_preauth (fst s), fst (snd s)) token"

definition login_accepts :: "auth_env \<Rightarrow> auth_system \<Rightarrow> string \<Rightarrow> bool" where
  "login_accepts env s token = (\<exists>d code. fst (auth_serve env d (CompleteTwoFactor token code) (fst s)) = Accepted)"

lemma refresh_spent_step: "auth_ok s \<Longrightarrow> auth_step env s s' \<Longrightarrow> refresh_spent env s raw \<Longrightarrow> refresh_spent env s' raw"
  by (erule auth_step.cases)
    (auto simp: refresh_spent_def simp del: auth_serve.simps intro: rt.spent_steps serve_refresh)

lemma refresh_refused:
  assumes "auth_ok s" "refresh_spent env s raw"
  shows "\<exists>r. fst (auth_serve env d (Refresh raw) (fst s)) = Refused r \<and> hs_status r = 401"
proof -
  have "rs_ok (as_refresh (fst s))" using assms(1) by (cases s) auto
  then have none: "fst (rs_rotate (ae_digest env) (dr_id d) (dr_token d) (dr_check d) (dr_issue d) raw
      default_refresh_ttl_secs (as_refresh (fst s))) = None"
    using assms(2) by (simp add: refresh_spent_def spent_rotate_None)
  show ?thesis by (simp add: answered_def refresh_def split_beta none unauthorized_response_def)
qed

lemma refresh_not_accepted: "auth_ok s \<Longrightarrow> refresh_spent env s raw \<Longrightarrow> \<not> refresh_accepts env s raw"
  unfolding refresh_accepts_def by (metis auth_outcome.distinct(1) refresh_refused)

lemma login_spent_step: "auth_ok s \<Longrightarrow> auth_step env s s' \<Longrightarrow> login_spent s t \<Longrightarrow> login_spent s' t"
proof (erule auth_step.cases)
  fix d st req pre keys
  assume ok: "auth_ok s" and sp: "login_spent s t" and s: "s = (st, pre, keys)"
    and s': "s' = (snd (auth_serve env d req st), tokens_drawn d req @ pre, keys_drawn req @ keys)"
    and fresh: "set (tokens_drawn d req) \<inter> set pre = {}"
  have "pa_ok (as_preauth st, pre)" "pa_spent (as_preauth st, pre) t" using ok sp by (auto simp: s login_spent_def)
  with serve_preauth_step[OF fresh, of env st] show "login_spent s' t"
    by (auto simp: s' login_spent_def simp del: auth_serve.simps intro: pa_spent_step pa_spent_more)
qed

lemma login_refused: "auth_ok s \<Longrightarrow> login_spent s t \<Longrightarrow> \<not> login_accepts env s t"
  by (auto simp: login_spent_def login_accepts_def pa_spent_def answered_def two_factor_complete_def pa_consume_def)

interpretation refresh_api: single_use_store auth_ok "auth_step env" "refresh_spent env" "refresh_accepts env" for env
  by unfold_locales (fact auth_ok_step refresh_spent_step refresh_not_accepted)+

interpretation login_api: single_use_store auth_ok "auth_step env" login_spent "login_accepts env" for env
  by unfold_locales (fact auth_ok_step login_spent_step login_refused)+

lemma rs_ok_new: "rs_ok rs_new"
  by (simp add: rs_ok_def rs_new_def hm_empty_def hm_ok_def)

definition no_sso_pending :: "oidc_service option \<Rightarrow> bool" where
  "no_sso_pending oidc = (case oidc of None \<Rightarrow> True | Some os \<Rightarrow> os_pending os = hm_empty)"

lemma auth_ok_init: "us_ok users \<Longrightarrow> no_sso_pending oidc \<Longrightarrow> auth_ok (auth_init users oidc)"
  by (auto simp: auth_init_def no_sso_pending_def rs_ok_new pa_ok_def pa_new_def oidc_ok_def hm_contains_def
      hm_empty_def hm_ok_def hm_get_def split: option.split)

section \<open>No account ever has a second factor\<close>

definition no_second_factor :: "user_store \<Rightarrow> bool" where
  "no_second_factor s = list_all (\<lambda>(k, u). \<not> u_totp_enabled u) (us_users s)"

lemma no_second_factor_put: "us_ok s \<Longrightarrow> no_second_factor s \<Longrightarrow> \<not> u_totp_enabled u \<Longrightarrow>
    no_second_factor (s \<lparr> us_users := hm_put n u (us_users s) \<rparr>)"
  by (auto simp: no_second_factor_def us_ok_def list_all_iff hm_put_set)

lemma no_second_factor_getD: "no_second_factor s \<Longrightarrow> us_get s n = Some u \<Longrightarrow> \<not> u_totp_enabled u"
  by (auto simp: us_get_def no_second_factor_def list_all_iff dest!: hm_get_in_set)

lemma no_second_factor_add: "us_ok s \<Longrightarrow> no_second_factor s \<Longrightarrow> \<not> u_totp_enabled u \<Longrightarrow> no_second_factor (snd (add_user u s))"
  by (simp add: add_user_def no_second_factor_put)

lemma no_second_factor_delete: "no_second_factor s \<Longrightarrow> no_second_factor (snd (delete_user n s))"
  by (auto simp: no_second_factor_def delete_user_def list_all_iff hm_del_set)

lemma no_second_factor_update:
  "us_ok s \<Longrightarrow> no_second_factor s \<Longrightarrow> no_second_factor (snd (update_user n dn e r ph en s))"
  by (auto simp: update_user_def Let_def dest: no_second_factor_getD intro!: no_second_factor_put
      split: option.splits sum.splits)

lemma no_second_factor_serve:
  "us_ok (as_users st) \<Longrightarrow> no_second_factor (as_users st) \<Longrightarrow> no_second_factor (as_users (snd (auth_serve env d req st)))"
  by (cases req) (auto simp: handler_defs split_beta Let_def ldap_new_user_def
      intro: no_second_factor_add no_second_factor_delete no_second_factor_update split: option.split sum.split)

lemma no_second_factor_configs: "from_configs bc cfgs = Inr users \<Longrightarrow> no_second_factor users"
proof -
  assume s: "from_configs bc cfgs = Inr users"
  then obtain us where us: "us_users users = hm_of_pairs (map (\<lambda>u. (u_username u, u)) us)"
    "map (user_from_config bc) cfgs = map Inr us" by (auto simp: from_configs_def rbind_Inr_iff collect_results_Inr_iff)
  have none: "\<not> u_totp_enabled u" if "u \<in> set us" for u
  proof -
    have "Inr u \<in> set (map (user_from_config bc) cfgs)" using that by (simp add: us(2))
    then obtain c where "Inr u = user_from_config bc c" by auto
    from this[symmetric] show ?thesis by (auto simp: user_from_config_def rbind_Inr_iff split: sum.splits)
  qed
  have "u \<in> set us" if "(k, u) \<in> set (us_users users)" for k u
    using that hm_get_iff[of "us_users users" k u] by (auto simp: us(1) hm_get_of_pairs dest!: map_of_SomeD)
  with none show ?thesis by (auto simp: no_second_factor_def list_all_iff)
qed

lemma reachable_ok:
  assumes "(auth_step env)\<^sup>*\<^sup>* (auth_init users oidc) s" "us_ok users" "no_sso_pending oidc"
  shows "auth_ok s"
  using refresh_api.inv_steps[OF assms(1)] auth_ok_init assms(2,3) by blast

section \<open>Properties\<close>

text \<open>C20. The invariant of the authentication state: in every state reachable from the configured accounts by
  any sequence of requests the account store is keyed by user name, refresh tokens by their identifier with
  distinct hashes, no stored pre-authentication session is consumed, pending logins were drawn, and every single
  sign-on account is a viewer stored under its own identifier.\<close>

theorem auth_state_well_formed:
  assumes "from_configs bc cfgs = Inr users" "no_sso_pending oidc"
    and "(auth_step env)\<^sup>*\<^sup>* (auth_init users oidc) s"
  shows "auth_ok s"
  by (rule reachable_ok[OF assms(3) us_ok_from_configs[OF assms(1)] assms(2)])

definition demo_configured :: user_store where
  "demo_configured = projr (from_configs (\<lambda>p c. Inl ''off'') [demo_config ''h1'' []])"

lemma demo_configured: "from_configs (\<lambda>p c. Inl ''off'') [demo_config ''h1'' []] = Inr demo_configured"
proof -
  have "role_from_str ''viewer'' = Inr Viewer" by code_simp
  then show ?thesis by (simp add: demo_configured_def from_configs_def user_from_config_def demo_config_def)
qed

lemma demo_first_step:
  "(auth_step demo_auth_env)\<^sup>*\<^sup>* (auth_init users None)
     (snd (auth_serve demo_auth_env demo_draw req (fst (auth_init users None))), tokens_drawn demo_draw req, keys_drawn req)"
proof -
  have "rs_fresh (ae_digest demo_auth_env) (dr_id demo_draw) (dr_token demo_draw) (as_refresh (fst (auth_init users None)))"
    by (simp add: auth_init_def rs_fresh_def rs_new_def hm_contains_def hm_empty_def hm_get_def)
  from auth_step.request[OF this, where req = req and pre = "[]" and keys = "[]"]
  have "auth_step demo_auth_env (auth_init users None)
      (snd (auth_serve demo_auth_env demo_draw req (fst (auth_init users None))), tokens_drawn demo_draw req, keys_drawn req)"
    by (simp add: auth_init_def del: auth_serve.simps)
  then show ?thesis by (rule r_into_rtranclp)
qed

theorem auth_state_well_formed_witness:
  "auth_ok (snd (auth_serve demo_auth_env demo_draw (PasswordLogin ''ann'' ''pw'') (fst (auth_init demo_configured None))), [''p1''], [])"
  using auth_state_well_formed[OF demo_configured _ demo_first_step[of demo_configured "PasswordLogin ''ann'' ''pw''"]]
  by (simp add: no_sso_pending_def tokens_drawn_def keys_drawn_def demo_draw_def del: auth_serve.simps auth_ok.simps)

text \<open>A refresh token that has been exchanged is dead for the whole interface: after any further requests of
  any clients, every attempt to refresh with it is refused with 401.\<close>

theorem exchanged_token_refused:
  assumes "us_ok users" "no_sso_pending oidc"
    and "(auth_step env)\<^sup>*\<^sup>* (auth_init users oidc) (st, pre, keys)"
    and "rs_fresh (ae_digest env) (dr_id d) (dr_token d) (as_refresh st)"
    and "auth_serve env d (Refresh raw) st = (Accepted, st')"
    and "(auth_step env)\<^sup>*\<^sup>* (st', pre, keys) s"
  shows "\<exists>r. fst (auth_serve env d' (Refresh raw) (fst s)) = Refused r \<and> hs_status r = 401"
proof -
  note ok = reachable_ok[OF assms(3,1,2)]
  have step: "auth_step env (st, pre, keys) (st', pre, keys)"
    using auth_step.request[OF assms(4), where req = "Refresh raw" and pre = pre and keys = keys] assms(5)
    by (simp add: tokens_drawn_def keys_drawn_def del: auth_serve.simps)
  obtain fresh store where rot: "rs_rotate (ae_digest env) (dr_id d) (dr_token d) (dr_check d) (dr_issue d) raw
      default_refresh_ttl_secs (as_refresh st) = (Some fresh, store)" and st': "as_refresh st' = store"
    using assms(5) by (auto simp: answered_def refresh_def Let_def split: option.splits sum.splits prod.splits)
  have "rs_ok (as_refresh st)" using ok by simp
  from rotate_spends(2)[OF this assms(4) rot] have "refresh_spent env (st', pre, keys) raw"
    by (simp add: refresh_spent_def st')
  then have "refresh_spent env s raw"
    by (rule refresh_api.spent_steps[OF assms(6) auth_ok_step[OF ok step]])
  moreover have "auth_ok s" by (rule refresh_api.inv_steps[OF assms(6) auth_ok_step[OF ok step]])
  ultimately show ?thesis by (intro refresh_refused)
qed

definition demo_draw2 :: draw where
  "demo_draw2 = demo_draw \<lparr> dr_id := ''i2'', dr_token := ''r2'' \<rparr>"

theorem exchanged_token_refused_witness:
  "let st1 = snd (auth_serve demo_auth_env demo_draw (PasswordLogin ''bob'' ''pw'') demo_auth_state);
       st2 = snd (auth_serve demo_auth_env demo_draw2 (Refresh ''r1'') st1)
   in \<exists>r. fst (auth_serve demo_auth_env demo_draw2 (Refresh ''r1'') st2) = Refused r \<and> hs_status r = 401"
proof -
  define users where "users = as_users demo_auth_state"
  define st1 where "st1 = snd (auth_serve demo_auth_env demo_draw (PasswordLogin ''bob'' ''pw'') demo_auth_state)"
  have init: "fst (auth_init users None) = demo_auth_state"
    by (simp add: auth_init_def users_def demo_auth_state_def rs_new_def pa_new_def hm_empty_def)
  have reach: "(auth_step demo_auth_env)\<^sup>*\<^sup>* (auth_init users None) (st1, [''p1''], [])"
    using demo_first_step[of users "PasswordLogin ''bob'' ''pw''"]
    by (simp add: init st1_def tokens_drawn_def keys_drawn_def demo_draw_def del: auth_serve.simps)
  have ok: "us_ok users" by (simp add: users_def demo_auth_state_def us_ok_def hm_ok_def bob_def ann_def)
  have none: "no_sso_pending None" by (simp add: no_sso_pending_def)
  have fresh: "rs_fresh (ae_digest demo_auth_env) (dr_id demo_draw2) (dr_token demo_draw2) (as_refresh st1)"
    unfolding st1_def by code_simp
  have "fst (auth_serve demo_auth_env demo_draw2 (Refresh ''r1'') st1) = Accepted"
    unfolding st1_def by code_simp
  then have "auth_serve demo_auth_env demo_draw2 (Refresh ''r1'') st1
      = (Accepted, snd (auth_serve demo_auth_env demo_draw2 (Refresh ''r1'') st1))"
    by (metis prod.collapse)
  from exchanged_token_refused[OF ok none reach fresh this rtranclp.rtrancl_refl, of demo_draw2]
  show ?thesis by (simp add: st1_def Let_def del: auth_serve.simps)
qed

text \<open>A pending two-factor login can be tried once: whatever code comes with it, the first request that
  presents the pre-authentication token removes it, and no later request completes a login with it.\<close>

theorem pending_login_tried_once:
  assumes "us_ok users" "no_sso_pending oidc"
    and "(auth_step env)\<^sup>*\<^sup>* (auth_init users oidc) (st, pre, keys)"
    and "hm_contains (as_preauth st) token"
    and "rs_fresh (ae_digest env) (dr_id d) (dr_token d) (as_refresh st)"
    and "(auth_step env)\<^sup>*\<^sup>* (snd (auth_serve env d (CompleteTwoFactor token code) st), pre, keys) s"
  shows "fst (auth_serve env d' (CompleteTwoFactor token code') (fst s)) \<noteq> Accepted"
proof -
  note ok = reachable_ok[OF assms(3,1,2)]
  define s1 where "s1 = (snd (auth_serve env d (CompleteTwoFactor token code) st), pre, keys)"
  have step: "auth_step env (st, pre, keys) s1"
    using auth_step.request[OF assms(5), where req = "CompleteTwoFactor token code" and pre = pre and keys = keys]
    by (simp add: tokens_drawn_def keys_drawn_def s1_def del: auth_serve.simps)
  have pa: "pa_ok (as_preauth st, pre)" using ok by simp
  then have "login_spent s1 token" using assms(4)
    by (simp add: login_spent_def s1_def serve_preauth pa_spent_def pa_ok_def pa_consume_snd del: auth_serve.simps)
  from login_api.spent_forever[OF assms(6)[folded s1_def] auth_ok_step[OF ok step] this] show ?thesis
    by (auto simp: login_accepts_def simp del: auth_serve.simps)
qed

theorem pending_login_tried_once_witness:
  "let st1 = snd (auth_serve demo_auth_env demo_draw (PasswordLogin ''ann'' ''pw'') demo_auth_state);
       st2 = snd (auth_serve demo_auth_env demo_draw2 (CompleteTwoFactor ''p1'' ''1'') st1)
   in fst (auth_serve demo_auth_env demo_draw2 (CompleteTwoFactor ''p1'' ''1'') st2) \<noteq> Accepted"
proof -
  define users where "users = as_users demo_auth_state"
  define st1 where "st1 = snd (auth_serve demo_auth_env demo_draw (PasswordLogin ''ann'' ''pw'') demo_auth_state)"
  have init: "fst (auth_init users None) = demo_auth_state"
    by (simp add: auth_init_def users_def demo_auth_state_def rs_new_def pa_new_def hm_empty_def)
  have reach: "(auth_step demo_auth_env)\<^sup>*\<^sup>* (auth_init users None) (st1, [''p1''], [])"
    using demo_first_step[of users "PasswordLogin ''ann'' ''pw''"]
    by (simp add: init st1_def tokens_drawn_def keys_drawn_def demo_draw_def del: auth_serve.simps)
  have ok: "us_ok users" by (simp add: users_def demo_auth_state_def us_ok_def hm_ok_def bob_def ann_def)
  have pending: "hm_contains (as_preauth st1) ''p1''" unfolding st1_def by code_simp
  have fresh: "rs_fresh (ae_digest demo_auth_env) (dr_id demo_draw2) (dr_token demo_draw2) (as_refresh st1)"
    unfolding st1_def by code_simp
  have "no_sso_pending None" by (simp add: no_sso_pending_def)
  from pending_login_tried_once[OF ok this reach pending fresh rtranclp.rtrancl_refl] show ?thesis
    by (simp add: st1_def Let_def del: auth_serve.simps)
qed

text \<open>Accounts change by the administrators' requests only, with one exception: the first LDAP login of a
  directory user adds an enabled account without a second factor and leaves every other account alone.\<close>

theorem accounts_change_only_by_admins:
  assumes "\<not> admin_request req"
  shows "as_users (snd (auth_serve env d req st)) = as_users st
    \<or> (\<exists>name info password. req = LdapLogin name password
        \<and> verify_ldap_credentials (ae_dir env) (ae_ldap env) name password = Some info \<and> lc_auto_create (ae_ldap env)
        \<and> us_get (as_users st) (li_username info) = None
        \<and> (\<forall>n. us_get (as_users (snd (auth_serve env d req st))) n =
             (if n = li_username info then Some (ldap_new_user env d info) else us_get (as_users st) n))
        \<and> us_allowed (as_users (snd (auth_serve env d req st))) = us_allowed (as_users st))"
proof -
  have "us_allowed (snd (add_user u s)) = us_allowed s" for u s by (simp add: add_user_def)
  then show ?thesis using serve_users[OF assms, of env d st]
    by (fastforce simp: us_get_add ldap_new_user_def simp del: auth_serve.simps)
qed

theorem accounts_change_only_by_admins_witness:
  "as_users (snd (auth_serve demo_auth_env demo_draw (DeleteUser (admin_ctx ''viewer'') ''bob'') demo_auth_state)) = as_users demo_auth_state"
proof -
  have "\<not> admin_request (DeleteUser (admin_ctx ''viewer'') ''bob'')"
    by (simp add: admin_request_def admin_ctx_def) code_simp
  from accounts_change_only_by_admins[OF this, of demo_auth_env demo_draw demo_auth_state] show ?thesis by auto
qed

text \<open>Two-factor authentication cannot be switched on: whatever requests are served, enrolment included, no
  account reachable from the configuration has a second factor, so no password login is answered with a
  pre-authentication token.\<close>

theorem second_factor_never_enrolled:
  assumes "from_configs bc cfgs = Inr users" "no_sso_pending oidc"
    and "(auth_step env)\<^sup>*\<^sup>* (auth_init users oidc) (st, pre, keys)"
  shows "no_second_factor (as_users st) \<and> fst (login env d username password st) \<noteq> Ok (TwoFactorRequired token)"
proof -
  have "auth_ok s \<and> no_second_factor (as_users (fst s))" if "(auth_step env)\<^sup>*\<^sup>* (auth_init users oidc) s" for s
    using that
  proof (induction rule: rtranclp_induct)
    case base
    then show ?case using auth_ok_init[OF us_ok_from_configs[OF assms(1)] assms(2)] no_second_factor_configs[OF assms(1)]
      by (simp add: auth_init_def)
  next
    case (step s s')
    then show ?case using auth_ok_step[of s env s']
      by (auto elim!: auth_step.cases simp del: auth_serve.simps intro: no_second_factor_serve)
  qed
  from this[OF assms(3)] have none: "no_second_factor (as_users st)" by simp
  have "map_sum id Session r \<noteq> Inr (TwoFactorRequired token)" for r :: "(http_response, login_response) result"
    by (cases r) auto
  then have "fst (login env d username password st) \<noteq> Ok (TwoFactorRequired token)"
    using no_second_factor_getD[OF none]
    by (auto simp: login_def split_beta Let_def dest: authenticate_SomeD split: option.split)
  with none show ?thesis by blast
qed

theorem second_factor_never_enrolled_witness:
  "no_second_factor (as_users (snd (auth_serve demo_auth_env demo_draw
     (VerifyTwoFactor (admin_ctx ''viewer'') (\<lambda>_. 0) ''AA'' ''000000'') (fst (auth_init demo_configured None)))))"
  using second_factor_never_enrolled[OF demo_configured _ demo_first_step[of demo_configured
      "VerifyTwoFactor (admin_ctx ''viewer'') (\<lambda>_. 0) ''AA'' ''000000''"], where d = demo_draw and username = "''ann''" and password = "''pw''"]
  by (simp add: no_sso_pending_def del: auth_serve.simps)

end
