(* ===== verification/Health.thy ===== *)
theory Health
  imports Handlers
begin

text \<open>
  The probes of an orchestrator (\<open>src/api/health.rs\<close>) over the readiness cache of the shared state
  (\<open>src/state.rs\<close>, theory \<open>Clients\<close>). The metrics registry is a third-party crate: its encoder is a
  parameter.
\<close>

section \<open>Endpoints\<close>

record health_response =
  he_status :: string
  he_version :: string
  he_git_sha :: string
  he_build_profile :: string
  he_uptime_seconds :: nat

text \<open>Version, commit and profile are build constants.\<close>

definition health :: "string \<Rightarrow> string \<Rightarrow> string \<Rightarrow> health_response" where
  "health version git_sha build_profile =
     \<lparr> he_status = ''ok'', he_version = version, he_git_sha = git_sha, he_build_profile = build_profile,
       he_uptime_seconds = 0 \<rparr>"

definition livez :: nat where "livez = 200"

fun status_label :: "cluster_status \<Rightarrow> string" where
  "status_label Healthy = ''healthy''" | "status_label Unhealthy = ''unhealthy''"

record unready_response =
  ur_status :: string
  ur_clusters :: "(string, string) hmap"

text \<open>200 without a body, or 503 with the breakdown.\<close>

definition readyz_response :: "readiness_snapshot \<Rightarrow> nat \<times> unready_response option" where
  "readyz_response snap =
     (if all_healthy snap then (200, None)
      else (503, Some \<lparr> ur_status = ''unready'',
              ur_clusters = map (\<lambda>(name, s). (name, status_label s)) (rn_clusters snap) \<rparr>))"

definition readyz :: "'w px_env \<Rightarrow> (string \<Rightarrow> (string, json) result) \<Rightarrow> ('w \<Rightarrow> nat) \<Rightarrow> nat list
    \<Rightarrow> ready_cache \<times> 'w fleet \<Rightarrow> (nat \<times> unready_response option) \<times> ready_cache \<times> 'w fleet" where
  "readyz env dec instant order st =
     (let (snap, st') = readiness env dec instant order st in (readyz_response snap, st'))"

definition metrics_handler :: "('m \<Rightarrow> (string, string) result) \<Rightarrow> 'm option \<Rightarrow> http_response" where
  "metrics_handler encode metrics =
     (case metrics of
        None \<Rightarrow> response 404 ''Metrics not configured (no MetricsService)''
      | Some m \<Rightarrow>
          (case encode m of
             Inr body \<Rightarrow> \<lparr> hs_status = 200, hs_body = body, hs_headers = [(''content-type'', ''text/plain; charset=utf-8'')] \<rparr>
           | Inl e \<Rightarrow> response 500 (''Failed to encode metrics: '' @ e)))"

section \<open>Lemmas\<close>

lemma fold_probes: "distinct (map fst rs) \<Longrightarrow>
    hm_get (fold (\<lambda>(name, r) m. hm_put name (probe_status r, t) m) rs cache) n =
      (case map_of rs n of Some r \<Rightarrow> Some (probe_status r, t) | None \<Rightarrow> hm_get cache n)"
proof (induction rs arbitrary: cache)
  case (Cons x rs)
  obtain name r where x: "x = (name, r)" by fastforce
  have "map_of rs name = None" using Cons.prems x by (auto simp: map_of_eq_None_iff)
  then show ?case using Cons x by (auto simp: hm_get_put split: option.split)
qed simp

lemma fold_probes_ok: "hm_ok cache \<Longrightarrow> hm_ok (fold (\<lambda>(name, r) m. hm_put name (probe_status r, t) m) rs cache)"
  by (induction rs arbitrary: cache) (auto split: prod.split)

lemma get_statuses: "hm_get (map (\<lambda>(k, s, _). (k, s)) cache) n = map_option fst (hm_get cache n)"
  by (induction cache) (auto simp: hm_get_def)

text \<open>One evaluation of the readiness: which clusters are probed and what the cache holds afterwards.\<close>

lemma readiness_run:
  assumes "distinct (map px_name cs)" "readiness env dec instant order (cache, cs, w) = (snap, cache', cs', w')"
    and "to_probe = filter (\<lambda>i. is_stale (instant w) cache (px_name (cs ! i))) [0..<length cs]"
    and "mset order = mset [0..<length to_probe]"
  shows "rn_clusters snap = map (\<lambda>(k, s, _). (k, s)) cache'
    \<and> (hm_ok cache \<longrightarrow> hm_ok cache') \<and> (to_probe = [] \<longrightarrow> (cs', w') = (cs, w))
    \<and> (\<forall>i. i \<notin> set to_probe \<longrightarrow> cs' ! i = cs ! i)
    \<and> (\<forall>n. n \<notin> px_name ` (\<lambda>i. cs ! i) ` set to_probe \<longrightarrow> hm_get cache' n = hm_get cache n)
    \<and> (\<forall>i\<in>set to_probe. \<exists>v. hm_get cache' (px_name (cs ! i)) = Some (probe_status (fst (px_ping env dec (cs ! i, v))), instant w'))"
proof (cases "to_probe = []")
  case True
  then show ?thesis using assms(2,3) by (auto simp: readiness_def Let_def)
next
  case False
  obtain rs cs1 w1 where each: "each_client order to_probe (px_ping env dec) (cs, w) = (rs, cs1, w1)"
    by (metis prod_cases3)
  have sel: "distinct to_probe" "\<forall>i\<in>set to_probe. i < length cs" by (simp_all add: assms(3))
  from client_call.each_client_outcomes[OF px_ping_call assms(4) sel each]
  have rs: "length rs = length to_probe" "\<forall>i. i \<notin> set to_probe \<longrightarrow> cs1 ! i = cs ! i"
    "\<forall>k<length to_probe. \<exists>v. rs ! k = (px_name (cs ! (to_probe ! k)), fst (px_ping env dec (cs ! (to_probe ! k), v)))"
    by auto
  have names: "map fst rs = map (\<lambda>i. px_name (cs ! i)) to_probe"
    using rs(1,3) by (intro nth_equalityI) auto
  have inj: "inj_on (\<lambda>i. px_name (cs ! i)) (set to_probe)"
    using sel(2) assms(1) by (auto simp: inj_on_def distinct_conv_nth)
  then have dist: "distinct (map fst rs)" using sel(1) by (simp add: names distinct_map)
  have run: "cache' = fold (\<lambda>(name, r) m. hm_put name (probe_status r, instant w1) m) rs cache"
    "rn_clusters snap = map (\<lambda>(k, s, _). (k, s)) cache'" "cs' = cs1" "w' = w1"
    using assms(2) each False by (auto simp: readiness_def Let_def assms(3)[symmetric])
  have probed: "\<exists>v. hm_get cache' (px_name (cs ! i)) = Some (probe_status (fst (px_ping env dec (cs ! i, v))), instant w')"
    if i: "i \<in> set to_probe" for i
  proof -
    obtain k where k: "k < length to_probe" "to_probe ! k = i" using i by (auto simp only: in_set_conv_nth)
    with rs(3) obtain v where v: "rs ! k = (px_name (cs ! i), fst (px_ping env dec (cs ! i, v)))" by metis
    then have "map_of rs (px_name (cs ! i)) = Some (fst (px_ping env dec (cs ! i, v)))"
      using k rs(1) dist by (metis map_of_is_SomeI nth_mem)
    then show ?thesis using dist by (auto simp: run fold_probes simp del: map_of_eq_Some_iff)
  qed
  have kept: "hm_get cache' n = hm_get cache n" if "n \<notin> px_name ` (\<lambda>i. cs ! i) ` set to_probe" for n
  proof -
    have "n \<notin> set (map fst rs)" using that by (auto simp: names)
    then have "map_of rs n = None" by (simp add: map_of_eq_None_iff)
    then show ?thesis using dist by (simp add: run fold_probes)
  qed
  have "hm_ok cache \<longrightarrow> hm_ok cache'" by (simp add: run(1) fold_probes_ok)
  with probed kept rs(2) run False show ?thesis by auto
qed

section \<open>Properties\<close>

text \<open>The readiness cache: an evaluation contacts exactly the clusters whose entry is missing or older than ten
  seconds, and the snapshot reports for those the outcome of the probe just made, for the others the
  cached one; nothing is contacted when every entry is fresh.\<close>

theorem readiness_probes_only_stale:
  assumes "distinct (map px_name cs)" "readiness env dec instant order (cache, cs, w) = (snap, cache', cs', w')"
    and "mset order = mset [0..<length (filter (\<lambda>i. is_stale (instant w) cache (px_name (cs ! i))) [0..<length cs])]"
  shows "(\<forall>i<length cs. if is_stale (instant w) cache (px_name (cs ! i))
       then (\<exists>v. hm_get (rn_clusters snap) (px_name (cs ! i)) = Some (probe_status (fst (px_ping env dec (cs ! i, v)))))
            \<and> (\<forall>later. later \<le> instant w' + readiness_cache_ttl \<longrightarrow> \<not> is_stale later cache' (px_name (cs ! i)))
       else hm_get (rn_clusters snap) (px_name (cs ! i)) = map_option fst (hm_get cache (px_name (cs ! i))) \<and> cs' ! i = cs ! i)
    \<and> ((\<forall>i<length cs. \<not> is_stale (instant w) cache (px_name (cs ! i))) \<longrightarrow> (cs', w') = (cs, w))"
proof -
  define tp where "tp = filter (\<lambda>i. is_stale (instant w) cache (px_name (cs ! i))) [0..<length cs]"
  note run = readiness_run[OF assms(1,2) tp_def assms(3)[folded tp_def]]
  have fresh: "hm_get cache' (px_name (cs ! i)) = hm_get cache (px_name (cs ! i)) \<and> cs' ! i = cs ! i"
    if "i < length cs" "\<not> is_stale (instant w) cache (px_name (cs ! i))" for i
  proof -
    have "px_name (cs ! i) \<notin> px_name ` (\<lambda>i. cs ! i) ` set tp" using that(2) by (auto simp: tp_def)
    moreover have "i \<notin> set tp" using that(2) by (simp add: tp_def)
    ultimately show ?thesis using run by blast
  qed
  have snap: "hm_get (rn_clusters snap) n = map_option fst (hm_get cache' n)" for n
    using run by (simp add: get_statuses)
  have stale: "(\<exists>v. hm_get (rn_clusters snap) (px_name (cs ! i)) = Some (probe_status (fst (px_ping env dec (cs ! i, v)))))
      \<and> (\<forall>later. later \<le> instant w' + readiness_cache_ttl \<longrightarrow> \<not> is_stale later cache' (px_name (cs ! i)))"
    if "i < length cs" "is_stale (instant w) cache (px_name (cs ! i))" for i
  proof -
    have "i \<in> set tp" using that by (simp add: tp_def)
    with run obtain v where v: "hm_get cache' (px_name (cs ! i)) = Some (probe_status (fst (px_ping env dec (cs ! i, v))), instant w')"
      by blast
    then show ?thesis by (auto simp: snap is_stale_def)
  qed
  have none: "(\<forall>i<length cs. \<not> is_stale (instant w) cache (px_name (cs ! i))) \<longrightarrow> (cs', w') = (cs, w)"
    using run by (auto simp: tp_def filter_empty_conv)
  show ?thesis using fresh stale none by (simp add: snap)
qed

theorem readiness_probes_only_stale_witness:
  "\<exists>snap cache' cs' w' v. readiness dead_env (\<lambda>b. Inr (JStr b)) id [0] ([], [demo_client], 5) = (snap, cache', cs', w')
     \<and> hm_get (rn_clusters snap) ''c1'' = Some (probe_status (fst (px_ping dead_env (\<lambda>b. Inr (JStr b)) (demo_client, v))))"
proof -
  obtain snap cache' cs' w' where run: "readiness dead_env (\<lambda>b. Inr (JStr b)) id [0] ([], [demo_client], 5) = (snap, cache', cs', w')"
    by (metis prod_cases4)
  have n: "px_name demo_client = ''c1''" by (simp add: px_name_def demo_client_def)
  have stale: "is_stale t [] s" for t s by (simp add: is_stale_def hm_get_def)
  from readiness_probes_only_stale[OF _ run] n stale
  have "\<exists>v. hm_get (rn_clusters snap) ''c1'' = Some (probe_status (fst (px_ping dead_env (\<lambda>b. Inr (JStr b)) (demo_client, v))))" by simp
  then show ?thesis using run by blast
qed



end
