(* ===== verification/Dispatch.thy ===== *)
theory Dispatch
  imports Bodies Router Auth_System Infra_Api Health
begin

text \<open>
  From a matched route to a call of its handler (\<open>src/api/\<close>): for every handler of the router the
  extractors of its signature in their order (\<open>AuthContext\<close>, \<open>Path\<close>, \<open>Query\<close>, \<open>Json\<close>), each of which may
  answer in the handler's place, and the request they make of the handler. The extractors are axum's:
  percent decoding of a path segment, the pairs of the query, and the content type and syntax of the body
  are parameters; the values are read as the types of the arguments say.
\<close>

section \<open>What a request asks for\<close>

datatype vm_read =
    VmList vms_query
  | VmDetail string nat
  | VmConfig string string nat
  | VmRrd string string nat string

datatype listing =
    Lxcs | Storages | Networks | Vlans | HaGroups | HaStatus | Replication | CephStatus | CephPools | SdnZones | SdnVnets
  | FirewallRules | ClusterStatus | ClusterConfig | ClusterOptions | ClusterLog | ClusterTasks

datatype probe = Health | Livez | Readyz | MetricsPage

datatype ('cred, 'asr) passkey_request =
    RegisterStart auth_context
  | RegisterComplete auth_context 'cred
  | PasskeyStart string
  | PasskeyComplete string 'asr

datatype ('cred, 'asr) call =
    ProbeCall probe
  | AuthCall auth_request
  | PasskeyCall "('cred, 'asr) passkey_request"
  | MeCall auth_context
  | AuditCall audit_params
  | DashboardCall auth_context
  | LayoutGet auth_context
  | LayoutSave auth_context custom_dashboard
  | WidgetTypes
  | ListingCall listing
  | VmReadCall vm_read
  | VmCall auth_context vm_request
  | LxcCall auth_context lxc_request
  | InfraCall auth_context infra_request
  | VncTicketCall auth_context string string nat
  | VncConnectCall string string nat string

section \<open>Extractors\<close>

text \<open>
  \<open>ex_param\<close> decodes a path segment, \<open>ex_pairs\<close> are the decoded pairs of the query, \<open>ex_json\<close> what the
  \<open>Json\<close> extractor makes of the headers and the text of the body, \<open>ex_upgrade\<close> whether the request is a
  WebSocket handshake, \<open>ex_cred\<close> and \<open>ex_asr\<close> the decoders of \<open>webauthn-rs\<close>, \<open>ex_text\<close> the text of the
  rejection with a status. The draws of the handlers that need them are \<open>ex_oidc\<close>, \<open>ex_ns\<close>, \<open>ex_bytes\<close>, \<open>ex_rnd\<close>.
\<close>

record ('cred, 'asr) extraction =
  ex_param :: "string \<Rightarrow> string option"
  ex_pairs :: "(string \<times> string) list"
  ex_json :: "(http_response, json) result"
  ex_upgrade :: "(http_response, unit) result"
  ex_cred :: "'cred de"
  ex_asr :: "'asr de"
  ex_text :: "nat \<Rightarrow> string"
  ex_oidc :: oidc_draw
  ex_ns :: int
  ex_bytes :: "8 word list"
  ex_rnd :: "nat \<Rightarrow> 32 word"

definition reject :: "('cred, 'asr) extraction \<Rightarrow> nat \<Rightarrow> http_response" where
  "reject ex status = response status (ex_text ex status)"

definition path_values :: "('cred, 'asr) extraction \<Rightarrow> string list \<Rightarrow> (http_response, string list) result" where
  "path_values ex segs = collect_results (map (\<lambda>s. ok_or (reject ex 400) (ex_param ex s)) segs)"

definition path_number :: "('cred, 'asr) extraction \<Rightarrow> nat \<Rightarrow> string \<Rightarrow> (http_response, nat) result" where
  "path_number ex w s = ok_or (reject ex 400) (parse_uint w s)"

text \<open>A tuple of another length than the route has parameters is a server error; no route has that.\<close>

definition path_one :: "('cred, 'asr) extraction \<Rightarrow> string list \<Rightarrow> (http_response, string) result" where
  "path_one ex segs = rbind (path_values ex segs) (\<lambda>vs. case vs of [a] \<Rightarrow> Ok a | _ \<Rightarrow> Err (reject ex 500))"

definition path_pair :: "('cred, 'asr) extraction \<Rightarrow> string list \<Rightarrow> (http_response, string \<times> string) result" where
  "path_pair ex segs = rbind (path_values ex segs) (\<lambda>vs. case vs of [a, b] \<Rightarrow> Ok (a, b) | _ \<Rightarrow> Err (reject ex 500))"

definition path_triple :: "('cred, 'asr) extraction \<Rightarrow> string list \<Rightarrow> (http_response, string \<times> string \<times> string) result" where
  "path_triple ex segs =
     rbind (path_values ex segs) (\<lambda>vs. case vs of [a, b, c] \<Rightarrow> Ok (a, b, c) | _ \<Rightarrow> Err (reject ex 500))"

definition path_quad :: "('cred, 'asr) extraction \<Rightarrow> string list
    \<Rightarrow> (http_response, string \<times> string \<times> string \<times> string) result" where
  "path_quad ex segs =
     rbind (path_values ex segs) (\<lambda>vs. case vs of [a, b, c, d] \<Rightarrow> Ok (a, b, c, d) | _ \<Rightarrow> Err (reject ex 500))"

definition path_numbered :: "('cred, 'asr) extraction \<Rightarrow> nat \<Rightarrow> string list \<Rightarrow> (http_response, string \<times> nat) result" where
  "path_numbered ex w segs =
     rbind (path_pair ex segs) (\<lambda>(cluster, n). rbind (path_number ex w n) (\<lambda>n. Ok (cluster, n)))"

definition path_machine :: "('cred, 'asr) extraction \<Rightarrow> string list \<Rightarrow> (http_response, string \<times> string \<times> nat) result" where
  "path_machine ex segs =
     rbind (path_triple ex segs) (\<lambda>(cluster, node, vmid). rbind (path_number ex 32 vmid) (\<lambda>n. Ok (cluster, node, n)))"

definition path_machine_name :: "('cred, 'asr) extraction \<Rightarrow> string list
    \<Rightarrow> (http_response, string \<times> string \<times> nat \<times> string) result" where
  "path_machine_name ex segs =
     rbind (path_quad ex segs) (\<lambda>(cluster, node, vmid, name).
     rbind (path_number ex 32 vmid) (\<lambda>n. Ok (cluster, node, n, name)))"

definition json_body :: "('cred, 'asr) extraction \<Rightarrow> 'a de \<Rightarrow> (http_response, 'a) result" where
  "json_body ex d = rbind (ex_json ex) (\<lambda>j. ok_or (reject ex 422) (d j))"

text \<open>\<open>Option\<close> of an extractor is \<open>None\<close> whenever the extractor rejects, for whatever reason.\<close>

definition optional_body :: "('cred, 'asr) extraction \<Rightarrow> 'a de \<Rightarrow> 'a option" where
  "optional_body ex d = ok_of (json_body ex d)"

definition query_of :: "('cred, 'asr) extraction \<Rightarrow> ((string \<times> string) list \<Rightarrow> 'a option) \<Rightarrow> (http_response, 'a) result" where
  "query_of ex d = ok_or (reject ex 400) (d (ex_pairs ex))"

section \<open>The handlers\<close>

type_synonym ('cred, 'asr) endpoint =
  "('cred, 'asr) extraction \<Rightarrow> http_request \<Rightarrow> string list \<Rightarrow> (http_response, ('cred, 'asr) call) result"

text \<open>The handlers that take no \<open>AuthContext\<close> have no use for this one.\<close>

definition no_context :: auth_context where
  "no_context = \<lparr> ac_claims = \<lparr> cl_sub = [], cl_username = [], cl_role = [], cl_iat = 0, cl_exp = 0 \<rparr> \<rparr>"

definition ask :: "('cred, 'asr) call \<Rightarrow> ('cred, 'asr) endpoint" where "ask c ex rq segs = Ok c"

definition with_context :: "(auth_context \<Rightarrow> ('cred, 'asr) endpoint) \<Rightarrow> ('cred, 'asr) endpoint" where
  "with_context k ex rq segs = rbind (from_request_parts rq) (\<lambda>auth. k auth ex rq segs)"

definition with_path :: "(('cred, 'asr) extraction \<Rightarrow> string list \<Rightarrow> (http_response, 'p) result)
    \<Rightarrow> ('p \<Rightarrow> ('cred, 'asr) endpoint) \<Rightarrow> ('cred, 'asr) endpoint" where
  "with_path path k ex rq segs = rbind (path ex segs) (\<lambda>p. k p ex rq segs)"

definition with_json :: "(('cred, 'asr) extraction \<Rightarrow> 'b de) \<Rightarrow> ('b \<Rightarrow> ('cred, 'asr) call) \<Rightarrow> ('cred, 'asr) endpoint" where
  "with_json d k ex rq segs = rbind (json_body ex (d ex)) (\<lambda>b. Ok (k b))"

definition with_optional :: "'b de \<Rightarrow> ('b option \<Rightarrow> ('cred, 'asr) call) \<Rightarrow> ('cred, 'asr) endpoint" where
  "with_optional d k ex rq segs = Ok (k (optional_body ex d))"

definition with_query :: "((string \<times> string) list \<Rightarrow> 'b option) \<Rightarrow> ('b \<Rightarrow> ('cred, 'asr) endpoint) \<Rightarrow> ('cred, 'asr) endpoint" where
  "with_query d k ex rq segs = rbind (query_of ex d) (\<lambda>q. k q ex rq segs)"

abbreviation plain :: "'b de \<Rightarrow> ('cred, 'asr) extraction \<Rightarrow> 'b de" where "plain d \<equiv> (\<lambda>_. d)"

text \<open>A body of any JSON value.\<close>

definition de_value :: "json de" where "de_value j = Some j"

definition probe_endpoints :: "(string \<times> ('cred, 'asr) endpoint) list" where
  "probe_endpoints = [
    (''health::metrics_handler'', ask (ProbeCall MetricsPage)),
    (''health::health'', ask (ProbeCall Health)),
    (''health::livez'', ask (ProbeCall Livez)),
    (''health::readyz'', ask (ProbeCall Readyz))]"

text \<open>The handlers of \<open>auth.rs\<close> that need no token, then those that do.\<close>

definition session_endpoints :: "(string \<times> ('cred, 'asr) endpoint) list" where
  "session_endpoints = [
    (''auth::login'', with_json (plain de_login_request) (\<lambda>(name, password). AuthCall (PasswordLogin name password))),
    (''auth::refresh'', with_json (plain de_refresh_request) (\<lambda>raw. AuthCall (Refresh raw))),
    (''auth::logout'', with_json (plain de_logout_request) (\<lambda>raw. AuthCall (Logout raw))),
    (''auth::two_factor_complete'', with_json (plain de_two_factor_complete_request)
       (\<lambda>(token, code). AuthCall (CompleteTwoFactor token code))),
    (''auth::oidc_login'', \<lambda>ex. with_json (plain de_oidc_login_request) (\<lambda>p. AuthCall (OidcLogin (ex_oidc ex) p)) ex),
    (''auth::oidc_callback'', \<lambda>ex. with_json (plain de_oidc_callback_request)
       (\<lambda>(key, code, state). AuthCall (OidcCallback (ex_ns ex) key code state)) ex),
    (''auth::ldap_login'', with_json (plain de_ldap_login_request) (\<lambda>(name, password). AuthCall (LdapLogin name password)))]"

definition account_endpoints :: "(string \<times> ('cred, 'asr) endpoint) list" where
  "account_endpoints = [
    (''auth::two_factor_setup'', with_context (\<lambda>auth ex. ask (AuthCall (SetupTwoFactor auth (ex_bytes ex) (ex_rnd ex))) ex)),
    (''auth::two_factor_verify'', with_context (\<lambda>auth ex. with_json (plain de_two_factor_verify_request)
       (\<lambda>(secret, code). AuthCall (VerifyTwoFactor auth (ex_rnd ex) secret code)) ex)),
    (''auth::two_factor_disable'', with_context (\<lambda>auth. with_json (plain de_value)
       (\<lambda>body. AuthCall (DisableTwoFactor auth (disable_password body))))),
    (''auth::list_users'', with_context (\<lambda>auth. ask (AuthCall (ListUsers auth)))),
    (''auth::create_user'', with_context (\<lambda>auth. with_json (plain de_create_user_request) (\<lambda>b. AuthCall (CreateUser auth b)))),
    (''auth::update_user'', with_context (\<lambda>auth. with_path path_one (\<lambda>name.
       with_json (plain de_update_user_request) (\<lambda>b. AuthCall (UpdateUser auth name b))))),
    (''auth::delete_user'', with_context (\<lambda>auth. with_path path_one (\<lambda>name. ask (AuthCall (DeleteUser auth name)))))]"

definition passkey_endpoints :: "(string \<times> ('cred, 'asr) endpoint) list" where
  "passkey_endpoints = [
    (''webauthn::register_start'', with_context (\<lambda>auth. ask (PasskeyCall (RegisterStart auth)))),
    (''webauthn::register_complete'', with_context (\<lambda>auth. with_json (\<lambda>ex. de_registration_complete (ex_cred ex))
       (\<lambda>cred. PasskeyCall (RegisterComplete auth cred)))),
    (''webauthn::login_start'', with_json (plain de_passkey_login_start) (\<lambda>name. PasskeyCall (PasskeyStart name))),
    (''webauthn::login_complete'', with_json (\<lambda>ex. de_passkey_login_complete (ex_asr ex))
       (\<lambda>(name, cred). PasskeyCall (PasskeyComplete name cred)))]"

definition view_endpoints :: "(string \<times> ('cred, 'asr) endpoint) list" where
  "view_endpoints = [
    (''auth::me'', with_context (\<lambda>auth. ask (MeCall auth))),
    (''audit::list_audit'', with_query de_audit_params (\<lambda>p. ask (AuditCall p))),
    (''dashboard::dashboard'', with_context (\<lambda>auth. ask (DashboardCall auth))),
    (''dashboard::get_custom_dashboard'', with_context (\<lambda>auth. ask (LayoutGet auth))),
    (''dashboard::save_custom_dashboard'', with_context (\<lambda>auth. with_json (plain de_save_custom_dashboard)
       (\<lambda>d. LayoutSave auth d))),
    (''dashboard::get_available_widget_types'', ask WidgetTypes)]"

definition listing_endpoints :: "(string \<times> ('cred, 'asr) endpoint) list" where
  "listing_endpoints = [
    (''vms::list_vms'', with_query de_vms_query (\<lambda>q. ask (VmReadCall (VmList q)))),
    (''lxcs::list_lxcs'', ask (ListingCall Lxcs)),
    (''storages::list_storages'', ask (ListingCall Storages)),
    (''networks::list_networks'', ask (ListingCall Networks)),
    (''networks::list_vlans'', ask (ListingCall Vlans)),
    (''hagroups::list_ha_groups'', ask (ListingCall HaGroups)),
    (''hagroups::ha_status'', ask (ListingCall HaStatus)),
    (''replication::list_replication_jobs'', ask (ListingCall Replication)),
    (''ceph::ceph_status'', ask (ListingCall CephStatus)),
    (''ceph::ceph_pools'', ask (ListingCall CephPools)),
    (''firewall::firewall_rules'', ask (ListingCall FirewallRules)),
    (''sdn::sdn_zones'', ask (ListingCall SdnZones)),
    (''sdn::sdn_vnets'', ask (ListingCall SdnVnets)),
    (''cluster::cluster_status'', ask (ListingCall ClusterStatus)),
    (''cluster::cluster_config'', ask (ListingCall ClusterConfig)),
    (''cluster::cluster_options'', ask (ListingCall ClusterOptions)),
    (''cluster::cluster_log'', ask (ListingCall ClusterLog)),
    (''cluster::cluster_tasks'', ask (ListingCall ClusterTasks))]"

definition bulk_endpoints :: "(string \<times> ('cred, 'asr) endpoint) list" where
  "bulk_endpoints = [
    (''vms::bulk_start'', with_context (\<lambda>auth. with_json (plain de_bulk_action_request) (\<lambda>vms. VmCall auth (BulkStart vms)))),
    (''vms::bulk_stop'', with_context (\<lambda>auth. with_json (plain de_bulk_action_request) (\<lambda>vms. VmCall auth (BulkStop vms)))),
    (''vms::bulk_reboot'', with_context (\<lambda>auth. with_json (plain de_bulk_action_request) (\<lambda>vms. VmCall auth (BulkReboot vms)))),
    (''vms::bulk_delete'', with_context (\<lambda>auth. with_json (plain de_bulk_action_request) (\<lambda>vms. VmCall auth (BulkDelete vms)))),
    (''hagroups::create_ha_group'', with_context (\<lambda>auth. with_path path_pair (\<lambda>(cl, grp).
       with_json (plain de_ha_group_create_request) (\<lambda>b. InfraCall auth (HaCreate cl grp b))))),
    (''hagroups::delete_ha_group'', with_context (\<lambda>auth. with_path path_pair (\<lambda>(cl, grp).
       ask (InfraCall auth (HaDelete cl grp)))))]"

text \<open>The handlers below a cluster: those that read, then those that take an \<open>AuthContext\<close> and check the operator role.\<close>

definition cluster_read_endpoints :: "(string \<times> ('cred, 'asr) endpoint) list" where
  "cluster_read_endpoints = [
    (''vms::vm_detail'', with_path (\<lambda>ex. path_numbered ex 32) (\<lambda>(cl, vmid). ask (VmReadCall (VmDetail cl vmid)))),
    (''vms::vm_config_handler'', with_path path_machine (\<lambda>(cl, node, vmid). ask (VmReadCall (VmConfig cl node vmid)))),
    (''vms::vm_rrddata_handler'', with_path path_machine (\<lambda>(cl, node, vmid).
       with_query de_rrd_data_query (\<lambda>t. ask (VmReadCall (VmRrd cl node vmid t))))),
    (''lxcs::lxc_detail'', with_path path_machine (\<lambda>(cl, node, vmid). ask (LxcCall no_context (LxcDetail cl node vmid)))),
    (''lxcs::lxc_config_handler'', with_path path_machine (\<lambda>(cl, node, vmid).
       ask (LxcCall no_context (LxcConfig cl node vmid)))),
    (''storages::storage_content'', with_path path_triple (\<lambda>(cl, node, storage).
       ask (InfraCall no_context (StorageContentOf cl node storage)))),
    (''networks::node_networks'', with_path path_pair (\<lambda>(cl, node). ask (InfraCall no_context (NodeNetworks cl node)))),
    (''tasks::task_status'', with_path path_triple (\<lambda>(cl, node, upid). ask (InfraCall no_context (TaskStatusOf cl node upid)))),
    (''tasks::task_log'', with_path path_triple (\<lambda>(cl, node, upid). ask (InfraCall no_context (TaskLog cl node upid)))),
    (''replication::get_replication_status'', with_path (\<lambda>ex. path_numbered ex 64) (\<lambda>(cl, id).
       ask (InfraCall no_context (ReplicationStatusOf cl id)))),
    (''vnc::vnc_ws_handler'', with_path path_machine (\<lambda>(cl, node, vmid). with_query de_vnc_ws_query (\<lambda>token ex rq segs.
       rbind (ex_upgrade ex) (\<lambda>_. Ok (VncConnectCall cl node vmid token)))))]"

definition vm_write_endpoints :: "(string \<times> ('cred, 'asr) endpoint) list" where
  "vm_write_endpoints = [
    (''vms::vm_action_handler'', with_context (\<lambda>auth. with_path path_machine_name (\<lambda>(cl, node, vmid, action).
       with_optional de_delete_vm_request (\<lambda>b. VmCall auth (ActionOn cl node vmid action b))))),
    (''vms::migrate_vm_handler'', with_context (\<lambda>auth. with_path path_machine (\<lambda>(cl, node, vmid).
       with_json (plain de_migrate_request) (\<lambda>b. VmCall auth (Migrate cl node vmid b))))),
    (''vms::create_vm_handler'', with_context (\<lambda>auth. with_path path_pair (\<lambda>(cl, node).
       with_json (plain de_create_vm_request) (\<lambda>b. VmCall auth (Create cl node b))))),
    (''vms::clone_vm_handler'', with_context (\<lambda>auth. with_path path_machine (\<lambda>(cl, node, vmid).
       with_json (plain de_clone_vm_request) (\<lambda>b. VmCall auth (Clone cl node vmid b))))),
    (''vms::update_vm_config_handler'', with_context (\<lambda>auth. with_path path_machine (\<lambda>(cl, node, vmid).
       with_json (plain de_update_vm_config_request) (\<lambda>b. VmCall auth (Configure cl node vmid b))))),
    (''vms::list_snapshots_handler'', with_context (\<lambda>auth. with_path path_machine (\<lambda>(cl, node, vmid).
       ask (VmCall auth (Snapshots cl node vmid))))),
    (''vms::create_snapshot_handler'', with_context (\<lambda>auth. with_path path_machine (\<lambda>(cl, node, vmid).
       with_json (plain de_create_snapshot_request) (\<lambda>b. VmCall auth (Snapshot cl node vmid b))))),
    (''vms::delete_snapshot_handler'', with_context (\<lambda>auth. with_path path_machine_name (\<lambda>(cl, node, vmid, snap).
       with_optional de_delete_snapshot_request (\<lambda>b. VmCall auth (DropSnapshot cl node vmid snap b))))),
    (''vms::rollback_snapshot_handler'', with_context (\<lambda>auth. with_path path_machine_name (\<lambda>(cl, node, vmid, snap).
       ask (VmCall auth (Rollback cl node vmid snap))))),
    (''vms::backup_vm_handler'', with_context (\<lambda>auth. with_path path_machine (\<lambda>(cl, node, vmid).
       with_json (plain de_backup_vm_request) (\<lambda>b. VmCall auth (Backup cl node vmid b))))),
    (''vms::list_backups_handler'', with_context (\<lambda>auth. with_path path_machine (\<lambda>(cl, node, vmid).
       ask (VmCall auth (Backups cl node vmid))))),
    (''vms::resize_disk_handler'', with_context (\<lambda>auth. with_path path_machine (\<lambda>(cl, node, vmid).
       with_json (plain de_resize_disk_request) (\<lambda>b. VmCall auth (ResizeDisk cl node vmid b))))),
    (''vms::vm_template_handler'', with_context (\<lambda>auth. with_path path_machine (\<lambda>(cl, node, vmid).
       ask (VmCall auth (Template cl node vmid))))),
    (''vms::vm_sendkey_handler'', with_context (\<lambda>auth. with_path path_machine (\<lambda>(cl, node, vmid).
       with_json (plain de_sendkey_request) (\<lambda>key. VmCall auth (Sendkey cl node vmid key)))))]"

definition other_write_endpoints :: "(string \<times> ('cred, 'asr) endpoint) list" where
  "other_write_endpoints = [
    (''lxcs::lxc_action_handler'', with_context (\<lambda>auth. with_path path_machine_name (\<lambda>(cl, node, vmid, action).
       with_optional de_lxc_action_request (\<lambda>b. LxcCall auth (LxcAction cl node vmid action b))))),
    (''lxcs::lxc_delete_handler'', with_context (\<lambda>auth. with_path path_machine (\<lambda>(cl, node, vmid).
       with_optional de_delete_lxc_request (\<lambda>b. LxcCall auth (LxcDelete cl node vmid b))))),
    (''lxcs::lxc_create_handler'', with_context (\<lambda>auth. with_path path_pair (\<lambda>(cl, node).
       with_json (plain de_create_lxc_body) (\<lambda>b. LxcCall auth (LxcCreate cl node b))))),
    (''lxcs::lxc_update_config_handler'', with_context (\<lambda>auth. with_path path_machine (\<lambda>(cl, node, vmid).
       with_json (plain de_value) (\<lambda>b. LxcCall auth (LxcConfigure cl node vmid b))))),
    (''storages::storage_upload_handler'', with_context (\<lambda>auth. with_path path_triple (\<lambda>(cl, node, storage).
       with_json (plain de_value) (\<lambda>b. InfraCall auth (StorageUpload cl node storage b))))),
    (''storages::delete_storage_content_handler'', with_context (\<lambda>auth. with_path path_quad (\<lambda>(cl, node, storage, volid).
       ask (InfraCall auth (StorageDelete cl node storage volid))))),
    (''networks::network_config_update_handler'', with_context (\<lambda>auth. with_path path_pair (\<lambda>(cl, node).
       with_json (plain de_value) (\<lambda>b. InfraCall auth (NetworkUpdate cl node b))))),
    (''networks::network_config_apply_handler'', with_context (\<lambda>auth. with_path path_pair (\<lambda>(cl, node).
       ask (InfraCall auth (NetworkApply cl node))))),
    (''tasks::task_delete'', with_context (\<lambda>auth. with_path path_triple (\<lambda>(cl, node, upid).
       ask (InfraCall auth (TaskDelete cl node upid))))),
    (''replication::create_replication_job'', with_context (\<lambda>auth. with_path (\<lambda>ex. path_numbered ex 32) (\<lambda>(cl, vmid).
       with_json (plain de_create_replication_request) (\<lambda>b. InfraCall auth (ReplicationCreate cl vmid b))))),
    (''replication::delete_replication_job'', with_context (\<lambda>auth. with_path (\<lambda>ex. path_numbered ex 64) (\<lambda>(cl, id).
       ask (InfraCall auth (ReplicationDelete cl id))))),
    (''vnc::vnc_ticket_handler'', with_context (\<lambda>auth. with_path path_machine (\<lambda>(cl, node, vmid).
       ask (VncTicketCall auth cl node vmid))))]"

definition endpoints :: "(string \<times> ('cred, 'asr) endpoint) list" where
  "endpoints = probe_endpoints @ session_endpoints @ account_endpoints @ passkey_endpoints @ view_endpoints
     @ listing_endpoints @ bulk_endpoints @ cluster_read_endpoints @ vm_write_endpoints @ other_write_endpoints"

section \<open>Lemmas\<close>

lemmas endpoint_defs = ask_def with_context_def with_path_def with_json_def with_optional_def with_query_def
  rbind_Inr_iff

lemma context_claims: "from_request_parts rq = Inr auth \<Longrightarrow> hq_claims rq = Some (ac_claims auth)"
  by (auto simp: from_request_parts_def split: option.splits)

text \<open>The first parameter of a route below a cluster is the cluster's name.\<close>

definition names_cluster :: "('cred, 'asr) extraction \<Rightarrow> string list \<Rightarrow> string \<Rightarrow> bool" where
  "names_cluster ex segs cl = (\<exists>s rest. segs = s # rest \<and> ex_param ex s = Some cl)"

lemma path_values_first: "path_values ex segs = Inr (v # vs) \<Longrightarrow> names_cluster ex segs v"
  by (cases segs) (auto simp: path_values_def names_cluster_def ok_or_def split: sum.splits option.splits)

lemma path_shapes:
  "(case vs of [a] \<Rightarrow> Inr a | _ \<Rightarrow> Inl e) = Inr x \<longleftrightarrow> vs = [x]"
  "(case vs of [a, b] \<Rightarrow> Inr (a, b) | _ \<Rightarrow> Inl e) = Inr (x, y) \<longleftrightarrow> vs = [x, y]"
  "(case vs of [a, b, c] \<Rightarrow> Inr (a, b, c) | _ \<Rightarrow> Inl e) = Inr (x, y, z) \<longleftrightarrow> vs = [x, y, z]"
  "(case vs of [a, b, c, d] \<Rightarrow> Inr (a, b, c, d) | _ \<Rightarrow> Inl e) = Inr (x, y, z, u) \<longleftrightarrow> vs = [x, y, z, u]"
  by (auto split: list.splits)

lemma path_first:
  "path_pair ex segs = Inr (cl, b) \<Longrightarrow> names_cluster ex segs cl"
  "path_triple ex segs = Inr (cl, b, c) \<Longrightarrow> names_cluster ex segs cl"
  "path_quad ex segs = Inr (cl, b, c, d) \<Longrightarrow> names_cluster ex segs cl"
  by (auto simp: path_pair_def path_triple_def path_quad_def rbind_Inr_iff path_shapes dest: path_values_first)

lemma path_number_first:
  "path_numbered ex w segs = Inr (cl, n) \<Longrightarrow> names_cluster ex segs cl"
  "path_machine ex segs = Inr (cl, node, n) \<Longrightarrow> names_cluster ex segs cl"
  "path_machine_name ex segs = Inr (cl, node, n, name) \<Longrightarrow> names_cluster ex segs cl"
  by (auto simp: path_numbered_def path_machine_def path_machine_name_def rbind_Inr_iff dest: path_first)

text \<open>What calls do: those that check the operator role of the request, and those below a cluster.\<close>

fun gated_call :: "http_request \<Rightarrow> ('cred, 'asr) call \<Rightarrow> bool" where
  "gated_call rq (VmCall auth r) = (hq_claims rq = Some (ac_claims auth))"
| "gated_call rq (LxcCall auth r) = (hq_claims rq = Some (ac_claims auth) \<and> lxc_writes r)"
| "gated_call rq (InfraCall auth r) = (hq_claims rq = Some (ac_claims auth) \<and> infra_writes r)"
| "gated_call rq (VncTicketCall auth cl node vmid) = (hq_claims rq = Some (ac_claims auth))"
| "gated_call rq c = False"

fun call_cluster :: "('cred, 'asr) call \<Rightarrow> string option" where
  "call_cluster (VmReadCall (VmDetail cl vmid)) = Some cl"
| "call_cluster (VmReadCall (VmConfig cl node vmid)) = Some cl"
| "call_cluster (VmReadCall (VmRrd cl node vmid t)) = Some cl"
| "call_cluster (VmCall auth r) = cluster_of r"
| "call_cluster (LxcCall auth r) = Some (lxc_cluster r)"
| "call_cluster (InfraCall auth r) = Some (infra_cluster r)"
| "call_cluster (VncTicketCall auth cl node vmid) = Some cl"
| "call_cluster (VncConnectCall cl node vmid token) = Some cl"
| "call_cluster c = None"

lemma vm_write_calls:
  assumes "(name, ep) \<in> set vm_write_endpoints" "ep ex rq segs = Inr c"
  shows "gated_call rq c \<and> (\<exists>cl. call_cluster c = Some cl \<and> names_cluster ex segs cl)"
  using assms unfolding vm_write_endpoints_def
  by (auto simp: endpoint_defs dest!: context_claims) (erule path_first path_number_first)+

lemma other_write_calls:
  assumes "(name, ep) \<in> set other_write_endpoints" "ep ex rq segs = Inr c"
  shows "gated_call rq c \<and> (\<exists>cl. call_cluster c = Some cl \<and> names_cluster ex segs cl)"
  using assms unfolding other_write_endpoints_def
  by (auto simp: endpoint_defs dest!: context_claims) (erule path_first path_number_first)+

lemma cluster_read_calls:
  assumes "(name, ep) \<in> set cluster_read_endpoints" "ep ex rq segs = Inr c"
  shows "\<exists>cl. call_cluster c = Some cl \<and> names_cluster ex segs cl"
  using assms unfolding cluster_read_endpoints_def
  by (auto simp: endpoint_defs) (erule path_first path_number_first)+

lemma bulk_calls:
  assumes "(name, ep) \<in> set bulk_endpoints" "ep ex rq segs = Inr c"
  shows "gated_call rq c"
  using assms unfolding bulk_endpoints_def by (auto simp: endpoint_defs dest!: context_claims)

lemma listing_calls:
  assumes "(name, ep) \<in> set listing_endpoints" "ep ex rq segs = Inr c"
  shows "(\<exists>l. c = ListingCall l) \<or> (\<exists>q. c = VmReadCall (VmList q))"
  using assms unfolding listing_endpoints_def by (auto simp: endpoint_defs)

lemma view_calls:
  assumes "(name, ep) \<in> set view_endpoints" "ep ex rq segs = Inr c"
  shows "c = WidgetTypes \<or> (\<exists>a. c = MeCall a) \<or> (\<exists>p. c = AuditCall p) \<or> (\<exists>a. c = DashboardCall a) \<or> (\<exists>a. c = LayoutGet a)
     \<or> (\<exists>a d. c = LayoutSave a d \<and> name = ''dashboard::save_custom_dashboard'' \<and> hq_claims rq = Some (ac_claims a))"
  using assms unfolding view_endpoints_def by (auto simp: endpoint_defs dest!: context_claims)

lemma passkey_calls:
  assumes "(name, ep) \<in> set passkey_endpoints" "ep ex rq segs = Inr c"
  shows "\<exists>r. c = PasskeyCall r"
  using assms unfolding passkey_endpoints_def by (auto simp: endpoint_defs)

lemma session_calls:
  assumes "(name, ep) \<in> set session_endpoints" "ep ex rq segs = Inr c"
  shows "\<exists>r. c = AuthCall r \<and> \<not> admin_request r \<and> ((\<exists>n p. r = LdapLogin n p) \<longrightarrow> name = ''auth::ldap_login'')"
  using assms unfolding session_endpoints_def by (auto simp: endpoint_defs admin_request_def)

lemma account_calls:
  assumes "(name, ep) \<in> set account_endpoints" "ep ex rq segs = Inr c"
  shows "\<exists>r. c = AuthCall r \<and> (\<nexists>n p. r = LdapLogin n p)
     \<and> (admin_request r \<longrightarrow> (\<exists>cl. hq_claims rq = Some cl \<and> is_ok (require_role \<lparr> ac_claims = cl \<rparr> Admin)))"
proof -
  have record_eq [simp]: "\<lparr> ac_claims = ac_claims auth \<rparr> = auth" for auth by simp
  show ?thesis
    using assms unfolding account_endpoints_def
    by (auto simp: endpoint_defs admin_request_def dest!: context_claims)
qed

lemma probe_calls:
  assumes "(name, ep) \<in> set probe_endpoints" "ep ex rq segs = Inr c"
  shows "\<exists>p. c = ProbeCall p \<and> (p = Readyz \<longrightarrow> name = ''health::readyz'')"
  using assms unfolding probe_endpoints_def by (auto simp: endpoint_defs)

end
