(* ===== verification/Client_Tasks.thy ===== *)
theory Client_Tasks
  imports Proxmox_Client
begin

text \<open>
  Requests that share one client (\<open>src/proxmox/client.rs\<close>, \<open>src/proxmox/circuit_breaker.rs\<close>). The server holds
  one client per cluster and every request runs its calls on it, so the lock of the ticket and the two atomics of
  the breaker are taken in turn by many tasks. A task advances by one access to what is shared at a time: a
  reading or writing of the ticket under its lock, a reply of the network, one atomic operation.
\<close>

section \<open>A request as a task\<close>

record 'a px_req =
  qr_method :: http_method
  qr_csrf :: bool
  qr_timeout :: px_fail
  qr_path :: string
  qr_query :: "(string \<times> string) list"
  qr_body :: px_body
  qr_dec :: "string \<Rightarrow> (string, 'a) result"

text \<open>
  Where a task stands: before the check of the ticket (\<open>Begin\<close>), waiting for the reply to its login (\<open>Login\<close>),
  about to store the ticket (\<open>Store\<close>) or to read it (\<open>Fetch\<close>), waiting for the reply to its request (\<open>Send\<close>).
  \<open>Add\<close> and \<open>Open\<close> are the two atomic operations of \<open>record_failure\<close>, \<open>Reset\<close> and \<open>Clear\<close> those of
  \<open>record_success\<close>, with the result to end with, if the request ends there.
\<close>

datatype 'a px_pc =
    Begin
  | Login
  | Store ticket
  | Fetch
  | Send ticket
  | Add px_fail
  | Open px_fail
  | Reset "'a option"
  | Clear "'a option"
  | Finished "(px_fail, 'a) result"

definition login_call :: "px_client \<Rightarrow> px_call" where
  "login_call c = \<lparr> px_method = POST, px_url = cc_url (pc_config c) @ ''/api2/json/access/ticket'', px_query = [],
     px_cookie = None, px_csrf = None, px_body = LoginBody (cc_username (pc_config c)) (cc_password (pc_config c)) \<rparr>"

definition request_call :: "px_client \<Rightarrow> 'a px_req \<Rightarrow> ticket \<Rightarrow> px_call" where
  "request_call c q t = \<lparr> px_method = qr_method q, px_url = build_url c (qr_path q), px_query = qr_query q,
     px_cookie = Some (''PVEAuthCookie='' @ tk_ticket t), px_csrf = (if qr_csrf q then Some (tk_csrf t) else None),
     px_body = qr_body q \<rparr>"

definition after_login :: "'w px_env \<Rightarrow> px_reply \<Rightarrow> 'a px_pc" where
  "after_login env reply =
     (case reply of
        TimedOut \<Rightarrow> Finished (Err Elapsed)
      | Transport e \<Rightarrow> Finished (Err (Failed (Proxmox e)))
      | Reply status body \<Rightarrow>
          if \<not> is_success_status status then Add (Failed (Proxmox (''Login failed with status '' @ pe_status env status)))
          else (case pe_ticket env body of Inl e \<Rightarrow> Finished (Err (Failed (Proxmox e))) | Inr t \<Rightarrow> Store t))"

definition after_reply :: "'w px_env \<Rightarrow> 'a px_req \<Rightarrow> px_reply \<Rightarrow> 'a px_pc" where
  "after_reply env q reply =
     (case reply of
        TimedOut \<Rightarrow> Finished (Err (qr_timeout q))
      | Transport e \<Rightarrow> Finished (Err (Failed (Proxmox e)))
      | Reply status body \<Rightarrow>
          if \<not> is_success_status status then Add (Failed (Proxmox (''GET failed with status '' @ pe_status env status)))
          else (case qr_dec q body of Inl e \<Rightarrow> Finished (Err (Failed (Proxmox e))) | Inr x \<Rightarrow> Reset (Some x)))"

fun px_task :: "'w px_env \<Rightarrow> 'a px_req \<Rightarrow> 'a px_pc \<Rightarrow> px_client \<times> 'w \<Rightarrow> 'a px_pc \<times> px_client \<times> 'w" where
  "px_task env q Begin (c, w) = (if should_refresh (int (pe_now env w)) (pc_ticket c) then Login else Fetch, c, w)"
| "px_task env q Login (c, w) = (let (reply, w') = pe_send env (login_call c) w in (after_login env reply, c, w'))"
| "px_task env q (Store t) (c, w) = (Reset None, c \<lparr> pc_ticket := Some t \<rparr>, w)"
| "px_task env q Fetch (c, w) =
     (case pc_ticket c of
        None \<Rightarrow> Finished (Err (Failed (Internal ''ticket missing after ensure'')))
      | Some t \<Rightarrow> Send t, c, w)"
| "px_task env q (Send t) (c, w) = (let (reply, w') = pe_send env (request_call c q t) w in (after_reply env q reply, c, w'))"
| "px_task env q (Add e) (c, w) =
     (let b = pc_breaker c; count = cb_failures b + 1
      in (if count \<ge> cb_threshold b then Open e else Finished (Err e), c \<lparr> pc_breaker := b \<lparr> cb_failures := count \<rparr> \<rparr>, w))"
| "px_task env q (Open e) (c, w) =
     (Finished (Err e), c \<lparr> pc_breaker := (pc_breaker c) \<lparr> cb_opened_at := of_nat (pe_now env w) \<rparr> \<rparr>, w)"
| "px_task env q (Reset r) (c, w) = (Clear r, c \<lparr> pc_breaker := (pc_breaker c) \<lparr> cb_failures := 0 \<rparr> \<rparr>, w)"
| "px_task env q (Clear r) (c, w) =
     (case r of None \<Rightarrow> Fetch | Some x \<Rightarrow> Finished (Ok x), c \<lparr> pc_breaker := (pc_breaker c) \<lparr> cb_opened_at := 0 \<rparr> \<rparr>, w)"
| "px_task env q (Finished r) (c, w) = (Finished r, c, w)"

text \<open>The call a step sends.\<close>

fun px_sends :: "px_client \<Rightarrow> 'a px_req \<Rightarrow> 'a px_pc \<Rightarrow> px_call option" where
  "px_sends c q Login = Some (login_call c)"
| "px_sends c q (Send t) = Some (request_call c q t)"
| "px_sends c q pc = None"

text \<open>Where a deadline around the whole request (\<open>ping\<close>, \<open>list_vms\<close>) may drop it: at its awaits.\<close>

fun px_awaits :: "'a px_pc \<Rightarrow> bool" where
  "px_awaits Begin = True" | "px_awaits Login = True" | "px_awaits (Store t) = True" | "px_awaits Fetch = True"
| "px_awaits (Send t) = True" | "px_awaits pc = False"

fun px_finished :: "'a px_pc \<Rightarrow> bool" where "px_finished (Finished r) = True" | "px_finished pc = False"

section \<open>Tasks side by side\<close>

text \<open>The calls sent so far are part of the state, with the task that sent them, oldest first. Between the steps
  of the tasks the world changes as it likes.\<close>

record ('a, 'w) px_tasks =
  ct_pcs :: "'a px_pc list"
  ct_client :: px_client
  ct_world :: 'w
  ct_sent :: "(nat \<times> px_call) list"

definition ct_advance :: "'w px_env \<Rightarrow> 'a px_req list \<Rightarrow> nat \<Rightarrow> ('a, 'w) px_tasks \<Rightarrow> ('a, 'w) px_tasks" where
  "ct_advance env qs i s =
     (let pc = ct_pcs s ! i; (pc', c', w') = px_task env (qs ! i) pc (ct_client s, ct_world s)
      in \<lparr> ct_pcs = (ct_pcs s)[i := pc'], ct_client = c', ct_world = w',
           ct_sent = ct_sent s @ (case px_sends (ct_client s) (qs ! i) pc of None \<Rightarrow> [] | Some call \<Rightarrow> [(i, call)]) \<rparr>)"

inductive ct_step :: "'w px_env \<Rightarrow> 'a px_req list \<Rightarrow> ('a, 'w) px_tasks \<Rightarrow> ('a, 'w) px_tasks \<Rightarrow> bool" for env qs where
  advance: "i < length (ct_pcs s) \<Longrightarrow> \<not> px_finished (ct_pcs s ! i) \<Longrightarrow> ct_step env qs s (ct_advance env qs i s)"
| expire: "i < length (ct_pcs s) \<Longrightarrow> px_awaits (ct_pcs s ! i) \<Longrightarrow>
    ct_step env qs s (s \<lparr> ct_pcs := (ct_pcs s)[i := Finished (Err Elapsed)] \<rparr>)"
| elapse: "ct_step env qs s (s \<lparr> ct_world := w \<rparr>)"

definition ct_start :: "'a px_req list \<Rightarrow> px_client \<Rightarrow> 'w \<Rightarrow> ('a, 'w) px_tasks" where
  "ct_start qs c w = \<lparr> ct_pcs = replicate (length qs) Begin, ct_client = c, ct_world = w, ct_sent = [] \<rparr>"

definition ct_reaches :: "'w px_env \<Rightarrow> 'a px_req list \<Rightarrow> px_client \<Rightarrow> ('a, 'w) px_tasks \<Rightarrow> bool" where
  "ct_reaches env qs c s = (\<exists>w. (ct_step env qs)\<^sup>*\<^sup>* (ct_start qs c w) s)"

section \<open>A task alone\<close>

definition px_steps :: "'w px_env \<Rightarrow> 'a px_req \<Rightarrow> nat \<Rightarrow> 'a px_pc \<times> px_client \<times> 'w \<Rightarrow> 'a px_pc \<times> px_client \<times> 'w" where
  "px_steps env q n = ((\<lambda>(pc, cw). px_task env q pc cw) ^^ n)"

lemma px_steps_simps [simp]:
  "px_steps env q 0 x = x" "px_steps env q (Suc n) (pc, cw) = px_steps env q n (px_task env q pc cw)"
  by (simp_all add: px_steps_def funpow_swap1)

lemma px_steps_add: "px_steps env q (m + n) x = px_steps env q n (px_steps env q m x)"
  unfolding px_steps_def add.commute[of m n] by (simp only: funpow_add comp_apply)

lemma px_steps_finished: "px_steps env q n (Finished r, c, w) = (Finished r, c, w)"
  by (induction n) simp_all

text \<open>What is left of a task once the reply to its login, or to its request, is there.\<close>

lemma tail_steps:
  "px_steps env q 3 (Finished r, c, w) = (Finished r, c, w)"
  "px_steps env q 3 (Add e, c, w) = (Finished (Err e), px_failure (pe_now env w) c, w)"
  "px_steps env q 3 (Store t, c, w) = (Fetch, px_success (c \<lparr> pc_ticket := Some t \<rparr>), w)"
  "px_steps env q 3 (Reset (Some x), c, w) = (Finished (Ok x), px_success c, w)"
  by (simp_all add: eval_nat_numeral Let_def px_failure_def cb_record_failure_def px_success_def cb_record_success_def)

lemma login_steps:
  assumes "px_login env (c, w) = (r, c', w')"
  shows "px_steps env q 4 (Login, c, w) = ((case r of Inl e \<Rightarrow> Finished (Err e) | Inr _ \<Rightarrow> Fetch), c', w')"
proof -
  obtain reply v where send: "pe_send env (login_call c) w = (reply, v)" by (metis surj_pair)
  have "px_steps env q (Suc 3) (Login, c, w) = px_steps env q 3 (after_login env reply, c, v)"
    by (simp only: px_steps_simps px_task.simps send Let_def prod.case)
  then show ?thesis
    using assms send
    by (auto simp: px_login_def Let_def login_call_def[symmetric] after_login_def tail_steps
        split: px_reply.splits if_splits sum.splits)
qed

lemma send_steps:
  assumes "pe_send env (request_call c q t) w = (reply, v)"
  shows "px_steps env q 4 (Send t, c, w) =
     (case reply of
        TimedOut \<Rightarrow> (Finished (Err (qr_timeout q)), c, v)
      | Transport e \<Rightarrow> (Finished (Err (Failed (Proxmox e))), c, v)
      | Reply status b \<Rightarrow> (let (r, cw) = handle_response env (qr_dec q) status b (c, v) in (Finished r, cw)))"
proof -
  have "px_steps env q (Suc 3) (Send t, c, w) = px_steps env q 3 (after_reply env q reply, c, v)"
    by (simp only: px_steps_simps px_task.simps assms Let_def prod.case)
  then show ?thesis
    by (auto simp: after_reply_def handle_response_def tail_steps split: px_reply.splits if_splits sum.splits)
qed

lemma px_login_ticket: "px_login env (c, w) = (Inr u, d, v) \<Longrightarrow> \<exists>t. pc_ticket d = Some t"
  by (auto simp: px_login_def Let_def px_success_def split: prod.splits px_reply.splits if_splits sum.splits)

text \<open>A task that runs alone is the request as one operation.\<close>

lemma px_task_alone:
  fixes q :: "'a px_req" and env :: "'w px_env"
  assumes "px_request env (qr_dec q) (qr_method q) (qr_csrf q) (qr_timeout q) (qr_path q) (qr_query q) (qr_body q) (c, w)
     = (r, c', w')"
  shows "px_steps env q 10 (Begin, c, w) = (Finished r, c', w')"
proof -
  have request: "px_steps env q 4 (Send t, d, v) = (Finished r, c', w')"
    if "pc_ticket d = Some t" "current_ticket env (c, w) = (Inr t, d, v)" for t d v
  proof -
    obtain reply u where send: "pe_send env (request_call d q t) v = (reply, u)" by (metis surj_pair)
    from send_steps[OF send] show ?thesis using assms that(2) send
      by (auto simp: px_request_def request_call_def Let_def split: px_reply.splits prod.splits)
  qed
  have fetch: "px_steps env q 5 (Fetch, d, v) = (Finished r, c', w')"
    if "pc_ticket d = Some t" "current_ticket env (c, w) = (Inr t, d, v)" for t d v
    using request[OF that] that(1) px_steps_simps(2)[of env q 4 Fetch "(d, v)"] by simp
  show ?thesis
  proof (cases "should_refresh (int (pe_now env w)) (pc_ticket c)")
    case True
    obtain l d v where login: "px_login env (c, w) = (l, d, v)" by (metis prod_cases3)
    have "px_steps env q 10 (Begin, c, w) = px_steps env q (4 + 5) (Login, c, w)"
      using px_steps_simps(2)[of env q 9 Begin "(c, w)"] True by simp
    then have run: "px_steps env q 10 (Begin, c, w) = px_steps env q 5 (case l of Inl e \<Rightarrow> Finished (Err e) | Inr _ \<Rightarrow> Fetch, d, v)"
      by (simp only: px_steps_add login_steps[OF login])
    show ?thesis
    proof (cases l)
      case (Inl e)
      then show ?thesis using run login assms True by (simp add: px_request_def current_ticket_def ensure_ticket_def px_steps_finished)
    next
      case (Inr u)
      obtain t where "pc_ticket d = Some t" using px_login_ticket[of env c w u d v] login Inr by auto
      then show ?thesis using run Inr fetch[of d t v] True login
        by (simp add: current_ticket_def ensure_ticket_def ok_or_def)
    qed
  next
    case False
    then obtain t where t: "pc_ticket c = Some t" by (auto simp: should_refresh_def split: option.splits)
    then have "px_steps env q 5 (Fetch, c, w) = (Finished r, c', w')"
      by (rule fetch) (use False t in \<open>simp add: current_ticket_def ensure_ticket_def ok_or_def\<close>)
    moreover have "px_steps env q 10 (Begin, c, w) = px_steps env q (5 + 4) (Fetch, c, w)"
      using px_steps_simps(2)[of env q 9 Begin "(c, w)"] False by simp
    ultimately show ?thesis by (simp only: px_steps_add px_steps_finished)
  qed
qed

section \<open>What tasks may have done\<close>

definition issued :: "'w px_env \<Rightarrow> px_client \<Rightarrow> ticket \<Rightarrow> bool" where
  "issued env c t = (pc_ticket c = Some t \<or> (\<exists>body. pe_ticket env body = Ok t))"

text \<open>The calls a task has sent: logins have no cookie.\<close>

definition ct_logins :: "('a, 'w) px_tasks \<Rightarrow> nat \<Rightarrow> nat" where
  "ct_logins s i = length (filter (\<lambda>(j, call). j = i \<and> px_cookie call = None) (ct_sent s))"

definition ct_requests :: "('a, 'w) px_tasks \<Rightarrow> nat \<Rightarrow> nat" where
  "ct_requests s i = length (filter (\<lambda>(j, call). j = i \<and> px_cookie call \<noteq> None) (ct_sent s))"

definition ordinary :: "'a px_req \<Rightarrow> px_fail \<Rightarrow> bool" where
  "ordinary q e = (e = Elapsed \<or> e = qr_timeout q \<or> (\<exists>m. e = Failed (Proxmox m)))"

fun pc_ok :: "(ticket \<Rightarrow> bool) \<Rightarrow> bool \<Rightarrow> 'a px_req \<Rightarrow> nat \<Rightarrow> nat \<Rightarrow> 'a px_pc \<Rightarrow> bool" where
  "pc_ok ok has q logins requests Begin = (logins = 0 \<and> requests = 0)"
| "pc_ok ok has q logins requests Login = (logins = 0 \<and> requests = 0)"
| "pc_ok ok has q logins requests (Store t) = (logins \<le> 1 \<and> requests = 0 \<and> ok t)"
| "pc_ok ok has q logins requests Fetch = (logins \<le> 1 \<and> requests = 0 \<and> has)"
| "pc_ok ok has q logins requests (Send t) = (logins \<le> 1 \<and> requests = 0 \<and> ok t)"
| "pc_ok ok has q logins requests (Add e) = (logins \<le> 1 \<and> requests \<le> 1 \<and> ordinary q e)"
| "pc_ok ok has q logins requests (Open e) = (logins \<le> 1 \<and> requests \<le> 1 \<and> ordinary q e)"
| "pc_ok ok has q logins requests (Reset r) = (logins \<le> 1 \<and> (case r of None \<Rightarrow> has \<and> requests = 0 | Some x \<Rightarrow> requests = 1))"
| "pc_ok ok has q logins requests (Clear r) = (logins \<le> 1 \<and> (case r of None \<Rightarrow> has \<and> requests = 0 | Some x \<Rightarrow> requests = 1))"
| "pc_ok ok has q logins requests (Finished r) =
     (logins \<le> 1 \<and> (case r of Inl e \<Rightarrow> requests \<le> 1 \<and> ordinary q e | Inr x \<Rightarrow> requests = 1))"

definition ct_ok :: "'w px_env \<Rightarrow> 'a px_req list \<Rightarrow> px_client \<Rightarrow> ('a, 'w) px_tasks \<Rightarrow> bool" where
  "ct_ok env qs c s =
     (length (ct_pcs s) = length qs \<and> pc_config (ct_client s) = pc_config c
      \<and> (pc_ticket c \<noteq> None \<longrightarrow> pc_ticket (ct_client s) \<noteq> None)
      \<and> (\<forall>t. pc_ticket (ct_client s) = Some t \<longrightarrow> issued env c t)
      \<and> (\<forall>i < length qs. pc_ok (issued env c) (pc_ticket (ct_client s) \<noteq> None) (qs ! i) (ct_logins s i) (ct_requests s i) (ct_pcs s ! i))
      \<and> (\<forall>(j, call) \<in> set (ct_sent s). px_cookie call \<noteq> None \<longrightarrow> (\<exists>t. issued env c t \<and> call = request_call c (qs ! j) t)))"

lemma pc_ok_has: "pc_ok ok has q l r pc \<Longrightarrow> (has \<Longrightarrow> has') \<Longrightarrow> pc_ok ok has' q l r pc"
  by (cases pc) (auto split: option.splits)

text \<open>One step of one task.\<close>

lemma px_task_ok:
  assumes "px_task env q pc (d, w) = (pc', d', w')" "pc_ok (issued env c) (pc_ticket d \<noteq> None) q l r pc"
    and "\<And>t. pc_ticket d = Some t \<Longrightarrow> issued env c t"
  shows "pc_config d' = pc_config d" "pc_ticket d \<noteq> None \<Longrightarrow> pc_ticket d' \<noteq> None"
    "pc_ticket d' = Some t \<Longrightarrow> issued env c t"
    "pc_ok (issued env c) (pc_ticket d' \<noteq> None) q
       (case px_sends d q pc of Some call \<Rightarrow> if px_cookie call = None then Suc l else l | None \<Rightarrow> l)
       (case px_sends d q pc of Some call \<Rightarrow> if px_cookie call \<noteq> None then Suc r else r | None \<Rightarrow> r) pc'"
proof -
  have "pc_config d' = pc_config d \<and> (pc_ticket d \<noteq> None \<longrightarrow> pc_ticket d' \<noteq> None)
      \<and> (pc_ticket d' = Some t \<longrightarrow> issued env c t)"
    using assms by (cases pc) (auto simp: Let_def split: prod.splits)
  then show "pc_config d' = pc_config d" "pc_ticket d \<noteq> None \<Longrightarrow> pc_ticket d' \<noteq> None"
    "pc_ticket d' = Some t \<Longrightarrow> issued env c t" by auto
  have new: "pe_ticket env b = Inr t \<Longrightarrow> issued env c t" for b t by (auto simp: issued_def)
  show "pc_ok (issued env c) (pc_ticket d' \<noteq> None) q
       (case px_sends d q pc of Some call \<Rightarrow> if px_cookie call = None then Suc l else l | None \<Rightarrow> l)
       (case px_sends d q pc of Some call \<Rightarrow> if px_cookie call \<noteq> None then Suc r else r | None \<Rightarrow> r) pc'"
    using assms
    by (cases pc) (auto simp: Let_def should_refresh_def login_call_def request_call_def after_login_def after_reply_def
        ordinary_def new split: prod.splits px_reply.splits if_splits sum.splits option.splits)
qed

lemma px_sends_genuine:
  assumes "px_sends d q pc = Some call" "px_cookie call \<noteq> None" "pc_ok (issued env c) has q l r pc" "pc_config d = pc_config c"
  shows "\<exists>t. issued env c t \<and> call = request_call c q t"
  using assms by (cases pc) (auto simp: login_call_def request_call_def build_url_def)

lemma ct_advance_ok:
  assumes "ct_ok env qs c s" "i < length (ct_pcs s)"
  shows "ct_ok env qs c (ct_advance env qs i s)"
proof -
  let ?q = "qs ! i" and ?pc = "ct_pcs s ! i"
  have i: "i < length qs" and pc: "pc_ok (issued env c) (pc_ticket (ct_client s) \<noteq> None) ?q (ct_logins s i) (ct_requests s i) ?pc"
    and tk: "\<And>t. pc_ticket (ct_client s) = Some t \<Longrightarrow> issued env c t"
    using assms by (auto simp: ct_ok_def)
  obtain pc' d w where run: "px_task env ?q ?pc (ct_client s, ct_world s) = (pc', d, w)" by (metis prod_cases3)
  note step = px_task_ok[OF run pc tk]
  define s' where "s' = ct_advance env qs i s"
  have s': "ct_pcs s' = (ct_pcs s)[i := pc']" "ct_client s' = d"
    "ct_sent s' = ct_sent s @ (case px_sends (ct_client s) ?q ?pc of None \<Rightarrow> [] | Some call \<Rightarrow> [(i, call)])"
    by (simp_all add: s'_def ct_advance_def run)
  have sends: "ct_logins s' i = (case px_sends (ct_client s) ?q ?pc of Some call \<Rightarrow> if px_cookie call = None then Suc (ct_logins s i)
        else ct_logins s i | None \<Rightarrow> ct_logins s i)"
    "ct_requests s' i = (case px_sends (ct_client s) ?q ?pc of Some call \<Rightarrow> if px_cookie call \<noteq> None then Suc (ct_requests s i)
        else ct_requests s i | None \<Rightarrow> ct_requests s i)"
    "j \<noteq> i \<Longrightarrow> ct_logins s' j = ct_logins s j" "j \<noteq> i \<Longrightarrow> ct_requests s' j = ct_requests s j" for j
    by (simp_all add: ct_logins_def ct_requests_def s'(3) split: option.split)
  have pcs: "pc_ok (issued env c) (pc_ticket d \<noteq> None) (qs ! j) (ct_logins s' j) (ct_requests s' j) (ct_pcs s' ! j)"
    if j: "j < length qs" for j
  proof (cases "j = i")
    case True
    then show ?thesis using step(4) assms(2) by (simp add: s'(1) sends(1,2))
  next
    case False
    have "pc_ok (issued env c) (pc_ticket (ct_client s) \<noteq> None) (qs ! j) (ct_logins s j) (ct_requests s j) (ct_pcs s ! j)"
      using assms(1) j by (simp add: ct_ok_def)
    from pc_ok_has[OF this step(2)] False show ?thesis by (simp add: s'(1) sends(3,4))
  qed
  have genuine: "\<exists>t. issued env c t \<and> call = request_call c (qs ! j) t"
    if "(j, call) \<in> set (ct_sent s')" "px_cookie call \<noteq> None" for j call
    using that assms(1) px_sends_genuine[OF _ _ pc] by (auto simp: s'(3) ct_ok_def split: option.splits)
  show ?thesis unfolding s'_def[symmetric]
    using assms(1) step(1-3) pcs genuine by (auto simp: ct_ok_def s'(1,2))
qed

lemma ct_counts [simp]:
  "ct_logins (s \<lparr> ct_pcs := pcs \<rparr>) = ct_logins s" "ct_requests (s \<lparr> ct_pcs := pcs \<rparr>) = ct_requests s"
  "ct_logins (s \<lparr> ct_world := w \<rparr>) = ct_logins s" "ct_requests (s \<lparr> ct_world := w \<rparr>) = ct_requests s"
  by (simp_all add: ct_logins_def ct_requests_def fun_eq_iff)

lemma ct_step_ok:
  assumes "ct_step env qs s s'" "ct_ok env qs c s"
  shows "ct_ok env qs c s'"
  using assms
proof (cases rule: ct_step.cases)
  case (expire i)
  have "pc_ok (issued env c) (pc_ticket (ct_client s) \<noteq> None) (qs ! i) (ct_logins s i) (ct_requests s i) (Finished (Err Elapsed))"
    using expire(2,3) assms(2) by (cases "ct_pcs s ! i") (auto simp: ct_ok_def ordinary_def)
  then have "pc_ok (issued env c) (pc_ticket (ct_client s) \<noteq> None) (qs ! j) (ct_logins s j) (ct_requests s j)
      ((ct_pcs s)[i := Finished (Err Elapsed)] ! j)" if "j < length qs" for j
    using that assms(2) by (cases "j = i") (simp_all add: ct_ok_def del: pc_ok.simps)
  then show ?thesis using expire(1) assms(2) by (simp add: ct_ok_def del: pc_ok.simps)
next
  case elapse
  then show ?thesis using assms(2) by (simp add: ct_ok_def)
qed (simp add: ct_advance_ok)

lemma ct_start_ok: "ct_ok env qs c (ct_start qs c w)"
  by (auto simp: ct_ok_def ct_start_def ct_logins_def ct_requests_def issued_def)

lemma ct_reaches_ok: "ct_reaches env qs c s \<Longrightarrow> ct_ok env qs c s"
  unfolding ct_reaches_def by (elim exE, erule rtranclp_induct) (auto intro: ct_start_ok ct_step_ok)

section \<open>Properties\<close>


lemma advance_steps:
  assumes "i < length (ct_pcs s)"
  shows "\<exists>s'. (ct_step env qs)\<^sup>*\<^sup>* s s'
     \<and> (ct_pcs s', ct_client s', ct_world s') = (case px_steps env (qs ! i) n (ct_pcs s ! i, ct_client s, ct_world s) of
          (pc, c, w) \<Rightarrow> ((ct_pcs s)[i := pc], c, w))"
  using assms
proof (induction n arbitrary: s)
  case 0
  then show ?case by (auto intro: exI[of _ s])
next
  case (Suc n)
  show ?case
  proof (cases "px_finished (ct_pcs s ! i)")
    case True
    then obtain r where "ct_pcs s ! i = Finished r" by (cases "ct_pcs s ! i") auto
    with Suc.prems show ?thesis
      by (intro exI[of _ s]) (simp add: px_steps_finished del: px_steps_simps, metis list_update_id)
  next
    case False
    define s1 where "s1 = ct_advance env qs i s"
    obtain pc c w where run: "px_task env (qs ! i) (ct_pcs s ! i) (ct_client s, ct_world s) = (pc, c, w)" by (metis prod_cases3)
    have s1: "ct_pcs s1 = (ct_pcs s)[i := pc]" "ct_client s1 = c" "ct_world s1 = w"
      by (simp_all add: s1_def ct_advance_def run)
    have "ct_step env qs s s1" unfolding s1_def by (rule ct_step.advance[OF Suc.prems False])
    moreover obtain s' where "(ct_step env qs)\<^sup>*\<^sup>* s1 s'"
        "(ct_pcs s', ct_client s', ct_world s') = (case px_steps env (qs ! i) n (ct_pcs s1 ! i, ct_client s1, ct_world s1) of
          (pc, c, w) \<Rightarrow> ((ct_pcs s1)[i := pc], c, w))"
      using Suc.IH[of s1] Suc.prems by (auto simp: s1)
    ultimately show ?thesis using Suc.prems
      by (intro exI[of _ s']) (auto simp: s1 run split: prod.splits)
  qed
qed

text \<open>C17. Requests as single operations, which is how the other theories run them, are among the interleavings: a task
  left to itself ends with the result, the client and the world of the one operation.\<close>

theorem atomic_requests_are_runs:
  assumes "i < length (ct_pcs s)" "ct_pcs s ! i = Begin"
  shows "let q = qs ! i; (r, c, w) = px_request env (qr_dec q) (qr_method q) (qr_csrf q) (qr_timeout q) (qr_path q)
           (qr_query q) (qr_body q) (ct_client s, ct_world s)
     in \<exists>s'. (ct_step env qs)\<^sup>*\<^sup>* s s' \<and> ct_pcs s' = (ct_pcs s)[i := Finished r] \<and> ct_client s' = c \<and> ct_world s' = w"
proof -
  let ?q = "qs ! i"
  obtain r c w where run: "px_request env (qr_dec ?q) (qr_method ?q) (qr_csrf ?q) (qr_timeout ?q) (qr_path ?q)
      (qr_query ?q) (qr_body ?q) (ct_client s, ct_world s) = (r, c, w)" by (metis prod_cases3)
  from px_task_alone[OF run] advance_steps[OF assms(1), of env qs 10] assms(2) show ?thesis
    by (simp add: run)
qed

text \<open>A cluster that answers writes with 500 and reads with 200, and a client that has counted four failures.\<close>

definition busy_env :: "nat px_env" where
  "busy_env = \<lparr> pe_send = (\<lambda>call w. (Reply (if px_method call = POST then 500 else 200) ''x'', w + 1)), pe_now = (\<lambda>w. w),
     pe_status = (\<lambda>_. ''500''), pe_ticket = (\<lambda>b. Inl ''no''), pe_string = (\<lambda>b. Inr b) \<rparr>"

definition busy_client :: px_client where
  "busy_client = demo_client \<lparr> pc_ticket := Some \<lparr> tk_ticket = ''t'', tk_csrf = ''c'', tk_username = ''u'', tk_expires_at = 7200 \<rparr>,
     pc_breaker := cb_record_failure 4 (cb_record_failure 3 (cb_record_failure 2 (cb_record_failure 1 cb_default))) \<rparr>"

definition busy_req :: "http_method \<Rightarrow> string px_req" where
  "busy_req m = \<lparr> qr_method = m, qr_csrf = True, qr_timeout = Elapsed, qr_path = ''version'', qr_query = [], qr_body = NoBody,
     qr_dec = (\<lambda>b. Ok b) \<rparr>"

definition race_state :: "string px_pc list \<Rightarrow> 32 word \<Rightarrow> 64 word \<Rightarrow> nat \<Rightarrow> (nat \<times> px_call) list \<Rightarrow> (string, nat) px_tasks" where
  "race_state pcs failures opened w sent = \<lparr> ct_pcs = pcs,
     ct_client = busy_client \<lparr> pc_breaker := \<lparr> cb_threshold = 5, cb_cooldown = 30, cb_failures = failures, cb_opened_at = opened \<rparr> \<rparr>,
     ct_world = w, ct_sent = sent \<rparr>"

abbreviation "race_qs \<equiv> [busy_req POST, busy_req GET]"

lemma race_step:
  assumes "ct_reaches busy_env race_qs busy_client s" "i < length (ct_pcs s)" "\<not> px_finished (ct_pcs s ! i)"
  shows "ct_reaches busy_env race_qs busy_client (ct_advance busy_env race_qs i s)"
  using assms unfolding ct_reaches_def by (blast intro: rtranclp.rtrancl_into_rtrancl ct_step.advance)

definition race_ticket :: ticket where
  "race_ticket = \<lparr> tk_ticket = ''t'', tk_csrf = ''c'', tk_username = ''u'', tk_expires_at = 7200 \<rparr>"

definition race_error :: px_fail where "race_error = Failed (Proxmox (''GET failed with status '' @ ''500''))"

lemma race_words: "\<not> (5 :: 32 word) \<le> 1" "\<not> (5 :: 32 word) \<le> 2" "\<not> (5 :: 32 word) \<le> 3" "\<not> (5 :: 32 word) \<le> 4" "i64_wrap 7190 = 7190"
    "i64_wrap 7189 = 7189"
  by code_simp+

lemma race_start: "ct_start race_qs busy_client 10 = race_state [Begin, Begin] 4 0 10 []"
  by (simp add: ct_start_def race_state_def busy_client_def cb_record_failure_def cb_default_def cb_new_def Let_def race_words)

lemmas race_defs = race_state_def ct_advance_def busy_client_def should_refresh_def i64_sub_def busy_env_def busy_req_def
  race_ticket_def race_error_def race_words after_reply_def is_success_status_def request_call_def build_url_def Let_def

lemma race_advance:
  "ct_advance busy_env race_qs 0 (race_state [Begin, Begin] 4 0 10 [])
     = race_state [Fetch, Begin] 4 0 10 []"
  "ct_advance busy_env race_qs 0 (race_state [Fetch, Begin] 4 0 10 [])
     = race_state [Send race_ticket, Begin] 4 0 10 []"
  "ct_advance busy_env race_qs 0 (race_state [Send race_ticket, Begin] 4 0 10 [])
     = race_state [Add race_error, Begin] 4 0 11 [(0, request_call busy_client (busy_req POST) race_ticket)]"
  "ct_advance busy_env race_qs 0 (race_state [Add race_error, Begin] 4 0 11 [(0, request_call busy_client (busy_req POST) race_ticket)])
     = race_state [Open race_error, Begin] 5 0 11 [(0, request_call busy_client (busy_req POST) race_ticket)]"
  "ct_advance busy_env race_qs 1 (race_state [Open race_error, Begin] 5 0 11 [(0, request_call busy_client (busy_req POST) race_ticket)])
     = race_state [Open race_error, Fetch] 5 0 11 [(0, request_call busy_client (busy_req POST) race_ticket)]"
  "ct_advance busy_env race_qs 1 (race_state [Open race_error, Fetch] 5 0 11 [(0, request_call busy_client (busy_req POST) race_ticket)])
     = race_state [Open race_error, Send race_ticket] 5 0 11 [(0, request_call busy_client (busy_req POST) race_ticket)]"
  "ct_advance busy_env race_qs 1 (race_state [Open race_error, Send race_ticket] 5 0 11 [(0, request_call busy_client (busy_req POST) race_ticket)])
     = race_state [Open race_error, Reset (Some ''x'')] 5 0 12 [(0, request_call busy_client (busy_req POST) race_ticket), (1, request_call busy_client (busy_req GET) race_ticket)]"
  "ct_advance busy_env race_qs 1 (race_state [Open race_error, Reset (Some ''x'')] 5 0 12 [(0, request_call busy_client (busy_req POST) race_ticket), (1, request_call busy_client (busy_req GET) race_ticket)])
     = race_state [Open race_error, Clear (Some ''x'')] 0 0 12 [(0, request_call busy_client (busy_req POST) race_ticket), (1, request_call busy_client (busy_req GET) race_ticket)]"
  "ct_advance busy_env race_qs 1 (race_state [Open race_error, Clear (Some ''x'')] 0 0 12 [(0, request_call busy_client (busy_req POST) race_ticket), (1, request_call busy_client (busy_req GET) race_ticket)])
     = race_state [Open race_error, Finished (Ok ''x'')] 0 0 12 [(0, request_call busy_client (busy_req POST) race_ticket), (1, request_call busy_client (busy_req GET) race_ticket)]"
  "ct_advance busy_env race_qs 0 (race_state [Open race_error, Finished (Ok ''x'')] 0 0 12 [(0, request_call busy_client (busy_req POST) race_ticket), (1, request_call busy_client (busy_req GET) race_ticket)])
     = race_state [Finished (Err race_error), Finished (Ok ''x'')] 0 12 12 [(0, request_call busy_client (busy_req POST) race_ticket), (1, request_call busy_client (busy_req GET) race_ticket)]"
  by (simp_all add: race_defs)

definition race_end :: "(string, nat) px_tasks" where
  "race_end = race_state [Finished (Err race_error), Finished (Ok ''x'')] 0 12 12
     [(0, request_call busy_client (busy_req POST) race_ticket), (1, request_call busy_client (busy_req GET) race_ticket)]"

lemma race_reaches: "ct_reaches busy_env race_qs busy_client race_end"
proof -
  have go: "ct_reaches busy_env race_qs busy_client (race_state pcs f t w sent) \<Longrightarrow> i < length pcs \<Longrightarrow> \<not> px_finished (pcs ! i)
      \<Longrightarrow> ct_advance busy_env race_qs i (race_state pcs f t w sent) = s' \<Longrightarrow> ct_reaches busy_env race_qs busy_client s'"
    for pcs f t w sent i s'
    using race_step[of "race_state pcs f t w sent" i] by (simp add: race_state_def)
  have start: "ct_reaches busy_env race_qs busy_client (race_state [Begin, Begin] 4 0 10 [])"
    unfolding ct_reaches_def race_start[symmetric] by blast
  show ?thesis unfolding race_end_def
    by (rule go[OF _ _ _ race_advance(10)], rule go[OF _ _ _ race_advance(9)], rule go[OF _ _ _ race_advance(8)], rule go[OF _ _ _ race_advance(7)],
        rule go[OF _ _ _ race_advance(6)], rule go[OF _ _ _ race_advance(5)], rule go[OF _ _ _ race_advance(4)],
        rule go[OF _ _ _ race_advance(3)], rule go[OF _ _ _ race_advance(2)], rule go[OF _ _ _ race_advance(1)], rule start)
      simp_all
qed

text \<open>The operations of the breaker are not atomic: a failure that has been counted, but whose second operation
  comes after a whole success, opens the breaker of a cluster that has just answered, with no failure on its
  count; one after the other, in either order, the two requests leave it closed.\<close>

lemma breaker_race:
  "\<exists>s. ct_reaches busy_env race_qs busy_client s \<and> list_all px_finished (ct_pcs s)
     \<and> cb_failures (pc_breaker (ct_client s)) = 0 \<and> cb_state 12 (pc_breaker (ct_client s)) = COpen"
  "cb_state 12 (cb_record_success (cb_record_failure 12 (pc_breaker busy_client))) = CClosed"
  "cb_state 12 (cb_record_failure 12 (cb_record_success (pc_breaker busy_client))) = CClosed"
proof -
  show "\<exists>s. ct_reaches busy_env race_qs busy_client s \<and> list_all px_finished (ct_pcs s)
     \<and> cb_failures (pc_breaker (ct_client s)) = 0 \<and> cb_state 12 (pc_breaker (ct_client s)) = COpen"
    by (rule exI[of _ race_end], intro conjI race_reaches) (simp_all add: race_end_def race_state_def cb_state_def word_le_nat_alt)
qed (simp_all add: cb_state_def cb_record_success_def busy_client_def cb_record_failure_def cb_default_def cb_new_def Let_def race_words)


theorem atomic_requests_are_runs_witness:
  "\<exists>s'. (ct_step busy_env race_qs)\<^sup>*\<^sup>* (race_state [Begin, Begin] 4 0 10 []) s' \<and> ct_pcs s' = [Begin, Finished (Ok ''x'')]
     \<and> pc_breaker (ct_client s') = cb_default"
proof -
  have "fst (px_request busy_env (qr_dec (busy_req GET)) (qr_method (busy_req GET)) (qr_csrf (busy_req GET)) (qr_timeout (busy_req GET))
       (qr_path (busy_req GET)) (qr_query (busy_req GET)) (qr_body (busy_req GET)) (ct_client (race_state [Begin, Begin] 4 0 10 []), 10)) = Ok ''x''"
    "pc_breaker (fst (snd (px_request busy_env (qr_dec (busy_req GET)) (qr_method (busy_req GET)) (qr_csrf (busy_req GET)) (qr_timeout (busy_req GET))
       (qr_path (busy_req GET)) (qr_query (busy_req GET)) (qr_body (busy_req GET)) (ct_client (race_state [Begin, Begin] 4 0 10 []), 10)))) = cb_default"
    by (simp_all add: race_defs px_request_def current_ticket_def ensure_ticket_def ok_or_def handle_response_def
        px_success_def cb_record_success_def cb_default_def cb_new_def)
  then show ?thesis using atomic_requests_are_runs[of 1 "race_state [Begin, Begin] 4 0 10 []" race_qs busy_env]
    by (auto simp: race_state_def split_beta Let_def)
qed

end
