(* ===== verification/Ticket_Json.thy ===== *)
theory Ticket_Json
  imports Bodies Client_Tasks Proxmox_Json
begin

text \<open>
  The ticket as it comes from a cluster and as it is printed (\<open>src/proxmox/auth.rs\<close>): what a reply to a login
  has to look like for the login to succeed, and what \<open>Debug\<close> shows of a ticket and of a cluster's configuration
  (\<open>src/config.rs\<close>). The escapes of a printed string are the argument \<open>dbg\<close>.
\<close>

section \<open>Decoding\<close>

definition show_i64 :: "int \<Rightarrow> string" where
  "show_i64 n = (if n < 0 then CHR ''-'' # show_nat (nat (- n)) else show_nat (nat n))"

text \<open>A signed number; \<open>serde_json\<close> reads \<open>-0\<close> and every number with a fraction as a double.\<close>

fun de_i64 :: "int de" where
  "de_i64 (JNum n) = (if n < 2 ^ 63 then Some (int n) else None)"
| "de_i64 (JNumber t) = (case parse_i64 t of Some i \<Rightarrow> if i < 0 then Some i else None | None \<Rightarrow> None)"
| "de_i64 _ = None"

text \<open>The decoder of the client: parsing is the crate's.\<close>

definition ticket_of_body :: "(string \<Rightarrow> (string, json) result) \<Rightarrow> string \<Rightarrow> (string, ticket) result" where
  "ticket_of_body parse body =
     rbind (parse body) (\<lambda>j. ok_or ''error decoding response body'' (de_ticket_response de_i64 j))"

section \<open>Printing\<close>

definition debug_struct :: "string \<Rightarrow> (string \<times> string) list \<Rightarrow> string" where
  "debug_struct name fs = name @ '' { '' @ join_with '', '' (map (\<lambda>(f, v). f @ '': '' @ v) fs) @ '' }''"

definition debug_ticket :: "(string \<Rightarrow> string) \<Rightarrow> ticket \<Rightarrow> string" where
  "debug_ticket dbg t = debug_struct ''Ticket'' [(''ticket'', dbg ''<redacted>''), (''csrf_token'', dbg ''<redacted>''),
     (''username'', dbg (tk_username t)), (''expires_at'', show_i64 (tk_expires_at t))]"

definition debug_cluster_config :: "(string \<Rightarrow> string) \<Rightarrow> cluster_config \<Rightarrow> string" where
  "debug_cluster_config dbg c = debug_struct ''ClusterConfig'' [(''name'', dbg (cc_name c)), (''url'', dbg (cc_url c)),
     (''username'', dbg (cc_username c)), (''password'', dbg ''<redacted>''), (''realm'', dbg (cc_realm c)),
     (''insecure_skip_verify'', if cc_insecure_skip_verify c then ''true'' else ''false''),
     (''ca_cert_pem'', case cc_ca_cert_pem c of None \<Rightarrow> ''None'' | Some _ \<Rightarrow> ''Some('' @ dbg ''<redacted>'' @ '')'')]"

section \<open>Lemmas\<close>

text \<open>A required member is read exactly when it is there once and its value decodes.\<close>

lemma req_read:
  "fbind (req name d) k (Members kvs) = Some y \<longleftrightarrow>
     (\<exists>j x. filter (\<lambda>kv. fst kv = name) kvs = [(name, j)] \<and> d j = Some x \<and> k x (Members kvs) = Some y)"
proof (cases "filter (\<lambda>kv. fst kv = name) kvs")
  case Nil
  then show ?thesis by (simp add: fbind_def req_def field_def)
next
  case (Cons kv rest)
  then have "fst kv = name" using filter_eq_ConsD[OF Cons] by auto
  then obtain j where "kv = (name, j)" by (cases kv) simp
  with Cons show ?thesis by (cases rest; cases "d j") (simp_all add: fbind_def req_def field_def)
qed

lemma de_string_Some: "de_string j = Some s \<longleftrightarrow> j = JStr s"
  by (cases j) auto

definition member :: "string \<Rightarrow> json \<Rightarrow> (string \<times> json) list \<Rightarrow> bool" where
  "member name j kvs = (filter (\<lambda>kv. fst kv = name) kvs = [(name, j)])"

lemma de_ticket_members:
  "de_ticket de_i64 (JObj kvs) = Some t \<longleftrightarrow>
     member ''ticket'' (JStr (tk_ticket t)) kvs \<and> member ''csrf_token'' (JStr (tk_csrf t)) kvs
     \<and> member ''username'' (JStr (tk_username t)) kvs \<and> (\<exists>j. member ''expires_at'' j kvs \<and> de_i64 j = Some (tk_expires_at t))"
  by (cases t) (auto simp: de_ticket_def de_struct_def req_read member_def de_string_Some)

lemma de_response_member: "member ''data'' j kvs \<Longrightarrow> de_ticket_response de_i64 (JObj kvs) = de_ticket de_i64 j"
  by (cases "de_ticket de_i64 j") (auto simp: de_ticket_response_def de_struct_def req_def field_def member_def)

section \<open>What a login needs\<close>


text \<open>A reply as the comments of the struct name its members.\<close>

definition demo_reply :: json where
  "demo_reply = JObj [(''data'', JObj [(''ticket'', JStr ''PVE:t''), (''CSRFPreventionToken'', JStr ''c''), (''username'', JStr ''root@pam'')])]"

definition reply_env :: "nat px_env" where
  "reply_env = dead_env \<lparr> pe_send := (\<lambda>call w. (Reply 200 ''{}'', w + 1)), pe_ticket := ticket_of_body (\<lambda>t. Ok demo_reply) \<rparr>"


text \<open>What is printed of a ticket or a cluster does not depend on what is secret in it.\<close>

lemma debug_output_redacted:
  "tk_username t = tk_username t' \<Longrightarrow> tk_expires_at t = tk_expires_at t' \<Longrightarrow> debug_ticket dbg t = debug_ticket dbg t'"
  "debug_cluster_config dbg (c \<lparr> cc_password := p \<rparr>) = debug_cluster_config dbg c"
  "debug_cluster_config dbg (c \<lparr> cc_ca_cert_pem := Some pem \<rparr>) = debug_cluster_config dbg (c \<lparr> cc_ca_cert_pem := Some pem' \<rparr>)"
  by (simp_all add: debug_ticket_def debug_cluster_config_def)

end
