(* ===== verification/Replies.thy ===== *)
theory Replies
  imports Dispatch Ticket_Json
begin

text \<open>
  The bodies the handlers of accounts, sessions, audit, probes and consoles answer with, as their derived
  \<open>Serialize\<close> writes them (\<open>src/api/auth.rs\<close>, \<open>src/api/audit.rs\<close>, \<open>src/api/health.rs\<close>, \<open>src/api/vnc.rs\<close>),
  and the conversions of foreign errors (\<open>src/error.rs\<close>).
\<close>

section \<open>Bodies\<close>

definition ser_i64 :: "int \<Rightarrow> json" where
  "ser_i64 n = (if n < 0 then JNumber (show_i64 n) else JNum (nat n))"

definition ser_user_view :: "user_view \<Rightarrow> json" where
  "ser_user_view u = JObj (mem ''id'' (JStr (ux_id u)) @ mem ''username'' (JStr (ux_username u))
     @ mem ''display_name'' (JStr (ux_display_name u)) @ mem ''email'' (ser_opt JStr (ux_email u)) @ mem ''role'' (JStr (ux_role u)))"

definition ser_login_response :: "login_response \<Rightarrow> json" where
  "ser_login_response r = JObj (mem ''token'' (JStr (lr_token r)) @ mem ''expires_in'' (ser_i64 (lr_expires_in r))
     @ mem ''token_type'' (JStr (lr_token_type r)) @ mem ''user'' (ser_user_view (lr_user r))
     @ mem ''refresh_token'' (JStr (lr_refresh_token r)))"

definition ser_refresh_response :: "refresh_response \<Rightarrow> json" where
  "ser_refresh_response r = JObj (mem ''token'' (JStr (rr_token r)) @ mem ''expires_in'' (ser_i64 (rr_expires_in r))
     @ mem ''token_type'' (JStr (rr_token_type r)) @ mem ''refresh_token'' (JStr (rr_refresh_token r)))"

definition ser_me :: "claims \<Rightarrow> json" where
  "ser_me c = JObj (mem ''sub'' (JStr (cl_sub c)) @ mem ''username'' (JStr (cl_username c)) @ mem ''role'' (JStr (cl_role c))
     @ mem ''iat'' (ser_i64 (cl_iat c)) @ mem ''exp'' (ser_i64 (cl_exp c)))"

definition ser_logout_response :: json where "ser_logout_response = JObj (mem ''ok'' (JBool True))"

definition ser_audit_row :: "audit_row \<Rightarrow> json" where
  "ser_audit_row r = (let e = ar_entry r in JObj (mem ''id'' (ser_i64 (ar_id r)) @ mem ''ts'' (ser_i64 (ae_ts e))
     @ mem ''request_id'' (JStr (ae_request_id e)) @ mem ''method'' (JStr (ae_method e)) @ mem ''path'' (JStr (ae_path e))
     @ mem ''status'' (JNum (ae_status e)) @ mem ''duration_ms'' (JNum (ae_duration_ms e))
     @ mem ''remote_addr'' (ser_opt JStr (ae_remote_addr e)) @ mem ''user_agent'' (ser_opt JStr (ae_user_agent e))
     @ mem ''user_id'' (ser_opt JStr (ae_user_id e))))"

definition ser_audit_response :: "audit_result \<Rightarrow> json" where
  "ser_audit_response r = JObj (mem ''entries'' (ser_list ser_audit_row (audit_result.qr_entries r)) @ mem ''total'' (JNum (qr_total r))
     @ mem ''page'' (JNum (qr_page r)) @ mem ''per_page'' (JNum (qr_per_page r)) @ mem ''pages'' (JNum (qr_pages r)))"

definition ser_health_response :: "health_response \<Rightarrow> json" where
  "ser_health_response r = JObj (mem ''status'' (JStr (he_status r)) @ mem ''version'' (JStr (he_version r))
     @ mem ''git_sha'' (JStr (he_git_sha r)) @ mem ''build_profile'' (JStr (he_build_profile r))
     @ mem ''uptime_seconds'' (JNum (he_uptime_seconds r)))"

definition ser_unready_response :: "unready_response \<Rightarrow> json" where
  "ser_unready_response r = JObj (mem ''status'' (JStr (ur_status r)) @ mem ''clusters'' (ser_hmap JStr (ur_clusters r)))"

definition ser_vnc_ticket_response :: "vnc_ticket_response \<Rightarrow> json" where
  "ser_vnc_ticket_response r = JObj (mem ''vnc_token'' (JStr (vr_vnc_token r)) @ mem ''port'' (JNum (vr_port r))
     @ mem ''expires_in'' (JNum (vr_expires_in r)))"

section \<open>Errors of other crates\<close>

datatype foreign_error = Anyhow string | Rusqlite string | SerdeJson string | Reqwest string

fun from_foreign :: "foreign_error \<Rightarrow> app_error" where
  "from_foreign (Anyhow e) = Internal e"
| "from_foreign (Rusqlite e) = Database e"
| "from_foreign (SerdeJson e) = Internal (''JSON error: '' @ e)"
| "from_foreign (Reqwest e) = Proxmox e"

section \<open>Lemmas\<close>

text \<open>What a foreign error says stays in the log: every one of them is answered alike.\<close>

lemma foreign_errors_hidden: "into_response (from_foreign e) = (500, ''Internal server error'')"
  by (cases e) simp_all

text \<open>The listing of the accounts is a function of what the view shows: accounts that differ in their password
  hashes, their second factor or their flags are listed alike.\<close>

lemma listing_hides_secrets:
  assumes "map user_view_of (list_users (as_users st)) = map user_view_of (list_users (as_users st'))"
  shows "map_option (map ser_user_view) (ok_of (fst (list_users_handler auth st)))
     = map_option (map ser_user_view) (ok_of (fst (list_users_handler auth st')))"
  using assms by (simp add: list_users_handler_def admin_gate_def ok_of_def split: sum.split)

lemma view_hides_secrets:
  "user_view_of (u \<lparr> u_password_hash := h, u_totp_secret := t, u_totp_enabled := b, u_backup_codes := cs, u_enabled := en \<rparr>)
     = user_view_of u"
  by (simp add: user_view_of_def)

end
