(* ===== verification/Webhook.thy ===== *)
theory Webhook
  imports Http
begin

unbundle bit_operations_syntax

text \<open>
  Outgoing notifications (\<open>src/webhook/mod.rs\<close>, \<open>src/webhook/dispatcher.rs\<close>, the webhook part of
  \<open>src/config.rs\<close>): which endpoints an event goes to, and the delivery loop with its back-off, as a
  function and as the steps of the detached tasks. The HTTP client, HMAC-SHA256, hex and JSON encoders
  and the clock are parameters.
\<close>

section \<open>Configuration\<close>

record webhook_endpoint_config =
  ec_name :: string
  ec_url :: string
  ec_events :: "string list"
  ec_secret :: "string option"
  ec_max_retries :: "32 word option"

record webhook_config =
  wc_enabled :: bool
  wc_retry_count :: "32 word"
  wc_timeout_secs :: "64 word"
  wc_endpoints :: "webhook_endpoint_config list"

definition default_webhook_retry :: "32 word" where "default_webhook_retry = 3"

definition default_webhook_timeout :: "64 word" where "default_webhook_timeout = 10"

definition default_webhook_config :: webhook_config where
  "default_webhook_config = \<lparr> wc_enabled = False, wc_retry_count = 3, wc_timeout_secs = 10, wc_endpoints = [] \<rparr>"

datatype webhook_event =
  VmStarted | VmStopped | VmRebooted | VmDeleted | MigrationStarted | AuditLogged | UserLogin | UserLogout

fun event_as_str :: "webhook_event \<Rightarrow> string" where
  "event_as_str VmStarted = ''VmStarted''"
| "event_as_str VmStopped = ''VmStopped''"
| "event_as_str VmRebooted = ''VmRebooted''"
| "event_as_str VmDeleted = ''VmDeleted''"
| "event_as_str MigrationStarted = ''MigrationStarted''"
| "event_as_str AuditLogged = ''AuditLogged''"
| "event_as_str UserLogin = ''UserLogin''"
| "event_as_str UserLogout = ''UserLogout''"

text \<open>The match of \<open>from_config\<close> on a configured name; unknown names are dropped with a warning.\<close>

definition event_of_name :: "string \<Rightarrow> webhook_event option" where
  "event_of_name e =
     (if e = ''VmStarted'' then Some VmStarted
      else if e = ''VmStopped'' then Some VmStopped
      else if e = ''VmRebooted'' then Some VmRebooted
      else if e = ''VmDeleted'' then Some VmDeleted
      else if e = ''MigrationStarted'' then Some MigrationStarted
      else if e = ''AuditLogged'' then Some AuditLogged
      else if e = ''UserLogin'' then Some UserLogin
      else if e = ''UserLogout'' then Some UserLogout
      else None)"

record webhook_endpoint =
  we_name :: string
  we_url :: string
  we_events :: "webhook_event list"
  we_secret :: "string option"
  we_max_retries :: "32 word"

record webhook_service =
  ws_endpoints :: "webhook_endpoint list"
  ws_enabled :: bool
  ws_timeout :: "64 word"
  ws_default_retries :: "32 word"

definition endpoint_from_config :: "webhook_config \<Rightarrow> webhook_endpoint_config \<Rightarrow> webhook_endpoint" where
  "endpoint_from_config cfg ep =
     \<lparr> we_name = ec_name ep, we_url = ec_url ep,
       we_events = (if ec_events ep = [] then [] else List.map_filter event_of_name (ec_events ep)),
       we_secret = ec_secret ep,
       we_max_retries = opt_or (wc_retry_count cfg) (ec_max_retries ep) \<rparr>"

definition webhook_from_config :: "webhook_config \<Rightarrow> webhook_service option" where
  "webhook_from_config cfg =
     (if \<not> wc_enabled cfg \<or> wc_endpoints cfg = [] then None
      else Some \<lparr> ws_endpoints = map (endpoint_from_config cfg) (wc_endpoints cfg), ws_enabled = True,
             ws_timeout = wc_timeout_secs cfg, ws_default_retries = wc_retry_count cfg \<rparr>)"

section \<open>Delivery\<close>

record webhook_post =
  wp_url :: string
  wp_headers :: "(string \<times> string) list"
  wp_body :: string

text \<open>
  The client built with a timeout may fail to build; a post changes the world \<open>'w\<close> and answers a
  status with the outcome of reading its body; sleeping changes the world.
\<close>

record 'w webhook_env =
  wv_json :: "json \<Rightarrow> (string, string) result"
  wv_hmac :: "string \<Rightarrow> string \<Rightarrow> (string, 8 word list) result"
  wv_hex :: "8 word list \<Rightarrow> string"
  wv_build :: "64 word \<Rightarrow> (string, unit) result"
  wv_send :: "64 word \<Rightarrow> webhook_post \<Rightarrow> 'w \<Rightarrow> (string, nat \<times> (string, string) result) result \<times> 'w"
  wv_status_text :: "nat \<Rightarrow> string"
  wv_sleep :: "64 word \<Rightarrow> 'w \<Rightarrow> 'w"

definition sign_payload :: "'w webhook_env \<Rightarrow> string \<Rightarrow> string \<Rightarrow> (string, string) result" where
  "sign_payload env body secret =
     rbind (map_err (\<lambda>e. ''HMAC init failed: '' @ e) (wv_hmac env secret body)) (\<lambda>mac. Inr (wv_hex env mac))"

definition webhook_request :: "'w webhook_env \<Rightarrow> webhook_endpoint \<Rightarrow> string \<Rightarrow> webhook_post" where
  "webhook_request env ep body =
     \<lparr> wp_url = we_url ep,
       wp_headers = (''Content-Type'', ''application/json'') #
         (case we_secret ep of
            None \<Rightarrow> []
          | Some secret \<Rightarrow>
              (case sign_payload env body secret of Inr sig \<Rightarrow> [(''X-Webhook-Signature'', sig)] | Inl _ \<Rightarrow> [])),
       wp_body = body \<rparr>"

definition deliver_once :: "'w webhook_env \<Rightarrow> 64 word \<Rightarrow> webhook_endpoint \<Rightarrow> string \<Rightarrow> 'w
    \<Rightarrow> (string, unit) result \<times> 'w" where
  "deliver_once env timeout ep body w =
     (case wv_build env timeout of
        Inl e \<Rightarrow> (Inl (''Failed to build HTTP client: '' @ e), w)
      | Inr _ \<Rightarrow>
          (case wv_send env timeout (webhook_request env ep body) w of
             (Inl e, w') \<Rightarrow> (Inl (''HTTP request failed: '' @ e), w')
           | (Inr (status, text), w') \<Rightarrow>
               (if 200 \<le> status \<and> status < 300 then (Inr (), w')
                else (Inl (''HTTP '' @ wv_status_text env status @ '': '' @ unwrap_or '''' text), w'))))"

text \<open>
  \<open>1 << (attempt - 1)\<close> on \<open>u64\<close>. The release build, which has no overflow checks, takes the shift
  distance modulo 64; a build with checks stops at attempt 65.
\<close>

definition retry_delay :: "nat \<Rightarrow> 64 word" where
  "retry_delay attempt = push_bit ((attempt - 1) mod 64) 1"

text \<open>The loop over \<open>0..=max_retries\<close>; the result is the attempt that succeeded, \<open>None\<close> when all
  failed (the code only logs it).\<close>

fun delivery_attempts :: "'w webhook_env \<Rightarrow> 64 word \<Rightarrow> webhook_endpoint \<Rightarrow> string \<Rightarrow> nat list \<Rightarrow> 'w
    \<Rightarrow> nat option \<times> 'w" where
  "delivery_attempts env timeout ep body [] w = (None, w)"
| "delivery_attempts env timeout ep body (a # as) w =
     (let w1 = (if a > 0 then wv_sleep env (retry_delay a) w else w) in
      (case deliver_once env timeout ep body w1 of
         (Inr _, w2) \<Rightarrow> (Some a, w2)
       | (Inl _, w2) \<Rightarrow> delivery_attempts env timeout ep body as w2))"

definition deliver_with_retry :: "'w webhook_env \<Rightarrow> webhook_endpoint \<Rightarrow> json \<Rightarrow> 64 word \<Rightarrow> 32 word \<Rightarrow> 'w
    \<Rightarrow> nat option \<times> 'w" where
  "deliver_with_retry env ep payload timeout max_retries w =
     delivery_attempts env timeout ep (unwrap_or '''' (wv_json env payload)) [0..<Suc (unat max_retries)] w"

text \<open>\<open>dispatch_event\<close>: one detached task per subscribed endpoint; the result lists what they deliver.
  The time stamp is an argument.\<close>

definition event_payload :: "webhook_event \<Rightarrow> string \<Rightarrow> string \<Rightarrow> json \<Rightarrow> json" where
  "event_payload event timestamp cluster data =
     JObj [(''event'', JStr (event_as_str event)), (''timestamp'', JStr timestamp),
           (''cluster'', JStr cluster), (''data'', data)]"

definition subscribed :: "webhook_event \<Rightarrow> webhook_endpoint \<Rightarrow> bool" where
  "subscribed event ep = (we_events ep = [] \<or> event \<in> set (we_events ep))"

definition dispatch_event :: "webhook_service \<Rightarrow> webhook_event \<Rightarrow> string \<Rightarrow> string \<Rightarrow> json
    \<Rightarrow> (webhook_endpoint \<times> json) list" where
  "dispatch_event svc event timestamp cluster data =
     (if \<not> ws_enabled svc then []
      else map (\<lambda>ep. (ep, event_payload event timestamp cluster data)) (filter (subscribed event) (ws_endpoints svc)))"

section \<open>The detached tasks\<close>

datatype task_pc = Posting nat | Sleeping nat | Finished "nat option"

record webhook_task =
  wt_endpoint :: webhook_endpoint
  wt_body :: string
  wt_pc :: task_pc

definition spawn_task :: "'w webhook_env \<Rightarrow> webhook_endpoint \<times> json \<Rightarrow> webhook_task" where
  "spawn_task env = (\<lambda>(ep, payload). \<lparr> wt_endpoint = ep, wt_body = unwrap_or '''' (wv_json env payload), wt_pc = Posting 0 \<rparr>)"

text \<open>A task runs between two awaits: one post, or one sleep.\<close>

definition task_step :: "'w webhook_env \<Rightarrow> 64 word \<Rightarrow> webhook_task \<Rightarrow> 'w \<Rightarrow> webhook_task \<times> 'w" where
  "task_step env timeout t w =
     (case wt_pc t of
        Posting a \<Rightarrow>
          (case deliver_once env timeout (wt_endpoint t) (wt_body t) w of
             (Inr _, w') \<Rightarrow> (t\<lparr> wt_pc := Finished (Some a) \<rparr>, w')
           | (Inl _, w') \<Rightarrow>
               (t\<lparr> wt_pc := (if a < unat (we_max_retries (wt_endpoint t)) then Sleeping (Suc a) else Finished None) \<rparr>, w'))
      | Sleeping a \<Rightarrow> (t\<lparr> wt_pc := Posting a \<rparr>, wv_sleep env (retry_delay a) w)
      | Finished r \<Rightarrow> (t, w))"

definition task_done :: "webhook_task \<Rightarrow> bool" where
  "task_done t = (case wt_pc t of Finished _ \<Rightarrow> True | _ \<Rightarrow> False)"

inductive tasks_step :: "'w webhook_env \<Rightarrow> 64 word \<Rightarrow> webhook_task list \<times> 'w \<Rightarrow> webhook_task list \<times> 'w \<Rightarrow> bool"
  for env :: "'w webhook_env" and timeout :: "64 word" where
  tasks_stepI: "i < length ts \<Longrightarrow> \<not> task_done (ts ! i) \<Longrightarrow> task_step env timeout (ts ! i) w = (t', w')
    \<Longrightarrow> tasks_step env timeout (ts, w) (ts[i := t'], w')"

inductive_cases tasks_stepE: "tasks_step env timeout (ts, w) (ts', w')"

section \<open>Chat messages\<close>

definition event_emoji :: "webhook_event \<Rightarrow> string" where
  "event_emoji event =
     (case event of
        VmStarted \<Rightarrow> [CHR 0xE2, CHR 0x96, CHR 0xB6, CHR 0xEF, CHR 0xB8, CHR 0x8F]
      | VmStopped \<Rightarrow> [CHR 0xE2, CHR 0x8F, CHR 0xB9, CHR 0xEF, CHR 0xB8, CHR 0x8F]
      | VmRebooted \<Rightarrow> [CHR 0xF0, CHR 0x9F, CHR 0x94, CHR 0x84]
      | VmDeleted \<Rightarrow> [CHR 0xF0, CHR 0x9F, CHR 0x97, CHR 0x91, CHR 0xEF, CHR 0xB8, CHR 0x8F]
      | MigrationStarted \<Rightarrow> [CHR 0xF0, CHR 0x9F, CHR 0x93, CHR 0xA6]
      | AuditLogged \<Rightarrow> [CHR 0xF0, CHR 0x9F, CHR 0x93, CHR 0x9D]
      | UserLogin \<Rightarrow> [CHR 0xF0, CHR 0x9F, CHR 0x94, CHR 0x91]
      | UserLogout \<Rightarrow> [CHR 0xF0, CHR 0x9F, CHR 0x9A, CHR 0xAA])"

fun event_color :: "webhook_event \<Rightarrow> nat" where
  "event_color VmStarted = 0x00ff00"
| "event_color VmStopped = 0xff0000"
| "event_color VmRebooted = 0xffaa00"
| "event_color VmDeleted = 0xcc0000"
| "event_color MigrationStarted = 0x0088ff"
| "event_color AuditLogged = 0x888888"
| "event_color UserLogin = 0x00cc88"
| "event_color UserLogout = 0x888888"

text \<open>\<open>text_of\<close> is the compact JSON text of a value.\<close>

fun field_text :: "(json \<Rightarrow> string) \<Rightarrow> json \<Rightarrow> string" where
  "field_text text_of (JStr s) = s"
| "field_text text_of (JNum n) = show_nat n"
| "field_text text_of (JNumber t) = t"
| "field_text text_of (JBool b) = (if b then ''true'' else ''false'')"
| "field_text text_of v = text_of v"

definition extract_fields :: "(json \<Rightarrow> string) \<Rightarrow> json \<Rightarrow> json list" where
  "extract_fields text_of data =
     (case data of
        JObj members \<Rightarrow>
          map (\<lambda>(key, v). JObj [(''name'', JStr key), (''value'', JStr (field_text text_of v)), (''inline'', JBool True)])
            (take 8 members)
      | _ \<Rightarrow> [])"

definition event_title :: "webhook_event \<Rightarrow> string \<Rightarrow> string" where
  "event_title event cluster = event_emoji event @ '' '' @ event_as_str event @ '' event on '' @ cluster"

definition format_event_to_slack :: "(json \<Rightarrow> string) \<Rightarrow> string \<Rightarrow> webhook_event \<Rightarrow> string \<Rightarrow> json \<Rightarrow> json" where
  "format_event_to_slack text_of timestamp event cluster data =
     JObj [(''blocks'', JArr [
       JObj [(''type'', JStr ''header''),
             (''text'', JObj [(''type'', JStr ''plain_text''), (''text'', JStr (event_title event cluster)), (''emoji'', JBool True)])],
       JObj [(''type'', JStr ''section''), (''fields'', JArr (extract_fields text_of data))],
       JObj [(''type'', JStr ''context''), (''elements'', JArr [
         JObj [(''type'', JStr ''mrkdwn''),
               (''text'', JStr (''Cluster: '' @ cluster @ '' | Timestamp: '' @ timestamp))]])]])]"

text \<open>The two calls of the clock are two arguments.\<close>

definition format_event_to_discord :: "(json \<Rightarrow> string) \<Rightarrow> string \<Rightarrow> string \<Rightarrow> webhook_event \<Rightarrow> string \<Rightarrow> json \<Rightarrow> json" where
  "format_event_to_discord text_of t1 t2 event cluster data =
     JObj [(''embeds'', JArr [
       JObj [(''title'', JStr (event_title event cluster)),
             (''description'', JStr (''Event: **'' @ event_as_str event @ ''**'' @ [CHR 0x0A] @ ''Cluster: **'' @ cluster @ ''**''
                @ [CHR 0x0A] @ ''Timestamp: '' @ t1)),
             (''color'', JNum (event_color event)),
             (''fields'', JArr (extract_fields text_of data)),
             (''timestamp'', JStr t2)]])]"

section \<open>Lemmas\<close>

lemma event_of_as_str [simp]: "event_of_name (event_as_str e) = Some e"
  by (cases e) (simp_all add: event_of_name_def)

lemma event_of_name_Some: "event_of_name n = Some e \<longleftrightarrow> n = event_as_str e"
proof
  show "n = event_as_str e" if "event_of_name n = Some e"
    using that by (auto simp: event_of_name_def split: if_splits)
qed simp

lemma known_events: "set (List.map_filter event_of_name ns) = {e. event_as_str e \<in> set ns}"
proof -
  have "set (List.map_filter f ns) = {y. \<exists>x\<in>set ns. f x = Some y}" for f :: "string \<Rightarrow> webhook_event option"
    by (force simp: List.map_filter_def)
  then show ?thesis by (auto simp: event_of_name_Some)
qed

lemma no_known_events: "List.map_filter event_of_name ns = [] \<longleftrightarrow> (\<forall>n\<in>set ns. event_of_name n = None)"
  by (auto simp: List.map_filter_def filter_empty_conv)

lemma subscribed_from_config: "subscribed ev (endpoint_from_config cfg ep) \<longleftrightarrow>
    event_as_str ev \<in> set (ec_events ep) \<or> (\<forall>n\<in>set (ec_events ep). event_of_name n = None)"
  by (auto simp: subscribed_def endpoint_from_config_def known_events no_known_events)

lemma all_from_Suc: "(\<forall>i. k \<le> i \<and> i < j \<longrightarrow> Q i) \<longleftrightarrow> (k < j \<longrightarrow> Q k) \<and> (\<forall>i. Suc k \<le> i \<and> i < j \<longrightarrow> Q i)"
  for k j :: nat
  by (metis Suc_leD Suc_leI order_le_less)

text \<open>The world in which attempt \<open>k\<close> posts when the earlier ones failed.\<close>

fun attempt_world :: "'w webhook_env \<Rightarrow> 64 word \<Rightarrow> webhook_endpoint \<Rightarrow> string \<Rightarrow> 'w \<Rightarrow> nat \<Rightarrow> 'w" where
  "attempt_world env timeout ep body w 0 = w"
| "attempt_world env timeout ep body w (Suc k) =
     wv_sleep env (retry_delay (Suc k)) (snd (deliver_once env timeout ep body (attempt_world env timeout ep body w k)))"

definition attempt_ok :: "'w webhook_env \<Rightarrow> 64 word \<Rightarrow> webhook_endpoint \<Rightarrow> string \<Rightarrow> 'w \<Rightarrow> nat \<Rightarrow> bool" where
  "attempt_ok env timeout ep body w k = is_ok (fst (deliver_once env timeout ep body (attempt_world env timeout ep body w k)))"

lemma attempts_from:
  assumes "w' = (if k = 0 then w else snd (deliver_once env timeout ep body (attempt_world env timeout ep body w (k - 1))))"
  shows "(fst (delivery_attempts env timeout ep body [k..<m] w') = Some j \<longleftrightarrow>
      k \<le> j \<and> j < m \<and> attempt_ok env timeout ep body w j \<and> (\<forall>i. k \<le> i \<and> i < j \<longrightarrow> \<not> attempt_ok env timeout ep body w i))"
  using assms
proof (induction "m - k" arbitrary: k w')
  case 0
  then show ?case by auto
next
  case (Suc n)
  define w1 where "w1 = (if k > 0 then wv_sleep env (retry_delay k) w' else w')"
  have w1: "w1 = attempt_world env timeout ep body w k" using Suc.prems by (cases k) (auto simp: w1_def)
  obtain r w2 where d: "deliver_once env timeout ep body w1 = (r, w2)" by fastforce
  have upt: "[k..<m] = k # [Suc k..<m]" using Suc.hyps(2) by (simp add: upt_rec)
  have okk: "attempt_ok env timeout ep body w k \<longleftrightarrow> is_ok r" using d by (simp add: attempt_ok_def w1[symmetric])
  show ?case
  proof (cases r)
    case (Inr u)
    then have "fst (delivery_attempts env timeout ep body [k..<m] w') = Some k"
      using d by (simp add: upt w1_def[symmetric])
    moreover have "attempt_ok env timeout ep body w k" using okk Inr by simp
    ultimately show ?thesis using Suc.hyps(2) by (auto simp: le_eq_less_or_eq)
  next
    case (Inl e)
    have run: "delivery_attempts env timeout ep body [k..<m] w' = delivery_attempts env timeout ep body [Suc k..<m] w2"
      using d Inl by (simp add: upt w1_def[symmetric])
    have "w2 = snd (deliver_once env timeout ep body (attempt_world env timeout ep body w k))"
      using d by (simp add: w1[symmetric])
    then have IH: "fst (delivery_attempts env timeout ep body [Suc k..<m] w2) = Some j \<longleftrightarrow>
      Suc k \<le> j \<and> j < m \<and> attempt_ok env timeout ep body w j \<and> (\<forall>i. Suc k \<le> i \<and> i < j \<longrightarrow> \<not> attempt_ok env timeout ep body w i)"
      using Suc.hyps(2) by (intro Suc.hyps(1)) simp_all
    have "\<not> attempt_ok env timeout ep body w k" using okk Inl by simp
    then show ?thesis unfolding run IH using all_from_Suc[of k j "\<lambda>i. \<not> attempt_ok env timeout ep body w i"]
      by (metis Suc_leD Suc_leI order_le_less)
  qed
qed

text \<open>Tasks: every step of a task shrinks what it has left.\<close>

definition task_left :: "webhook_task \<Rightarrow> nat" where
  "task_left t = (case wt_pc t of
      Posting a \<Rightarrow> Suc (2 * (unat (we_max_retries (wt_endpoint t)) - a))
    | Sleeping a \<Rightarrow> 2 * (unat (we_max_retries (wt_endpoint t)) + 1 - a)
    | Finished _ \<Rightarrow> 0)"

definition pc_ok :: "webhook_task \<Rightarrow> bool" where
  "pc_ok t = (case wt_pc t of
      Posting a \<Rightarrow> a \<le> unat (we_max_retries (wt_endpoint t))
    | Sleeping a \<Rightarrow> 0 < a \<and> a \<le> unat (we_max_retries (wt_endpoint t))
    | Finished (Some a) \<Rightarrow> a \<le> unat (we_max_retries (wt_endpoint t))
    | Finished None \<Rightarrow> True)"

lemma task_step_progress:
  assumes "task_step env timeout t w = (t', w')" "pc_ok t"
  shows "pc_ok t'" "\<not> task_done t \<Longrightarrow> task_left t' < task_left t"
  using assms by (auto simp: task_step_def task_done_def pc_ok_def task_left_def split: task_pc.splits prod.splits sum.splits if_splits)

lemma tasks_step_left:
  assumes "tasks_step env timeout (ts, w) (ts', w')" "list_all pc_ok ts"
  shows "list_all pc_ok ts' \<and> sum_list (map task_left ts') < sum_list (map task_left ts)"
proof -
  from assms(1) obtain i t' where i: "i < length ts" "\<not> task_done (ts ! i)"
    and st: "task_step env timeout (ts ! i) w = (t', w')" and ts': "ts' = ts[i := t']" by (rule tasks_stepE)
  have ok: "pc_ok (ts ! i)" using assms(2) i(1) by (simp add: list_all_length)
  from task_step_progress[OF st ok] i(2) have t': "pc_ok t'" "task_left t' < task_left (ts ! i)" by auto
  have "task_left (ts ! i) \<le> sum_list (map task_left ts)" using i(1) elem_le_sum_list[of i "map task_left ts"] by simp
  then have "sum_list (map task_left ts') < sum_list (map task_left ts)"
    using i(1) t'(2) by (simp add: ts' map_update sum_list_update)
  moreover have "list_all pc_ok ts'" using assms(2) t'(1) i(1) by (auto simp: ts' list_all_length nth_list_update)
  ultimately show ?thesis by blast
qed

lemma tasks_run_left:
  "((tasks_step env timeout) ^^ n) s s' \<Longrightarrow> list_all pc_ok (fst s)
    \<Longrightarrow> list_all pc_ok (fst s') \<and> n + sum_list (map task_left (fst s')) \<le> sum_list (map task_left (fst s))"
proof (induction n arbitrary: s')
  case (Suc n)
  then obtain s1 where r: "((tasks_step env timeout) ^^ n) s s1" and st: "tasks_step env timeout s1 s'" by auto
  obtain ts1 w1 ts' w' where s: "s1 = (ts1, w1)" "s' = (ts', w')" by (metis surj_pair)
  from Suc.IH[OF r Suc.prems(2)] have IH: "list_all pc_ok ts1"
    "n + sum_list (map task_left ts1) \<le> sum_list (map task_left (fst s))" by (simp_all add: s)
  from tasks_step_left[OF st[unfolded s] IH(1)] IH(2) show ?case by (simp add: s)
qed simp

lemma task_can_step: "(\<nexists>s. tasks_step env timeout (ts, w) s) \<longleftrightarrow> list_all task_done ts"
proof
  show "list_all task_done ts" if "\<nexists>s. tasks_step env timeout (ts, w) s"
  proof (rule ccontr)
    assume "\<not> list_all task_done ts"
    then obtain i where "i < length ts" "\<not> task_done (ts ! i)" by (auto simp: list_all_length)
    then have "tasks_step env timeout (ts, w) (ts[i := fst (task_step env timeout (ts ! i) w)], snd (task_step env timeout (ts ! i) w))"
      by (intro tasks_stepI) auto
    then show False using that by blast
  qed
next
  show "\<nexists>s. tasks_step env timeout (ts, w) s" if "list_all task_done ts"
    using that by (auto elim!: tasks_step.cases simp: list_all_length)
qed

lemma spawned_ok: "pc_ok (spawn_task env job)" "task_left (spawn_task env job) = Suc (2 * unat (we_max_retries (fst job)))"
  by (auto simp: spawn_task_def pc_ok_def task_left_def split: prod.split)

text \<open>A task running alone computes what the loop does.\<close>

lemma attempts_Suc: "Suc k \<le> m \<Longrightarrow> delivery_attempts env timeout ep body [Suc k..<Suc m] w =
    (case deliver_once env timeout ep body (wv_sleep env (retry_delay (Suc k)) w) of
       (Inr _, w') \<Rightarrow> (Some (Suc k), w')
     | (Inl _, w') \<Rightarrow> delivery_attempts env timeout ep body [Suc (Suc k)..<Suc m] w')"
  by (simp add: upt_conv_Cons del: upt_Suc split: prod.split sum.split)

lemma steps_loop:
  "k \<le> unat (we_max_retries (wt_endpoint t)) \<Longrightarrow> wt_pc t = Posting k \<Longrightarrow>
    \<exists>n. n \<le> task_left t \<and> ((\<lambda>(t, w). task_step env timeout t w) ^^ n) (t, w)
      = (let (r, w') = (case deliver_once env timeout (wt_endpoint t) (wt_body t) w of
           (Inr _, w2) \<Rightarrow> (Some k, w2)
         | (Inl _, w2) \<Rightarrow> delivery_attempts env timeout (wt_endpoint t) (wt_body t)
              [Suc k..<Suc (unat (we_max_retries (wt_endpoint t)))] w2)
         in (t\<lparr> wt_pc := Finished r \<rparr>, w'))"
proof (induction "unat (we_max_retries (wt_endpoint t)) - k" arbitrary: k t w)
  case 0
  obtain r w2 where d: "deliver_once env timeout (wt_endpoint t) (wt_body t) w = (r, w2)" by (rule prod.exhaust)
  have "1 \<le> task_left t" using 0 by (simp add: task_left_def)
  moreover have "((\<lambda>(t, w). task_step env timeout t w) ^^ 1) (t, w) = (t\<lparr> wt_pc := Finished (if is_ok r then Some k else None) \<rparr>, w2)"
    using 0 d by (auto simp: task_step_def split: sum.split)
  ultimately show ?case using 0 d by (intro exI[of _ 1]) (auto split: sum.split)
next
  case (Suc m)
  obtain r w2 where d: "deliver_once env timeout (wt_endpoint t) (wt_body t) w = (r, w2)" by (rule prod.exhaust)
  show ?case
  proof (cases r)
    case (Inr u)
    then show ?thesis using Suc.prems d by (intro exI[of _ 1]) (auto simp: task_step_def task_left_def)
  next
    case (Inl e)
    define w3 where "w3 = wv_sleep env (retry_delay (Suc k)) w2"
    define t2 where "t2 = t\<lparr> wt_pc := Posting (Suc k) \<rparr>"
    have lt: "k < unat (we_max_retries (wt_endpoint t))" using Suc.hyps(2) by simp
    have two: "((\<lambda>(t, w). task_step env timeout t w) ^^ 2) (t, w) = (t2, w3)"
      using Suc.prems d Inl lt by (simp add: numeral_2_eq_2 task_step_def t2_def w3_def)
    have t2s: "wt_endpoint t2 = wt_endpoint t" "wt_body t2 = wt_body t" by (simp_all add: t2_def)
    have eq: "(case deliver_once env timeout (wt_endpoint t2) (wt_body t2) w3 of
           (Inr _, w2) \<Rightarrow> (Some (Suc k), w2)
         | (Inl _, w2) \<Rightarrow> delivery_attempts env timeout (wt_endpoint t2) (wt_body t2)
              [Suc (Suc k)..<Suc (unat (we_max_retries (wt_endpoint t2)))] w2)
        = delivery_attempts env timeout (wt_endpoint t) (wt_body t) [Suc k..<Suc (unat (we_max_retries (wt_endpoint t)))] w2"
      using lt unfolding t2s w3_def by (simp add: attempts_Suc del: upt_Suc)
    have "\<exists>n\<le>task_left t2. ((\<lambda>(t, w). task_step env timeout t w) ^^ n) (t2, w3)
      = (let (r, w') = (case deliver_once env timeout (wt_endpoint t2) (wt_body t2) w3 of
           (Inr _, w2) \<Rightarrow> (Some (Suc k), w2)
         | (Inl _, w2) \<Rightarrow> delivery_attempts env timeout (wt_endpoint t2) (wt_body t2)
              [Suc (Suc k)..<Suc (unat (we_max_retries (wt_endpoint t2)))] w2)
         in (t2\<lparr> wt_pc := Finished r \<rparr>, w'))"
      using Suc.hyps(2) lt by (intro Suc.hyps(1)) (simp_all add: t2_def)
    then obtain n where n: "n \<le> task_left t2" "((\<lambda>(t, w). task_step env timeout t w) ^^ n) (t2, w3)
      = (let (r, w') = delivery_attempts env timeout (wt_endpoint t) (wt_body t)
              [Suc k..<Suc (unat (we_max_retries (wt_endpoint t)))] w2
         in (t\<lparr> wt_pc := Finished r \<rparr>, w'))"
      unfolding eq by (auto simp: t2_def simp del: upt_Suc)
    have "((\<lambda>(t, w). task_step env timeout t w) ^^ (n + 2)) (t, w) = ((\<lambda>(t, w). task_step env timeout t w) ^^ n) (t2, w3)"
      by (simp only: funpow_add comp_apply two)
    moreover have "n + 2 \<le> task_left t" using n(1) lt Suc.prems by (simp add: t2_def task_left_def)
    ultimately show ?thesis using n(2) d Inl by (intro exI[of _ "n + 2"]) (simp del: upt_Suc)
  qed
qed

section \<open>Properties\<close>

text \<open>An event is sent to exactly the endpoints, in the order of the configuration, whose list of event
  names has the event's name in it or has no known name at all: an endpoint that lists only unknown
  names (a misspelt one, say) receives every event, like one with an empty list.\<close>

theorem webhook_recipients:
  assumes "webhook_from_config cfg = Some svc"
  shows "dispatch_event svc event timestamp cluster data =
      map (\<lambda>c. (endpoint_from_config cfg c, event_payload event timestamp cluster data))
        (filter (\<lambda>c. event_as_str event \<in> set (ec_events c) \<or> (\<forall>n\<in>set (ec_events c). event_of_name n = None))
          (wc_endpoints cfg))"
proof -
  have svc: "ws_enabled svc" "ws_endpoints svc = map (endpoint_from_config cfg) (wc_endpoints cfg)"
    using assms by (auto simp: webhook_from_config_def split: if_splits)
  show ?thesis by (simp add: dispatch_event_def svc filter_map comp_def subscribed_from_config)
qed

definition demo_hook :: "string list \<Rightarrow> webhook_config" where
  "demo_hook events = \<lparr> wc_enabled = True, wc_retry_count = 2, wc_timeout_secs = 10, wc_endpoints =
     [\<lparr> ec_name = ''ops'', ec_url = ''https://h/'', ec_events = events, ec_secret = None, ec_max_retries = None \<rparr>] \<rparr>"

theorem webhook_recipients_witness:
  "\<exists>svc. webhook_from_config (demo_hook [''VmStartd'']) = Some svc
     \<and> map (we_name \<circ> fst) (dispatch_event svc UserLogin ''t'' ''c1'' JNull) = [''ops'']"
proof -
  obtain svc where svc: "webhook_from_config (demo_hook [''VmStartd'']) = Some svc"
    by (simp add: webhook_from_config_def demo_hook_def)
  have name: "we_name (endpoint_from_config cfg c) = ec_name c" for cfg c by (simp add: endpoint_from_config_def)
  have "event_of_name ''VmStartd'' = None" by (simp add: event_of_name_def)
  then have all: "filter (\<lambda>c. event_as_str UserLogin \<in> set (ec_events c) \<or> (\<forall>n\<in>set (ec_events c). event_of_name n = None))
      (wc_endpoints (demo_hook [''VmStartd''])) = wc_endpoints (demo_hook [''VmStartd''])"
    by (simp add: demo_hook_def)
  have "map (we_name \<circ> fst) (dispatch_event svc UserLogin ''t'' ''c1'' JNull) = [''ops'']"
    unfolding webhook_recipients[OF svc] all map_map comp_def fst_conv name by (simp add: demo_hook_def)
  with svc show ?thesis by (intro exI conjI)
qed

text \<open>The delivery loop posts until the first success and at most \<open>max_retries + 1\<close> times, sleeping
  \<open>retry_delay k\<close> before attempt \<open>k\<close>: it reports attempt \<open>k\<close> exactly when that is the first to succeed and
  within the bound, and gives up exactly when all of them fail.\<close>

theorem webhook_delivery_exact:
  "(fst (deliver_with_retry env ep payload timeout max_retries w) = Some k \<longleftrightarrow>
      k \<le> unat max_retries \<and> attempt_ok env timeout ep (unwrap_or '''' (wv_json env payload)) w k
      \<and> (\<forall>i<k. \<not> attempt_ok env timeout ep (unwrap_or '''' (wv_json env payload)) w i))
   \<and> (fst (deliver_with_retry env ep payload timeout max_retries w) = None \<longleftrightarrow>
      (\<forall>i\<le>unat max_retries. \<not> attempt_ok env timeout ep (unwrap_or '''' (wv_json env payload)) w i))"
proof -
  define ok where "ok = attempt_ok env timeout ep (unwrap_or '''' (wv_json env payload)) w"
  define r where "r = fst (deliver_with_retry env ep payload timeout max_retries w)"
  have some: "r = Some j \<longleftrightarrow> j \<le> unat max_retries \<and> ok j \<and> (\<forall>i<j. \<not> ok i)" for j
    using attempts_from[of w 0 w env timeout ep "unwrap_or '''' (wv_json env payload)" "Suc (unat max_retries)" j]
    by (simp add: r_def ok_def deliver_with_retry_def less_Suc_eq_le del: upt_Suc)
  have "r = None \<longleftrightarrow> (\<forall>i\<le>unat max_retries. \<not> ok i)"
  proof
    show "\<forall>i\<le>unat max_retries. \<not> ok i" if none: "r = None"
    proof (rule ccontr)
      assume "\<not> (\<forall>i\<le>unat max_retries. \<not> ok i)"
      then obtain i where i: "i \<le> unat max_retries" "ok i" by blast
      define j where "j = (LEAST j. ok j)"
      have "ok j" "j \<le> i" "\<forall>i<j. \<not> ok i" using i(2) by (auto simp: j_def intro: LeastI Least_le dest: not_less_Least)
      then have "r = Some j" using some i(1) by auto
      with none show False by simp
    qed
  next
    show "r = None" if fail: "\<forall>i\<le>unat max_retries. \<not> ok i"
      using fail some by (cases r) auto
  qed
  with some show ?thesis by (simp add: r_def ok_def)
qed

text \<open>A world that counts the posts it has answered and refuses the first ones.\<close>

definition demo_hook_env :: "nat \<Rightarrow> nat webhook_env" where
  "demo_hook_env failing = \<lparr> wv_json = (\<lambda>_. Inr ''{}''), wv_hmac = (\<lambda>_ _. Inr [1]), wv_hex = (\<lambda>_. ''01''),
     wv_build = (\<lambda>_. Inr ()), wv_send = (\<lambda>_ _ n. (Inr (if n < failing then 503 else 200, Inr ''''), n + 1)),
     wv_status_text = show_nat, wv_sleep = (\<lambda>_ n. n) \<rparr>"

definition demo_endpoint :: webhook_endpoint where
  "demo_endpoint = \<lparr> we_name = ''ops'', we_url = ''https://h/'', we_events = [], we_secret = Some ''s'', we_max_retries = 2 \<rparr>"

theorem webhook_delivery_exact_witness:
  "fst (deliver_with_retry (demo_hook_env 2) demo_endpoint JNull 10 2 0) = Some 2"
proof -
  have w: "attempt_world (demo_hook_env 2) 10 demo_endpoint b 0 (Suc 0) = 1"
    "attempt_world (demo_hook_env 2) 10 demo_endpoint b 0 (Suc (Suc 0)) = 2" for b
    by (simp_all add: deliver_once_def demo_hook_env_def)
  have ok: "attempt_ok (demo_hook_env 2) 10 demo_endpoint b 0 (Suc (Suc 0))"
    "\<not> attempt_ok (demo_hook_env 2) 10 demo_endpoint b 0 0" "\<not> attempt_ok (demo_hook_env 2) 10 demo_endpoint b 0 (Suc 0)" for b
    by (simp_all add: attempt_ok_def w del: attempt_world.simps(2)) (simp_all add: deliver_once_def demo_hook_env_def)
  have "unat (2 :: 32 word) = Suc (Suc 0)" by simp
  moreover have "\<forall>i<Suc (Suc 0). \<not> attempt_ok (demo_hook_env 2) 10 demo_endpoint b 0 i" for b
    using ok by (auto simp: less_Suc_eq)
  ultimately show ?thesis
    using webhook_delivery_exact[of "demo_hook_env 2" demo_endpoint JNull 10 2 0 "Suc (Suc 0)", THEN conjunct1] ok(1)
    by (metis order_refl numeral_2_eq_2)
qed

text \<open>C34. The detached tasks of any dispatched events, interleaved in any order: a run has at most
  \<open>2 * max_retries + 1\<close> steps for each of them, whatever the endpoints answer, and it can always be
  continued until every task has finished.\<close>

theorem webhook_tasks_terminate:
  assumes "((tasks_step env timeout) ^^ n) (map (spawn_task env) jobs, w) (ts, w')"
  shows "n \<le> (\<Sum>job\<leftarrow>jobs. Suc (2 * unat (we_max_retries (fst job))))
    \<and> ((\<nexists>s. tasks_step env timeout (ts, w') s) \<longleftrightarrow> list_all task_done ts)"
proof -
  have "list_all pc_ok (fst (map (spawn_task env) jobs, w))" by (simp add: list_all_iff spawned_ok)
  from tasks_run_left[OF assms this] have "n \<le> sum_list (map task_left (map (spawn_task env) jobs))" by simp
  also have "\<dots> = (\<Sum>job\<leftarrow>jobs. Suc (2 * unat (we_max_retries (fst job))))" by (simp add: comp_def spawned_ok)
  finally show ?thesis using task_can_step[of env timeout ts w'] by blast
qed

theorem webhook_tasks_terminate_witness:
  "\<exists>ts w. ((tasks_step (demo_hook_env 0) 10) ^^ 1) (map (spawn_task (demo_hook_env 0)) [(demo_endpoint, JNull)], 0) (ts, w)
     \<and> 1 \<le> (\<Sum>job\<leftarrow>[(demo_endpoint, JNull)]. Suc (2 * unat (we_max_retries (fst job))))"
proof -
  define t where "t = spawn_task (demo_hook_env 0) (demo_endpoint, JNull)"
  have "\<not> task_done t" by (simp add: t_def spawn_task_def task_done_def)
  then have "tasks_step (demo_hook_env 0) 10 ([t], 0) ([t][0 := fst (task_step (demo_hook_env 0) 10 t 0)], snd (task_step (demo_hook_env 0) 10 t 0))"
    by (intro tasks_stepI) auto
  then have "((tasks_step (demo_hook_env 0) 10) ^^ 1) (map (spawn_task (demo_hook_env 0)) [(demo_endpoint, JNull)], 0)
      ([t][0 := fst (task_step (demo_hook_env 0) 10 t 0)], snd (task_step (demo_hook_env 0) 10 t 0))"
    by (simp add: t_def eq_OO)
  with webhook_tasks_terminate[OF this] show ?thesis by blast
qed

text \<open>A detached task left alone computes the loop: within \<open>2 * max_retries + 1\<close> steps it finishes with the
  outcome, and in the world, of \<open>deliver_with_retry\<close>.\<close>

theorem webhook_task_refines_loop:
  "\<exists>n\<le>Suc (2 * unat (we_max_retries ep)).
     ((\<lambda>(t, w). task_step env timeout t w) ^^ n) (spawn_task env (ep, payload), w)
     = (let (r, w') = deliver_with_retry env ep payload timeout (we_max_retries ep) w
        in (\<lparr> wt_endpoint = ep, wt_body = unwrap_or '''' (wv_json env payload), wt_pc = Finished r \<rparr>, w'))"
proof -
  define t where "t = spawn_task env (ep, payload)"
  have t: "wt_pc t = Posting 0" "wt_endpoint t = ep" "wt_body t = unwrap_or '''' (wv_json env payload)"
    "task_left t = Suc (2 * unat (we_max_retries ep))" "wt_pc_update (\<lambda>_. Finished r) t =
      \<lparr> wt_endpoint = ep, wt_body = unwrap_or '''' (wv_json env payload), wt_pc = Finished r \<rparr>" for r
    by (simp_all add: t_def spawn_task_def task_left_def)
  have loop: "deliver_with_retry env ep payload timeout (we_max_retries ep) w =
      (case deliver_once env timeout ep (unwrap_or '''' (wv_json env payload)) w of
         (Inr _, w2) \<Rightarrow> (Some 0, w2)
       | (Inl _, w2) \<Rightarrow> delivery_attempts env timeout ep (unwrap_or '''' (wv_json env payload)) [Suc 0..<Suc (unat (we_max_retries ep))] w2)"
    by (simp add: deliver_with_retry_def upt_conv_Cons del: upt_Suc)
  from steps_loop[OF _ t(1), of env timeout w, unfolded t(2-5)] show ?thesis
    by (simp add: loop t_def[symmetric] del: upt_Suc)
qed

text \<open>C35. An endpoint that recovers is served: if from some moment on (a set of worlds \<open>G\<close> no task can leave)
  posting to the endpoint of an unfinished task succeeds, then in every run that ends, whatever the other tasks
  do, that task ends delivered. Together with termination, every such notification arrives.\<close>

theorem webhook_recovery_delivers:
  assumes stable: "\<And>s s'. G (snd s) \<Longrightarrow> tasks_step env timeout s s' \<Longrightarrow> G (snd s')"
    and accepts: "\<And>w. G w \<Longrightarrow> is_ok (fst (deliver_once env timeout (wt_endpoint (ts ! i)) (wt_body (ts ! i)) w))"
    and run: "(tasks_step env timeout)\<^sup>*\<^sup>* (ts, w) (ts', w')" "G w"
    and task: "i < length ts" "\<not> task_done (ts ! i)" "list_all task_done ts'"
  shows "\<exists>a. wt_pc (ts' ! i) = Finished (Some a)"
proof -
  define ep body where "ep = wt_endpoint (ts ! i)" and "body = wt_body (ts ! i)"
  have inv: "G w' \<and> length ts' = length ts \<and> wt_endpoint (ts' ! i) = ep \<and> wt_body (ts' ! i) = body \<and> wt_pc (ts' ! i) \<noteq> Finished None"
    using run(1)
  proof (induction "(ts', w')" arbitrary: ts' w' rule: rtranclp_induct)
    case base
    then show ?case using run(2) task(2) by (auto simp: ep_def body_def task_done_def)
  next
    case (step s)
    obtain ts1 w1 where s: "s = (ts1, w1)" by (rule prod.exhaust)
    from step.hyps(3)[OF s] have IH: "G w1" "length ts1 = length ts" "wt_endpoint (ts1 ! i) = ep" "wt_body (ts1 ! i) = body"
      "wt_pc (ts1 ! i) \<noteq> Finished None" by auto
    from step.hyps(2)[unfolded s] obtain j t' where j: "j < length ts1" "\<not> task_done (ts1 ! j)"
      "task_step env timeout (ts1 ! j) w1 = (t', w')" "ts' = ts1[j := t']" by (rule tasks_stepE)
    have "wt_endpoint t' = ep \<and> wt_body t' = body \<and> wt_pc t' \<noteq> Finished None" if "j = i"
      using j(2,3) IH accepts[OF IH(1)] that
      by (auto simp: task_step_def task_done_def ep_def body_def split: task_pc.splits prod.splits sum.splits)
    moreover have "G w'" using stable[of s "(ts', w')"] step.hyps(2) IH(1) s by simp
    ultimately show ?case using IH j(1,4) by (cases "j = i") auto
  qed
  then have "task_done (ts' ! i)" using task(1,3) by (simp add: list_all_length)
  then obtain r where "wt_pc (ts' ! i) = Finished r" by (auto simp: task_done_def split: task_pc.splits)
  with inv show ?thesis by (cases r) auto
qed

theorem webhook_recovery_delivers_witness:
  "\<exists>ts' w'. (tasks_step (demo_hook_env 0) 10)\<^sup>*\<^sup>* ([spawn_task (demo_hook_env 0) (demo_endpoint, JNull)], 0) (ts', w')
     \<and> (\<exists>a. wt_pc (ts' ! 0) = Finished (Some a))"
proof -
  define t where "t = spawn_task (demo_hook_env 0) (demo_endpoint, JNull)"
  obtain t' w' where st: "task_step (demo_hook_env 0) 10 t 0 = (t', w')" by (rule prod.exhaust)
  have ok: "is_ok (fst (deliver_once (demo_hook_env 0) 10 ep body n))" for ep body n
    by (simp add: deliver_once_def demo_hook_env_def)
  have nd: "\<not> task_done t" and pc: "wt_pc t = Posting 0" by (simp_all add: t_def spawn_task_def task_done_def)
  have "task_done t'" using st pc ok[of "wt_endpoint t" "wt_body t" 0]
    by (auto simp: task_step_def task_done_def split: prod.splits sum.splits)
  have "tasks_step (demo_hook_env 0) 10 ([t], 0) ([t][0 := t'], w')" by (rule tasks_stepI) (use st nd in auto)
  then have run: "(tasks_step (demo_hook_env 0) 10)\<^sup>*\<^sup>* ([t], 0) ([t'], w')" by simp
  from webhook_recovery_delivers[where G = "\<lambda>_. True" and i = 0, OF _ _ run] ok nd \<open>task_done t'\<close>
  have "\<exists>a. wt_pc ([t'] ! 0) = Finished (Some a)" by simp
  with run show ?thesis unfolding t_def by blast
qed

end
