(* ===== verification/Plugins.thy ===== *)
theory Plugins
  imports Webhook
begin

text \<open>
  The plugin registry and the two built-in plugins (\<open>src/plugin/mod.rs\<close>, \<open>src/plugin/audit_logger.rs\<close>,
  \<open>src/plugin/webhook_bridge.rs\<close>). All that the built-in hooks do is write to the log, so a dispatch returns
  the log records it makes; the atomic flag \<open>initialized\<close> is part of the plugin.
\<close>

section \<open>Events and plugins\<close>

record vm_action_event =
  va_cluster :: string
  va_node :: string
  va_vmid :: nat
  va_action :: string
  va_upid :: string
  va_user_id :: "string option"

datatype plugin = AuditLogger bool | WebhookBridge bool

datatype log_record =
    Starting string string
  | Initialized string
  | HookFailed string string string
  | ActionRecorded string vm_action_event
  | NoEventMapping string string
  | ActionBridged string webhook_event vm_action_event

fun plugin_name :: "plugin \<Rightarrow> string" where
  "plugin_name (AuditLogger _) = ''audit_logger''"
| "plugin_name (WebhookBridge _) = ''webhook_bridge''"

fun plugin_version :: "plugin \<Rightarrow> string" where
  "plugin_version (AuditLogger _) = ''0.1.0''"
| "plugin_version (WebhookBridge _) = ''0.1.0''"

fun plugin_initialized :: "plugin \<Rightarrow> bool" where
  "plugin_initialized (AuditLogger i) = i"
| "plugin_initialized (WebhookBridge i) = i"

definition action_to_webhook_event :: "string \<Rightarrow> webhook_event option" where
  "action_to_webhook_event action =
     (if action = ''start'' then Some VmStarted
      else if action = ''stop'' then Some VmStopped
      else if action = ''shutdown'' then Some VmStopped
      else if action = ''reboot'' then Some VmRebooted
      else if action = ''delete'' then Some VmDeleted
      else if action = ''migrate'' then Some MigrationStarted
      else None)"

text \<open>A hook returns its result, the plugin afterwards and the records it logs.\<close>

type_synonym 'p hook = "'p \<Rightarrow> (string, unit) result \<times> 'p \<times> log_record list"

fun on_startup :: "plugin hook" where
  "on_startup (AuditLogger _) = (Inr (), AuditLogger True, [Initialized ''audit_logger''])"
| "on_startup (WebhookBridge _) = (Inr (), WebhookBridge True, [Initialized ''webhook_bridge''])"

fun on_vm_action :: "vm_action_event \<Rightarrow> plugin hook" where
  "on_vm_action a (AuditLogger i) =
     (if \<not> i then (Inr (), AuditLogger i, [])
      else (Inr (), AuditLogger i, [ActionRecorded ''audit_logger'' a]))"
| "on_vm_action a (WebhookBridge i) =
     (if \<not> i then (Inr (), WebhookBridge i, [])
      else (case action_to_webhook_event (va_action a) of
              None \<Rightarrow> (Inr (), WebhookBridge i, [NoEventMapping ''webhook_bridge'' (va_action a)])
            | Some e \<Rightarrow> (Inr (), WebhookBridge i, [ActionBridged ''webhook_bridge'' e a])))"

text \<open>The audit logger overrides the hook for audit entries with a no-op, the bridge keeps the default.\<close>

fun on_audit_entry :: "'entry \<Rightarrow> plugin hook" where
  "on_audit_entry e (AuditLogger i) = (Inr (), AuditLogger i, [])"
| "on_audit_entry e (WebhookBridge i) = (Inr (), WebhookBridge i, [])"

section \<open>The registry\<close>

definition registry_new :: "'p list" where "registry_new = []"

definition register :: "'p \<Rightarrow> 'p list \<Rightarrow> 'p list" where "register p ps = ps @ [p]"

definition registry_len :: "'p list \<Rightarrow> nat" where "registry_len ps = length ps"

definition registry_is_empty :: "'p list \<Rightarrow> bool" where "registry_is_empty ps = (ps = [])"

definition registry_names :: "plugin list \<Rightarrow> string list" where "registry_names ps = map plugin_name ps"

text \<open>
  The three dispatch loops differ in the hook, the records written before it and the text of the
  warning: every plugin is called once, in registration order, and a failure is only logged.
\<close>

fun dispatch :: "('p \<Rightarrow> string) \<Rightarrow> ('p \<Rightarrow> log_record list) \<Rightarrow> string \<Rightarrow> 'p hook \<Rightarrow> 'p list \<Rightarrow> 'p list \<times> log_record list" where
  "dispatch name before which hook [] = ([], [])"
| "dispatch name before which hook (p # ps) =
     (let (r, p', log) = hook p;
          warning = (case r of Inl e \<Rightarrow> [HookFailed which (name p) e] | Inr _ \<Rightarrow> []);
          (ps', logs) = dispatch name before which hook ps
      in (p' # ps', before p @ log @ warning @ logs))"

definition dispatch_vm_action :: "vm_action_event \<Rightarrow> plugin list \<Rightarrow> plugin list \<times> log_record list" where
  "dispatch_vm_action a = dispatch plugin_name (\<lambda>_. []) ''on_vm_action'' (on_vm_action a)"

definition dispatch_audit_entry :: "'entry \<Rightarrow> plugin list \<Rightarrow> plugin list \<times> log_record list" where
  "dispatch_audit_entry e = dispatch plugin_name (\<lambda>_. []) ''on_audit_entry'' (on_audit_entry e)"

definition dispatch_startup :: "plugin list \<Rightarrow> plugin list \<times> log_record list" where
  "dispatch_startup = dispatch plugin_name (\<lambda>p. [Starting (plugin_name p) (plugin_version p)]) ''on_startup'' on_startup"

definition new_plugin :: "string \<Rightarrow> plugin option" where
  "new_plugin name =
     (if name = ''audit_logger'' then Some (AuditLogger False)
      else if name = ''webhook_bridge'' then Some (WebhookBridge False)
      else None)"

definition build_plugin_registry :: "string list \<Rightarrow> plugin list" where
  "build_plugin_registry enabled =
     fold (\<lambda>name ps. case new_plugin name of Some p \<Rightarrow> register p ps | None \<Rightarrow> ps) enabled registry_new"

section \<open>The contract of a hook\<close>

text \<open>What dispatching relies on: a hook returns the plugin under the name it had.\<close>

locale plugin_hook =
  fixes name :: "'p \<Rightarrow> string" and hook :: "'p hook"
  assumes name_kept: "name (fst (snd (hook p))) = name p"
begin

lemma dispatch_all: "fst (dispatch name before which hook ps) = map (\<lambda>p. fst (snd (hook p))) ps"
  by (induction ps) (auto split: prod.split)

lemma names_kept: "map name (fst (dispatch name before which hook ps)) = map name ps"
  by (simp add: dispatch_all name_kept)

lemma dispatch_append:
  "snd (dispatch name before which hook (ps @ qs)) = snd (dispatch name before which hook ps) @ snd (dispatch name before which hook qs)"
  by (induction ps) (auto split: prod.split)

text \<open>A plugin whose hook fails leaves the others' calls as they are and adds one warning.\<close>

lemma failure_isolated:
  assumes "hook p = (Inl e, p', log)"
  shows "snd (dispatch name before which hook (ps @ p # qs)) =
      snd (dispatch name before which hook ps) @ (before p @ log @ [HookFailed which (name p) e])
      @ snd (dispatch name before which hook qs)"
  using assms by (simp add: dispatch_append split: prod.split)

end

interpretation at_startup: plugin_hook plugin_name on_startup
  by unfold_locales (case_tac p, simp_all)

interpretation at_vm_action: plugin_hook plugin_name "on_vm_action a" for a
  by unfold_locales (case_tac p, simp_all split: option.split)

interpretation at_audit_entry: plugin_hook plugin_name "on_audit_entry e" for e
  by unfold_locales (case_tac p, simp_all)

section \<open>Lemmas\<close>

lemma build_eq: "build_plugin_registry enabled = List.map_filter new_plugin enabled"
proof -
  have "fold (\<lambda>name ps. case new_plugin name of Some p \<Rightarrow> register p ps | None \<Rightarrow> ps) enabled ps
      = ps @ List.map_filter new_plugin enabled" for ps
    by (induction enabled arbitrary: ps) (auto simp: register_def List.map_filter_def split: option.split)
  then show ?thesis by (simp add: build_plugin_registry_def registry_new_def)
qed

lemma startup_initializes: "fst (dispatch_startup ps) = map (\<lambda>p. fst (snd (on_startup p))) ps"
  by (simp add: dispatch_startup_def at_startup.dispatch_all)

definition action_log :: "vm_action_event \<Rightarrow> plugin \<Rightarrow> log_record list" where
  "action_log a p = snd (snd (on_vm_action a p))"

lemma dispatch_vm_action_eq: "dispatch_vm_action a ps = (ps, concat (map (action_log a) ps))"
proof (induction ps)
  case (Cons p ps)
  have "fst (on_vm_action a p) = Inr () \<and> fst (snd (on_vm_action a p)) = p"
    by (cases p) (simp_all split: option.split)
  then show ?case using Cons by (auto simp: dispatch_vm_action_def action_log_def split: prod.split)
qed (simp add: dispatch_vm_action_def)

section \<open>Properties\<close>

definition expected_record :: "vm_action_event \<Rightarrow> string \<Rightarrow> log_record list" where
  "expected_record a enabled_name =
     (if enabled_name = ''audit_logger'' then [ActionRecorded ''audit_logger'' a]
      else if enabled_name = ''webhook_bridge'' then
        (case action_to_webhook_event (va_action a) of
           None \<Rightarrow> [NoEventMapping ''webhook_bridge'' (va_action a)]
         | Some e \<Rightarrow> [ActionBridged ''webhook_bridge'' e a])
      else [])"

text \<open>Once the registry built from the configuration has been started, an action reaches every known enabled
  plugin exactly once, in the order of the configuration, and each writes one log record; unknown names are
  skipped. Before the start the plugins ignore actions. Log records are all a built-in plugin makes of an
  action: no audit row is written and no webhook is sent.\<close>

theorem plugin_actions_logged:
  "snd (dispatch_vm_action a (fst (dispatch_startup (build_plugin_registry enabled)))) = concat (map (expected_record a) enabled)
   \<and> snd (dispatch_vm_action a (build_plugin_registry enabled)) = []
   \<and> registry_names (fst (dispatch_startup (build_plugin_registry enabled)))
      = filter (\<lambda>n. n = ''audit_logger'' \<or> n = ''webhook_bridge'') enabled"
proof -
  have started: "concat (map (action_log a) (map (\<lambda>p. fst (snd (on_startup p))) (List.map_filter new_plugin enabled)))
      = concat (map (expected_record a) enabled)"
    by (induction enabled) (auto simp: List.map_filter_def new_plugin_def action_log_def expected_record_def split: option.split)
  have unstarted: "concat (map (action_log a) (List.map_filter new_plugin enabled)) = []"
    by (induction enabled) (auto simp: List.map_filter_def new_plugin_def action_log_def)
  have names: "map plugin_name (List.map_filter new_plugin enabled)
      = filter (\<lambda>n. n = ''audit_logger'' \<or> n = ''webhook_bridge'') enabled"
    by (induction enabled) (auto simp: List.map_filter_def new_plugin_def)
  have "registry_names (fst (dispatch_startup ps)) = map plugin_name ps" for ps
    by (simp add: registry_names_def dispatch_startup_def at_startup.names_kept)
  then show ?thesis using started unstarted names by (simp add: dispatch_vm_action_eq startup_initializes build_eq)
qed

end
