(* ===== verification/Startup.thy ===== *)
theory Startup
  imports Auth_System Webauthn Vnc Dashboard Plugins Router
begin

text \<open>
  Start-up (\<open>src/main.rs\<close>, \<open>src/tls.rs\<close>, \<open>src/state.rs\<close>, \<open>src/auth/jwt.rs\<close>, the rest of \<open>src/config.rs\<close>):
  the configuration and its defaults, the sequence of checks that decides whether the process serves at all,
  and the state it starts with. Merging and decoding of the configuration (figment, serde), files, keys and
  sockets are parameters.
\<close>

section \<open>Configuration\<close>

record logging_config =
  lg_level :: string
  lg_format :: string

record tls_config =
  tl_cert_pem_path :: string
  tl_key_pem_path :: string

record server_config =
  sv_bind :: string
  sv_workers :: nat
  sv_tls :: "tls_config option"

record database_config =
  db_path :: string
  db_max_connections :: nat
  db_run_migrations :: bool

record webauthn_config =
  wn_enabled :: bool
  wn_rp_id :: string
  wn_rp_origin :: string
  wn_rp_name :: string

record oidc_config =
  od_enabled :: bool
  od_configured :: "oidc_provider_config list"

record cors_config =
  co_allowed_origins :: "string list"
  co_max_age_secs :: nat

record tracing_config =
  tr_enabled :: bool
  tr_otlp_endpoint :: string
  tr_service_name :: string

record auth_config =
  au_jwt_issuer :: string
  au_jwt_audience :: string
  au_jwt_lifetime_secs :: int
  au_jwt_private_key_pem_path :: "string option"
  au_jwt_public_key_pem_path :: "string option"
  au_users :: "user_config list"
  au_vnc_token_secret_pem_path :: "string option"
  au_rate_limit :: rate_limit_config
  au_cors :: cors_config
  au_api_key :: api_key_config
  au_webauthn :: webauthn_config
  au_oidc :: oidc_config
  au_ldap :: ldap_config

record config =
  cf_server :: server_config
  cf_database :: database_config
  cf_logging :: logging_config
  cf_clusters :: "cluster_config list"
  cf_auth :: auth_config
  cf_tracing :: tracing_config
  cf_webhook :: webhook_config
  cf_data_dir :: string
  cf_plugins :: "string list"

text \<open>Defaults. \<open>LdapConfig\<close> and \<open>AuthConfig\<close> derive \<open>Default\<close>, so that a missing section gives empty strings
  and a life time of zero, not the defaults their fields have when the section is there.\<close>

definition default_webauthn_config :: webauthn_config where
  "default_webauthn_config = \<lparr> wn_enabled = False, wn_rp_id = ''localhost'',
     wn_rp_origin = ''http://localhost:8080'', wn_rp_name = ''MoxUI'' \<rparr>"

definition default_oidc_config :: oidc_config where
  "default_oidc_config = \<lparr> od_enabled = False, od_configured = [] \<rparr>"

definition default_ldap_config :: ldap_config where
  "default_ldap_config = \<lparr> lc_enabled = False, lc_url = None, lc_base_dn = None, lc_bind_dn = None,
     lc_bind_password = None, lc_user_filter = [], lc_username_attr = [], lc_displayname_attr = [],
     lc_email_attr = [], lc_default_role = [], lc_auto_create = False \<rparr>"

definition default_rate_limit_config :: rate_limit_config where
  "default_rate_limit_config = \<lparr> rl_requests_per_second = 5, rl_burst_size = 10 \<rparr>"

definition default_cors_config :: cors_config where
  "default_cors_config = \<lparr> co_allowed_origins = [], co_max_age_secs = 86400 \<rparr>"

definition default_api_key_config :: api_key_config where
  "default_api_key_config = \<lparr> ak_enabled = False, ak_key = None \<rparr>"

definition default_tracing_config :: tracing_config where
  "default_tracing_config = \<lparr> tr_enabled = False, tr_otlp_endpoint = ''http://localhost:4317'', tr_service_name = ''moxui'' \<rparr>"

definition default_auth_config :: auth_config where
  "default_auth_config = \<lparr> au_jwt_issuer = [], au_jwt_audience = [], au_jwt_lifetime_secs = 0,
     au_jwt_private_key_pem_path = None, au_jwt_public_key_pem_path = None, au_users = [],
     au_vnc_token_secret_pem_path = None, au_rate_limit = default_rate_limit_config, au_cors = default_cors_config,
     au_api_key = default_api_key_config, au_webauthn = default_webauthn_config, au_oidc = default_oidc_config,
     au_ldap = default_ldap_config \<rparr>"

text \<open>The CORS policy: origins that are no header values are dropped.\<close>

datatype cors_policy = Permissive | Restricted "string list" "http_method list" "string list" nat

definition cors_layer :: "(string \<Rightarrow> bool) \<Rightarrow> cors_config \<Rightarrow> cors_policy" where
  "cors_layer header_ok cfg =
     (if co_allowed_origins cfg = [] then Permissive
      else Restricted (filter header_ok (co_allowed_origins cfg)) [GET, POST, PUT, DELETE, PATCH, OPTIONS]
             [''content-type'', ''authorization'', ''x-api-key''] (co_max_age_secs cfg))"

text \<open>Sources, lowest priority first.\<close>

datatype config_source = SourceDefault | SourcePath string | SourceNone

datatype config_layer = Defaults json | YamlFile string | EnvVars string string

definition default_layer :: json where
  "default_layer = JObj [
     (''server'', JObj [(''bind'', JStr ''0.0.0.0:8080''), (''workers'', JNum 0)]),
     (''database'', JObj [(''path'', JStr ''moxui.db''), (''max_connections'', JNum 8), (''run_migrations'', JBool True)]),
     (''logging'', JObj [(''level'', JStr ''info''), (''format'', JStr ''pretty'')]),
     (''clusters'', JArr [])]"

definition default_config_path :: string where "default_config_path = ''/etc/moxui/config.yaml''"

definition config_layers :: "(string \<Rightarrow> bool) \<Rightarrow> config_source \<Rightarrow> config_layer list" where
  "config_layers path_exists source =
     Defaults default_layer #
     (case source of
        SourceDefault \<Rightarrow> if path_exists default_config_path then [YamlFile default_config_path] else []
      | SourcePath p \<Rightarrow> [YamlFile p]
      | SourceNone \<Rightarrow> [])
     @ [EnvVars ''MOXUI_'' ''__'']"

definition load_from :: "(string \<Rightarrow> bool) \<Rightarrow> (config_layer list \<Rightarrow> (string, config) result) \<Rightarrow> config_source
    \<Rightarrow> (string, config) result" where
  "load_from path_exists extract source = extract (config_layers path_exists source)"

definition load :: "(string \<Rightarrow> bool) \<Rightarrow> (config_layer list \<Rightarrow> (string, config) result) \<Rightarrow> string option
    \<Rightarrow> (string, config) result" where
  "load path_exists extract moxui_config =
     load_from path_exists extract (case moxui_config of Some p \<Rightarrow> SourcePath p | None \<Rightarrow> SourceDefault)"

section \<open>Tokens\<close>

text \<open>The JWT service; \<open>jc_decode\<close> checks signature, issuer, audience and expiry.\<close>

record ('ek, 'dk) jwt_service =
  js_encoding_key :: 'ek
  js_decoding_key :: 'dk
  js_issuer :: string
  js_audience :: string

record ('ek, 'dk) jwt_crate =
  jc_private :: "string \<Rightarrow> (string, 'ek) result"
  jc_public :: "string \<Rightarrow> (string, 'dk) result"
  jc_encode :: "'ek \<Rightarrow> claims \<Rightarrow> (string, string) result"
  jc_decode :: "'dk \<Rightarrow> string \<Rightarrow> string \<Rightarrow> string \<Rightarrow> (string, claims) result"

definition jwt_new :: "('ek, 'dk) jwt_crate \<Rightarrow> string \<Rightarrow> string \<Rightarrow> string \<Rightarrow> string
    \<Rightarrow> (string, ('ek, 'dk) jwt_service) result" where
  "jwt_new J private_pem public_pem issuer audience =
     rbind (jc_private J private_pem) (\<lambda>ek. rbind (jc_public J public_pem) (\<lambda>dk.
       Ok \<lparr> js_encoding_key = ek, js_decoding_key = dk, js_issuer = issuer, js_audience = audience \<rparr>))"

definition jwt_encode :: "('ek, 'dk) jwt_crate \<Rightarrow> ('ek, 'dk) jwt_service \<Rightarrow> claims \<Rightarrow> (string, string) result" where
  "jwt_encode J s cl = jc_encode J (js_encoding_key s) cl"

definition jwt_decode_token :: "('ek, 'dk) jwt_crate \<Rightarrow> ('ek, 'dk) jwt_service \<Rightarrow> string \<Rightarrow> (string, claims) result" where
  "jwt_decode_token J s token = jc_decode J (js_decoding_key s) (js_issuer s) (js_audience s) token"

definition build_jwt_service :: "('ek, 'dk) jwt_crate \<Rightarrow> (string \<Rightarrow> (string, string) result) \<Rightarrow> auth_config
    \<Rightarrow> (string, ('ek, 'dk) jwt_service) result" where
  "build_jwt_service J read auth =
     rbind (ok_or ''auth.jwt_private_key_pem_path is required'' (au_jwt_private_key_pem_path auth)) (\<lambda>priv_path.
     rbind (ok_or ''auth.jwt_public_key_pem_path is required'' (au_jwt_public_key_pem_path auth)) (\<lambda>pub_path.
     rbind (map_err (\<lambda>e. ''read '' @ priv_path @ '': '' @ e) (read priv_path)) (\<lambda>priv_pem.
     rbind (map_err (\<lambda>e. ''read '' @ pub_path @ '': '' @ e) (read pub_path)) (\<lambda>pub_pem.
     map_err (\<lambda>e. ''JWT key load: '' @ e) (jwt_new J priv_pem pub_pem (au_jwt_issuer auth) (au_jwt_audience auth))))))"

text \<open>A short secret is accepted with a warning, an empty one is refused.\<close>

definition load_vnc_secret :: "(string \<Rightarrow> (string, string) result) \<Rightarrow> auth_config \<Rightarrow> (string, string option) result" where
  "load_vnc_secret read auth =
     (case au_vnc_token_secret_pem_path auth of
        None \<Rightarrow> Ok None
      | Some path \<Rightarrow>
          rbind (map_err (\<lambda>e. ''read '' @ path @ '': '' @ e) (read path)) (\<lambda>bytes.
            if bytes = [] then Err (path @ '' is empty '' @ em_dash @ '' refusing to use a zero-length VNC secret'')
            else Ok (Some bytes)))"

definition webauthn_new :: "(string \<Rightarrow> (string, unit) result) \<Rightarrow> (string \<Rightarrow> string \<Rightarrow> string \<Rightarrow> (string, unit) result)
    \<Rightarrow> (string \<Rightarrow> string \<Rightarrow> (string, unit) result) \<Rightarrow> webauthn_config \<Rightarrow> (wa_error, ('k, 'r, 'a) wa_state) result" where
  "webauthn_new parse_url build builder cfg =
     rbind (map_err (\<lambda>_. WaInternal ''invalid rp_origin URL'') (parse_url (wn_rp_origin cfg))) (\<lambda>_.
     rbind (map_err (\<lambda>e. WaInternal (''WebauthnBuilder: '' @ e)) (builder (wn_rp_id cfg) (wn_rp_origin cfg))) (\<lambda>_.
     rbind (map_err WaCrate (build (wn_rp_id cfg) (wn_rp_origin cfg) (wn_rp_name cfg))) (\<lambda>_. Ok wa_new)))"

section \<open>The shared state\<close>

record ('ek, 'dk, 'k, 'r, 'a) app_state =
  st_config :: config
  st_clients :: "px_client list"
  st_readiness :: ready_cache
  st_audit :: audit_db
  st_jwt :: "('ek, 'dk) jwt_service"
  st_auth :: auth_state
  st_webauthn :: "('k, 'r, 'a) wa_state option"
  st_vnc_secret :: "string option"
  st_vnc :: vnc_state
  st_webhook :: "webhook_service option"
  st_dashboard_custom :: layout_service
  st_plugins :: "plugin list"

definition state_new :: "config \<Rightarrow> px_client list \<Rightarrow> audit_db \<Rightarrow> ('ek, 'dk) jwt_service \<Rightarrow> user_store \<Rightarrow> string option
    \<Rightarrow> ('k, 'r, 'a) wa_state option \<Rightarrow> oidc_service option \<Rightarrow> webhook_service option \<Rightarrow> layout_service \<Rightarrow> plugin list
    \<Rightarrow> ('ek, 'dk, 'k, 'r, 'a) app_state" where
  "state_new cfg clients audit jwt users vnc_secret webauthn oidc webhook layouts plugins =
     \<lparr> st_config = cfg, st_clients = clients, st_readiness = hm_empty, st_audit = audit, st_jwt = jwt,
       st_auth = \<lparr> as_users = users, as_refresh = rs_new, as_preauth = pa_new, as_oidc = oidc, as_oidc_users = hm_empty \<rparr>,
       st_webauthn = webauthn, st_vnc_secret = vnc_secret, st_vnc = \<lparr> vn_limiters = hm_empty, vn_sessions = [] \<rparr>,
       st_webhook = webhook, st_dashboard_custom = layouts, st_plugins = plugins \<rparr>"

definition vnc_enabled :: "('ek, 'dk, 'k, 'r, 'a) app_state \<Rightarrow> bool" where
  "vnc_enabled st = (st_vnc_secret st \<noteq> None)"

section \<open>The sequence of start-up\<close>

record cli =
  cli_config :: string
  cli_log_level :: string
  cli_verbose :: bool

record ('ek, 'dk, 'cert) boot_env =
  bo_debug_assertions :: bool
  bo_telemetry :: "logging_config \<Rightarrow> (string, unit) result"
  bo_moxui_config :: "string option"
  bo_exists :: "string \<Rightarrow> bool"
  bo_extract :: "config_layer list \<Rightarrow> (string, config) result"
  bo_cert :: "string \<Rightarrow> (string, 'cert) result"
  bo_http :: "bool \<Rightarrow> 'cert option \<Rightarrow> (string, unit) result"
  bo_read :: "string \<Rightarrow> (string, string) result"
  bo_jwt :: "('ek, 'dk) jwt_crate"
  bo_hash :: bcrypt_hash
  bo_audit :: "string \<Rightarrow> (string, audit_db) result"
  bo_parse_url :: "string \<Rightarrow> (string, unit) result"
  bo_wa_builder :: "string \<Rightarrow> string \<Rightarrow> (string, unit) result"
  bo_wa_build :: "string \<Rightarrow> string \<Rightarrow> string \<Rightarrow> (string, unit) result"
  bo_unicode :: unicode
  bo_discover :: "provider_client \<Rightarrow> (string, unit) result"
  bo_layout_fs :: layout_fs
  bo_layout_file :: "string \<Rightarrow> string option"
  bo_parse_addr :: "string \<Rightarrow> (string, socket_addr) result"

datatype boot_failure = ExitFailure string | Panic string

text \<open>Clients are built in the order of the configuration; the first failure ends the process.\<close>

fun build_clients :: "(cluster_config \<Rightarrow> (app_error, px_client) result) \<Rightarrow> cluster_config list \<Rightarrow> (boot_failure, px_client list) result" where
  "build_clients new [] = Ok []"
| "build_clients new (c # cs) =
     (case new c of
        Inl e \<Rightarrow> Err (ExitFailure (''Failed to build Proxmox client: '' @ display_error e))
      | Inr client \<Rightarrow> rbind (build_clients new cs) (\<lambda>clients. Ok (client # clients)))"

definition exit_on :: "string \<Rightarrow> (string, 'a) result \<Rightarrow> (boot_failure, 'a) result" where
  "exit_on what r = map_err (\<lambda>e. ExitFailure (what @ '': '' @ e)) r"

definition logging_of :: "bool \<Rightarrow> cli \<Rightarrow> logging_config" where
  "logging_of debug cli = \<lparr> lg_level = (if cli_verbose cli then ''debug'' else cli_log_level cli),
     lg_format = (if debug then ''pretty'' else ''json'') \<rparr>"

text \<open>A WebAuthn configuration that does not build only disables passkeys.\<close>

definition start_webauthn :: "('ek, 'dk, 'cert) boot_env \<Rightarrow> webauthn_config \<Rightarrow> ('k, 'r, 'a) wa_state option" where
  "start_webauthn B cfg =
     (if wn_enabled cfg then ok_of (webauthn_new (bo_parse_url B) (bo_wa_build B) (bo_wa_builder B) cfg) else None)"

definition start_oidc :: "('ek, 'dk, 'cert) boot_env \<Rightarrow> oidc_config \<Rightarrow> (string, oidc_service option) result" where
  "start_oidc B cfg = (if od_enabled cfg then oidc_new (bo_unicode B) (bo_discover B) (od_configured cfg) else Ok None)"

text \<open>From loading the configuration to the call of \<open>serve\<close>. A failing trace exporter is only logged. Building the router panics on a rate limit of zero.\<close>

definition boot_configured :: "('ek, 'dk, 'cert) boot_env \<Rightarrow> config \<Rightarrow> (boot_failure, ('ek, 'dk, 'k, 'r, 'a) app_state \<times> socket_addr) result" where
  "boot_configured B cfg =
     (let auth = cf_auth cfg in
      rbind (build_clients (px_new (bo_cert B) (bo_http B)) (cf_clusters cfg)) (\<lambda>clients.
      rbind (exit_on ''Failed to build JWT service'' (build_jwt_service (bo_jwt B) (bo_read B) auth)) (\<lambda>jwt.
      rbind (exit_on ''Failed to build user store'' (from_configs (bo_hash B) (au_users auth))) (\<lambda>users.
      rbind (exit_on ''Failed to open audit store'' (bo_audit B (db_path (cf_database cfg) @ ''.audit''))) (\<lambda>audit.
      rbind (exit_on ''Failed to load VNC secret'' (load_vnc_secret (bo_read B) auth)) (\<lambda>vnc_secret.
      rbind (exit_on ''Failed to initialize OIDC / OAuth2 SSO'' (start_oidc B (au_oidc auth))) (\<lambda>oidc.
        let st = state_new cfg clients audit jwt users vnc_secret (start_webauthn B (au_webauthn auth)) oidc
              (webhook_from_config (cf_webhook cfg)) (layouts_new (bo_layout_fs B) (bo_layout_file B (cf_data_dir cfg)))
              (fst (dispatch_startup (build_plugin_registry (cf_plugins cfg))))
        in if ip_rate_limiter_new (au_rate_limit auth) = None then Err (Panic ''rate limit of zero'')
           else rbind (exit_on ''Invalid bind address'' (bo_parse_addr B (sv_bind (cf_server cfg)))) (\<lambda>addr.
                  Ok (st, addr)))))))))"

definition boot :: "('ek, 'dk, 'cert) boot_env \<Rightarrow> cli \<Rightarrow> (boot_failure, ('ek, 'dk, 'k, 'r, 'a) app_state \<times> socket_addr) result" where
  "boot B cli =
     rbind (exit_on ''Failed to initialize telemetry'' (bo_telemetry B (logging_of (bo_debug_assertions B) cli))) (\<lambda>_.
     rbind (exit_on ''Failed to load config'' (load (bo_exists B) (bo_extract B) (bo_moxui_config B))) (\<lambda>cfg.
       boot_configured B cfg))"

section \<open>Serving\<close>

text \<open>Sockets: each server returns when it is shut down or fails.\<close>

record 'tls net_env =
  ne_load_pem :: "string \<Rightarrow> string \<Rightarrow> (string, 'tls) result"
  ne_serve_tls :: "socket_addr \<Rightarrow> 'tls \<Rightarrow> (string, unit) result"
  ne_bind :: "socket_addr \<Rightarrow> (string, unit) result"
  ne_serve_plain :: "socket_addr \<Rightarrow> (string, unit) result"

definition load_rustls_config :: "'tls net_env \<Rightarrow> tls_config \<Rightarrow> (string, 'tls) result" where
  "load_rustls_config N tls =
     map_err (\<lambda>e. ''loading TLS cert+key from '' @ tl_cert_pem_path tls @ '' + '' @ tl_key_pem_path tls)
       (ne_load_pem N (tl_cert_pem_path tls) (tl_key_pem_path tls))"

definition tls_serve :: "'tls net_env \<Rightarrow> socket_addr \<Rightarrow> tls_config option \<Rightarrow> (string, unit) result" where
  "tls_serve N addr tls =
     (case tls of
        Some tls_cfg \<Rightarrow>
          rbind (load_rustls_config N tls_cfg) (\<lambda>rustls_cfg.
            map_err (\<lambda>_. ''axum_server::tls_rustls::serve'') (ne_serve_tls N addr rustls_cfg))
      | None \<Rightarrow>
          rbind (map_err (\<lambda>_. ''binding plaintext listener'') (ne_bind N addr)) (\<lambda>_.
            map_err (\<lambda>_. ''axum::serve'') (ne_serve_plain N addr)))"

datatype exit_status = ExitCode nat | Abort

definition main :: "('ek, 'dk, 'cert) boot_env \<Rightarrow> 'tls net_env \<Rightarrow> cli \<Rightarrow> exit_status" where
  "main B N cli =
     (case (boot B cli :: (boot_failure, ('ek, 'dk, unit, unit, unit) app_state \<times> socket_addr) result) of
        Inl (ExitFailure _) \<Rightarrow> ExitCode 1
      | Inl (Panic _) \<Rightarrow> Abort
      | Inr (st, addr) \<Rightarrow>
          (case tls_serve N addr (sv_tls (cf_server (st_config st))) of Inl _ \<Rightarrow> ExitCode 1 | Inr _ \<Rightarrow> ExitCode 0))"

section \<open>Lemmas\<close>

lemma build_clients_Ok:
  "build_clients new cs = Inr clients \<longleftrightarrow> map new cs = map Inr clients"
proof (induction cs arbitrary: clients)
  case (Cons c cs)
  then show ?case by (cases clients) (auto simp: rbind_Inr_iff split: sum.split)
qed auto

lemma px_new_Ok: "px_new cert http cfg = Inr c \<Longrightarrow> pc_config c = cfg \<and> pc_ticket c = None \<and> pc_breaker c = cb_default"
  by (auto simp: px_new_def rbind_Inr_iff split: option.splits sum.splits)

lemma exit_on_Ok: "exit_on what r = Inr x \<longleftrightarrow> r = Inr x"
  by (cases r) (simp_all add: exit_on_def)

lemma map_err_Ok: "map_err f r = Inr x \<longleftrightarrow> r = Inr x"
  by (cases r) simp_all

lemma start_oidc_pending: "start_oidc B cfg = Inr oidc \<Longrightarrow> no_sso_pending oidc"
  by (auto simp: start_oidc_def oidc_new_def no_sso_pending_def split: if_splits sum.splits)

lemma boot_configured_Ok:
  "boot_configured B cfg = Inr (st, addr) \<longleftrightarrow> (\<exists>clients jwt users audit vnc_secret oidc.
      map (px_new (bo_cert B) (bo_http B)) (cf_clusters cfg) = map Inr clients
      \<and> build_jwt_service (bo_jwt B) (bo_read B) (cf_auth cfg) = Inr jwt
      \<and> from_configs (bo_hash B) (au_users (cf_auth cfg)) = Inr users
      \<and> bo_audit B (db_path (cf_database cfg) @ ''.audit'') = Inr audit
      \<and> load_vnc_secret (bo_read B) (cf_auth cfg) = Inr vnc_secret
      \<and> start_oidc B (au_oidc (cf_auth cfg)) = Inr oidc
      \<and> ip_rate_limiter_new (au_rate_limit (cf_auth cfg)) \<noteq> None
      \<and> bo_parse_addr B (sv_bind (cf_server cfg)) = Inr addr
      \<and> st = state_new cfg clients audit jwt users vnc_secret (start_webauthn B (au_webauthn (cf_auth cfg))) oidc
              (webhook_from_config (cf_webhook cfg)) (layouts_new (bo_layout_fs B) (bo_layout_file B (cf_data_dir cfg)))
              (fst (dispatch_startup (build_plugin_registry (cf_plugins cfg)))))"
  by (auto simp: boot_configured_def Let_def rbind_Inr_iff exit_on_Ok build_clients_Ok split: if_splits)

lemma boot_Ok: "boot B cli = Inr x \<longleftrightarrow> is_ok (bo_telemetry B (logging_of (bo_debug_assertions B) cli))
    \<and> (\<exists>cfg. load (bo_exists B) (bo_extract B) (bo_moxui_config B) = Inr cfg \<and> boot_configured B cfg = Inr x)"
  by (auto simp: boot_def rbind_Inr_iff exit_on_Ok is_ok_iff)

lemma clients_built: "map (px_new cert http) cs = map Inr clients \<Longrightarrow> map pc_config clients = cs
    \<and> (\<forall>c\<in>set clients. pc_ticket c = None \<and> pc_breaker c = cb_default)"
proof (induction cs arbitrary: clients)
  case (Cons c cs)
  then show ?case by (cases clients) (auto dest: px_new_Ok)
qed simp

lemma limiter_None: "ip_rate_limiter_new r = None \<longleftrightarrow> rl_requests_per_second r = 0 \<or> rl_burst_size r = 0"
  by (auto simp: ip_rate_limiter_new_def Let_def)

lemma jwt_built: "build_jwt_service J read auth = Inr jwt \<longleftrightarrow> (\<exists>p q priv pub. au_jwt_private_key_pem_path auth = Some p
    \<and> au_jwt_public_key_pem_path auth = Some q \<and> read p = Inr priv \<and> read q = Inr pub
    \<and> jwt_new J priv pub (au_jwt_issuer auth) (au_jwt_audience auth) = Inr jwt)"
  by (auto simp: build_jwt_service_def rbind_Inr_iff map_err_Ok)

lemma vnc_secret_loaded: "load_vnc_secret read auth = Inr secret \<Longrightarrow> (secret = None \<longleftrightarrow> au_vnc_token_secret_pem_path auth = None)
    \<and> secret \<noteq> Some []"
  by (auto simp: load_vnc_secret_def rbind_Inr_iff map_err_Ok split: option.splits if_splits)

section \<open>Properties\<close>

text \<open>C15. The process starts closed: it serves only when both JWT keys are configured, readable and valid, every
  configured account and cluster is valid (there is one client per cluster, in order), the audit store opened,
  and a configured console secret is not empty; the console is enabled exactly when a secret is configured.\<close>

theorem startup_fails_closed:
  assumes "boot B cli = Inr (st, addr)"
  shows "load (bo_exists B) (bo_extract B) (bo_moxui_config B) = Inr (st_config st)
    \<and> (\<exists>p q priv pub. au_jwt_private_key_pem_path (cf_auth (st_config st)) = Some p
        \<and> au_jwt_public_key_pem_path (cf_auth (st_config st)) = Some q \<and> bo_read B p = Inr priv \<and> bo_read B q = Inr pub
        \<and> jwt_new (bo_jwt B) priv pub (au_jwt_issuer (cf_auth (st_config st))) (au_jwt_audience (cf_auth (st_config st))) = Inr (st_jwt st))
    \<and> map pc_config (st_clients st) = cf_clusters (st_config st)
    \<and> from_configs (bo_hash B) (au_users (cf_auth (st_config st))) = Inr (as_users (st_auth st))
    \<and> bo_audit B (db_path (cf_database (st_config st)) @ ''.audit'') = Inr (st_audit st)
    \<and> (vnc_enabled st \<longleftrightarrow> au_vnc_token_secret_pem_path (cf_auth (st_config st)) \<noteq> None) \<and> st_vnc_secret st \<noteq> Some []"
proof -
  obtain cfg where cfg: "load (bo_exists B) (bo_extract B) (bo_moxui_config B) = Inr cfg" and b: "boot_configured B cfg = Inr (st, addr)"
    using assms by (auto simp: boot_Ok)
  then have c: "st_config st = cfg" by (auto simp: boot_configured_Ok state_new_def)
  from b have "map pc_config (st_clients st) = cf_clusters cfg"
    by (auto simp: boot_configured_Ok state_new_def dest: clients_built)
  moreover from b have "(vnc_enabled st \<longleftrightarrow> au_vnc_token_secret_pem_path (cf_auth cfg) \<noteq> None) \<and> st_vnc_secret st \<noteq> Some []"
    by (auto simp: boot_configured_Ok state_new_def vnc_enabled_def dest: vnc_secret_loaded)
  ultimately show ?thesis using b unfolding c by (auto simp: cfg boot_configured_Ok state_new_def jwt_built)
qed

definition demo_boot :: "(nat, nat, nat) boot_env" where
  "demo_boot = \<lparr> bo_debug_assertions = False, bo_telemetry = (\<lambda>_. Inr ()), bo_moxui_config = None, bo_exists = (\<lambda>_. False),
     bo_extract = (\<lambda>_. Inl ''missing field''), bo_cert = (\<lambda>_. Inr 1), bo_http = (\<lambda>_ _. Inr ()),
     bo_read = (\<lambda>_. Inr ''key''), bo_jwt = \<lparr> jc_private = (\<lambda>_. Inr 1), jc_public = (\<lambda>_. Inr 2),
       jc_encode = (\<lambda>_ c. Inr (cl_sub c)), jc_decode = (\<lambda>_ _ _ _. Inl ''no'') \<rparr>,
     bo_hash = (\<lambda>_ _. Inr ''h''), bo_audit = (\<lambda>_. Inr empty_db), bo_parse_url = (\<lambda>_. Inr ()), bo_wa_builder = (\<lambda>_ _. Inr ()),
     bo_wa_build = (\<lambda>_ _ _. Inr ()), bo_unicode = demo_unicode, bo_discover = (\<lambda>_. Inr ()), bo_layout_fs = demo_fs,
     bo_layout_file = (\<lambda>_. None), bo_parse_addr = (\<lambda>_. Inr (SockV4 [127, 0, 0, 1] 8080)) \<rparr>"

definition demo_boot_config :: config where
  "demo_boot_config = \<lparr> cf_server = \<lparr> sv_bind = ''127.0.0.1:8080'', sv_workers = 0, sv_tls = None \<rparr>,
     cf_database = \<lparr> db_path = ''moxui.db'', db_max_connections = 8, db_run_migrations = True \<rparr>,
     cf_logging = \<lparr> lg_level = ''info'', lg_format = ''pretty'' \<rparr>, cf_clusters = [],
     cf_auth = default_auth_config \<lparr> au_jwt_private_key_pem_path := Some ''priv'', au_jwt_public_key_pem_path := Some ''pub'' \<rparr>,
     cf_tracing = default_tracing_config, cf_webhook = default_webhook_config, cf_data_dir = ''/var/lib/moxui'',
     cf_plugins = [''audit_logger''] \<rparr>"

definition demo_boot_ok :: "(nat, nat, nat) boot_env" where
  "demo_boot_ok = demo_boot \<lparr> bo_extract := (\<lambda>_. Inr demo_boot_config) \<rparr>"

lemma demo_booted: "\<exists>st addr. boot demo_boot_ok \<lparr> cli_config = [], cli_log_level = ''info'', cli_verbose = False \<rparr>
    = (Inr (st, addr) :: (boot_failure, (nat, nat, unit, unit, unit) app_state \<times> socket_addr) result) \<and> st_plugins st = [AuditLogger True]"
  by (simp add: boot_Ok load_def load_from_def demo_boot_ok_def demo_boot_def boot_configured_Ok jwt_built jwt_new_def
      demo_boot_config_def default_auth_config_def default_rate_limit_config_def ip_rate_limiter_new_def load_vnc_secret_def
      start_oidc_def default_oidc_config_def from_configs_def state_new_def startup_initializes build_eq new_plugin_def
      List.map_filter_def)

theorem startup_fails_closed_witness:
  "\<exists>st addr. boot demo_boot_ok \<lparr> cli_config = [], cli_log_level = ''info'', cli_verbose = False \<rparr>
    = (Inr (st, addr) :: (boot_failure, (nat, nat, unit, unit, unit) app_state \<times> socket_addr) result) \<and> st_vnc_secret st \<noteq> Some []"
proof -
  obtain st :: "(nat, nat, unit, unit, unit) app_state" and addr where
    run: "boot demo_boot_ok \<lparr> cli_config = [], cli_log_level = ''info'', cli_verbose = False \<rparr> = Inr (st, addr)"
    using demo_booted by blast
  from startup_fails_closed[OF this] run show ?thesis by blast
qed

text \<open>The conditions of start-up are exactly these: it reaches the server if and only if every cluster's client
  builds, the keys load, the accounts are valid, the audit store opens, the console secret loads, the
  enabled single sign-on providers are discovered, both rate limits are positive and the address parses.
  WebAuthn, webhooks, plugins and stored layouts never prevent it; a rate limit of zero makes it panic.\<close>

theorem startup_conditions:
  "(is_ok (boot_configured B cfg :: (boot_failure, ('ek, 'dk, 'k, 'r, 'a) app_state \<times> socket_addr) result) \<longleftrightarrow>
      (\<forall>c\<in>set (cf_clusters cfg). is_ok (px_new (bo_cert B) (bo_http B) c))
      \<and> is_ok (build_jwt_service (bo_jwt B) (bo_read B) (cf_auth cfg))
      \<and> (\<forall>u\<in>set (au_users (cf_auth cfg)). is_ok (user_from_config (bo_hash B) u))
      \<and> is_ok (bo_audit B (db_path (cf_database cfg) @ ''.audit''))
      \<and> is_ok (load_vnc_secret (bo_read B) (cf_auth cfg))
      \<and> is_ok (start_oidc B (au_oidc (cf_auth cfg)))
      \<and> rl_requests_per_second (au_rate_limit (cf_auth cfg)) \<noteq> 0 \<and> rl_burst_size (au_rate_limit (cf_auth cfg)) \<noteq> 0
      \<and> is_ok (bo_parse_addr B (sv_bind (cf_server cfg))))"
proof -
  have clients: "(\<exists>clients. map (px_new (bo_cert B) (bo_http B)) cs = map Inr clients) \<longleftrightarrow> (\<forall>c\<in>set cs. is_ok (px_new (bo_cert B) (bo_http B) c))" for cs
    by (induction cs) (auto simp: is_ok_iff Cons_eq_map_conv)
  have lim: "ip_rate_limiter_new r \<noteq> None \<longleftrightarrow> rl_requests_per_second r \<noteq> 0 \<and> rl_burst_size r \<noteq> 0" for r
    by (auto simp: ip_rate_limiter_new_def Let_def)
  have "is_ok (boot_configured B cfg :: (boot_failure, ('ek, 'dk, 'k, 'r, 'a) app_state \<times> socket_addr) result) \<longleftrightarrow>
      (\<exists>clients. map (px_new (bo_cert B) (bo_http B)) (cf_clusters cfg) = map Inr clients)
      \<and> is_ok (build_jwt_service (bo_jwt B) (bo_read B) (cf_auth cfg))
      \<and> is_ok (from_configs (bo_hash B) (au_users (cf_auth cfg)))
      \<and> is_ok (bo_audit B (db_path (cf_database cfg) @ ''.audit''))
      \<and> is_ok (load_vnc_secret (bo_read B) (cf_auth cfg))
      \<and> is_ok (start_oidc B (au_oidc (cf_auth cfg)))
      \<and> ip_rate_limiter_new (au_rate_limit (cf_auth cfg)) \<noteq> None
      \<and> is_ok (bo_parse_addr B (sv_bind (cf_server cfg)))"
    by (auto simp: is_ok_iff boot_configured_Ok)
  then show ?thesis unfolding clients lim from_configs_Ok_iff by auto
qed

theorem startup_conditions_witness:
  "is_ok (boot_configured demo_boot demo_boot_config :: (boot_failure, (nat, nat, unit, unit, unit) app_state \<times> socket_addr) result)"
  unfolding startup_conditions
  by (simp add: demo_boot_def demo_boot_config_def is_ok_iff jwt_built jwt_new_def default_auth_config_def
      default_rate_limit_config_def load_vnc_secret_def start_oidc_def default_oidc_config_def)

text \<open>The state the process starts with is well formed and stays so: whatever authentication requests
  follow, the invariant of the authentication state holds; every client starts without a ticket and
  with a closed breaker, no console slot is taken and every enabled plugin has been started.\<close>

theorem startup_state_well_formed:
  assumes "boot B cli = Inr (st, addr)" "(auth_step env)\<^sup>*\<^sup>* (st_auth st, [], []) s"
  shows "auth_ok s \<and> (\<forall>c\<in>set (st_clients st). pc_ticket c = None \<and> pc_breaker c = cb_default)
    \<and> vn_limiters (st_vnc st) = hm_empty \<and> list_all plugin_initialized (st_plugins st)"
proof -
  obtain cfg clients jwt users audit vnc_secret oidc where
    clients: "map (px_new (bo_cert B) (bo_http B)) (cf_clusters cfg) = map Inr clients"
    and users: "from_configs (bo_hash B) (au_users (cf_auth cfg)) = Inr users"
    and oidc: "start_oidc B (au_oidc (cf_auth cfg)) = Inr oidc"
    and st: "st = state_new cfg clients audit jwt users vnc_secret (start_webauthn B (au_webauthn (cf_auth cfg))) oidc
              (webhook_from_config (cf_webhook cfg)) (layouts_new (bo_layout_fs B) (bo_layout_file B (cf_data_dir cfg)))
              (fst (dispatch_startup (build_plugin_registry (cf_plugins cfg))))"
    using assms(1) by (auto simp: boot_Ok boot_configured_Ok)
  have "(st_auth st, [], []) = auth_init users oidc" by (simp add: st state_new_def auth_init_def)
  then have "auth_ok s"
    using reachable_ok[OF _ us_ok_from_configs[OF users] start_oidc_pending[OF oidc]] assms(2) by simp
  moreover have "list_all plugin_initialized (st_plugins st)"
  proof -
    have "plugin_initialized (fst (snd (on_startup p)))" for p by (cases p) simp_all
    then show ?thesis by (auto simp: st state_new_def startup_initializes list_all_iff)
  qed
  ultimately show ?thesis using clients_built[OF clients] by (simp add: st state_new_def)
qed

theorem startup_state_well_formed_witness:
  "\<exists>st addr. boot demo_boot_ok \<lparr> cli_config = [], cli_log_level = ''info'', cli_verbose = False \<rparr>
    = (Inr (st, addr) :: (boot_failure, (nat, nat, unit, unit, unit) app_state \<times> socket_addr) result)
    \<and> auth_ok (st_auth st, [], []) \<and> st_plugins st = [AuditLogger True]"
proof -
  obtain st :: "(nat, nat, unit, unit, unit) app_state" and addr where
    run: "boot demo_boot_ok \<lparr> cli_config = [], cli_log_level = ''info'', cli_verbose = False \<rparr> = Inr (st, addr)"
    and plugins: "st_plugins st = [AuditLogger True]" using demo_booted by blast
  from startup_state_well_formed[OF run rtranclp.rtrancl_refl[where r = "auth_step demo_auth_env"]]
  have "auth_ok (st_auth st, [], [])" by blast
  with run plugins show ?thesis by blast
qed

end
