(* ===== verification/Telemetry.thy ===== *)
theory Telemetry
  imports Startup
begin

text \<open>
  Logging and tracing of the process (\<open>src/telemetry.rs\<close>, \<open>src/observability/tracing.rs\<close>) with the places in
  \<open>src/main.rs\<close> that start and stop them, and the stubs \<open>src/cache/mod.rs\<close> and \<open>src/db/mod.rs\<close>. The subscriber
  and the exporter are crates: \<open>tl_export\<close> builds the exporter of an endpoint, \<open>tl_provider\<close> the provider from it
  and the attributes of the resource, \<open>tl_flush\<close> shuts a provider down.
\<close>

section \<open>State\<close>

text \<open>The global subscriber (filter, and whether it writes JSON), the static \<open>TRACER_PROVIDER\<close>, the global
  provider of OpenTelemetry, and the providers shut down so far, oldest first.\<close>

record 'p telemetry =
  te_subscriber :: "(string \<times> bool) option"
  te_provider :: "'p option"
  te_global :: "'p option"
  te_stopped :: "'p list"

record ('x, 'p) telemetry_env =
  tl_filter :: "string option"
  tl_export :: "string \<Rightarrow> (string, 'x) result"
  tl_provider :: "'x \<Rightarrow> (string \<times> string) list \<Rightarrow> 'p"
  tl_flush :: "'p \<Rightarrow> (string, unit) result"
  tl_version :: string

section \<open>Operations\<close>

text \<open>The filter of the environment comes before the level; a subscriber can be set once.\<close>

definition telemetry_init :: "('x, 'p) telemetry_env \<Rightarrow> logging_config \<Rightarrow> 'p telemetry \<Rightarrow> (string, unit) result \<times> 'p telemetry" where
  "telemetry_init E cfg st =
     (let directives = (case tl_filter E of Some f \<Rightarrow> f | None \<Rightarrow> lg_level cfg)
      in case te_subscriber st of
           Some s \<Rightarrow> (Err ''a global default trace dispatcher has already been set'', st)
         | None \<Rightarrow> (Ok (), st \<lparr> te_subscriber := Some (directives, lg_format cfg = ''json'') \<rparr>))"

text \<open>Storing the provider drops the one that was there.\<close>

definition init_tracing :: "('x, 'p) telemetry_env \<Rightarrow> tracing_config \<Rightarrow> 'p telemetry \<Rightarrow> (string, unit) result \<times> 'p telemetry" where
  "init_tracing E cfg st =
     (if \<not> tr_enabled cfg then (Ok (), st)
      else case tl_export E (tr_otlp_endpoint cfg) of
             Inl e \<Rightarrow> (Err e, st)
           | Inr x \<Rightarrow>
               (let p = tl_provider E x [(''service.name'', tr_service_name cfg), (''service.version'', tl_version E)]
                in (Ok (), st \<lparr> te_global := Some p, te_provider := Some p \<rparr>)))"

text \<open>The text of the warning, if shutting the provider down fails.\<close>

definition shutdown_tracing :: "('x, 'p) telemetry_env \<Rightarrow> 'p telemetry \<Rightarrow> string option \<times> 'p telemetry" where
  "shutdown_tracing E st =
     (case te_provider st of
        None \<Rightarrow> (None, st)
      | Some p \<Rightarrow> (case tl_flush E p of Inl e \<Rightarrow> Some e | Inr _ \<Rightarrow> None,
                   st \<lparr> te_provider := None, te_stopped := te_stopped st @ [p] \<rparr>))"

text \<open>
  The process around the server: the subscriber from the command line, tracing from the configuration, whose
  failure is only a warning, and the shutdown at the end, which a server that ends with an error does not reach.
\<close>

definition run_with_telemetry :: "('x, 'p) telemetry_env \<Rightarrow> bool \<Rightarrow> cli \<Rightarrow> config \<Rightarrow> (string, unit) result \<Rightarrow> 'p telemetry
    \<Rightarrow> nat \<times> 'p telemetry" where
  "run_with_telemetry E debug cli cfg outcome st =
     (case telemetry_init E (logging_of debug cli) st of
        (Inl e, st1) \<Rightarrow> (1, st1)
      | (Inr _, st1) \<Rightarrow>
          (let (_, st2) = init_tracing E (cf_tracing cfg) st1
           in case outcome of Inl e \<Rightarrow> (1, st2) | Inr _ \<Rightarrow> (0, snd (shutdown_tracing E st2))))"

section \<open>Stubs\<close>

record cache_config =
  ca_default_ttl_secs :: nat
  ca_max_capacity :: nat

definition default_cache_config :: cache_config where
  "default_cache_config = \<lparr> ca_default_ttl_secs = 5, ca_max_capacity = 10000 \<rparr>"

definition create_pool :: "database_config \<Rightarrow> (string, unit) result" where
  "create_pool cfg = Ok ()"

text \<open>Constants of the build: what the environment of the compiler does not set is unknown.\<close>

definition build_profile :: "bool \<Rightarrow> string" where
  "build_profile debug = (if debug then ''debug'' else ''release'')"

definition git_sha :: "string option \<Rightarrow> string" where
  "git_sha env = (case env of Some sha \<Rightarrow> sha | None \<Rightarrow> ''unknown'')"

definition build_timestamp :: "string option \<Rightarrow> string" where
  "build_timestamp env = (case env of Some ts \<Rightarrow> ts | None \<Rightarrow> ''unknown'')"

section \<open>Lemmas\<close>

text \<open>What is running is what is exported: the stored provider is the global one.\<close>

definition telemetry_ok :: "'p telemetry \<Rightarrow> bool" where
  "telemetry_ok st = (\<forall>p. te_provider st = Some p \<longrightarrow> te_global st = Some p)"

lemma telemetry_ok_steps:
  "telemetry_ok st \<Longrightarrow> telemetry_ok (snd (telemetry_init E cfg st))"
  "telemetry_ok st \<Longrightarrow> telemetry_ok (snd (init_tracing E tcfg st))"
  "telemetry_ok st \<Longrightarrow> telemetry_ok (snd (shutdown_tracing E st))"
  by (auto simp: telemetry_ok_def telemetry_init_def init_tracing_def shutdown_tracing_def Let_def
      split: option.splits sum.splits)

text \<open>Tracing may be initialised twice, although its documentation says that it panics then: the second provider
  replaces the first, which is dropped without being shut down by \<open>shutdown_tracing\<close>.\<close>

lemma second_tracing_replaces:
  assumes "init_tracing E cfg st = (Ok (), st1)" "init_tracing E cfg' st1 = (Ok (), st2)" "tr_enabled cfg'"
  shows "\<exists>p. te_provider st2 = Some p \<and> te_global st2 = Some p \<and> te_stopped st2 = te_stopped st
     \<and> te_stopped (snd (shutdown_tracing E st2)) = te_stopped st @ [p]"
  using assms by (auto simp: init_tracing_def shutdown_tracing_def Let_def split: sum.splits if_splits option.split)

text \<open>The last spans are flushed when the server ends well, and are not when it ends with an error.\<close>

lemma flushed_on_success_only:
  assumes "te_subscriber st = None" "te_provider st = None" "te_stopped st = []" "tr_enabled (cf_tracing cfg)"
    and "tl_export E (tr_otlp_endpoint (cf_tracing cfg)) = Ok x"
  shows "length (te_stopped (snd (run_with_telemetry E debug cli cfg (Ok ()) st))) = 1"
    "te_stopped (snd (run_with_telemetry E debug cli cfg (Err e) st)) = []"
  using assms by (simp_all add: run_with_telemetry_def telemetry_init_def init_tracing_def shutdown_tracing_def Let_def)

end
