(* ===== verification/Config_Json.thy ===== *)
theory Config_Json
  imports Startup Ticket_Json
begin

text \<open>
  Decoding the configuration (\<open>src/config.rs\<close>): the derived decoder of every section, with the defaults the
  attributes of its fields give, and what a process does whose configuration is the built-in one. The merging of
  the layers is figment's and is a parameter; its values are those of JSON.
\<close>

section \<open>Defaults of fields\<close>

definition default_data_dir :: string where "default_data_dir = ''/var/lib/moxui''"
definition default_max_connections :: nat where "default_max_connections = 8"
definition default_true :: bool where "default_true = True"
definition default_log_level :: string where "default_log_level = ''info''"
definition default_log_format :: string where "default_log_format = ''pretty''"
definition default_webauthn_rp_id :: string where "default_webauthn_rp_id = ''localhost''"
definition default_webauthn_rp_origin :: string where "default_webauthn_rp_origin = ''http://localhost:8080''"
definition default_webauthn_rp_name :: string where "default_webauthn_rp_name = ''MoxUI''"
definition default_ldap_username_attr :: string where "default_ldap_username_attr = ''uid''"
definition default_ldap_displayname_attr :: string where "default_ldap_displayname_attr = ''displayName''"
definition default_ldap_email_attr :: string where "default_ldap_email_attr = ''mail''"
definition default_ldap_default_role :: string where "default_ldap_default_role = ''viewer''"
definition default_rate_per_sec :: nat where "default_rate_per_sec = 5"
definition default_rate_burst :: nat where "default_rate_burst = 10"
definition default_cors_max_age :: nat where "default_cors_max_age = 86400"
definition default_jwt_issuer :: string where "default_jwt_issuer = ''moxui''"
definition default_jwt_audience :: string where "default_jwt_audience = ''moxui-clients''"
definition default_jwt_lifetime_secs :: int where "default_jwt_lifetime_secs = 3600"
definition default_true_user :: bool where "default_true_user = True"
definition default_realm :: string where "default_realm = ''pam''"
definition default_otlp_endpoint :: string where "default_otlp_endpoint = ''http://localhost:4317''"
definition default_service_name :: string where "default_service_name = ''moxui''"

lemmas field_defaults = default_data_dir_def default_max_connections_def default_true_def
  default_log_level_def default_log_format_def default_webauthn_rp_id_def default_webauthn_rp_origin_def
  default_webauthn_rp_name_def default_ldap_filter_def default_ldap_username_attr_def
  default_ldap_displayname_attr_def default_ldap_email_attr_def default_ldap_default_role_def
  default_rate_per_sec_def default_rate_burst_def default_cors_max_age_def default_jwt_issuer_def
  default_jwt_audience_def default_jwt_lifetime_secs_def default_true_user_def default_realm_def
  default_otlp_endpoint_def default_service_name_def

section \<open>The sections\<close>

definition de_u32 :: "32 word de" where "de_u32 j = map_option of_nat (de_uint 32 j)"
definition de_u64 :: "64 word de" where "de_u64 j = map_option of_nat (de_uint 64 j)"

definition de_tls_config :: "tls_config de" where
  "de_tls_config = de_struct (
     fbind (req ''cert_pem_path'' de_string) (\<lambda>x0.
     fbind (req ''key_pem_path'' de_string) (\<lambda>x1.
     fret \<lparr> tl_cert_pem_path = x0, tl_key_pem_path = x1 \<rparr>)))"

definition de_server_config :: "server_config de" where
  "de_server_config = de_struct (
     fbind (req ''bind'' de_string) (\<lambda>x0.
     fbind (dflt 0 ''workers'' (de_uint 64)) (\<lambda>x1.
     fbind (optd ''tls'' de_tls_config) (\<lambda>x2.
     fret \<lparr> sv_bind = x0, sv_workers = x1, sv_tls = x2 \<rparr>))))"

definition de_database_config :: "database_config de" where
  "de_database_config = de_struct (
     fbind (req ''path'' de_string) (\<lambda>x0.
     fbind (dflt default_max_connections ''max_connections'' (de_uint 32)) (\<lambda>x1.
     fbind (dflt default_true ''run_migrations'' de_bool) (\<lambda>x2.
     fret \<lparr> db_path = x0, db_max_connections = x1, db_run_migrations = x2 \<rparr>))))"

definition de_logging_config :: "logging_config de" where
  "de_logging_config = de_struct (
     fbind (dflt default_log_level ''level'' de_string) (\<lambda>x0.
     fbind (dflt default_log_format ''format'' de_string) (\<lambda>x1.
     fret \<lparr> lg_level = x0, lg_format = x1 \<rparr>)))"

definition de_webauthn_config :: "webauthn_config de" where
  "de_webauthn_config = de_struct (
     fbind (dflt False ''enabled'' de_bool) (\<lambda>x0.
     fbind (dflt default_webauthn_rp_id ''rp_id'' de_string) (\<lambda>x1.
     fbind (dflt default_webauthn_rp_origin ''rp_origin'' de_string) (\<lambda>x2.
     fbind (dflt default_webauthn_rp_name ''rp_name'' de_string) (\<lambda>x3.
     fret \<lparr> wn_enabled = x0, wn_rp_id = x1, wn_rp_origin = x2, wn_rp_name = x3 \<rparr>)))))"

definition de_oidc_provider_config :: "oidc_provider_config de" where
  "de_oidc_provider_config = de_struct (
     fbind (req ''name'' de_string) (\<lambda>x0.
     fbind (req ''client_id'' de_string) (\<lambda>x1.
     fbind (req ''client_secret'' de_string) (\<lambda>x2.
     fbind (req ''redirect_url'' de_string) (\<lambda>x3.
     fret \<lparr> op_name = x0, op_client_id = x1, op_client_secret = x2, op_redirect_url = x3 \<rparr>)))))"

definition de_oidc_config :: "oidc_config de" where
  "de_oidc_config = de_struct (
     fbind (dflt False ''enabled'' de_bool) (\<lambda>x0.
     fbind (dflt [] ''providers'' (de_list de_oidc_provider_config)) (\<lambda>x1.
     fret \<lparr> od_enabled = x0, od_configured = x1 \<rparr>)))"

definition de_ldap_config :: "ldap_config de" where
  "de_ldap_config = de_struct (
     fbind (dflt False ''enabled'' de_bool) (\<lambda>x0.
     fbind (opt ''url'' de_string) (\<lambda>x1.
     fbind (opt ''base_dn'' de_string) (\<lambda>x2.
     fbind (opt ''bind_dn'' de_string) (\<lambda>x3.
     fbind (opt ''bind_password'' de_string) (\<lambda>x4.
     fbind (dflt default_ldap_filter ''user_filter'' de_string) (\<lambda>x5.
     fbind (dflt default_ldap_username_attr ''username_attr'' de_string) (\<lambda>x6.
     fbind (dflt default_ldap_displayname_attr ''displayname_attr'' de_string) (\<lambda>x7.
     fbind (dflt default_ldap_email_attr ''email_attr'' de_string) (\<lambda>x8.
     fbind (dflt default_ldap_default_role ''default_role'' de_string) (\<lambda>x9.
     fbind (dflt default_true ''auto_create'' de_bool) (\<lambda>x10.
     fret \<lparr> lc_enabled = x0, lc_url = x1, lc_base_dn = x2, lc_bind_dn = x3, lc_bind_password = x4,
       lc_user_filter = x5, lc_username_attr = x6, lc_displayname_attr = x7, lc_email_attr = x8, lc_default_role = x9,
       lc_auto_create = x10 \<rparr>))))))))))))"

definition de_rate_limit_config :: "rate_limit_config de" where
  "de_rate_limit_config = de_struct (
     fbind (dflt default_rate_per_sec ''requests_per_second'' (de_uint 64)) (\<lambda>x0.
     fbind (dflt default_rate_burst ''burst_size'' (de_uint 32)) (\<lambda>x1.
     fret \<lparr> rl_requests_per_second = x0, rl_burst_size = x1 \<rparr>)))"

definition de_cors_config :: "cors_config de" where
  "de_cors_config = de_struct (
     fbind (dflt [] ''allowed_origins'' (de_list de_string)) (\<lambda>x0.
     fbind (dflt default_cors_max_age ''max_age_secs'' (de_uint 64)) (\<lambda>x1.
     fret \<lparr> co_allowed_origins = x0, co_max_age_secs = x1 \<rparr>)))"

definition de_api_key_config :: "api_key_config de" where
  "de_api_key_config = de_struct (
     fbind (dflt False ''enabled'' de_bool) (\<lambda>x0.
     fbind (optd ''key'' de_string) (\<lambda>x1.
     fret \<lparr> ak_enabled = x0, ak_key = x1 \<rparr>)))"

definition de_user_config :: "user_config de" where
  "de_user_config = de_struct (
     fbind (req ''id'' de_string) (\<lambda>x0.
     fbind (req ''username'' de_string) (\<lambda>x1.
     fbind (dflt [] ''display_name'' de_string) (\<lambda>x2.
     fbind (optd ''email'' de_string) (\<lambda>x3.
     fbind (req ''role'' de_string) (\<lambda>x4.
     fbind (optd ''password_hash'' de_string) (\<lambda>x5.
     fbind (optd ''password'' de_string) (\<lambda>x6.
     fbind (dflt default_true_user ''enabled'' de_bool) (\<lambda>x7.
     fbind (dflt [] ''allowed_clusters'' (de_list de_string)) (\<lambda>x8.
     fret \<lparr> uc_id = x0, uc_username = x1, uc_display_name = x2, uc_email = x3, uc_role = x4, uc_password_hash
       = x5, uc_password = x6, uc_enabled = x7, uc_allowed_clusters = x8 \<rparr>))))))))))"

definition de_auth_config :: "auth_config de" where
  "de_auth_config = de_struct (
     fbind (dflt default_jwt_issuer ''jwt_issuer'' de_string) (\<lambda>x0.
     fbind (dflt default_jwt_audience ''jwt_audience'' de_string) (\<lambda>x1.
     fbind (dflt default_jwt_lifetime_secs ''jwt_lifetime_secs'' de_i64) (\<lambda>x2.
     fbind (optd ''jwt_private_key_pem_path'' de_string) (\<lambda>x3.
     fbind (optd ''jwt_public_key_pem_path'' de_string) (\<lambda>x4.
     fbind (dflt [] ''users'' (de_list de_user_config)) (\<lambda>x5.
     fbind (optd ''vnc_token_secret_pem_path'' de_string) (\<lambda>x6.
     fbind (dflt default_rate_limit_config ''rate_limit'' de_rate_limit_config) (\<lambda>x7.
     fbind (dflt default_cors_config ''cors'' de_cors_config) (\<lambda>x8.
     fbind (dflt default_api_key_config ''api_key'' de_api_key_config) (\<lambda>x9.
     fbind (dflt default_webauthn_config ''webauthn'' de_webauthn_config) (\<lambda>x10.
     fbind (dflt default_oidc_config ''oidc'' de_oidc_config) (\<lambda>x11.
     fbind (dflt default_ldap_config ''ldap'' de_ldap_config) (\<lambda>x12.
     fret \<lparr> au_jwt_issuer = x0, au_jwt_audience = x1, au_jwt_lifetime_secs = x2, au_jwt_private_key_pem_path =
       x3, au_jwt_public_key_pem_path = x4, au_users = x5, au_vnc_token_secret_pem_path = x6, au_rate_limit = x7,
       au_cors = x8, au_api_key = x9, au_webauthn = x10, au_oidc = x11, au_ldap = x12 \<rparr>))))))))))))))"

definition de_cluster_config :: "cluster_config de" where
  "de_cluster_config = de_struct (
     fbind (req ''name'' de_string) (\<lambda>x0.
     fbind (req ''url'' de_string) (\<lambda>x1.
     fbind (req ''username'' de_string) (\<lambda>x2.
     fbind (req ''password'' de_string) (\<lambda>x3.
     fbind (dflt default_realm ''realm'' de_string) (\<lambda>x4.
     fbind (dflt False ''insecure_skip_verify'' de_bool) (\<lambda>x5.
     fbind (optd ''ca_cert_pem'' de_string) (\<lambda>x6.
     fret \<lparr> cc_name = x0, cc_url = x1, cc_username = x2, cc_password = x3, cc_realm = x4,
       cc_insecure_skip_verify = x5, cc_ca_cert_pem = x6 \<rparr>))))))))"

definition de_tracing_config :: "tracing_config de" where
  "de_tracing_config = de_struct (
     fbind (dflt False ''enabled'' de_bool) (\<lambda>x0.
     fbind (dflt default_otlp_endpoint ''otlp_endpoint'' de_string) (\<lambda>x1.
     fbind (dflt default_service_name ''service_name'' de_string) (\<lambda>x2.
     fret \<lparr> tr_enabled = x0, tr_otlp_endpoint = x1, tr_service_name = x2 \<rparr>))))"

definition de_webhook_endpoint_config :: "webhook_endpoint_config de" where
  "de_webhook_endpoint_config = de_struct (
     fbind (req ''name'' de_string) (\<lambda>x0.
     fbind (req ''url'' de_string) (\<lambda>x1.
     fbind (dflt [] ''events'' (de_list de_string)) (\<lambda>x2.
     fbind (optd ''secret'' de_string) (\<lambda>x3.
     fbind (optd ''max_retries'' de_u32) (\<lambda>x4.
     fret \<lparr> ec_name = x0, ec_url = x1, ec_events = x2, ec_secret = x3, ec_max_retries = x4 \<rparr>))))))"

definition de_webhook_config :: "webhook_config de" where
  "de_webhook_config = de_struct (
     fbind (dflt False ''enabled'' de_bool) (\<lambda>x0.
     fbind (dflt default_webhook_retry ''retry_count'' de_u32) (\<lambda>x1.
     fbind (dflt default_webhook_timeout ''timeout_secs'' de_u64) (\<lambda>x2.
     fbind (dflt [] ''endpoints'' (de_list de_webhook_endpoint_config)) (\<lambda>x3.
     fret \<lparr> wc_enabled = x0, wc_retry_count = x1, wc_timeout_secs = x2, wc_endpoints = x3 \<rparr>)))))"

definition de_config :: "config de" where
  "de_config = de_struct (
     fbind (req ''server'' de_server_config) (\<lambda>x0.
     fbind (req ''database'' de_database_config) (\<lambda>x1.
     fbind (req ''logging'' de_logging_config) (\<lambda>x2.
     fbind (dflt [] ''clusters'' (de_list de_cluster_config)) (\<lambda>x3.
     fbind (dflt default_auth_config ''auth'' de_auth_config) (\<lambda>x4.
     fbind (dflt default_tracing_config ''tracing'' de_tracing_config) (\<lambda>x5.
     fbind (dflt default_webhook_config ''webhook'' de_webhook_config) (\<lambda>x6.
     fbind (dflt default_data_dir ''data_dir'' de_string) (\<lambda>x7.
     fbind (dflt [] ''plugins'' (de_list de_string)) (\<lambda>x8.
     fret \<lparr> cf_server = x0, cf_database = x1, cf_logging = x2, cf_clusters = x3, cf_auth = x4, cf_tracing =
       x5, cf_webhook = x6, cf_data_dir = x7, cf_plugins = x8 \<rparr>))))))))))"

section \<open>The whole\<close>

text \<open>The extraction of the merged layers; \<open>merge\<close> fails where a file cannot be read.\<close>

definition extract_config :: "(config_layer list \<Rightarrow> (string, json) result) \<Rightarrow> (json \<Rightarrow> string) \<Rightarrow> config_layer list
    \<Rightarrow> (string, config) result" where
  "extract_config merge describe ls = rbind (merge ls) (\<lambda>j. ok_or (describe j) (de_config j))"

text \<open>The configuration of a process without a file and without variables.\<close>

definition builtin_config :: config where
  "builtin_config = \<lparr> cf_server = \<lparr> sv_bind = ''0.0.0.0:8080'', sv_workers = 0, sv_tls = None \<rparr>,
     cf_database = \<lparr> db_path = ''moxui.db'', db_max_connections = 8, db_run_migrations = True \<rparr>,
     cf_logging = \<lparr> lg_level = ''info'', lg_format = ''pretty'' \<rparr>, cf_clusters = [], cf_auth = default_auth_config,
     cf_tracing = default_tracing_config, cf_webhook = default_webhook_config, cf_data_dir = ''/var/lib/moxui'',
     cf_plugins = [] \<rparr>"

section \<open>Lemmas\<close>

lemmas section_defs = de_server_config_def de_database_config_def de_logging_config_def de_config_def
  fbind_def req_def opt_def optd_def dflt_def field_def de_struct_def

lemma builtin_decodes: "de_config default_layer = Some builtin_config"
  by (simp add: section_defs field_defaults default_layer_def builtin_config_def de_uint.simps)

text \<open>The defaults of the fields and those of the section are not the same: an empty section has the documented
  issuer, audience and life time, a missing one has empty names and tokens that expire when they are issued.\<close>

lemma auth_section_defaults:
  "\<exists>a. de_auth_config (JObj []) = Some a \<and> au_jwt_issuer a = ''moxui'' \<and> au_jwt_audience a = ''moxui-clients''
     \<and> au_jwt_lifetime_secs a = 3600"
  "de_config default_layer = Some c \<Longrightarrow> au_jwt_issuer (cf_auth c) = [] \<and> au_jwt_lifetime_secs (cf_auth c) = 0"
  by (simp_all add: de_auth_config_def section_defs(5-11) field_defaults builtin_decodes)
    (auto simp: builtin_config_def default_auth_config_def)

section \<open>A process that is not configured\<close>

text \<open>C19. A process whose sources say nothing beyond the built-in layer does not serve: it exits and names the missing
  key, whatever its command line and its surroundings.\<close>

theorem unconfigured_process_refuses:
  assumes "bo_extract B = extract_config merge describe" "bo_telemetry B (logging_of (bo_debug_assertions B) cli) = Ok ()"
    and "merge (config_layers (bo_exists B) (case bo_moxui_config B of Some p \<Rightarrow> SourcePath p | None \<Rightarrow> SourceDefault)) = Ok default_layer"
  shows "boot B cli = Err (ExitFailure ''Failed to build JWT service: auth.jwt_private_key_pem_path is required'')"
proof -
  have cfg: "load (bo_exists B) (bo_extract B) (bo_moxui_config B) = Ok builtin_config"
    using assms(3) by (simp add: load_def load_from_def assms(1) extract_config_def builtin_decodes ok_or_def)
  have "boot_configured B builtin_config
      = Err (ExitFailure ''Failed to build JWT service: auth.jwt_private_key_pem_path is required'')"
    by (simp add: boot_configured_def builtin_config_def default_auth_config_def exit_on_def build_jwt_service_def ok_or_def map_err_def)
  then show ?thesis by (simp add: boot_def assms(2) cfg exit_on_def map_err_def)
qed

definition demo_merge :: "config_layer list \<Rightarrow> (string, json) result" where
  "demo_merge ls = (case ls of Defaults j # _ \<Rightarrow> Ok j | _ \<Rightarrow> Err ''no layer'')"

theorem unconfigured_process_refuses_witness:
  "boot (demo_boot \<lparr> bo_extract := extract_config demo_merge (\<lambda>j. ''bad'') \<rparr>)
     \<lparr> cli_config = [], cli_log_level = ''info'', cli_verbose = False \<rparr>
     = Err (ExitFailure ''Failed to build JWT service: auth.jwt_private_key_pem_path is required'')"
  by (rule unconfigured_process_refuses[of _ demo_merge "\<lambda>j. ''bad''"])
    (simp_all add: demo_boot_def config_layers_def demo_merge_def)

end
