(* ===== verification/Ui.thy ===== *)
theory Ui
  imports Http
begin

text \<open>
  The embedded web interface (\<open>src/ui/mod.rs\<close>): the index page, the static files and the translations.
  The files are embedded by \<open>rust-embed\<close> when the program is built, so they are a parameter (file name to
  content), as is the MIME type \<open>mime_guess\<close> gives a name. A wildcard of the router binds the rest of the
  path, at least one character of it.
\<close>

record assets =
  as_get :: "string \<Rightarrow> string option"
  as_mime :: "string \<Rightarrow> string"

definition not_found :: http_response where
  "not_found = \<lparr> hs_status = 404, hs_body = ''not found'', hs_headers = [(''content-type'', ''text/plain'')] \<rparr>"

definition cache_briefly :: string where "cache_briefly = ''public, max-age=300''"
definition cache_never :: string where "cache_never = ''no-cache, no-store, must-revalidate''"

definition serve_named :: "assets \<Rightarrow> string \<Rightarrow> string \<Rightarrow> bool \<Rightarrow> http_response" where
  "serve_named A name content_type cacheable =
     (case as_get A name of
        Some data \<Rightarrow>
          (let resp = \<lparr> hs_status = 200, hs_body = data, hs_headers = [(''content-type'', content_type)] \<rparr>
           in resp \<lparr> hs_headers := hm_put ''cache-control'' (if cacheable then cache_briefly else cache_never) (hs_headers resp) \<rparr>)
      | None \<Rightarrow> not_found)"

definition serve_index :: "assets \<Rightarrow> http_response" where
  "serve_index A = serve_named A ''index.html'' ''text/html; charset=utf-8'' False"

definition serve_static :: "assets \<Rightarrow> string \<Rightarrow> http_response" where
  "serve_static A path =
     (let asset_name = ''static/'' @ path in
      if as_get A asset_name = None then not_found
      else serve_named A asset_name (as_mime A path) True)"

definition serve_locales :: "assets \<Rightarrow> string \<Rightarrow> http_response" where
  "serve_locales A path =
     (let asset_name = ''locales/'' @ path in
      if as_get A asset_name = None then not_found
      else serve_named A asset_name ''application/json; charset=utf-8'' False)"

section \<open>Routes\<close>

datatype ui_page = Index | Static string | Locales string

text \<open>
  \<open>None\<close> is a path no route of the interface matches; it goes to the fallback, which serves the index to
  every method. The routes themselves are registered for \<open>GET\<close>, which also answers \<open>HEAD\<close>; every other
  method on them is refused by the router.
\<close>

definition wildcard :: "string \<Rightarrow> string \<Rightarrow> string option" where
  "wildcard p path = (case strip_prefix p path of Some r \<Rightarrow> if r = [] then None else Some r | None \<Rightarrow> None)"

definition ui_match :: "string \<Rightarrow> ui_page option" where
  "ui_match path =
     (if path = ''/'' then Some Index
      else case wildcard ''/static/'' path of
             Some r \<Rightarrow> Some (Static r)
           | None \<Rightarrow> map_option Locales (wildcard ''/locales/'' path))"

definition method_not_allowed :: "string \<Rightarrow> http_response" where
  "method_not_allowed allow = \<lparr> hs_status = 405, hs_body = [], hs_headers = [(''allow'', allow)] \<rparr>"

text \<open>
  The wildcard is percent-decoded before the handler sees it; \<open>pct\<close> is that extractor, with the answer it
  gives when the bytes are not UTF-8. The body of an answer to \<open>HEAD\<close> is removed.
\<close>

definition serve_page :: "assets \<Rightarrow> (string \<Rightarrow> (http_response, string) result) \<Rightarrow> ui_page \<Rightarrow> http_response" where
  "serve_page A pct page =
     (case page of
        Index \<Rightarrow> serve_index A
      | Static r \<Rightarrow> (case pct r of Inl resp \<Rightarrow> resp | Inr p \<Rightarrow> serve_static A p)
      | Locales r \<Rightarrow> (case pct r of Inl resp \<Rightarrow> resp | Inr p \<Rightarrow> serve_locales A p))"

definition ui_serve :: "assets \<Rightarrow> (string \<Rightarrow> (http_response, string) result) \<Rightarrow> http_method \<Rightarrow> string \<Rightarrow> http_response" where
  "ui_serve A pct method path =
     (case ui_match path of
        None \<Rightarrow> serve_index A
      | Some page \<Rightarrow>
          if method = GET then serve_page A pct page
          else if method = HEAD then (serve_page A pct page) \<lparr> hs_body := [] \<rparr>
          else method_not_allowed ''GET,HEAD'')"

section \<open>Lemmas\<close>

lemma serve_named_Some: "as_get A name = Some data \<Longrightarrow> serve_named A name ct cacheable =
    \<lparr> hs_status = 200, hs_body = data,
      hs_headers = [(''content-type'', ct), (''cache-control'', if cacheable then cache_briefly else cache_never)] \<rparr>"
  by (simp add: serve_named_def hm_put_def)

lemma serve_named_None: "as_get A name = None \<Longrightarrow> serve_named A name ct cacheable = not_found"
  by (simp add: serve_named_def)

text \<open>A successful answer that is an embedded file.\<close>

definition file_of :: "assets \<Rightarrow> string \<Rightarrow> string \<Rightarrow> http_response \<Rightarrow> bool" where
  "file_of A name cc r = (hs_status r = 200 \<and> as_get A name = Some (hs_body r)
     \<and> map_of (hs_headers r) ''cache-control'' = Some cc)"

lemma serve_named_file: "serve_named A name ct cacheable = not_found
    \<or> file_of A name (if cacheable then cache_briefly else cache_never) (serve_named A name ct cacheable)"
  by (cases "as_get A name") (simp_all add: file_of_def serve_named_Some serve_named_None)

lemma serve_file:
  "serve_index A = not_found \<or> file_of A ''index.html'' cache_never (serve_index A)"
  "serve_static A path = not_found \<or> file_of A (''static/'' @ path) cache_briefly (serve_static A path)"
  "serve_locales A path = not_found \<or> file_of A (''locales/'' @ path) cache_never (serve_locales A path)"
  using serve_named_file[of A "''index.html''" "''text/html; charset=utf-8''" False]
    serve_named_file[of A "''static/'' @ path" "as_mime A path" True]
    serve_named_file[of A "''locales/'' @ path" "''application/json; charset=utf-8''" False]
  by (simp_all add: serve_index_def serve_static_def serve_locales_def Let_def)

section \<open>Properties\<close>


end
