(* ===== verification/Metrics.thy ===== *)
theory Metrics
  imports Http
begin

text \<open>
  The Prometheus metrics (\<open>src/observability/metrics.rs\<close>): the series of \<open>MetricsService\<close>, what each
  recording method does to them, and the middleware \<open>MetricsLayer\<close> as a step relation over the requests
  in progress. A series is created with value zero when its labels are first used, which is what
  \<open>with_label_values\<close> documents; a histogram is its count, its sum and its per-bucket counts. Durations
  are nanoseconds, so the bounds of the buckets are, too; counters are the number of increments.
\<close>

section \<open>Series\<close>

record histogram =
  hg_counts :: "nat list"
  hg_sum :: nat
  hg_count :: nat

definition duration_buckets :: "nat list" where
  "duration_buckets = [5000000, 10000000, 25000000, 50000000, 100000000, 250000000, 500000000,
     1000000000, 2500000000, 5000000000, 10000000000]"

definition histogram_new :: histogram where
  "histogram_new = \<lparr> hg_counts = map (\<lambda>_. 0) duration_buckets, hg_sum = 0, hg_count = 0 \<rparr>"

text \<open>The bucket with the least upper bound that holds the value; beyond the last one only the totals grow.\<close>

fun bucket_of :: "nat list \<Rightarrow> nat \<Rightarrow> nat option" where
  "bucket_of [] v = None"
| "bucket_of (b # bs) v = (if v \<le> b then Some 0 else map_option Suc (bucket_of bs v))"

definition observe :: "nat \<Rightarrow> histogram \<Rightarrow> histogram" where
  "observe v h = h \<lparr> hg_counts := (case bucket_of duration_buckets v of
         None \<Rightarrow> hg_counts h | Some i \<Rightarrow> (hg_counts h)[i := hg_counts h ! i + 1]),
       hg_sum := hg_sum h + v, hg_count := hg_count h + 1 \<rparr>"

record metrics =
  mt_requests_total :: "(string \<times> string \<times> string, nat) hmap"
  mt_duration :: "(string \<times> string, histogram) hmap"
  mt_in_flight :: "(string, int) hmap"
  mt_clients_healthy :: "(string, int) hmap"
  mt_cache_hits :: nat
  mt_cache_misses :: nat
  mt_audit_entries :: nat

definition metrics_new :: metrics where
  "metrics_new = \<lparr> mt_requests_total = hm_empty, mt_duration = hm_empty, mt_in_flight = hm_empty,
     mt_clients_healthy = hm_empty, mt_cache_hits = 0, mt_cache_misses = 0, mt_audit_entries = 0 \<rparr>"

text \<open>\<open>with_label_values\<close>, then an update of the series.\<close>

definition with_series :: "'v \<Rightarrow> ('v \<Rightarrow> 'v) \<Rightarrow> 'k \<Rightarrow> ('k, 'v) hmap \<Rightarrow> ('k, 'v) hmap" where
  "with_series zero f k m = hm_put k (f (opt_or zero (hm_get m k))) m"

section \<open>Recording\<close>

definition record_proxmox_cache :: "bool \<Rightarrow> metrics \<Rightarrow> metrics" where
  "record_proxmox_cache hit m =
     (if hit then m \<lparr> mt_cache_hits := mt_cache_hits m + 1 \<rparr> else m \<lparr> mt_cache_misses := mt_cache_misses m + 1 \<rparr>)"

definition record_audit_log :: "metrics \<Rightarrow> metrics" where
  "record_audit_log m = m \<lparr> mt_audit_entries := mt_audit_entries m + 1 \<rparr>"

definition set_cluster_health :: "string \<Rightarrow> bool \<Rightarrow> metrics \<Rightarrow> metrics" where
  "set_cluster_health cluster healthy m =
     m \<lparr> mt_clients_healthy := with_series 0 (\<lambda>_. if healthy then 1 else 0) cluster (mt_clients_healthy m) \<rparr>"

definition start_request :: "string \<Rightarrow> metrics \<Rightarrow> metrics" where
  "start_request method m = m \<lparr> mt_in_flight := with_series 0 (\<lambda>v. v + 1) method (mt_in_flight m) \<rparr>"

definition end_request :: "string \<Rightarrow> string \<Rightarrow> nat \<Rightarrow> nat \<Rightarrow> metrics \<Rightarrow> metrics" where
  "end_request method path status elapsed m =
     m \<lparr> mt_requests_total := with_series 0 Suc (method, path, show_nat status) (mt_requests_total m),
         mt_duration := with_series histogram_new (observe elapsed) (method, path) (mt_duration m),
         mt_in_flight := with_series 0 (\<lambda>v. v - 1) method (mt_in_flight m) \<rparr>"

section \<open>The middleware\<close>

text \<open>
  A call runs in two pieces: \<open>call\<close> starts the request and builds the future, and the future records
  the end once the inner service has answered, with 500 if it failed. When the connection is closed
  the server drops the future where it waits, and the second piece never runs.
\<close>

datatype mw_phase = Waiting | Answered nat nat | Discarded

record mw_call =
  mw_method :: string
  mw_path :: string
  mw_start :: nat
  mw_phase :: mw_phase

type_synonym mw_state = "metrics \<times> mw_call list"

definition mw_begin :: "string \<Rightarrow> string \<Rightarrow> nat \<Rightarrow> mw_state \<Rightarrow> mw_state" where
  "mw_begin method path now s =
     (start_request method (fst s),
      snd s @ [\<lparr> mw_method = method, mw_path = path, mw_start = now, mw_phase = Waiting \<rparr>])"

text \<open>The status of the response, or \<open>None\<close> for an error of the inner service.\<close>

definition mw_end :: "nat \<Rightarrow> nat option \<Rightarrow> nat \<Rightarrow> mw_state \<Rightarrow> mw_state" where
  "mw_end i outcome now s =
     (let c = snd s ! i; status = opt_or 500 outcome; elapsed = now - mw_start c
      in (end_request (mw_method c) (mw_path c) status elapsed (fst s),
          (snd s)[i := c \<lparr> mw_phase := Answered status elapsed \<rparr>]))"

definition mw_drop :: "nat \<Rightarrow> mw_state \<Rightarrow> mw_state" where
  "mw_drop i s = (fst s, (snd s)[i := (snd s ! i) \<lparr> mw_phase := Discarded \<rparr>])"

inductive mw_step :: "mw_state \<Rightarrow> mw_state \<Rightarrow> bool" where
  arrive: "mw_step s (mw_begin method path now s)"
| answer: "i < length (snd s) \<Longrightarrow> mw_phase (snd s ! i) = Waiting \<Longrightarrow> mw_step s (mw_end i outcome now s)"
| abandon: "i < length (snd s) \<Longrightarrow> mw_phase (snd s ! i) = Waiting \<Longrightarrow> mw_step s (mw_drop i s)"
| cache: "mw_step s (record_proxmox_cache hit (fst s), snd s)"
| audit: "mw_step s (record_audit_log (fst s), snd s)"
| health: "mw_step s (set_cluster_health cluster ok (fst s), snd s)"

inductive_cases mw_stepE: "mw_step s s'"

section \<open>What the series should say\<close>

text \<open>The metrics as functions of the calls: how many have a property, and the durations of the answered ones.\<close>

definition calls :: "(mw_call \<Rightarrow> bool) \<Rightarrow> mw_call list \<Rightarrow> nat" where
  "calls P cs = length (filter P cs)"

definition answered_with :: "string \<times> string \<times> string \<Rightarrow> mw_call \<Rightarrow> bool" where
  "answered_with k c = (mw_method c = fst k \<and> mw_path c = fst (snd k)
     \<and> (case mw_phase c of Answered st _ \<Rightarrow> show_nat st = snd (snd k) | _ \<Rightarrow> False))"

fun durations :: "string \<times> string \<Rightarrow> mw_call list \<Rightarrow> nat list" where
  "durations k [] = []"
| "durations k (c # cs) =
     (case mw_phase c of
        Answered _ v \<Rightarrow> if (mw_method c, mw_path c) = k then v # durations k cs else durations k cs
      | _ \<Rightarrow> durations k cs)"

definition histogram_of :: "nat list \<Rightarrow> histogram" where
  "histogram_of vs = \<lparr> hg_counts = map (\<lambda>i. length (filter (\<lambda>v. bucket_of duration_buckets v = Some i) vs))
         [0..<length duration_buckets],
       hg_sum = sum_list vs, hg_count = length vs \<rparr>"

definition waiting :: "string \<Rightarrow> mw_call \<Rightarrow> bool" where
  "waiting m c = (mw_method c = m \<and> mw_phase c = Waiting)"

definition discarded :: "string \<Rightarrow> mw_call \<Rightarrow> bool" where
  "discarded m c = (mw_method c = m \<and> mw_phase c = Discarded)"

definition metrics_ok :: "mw_state \<Rightarrow> bool" where
  "metrics_ok s =
     ((\<forall>k. opt_or 0 (hm_get (mt_requests_total (fst s)) k) = calls (answered_with k) (snd s))
      \<and> (\<forall>k. opt_or histogram_new (hm_get (mt_duration (fst s)) k) = histogram_of (durations k (snd s)))
      \<and> (\<forall>m. opt_or 0 (hm_get (mt_in_flight (fst s)) m)
              = int (calls (waiting m) (snd s)) + int (calls (discarded m) (snd s))))"

section \<open>Lemmas\<close>

lemma series_get [simp]: "opt_or zero (hm_get (with_series zero f k m) k')
    = (if k' = k then f (opt_or zero (hm_get m k)) else opt_or zero (hm_get m k'))"
  by (simp add: with_series_def hm_get_put)

lemma calls_append [simp]: "calls P (cs @ [c]) = calls P cs + (if P c then 1 else 0)"
  by (simp add: calls_def)

lemma calls_update:
  "i < length cs \<Longrightarrow> calls P (cs[i := c]) + (if P (cs ! i) then 1 else 0) = calls P cs + (if P c then 1 else 0)"
proof (induction cs arbitrary: i)
  case (Cons x xs)
  then show ?case by (cases i) (auto simp: calls_def)
qed simp

lemma bucket_of_less: "bucket_of bs v = Some i \<Longrightarrow> i < length bs"
  by (induction bs arbitrary: i) (auto split: if_splits)

lemma durations_append [simp]: "durations k (cs @ ds) = durations k cs @ durations k ds"
  by (induction cs) (auto split: mw_phase.split)

lemma histogram_of_mset:
  assumes "mset vs = mset ws"
  shows "histogram_of vs = histogram_of ws"
proof -
  have "length (filter P vs) = length (filter P ws)" for P
    using assms by (metis mset_filter size_mset)
  moreover have "sum_list vs = sum_list ws" "length vs = length ws"
    using assms by (metis sum_mset_sum_list, metis size_mset)
  ultimately show ?thesis by (simp add: histogram_of_def)
qed

lemma histogram_of_observe: "observe v (histogram_of vs) = histogram_of (v # vs)"
proof (cases "bucket_of duration_buckets v")
  case None
  then show ?thesis by (simp add: observe_def histogram_of_def)
next
  case (Some i)
  then have "i < length duration_buckets" by (rule bucket_of_less)
  then have "(hg_counts (histogram_of vs))[i := hg_counts (histogram_of vs) ! i + 1] = hg_counts (histogram_of (v # vs))"
    by (intro nth_equalityI) (simp_all add: histogram_of_def nth_list_update Some)
  then show ?thesis by (simp add: observe_def histogram_of_def Some)
qed

lemma histogram_new_of: "histogram_new = histogram_of []"
  by (simp add: histogram_new_def histogram_of_def duration_buckets_def upt_rec)

lemma durations_update:
  assumes "i < length cs" "mw_phase (cs ! i) = Waiting"
  shows "mset (durations k (cs[i := (cs ! i) \<lparr> mw_phase := p \<rparr>]))
      = mset (durations k [(cs ! i) \<lparr> mw_phase := p \<rparr>]) + mset (durations k cs)"
proof -
  have split: "cs = take i cs @ cs ! i # drop (Suc i) cs" using assms(1) by (rule id_take_nth_drop)
  have "durations k cs = durations k (take i cs) @ durations k (drop (Suc i) cs)"
    by (subst split) (simp add: assms(2))
  moreover have "durations k (cs[i := c]) = durations k (take i cs) @ durations k [c] @ durations k (drop (Suc i) cs)" for c
    using assms(1) by (simp add: upd_conv_take_nth_drop split: mw_phase.split)
  ultimately show ?thesis by simp
qed

lemma metrics_okD:
  assumes "metrics_ok s"
  shows "opt_or 0 (hm_get (mt_requests_total (fst s)) k) = calls (answered_with k) (snd s)"
    and "opt_or histogram_new (hm_get (mt_duration (fst s)) k') = histogram_of (durations k' (snd s))"
    and "opt_or 0 (hm_get (mt_in_flight (fst s)) m) = int (calls (waiting m) (snd s)) + int (calls (discarded m) (snd s))"
  using assms unfolding metrics_ok_def by blast+

lemma metrics_new_ok: "metrics_ok (metrics_new, [])"
  by (simp add: metrics_ok_def metrics_new_def calls_def histogram_new_of)

lemma metrics_ok_begin: "metrics_ok s \<Longrightarrow> metrics_ok (mw_begin method path now s)"
  by (auto simp: metrics_ok_def mw_begin_def start_request_def answered_with_def waiting_def discarded_def)

lemma metrics_ok_end:
  assumes ok: "metrics_ok s" and i: "i < length (snd s)" "mw_phase (snd s ! i) = Waiting"
  shows "metrics_ok (mw_end i outcome now s)"
proof -
  let ?c = "snd s ! i"
  let ?v = "now - mw_start ?c"
  let ?c' = "?c \<lparr> mw_phase := Answered (opt_or 500 outcome) ?v \<rparr>"
  have hist: "histogram_of (durations k ((snd s)[i := ?c'])) = (if (mw_method ?c, mw_path ?c) = k
      then observe ?v (histogram_of (durations k (snd s))) else histogram_of (durations k (snd s)))" for k
    using durations_update[OF i, of k "Answered (opt_or 500 outcome) ?v"]
    by (auto simp: histogram_of_observe intro: histogram_of_mset)
  have cnt: "calls P ((snd s)[i := ?c']) + (if P ?c then 1 else 0) = calls P (snd s) + (if P ?c' then 1 else 0)" for P
    using i(1) by (rule calls_update)
  note tot = metrics_okD(1)[OF ok] and dur = metrics_okD(2)[OF ok] and fl = metrics_okD(3)[OF ok]
  have "opt_or 0 (hm_get (mt_requests_total (fst (mw_end i outcome now s))) k)
      = calls (answered_with k) (snd (mw_end i outcome now s))" for k
    using cnt[of "answered_with k"] i(2) by (cases k) (auto simp: mw_end_def Let_def end_request_def tot answered_with_def)
  moreover have "opt_or histogram_new (hm_get (mt_duration (fst (mw_end i outcome now s))) k)
      = histogram_of (durations k (snd (mw_end i outcome now s)))" for k
    by (auto simp: mw_end_def Let_def end_request_def hist dur)
  moreover have "opt_or 0 (hm_get (mt_in_flight (fst (mw_end i outcome now s))) m)
      = int (calls (waiting m) (snd (mw_end i outcome now s))) + int (calls (discarded m) (snd (mw_end i outcome now s)))" for m
    using cnt[of "waiting m"] cnt[of "discarded m"] i(2)
    by (auto simp: mw_end_def Let_def end_request_def fl waiting_def discarded_def)
  ultimately show ?thesis unfolding metrics_ok_def by blast
qed

lemma metrics_ok_drop:
  assumes ok: "metrics_ok s" and i: "i < length (snd s)" "mw_phase (snd s ! i) = Waiting"
  shows "metrics_ok (mw_drop i s)"
proof -
  let ?c' = "(snd s ! i) \<lparr> mw_phase := Discarded \<rparr>"
  have "histogram_of (durations k ((snd s)[i := ?c'])) = histogram_of (durations k (snd s))" for k
    using durations_update[OF i, of k Discarded] by (auto intro: histogram_of_mset)
  moreover have cnt: "calls P ((snd s)[i := ?c']) + (if P (snd s ! i) then 1 else 0) = calls P (snd s) + (if P ?c' then 1 else 0)" for P
    using i(1) by (rule calls_update)
  have "calls (answered_with k) ((snd s)[i := ?c']) = calls (answered_with k) (snd s)" for k
    using cnt[of "answered_with k"] i(2) by (simp add: answered_with_def)
  moreover have "calls (waiting m) ((snd s)[i := ?c']) + calls (discarded m) ((snd s)[i := ?c'])
      = calls (waiting m) (snd s) + calls (discarded m) (snd s)" for m
    using cnt[of "waiting m"] cnt[of "discarded m"] i(2) by (auto simp: waiting_def discarded_def split: if_splits)
  ultimately show ?thesis using ok unfolding metrics_ok_def mw_drop_def
    by (simp flip: of_nat_add)
qed

lemma metrics_ok_others:
  "metrics_ok s \<Longrightarrow> metrics_ok (record_proxmox_cache hit (fst s), snd s)"
  "metrics_ok s \<Longrightarrow> metrics_ok (record_audit_log (fst s), snd s)"
  "metrics_ok s \<Longrightarrow> metrics_ok (set_cluster_health cluster healthy (fst s), snd s)"
  by (simp_all add: metrics_ok_def record_proxmox_cache_def record_audit_log_def set_cluster_health_def)

lemma metrics_ok_step [step_inv]: "mw_step s s' \<Longrightarrow> metrics_ok s \<Longrightarrow> metrics_ok s'"
  by (erule mw_stepE) (simp_all add: metrics_ok_begin metrics_ok_end metrics_ok_drop metrics_ok_others)

lemma metrics_ok_reachable: "mw_step\<^sup>*\<^sup>* (metrics_new, []) s \<Longrightarrow> metrics_ok s"
  by (induction rule: rtranclp_induct) (auto intro: metrics_new_ok metrics_ok_step)

text \<open>A call that was given up stays given up.\<close>

lemma discarded_grows: "mw_step s s' \<Longrightarrow> calls (discarded m) (snd s) \<le> calls (discarded m) (snd s')"
proof (erule mw_stepE)
  fix i outcome now
  assume "s' = mw_end i outcome now s" "i < length (snd s)" "mw_phase (snd s ! i) = Waiting"
  then show ?thesis using calls_update[of i "snd s" "discarded m"] by (simp add: mw_end_def Let_def discarded_def)
next
  fix i
  assume "s' = mw_drop i s" "i < length (snd s)" "mw_phase (snd s ! i) = Waiting"
  then show ?thesis using calls_update[of i "snd s" "discarded m"] by (auto simp: mw_drop_def discarded_def split: if_splits)
qed (simp_all add: mw_begin_def)

lemma discarded_steps: "mw_step\<^sup>*\<^sup>* s s' \<Longrightarrow> calls (discarded m) (snd s) \<le> calls (discarded m) (snd s')"
  by (induction rule: rtranclp_induct) (auto dest: discarded_grows intro: order_trans)

section \<open>Properties\<close>


definition demo_metrics :: mw_state where
  "demo_metrics = mw_drop 1 (mw_end 0 (Some 200) 30000000 (mw_begin ''GET'' ''/b'' 7 (mw_begin ''GET'' ''/a'' 0 (metrics_new, []))))"

lemma demo_metrics_run: "mw_step\<^sup>*\<^sup>* (metrics_new, []) demo_metrics"
proof -
  let ?a = "mw_begin ''GET'' ''/a'' 0 (metrics_new, [])"
  let ?b = "mw_begin ''GET'' ''/b'' 7 ?a"
  have "mw_step (metrics_new, []) ?a" "mw_step ?a ?b" by (rule mw_step.arrive)+
  moreover have "mw_step ?b (mw_end 0 (Some 200) 30000000 ?b)" by (rule mw_step.answer) (simp_all add: mw_begin_def)
  moreover have "mw_step (mw_end 0 (Some 200) 30000000 ?b) demo_metrics"
    unfolding demo_metrics_def by (rule mw_step.abandon) (simp_all add: mw_begin_def mw_end_def Let_def)
  ultimately show ?thesis by (meson converse_rtranclp_into_rtranclp rtranclp.rtrancl_refl)
qed


text \<open>The in-flight gauge leaks: once a call of a method was given up by its client, the gauge of that method
  never again falls to the number of calls in progress, in any continuation.\<close>

theorem in_flight_gauge_leaks:
  assumes "mw_step\<^sup>*\<^sup>* (metrics_new, []) s" "i < length (snd s)" "mw_phase (snd s ! i) = Waiting"
    and "mw_step\<^sup>*\<^sup>* (mw_drop i s) s'"
  shows "opt_or 0 (hm_get (mt_in_flight (fst s')) (mw_method (snd s ! i))) > int (calls (waiting (mw_method (snd s ! i))) (snd s'))"
proof -
  let ?m = "mw_method (snd s ! i)"
  have "mw_step s (mw_drop i s)" using assms(2,3) by (rule mw_step.abandon)
  then have "mw_step\<^sup>*\<^sup>* (metrics_new, []) s'" using assms(1,4) by (meson converse_rtranclp_into_rtranclp rtranclp_trans)
  then have "metrics_ok s'" by (rule metrics_ok_reachable)
  moreover have "calls (discarded ?m) (snd (mw_drop i s)) = calls (discarded ?m) (snd s) + 1"
    using calls_update[OF assms(2), of "discarded ?m" "(snd s ! i) \<lparr> mw_phase := Discarded \<rparr>"] assms(3)
    by (simp add: mw_drop_def discarded_def)
  then have "0 < calls (discarded ?m) (snd s')" using discarded_steps[OF assms(4), of ?m] by linarith
  ultimately show ?thesis using metrics_okD(3)[of s' ?m] by simp
qed

theorem in_flight_gauge_leaks_witness:
  "opt_or 0 (hm_get (mt_in_flight (fst (mw_drop 0 (mw_begin ''GET'' ''/a'' 0 (metrics_new, []))))) ''GET'') > 0"
proof -
  let ?a = "mw_begin ''GET'' ''/a'' 0 (metrics_new, [])"
  have "mw_step\<^sup>*\<^sup>* (metrics_new, []) ?a" by (rule r_into_rtranclp) (rule mw_step.arrive)
  from in_flight_gauge_leaks[OF this, of 0 "mw_drop 0 ?a"] show ?thesis
    by (simp add: mw_begin_def)
qed

end
