(* ===== verification/Application.thy ===== *)
theory Application
  imports Dispatch Startup Ui Metrics
begin

text \<open>
  The application: a request finds its route, passes the layers of the route's scope, is read by the
  extractors of the handler and served by the handler on the shared state (\<open>src/api/mod.rs\<close> with the handlers
  of \<open>src/api/\<close> and the state of \<open>src/state.rs\<close>). What the components guarantee one by one is here stated of whole
  requests.
\<close>

section \<open>Finding the route\<close>

text \<open>
  Of the routes that match a path the router takes the one that is literal at the first segment in which
  they differ, which is the priority the \<open>matchit\<close> crate documents. Paths no route of the interface matches
  go to the embedded UI.
\<close>

definition is_param :: "string \<Rightarrow> bool" where "is_param p = (p \<noteq> [] \<and> hd p = CHR '':'')"

fun beats :: "string list \<Rightarrow> string list \<Rightarrow> bool" where
  "beats (p # ps) (q # qs) = (if is_param p = is_param q then beats ps qs else is_param q)"
| "beats _ _ = False"

definition api_routes :: "(scope \<times> route) list" where
  "api_routes = map (Pair Public) public_routes @ map (Pair Protected) protected_routes
     @ map (Pair ClusterScoped) cluster_scoped_routes"

definition resolve :: "string \<Rightarrow> (scope \<times> route \<times> (string \<times> string) list) option" where
  "resolve path =
     foldl (\<lambda>best (sc, r).
       case match_route (fst r) path of
         None \<Rightarrow> best
       | Some binds \<Rightarrow>
           (case best of
              None \<Rightarrow> Some (sc, r, binds)
            | Some (sc', r', binds') \<Rightarrow>
                if beats (split_on (CHR ''/'') (fst r)) (split_on (CHR ''/'') (fst r')) then Some (sc, r, binds) else best))
       None api_routes"

text \<open>The handler of a method; \<open>GET\<close> also answers \<open>HEAD\<close>. The methods of a route as its 405 lists them.\<close>

definition method_handler :: "(http_method \<times> string) list \<Rightarrow> http_method \<Rightarrow> string option" where
  "method_handler ms m =
     (case map_of ms m of Some h \<Rightarrow> Some h | None \<Rightarrow> if m = HEAD then map_of ms GET else None)"

definition allow_header :: "(http_method \<times> string) list \<Rightarrow> string" where
  "allow_header ms = join_with '','' (concat (map (\<lambda>(m, h). if m = GET then [''GET'', ''HEAD''] else [method_str m]) ms))"

section \<open>The surroundings of a request\<close>

datatype reply =
    VmAnswer vm_reply | VmsAnswer vms_response | VmRowAnswer vm_row | LxcAnswer lxc_answer | InfraAnswer infra_reply
  | LxcsAnswer lxcs_response | StoragesAnswer storages_response | NetworksAnswer networks_response
  | GroupsAnswer ha_groups_response | JobsAnswer replication_list_response | JsonAnswer json
  | DashboardAnswer dashboard_response | LayoutAnswer custom_dashboard | WidgetsAnswer "json list" | MeAnswer claims
  | AuditAnswer audit_result | SessionAnswer auth_request auth_state | ChallengeAnswer string
  | LoginAnswer login_response | HealthAnswer health_response | UnreadyAnswer unready_response | VncAnswer vnc_ticket_response

text \<open>
  The parameters of the components and the draws of this request: \<open>av_text\<close> prints a reply as JSON,
  \<open>av_panic\<close> stands for the closed connection a panicking handler leaves to its client.
\<close>

record ('w, 'k, 'r, 'a, 'cred, 'asr, 'z) app_env =
  av_px :: "'w px_env"
  av_auth :: auth_env
  av_draw :: draw
  av_order :: "nat list"
  av_storages_first :: bool
  av_decoders :: decoders
  av_resources :: "string \<Rightarrow> (string, vm_resource list) result"
  av_lxc :: "string \<Rightarrow> (string, lxc_status option) result"
  av_infra :: infra_decoders
  av_groups :: "string \<Rightarrow> (string, ha_group list) result"
  av_jobs :: "string \<Rightarrow> (string, replication_job list) result"
  av_dash :: dash_decoders
  av_vnc :: "string \<Rightarrow> (string, vnc_proxy_ticket) result"
  av_codec :: vnc_codec
  av_lower :: "string \<Rightarrow> string"
  av_crate :: "('k, 'r, 'a, 'cred, 'asr, 'z) wa_crate"
  av_uuid :: string
  av_wa_rnd :: string
  av_fs :: layout_fs
  av_db :: "(string, unit) result"
  av_instant :: "'w \<Rightarrow> nat"
  av_metrics :: "metrics option"
  av_encode :: "metrics \<Rightarrow> (string, string) result"
  av_build :: "string \<times> string \<times> string"
  av_assets :: assets
  av_to_str :: header_to_str
  av_decode :: jwt_decode
  av_text :: "reply \<Rightarrow> string"
  av_panic :: http_response

type_synonym ('ek, 'dk, 'k, 'r, 'a, 'w) app = "('ek, 'dk, 'k, 'r, 'a) app_state \<times> 'w"

definition app_users :: "('ek, 'dk, 'k, 'r, 'a, 'w) app \<Rightarrow> user_store" where
  "app_users st = as_users (st_auth (fst st))"

definition app_fleet :: "('ek, 'dk, 'k, 'r, 'a, 'w) app \<Rightarrow> 'w fleet" where
  "app_fleet st = (st_clients (fst st), snd st)"

section \<open>Serving a call\<close>

definition on_fleet :: "('w fleet \<Rightarrow> 'x \<times> 'w fleet) \<Rightarrow> ('ek, 'dk, 'k, 'r, 'a, 'w) app \<Rightarrow> 'x \<times> ('ek, 'dk, 'k, 'r, 'a, 'w) app" where
  "on_fleet f st = (let (x, cs, w) = f (app_fleet st) in (x, (fst st) \<lparr> st_clients := cs \<rparr>, w))"

definition reply_with :: "('w, 'k, 'r, 'a, 'cred, 'asr, 'z) app_env \<Rightarrow> ('x \<Rightarrow> reply) \<Rightarrow> 'x \<times> 'st \<Rightarrow> http_response \<times> 'st" where
  "reply_with env wrap x = (response 200 (av_text env (wrap (fst x))), snd x)"

definition answer_with :: "('w, 'k, 'r, 'a, 'cred, 'asr, 'z) app_env \<Rightarrow> ('x \<Rightarrow> reply)
    \<Rightarrow> (app_error, 'x) result \<times> 'st \<Rightarrow> http_response \<times> 'st" where
  "answer_with env wrap x =
     (case fst x of Inl e \<Rightarrow> error_response e | Inr v \<Rightarrow> response 200 (av_text env (wrap v)), snd x)"

fun serve_probe :: "('w, 'k, 'r, 'a, 'cred, 'asr, 'z) app_env \<Rightarrow> probe \<Rightarrow> ('ek, 'dk, 'k, 'r, 'a, 'w) app
    \<Rightarrow> http_response \<times> ('ek, 'dk, 'k, 'r, 'a, 'w) app" where
  "serve_probe env Health st =
     (let (version, sha, profile) = av_build env in (response 200 (av_text env (HealthAnswer (health version sha profile))), st))"
| "serve_probe env Livez st = (response livez [], st)"
| "serve_probe env Readyz st =
     (let ((status, body), cache, cs, w) = readyz (av_px env) (dc_value (av_decoders env)) (av_instant env) (av_order env)
            (st_readiness (fst st), app_fleet st)
      in (response status (case body of None \<Rightarrow> [] | Some b \<Rightarrow> av_text env (UnreadyAnswer b)),
          (fst st) \<lparr> st_readiness := cache, st_clients := cs \<rparr>, w))"
| "serve_probe env MetricsPage st = (metrics_handler (av_encode env) (av_metrics env), st)"

fun serve_listing :: "('w, 'k, 'r, 'a, 'cred, 'asr, 'z) app_env \<Rightarrow> listing \<Rightarrow> ('ek, 'dk, 'k, 'r, 'a, 'w) app
    \<Rightarrow> http_response \<times> ('ek, 'dk, 'k, 'r, 'a, 'w) app" where
  "serve_listing env Lxcs st =
     reply_with env LxcsAnswer (on_fleet (list_lxcs (av_px env) (av_resources env) (av_order env)) st)"
| "serve_listing env Storages st =
     reply_with env StoragesAnswer (on_fleet (list_storages_handler (av_px env) (dc_storages (av_decoders env)) (av_order env)) st)"
| "serve_listing env Networks st =
     reply_with env NetworksAnswer (on_fleet (list_networks_handler (av_px env) (id_networks (av_infra env)) (av_order env)) st)"
| "serve_listing env Vlans st =
     reply_with env JsonAnswer (on_fleet (list_vlans (av_px env) (id_networks (av_infra env)) (av_order env)) st)"
| "serve_listing env HaGroups st =
     reply_with env GroupsAnswer (on_fleet (list_ha_groups_handler (av_px env) (av_groups env) (av_order env)) st)"
| "serve_listing env HaStatus st =
     reply_with env JsonAnswer (on_fleet (ha_status (av_px env) (id_json (av_infra env)) (av_order env)) st)"
| "serve_listing env Replication st =
     reply_with env JobsAnswer (on_fleet (list_replication_handler (av_px env) (av_jobs env) (av_order env)) st)"
| "serve_listing env CephStatus st =
     reply_with env JsonAnswer (on_fleet (ceph_status (av_px env) (id_json (av_infra env)) (av_order env)) st)"
| "serve_listing env CephPools st =
     reply_with env JsonAnswer (on_fleet (ceph_pools (av_px env) (id_json (av_infra env)) (av_order env)) st)"
| "serve_listing env SdnZones st =
     reply_with env JsonAnswer (on_fleet (sdn_zones (av_px env) (id_json (av_infra env)) (av_order env)) st)"
| "serve_listing env SdnVnets st =
     reply_with env JsonAnswer (on_fleet (sdn_vnets (av_px env) (id_json (av_infra env)) (av_order env)) st)"
| "serve_listing env FirewallRules st =
     reply_with env JsonAnswer (on_fleet (firewall_rules (av_px env) (id_json (av_infra env)) (av_order env)) st)"
| "serve_listing env ClusterStatus st =
     reply_with env JsonAnswer (on_fleet (cluster_status_handler (av_px env) (id_json (av_infra env)) (av_order env)) st)"
| "serve_listing env ClusterConfig st =
     reply_with env JsonAnswer (on_fleet (cluster_config_handler (av_px env) (id_json (av_infra env)) (av_order env)) st)"
| "serve_listing env ClusterOptions st =
     reply_with env JsonAnswer (on_fleet (cluster_options_handler (av_px env) (id_json (av_infra env)) (av_order env)) st)"
| "serve_listing env ClusterLog st =
     reply_with env JsonAnswer (on_fleet (cluster_log_handler (av_px env) (id_json (av_infra env)) (av_order env)) st)"
| "serve_listing env ClusterTasks st =
     reply_with env JsonAnswer (on_fleet (cluster_tasks_handler (av_px env) (id_json (av_infra env)) (av_order env)) st)"

fun serve_vm_read :: "('w, 'k, 'r, 'a, 'cred, 'asr, 'z) app_env \<Rightarrow> vm_read \<Rightarrow> ('ek, 'dk, 'k, 'r, 'a, 'w) app
    \<Rightarrow> http_response \<times> ('ek, 'dk, 'k, 'r, 'a, 'w) app" where
  "serve_vm_read env (VmList q) st =
     reply_with env VmsAnswer (on_fleet (list_vms (av_px env) (av_resources env) (av_lower env) (av_order env) q) st)"
| "serve_vm_read env (VmDetail cl vmid) st =
     answer_with env VmRowAnswer (on_fleet (vm_detail (av_px env) (av_resources env) cl vmid) st)"
| "serve_vm_read env (VmConfig cl node vmid) st =
     answer_with env JsonAnswer (on_fleet (vm_config_handler (av_px env) (dc_value (av_decoders env)) cl node vmid) st)"
| "serve_vm_read env (VmRrd cl node vmid t) st =
     answer_with env JsonAnswer (on_fleet (vm_rrddata_handler (av_px env) (dc_value (av_decoders env)) cl node vmid (Some t)) st)"

text \<open>The authentication handlers answer with a response of their own where they refuse.\<close>

definition on_auth :: "(auth_state \<Rightarrow> 'x \<times> auth_state) \<Rightarrow> ('ek, 'dk, 'k, 'r, 'a, 'w) app \<Rightarrow> 'x \<times> ('ek, 'dk, 'k, 'r, 'a, 'w) app" where
  "on_auth f st = (let (x, auth) = f (st_auth (fst st)) in (x, (fst st) \<lparr> st_auth := auth \<rparr>, snd st))"

definition on_passkeys :: "('k, 'r, 'a, 'x) wa_op \<Rightarrow> ('ek, 'dk, 'k, 'r, 'a, 'w) app
    \<Rightarrow> (http_response, 'x) result \<times> ('ek, 'dk, 'k, 'r, 'a, 'w) app" where
  "on_passkeys f st = (let (x, auth, wa) = f (st_auth (fst st), st_webauthn (fst st))
     in (x, (fst st) \<lparr> st_auth := auth, st_webauthn := wa \<rparr>, snd st))"

definition serve_auth :: "('w, 'k, 'r, 'a, 'cred, 'asr, 'z) app_env \<Rightarrow> auth_request \<Rightarrow> ('ek, 'dk, 'k, 'r, 'a, 'w) app
    \<Rightarrow> http_response \<times> ('ek, 'dk, 'k, 'r, 'a, 'w) app" where
  "serve_auth env rq st =
     (let (outcome, st') = on_auth (auth_serve (av_auth env) (av_draw env) rq) st
      in (case outcome of
            Accepted \<Rightarrow> response 200 (av_text env (SessionAnswer rq (st_auth (fst st))))
          | Refused resp \<Rightarrow> resp
          | Aborted \<Rightarrow> av_panic env, st'))"

definition passkey_answer :: "('w, 'k, 'r, 'a, 'cred, 'asr, 'z) app_env \<Rightarrow> ('x \<Rightarrow> reply)
    \<Rightarrow> (http_response, 'x) result \<times> 'st \<Rightarrow> http_response \<times> 'st" where
  "passkey_answer env wrap x = (case fst x of Inl resp \<Rightarrow> resp | Inr v \<Rightarrow> response 200 (av_text env (wrap v)), snd x)"

fun serve_passkey :: "('w, 'k, 'r, 'a, 'cred, 'asr, 'z) app_env \<Rightarrow> ('cred, 'asr) passkey_request
    \<Rightarrow> ('ek, 'dk, 'k, 'r, 'a, 'w) app \<Rightarrow> http_response \<times> ('ek, 'dk, 'k, 'r, 'a, 'w) app" where
  "serve_passkey env (RegisterStart auth) st =
     passkey_answer env ChallengeAnswer (on_passkeys (register_start (av_crate env) (av_uuid env) (av_wa_rnd env) auth) st)"
| "serve_passkey env (RegisterComplete auth cred) st =
     passkey_answer env ChallengeAnswer (on_passkeys (register_complete (av_crate env) auth cred) st)"
| "serve_passkey env (PasskeyStart name) st =
     passkey_answer env ChallengeAnswer (on_passkeys (passkey_login_start (av_crate env) (av_wa_rnd env) name) st)"
| "serve_passkey env (PasskeyComplete name cred) st =
     passkey_answer env LoginAnswer
       (on_passkeys (passkey_login_complete (av_crate env) (av_auth env) (av_draw env) name cred) st)"

definition serve_audit :: "('w, 'k, 'r, 'a, 'cred, 'asr, 'z) app_env \<Rightarrow> audit_params \<Rightarrow> ('ek, 'dk, 'k, 'r, 'a, 'w) app
    \<Rightarrow> http_response \<times> ('ek, 'dk, 'k, 'r, 'a, 'w) app" where
  "serve_audit env p st =
     (case list_audit (av_db env) p (st_audit (fst st)) of
        Inl (status, msg) \<Rightarrow> response status msg
      | Inr r \<Rightarrow> response 200 (av_text env (AuditAnswer r)), st)"

definition serve_vnc_connect :: "('w, 'k, 'r, 'a, 'cred, 'asr, 'z) app_env \<Rightarrow> string \<Rightarrow> string \<Rightarrow> nat \<Rightarrow> string
    \<Rightarrow> ('ek, 'dk, 'k, 'r, 'a, 'w) app \<Rightarrow> http_response \<times> ('ek, 'dk, 'k, 'r, 'a, 'w) app" where
  "serve_vnc_connect env cl node vmid token st =
     (let (r, vs, cs, w) = vnc_ws_handler (av_px env) (av_vnc env) (av_codec env) (st_vnc_secret (fst st)) cl node vmid token
            (st_vnc (fst st), app_fleet st)
      in (case r of Inl e \<Rightarrow> error_response e | Inr _ \<Rightarrow> response 101 [],
          (fst st) \<lparr> st_vnc := vs, st_clients := cs \<rparr>, w))"

fun serve_call :: "('w, 'k, 'r, 'a, 'cred, 'asr, 'z) app_env \<Rightarrow> ('cred, 'asr) call \<Rightarrow> ('ek, 'dk, 'k, 'r, 'a, 'w) app
    \<Rightarrow> http_response \<times> ('ek, 'dk, 'k, 'r, 'a, 'w) app" where
  "serve_call env (ProbeCall p) st = serve_probe env p st"
| "serve_call env (AuthCall rq) st = serve_auth env rq st"
| "serve_call env (PasskeyCall rq) st = serve_passkey env rq st"
| "serve_call env (MeCall auth) st = (response 200 (av_text env (MeAnswer (ac_claims auth))), st)"
| "serve_call env (AuditCall p) st = serve_audit env p st"
| "serve_call env (DashboardCall auth) st =
     reply_with env DashboardAnswer (on_fleet (dashboard (av_dash env) (av_storages_first env) (av_px env) (app_users st) auth
       (av_order env)) st)"
| "serve_call env (LayoutGet auth) st =
     (response 200 (av_text env (LayoutAnswer (get_custom_dashboard auth (st_dashboard_custom (fst st))))), st)"
| "serve_call env (LayoutSave auth d) st =
     (let (j, layouts) = save_custom_dashboard (av_fs env) auth d (st_dashboard_custom (fst st))
      in (response 200 (av_text env (JsonAnswer j)), (fst st) \<lparr> st_dashboard_custom := layouts \<rparr>, snd st))"
| "serve_call env WidgetTypes st = (response 200 (av_text env (WidgetsAnswer get_available_widget_types)), st)"
| "serve_call env (ListingCall l) st = serve_listing env l st"
| "serve_call env (VmReadCall r) st = serve_vm_read env r st"
| "serve_call env (VmCall auth rq) st =
     answer_with env VmAnswer (on_fleet (vm_serve (av_decoders env) (av_order env) auth rq (av_px env)) st)"
| "serve_call env (LxcCall auth rq) st =
     answer_with env LxcAnswer (on_fleet (lxc_serve (av_lxc env) (id_json (av_infra env)) (id_fmt (av_infra env)) auth rq (av_px env)) st)"
| "serve_call env (InfraCall auth rq) st =
     answer_with env InfraAnswer (on_fleet (infra_serve (av_infra env) auth rq (av_px env)) st)"
| "serve_call env (VncTicketCall auth cl node vmid) st =
     answer_with env VncAnswer (on_fleet (vnc_ticket_handler (av_px env) (av_vnc env) (av_codec env)
       (st_vnc_secret (fst st)) auth cl node vmid) st)"
| "serve_call env (VncConnectCall cl node vmid token) st = serve_vnc_connect env cl node vmid token st"

section \<open>Serving a request\<close>

text \<open>The handler named in the route, around it the extractors; the body of an answer to \<open>HEAD\<close> is dropped.\<close>

definition run_handler :: "('w, 'k, 'r, 'a, 'cred, 'asr, 'z) app_env \<Rightarrow> ('cred, 'asr) extraction \<Rightarrow> string \<Rightarrow> string list
    \<Rightarrow> ('ek, 'dk, 'k, 'r, 'a, 'w) app handler" where
  "run_handler env ex name segs rq st =
     (case map_of endpoints name of
        None \<Rightarrow> (reject ex 500, st)
      | Some ep \<Rightarrow> (case ep ex rq segs of Inl resp \<Rightarrow> (resp, st) | Inr c \<Rightarrow> serve_call env c st))"

definition without_body :: "http_method \<Rightarrow> http_response \<times> 'st \<Rightarrow> http_response \<times> 'st" where
  "without_body m x = (if m = HEAD then (fst x) \<lparr> hs_body := [] \<rparr> else fst x, snd x)"

definition decode_page :: "('cred, 'asr) extraction \<Rightarrow> string \<Rightarrow> (http_response, string) result" where
  "decode_page ex s = ok_or (reject ex 400) (ex_param ex s)"

definition route_request :: "('w, 'k, 'r, 'a, 'cred, 'asr, 'z) app_env \<Rightarrow> ('cred, 'asr) extraction
    \<Rightarrow> ('ek, 'dk, 'k, 'r, 'a, 'w) app handler" where
  "route_request env ex rq st =
     (case resolve (hq_path rq) of
        None \<Rightarrow> (ui_serve (av_assets env) (decode_page ex) (hq_method rq) (hq_path rq), st)
      | Some (sc, (pat, ms), binds) \<Rightarrow>
          (case method_handler ms (hq_method rq) of
             None \<Rightarrow> (method_not_allowed (allow_header ms), st)
           | Some name \<Rightarrow>
               without_body (hq_method rq)
                 (scoped (av_to_str env) (av_decode env) app_users sc (run_handler env ex name (map snd binds)) rq st)))"

text \<open>The whole stack; the audit table is part of the shared state, and the handlers see it as it is before the row of the request.\<close>

definition app_request :: "(8 word list \<Rightarrow> 'l \<Rightarrow> bool \<times> 'l)
    \<Rightarrow> (('l \<times> audit_db \<times> ('ek, 'dk, 'k, 'r, 'a, 'w) app) handler \<Rightarrow> ('l \<times> audit_db \<times> ('ek, 'dk, 'k, 'r, 'a, 'w) app) handler)
    \<Rightarrow> audit_env \<Rightarrow> ('w, 'k, 'r, 'a, 'cred, 'asr, 'z) app_env \<Rightarrow> ('cred, 'asr) extraction
    \<Rightarrow> ('l \<times> ('ek, 'dk, 'k, 'r, 'a, 'w) app) handler" where
  "app_request chk cors aenv env ex rq lst =
     (let (limits, st) = lst;
          (resp, limits', db, st') = serve chk cors aenv (av_decode env) app_users Public (route_request env ex) rq
            (limits, st_audit (fst st), st)
      in (resp, limits', (fst st') \<lparr> st_audit := db \<rparr>, snd st'))"

end
