(* ===== verification/Routing.thy ===== *)
theory Routing
  imports Application
begin

text \<open>
  Which route a path gets (\<open>src/api/mod.rs\<close>). \<open>resolve\<close> of \<open>Application\<close> walks the table once and keeps
  the best route so far. Here it is compared with the rule a reader of the table has in mind: the route of a path is
  the one route that matches and takes precedence over every other route that matches; no two routes tie, whatever the
  order in which they are mounted.
\<close>

section \<open>The order of patterns\<close>

text \<open>A pattern with the names of its parameters blanked.\<close>

definition shape :: "string list \<Rightarrow> string list" where
  "shape ps = map (\<lambda>p. if is_param p then '':'' else p) ps"

lemma beats_lengths: "beats ps qs \<Longrightarrow> length ps = length qs \<Longrightarrow> map is_param ps \<noteq> map is_param qs"
  by (induction ps qs rule: beats.induct) (auto split: if_splits)

lemma beats_trans:
  "length ps = length qs \<Longrightarrow> length qs = length rs \<Longrightarrow> beats ps qs \<Longrightarrow> beats qs rs \<Longrightarrow> beats ps rs"
  by (induction ps qs rs rule: list_induct3) (auto split: if_splits)

lemma beats_asym: "length ps = length qs \<Longrightarrow> beats ps qs \<Longrightarrow> \<not> beats qs ps"
  by (induction ps qs rule: list_induct2) (auto split: if_splits)

lemma beats_total:
  "length ps = length qs \<Longrightarrow> \<not> beats ps qs \<Longrightarrow> \<not> beats qs ps \<Longrightarrow> map is_param ps = map is_param qs"
  by (induction ps qs rule: list_induct2) (auto split: if_splits)

text \<open>Two patterns that match one path and are parameters at the same places have the same shape.\<close>

lemma match_length: "match_segs ps ss = Some b \<Longrightarrow> length ps = length ss"
  by (induction ps ss arbitrary: b rule: match_segs.induct) (auto split: if_splits)

lemma match_shape:
  "length ps = length qs \<Longrightarrow> length qs = length ss \<Longrightarrow> match_segs ps ss = Some b \<Longrightarrow> match_segs qs ss = Some c
     \<Longrightarrow> map is_param ps = map is_param qs \<Longrightarrow> shape ps = shape qs"
proof (induction ps qs ss arbitrary: b c rule: list_induct3)
  case (Cons p ps q qs s ss)
  have "shape ps = shape qs" using Cons.prems Cons.IH by (auto split: if_splits)
  moreover have "is_param p \<or> p = q" "is_param p = is_param q" using Cons.prems by (auto simp: is_param_def split: if_splits)
  ultimately show ?case by (auto simp: shape_def)
qed simp

section \<open>The table\<close>

definition segs_of :: "scope \<times> route \<Rightarrow> string list" where "segs_of x = split_on (CHR ''/'') (fst (snd x))"

text \<open>No two routes of the interface have the same shape.\<close>

lemma shapes_differ: "distinct (map (\<lambda>x. shape (segs_of x)) api_routes)"
  by code_simp

definition serves_path :: "string \<Rightarrow> scope \<times> route \<Rightarrow> bool" where
  "serves_path path x = (match_route (fst (snd x)) path \<noteq> None)"

text \<open>The first segment at which one pattern has a parameter and the other has not is literal in the first pattern.\<close>

definition precedes :: "scope \<times> route \<Rightarrow> scope \<times> route \<Rightarrow> bool" where
  "precedes x y = (\<exists>i < length (segs_of x). i < length (segs_of y)
     \<and> (\<forall>j<i. is_param (segs_of x ! j) = is_param (segs_of y ! j))
     \<and> \<not> is_param (segs_of x ! i) \<and> is_param (segs_of y ! i))"

lemma beats_eq: "beats ps qs \<longleftrightarrow> (\<exists>i < length ps. i < length qs \<and> (\<forall>j<i. is_param (ps ! j) = is_param (qs ! j))
     \<and> \<not> is_param (ps ! i) \<and> is_param (qs ! i))"
proof (induction ps qs rule: beats.induct)
  case (1 p ps q qs)
  then show ?case by (cases "is_param p = is_param q") (auto simp: Ex_less_Suc2 All_less_Suc2)
qed auto

lemma precedes_beats: "precedes x y = beats (segs_of x) (segs_of y)"
  by (simp add: precedes_def beats_eq)

lemma same_length:
  assumes "serves_path path x" "serves_path path y"
  shows "length (segs_of x) = length (segs_of y)"
  using assms by (auto simp: serves_path_def match_route_def segs_of_def dest!: match_length)

lemma precedes_trans:
  assumes "serves_path path x" "serves_path path y" "serves_path path z" "precedes x y" "precedes y z"
  shows "precedes x z"
  using beats_trans[OF same_length[OF assms(1,2)] same_length[OF assms(2,3)]] assms(4,5) unfolding precedes_beats by blast

lemma precedes_asym:
  assumes "serves_path path x" "serves_path path y" "precedes x y"
  shows "\<not> precedes y x"
  using beats_asym[OF same_length[OF assms(1,2)]] assms(3) unfolding precedes_beats by blast

lemma precedes_total:
  assumes "x \<in> set api_routes" "y \<in> set api_routes" "serves_path path x" "serves_path path y" "x \<noteq> y"
  shows "precedes x y \<or> precedes y x"
proof (rule ccontr)
  assume "\<not> ?thesis"
  then have "map is_param (segs_of x) = map is_param (segs_of y)"
    using beats_total same_length[OF assms(3,4)] unfolding precedes_beats by blast
  moreover obtain b c where "match_segs (segs_of x) (split_on (CHR ''/'') path) = Some b"
      "match_segs (segs_of y) (split_on (CHR ''/'') path) = Some c"
    using assms(3,4) by (auto simp: serves_path_def match_route_def segs_of_def)
  ultimately have "shape (segs_of x) = shape (segs_of y)"
    using match_shape[of "segs_of x" "segs_of y"] same_length[OF assms(3,4)] match_length by metis
  with shapes_differ assms(1,2,5) show False by (auto simp: distinct_map dest: inj_onD)
qed
section \<open>The choice\<close>

definition best_of :: "(scope \<times> route) set \<Rightarrow> string \<Rightarrow> scope \<times> route \<Rightarrow> bool" where
  "best_of R path x = (x \<in> R \<and> serves_path path x \<and> (\<forall>y\<in>R. serves_path path y \<longrightarrow> y = x \<or> precedes x y))"

definition pick :: "string \<Rightarrow> (scope \<times> route \<times> (string \<times> string) list) option \<Rightarrow> scope \<times> route
    \<Rightarrow> (scope \<times> route \<times> (string \<times> string) list) option" where
  "pick path best x = (case match_route (fst (snd x)) path of None \<Rightarrow> best
     | Some binds \<Rightarrow> (case best of None \<Rightarrow> Some (fst x, snd x, binds)
         | Some (sc', r', binds') \<Rightarrow> if precedes x (sc', r') then Some (fst x, snd x, binds) else best))"

definition picked :: "(scope \<times> route) set \<Rightarrow> string \<Rightarrow> (scope \<times> route \<times> (string \<times> string) list) option \<Rightarrow> bool" where
  "picked R path best = (case best of None \<Rightarrow> (\<forall>y\<in>R. \<not> serves_path path y)
     | Some (sc, r, binds) \<Rightarrow> best_of R path (sc, r) \<and> match_route (fst r) path = Some binds)"

lemma resolve_pick: "resolve path = foldl (pick path) None api_routes"
proof -
  have "(\<lambda>best (sc :: scope, r :: route). case match_route (fst r) path of None \<Rightarrow> best
       | Some binds \<Rightarrow> (case best of None \<Rightarrow> Some (sc, r, binds)
           | Some (sc', r', binds') \<Rightarrow> if beats (split_on (CHR ''/'') (fst r)) (split_on (CHR ''/'') (fst r'))
               then Some (sc, r, binds) else best)) = pick path"
    by (auto simp: fun_eq_iff pick_def precedes_beats segs_of_def split: option.splits)
  then show ?thesis unfolding resolve_def by (rule arg_cong)
qed

lemma pick_step:
  assumes "picked R path best" "R \<subseteq> set api_routes" "x \<in> set api_routes" "x \<notin> R"
  shows "picked (insert x R) path (pick path best x)"
proof (cases "match_route (fst (snd x)) path")
  case None
  with assms(1) show ?thesis
    by (auto simp: pick_def picked_def best_of_def serves_path_def split: option.splits)
next
  case (Some binds)
  then have x: "serves_path path x" by (simp add: serves_path_def)
  show ?thesis
  proof (cases best)
    case None
    with assms(1) Some x show ?thesis by (auto simp: pick_def picked_def best_of_def)
  next
    case (Some z)
    obtain sc r b where z: "best = Some (sc, r, b)" using Some by (cases z) auto
    then have w: "best_of R path (sc, r)" "match_route (fst r) path = Some b" using assms(1) by (auto simp: picked_def)
    then have k: "serves_path path (sc, r)" "(sc, r) \<in> set api_routes" "x \<noteq> (sc, r)"
      using assms(2,4) by (auto simp: best_of_def)
    have "best_of (insert x R) path (if precedes x (sc, r) then x else (sc, r))"
    proof (cases "precedes x (sc, r)")
      case True
      then have "serves_path path y \<Longrightarrow> y \<in> R \<Longrightarrow> precedes x y" for y
        using w(1) precedes_trans[OF x k(1), of y] by (auto simp: best_of_def)
      with True x show ?thesis by (auto simp: best_of_def)
    next
      case False
      then have "precedes (sc, r) x" using precedes_total[OF assms(3) k(2) x k(1) k(3)] by blast
      with False w(1) show ?thesis by (auto simp: best_of_def)
    qed
    with z w(2) \<open>match_route (fst (snd x)) path = Some binds\<close> show ?thesis by (auto simp: pick_def picked_def)
  qed
qed

lemma pick_fold:
  assumes "picked R path best" "R \<subseteq> set api_routes" "set xs \<subseteq> set api_routes" "distinct xs" "set xs \<inter> R = {}"
  shows "picked (R \<union> set xs) path (foldl (pick path) best xs)"
  using assms
proof (induction xs arbitrary: R best)
  case (Cons x xs)
  have "picked (insert x R) path (pick path best x)" using Cons.prems by (intro pick_step) auto
  then show ?case using Cons.IH[of "insert x R" "pick path best x"] Cons.prems by auto
qed simp

lemma resolve_picked: "picked (set api_routes) path (resolve path)"
proof -
  have "distinct api_routes" using shapes_differ by (simp add: distinct_map)
  then show ?thesis unfolding resolve_pick using pick_fold[of "{}" path None api_routes] by (simp add: picked_def)
qed

lemma best_of_unique: "best_of R path x \<Longrightarrow> best_of R path y \<Longrightarrow> x = y"
  unfolding best_of_def using precedes_asym by blast

section \<open>The property\<close>



end
