(* ===== verification/End_To_End.thy ===== *)
theory End_To_End
  imports Application
begin

text \<open>
  What holds of whole requests: the routes, the layers, the extractors and the handlers together
  (\<open>src/api/mod.rs\<close> and the handlers it mounts, as composed in \<open>Application\<close>).
\<close>

section \<open>Lemmas\<close>

text \<open>Routes: what is resolved is a route of the table that matches.\<close>

lemma resolve_mem:
  assumes "resolve path = Some (sc, r, binds)"
  shows "(sc, r) \<in> set api_routes \<and> match_route (fst r) path = Some binds"
proof -
  define step where "step = (\<lambda>best (sc :: scope, r :: route). case match_route (fst r) path of None \<Rightarrow> best
      | Some binds \<Rightarrow> (case best of None \<Rightarrow> Some (sc, r, binds)
          | Some (sc', r', binds') \<Rightarrow> if beats (split_on (CHR ''/'') (fst r)) (split_on (CHR ''/'') (fst r'))
              then Some (sc, r, binds) else best))"
  have keep: "foldl step best rs = Some (sc, r, binds) \<Longrightarrow> best = Some (sc, r, binds)
      \<or> (sc, r) \<in> set rs \<and> match_route (fst r) path = Some binds" for best rs
  proof (induction rs arbitrary: best)
    case (Cons x xs)
    then have "step best x = Some (sc, r, binds) \<or> (sc, r) \<in> set xs \<and> match_route (fst r) path = Some binds" by simp
    moreover have "step best x = Some (sc, r, binds) \<Longrightarrow> best = Some (sc, r, binds)
        \<or> x = (sc, r) \<and> match_route (fst r) path = Some binds"
      by (cases x) (auto simp: step_def split: option.splits if_splits)
    ultimately show ?case by auto
  qed simp
  show ?thesis using keep[of None api_routes] assms unfolding resolve_def step_def by simp
qed

text \<open>The names of each group of handlers.\<close>

definition names_of :: "(string \<times> (unit, unit) endpoint) list \<Rightarrow> string list" where "names_of es = map fst es"

lemma names_any_type:
  "map fst probe_endpoints = names_of probe_endpoints" "map fst session_endpoints = names_of session_endpoints"
  "map fst account_endpoints = names_of account_endpoints" "map fst passkey_endpoints = names_of passkey_endpoints"
  "map fst view_endpoints = names_of view_endpoints" "map fst listing_endpoints = names_of listing_endpoints"
  "map fst bulk_endpoints = names_of bulk_endpoints" "map fst cluster_read_endpoints = names_of cluster_read_endpoints"
  "map fst vm_write_endpoints = names_of vm_write_endpoints" "map fst other_write_endpoints = names_of other_write_endpoints"
  by (simp_all add: names_of_def probe_endpoints_def session_endpoints_def account_endpoints_def passkey_endpoints_def
      view_endpoints_def listing_endpoints_def bulk_endpoints_def cluster_read_endpoints_def vm_write_endpoints_def
      other_write_endpoints_def)

lemma endpoint_names: "map fst endpoints = names_of endpoints"
  by (simp add: endpoints_def names_any_type) (simp add: names_of_def)

lemma endpoints_distinct_unit: "distinct (names_of endpoints)"
  by (simp add: names_of_def endpoints_def probe_endpoints_def session_endpoints_def account_endpoints_def passkey_endpoints_def
      view_endpoints_def listing_endpoints_def bulk_endpoints_def cluster_read_endpoints_def vm_write_endpoints_def
      other_write_endpoints_def)

lemma endpoints_distinct: "distinct (map fst endpoints)"
  unfolding endpoint_names by (rule endpoints_distinct_unit)

lemma group_member:
  assumes "map_of es n = Some ep" "set g \<subseteq> set es" "distinct (map fst es)" "n \<in> set (map fst g)"
  shows "(n, ep) \<in> set g"
proof -
  from assms(4) obtain ep' where "(n, ep') \<in> set g" by auto
  with assms show ?thesis by (metis map_of_SomeD eq_key_imp_eq_value subsetD)
qed

lemma groups_subset:
  "set probe_endpoints \<subseteq> set endpoints" "set session_endpoints \<subseteq> set endpoints"
  "set account_endpoints \<subseteq> set endpoints" "set passkey_endpoints \<subseteq> set endpoints"
  "set view_endpoints \<subseteq> set endpoints" "set listing_endpoints \<subseteq> set endpoints"
  "set bulk_endpoints \<subseteq> set endpoints" "set cluster_read_endpoints \<subseteq> set endpoints"
  "set vm_write_endpoints \<subseteq> set endpoints" "set other_write_endpoints \<subseteq> set endpoints"
  by (auto simp: endpoints_def)

lemma in_group:
  assumes "map_of endpoints n = Some ep"
  shows "n \<in> set (names_of probe_endpoints) \<Longrightarrow> (n, ep) \<in> set probe_endpoints"
    "n \<in> set (names_of session_endpoints) \<Longrightarrow> (n, ep) \<in> set session_endpoints"
    "n \<in> set (names_of account_endpoints) \<Longrightarrow> (n, ep) \<in> set account_endpoints"
    "n \<in> set (names_of passkey_endpoints) \<Longrightarrow> (n, ep) \<in> set passkey_endpoints"
    "n \<in> set (names_of view_endpoints) \<Longrightarrow> (n, ep) \<in> set view_endpoints"
    "n \<in> set (names_of listing_endpoints) \<Longrightarrow> (n, ep) \<in> set listing_endpoints"
    "n \<in> set (names_of bulk_endpoints) \<Longrightarrow> (n, ep) \<in> set bulk_endpoints"
    "n \<in> set (names_of cluster_read_endpoints) \<Longrightarrow> (n, ep) \<in> set cluster_read_endpoints"
    "n \<in> set (names_of vm_write_endpoints) \<Longrightarrow> (n, ep) \<in> set vm_write_endpoints"
    "n \<in> set (names_of other_write_endpoints) \<Longrightarrow> (n, ep) \<in> set other_write_endpoints"
  using group_member[OF assms groups_subset(1) endpoints_distinct] group_member[OF assms groups_subset(2) endpoints_distinct]
    group_member[OF assms groups_subset(3) endpoints_distinct] group_member[OF assms groups_subset(4) endpoints_distinct]
    group_member[OF assms groups_subset(5) endpoints_distinct] group_member[OF assms groups_subset(6) endpoints_distinct]
    group_member[OF assms groups_subset(7) endpoints_distinct] group_member[OF assms groups_subset(8) endpoints_distinct]
    group_member[OF assms groups_subset(9) endpoints_distinct] group_member[OF assms groups_subset(10) endpoints_distinct]
  by (simp_all only: names_any_type)

text \<open>The handlers of the routes of a table under the methods of a kind.\<close>

definition handlers_where :: "(http_method \<Rightarrow> bool) \<Rightarrow> route list \<Rightarrow> string list" where
  "handlers_where P rs = map snd (filter (\<lambda>mn. P (fst mn)) (concat (map snd rs)))"

lemma handlers_whereI:
  assumes "r \<in> set rs" "method_handler (snd r) m = Some n" "P m" "m = HEAD \<Longrightarrow> P GET"
  shows "n \<in> set (handlers_where P rs)"
proof -
  have "\<exists>m'. (m', n) \<in> set (snd r) \<and> P m'"
    using assms(2-4) by (auto simp: method_handler_def split: option.splits if_splits dest!: map_of_SomeD)
  then show ?thesis using assms(1) by (force simp: handlers_where_def)
qed

text \<open>The names of the groups, spelled out once for the rewriting of the tables.\<close>

lemma group_names:
  "names_of probe_endpoints = [''health::metrics_handler'', ''health::health'', ''health::livez'', ''health::readyz'']"
  "names_of session_endpoints = [''auth::login'', ''auth::refresh'', ''auth::logout'', ''auth::two_factor_complete'',
     ''auth::oidc_login'', ''auth::oidc_callback'', ''auth::ldap_login'']"
  "names_of account_endpoints = [''auth::two_factor_setup'', ''auth::two_factor_verify'', ''auth::two_factor_disable'',
     ''auth::list_users'', ''auth::create_user'', ''auth::update_user'', ''auth::delete_user'']"
  "names_of passkey_endpoints = [''webauthn::register_start'', ''webauthn::register_complete'', ''webauthn::login_start'',
     ''webauthn::login_complete'']"
  "names_of view_endpoints = [''auth::me'', ''audit::list_audit'', ''dashboard::dashboard'', ''dashboard::get_custom_dashboard'',
     ''dashboard::save_custom_dashboard'', ''dashboard::get_available_widget_types'']"
  "names_of listing_endpoints = [''vms::list_vms'', ''lxcs::list_lxcs'', ''storages::list_storages'', ''networks::list_networks'',
     ''networks::list_vlans'', ''hagroups::list_ha_groups'', ''hagroups::ha_status'',
     ''replication::list_replication_jobs'', ''ceph::ceph_status'', ''ceph::ceph_pools'',
     ''firewall::firewall_rules'', ''sdn::sdn_zones'', ''sdn::sdn_vnets'', ''cluster::cluster_status'',
     ''cluster::cluster_config'', ''cluster::cluster_options'', ''cluster::cluster_log'',
     ''cluster::cluster_tasks'']"
  "names_of bulk_endpoints = [''vms::bulk_start'', ''vms::bulk_stop'', ''vms::bulk_reboot'', ''vms::bulk_delete'',
     ''hagroups::create_ha_group'', ''hagroups::delete_ha_group'']"
  "names_of cluster_read_endpoints = [''vms::vm_detail'', ''vms::vm_config_handler'', ''vms::vm_rrddata_handler'', ''lxcs::lxc_detail'',
     ''lxcs::lxc_config_handler'', ''storages::storage_content'', ''networks::node_networks'',
     ''tasks::task_status'', ''tasks::task_log'', ''replication::get_replication_status'',
     ''vnc::vnc_ws_handler'']"
  "names_of vm_write_endpoints = [''vms::vm_action_handler'', ''vms::migrate_vm_handler'', ''vms::create_vm_handler'',
     ''vms::clone_vm_handler'', ''vms::update_vm_config_handler'', ''vms::list_snapshots_handler'',
     ''vms::create_snapshot_handler'', ''vms::delete_snapshot_handler'', ''vms::rollback_snapshot_handler'',
     ''vms::backup_vm_handler'', ''vms::list_backups_handler'', ''vms::resize_disk_handler'',
     ''vms::vm_template_handler'', ''vms::vm_sendkey_handler'']"
  "names_of other_write_endpoints = [''lxcs::lxc_action_handler'', ''lxcs::lxc_delete_handler'', ''lxcs::lxc_create_handler'',
     ''lxcs::lxc_update_config_handler'', ''storages::storage_upload_handler'',
     ''storages::delete_storage_content_handler'', ''networks::network_config_update_handler'',
     ''networks::network_config_apply_handler'', ''tasks::task_delete'',
     ''replication::create_replication_job'', ''replication::delete_replication_job'',
     ''vnc::vnc_ticket_handler'']"
  by (simp_all add: names_of_def probe_endpoints_def session_endpoints_def account_endpoints_def passkey_endpoints_def
      view_endpoints_def listing_endpoints_def bulk_endpoints_def cluster_read_endpoints_def vm_write_endpoints_def
      other_write_endpoints_def)

lemmas route_tables = handlers_where_def public_routes_def protected_routes_def cluster_scoped_routes_def is_state_changing_def

lemma public_handlers: "set (handlers_where (\<lambda>_. True) public_routes)
    \<subseteq> set (names_of probe_endpoints @ names_of session_endpoints @ names_of passkey_endpoints)"
  unfolding group_names by (simp add: route_tables)

lemma scoped_handlers: "set (handlers_where (\<lambda>_. True) cluster_scoped_routes)
    \<subseteq> set (names_of cluster_read_endpoints @ names_of vm_write_endpoints @ names_of other_write_endpoints)"
  unfolding group_names by (simp add: route_tables)

lemma writing_handlers:
  "set (handlers_where is_state_changing protected_routes)
     \<subseteq> set (names_of account_endpoints @ names_of passkey_endpoints @ names_of bulk_endpoints @ [''dashboard::save_custom_dashboard''])"
  "set (handlers_where is_state_changing cluster_scoped_routes) \<subseteq> set (names_of vm_write_endpoints @ names_of other_write_endpoints)"
  unfolding group_names by (simp_all add: route_tables)

lemma reading_handlers:
  "set (handlers_where (\<lambda>m. \<not> is_state_changing m) public_routes) \<subseteq> set (names_of probe_endpoints)"
  "set (handlers_where (\<lambda>m. \<not> is_state_changing m) protected_routes)
     \<subseteq> set (names_of view_endpoints @ names_of listing_endpoints @ [''auth::list_users''])"
  "set (handlers_where (\<lambda>m. \<not> is_state_changing m) cluster_scoped_routes)
     \<subseteq> set (names_of cluster_read_endpoints @ names_of vm_write_endpoints)"
  "''dashboard::save_custom_dashboard'' \<notin> set (handlers_where (\<lambda>m. \<not> is_state_changing m) protected_routes)"
  unfolding group_names by (simp_all add: route_tables)

section \<open>What calls do\<close>

text \<open>The accounts, sessions, passkeys and dashboards: what a request may change apart from the clients of the clusters.\<close>

definition private_state :: "('ek, 'dk, 'k, 'r, 'a, 'w) app \<Rightarrow> auth_state \<times> ('k, 'r, 'a) wa_state option \<times> layout_service" where
  "private_state st = (st_auth (fst st), st_webauthn (fst st), st_dashboard_custom (fst st))"

definition only_fleet :: "('ek, 'dk, 'k, 'r, 'a, 'w) app \<Rightarrow> ('ek, 'dk, 'k, 'r, 'a, 'w) app \<Rightarrow> bool" where
  "only_fleet st st' = (\<exists>cs w. st' = ((fst st) \<lparr> st_clients := cs \<rparr>, w))"

lemma only_fleetD: "only_fleet st st' \<Longrightarrow> private_state st' = private_state st \<and> st_audit (fst st') = st_audit (fst st)
    \<and> st_vnc (fst st') = st_vnc (fst st)"
  by (auto simp: only_fleet_def private_state_def)

lemma on_fleet_only [simp]: "only_fleet st (snd (on_fleet f st))"
  by (auto simp: only_fleet_def on_fleet_def split_beta Let_def)

lemma on_fleet_fleet [simp]: "app_fleet (snd (on_fleet f st)) = snd (f (app_fleet st))"
  by (simp add: on_fleet_def split_beta Let_def app_fleet_def)

lemma on_fleet_same: "f (app_fleet st) = (x, app_fleet st) \<Longrightarrow> on_fleet f st = (x, st)"
  by (cases st) (simp add: on_fleet_def app_fleet_def)

lemma answers [simp]:
  "snd (reply_with env wrap x) = snd x" "snd (answer_with env wrap' y) = snd y" "snd (passkey_answer env wrap'' z) = snd z"
  by (simp_all add: reply_with_def answer_with_def passkey_answer_def)

lemma serve_reads_only_fleet [simp]:
  "only_fleet st (snd (serve_listing env l st))" "only_fleet st (snd (serve_vm_read env r st))"
  by (cases l; simp) (cases r; simp)

lemma serve_probe_frame:
  "private_state (snd (serve_probe env p st)) = private_state st \<and> st_audit (fst (snd (serve_probe env p st))) = st_audit (fst st)
   \<and> st_vnc (fst (snd (serve_probe env p st))) = st_vnc (fst st)
   \<and> (p \<noteq> Readyz \<longrightarrow> app_fleet (snd (serve_probe env p st)) = app_fleet st)"
  by (cases p) (auto simp: private_state_def split_beta Let_def)

lemma serve_passkey_frame:
  "app_fleet (snd (serve_passkey env r st)) = app_fleet st \<and> st_audit (fst (snd (serve_passkey env r st))) = st_audit (fst st)
   \<and> st_vnc (fst (snd (serve_passkey env r st))) = st_vnc (fst st)
   \<and> st_dashboard_custom (fst (snd (serve_passkey env r st))) = st_dashboard_custom (fst st)"
  by (cases r) (simp_all add: on_passkeys_def split_beta Let_def app_fleet_def)

lemma serve_auth_frame:
  "app_fleet (snd (serve_auth env r st)) = app_fleet st" "st_audit (fst (snd (serve_auth env r st))) = st_audit (fst st)"
  "st_vnc (fst (snd (serve_auth env r st))) = st_vnc (fst st)"
  "st_dashboard_custom (fst (snd (serve_auth env r st))) = st_dashboard_custom (fst st)"
  "st_auth (fst (snd (serve_auth env r st))) = snd (auth_serve (av_auth env) (av_draw env) r (st_auth (fst st)))"
  by (simp_all add: serve_auth_def on_auth_def split_beta Let_def app_fleet_def del: auth_serve.simps)

lemma vnc_connect_frame:
  "private_state (snd (serve_vnc_connect env cl node vmid token st)) = private_state st
   \<and> st_audit (fst (snd (serve_vnc_connect env cl node vmid token st))) = st_audit (fst st)
   \<and> app_fleet (snd (serve_vnc_connect env cl node vmid token st))
       = snd (snd (vnc_ws_handler (av_px env) (av_vnc env) (av_codec env) (st_vnc_secret (fst st)) cl node vmid token
            (st_vnc (fst st), app_fleet st)))"
  by (simp add: serve_vnc_connect_def split_beta Let_def private_state_def app_fleet_def)

text \<open>The rest of a call's effects, by its kind.\<close>

lemma serve_call_audit [simp]: "st_audit (fst (snd (serve_call env c st))) = st_audit (fst st)"
proof -
  have "only_fleet st (snd (serve_call env c st)) \<Longrightarrow> st_audit (fst (snd (serve_call env c st))) = st_audit (fst st)"
    using only_fleetD by blast
  then show ?thesis
    by (cases c) (auto simp: serve_probe_frame serve_passkey_frame serve_auth_frame vnc_connect_frame serve_audit_def
        split_beta Let_def simp del: serve_probe.simps serve_passkey.simps serve_listing.simps serve_vm_read.simps)
qed

lemma serve_call_private:
  assumes "\<nexists>r. c = AuthCall r" "\<nexists>r. c = PasskeyCall r" "\<nexists>a d. c = LayoutSave a d"
  shows "private_state (snd (serve_call env c st)) = private_state st"
proof -
  have "only_fleet st (snd (serve_call env c st)) \<Longrightarrow> private_state (snd (serve_call env c st)) = private_state st"
    using only_fleetD by blast
  then show ?thesis using assms
    by (cases c) (auto simp: serve_probe_frame vnc_connect_frame serve_audit_def
        simp del: serve_probe.simps serve_listing.simps serve_vm_read.simps)
qed

fun off_fleet :: "('cred, 'asr) call \<Rightarrow> bool" where
  "off_fleet (ProbeCall p) = (p \<noteq> Readyz)" | "off_fleet (AuthCall r) = True" | "off_fleet (PasskeyCall r) = True"
| "off_fleet (MeCall a) = True" | "off_fleet (AuditCall p) = True" | "off_fleet (LayoutGet a) = True"
| "off_fleet (LayoutSave a d) = True" | "off_fleet WidgetTypes = True" | "off_fleet c = False"

lemma serve_call_off_fleet: "off_fleet c \<Longrightarrow> app_fleet (snd (serve_call env c st)) = app_fleet st"
proof (cases c)
  case (LayoutSave a d)
  then show ?thesis by (simp add: app_fleet_def split_beta Let_def)
qed (auto simp: serve_probe_frame serve_passkey_frame serve_auth_frame serve_audit_def
      simp del: serve_probe.simps serve_passkey.simps)

text \<open>A gated call of a user who is no operator does nothing.\<close>

definition operator_claims :: "claims \<Rightarrow> bool" where
  "operator_claims cl = (\<exists>r. to_ascii_lowercase (cl_role cl) = role_as_str r \<and> Operator \<le> r)"

lemma forbidden_status [simp]: "hs_status (error_response (Forbidden msg)) = 403"
  by (simp add: error_response_def Let_def)

lemma answer_forbidden:
  assumes "h (app_fleet st) = (Inl (Forbidden msg), app_fleet st)"
  shows "hs_status (fst (answer_with env wrap (on_fleet h st))) = 403 \<and> snd (answer_with env wrap (on_fleet h st)) = st"
  using on_fleet_same[of h st, OF assms] by (simp add: answer_with_def)

lemma serve_gated:
  assumes "gated_call rq c" "hq_claims rq = Some cl" "\<not> operator_claims cl"
  shows "hs_status (fst (serve_call env c st)) = 403 \<and> snd (serve_call env c st) = st"
proof -
  have no: "\<nexists>r. to_ascii_lowercase (cl_role (ac_claims auth)) = role_as_str r \<and> Operator \<le> r"
    if "hq_claims rq = Some (ac_claims auth)" for auth
    using assms(2,3) that by (simp add: operator_claims_def)
  show ?thesis
  proof (cases c)
    case (VmCall auth r)
    then have "hq_claims rq = Some (ac_claims auth)" using assms(1) by simp_all
    then show ?thesis unfolding VmCall serve_call.simps
      by (intro answer_forbidden) (rule vm_serve_gated, rule no)
  next
    case (LxcCall auth r)
    then have "hq_claims rq = Some (ac_claims auth)" "lxc_writes r" using assms(1) by simp_all
    then show ?thesis unfolding LxcCall serve_call.simps
      by (intro answer_forbidden) (rule lxc_serve_gated, rule no)
  next
    case (InfraCall auth r)
    then have "hq_claims rq = Some (ac_claims auth)" "infra_writes r" using assms(1) by simp_all
    then show ?thesis unfolding InfraCall serve_call.simps
      by (intro answer_forbidden) (rule infra_serve_gated, rule no)
  next
    case (VncTicketCall auth cl' node vmid)
    then have "hq_claims rq = Some (ac_claims auth)" using assms(1) by simp
    then show ?thesis unfolding VncTicketCall serve_call.simps
      by (intro answer_forbidden) (simp only: vnc_ticket_handler_def role_gate_refused[OF no])
  qed (use assms(1) in auto)
qed

text \<open>A call below a cluster stays within the cluster.\<close>

definition confined_to :: "string \<Rightarrow> 'w fleet \<Rightarrow> 'w fleet \<Rightarrow> bool" where
  "confined_to cl fl fl' = (map pc_config (fst fl') = map pc_config (fst fl)
     \<and> (\<forall>j. px_name (fst fl ! j) \<noteq> cl \<longrightarrow> fst fl' ! j = fst fl ! j)
     \<and> (cl \<notin> px_name ` set (fst fl) \<longrightarrow> fl' = fl))"

lemma confined_refl [simp]: "confined_to cl fl fl"
  by (simp add: confined_to_def)

lemma confined_within: "within cl h \<Longrightarrow> confined_to cl fl (snd (h env fl))"
  unfolding within_def stays_def confined_to_def Let_def by blast

lemma confined_on_cluster: "client_call f \<Longrightarrow> confined_to cl fl (snd (on_cluster cl (f env) fl))"
  using confined_within[OF within_on_cluster] .

lemma found_cluster: "find_cluster cl fl = Inr i \<Longrightarrow> at_client i f fl = on_cluster cl f fl"
  by (auto simp: find_cluster_def ok_or_def on_cluster_def split: option.splits)

lemma confined_vnc_ticket: "confined_to cl fl (snd (vnc_ticket_handler env dec C secret auth cl node vmid fl))"
proof -
  have "confined_to cl fl (snd (on_cluster cl (px_vnc_proxy env dec node vmid) fl))"
    by (rule confined_on_cluster) (rule client_calls)
  then show ?thesis
    by (auto simp: vnc_ticket_handler_def role_gate_def map_reply_def rbind_Inr_iff Let_def found_cluster
        split: sum.split sum.split_asm)
qed

lemma confined_vnc_connect: "confined_to cl fl (snd (snd (vnc_ws_handler env dec C secret cl node vmid token (vs, fl))))"
proof -
  have c: "confined_to cl fl (snd (on_cluster cl (px_vnc_proxy env dec node vmid) fl))"
    by (rule confined_on_cluster) (rule client_calls)
  show ?thesis
  proof (cases "rbind (ok_or (NotFound ''vnc console disabled'') secret) (\<lambda>key.
             rbind (verify_vnc_token C (pe_now env (snd fl)) key token) (\<lambda>cl'.
             if vt_sub cl' \<noteq> vnc_subject cl node vmid
             then Inl (Unauthorized ''vnc token subject mismatch'')
             else find_cluster cl fl))")
    case (Inl e)
    then show ?thesis by (simp add: vnc_ws_handler_def)
  next
    case (Inr i)
    then have "find_cluster cl fl = Inr i" by (auto simp: rbind_Inr_iff split: if_splits)
    with c have "confined_to cl fl (snd (at_client i (px_vnc_proxy env dec node vmid) fl))" by (simp add: found_cluster)
    with Inr show ?thesis by (simp add: vnc_ws_handler_def split_beta Let_def split: sum.split)
  qed
qed

lemma serve_confined:
  assumes "call_cluster c = Some cl"
  shows "confined_to cl (app_fleet st) (app_fleet (snd (serve_call env c st)))"
proof (cases c)
  case (VmReadCall r)
  have "confined_to cl (app_fleet st) (snd (on_cluster cl (px_list_vms (av_px env) (av_resources env)) (app_fleet st)))"
    "confined_to cl (app_fleet st) (snd (on_cluster cl (px_vm_config (av_px env) (dc_value (av_decoders env)) node vmid) (app_fleet st)))"
    "confined_to cl (app_fleet st) (snd (on_cluster cl (px_get (av_px env) (dc_value (av_decoders env)) path) (app_fleet st)))"
    for node vmid path by (rule confined_on_cluster, rule client_calls)+
  then show ?thesis using VmReadCall assms
    by (cases r) (auto simp: vm_detail_def vm_config_handler_def vm_rrddata_handler_def split_beta Let_def)
next
  case (VmCall auth r)
  then have "cluster_of r = Some cl" using assms by simp
  from confined_within[OF vm_serve_within[OF this]] VmCall show ?thesis by simp
next
  case (LxcCall auth r)
  then have cl: "cl = lxc_cluster r" using assms by simp
  show ?thesis unfolding LxcCall cl by (simp del: lxc_serve.simps) (rule confined_within[OF lxc_serve_within])
next
  case (InfraCall auth r)
  then have cl: "cl = infra_cluster r" using assms by simp
  show ?thesis unfolding InfraCall cl by (simp del: infra_serve.simps) (rule confined_within[OF infra_serve_within])
qed (use assms in \<open>auto simp: confined_vnc_ticket vnc_connect_frame confined_vnc_connect\<close>)

section \<open>How a request reaches a handler\<close>

lemma cluster_first:
  assumes "(sc, (pat, ms)) \<in> set api_routes" "sc = ClusterScoped" "match_route pat path = Some binds"
  shows "\<exists>s rest. binds = (''cluster'', s) # rest \<and> extract_cluster_from_path path = Some s"
proof -
  have "(pat, ms) \<in> set cluster_scoped_routes" using assms(1,2) by (auto simp: api_routes_def)
  then have "cluster_pattern pat" using cluster_patterns by (auto simp: list_all_iff)
  then obtain r rest where pat: "split_on (CHR ''/'') pat = [] # ''api'' # ''v1'' # r # '':cluster'' # rest"
    and r: "r \<noteq> []" "hd r \<noteq> CHR '':''"
    by (auto simp: cluster_pattern_def split: list.splits)
  obtain s ss b where "split_on (CHR ''/'') path = [] # ''api'' # ''v1'' # r # s # ss" "s \<noteq> []" "binds = (''cluster'', s) # b"
    using assms(3) r by (auto simp: match_route_def pat match_lit match_par)
  then show ?thesis using r by (auto simp: extract_cluster_from_path_def Let_def)
qed

text \<open>The token of a request, and the request as the handlers behind \<open>require_auth\<close> see it.\<close>

definition token_claims :: "('w, 'k, 'r, 'a, 'cred, 'asr, 'z) app_env \<Rightarrow> http_request \<Rightarrow> claims option" where
  "token_claims env rq =
     (case extract_bearer (av_to_str env) rq of Inl _ \<Rightarrow> None
      | Inr token \<Rightarrow> (case av_decode env token of Inl _ \<Rightarrow> None | Inr cl \<Rightarrow> Some cl))"

lemma auth_pass_claims:
  "auth_pass (av_to_str env) (av_decode env) rq st = map_option (\<lambda>cl. rq \<lparr> hq_claims := Some cl \<rparr>) (token_claims env rq)"
  by (simp add: auth_pass_def token_claims_def split: sum.split)

lemma without_body_simps [simp]: "snd (without_body m x) = snd x" "hs_status (fst (without_body m x)) = hs_status (fst x)"
  by (simp_all add: without_body_def)

lemma run_handler_cases:
  assumes "run_handler env ex name segs rq st = (resp, st')"
  obtains "st' = st"
  | ep c where "map_of endpoints name = Some ep" "ep ex rq segs = Inr c" "(resp, st') = serve_call env c st"
  using assms by (auto simp: run_handler_def split: option.splits sum.splits)

lemma route_cases:
  assumes "route_request env ex rq st = (resp, st')"
  obtains (still) "st' = st"
  | (served) sc pat ms binds name ep c rq' where "resolve (hq_path rq) = Some (sc, (pat, ms), binds)"
      "method_handler ms (hq_method rq) = Some name" "map_of endpoints name = Some ep" "ep ex rq' (map snd binds) = Inr c"
      "st' = snd (serve_call env c st)" "hs_status resp = hs_status (fst (serve_call env c st))"
      "sc = Public \<Longrightarrow> rq' = rq"
      "sc \<noteq> Public \<Longrightarrow> \<exists>cl. token_claims env rq = Some cl \<and> hq_claims rq' = Some cl"
      "sc = ClusterScoped \<Longrightarrow> \<exists>cl s rest. token_claims env rq = Some cl \<and> binds = (''cluster'', s) # rest
         \<and> user_can_access_cluster (app_users st) (cl_username cl) s"
proof (cases "resolve (hq_path rq)")
  case None
  with assms show ?thesis by (simp add: route_request_def still)
next
  case (Some x)
  obtain sc pat ms binds where res: "resolve (hq_path rq) = Some (sc, (pat, ms), binds)" using Some by (cases x) auto
  show ?thesis
  proof (cases "method_handler ms (hq_method rq)")
    case None
    with assms res show ?thesis by (simp add: route_request_def still)
  next
    case (Some name)
    obtain r1 where run: "scoped (av_to_str env) (av_decode env) app_users sc (run_handler env ex name (map snd binds)) rq st = (r1, st')"
      and resp: "hs_status resp = hs_status r1"
    proof -
      obtain a b where ab: "scoped (av_to_str env) (av_decode env) app_users sc (run_handler env ex name (map snd binds)) rq st = (a, b)"
        by (metis surj_pair)
      then have "(resp, st') = without_body (hq_method rq) (a, b)" using assms res Some by (simp add: route_request_def)
      then have "st' = b" "hs_status resp = hs_status a" by (auto simp: without_body_def split: if_splits)
      with ab that show ?thesis by simp
    qed
    have first: "\<exists>s rest. binds = (''cluster'', s) # rest \<and> extract_cluster_from_path (hq_path rq) = Some s" if "sc = ClusterScoped"
      using cluster_first[of sc pat ms] resolve_mem[OF res] that by simp
    have "st' = st \<or> (\<exists>rq'. run_handler env ex name (map snd binds) rq' st = (r1, st') \<and> (sc = Public \<longrightarrow> rq' = rq)
        \<and> (sc \<noteq> Public \<longrightarrow> (\<exists>cl. token_claims env rq = Some cl \<and> hq_claims rq' = Some cl))
        \<and> (sc = ClusterScoped \<longrightarrow> (\<exists>cl s rest. token_claims env rq = Some cl \<and> binds = (''cluster'', s) # rest
             \<and> user_can_access_cluster (app_users st) (cl_username cl) s)))"
    proof (cases sc)
      case Public
      with run show ?thesis by auto
    next
      case Protected
      with run show ?thesis by (cases "token_claims env rq") (auto simp: auth.guard_eq auth_pass_claims)
    next
      case ClusterScoped
      then show ?thesis using run first
        by (cases "token_claims env rq")
          (auto simp: auth.guard_eq auth_pass_claims cluster.guard_eq cluster_pass_def split: if_splits)
    qed
    then show ?thesis
    proof (elim disjE exE conjE)
      fix rq'
      assume h: "run_handler env ex name (map snd binds) rq' st = (r1, st')" "sc = Public \<longrightarrow> rq' = rq"
        "sc \<noteq> Public \<longrightarrow> (\<exists>cl. token_claims env rq = Some cl \<and> hq_claims rq' = Some cl)"
        "sc = ClusterScoped \<longrightarrow> (\<exists>cl s rest. token_claims env rq = Some cl \<and> binds = (''cluster'', s) # rest
             \<and> user_can_access_cluster (app_users st) (cl_username cl) s)"
      from h(1) show ?thesis
      proof (cases rule: run_handler_cases)
        case (2 ep c)
        then have "st' = snd (serve_call env c st)" "hs_status resp = hs_status (fst (serve_call env c st))"
          using resp by (metis snd_conv, metis fst_conv)
        with served[OF res Some 2(1,2)] h(2-4) show ?thesis by simp
      qed (rule still)
    qed (rule still)
  qed
qed

text \<open>The calls of the routes of each scope.\<close>

lemma route_table:
  assumes "resolve path = Some (sc, r, binds)"
  shows "case sc of Public \<Rightarrow> r \<in> set public_routes | Protected \<Rightarrow> r \<in> set protected_routes
    | ClusterScoped \<Rightarrow> r \<in> set cluster_scoped_routes"
  using resolve_mem[OF assms] by (cases sc) (auto simp: api_routes_def)

definition reaches :: "string \<Rightarrow> http_method \<Rightarrow> ('cred, 'asr) extraction \<Rightarrow> http_request \<Rightarrow> scope \<Rightarrow> string \<Rightarrow> string list
    \<Rightarrow> ('cred, 'asr) call \<Rightarrow> bool" where
  "reaches path m ex rq' sc name segs c = (\<exists>pat ms binds ep. resolve path = Some (sc, (pat, ms), binds)
     \<and> method_handler ms m = Some name \<and> map_of endpoints name = Some ep \<and> segs = map snd binds \<and> ep ex rq' segs = Inr c)"

lemma reaches_table:
  assumes "reaches path m ex rq' sc name segs c"
  shows "P m \<Longrightarrow> (m = HEAD \<Longrightarrow> P GET) \<Longrightarrow> (case sc of Public \<Rightarrow> name \<in> set (handlers_where P public_routes)
      | Protected \<Rightarrow> name \<in> set (handlers_where P protected_routes)
      | ClusterScoped \<Rightarrow> name \<in> set (handlers_where P cluster_scoped_routes))"
    and "\<exists>ep. map_of endpoints name = Some ep \<and> ep ex rq' segs = Inr c"
  using assms route_table[of path sc] handlers_whereI[of _ _ m name P]
  by (auto simp: reaches_def split: scope.split)

lemma reaches_group:
  assumes "reaches path m ex rq' sc name segs c"
  shows "name \<in> set (names_of probe_endpoints) \<Longrightarrow> \<exists>p. c = ProbeCall p \<and> (p = Readyz \<longrightarrow> name = ''health::readyz'')"
    "name \<in> set (names_of session_endpoints) \<Longrightarrow> \<exists>r. c = AuthCall r \<and> \<not> admin_request r
        \<and> ((\<exists>n p. r = LdapLogin n p) \<longrightarrow> name = ''auth::ldap_login'')"
    "name \<in> set (names_of account_endpoints) \<Longrightarrow> \<exists>r. c = AuthCall r \<and> (\<nexists>n p. r = LdapLogin n p)
        \<and> (admin_request r \<longrightarrow> (\<exists>cl. hq_claims rq' = Some cl \<and> is_ok (require_role \<lparr> ac_claims = cl \<rparr> Admin)))"
    "name \<in> set (names_of passkey_endpoints) \<Longrightarrow> \<exists>r. c = PasskeyCall r"
    "name \<in> set (names_of view_endpoints) \<Longrightarrow> c = WidgetTypes \<or> (\<exists>a. c = MeCall a) \<or> (\<exists>p. c = AuditCall p)
        \<or> (\<exists>a. c = DashboardCall a) \<or> (\<exists>a. c = LayoutGet a)
        \<or> (\<exists>a d. c = LayoutSave a d \<and> name = ''dashboard::save_custom_dashboard'' \<and> hq_claims rq' = Some (ac_claims a))"
    "name \<in> set (names_of listing_endpoints) \<Longrightarrow> (\<exists>l. c = ListingCall l) \<or> (\<exists>q. c = VmReadCall (VmList q))"
    "name \<in> set (names_of bulk_endpoints) \<Longrightarrow> gated_call rq' c"
    "name \<in> set (names_of cluster_read_endpoints) \<Longrightarrow> \<exists>cl. call_cluster c = Some cl \<and> names_cluster ex segs cl"
    "name \<in> set (names_of vm_write_endpoints) \<Longrightarrow> gated_call rq' c \<and> (\<exists>cl. call_cluster c = Some cl \<and> names_cluster ex segs cl)"
    "name \<in> set (names_of other_write_endpoints) \<Longrightarrow> gated_call rq' c \<and> (\<exists>cl. call_cluster c = Some cl \<and> names_cluster ex segs cl)"
proof -
  obtain ep where ep: "map_of endpoints name = Some ep" "ep ex rq' segs = Inr c" using reaches_table(2)[OF assms] by blast
  note g = in_group[OF ep(1)]
  show "name \<in> set (names_of probe_endpoints) \<Longrightarrow> \<exists>p. c = ProbeCall p \<and> (p = Readyz \<longrightarrow> name = ''health::readyz'')"
    using probe_calls[of name ep ex rq' segs c] g(1) ep(2) by blast
  show "name \<in> set (names_of session_endpoints) \<Longrightarrow> \<exists>r. c = AuthCall r \<and> \<not> admin_request r
        \<and> ((\<exists>n p. r = LdapLogin n p) \<longrightarrow> name = ''auth::ldap_login'')"
    using session_calls[of name ep ex rq' segs c] g(2) ep(2) by blast
  show "name \<in> set (names_of account_endpoints) \<Longrightarrow> \<exists>r. c = AuthCall r \<and> (\<nexists>n p. r = LdapLogin n p)
        \<and> (admin_request r \<longrightarrow> (\<exists>cl. hq_claims rq' = Some cl \<and> is_ok (require_role \<lparr> ac_claims = cl \<rparr> Admin)))"
    using account_calls[of name ep ex rq' segs c] g(3) ep(2) by blast
  show "name \<in> set (names_of passkey_endpoints) \<Longrightarrow> \<exists>r. c = PasskeyCall r"
    using passkey_calls[of name ep ex rq' segs c] g(4) ep(2) by blast
  show "name \<in> set (names_of view_endpoints) \<Longrightarrow> c = WidgetTypes \<or> (\<exists>a. c = MeCall a) \<or> (\<exists>p. c = AuditCall p)
        \<or> (\<exists>a. c = DashboardCall a) \<or> (\<exists>a. c = LayoutGet a)
        \<or> (\<exists>a d. c = LayoutSave a d \<and> name = ''dashboard::save_custom_dashboard'' \<and> hq_claims rq' = Some (ac_claims a))"
    using view_calls[of name ep ex rq' segs c] g(5) ep(2) by blast
  show "name \<in> set (names_of listing_endpoints) \<Longrightarrow> (\<exists>l. c = ListingCall l) \<or> (\<exists>q. c = VmReadCall (VmList q))"
    using listing_calls[of name ep ex rq' segs c] g(6) ep(2) by blast
  show "name \<in> set (names_of bulk_endpoints) \<Longrightarrow> gated_call rq' c"
    using bulk_calls[of name ep ex rq' segs c] g(7) ep(2) by blast
  show "name \<in> set (names_of cluster_read_endpoints) \<Longrightarrow> \<exists>cl. call_cluster c = Some cl \<and> names_cluster ex segs cl"
    using cluster_read_calls[of name ep ex rq' segs c] g(8) ep(2) by blast
  show "name \<in> set (names_of vm_write_endpoints) \<Longrightarrow> gated_call rq' c \<and> (\<exists>cl. call_cluster c = Some cl \<and> names_cluster ex segs cl)"
    using vm_write_calls[of name ep ex rq' segs c] g(9) ep(2) by blast
  show "name \<in> set (names_of other_write_endpoints) \<Longrightarrow> gated_call rq' c \<and> (\<exists>cl. call_cluster c = Some cl \<and> names_cluster ex segs cl)"
    using other_write_calls[of name ep ex rq' segs c] g(10) ep(2) by blast
qed

lemma routed:
  assumes "route_request env ex rq st = (resp, st')"
  obtains (still) "st' = st"
  | (served) sc name segs c rq' where "reaches (hq_path rq) (hq_method rq) ex rq' sc name segs c"
      "st' = snd (serve_call env c st)" "hs_status resp = hs_status (fst (serve_call env c st))"
      "sc = Public \<Longrightarrow> rq' = rq"
      "sc \<noteq> Public \<Longrightarrow> \<exists>cl. token_claims env rq = Some cl \<and> hq_claims rq' = Some cl"
      "sc = ClusterScoped \<Longrightarrow> \<exists>cl s rest. token_claims env rq = Some cl \<and> segs = s # rest
         \<and> user_can_access_cluster (app_users st) (cl_username cl) s"
  using assms
proof (cases rule: route_cases)
  case (served sc pat ms binds name ep c rq')
  then have "reaches (hq_path rq) (hq_method rq) ex rq' sc name (map snd binds) c" unfolding reaches_def by blast
  from that(2)[OF this served(5,6)] served(7-9) show ?thesis by fastforce
qed

lemma public_calls:
  assumes "reaches path m ex rq' Public name segs c"
  shows "(\<exists>p. c = ProbeCall p \<and> (p = Readyz \<longrightarrow> name = ''health::readyz''))
    \<or> (\<exists>r. c = AuthCall r \<and> \<not> admin_request r \<and> ((\<exists>n p. r = LdapLogin n p) \<longrightarrow> name = ''auth::ldap_login''))
    \<or> (\<exists>r. c = PasskeyCall r)"
proof -
  have "name \<in> set (handlers_where (\<lambda>_. True) public_routes)"
    using reaches_table(1)[OF assms, of "\<lambda>_. True"] by simp
  with public_handlers have "name \<in> set (names_of probe_endpoints) \<or> name \<in> set (names_of session_endpoints)
      \<or> name \<in> set (names_of passkey_endpoints)" by auto
  with reaches_group(1,2,4)[OF assms] show ?thesis by blast
qed

lemma scoped_calls:
  assumes "reaches path m ex rq' ClusterScoped name segs c"
  shows "\<exists>cl. call_cluster c = Some cl \<and> names_cluster ex segs cl"
proof -
  have "name \<in> set (handlers_where (\<lambda>_. True) cluster_scoped_routes)"
    using reaches_table(1)[OF assms, of "\<lambda>_. True"] by simp
  with scoped_handlers have "name \<in> set (names_of cluster_read_endpoints) \<or> name \<in> set (names_of vm_write_endpoints)
      \<or> name \<in> set (names_of other_write_endpoints)" by auto
  with reaches_group(8,9,10)[OF assms] show ?thesis by blast
qed

lemma changing_calls:
  assumes "reaches path m ex rq' sc name segs c" "is_state_changing m" "sc \<noteq> Public"
  shows "gated_call rq' c \<or> (\<exists>r. c = PasskeyCall r) \<or> (\<exists>a d. c = LayoutSave a d)
    \<or> (\<exists>r. c = AuthCall r \<and> (\<nexists>n p. r = LdapLogin n p)
        \<and> (admin_request r \<longrightarrow> (\<exists>cl. hq_claims rq' = Some cl \<and> is_ok (require_role \<lparr> ac_claims = cl \<rparr> Admin))))"
proof -
  have "case sc of Public \<Rightarrow> True | Protected \<Rightarrow> name \<in> set (handlers_where is_state_changing protected_routes)
      | ClusterScoped \<Rightarrow> name \<in> set (handlers_where is_state_changing cluster_scoped_routes)"
    using reaches_table(1)[OF assms(1), of is_state_changing] assms(2) by (auto simp: is_state_changing_def split: scope.splits)
  with writing_handlers assms(3) have "name \<in> set (names_of account_endpoints) \<or> name \<in> set (names_of passkey_endpoints)
      \<or> name \<in> set (names_of bulk_endpoints) \<or> name = ''dashboard::save_custom_dashboard''
      \<or> name \<in> set (names_of vm_write_endpoints) \<or> name \<in> set (names_of other_write_endpoints)"
    by (cases sc) (auto dest: subsetD)
  moreover have "name = ''dashboard::save_custom_dashboard'' \<Longrightarrow> \<exists>a d. c = LayoutSave a d"
  proof -
    assume n: "name = ''dashboard::save_custom_dashboard''"
    obtain ep where ep: "map_of endpoints name = Some ep" "ep ex rq' segs = Inr c" using reaches_table(2)[OF assms(1)] by blast
    have "map_of (endpoints :: (string \<times> ('a, 'b) endpoint) list) ''dashboard::save_custom_dashboard''
        = Some (with_context (\<lambda>auth. with_json (plain de_save_custom_dashboard) (\<lambda>d. LayoutSave auth d)))"
      by (rule map_of_is_SomeI[OF endpoints_distinct]) (simp add: endpoints_def view_endpoints_def)
    with ep n show ?thesis by (auto simp: endpoint_defs)
  qed
  ultimately show ?thesis using reaches_group(3,4,7,9,10)[OF assms(1)] by blast
qed

lemma named_call:
  assumes "reaches path m ex rq' sc name segs c" "(name, ep) \<in> set endpoints"
  shows "ep ex rq' segs = Inr c"
proof -
  obtain ep' where "map_of endpoints name = Some ep'" "ep' ex rq' segs = Inr c" using reaches_table(2)[OF assms(1)] by blast
  moreover have "map_of endpoints name = Some ep" by (rule map_of_is_SomeI[OF endpoints_distinct assms(2)])
  ultimately show ?thesis by simp
qed

lemma list_users_call:
  assumes "reaches path m ex rq' sc ''auth::list_users'' segs c"
  shows "\<exists>a. c = AuthCall (ListUsers a)"
proof -
  have "with_context (\<lambda>auth. ask (AuthCall (ListUsers auth))) ex rq' segs = Inr c"
    by (rule named_call[OF assms]) (simp add: endpoints_def account_endpoints_def)
  then show ?thesis by (auto simp: endpoint_defs)
qed

text \<open>A request that is no write leaves accounts, sessions, passkeys and dashboards alone.\<close>

lemma reading_calls:
  assumes "reaches path m ex rq' sc name segs c" "\<not> is_state_changing m"
  shows "private_state (snd (serve_call env c st)) = private_state st"
proof -
  have "case sc of Public \<Rightarrow> name \<in> set (handlers_where (\<lambda>m. \<not> is_state_changing m) public_routes)
      | Protected \<Rightarrow> name \<in> set (handlers_where (\<lambda>m. \<not> is_state_changing m) protected_routes)
      | ClusterScoped \<Rightarrow> name \<in> set (handlers_where (\<lambda>m. \<not> is_state_changing m) cluster_scoped_routes)"
    using reaches_table(1)[OF assms(1), of "\<lambda>m. \<not> is_state_changing m"] assms(2) by (simp add: is_state_changing_def split: scope.splits)
  then consider "sc = Public" "name \<in> set (handlers_where (\<lambda>m. \<not> is_state_changing m) public_routes)"
    | "sc = Protected" "name \<in> set (handlers_where (\<lambda>m. \<not> is_state_changing m) protected_routes)"
    | "sc = ClusterScoped" "name \<in> set (handlers_where (\<lambda>m. \<not> is_state_changing m) cluster_scoped_routes)"
    by (cases sc) simp_all
  then have "name \<in> set (names_of probe_endpoints) \<or> name \<in> set (names_of view_endpoints)
        \<and> name \<noteq> ''dashboard::save_custom_dashboard'' \<or> name \<in> set (names_of listing_endpoints) \<or> name = ''auth::list_users''
      \<or> name \<in> set (names_of cluster_read_endpoints) \<or> name \<in> set (names_of vm_write_endpoints)"
  proof cases
    case 1
    from subsetD[OF reading_handlers(1) 1(2)] show ?thesis by blast
  next
    case 2
    from subsetD[OF reading_handlers(2) 2(2)] reading_handlers(4) 2(2) show ?thesis
      by (simp only: set_append Un_iff list.set insert_iff empty_iff) blast
  next
    case 3
    from subsetD[OF reading_handlers(3) 3(2)] show ?thesis by (simp only: set_append Un_iff) blast
  qed
  then show ?thesis
  proof (elim disjE conjE)
    assume "name = ''auth::list_users''"
    with assms(1) list_users_call obtain a where "c = AuthCall (ListUsers a)" by blast
    then show ?thesis
      by (simp add: serve_auth_def on_auth_def split_beta Let_def private_state_def list_users_handler_def admin_gate_effect)
  next
    assume "name \<in> set (names_of cluster_read_endpoints)"
    then obtain cl where "call_cluster c = Some cl" using reaches_group(8)[OF assms(1)] by blast
    then show ?thesis by (intro serve_call_private) auto
  next
    assume "name \<in> set (names_of vm_write_endpoints)"
    then obtain cl where "call_cluster c = Some cl" using reaches_group(9)[OF assms(1)] by blast
    then show ?thesis by (intro serve_call_private) auto
  qed (use reaches_group(1,5,6)[OF assms(1)] in \<open>auto intro!: serve_call_private\<close>)
qed

text \<open>The paths of two handlers.\<close>

lemma literal_route: "match_segs ps ss = Some b \<Longrightarrow> list_all (\<lambda>p. \<not> is_param p) ps \<Longrightarrow> ss = ps"
  by (induction ps ss arbitrary: b rule: match_segs.induct) (auto simp: is_param_def split: if_splits)

lemma literal_path:
  "match_route pat path = Some b \<Longrightarrow> list_all (\<lambda>p. \<not> is_param p) (split_on (CHR ''/'') pat) \<Longrightarrow> path = pat"
  unfolding match_route_def by (metis literal_route join_split)

definition routes_to :: "string \<Rightarrow> (scope \<times> route) list" where
  "routes_to name = filter (\<lambda>x. list_ex (\<lambda>mn. snd mn = name) (snd (snd x))) api_routes"

lemma routes_to_readyz: "routes_to ''health::readyz'' = [(Public, ''/readyz'', [(GET, ''health::readyz'')])]"
  by (simp add: routes_to_def api_routes_def public_routes_def protected_routes_def cluster_scoped_routes_def)

lemma routes_to_ldap: "routes_to ''auth::ldap_login'' = [(Public, ''/api/v1/auth/ldap/login'', [(POST, ''auth::ldap_login'')])]"
  by (simp add: routes_to_def api_routes_def public_routes_def protected_routes_def cluster_scoped_routes_def)

lemma only_route:
  assumes "reaches path m ex rq' sc name segs c" "routes_to name = [(sc', pat, ms)]"
    and "list_all (\<lambda>p. \<not> is_param p) (split_on (CHR ''/'') pat)"
  shows "path = pat"
proof -
  obtain pat' ms' binds where res: "resolve path = Some (sc, (pat', ms'), binds)" "method_handler ms' m = Some name"
    using assms(1) by (auto simp: reaches_def)
  have "\<exists>m'. (m', name) \<in> set ms'"
    using res(2) by (auto simp: method_handler_def split: option.splits if_splits dest!: map_of_SomeD)
  then have "(sc, pat', ms') \<in> set (routes_to name)"
    using resolve_mem[OF res(1)] by (force simp: routes_to_def list_ex_iff)
  then have "pat' = pat" by (simp add: assms(2))
  with resolve_mem[OF res(1)] literal_path[OF _ assms(3)] show ?thesis by simp
qed

lemma handler_path:
  "reaches path m ex rq' sc ''health::readyz'' segs c \<Longrightarrow> path = ''/readyz''"
  "reaches path m ex rq' sc ''auth::ldap_login'' segs c \<Longrightarrow> path = ''/api/v1/auth/ldap/login''"
  by (drule only_route[OF _ routes_to_readyz] only_route[OF _ routes_to_ldap]; simp add: is_param_def)+

lemma serve_call_users:
  assumes "\<nexists>r. c = AuthCall r"
  shows "app_users (snd (serve_call env c st)) = app_users st"
proof (cases c)
  case (PasskeyCall r)
  have "as_users (st_auth (fst (snd (serve_passkey env r st)))) = as_users (st_auth (fst st))"
    by (cases r) (auto simp: on_passkeys_def split_beta Let_def with_webauthn_def register_start_def register_complete_def
        passkey_login_start_def passkey_login_complete_def split: option.split sum.split)
  then show ?thesis by (simp add: PasskeyCall app_users_def)
next
  case (LayoutSave a d)
  then show ?thesis by (simp add: app_users_def split_beta Let_def)
qed (use assms serve_call_private[of c env st] in \<open>auto simp: app_users_def private_state_def\<close>)

lemma refused_without_token:
  assumes "token_claims env rq = None" "route_request env ex rq st = (resp, st')"
    and "resolve (hq_path rq) = Some (sc, r, binds)" "sc \<noteq> Public" "method_handler (snd r) (hq_method rq) \<noteq> None"
  shows "hs_status resp = 401 \<and> st' = st"
proof -
  obtain pat ms name where r: "r = (pat, ms)" "method_handler ms (hq_method rq) = Some name" using assms(5) by (cases r) auto
  have none: "auth_pass (av_to_str env) (av_decode env) rq st = None" by (simp add: auth_pass_claims assms(1))
  have "scoped (av_to_str env) (av_decode env) app_users sc h rq st = (auth_refuse (av_to_str env) rq st, st)" for h
    using assms(4) by (cases sc) (simp_all add: auth.guard_eq none)
  then have "(resp, st') = without_body (hq_method rq) (auth_refuse (av_to_str env) rq st, st)"
    using assms(2,3) r by (simp add: route_request_def)
  then show ?thesis using auth_refuse_status[of "av_to_str env" rq st] by (auto simp: without_body_def split: if_splits)
qed

lemma public_call_frame:
  assumes "reaches path m ex rq' Public name segs c"
  shows "st_vnc (fst (snd (serve_call env c st))) = st_vnc (fst st)
    \<and> st_dashboard_custom (fst (snd (serve_call env c st))) = st_dashboard_custom (fst st)
    \<and> (app_fleet (snd (serve_call env c st)) = app_fleet st \<or> name = ''health::readyz'')"
  using public_calls[OF assms] serve_probe_frame[of env _ st]
  by (elim disjE exE) (auto simp: serve_passkey_frame serve_auth_frame private_state_def simp del: serve_probe.simps serve_passkey.simps)

section \<open>What holds of every request\<close>


lemma public_writing: "set (handlers_where is_state_changing public_routes)
    \<subseteq> set (names_of session_endpoints @ names_of passkey_endpoints)"
  unfolding group_names by (simp add: route_tables)

lemma quiet_call:
  assumes "(\<exists>r. c = AuthCall r) \<or> (\<exists>r. c = PasskeyCall r) \<or> (\<exists>a d. c = LayoutSave a d)"
  shows "app_fleet (snd (serve_call env c st)) = app_fleet st \<and> st_vnc (fst (snd (serve_call env c st))) = st_vnc (fst st)"
  using assms serve_call_off_fleet[of c env st]
  by (elim disjE exE) (auto simp: serve_passkey_frame serve_auth_frame split_beta Let_def simp del: serve_passkey.simps)

text \<open>C2. A request that writes, from whoever is no operator, touches no cluster and opens no console.\<close>

theorem writes_need_operator:
  assumes "is_state_changing (hq_method rq)" "\<forall>cl. token_claims env rq = Some cl \<longrightarrow> \<not> operator_claims cl"
    and "route_request env ex rq st = (resp, st')"
  shows "app_fleet st' = app_fleet st \<and> st_vnc (fst st') = st_vnc (fst st)"
  using assms(3)
proof (cases rule: routed)
  case (served sc name segs c rq')
  show ?thesis
  proof (cases "sc = Public")
    case True
    have "name \<in> set (handlers_where is_state_changing public_routes)"
      using reaches_table(1)[OF served(1), of is_state_changing] assms(1) True by (auto simp: is_state_changing_def)
    from subsetD[OF public_writing this] reaches_group(2,4)[OF served(1)]
    have "(\<exists>r. c = AuthCall r) \<or> (\<exists>r. c = PasskeyCall r)" by (simp only: set_append Un_iff) blast
    then show ?thesis unfolding served(2) by (intro quiet_call) blast
  next
    case False
    from changing_calls[OF served(1) assms(1) False]
    consider (gated) "gated_call rq' c" | (own) "(\<exists>r. c = AuthCall r) \<or> (\<exists>r. c = PasskeyCall r) \<or> (\<exists>a d. c = LayoutSave a d)"
      by blast
    then show ?thesis
    proof cases
      case gated
      obtain cl where "token_claims env rq = Some cl" "hq_claims rq' = Some cl" using served(5)[OF False] by blast
      with serve_gated[OF gated, of cl env st] assms(2) show ?thesis unfolding served(2) by simp
    next
      case own
      then show ?thesis unfolding served(2) by (rule quiet_call)
    qed
  qed
qed simp


text \<open>What can change the accounts.\<close>

lemma accounts_change:
  assumes "route_request env ex rq st = (resp, st')" "app_users st' \<noteq> app_users st"
  shows "is_state_changing (hq_method rq)
     \<and> ((\<exists>cl. token_claims env rq = Some cl \<and> is_ok (require_role \<lparr> ac_claims = cl \<rparr> Admin))
       \<or> hq_path rq = ''/api/v1/auth/ldap/login'' \<and> lc_auto_create (ae_ldap (av_auth env))
          \<and> (\<exists>info. app_users st' = snd (add_user (ldap_new_user (av_auth env) (av_draw env) info) (app_users st))))"
  using assms(1)
proof (cases rule: routed)
  case still
  then show ?thesis using assms(2) by simp
next
  case (served sc name segs c rq')
  have changing: "is_state_changing (hq_method rq)"
  proof (rule ccontr)
    assume "\<not> is_state_changing (hq_method rq)"
    from reading_calls[OF served(1) this, of env st] assms(2) show False by (simp add: served(2) app_users_def private_state_def)
  qed
  obtain r where c: "c = AuthCall r" using serve_call_users[of c env st] assms(2) unfolding served(2) by blast
  have users: "app_users st' = as_users (snd (auth_serve (av_auth env) (av_draw env) r (st_auth (fst st))))"
    by (simp add: served(2) c app_users_def serve_auth_frame)
  show ?thesis
  proof (cases "admin_request r")
    case True
    then have "sc \<noteq> Public" using public_calls served(1) c by blast
    with changing_calls[OF served(1) changing] served(5) c True show ?thesis using changing by fastforce
  next
    case False
    with serve_users[OF False, of "av_auth env" "av_draw env" "st_auth (fst st)"] users assms(2)
    obtain n p info where ld: "r = LdapLogin n p" "lc_auto_create (ae_ldap (av_auth env))"
        "app_users st' = snd (add_user (ldap_new_user (av_auth env) (av_draw env) info) (app_users st))"
      by (auto simp: app_users_def)
    have "name = ''auth::ldap_login''"
    proof (cases "sc = Public")
      case True
      with public_calls[of _ _ ex] served(1) c ld(1) show ?thesis by blast
    next
      case False
      with changing_calls[OF served(1) changing] c ld(1) show ?thesis by auto
    qed
    with handler_path(2) served(1) ld(2,3) changing show ?thesis by blast
  qed
qed



section \<open>Witnesses\<close>

definition demo_app_env :: "string \<Rightarrow> (nat, string \<times> nat, string, string, string, string \<times> nat, string \<times> nat) app_env" where
  "demo_app_env role = \<lparr> av_px = dead_env, av_auth = demo_auth_env, av_draw = demo_draw, av_order = [0], av_storages_first = False,
     av_decoders = demo_decoders, av_resources = Inl, av_lxc = Inl, av_infra = demo_infra, av_groups = Inl, av_jobs = Inl,
     av_dash = demo_dash, av_vnc = Inl, av_codec = demo_codec, av_lower = id, av_crate = demo_wa, av_uuid = ''u'',
     av_wa_rnd = ''c'', av_fs = demo_fs, av_db = Ok (), av_instant = id, av_metrics = None, av_encode = (\<lambda>_. Err ''none''),
     av_build = (''1'', ''sha'', ''release''), av_assets = \<lparr> as_get = (\<lambda>_. None), as_mime = (\<lambda>_. ''text/plain'') \<rparr>,
     av_to_str = Some, av_decode = (\<lambda>t. Ok (demo_claims \<lparr> cl_role := role \<rparr>)), av_text = (\<lambda>_. ''{}''), av_panic = response 500 [] \<rparr>"

definition demo_ex :: "(string, string \<times> nat) extraction" where
  "demo_ex = \<lparr> ex_param = Some, ex_pairs = [], ex_json = Err (response 415 []), ex_upgrade = Err (response 400 []),
     ex_cred = de_string, ex_asr = (\<lambda>j. None), ex_text = (\<lambda>n. ''rejected''), ex_oidc = \<lparr> od_state_key = ''k'',
     od_verifier = ''v'', od_challenge = ''c'', od_nonce = ''n'', od_csrf = ''t'', od_now = 0 \<rparr>, ex_ns = 0, ex_bytes = [], ex_rnd = (\<lambda>_. 0) \<rparr>"

definition demo_app :: "(nat, nat, string \<times> nat, string, string, nat) app" where
  "demo_app = (state_new demo_boot_config [demo_client] empty_db
     \<lparr> js_encoding_key = 0, js_decoding_key = 0, js_issuer = ''i'', js_audience = ''a'' \<rparr> demo_users None None None None
     \<lparr> ly_dashboards = [], ly_file = None \<rparr> [], 7)"

text \<open>A request without, and one with a token.\<close>

definition demo_rq :: "http_method \<Rightarrow> string \<Rightarrow> http_request" where
  "demo_rq m path = (demo_request path) \<lparr> hq_method := m \<rparr>"

lemma demo_token: "token_claims (demo_app_env role) (demo_rq m path) = Some (demo_claims \<lparr> cl_role := role \<rparr>)"
  by (simp add: token_claims_def demo_app_env_def demo_rq_def demo_request_def extract_bearer_def strip_prefix_def bearer_prefix_def)

lemma demo_no_token: "token_claims (demo_app_env role) ((demo_rq m path) \<lparr> hq_headers := [] \<rparr>) = None"
  by (simp add: token_claims_def extract_bearer_def)

lemma demo_viewer_claims: "\<not> operator_claims (demo_claims \<lparr> cl_role := ''viewer'' \<rparr>)"
  using no_operator[of "demo_auth ''viewer''"] demo_viewer by (simp add: operator_claims_def demo_auth_def)

lemma demo_path [simp]: "hq_path (demo_rq m path) = path" "hq_method (demo_rq m path) = m"
  by (simp_all add: demo_rq_def demo_request_def)


theorem writes_need_operator_witness:
  "app_fleet (snd (route_request (demo_app_env ''viewer'') demo_ex (demo_rq POST ''/api/v1/vms/c1/n1/100/start'') demo_app))
     = ([demo_client], 7)"
proof -
  obtain resp st' where run: "route_request (demo_app_env ''viewer'') demo_ex (demo_rq POST ''/api/v1/vms/c1/n1/100/start'') demo_app
      = (resp, st')" by (metis surj_pair)
  have "app_fleet st' = app_fleet demo_app"
    using writes_need_operator[OF _ _ run] demo_viewer_claims demo_token by (simp add: is_state_changing_def)
  moreover have "app_fleet demo_app = ([demo_client], 7)" by (simp add: app_fleet_def demo_app_def state_new_def)
  ultimately show ?thesis by (simp add: run)
qed

text \<open>Deleting a user, as an administrator.\<close>

lemma protected_run:
  assumes "resolve (hq_path rq) = Some (Protected, (pat, ms), binds)" "method_handler ms (hq_method rq) = Some name"
    and "(name, ep) \<in> set endpoints" "token_claims env rq = Some cl"
    and "ep ex (rq \<lparr> hq_claims := Some cl \<rparr>) (map snd binds) = Inr c"
  shows "snd (route_request env ex rq st) = snd (serve_call env c st)"
proof -
  have "map_of endpoints name = Some ep" by (rule map_of_is_SomeI[OF endpoints_distinct assms(3)])
  with assms(5) have run: "run_handler env ex name (map snd binds) (rq \<lparr> hq_claims := Some cl \<rparr>) st = serve_call env c st"
    by (simp add: run_handler_def)
  show ?thesis by (simp add: route_request_def assms(1,2) auth.guard_eq auth_pass_claims assms(4) run)
qed

definition delete_rq :: http_request where "delete_rq = demo_rq DELETE ''/api/v1/users/ann''"

lemma delete_rq_simps: "hq_path delete_rq = ''/api/v1/users/ann''" "hq_method delete_rq = DELETE"
  "token_claims (demo_app_env role) delete_rq = Some (demo_claims \<lparr> cl_role := role \<rparr>)"
  by (simp_all add: delete_rq_def demo_token)

lemma delete_path: "resolve ''/api/v1/users/ann'' = Some (Protected, (''/api/v1/users/:username'',
    [(PUT, ''auth::update_user''), (DELETE, ''auth::delete_user'')]), [(''username'', ''ann'')])"
  by code_simp

lemma delete_method: "method_handler [(PUT, ''auth::update_user''), (DELETE, ''auth::delete_user'')] DELETE = Some ''auth::delete_user''"
  by code_simp

lemma demo_app_users: "app_users demo_app = demo_users"
  by (simp add: demo_app_def app_users_def state_new_def)

lemma demo_deletes:
  "us_get (app_users (snd (route_request (demo_app_env ''admin'') demo_ex delete_rq demo_app))) ''ann'' = None"
proof -
  let ?auth = "\<lparr> ac_claims = demo_claims \<lparr> cl_role := ''admin'' \<rparr> \<rparr>"
  let ?ep = "with_context (\<lambda>auth. with_path path_one (\<lambda>name. ask (AuthCall (DeleteUser auth name))))
     :: (string, string \<times> nat) endpoint"
  have "resolve (hq_path delete_rq) = Some (Protected, (''/api/v1/users/:username'',
      [(PUT, ''auth::update_user''), (DELETE, ''auth::delete_user'')]), [(''username'', ''ann'')])"
    by (simp add: delete_rq_simps delete_path)
  moreover have "method_handler [(PUT, ''auth::update_user''), (DELETE, ''auth::delete_user'')] (hq_method delete_rq)
      = Some ''auth::delete_user''" by (simp add: delete_rq_simps delete_method)
  moreover have "(''auth::delete_user'', ?ep) \<in> set endpoints" by (simp add: endpoints_def account_endpoints_def)
  moreover have "?ep demo_ex (delete_rq \<lparr> hq_claims := Some (demo_claims \<lparr> cl_role := ''admin'' \<rparr>) \<rparr>) (map snd [(''username'', ''ann'')])
      = Inr (AuthCall (DeleteUser ?auth ''ann''))"
    by (simp add: endpoint_defs with_context_def with_path_def ask_def from_request_parts_def path_one_def path_values_def
        demo_ex_def ok_or_def)
  ultimately have run: "snd (route_request (demo_app_env ''admin'') demo_ex delete_rq demo_app)
      = snd (serve_call (demo_app_env ''admin'') (AuthCall (DeleteUser ?auth ''ann'')) demo_app)"
    using delete_rq_simps(3) by (intro protected_run)
  have gate: "is_ok (require_role ?auth Admin)" by code_simp
  have "app_users (snd (serve_auth (demo_app_env ''admin'') (DeleteUser ?auth ''ann'') demo_app))
      = snd (delete_user ''ann'' (app_users demo_app))"
    using gate by (simp add: app_users_def serve_auth_frame delete_user_handler_def admin_gate_effect split_beta Let_def split: sum.split)
  with run show ?thesis by (simp add: us_get_delete)
qed


definition demo_audit_env :: audit_env where
  "demo_audit_env = \<lparr> ve_to_str = Some, ve_uuid = ''r1'', ve_elapsed_ms = 5, ve_now = 10, ve_db = Ok (), ve_header_ok = (\<lambda>_. True) \<rparr>"



section \<open>Optional bodies\<close>

lemma action_endpoint: "map_of (endpoints :: (string \<times> ('cred, 'asr) endpoint) list) ''vms::vm_action_handler''
    = Some (with_context (\<lambda>auth. with_path path_machine_name (\<lambda>(cl, node, vmid, action).
       with_optional de_delete_vm_request (\<lambda>b. VmCall auth (ActionOn cl node vmid action b)))))"
  by (rule map_of_is_SomeI[OF endpoints_distinct]) (simp add: endpoints_def vm_write_endpoints_def)

text \<open>A body that cannot be read is no body: the answer to an action whose optional body is malformed, of the wrong
  type or announced as something else is the answer to the same action without a body, so a deletion with an
  unreadable body is carried out with the default options instead of being refused.\<close>

theorem malformed_body_is_no_body:
  fixes ex :: "('cred, 'asr) extraction"
  assumes "json_body ex de_delete_vm_request = Inl r" "json_body ex' de_delete_vm_request = Inl r'"
    and "ex' = ex \<lparr> ex_json := ex_json ex' \<rparr>"
  shows "run_handler env ex ''vms::vm_action_handler'' segs rq st = run_handler env ex' ''vms::vm_action_handler'' segs rq st"
proof -
  have same: "reject (ex \<lparr> ex_json := j \<rparr>) = reject ex" "ex_param (ex \<lparr> ex_json := j \<rparr>) = ex_param ex" for j
    by (simp_all add: reject_def fun_eq_iff)
  have "path_machine_name ex' segs = path_machine_name ex segs"
  proof -
    have "path_machine_name (ex \<lparr> ex_json := j \<rparr>) segs = path_machine_name ex segs" for j
      unfolding path_machine_name_def path_quad_def path_values_def path_number_def same ..
    then show ?thesis by (metis assms(3))
  qed
  moreover have "optional_body ex de_delete_vm_request = None" "optional_body ex' de_delete_vm_request = None"
    using assms(1,2) by (simp_all add: optional_body_def)
  ultimately show ?thesis
    by (simp add: run_handler_def action_endpoint with_context_def with_path_def with_optional_def split_beta)
qed

theorem malformed_body_is_no_body_witness:
  "run_handler (demo_app_env ''admin'') (demo_ex \<lparr> ex_json := Ok (JStr ''purge'') \<rparr>) ''vms::vm_action_handler''
       [''c1'', ''n1'', ''100'', ''delete''] delete_rq demo_app
   = run_handler (demo_app_env ''admin'') demo_ex ''vms::vm_action_handler'' [''c1'', ''n1'', ''100'', ''delete''] delete_rq demo_app"
proof -
  let ?ex = "demo_ex \<lparr> ex_json := Ok (JStr ''purge'') \<rparr>"
  have "de_delete_vm_request (JStr ''purge'') = None" by code_simp
  then have "json_body ?ex de_delete_vm_request = Inl (reject ?ex 422)" by (simp add: json_body_def ok_or_def)
  moreover have "json_body demo_ex de_delete_vm_request = Inl (response 415 [])" by (simp add: json_body_def demo_ex_def)
  moreover have "demo_ex = ?ex \<lparr> ex_json := ex_json demo_ex \<rparr>" by simp
  ultimately show ?thesis by (rule malformed_body_is_no_body)
qed

end
