(* ===== verification/App_Runs.thy ===== *)
theory App_Runs
  imports End_To_End
begin

text \<open>
  Runs of the whole application: requests arrive one after another, each with its own clock readings, draws and
  answers of the clusters, and pass the whole stack of \<open>src/api/mod.rs\<close> to the handlers. The invariant of the
  application says that all its stores stay well formed; it holds of the state \<open>main.rs\<close> starts with and every request
  keeps it, so what was proved of one store under its own operations holds of it in the running server.
\<close>

section \<open>The layers\<close>

text \<open>What \<open>tower-http\<close> documents of its CORS layer: it answers \<open>OPTIONS\<close> itself, other requests are passed on
  unchanged and their answers only gain headers.\<close>

definition cors_like :: "('st handler \<Rightarrow> 'st handler) \<Rightarrow> bool" where
  "cors_like cors = (\<forall>h rq st. hq_method rq = OPTIONS \<and> snd (cors h rq st) = st
     \<or> snd (cors h rq st) = snd (h rq st) \<and> hs_status (fst (cors h rq st)) = hs_status (fst (h rq st)))"

definition with_audit :: "audit_db \<Rightarrow> ('ek, 'dk, 'k, 'r, 'a, 'w) app \<Rightarrow> ('ek, 'dk, 'k, 'r, 'a, 'w) app" where
  "with_audit db st = ((fst st) \<lparr> st_audit := db \<rparr>, snd st)"

lemma with_audit_simps [simp]:
  "private_state (with_audit db st) = private_state st" "app_users (with_audit db st) = app_users st"
  "app_fleet (with_audit db st) = app_fleet st" "st_auth (fst (with_audit db st)) = st_auth (fst st)"
  "st_webauthn (fst (with_audit db st)) = st_webauthn (fst st)" "st_audit (fst (with_audit db st)) = db"
  "st_dashboard_custom (fst (with_audit db st)) = st_dashboard_custom (fst st)"
  "st_config (fst (with_audit db st)) = st_config (fst st)" "st_clients (fst (with_audit db st)) = st_clients (fst st)"
  "with_audit (st_audit (fst st)) st = st"
  by (cases st; simp add: with_audit_def private_state_def app_users_def app_fleet_def)+

lemma audit_middleware_run:
  assumes "audit_middleware aenv h rq (db, st) = (resp, db', st')"
  shows "st' = snd (h rq st) \<and> hs_status resp = hs_status (fst (h rq st))
    \<and> (db' = db \<or> db' = snd (audit_log (ve_db aenv) (audit_entry_for aenv rq (hs_status (fst (h rq st)))) db))"
  using assms by (auto simp: audit_middleware_def Let_def split_beta)

lemma security_headers_run: "snd (security_headers_middleware h rq st) = snd (h rq st)
    \<and> hs_status (fst (security_headers_middleware h rq st)) = hs_status (fst (h rq st))"
  by (simp add: security_headers_middleware_def Let_def split_beta)

lemma rate_limit_run:
  "snd (snd (rate_limit_call chk h rq (l, st))) = st \<and> hs_status (fst (rate_limit_call chk h rq (l, st))) = 429
   \<or> snd (snd (rate_limit_call chk h rq (l, st))) = snd (h rq st)
     \<and> hs_status (fst (rate_limit_call chk h rq (l, st))) = hs_status (fst (h rq st))"
  by (simp add: rate_limit_call_def Let_def split_beta response_def)

text \<open>A request of the whole stack is answered by a layer, with the state untouched, or by its route.\<close>

lemma app_request_cases:
  fixes st :: "('ek, 'dk, 'k, 'r, 'a, 'w) app"
  assumes "app_request chk cors aenv env ex rq (l, st) = (resp, l', st')" "cors_like cors"
  obtains (layer) "st' = st" "hq_method rq = OPTIONS \<or> hs_status resp = 429"
  | (routed) st1 db where "st1 = snd (route_request env ex rq st)" "st' = with_audit db st1"
      "hs_status resp = hs_status (fst (route_request env ex rq st))"
      "db = st_audit (fst st) \<or> db = snd (audit_log (ve_db aenv) (audit_entry_for aenv rq (hs_status resp)) (st_audit (fst st)))"
proof -
  define h where "h = rate_limit_call chk (audit_middleware aenv (scoped (ve_to_str aenv) (av_decode env)
    (app_users :: ('ek, 'dk, 'k, 'r, 'a, 'w) app \<Rightarrow> user_store) Public (route_request env ex)))"
  define s0 where "s0 = (l, st_audit (fst st), st)"
  obtain r2 l2 db2 st2 where h: "h rq s0 = (r2, l2, db2, st2)" by (metis prod_cases4)
  obtain r1 l1 db1 st1 where c: "cors h rq s0 = (r1, l1, db1, st1)" by (metis prod_cases4)
  have run: "hs_status resp = hs_status r1" "st' = with_audit db1 st1"
  proof -
    obtain r0 l0 db0 st0 where s: "security_headers_middleware (cors h) rq s0 = (r0, l0, db0, st0)" by (metis prod_cases4)
    have "resp = r0" "st' = with_audit db0 st0"
      using assms(1) s by (auto simp: app_request_def serve_def h_def s0_def with_audit_def)
    with security_headers_run[of "cors h" rq s0] s c show "hs_status resp = hs_status r1" "st' = with_audit db1 st1" by auto
  qed
  consider (options) "hq_method rq = OPTIONS" "(l1, db1, st1) = s0" | (on) "(l1, db1, st1) = (l2, db2, st2)" "hs_status r1 = hs_status r2"
    using assms(2) h c unfolding cors_like_def by (metis fst_conv snd_conv)
  then show ?thesis
  proof cases
    case options
    then show ?thesis using layer run by (simp add: s0_def)
  next
    case on
    obtain r3 db3 st3 where a: "audit_middleware aenv (route_request env ex) rq (st_audit (fst st), st) = (r3, db3, st3)"
      by (metis prod_cases3)
    consider (limited) "(db2, st2) = (st_audit (fst st), st)" "hs_status r2 = 429" | (audited) "(db2, st2) = (db3, st3)" "hs_status r2 = hs_status r3"
      using rate_limit_run[of chk "audit_middleware aenv (route_request env ex)" rq l "(st_audit (fst st), st)"] h a
      by (auto simp: h_def s0_def)
    then show ?thesis
    proof cases
      case limited
      then show ?thesis using layer run on by simp
    next
      case audited
      show ?thesis
        by (rule routed[of "snd (route_request env ex rq st)" db3])
          (use audit_middleware_run[OF a] audited on run in auto)
    qed
  qed
qed

section \<open>The configuration of the clients\<close>

text \<open>No request changes what cluster a client is for, nor the number and the order of the clients.\<close>

definition keeps_clients :: "('w fleet \<Rightarrow> 'x \<times> 'w fleet) \<Rightarrow> bool" where
  "keeps_clients f = (\<forall>fl. map pc_config (fst (snd (f fl))) = map pc_config (fst fl))"

lemma keeps_clientsI: "(\<And>cs w r cs' w'. f (cs, w) = (r, cs', w') \<Longrightarrow> map pc_config cs' = map pc_config cs) \<Longrightarrow> keeps_clients f"
  unfolding keeps_clients_def by (metis prod.collapse)

lemma keeps_run_order:
  assumes "\<And>i. keeps_clients (f i)"
  shows "keeps_clients (run_order order f)"
proof -
  have "map pc_config (fst (snd (run_order order f fl))) = map pc_config (fst fl)" for fl
  proof (induction order arbitrary: fl)
    case (Cons i js)
    show ?case using Cons[of "snd (f i fl)"] assms[of i, unfolded keeps_clients_def, rule_format, of fl] by (simp add: split_beta Let_def)
  qed simp
  then show ?thesis by (simp add: keeps_clients_def)
qed

lemma keeps_join_all: "(\<And>i. keeps_clients (f i)) \<Longrightarrow> keeps_clients (join_all order n f)"
  using keeps_run_order[of f order] by (simp add: keeps_clients_def join_all_def split_beta Let_def)

lemma keeps_on_fleet: "keeps_clients f \<Longrightarrow> map pc_config (st_clients (fst (snd (on_fleet f st)))) = map pc_config (st_clients (fst st))"
  by (simp add: on_fleet_def split_beta Let_def keeps_clients_def app_fleet_def)

context client_call
begin

lemma keeps_at_client: "keeps_clients (at_client i (f env))"
  by (rule keeps_clientsI) (rule at_client_configs)

lemma keeps_each_client: "keeps_clients (each_client order sel (f env))"
  unfolding each_client_def
proof (rule keeps_join_all)
  show "keeps_clients (\<lambda>st. let (r, st') = at_client (sel ! k) (f env) st in ((px_name (fst st ! (sel ! k)), r), st'))" for k
    using keeps_at_client[of "sel ! k" env] by (simp add: keeps_clients_def split_beta Let_def)
qed

lemma keeps_list: "keeps_clients (list_endpoint order (f env) rows_of)"
  using keeps_each_client[of order _ env] by (simp add: keeps_clients_def list_endpoint_def split_beta Let_def)

lemma keeps_data: "keeps_clients (data_endpoint order (f env))"
  using keeps_each_client[of order _ env] by (simp add: keeps_clients_def data_endpoint_def split_beta Let_def)

end

lemma keeps_post: "keeps_clients f \<Longrightarrow> (\<And>st. snd (g st) = snd (f st)) \<Longrightarrow> keeps_clients g"
  by (simp add: keeps_clients_def)

lemma keeps_within: "within cl h \<Longrightarrow> keeps_clients (h env)"
  unfolding within_def stays_def keeps_clients_def Let_def by blast

lemma keeps_bulk: "(\<And>vm. client_call (g vm)) \<Longrightarrow> keeps_clients (join_all order n (\<lambda>k. bulk_one action (\<lambda>vm. g vm env) (vms ! k)))"
proof (rule keeps_join_all)
  fix k
  assume g: "\<And>vm. client_call (g vm)"
  show "keeps_clients (bulk_one action (\<lambda>vm. g vm env) (vms ! k))"
  proof (rule keeps_clientsI)
    fix cs w r cs' w'
    assume run: "bulk_one action (\<lambda>vm. g vm env) (vms ! k) (cs, w) = (r, cs', w')"
    from client_call.at_client_configs[OF g] run show "map pc_config cs' = map pc_config cs"
      by (auto simp: bulk_one_def split: option.splits prod.splits)
  qed
qed

lemma keeps_gate: "keeps_clients f \<Longrightarrow> keeps_clients (operator_gate env auth f)"
  unfolding operator_gate_def keeps_clients_def using role_gate_cases[of env Operator "''operator role required''" auth f] by (metis snd_conv)

lemma keeps_bulks:
  "keeps_clients (bulk_start env order auth vms)" "keeps_clients (bulk_stop env order auth vms)"
  "keeps_clients (bulk_reboot env order auth vms)" "keeps_clients (bulk_delete env order auth vms)"
proof -
  have a: "keeps_clients (bulk_action env order action vms)" for action
    unfolding bulk_action_def
    by (rule keeps_bulk[where g = "\<lambda>vm env. px_post env (pe_string env) (status_path (bv_node vm) (bv_vmid vm) action)"]) (rule client_calls)
  have d: "keeps_clients (bulk_delete_all env order vms)"
    unfolding bulk_delete_all_def
    by (rule keeps_bulk[where g = "\<lambda>vm env. px_delete_vm env (bv_node vm) (bv_vmid vm) False False False"]) (rule client_calls)
  show "keeps_clients (bulk_start env order auth vms)" "keeps_clients (bulk_stop env order auth vms)"
    "keeps_clients (bulk_reboot env order auth vms)" "keeps_clients (bulk_delete env order auth vms)"
    unfolding bulk_start_def bulk_stop_def bulk_reboot_def bulk_delete_def
    by (intro keeps_gate, rule keeps_post[OF a] keeps_post[OF d], simp add: always_ok_def split_beta)+
qed

text \<open>The listings and the dashboard, built on the two endpoints.\<close>

lemma keeps_listed: "client_call f \<Longrightarrow> (\<And>st. snd (g st) = snd (list_endpoint order (f env) rows_of st)) \<Longrightarrow> keeps_clients g"
  by (rule keeps_post[OF client_call.keeps_list])

lemma keeps_viewed: "client_call f \<Longrightarrow> (\<And>st. snd (g st) = snd (data_endpoint order (f env) st)) \<Longrightarrow> keeps_clients g"
  by (rule keeps_post[OF client_call.keeps_data])

lemma keeps_listings:
  "keeps_clients (list_lxcs penv d1 order)" "keeps_clients (list_storages_handler penv d2 order)"
  "keeps_clients (list_networks_handler penv d3 order)" "keeps_clients (list_vlans penv d3 order)"
  "keeps_clients (list_ha_groups_handler penv d4 order)" "keeps_clients (list_replication_handler penv d5 order)"
  "keeps_clients (list_vms penv d1 lower order q)"
proof -
  show "keeps_clients (list_lxcs penv d1 order)"
    by (rule keeps_listed[of "\<lambda>env. px_list_lxcs env d1"]) (rule client_calls, simp add: list_lxcs_def split_beta Let_def)
  show "keeps_clients (list_storages_handler penv d2 order)"
    by (rule keeps_listed[of "\<lambda>env. px_get env d2 ''storage''"]) (rule client_calls, simp add: list_storages_handler_def split_beta Let_def)
  show "keeps_clients (list_networks_handler penv d3 order)"
    by (rule keeps_listed[of "\<lambda>env. px_get env d3 ''network''"]) (rule client_calls, simp add: list_networks_handler_def split_beta Let_def)
  show "keeps_clients (list_vlans penv d3 order)"
    by (rule keeps_listed[of "\<lambda>env. px_get env d3 ''network''"]) (rule client_calls, simp add: list_vlans_def split_beta Let_def)
  show "keeps_clients (list_ha_groups_handler penv d4 order)"
    by (rule keeps_listed[of "\<lambda>env. px_list_ha_groups env d4"]) (rule client_calls, simp add: list_ha_groups_handler_def split_beta Let_def)
  show "keeps_clients (list_replication_handler penv d5 order)"
    by (rule keeps_listed[of "\<lambda>env. px_list_replication_jobs env d5"]) (rule client_calls, simp add: list_replication_handler_def split_beta Let_def)
  show "keeps_clients (list_vms penv d1 lower order q)"
    by (rule keeps_listed[of "\<lambda>env. px_list_vms env d1"]) (rule client_calls, simp add: list_vms_def split_beta Let_def)
qed

lemma keeps_views: "keeps_clients (raw_view penv d path order)" "keeps_clients (cluster_view penv d path order)"
proof -
  show "keeps_clients (raw_view penv d path order)"
    by (rule keeps_viewed[of "\<lambda>env. px_get env d path"]) (rule client_calls, simp add: raw_view_def split_beta Let_def)
  show "keeps_clients (cluster_view penv d path order)"
    by (rule keeps_viewed[of "\<lambda>env. px_get env d path"])
      (rule client_calls, simp add: cluster_view_def collect_aggregated_def split_beta Let_def)
qed

lemma keeps_views':
  "keeps_clients (ceph_status penv d order)" "keeps_clients (ceph_pools penv d order)" "keeps_clients (sdn_zones penv d order)"
  "keeps_clients (sdn_vnets penv d order)" "keeps_clients (firewall_rules penv d order)" "keeps_clients (ha_status penv d order)"
  "keeps_clients (cluster_status_handler penv d order)" "keeps_clients (cluster_config_handler penv d order)"
  "keeps_clients (cluster_options_handler penv d order)" "keeps_clients (cluster_log_handler penv d order)"
  "keeps_clients (cluster_tasks_handler penv d order)"
proof -
  show "keeps_clients (cluster_status_handler penv d order)"
    by (rule keeps_post[OF keeps_views(2)[of penv d "''cluster/status''" order]])
      (simp add: cluster_status_handler_def cluster_view_def split_beta Let_def)
qed (simp_all add: ceph_status_def ceph_pools_def sdn_zones_def sdn_vnets_def firewall_rules_def ha_status_def
      cluster_config_handler_def cluster_options_handler_def cluster_log_handler_def cluster_tasks_handler_def keeps_views)

lemma keeps_dashboard: "keeps_clients (dashboard dd first penv users auth order)"
proof -
  have "keeps_clients (each_client order sel (collect_cluster_dashboard dd first penv))" for sel
    by (rule client_call.keeps_each_client) (rule client_calls)
  then show ?thesis by (simp add: keeps_clients_def dashboard_def split_beta Let_def)
qed

lemma keeps_readyz: "map pc_config (fst (snd (snd (readyz penv d instant order (cache, fl))))) = map pc_config (fst fl)"
proof -
  have "keeps_clients (each_client order sel (px_ping penv d))" for sel
    by (rule client_call.keeps_each_client) (rule client_calls)
  then have "map pc_config (fst (snd (each_client order sel (px_ping penv d) fl))) = map pc_config (fst fl)" for sel
    unfolding keeps_clients_def by blast
  then show ?thesis by (simp add: readyz_def readiness_def split_beta Let_def)
qed

text \<open>All calls.\<close>

lemma serve_call_clients: "map pc_config (st_clients (fst (snd (serve_call env c st)))) = map pc_config (st_clients (fst st))"
proof -
  have fleet: "app_fleet (snd (serve_call env c st)) = app_fleet st \<Longrightarrow> ?thesis"
    "confined_to cl (app_fleet st) (app_fleet (snd (serve_call env c st))) \<Longrightarrow> ?thesis" for cl
    by (simp_all add: app_fleet_def confined_to_def)
  show ?thesis
  proof (cases "off_fleet c \<or> (\<exists>cl. call_cluster c = Some cl)")
    case True
    then show ?thesis using fleet serve_call_off_fleet serve_confined by blast
  next
    case False
    show ?thesis
    proof (cases c)
      case (ProbeCall p)
      with False have "p = Readyz" by simp
      then show ?thesis
        using keeps_readyz[of "av_px env" "dc_value (av_decoders env)" "av_instant env" "av_order env" "st_readiness (fst st)" "app_fleet st"]
        by (simp add: ProbeCall split_beta Let_def app_fleet_def)
    next
      case (ListingCall l)
      then show ?thesis by (cases l) (simp_all add: keeps_on_fleet keeps_listings keeps_views')
    next
      case (VmReadCall r)
      then show ?thesis using False by (cases r) (simp_all add: keeps_on_fleet keeps_listings)
    next
      case (VmCall auth r)
      have "keeps_clients (vm_serve (av_decoders env) (av_order env) auth r (av_px env))"
      proof (cases "cluster_of r")
        case None
        then show ?thesis using keeps_bulks[unfolded keeps_clients_def]
          by (cases r) (simp_all add: keeps_clients_def map_reply_def)
      next
        case (Some cl)
        then show ?thesis by (rule keeps_within[OF vm_serve_within])
      qed
      then show ?thesis by (simp add: VmCall keeps_on_fleet del: vm_serve.simps)
    next
      case (DashboardCall auth)
      then show ?thesis by (simp add: keeps_on_fleet keeps_dashboard)
    qed (use False in auto)
  qed
qed

text \<open>Nor does a request change the configuration, the keys or the plugins.\<close>

definition static_state :: "('ek, 'dk, 'k, 'r, 'a, 'w) app \<Rightarrow> config \<times> ('ek, 'dk) jwt_service \<times> string option \<times> webhook_service option \<times> plugin list" where
  "static_state st = (st_config (fst st), st_jwt (fst st), st_vnc_secret (fst st), st_webhook (fst st), st_plugins (fst st))"

lemma only_fleet_static: "only_fleet st st' \<Longrightarrow> static_state st' = static_state st"
  by (auto simp: only_fleet_def static_state_def)

lemma serve_call_static: "static_state (snd (serve_call env c st)) = static_state st"
proof -
  have a: "only_fleet st (snd (serve_call env c st)) \<Longrightarrow> ?thesis" by (rule only_fleet_static)
  show ?thesis
  proof (cases c)
    case (ProbeCall p)
    then show ?thesis by (cases p) (simp_all add: static_state_def split_beta Let_def)
  next
    case (PasskeyCall r)
    then show ?thesis by (cases r) (simp_all add: on_passkeys_def static_state_def split_beta Let_def)
  qed (use a in \<open>auto simp: static_state_def serve_auth_def on_auth_def serve_audit_def serve_vnc_connect_def split_beta Let_def
        simp del: auth_serve.simps serve_listing.simps serve_vm_read.simps\<close>)
qed

section \<open>Runs\<close>

text \<open>
  One request of a run. The crate of the passkeys and the digest are those of the process; everything else, the clock
  and the answers of the clusters included, may differ from request to request. The history holds the
  pre-authentication tokens, the state keys and the challenges drawn so far; a draw never repeats one, nor an identifier or
  a token in the refresh store. The requests of a run may be restricted to those of a predicate.
\<close>

type_synonym 'a history = "string list \<times> string list \<times> 'a list"

fun new_draws :: "('w, 'k, 'r, 'a, 'cred, 'asr, 'z) app_env \<Rightarrow> ('cred, 'asr) extraction
    \<Rightarrow> ('ek, 'dk, 'k, 'r, 'a, 'w) app \<Rightarrow> 'a history \<Rightarrow> bool" where
  "new_draws env ex st (pre, keys, chs) =
     (rs_fresh (ae_digest (av_auth env)) (dr_id (av_draw env)) (dr_token (av_draw env)) (as_refresh (st_auth (fst st)))
      \<and> dr_preauth (av_draw env) \<notin> set pre \<and> od_state_key (ex_oidc ex) \<notin> set keys
      \<and> (\<forall>creds rcr a. wc_start_auth (av_crate env) (av_wa_rnd env) creds = Ok (rcr, a) \<longrightarrow> a \<notin> set chs))"

definition pending_challenges :: "('k, 'r, 'a) wa_state option \<Rightarrow> 'a list" where
  "pending_challenges o' = (case o' of None \<Rightarrow> [] | Some w \<Rightarrow> map snd (wa_auth_state w))"

fun note_draws :: "('w, 'k, 'r, 'a, 'cred, 'asr, 'z) app_env \<Rightarrow> ('cred, 'asr) extraction
    \<Rightarrow> ('ek, 'dk, 'k, 'r, 'a, 'w) app \<Rightarrow> 'a history \<Rightarrow> 'a history" where
  "note_draws env ex st' (pre, keys, chs) =
     (dr_preauth (av_draw env) # pre, od_state_key (ex_oidc ex) # keys, pending_challenges (st_webauthn (fst st')) @ chs)"

inductive app_step :: "('k, 'r, 'a, 'cred, 'asr, 'z) wa_crate \<Rightarrow> digest
    \<Rightarrow> (('w, 'k, 'r, 'a, 'cred, 'asr, 'z) app_env \<Rightarrow> http_request \<Rightarrow> bool) \<Rightarrow> ('l \<times> ('ek, 'dk, 'k, 'r, 'a, 'w) app) \<times> 'a history \<Rightarrow> ('l \<times> ('ek, 'dk, 'k, 'r, 'a, 'w) app) \<times> 'a history \<Rightarrow> bool"
  for W H P where
  request: "P env rq \<Longrightarrow> av_crate env = W \<Longrightarrow> ae_digest (av_auth env) = H \<Longrightarrow> new_draws env ex st hist \<Longrightarrow> cors_like cors
    \<Longrightarrow> app_request chk cors aenv env ex rq (l, st) = (resp, l', st')
    \<Longrightarrow> app_step W H P ((l, st), hist) ((l', st'), note_draws env ex st' hist)"

section \<open>The invariant\<close>

definition passkeys_ok :: "('k, 'r, 'a) wa_state option \<Rightarrow> 'a list \<Rightarrow> bool" where
  "passkeys_ok o' chs = (case o' of None \<Rightarrow> True | Some w \<Rightarrow> wa_ok (w, [] :: ('k, unit, unit, unit) wa_pc list, chs))"

fun app_ok :: "('ek, 'dk, 'k, 'r, 'a, 'w) app \<Rightarrow> 'a history \<Rightarrow> bool" where
  "app_ok st (pre, keys, chs) =
     (auth_ok (st_auth (fst st), pre, keys) \<and> no_second_factor (as_users (st_auth (fst st)))
      \<and> passkeys_ok (st_webauthn (fst st)) chs \<and> db_ok (st_audit (fst st))
      \<and> hm_ok (ly_dashboards (st_dashboard_custom (fst st)))
      \<and> map pc_config (st_clients (fst st)) = cf_clusters (st_config (fst st)))"

lemma auth_more: "auth_ok (s, pre, keys) \<Longrightarrow> auth_ok (s, ts @ pre, ks @ keys)"
  by (auto intro: pa_more oidc_more split: option.splits)

lemma passkeys_more: "passkeys_ok o' chs \<Longrightarrow> set chs \<subseteq> set chs' \<Longrightarrow> passkeys_ok o' chs'"
  by (fastforce simp: passkeys_ok_def wa_ok_def split: option.splits)

text \<open>The state key of a login by single sign-on is the one drawn with the request.\<close>

lemma sso_key_drawn:
  assumes "(name, ep) \<in> set endpoints" "ep ex rq segs = Inr (AuthCall (OidcLogin od p))"
  shows "od = ex_oidc ex"
proof -
  have "(name, ep) \<in> set session_endpoints \<Longrightarrow> ?thesis"
    using assms(2) unfolding session_endpoints_def by (auto simp: endpoint_defs)
  moreover have "(name, ep) \<in> set account_endpoints \<Longrightarrow> ?thesis"
    using assms(2) unfolding account_endpoints_def by (auto simp: endpoint_defs)
  moreover have "(name, ep) \<in> set (probe_endpoints @ passkey_endpoints @ view_endpoints @ listing_endpoints @ bulk_endpoints
      @ cluster_read_endpoints @ vm_write_endpoints @ other_write_endpoints) \<Longrightarrow> ?thesis"
    using probe_calls[of name ep ex rq segs, OF _ assms(2)]
      passkey_calls[of name ep ex rq segs, OF _ assms(2)]
      view_calls[of name ep ex rq segs, OF _ assms(2)]
      listing_calls[of name ep ex rq segs, OF _ assms(2)]
      bulk_calls[of name ep ex rq segs, OF _ assms(2)]
      cluster_read_calls[of name ep ex rq segs, OF _ assms(2)]
      vm_write_calls[of name ep ex rq segs, OF _ assms(2)]
      other_write_calls[of name ep ex rq segs, OF _ assms(2)]
    by (simp only: set_append Un_iff) (elim disjE; force)
  ultimately show ?thesis using assms(1) unfolding endpoints_def by (simp only: set_append Un_iff) blast
qed

lemma reached_sso_key:
  "reaches path m ex rq sc name segs (AuthCall (OidcLogin od p)) \<Longrightarrow> od = ex_oidc ex"
  using reaches_table(2) sso_key_drawn map_of_SomeD by metis

text \<open>What a passkey request does to the stores.\<close>

lemma passkey_sessions:
  "st_auth (fst (snd (serve_passkey env r st))) = st_auth (fst st)
   \<or> (\<exists>u. st_auth (fst (snd (serve_passkey env r st))) = snd (open_session (av_auth env) (av_draw env) u (st_auth (fst st))))"
proof (cases r)
  case (PasskeyComplete n cred)
  then show ?thesis
    by (cases "st_webauthn (fst st)")
      (auto simp: on_passkeys_def with_webauthn_def passkey_login_complete_def split_beta Let_def split: option.split sum.split)
qed (auto simp: on_passkeys_def with_webauthn_def register_start_def register_complete_def passkey_login_start_def
      split_beta Let_def split: option.split)

lemma finish_authentication_challenges:
  "wa_auth_state (snd (finish_authentication W uid rsp w)) = hm_del uid (wa_auth_state w)"
  by (simp add: finish_authentication_def wa_map_defs Let_def split: option.split sum.split)

lemma passkey_challenges:
  assumes "st_webauthn (fst st) = Some w"
  shows "\<exists>w'. st_webauthn (fst (snd (serve_passkey env r st))) = Some w'
    \<and> (wa_auth_state w' = wa_auth_state w \<or> (\<exists>uid. wa_auth_state w' = hm_del uid (wa_auth_state w))
       \<or> (\<exists>uid creds rcr a. wc_start_auth (av_crate env) (av_wa_rnd env) creds = Ok (rcr, a)
            \<and> wa_auth_state w' = hm_put uid a (wa_auth_state w)))"
proof (cases r)
  case (RegisterStart auth)
  then show ?thesis using assms
    by (auto simp: on_passkeys_def with_webauthn_def register_start_def start_registration_def wa_map_defs
        split_beta Let_def split: sum.split prod.split)
next
  case (RegisterComplete auth cred)
  then show ?thesis using assms
    by (auto simp: on_passkeys_def with_webauthn_def register_complete_def finish_registration_def wa_map_defs
        split_beta Let_def split: option.split sum.split)
next
  case (PasskeyStart n)
  then show ?thesis using assms
    by (fastforce simp: on_passkeys_def with_webauthn_def passkey_login_start_def start_authentication_def wa_map_defs
        split_beta Let_def split: option.split sum.split)
next
  case (PasskeyComplete n cred)
  then show ?thesis using assms
    by (auto simp: on_passkeys_def with_webauthn_def passkey_login_complete_def
        finish_authentication_challenges split_beta Let_def split: option.split sum.split)
qed

text \<open>A call keeps each part of the invariant.\<close>

lemma passkeys_ok_put: "passkeys_ok (Some w) chs \<Longrightarrow> a \<notin> set chs \<Longrightarrow> wa_auth_state w' = hm_put uid a (wa_auth_state w)
    \<Longrightarrow> passkeys_ok (Some w') (map snd (wa_auth_state w') @ chs)"
  by (auto simp: passkeys_ok_def wa_ok_def hm_get_put hm_put_set split: if_splits dest: hm_get_in_set)

lemma passkeys_ok_same: "passkeys_ok (Some w) chs \<Longrightarrow> wa_auth_state w' = wa_auth_state w \<or> (\<exists>uid. wa_auth_state w' = hm_del uid (wa_auth_state w))
    \<Longrightarrow> passkeys_ok (Some w') (cs @ chs)"
  by (auto simp: passkeys_ok_def wa_ok_def hm_get_del split: if_splits)

lemma call_passkeys:
  fixes c :: "('cred, 'asr) call"
  assumes "passkeys_ok (st_webauthn (fst st)) chs"
    and "\<forall>creds rcr a. wc_start_auth (av_crate env) (av_wa_rnd env) creds = Ok (rcr, a) \<longrightarrow> a \<notin> set chs"
  defines "st' \<equiv> snd (serve_call env c st)"
  shows "passkeys_ok (st_webauthn (fst st')) (pending_challenges (st_webauthn (fst st')) @ chs)"
proof (cases "\<exists>r. c = PasskeyCall r")
  case True
  then obtain r where c: "c = PasskeyCall r" by blast
  show ?thesis
  proof (cases "st_webauthn (fst st)")
    case None
    then have "st_webauthn (fst st') = None"
      by (cases r) (simp_all add: st'_def c on_passkeys_def with_webauthn_def register_start_def register_complete_def
          passkey_login_start_def passkey_login_complete_def Let_def)
    then show ?thesis by (simp add: passkeys_ok_def)
  next
    case (Some w)
    obtain w' where w': "st_webauthn (fst st') = Some w'"
      "wa_auth_state w' = wa_auth_state w \<or> (\<exists>uid. wa_auth_state w' = hm_del uid (wa_auth_state w))
       \<or> (\<exists>uid creds rcr a. wc_start_auth (av_crate env) (av_wa_rnd env) creds = Ok (rcr, a)
            \<and> wa_auth_state w' = hm_put uid a (wa_auth_state w))"
      using passkey_challenges[OF Some, of env r] by (elim exE conjE) (rule that, simp_all add: st'_def c)
    have ok: "passkeys_ok (Some w) chs" using assms(1) Some by simp
    from w'(2) show ?thesis unfolding w'(1) pending_challenges_def option.case
    proof (elim disjE exE conjE)
      fix uid creds rcr a
      assume "wc_start_auth (av_crate env) (av_wa_rnd env) creds = Ok (rcr, a)" "wa_auth_state w' = hm_put uid a (wa_auth_state w)"
      with passkeys_ok_put[OF ok, of a w' uid] assms(2) show "passkeys_ok (Some w') (map snd (wa_auth_state w') @ chs)" by simp
    qed (use passkeys_ok_same[OF ok] in blast)+
  qed
next
  case False
  have "st_webauthn (fst st') = st_webauthn (fst st)"
  proof (cases c)
    case (AuthCall r)
    then show ?thesis by (simp add: st'_def serve_auth_def on_auth_def split_beta Let_def del: auth_serve.simps)
  next
    case (LayoutSave a d)
    then show ?thesis by (simp add: st'_def split_beta Let_def)
  qed (use serve_call_private[of c env st] False in \<open>auto simp: st'_def private_state_def\<close>)
  then show ?thesis using passkeys_more[OF assms(1)] by simp
qed

lemma call_auth:
  assumes "auth_ok (st_auth (fst st), pre, keys)" "rs_fresh (ae_digest (av_auth env)) (dr_id (av_draw env)) (dr_token (av_draw env)) (as_refresh (st_auth (fst st)))"
    and "dr_preauth (av_draw env) \<notin> set pre" "key \<notin> set keys" "\<And>od p. c = AuthCall (OidcLogin od p) \<Longrightarrow> od_state_key od = key"
  shows "auth_ok (st_auth (fst (snd (serve_call env c st))), dr_preauth (av_draw env) # pre, key # keys)"
proof -
  define s where "s = st_auth (fst st)"
  have still: "auth_ok (s, dr_preauth (av_draw env) # pre, key # keys)"
    using auth_more[OF assms(1), of "[dr_preauth (av_draw env)]" "[key]"] by (simp add: s_def del: auth_ok.simps)
  show ?thesis
  proof (cases c)
    case (AuthCall r)
    have d: "tokens_drawn (av_draw env) r = [] \<or> tokens_drawn (av_draw env) r = [dr_preauth (av_draw env)]"
      by (simp add: tokens_drawn_def split: auth_request.split)
    have k: "keys_drawn r = [] \<or> keys_drawn r = [key]"
      using assms(5) AuthCall by (auto simp: keys_drawn_def split: auth_request.split)
    have "auth_step (av_auth env) (s, pre, keys)
        (snd (auth_serve (av_auth env) (av_draw env) r s), tokens_drawn (av_draw env) r @ pre, keys_drawn r @ keys)"
      by (rule auth_step.request) (use assms(2-4) d k in \<open>auto simp: s_def\<close>)
    from auth_ok_step[OF assms(1)[folded s_def] this] have ok:
      "auth_ok (snd (auth_serve (av_auth env) (av_draw env) r s), tokens_drawn (av_draw env) r @ pre, keys_drawn r @ keys)" .
    have "auth_ok (snd (auth_serve (av_auth env) (av_draw env) r s), [dr_preauth (av_draw env)] @ pre, [key] @ keys)"
      using d k auth_more[OF ok, of "[]" "[key]"] auth_more[OF ok, of "[dr_preauth (av_draw env)]" "[]"]
        auth_more[OF ok, of "[dr_preauth (av_draw env)]" "[key]"] ok
      by (elim disjE) (simp_all del: auth_serve.simps auth_ok.simps)
    then show ?thesis by (simp add: AuthCall s_def serve_auth_frame del: auth_serve.simps auth_ok.simps)
  next
    case (PasskeyCall r)
    have "auth_ok (snd (open_session (av_auth env) (av_draw env) u s), dr_preauth (av_draw env) # pre, key # keys)" for u
      using still rs_ok_steps[OF open_session_refresh[OF assms(2), of u]] by (simp add: s_def)
    with still passkey_sessions[of env r st] show ?thesis
      by (auto simp: PasskeyCall s_def simp del: serve_passkey.simps auth_ok.simps)
  next
    case (LayoutSave a d)
    then show ?thesis using still by (simp add: s_def split_beta Let_def)
  qed (use serve_call_private[of c env st] still in \<open>auto simp: s_def private_state_def simp del: auth_ok.simps\<close>)
qed

lemma call_users:
  assumes "us_ok (app_users st)" "no_second_factor (app_users st)"
  shows "no_second_factor (app_users (snd (serve_call env c st)))"
proof (cases "\<exists>r. c = AuthCall r")
  case True
  then obtain r where c: "c = AuthCall r" by blast
  show ?thesis using no_second_factor_serve[of "st_auth (fst st)" "av_auth env" "av_draw env" r] assms
    by (simp add: c app_users_def serve_auth_frame del: auth_serve.simps)
qed (use serve_call_users[of c env st] assms in simp)

lemma call_layouts: "hm_ok (ly_dashboards (st_dashboard_custom (fst st)))
    \<Longrightarrow> hm_ok (ly_dashboards (st_dashboard_custom (fst (snd (serve_call env c st)))))"
proof (cases c)
  case (LayoutSave a d)
  have "ly_dashboards (snd (persist F s)) = ly_dashboards s" for F s
    by (auto simp: persist_def split: option.split sum.split prod.split)
  moreover assume "hm_ok (ly_dashboards (st_dashboard_custom (fst st)))"
  ultimately show ?thesis by (simp add: LayoutSave save_custom_dashboard_def save_dashboard_def split_beta Let_def)
next
  case (PasskeyCall r)
  then show "hm_ok (ly_dashboards (st_dashboard_custom (fst st))) \<Longrightarrow> ?thesis" by (simp add: serve_passkey_frame del: serve_passkey.simps)
next
  case (AuthCall r)
  then show "hm_ok (ly_dashboards (st_dashboard_custom (fst st))) \<Longrightarrow> ?thesis" by (simp add: serve_auth_frame)
qed (use serve_call_private[of c env st] in \<open>auto simp: private_state_def\<close>)

text \<open>A request keeps the invariant.\<close>

lemma app_ok_call:
  assumes "app_ok st (pre, keys, chs)" "new_draws env ex st (pre, keys, chs)"
    and "\<And>od p. c = AuthCall (OidcLogin od p) \<Longrightarrow> od = ex_oidc ex"
  shows "app_ok (snd (serve_call env c st)) (note_draws env ex (snd (serve_call env c st)) (pre, keys, chs))"
proof -
  have inv: "auth_ok (st_auth (fst st), pre, keys)" "passkeys_ok (st_webauthn (fst st)) chs"
    "us_ok (app_users st)" "no_second_factor (app_users st)" "db_ok (st_audit (fst st))"
    "hm_ok (ly_dashboards (st_dashboard_custom (fst st)))" "map pc_config (st_clients (fst st)) = cf_clusters (st_config (fst st))"
    using assms(1) by (simp_all add: app_users_def)
  have draws: "rs_fresh (ae_digest (av_auth env)) (dr_id (av_draw env)) (dr_token (av_draw env)) (as_refresh (st_auth (fst st)))"
    "dr_preauth (av_draw env) \<notin> set pre" "od_state_key (ex_oidc ex) \<notin> set keys"
    "\<forall>creds rcr a. wc_start_auth (av_crate env) (av_wa_rnd env) creds = Ok (rcr, a) \<longrightarrow> a \<notin> set chs"
    using assms(2) by simp_all
  have "st_config (fst (snd (serve_call env c st))) = st_config (fst st)"
    using serve_call_static[of env c st] by (simp add: static_state_def)
  then show ?thesis
    using call_auth[OF inv(1) draws(1-3), of c] assms(3) call_passkeys[OF inv(2) draws(4), of c] call_users[OF inv(3,4), of env c]
      call_layouts[OF inv(6), of env c] serve_call_clients[of env c st] inv(5,7)
    by (simp add: app_users_def del: auth_ok.simps serve_call.simps)
qed

lemma app_ok_still: "app_ok st hist \<Longrightarrow> app_ok st (note_draws env ex st hist)"
  using auth_more[of "st_auth (fst st)" "fst hist" "fst (snd hist)" "[dr_preauth (av_draw env)]" "[od_state_key (ex_oidc ex)]"]
    passkeys_more[of "st_webauthn (fst st)" "snd (snd hist)" "pending_challenges (st_webauthn (fst st)) @ snd (snd hist)"]
  by (cases hist) (simp del: auth_ok.simps)

lemma app_ok_audit: "app_ok st hist \<Longrightarrow> db_ok db \<Longrightarrow> app_ok (with_audit db st) hist"
  by (cases hist) simp

lemma note_draws_audit [simp]: "note_draws env ex (with_audit db st) hist = note_draws env ex st hist"
  by (cases hist) simp

lemma app_ok_route:
  assumes "app_ok st hist" "new_draws env ex st hist"
  shows "app_ok (snd (route_request env ex rq st)) (note_draws env ex (snd (route_request env ex rq st)) hist)"
proof -
  obtain resp st' where run: "route_request env ex rq st = (resp, st')" by (metis surj_pair)
  then show ?thesis
  proof (cases rule: routed)
    case still
    with run app_ok_still[OF assms(1)] show ?thesis by simp
  next
    case (served sc name segs c rq')
    have "app_ok (snd (serve_call env c st)) (note_draws env ex (snd (serve_call env c st)) hist)"
      using app_ok_call[of st _ _ _ env ex c] assms reached_sso_key served(1) by (metis prod_cases3)
    with run served(2) show ?thesis by simp
  qed
qed

lemma app_step_ok: "app_ok st hist \<Longrightarrow> app_step W H P ((l, st), hist) ((l', st'), hist') \<Longrightarrow> app_ok st' hist'"
proof (erule app_step.cases)
  fix env rq ex st0 hist0 cors chk aenv l0 resp l1 st1
  assume ok: "app_ok st hist" and eq: "((l, st), hist) = ((l0, st0), hist0)" "((l', st'), hist') = ((l1, st1), note_draws env ex st1 hist0)"
    and draws: "new_draws env ex st0 hist0" and cors: "cors_like cors" and run: "app_request chk cors aenv env ex rq (l0, st0) = (resp, l1, st1)"
  have same: "st0 = st" "hist0 = hist" "st1 = st'" "hist' = note_draws env ex st' hist" using eq by simp_all
  from run cors show "app_ok st' hist'"
  proof (cases rule: app_request_cases)
    case layer
    then have "st' = st" using same by simp
    with app_ok_still[OF ok] same(4) show ?thesis by simp
  next
    case (routed st2 db)
    have "db_ok (st_audit (fst st))" using ok by (cases hist) simp
    then have "db_ok db" using routed(4) by (auto simp: same intro: db_ok_log)
    moreover have "st2 = snd (route_request env ex rq st)" "st' = with_audit db st2" using routed(1,2) same by simp_all
    ultimately show ?thesis using app_ok_route[OF ok draws[unfolded same(1,2)], of rq] same(4) by (simp add: app_ok_audit)
  qed
qed

text \<open>The state the process starts with.\<close>

lemma boot_ok:
  assumes "boot B cli = Inr (st, addr)"
    and "\<forall>file db. bo_audit B file = Ok db \<longrightarrow> db_ok db" "\<forall>s m. fs_parse (bo_layout_fs B) s = Ok m \<longrightarrow> hm_ok m"
  shows "app_ok (st, w) ([], [], [])"
proof -
  obtain cfg clients jwt users audit vnc_secret oidc where
    clients: "map (px_new (bo_cert B) (bo_http B)) (cf_clusters cfg) = map Inr clients"
    and users: "from_configs (bo_hash B) (au_users (cf_auth cfg)) = Inr users"
    and oidc: "start_oidc B (au_oidc (cf_auth cfg)) = Inr oidc"
    and audit: "bo_audit B (db_path (cf_database cfg) @ ''.audit'') = Inr audit"
    and st: "st = state_new cfg clients audit jwt users vnc_secret (start_webauthn B (au_webauthn (cf_auth cfg))) oidc
              (webhook_from_config (cf_webhook cfg)) (layouts_new (bo_layout_fs B) (bo_layout_file B (cf_data_dir cfg)))
              (fst (dispatch_startup (build_plugin_registry (cf_plugins cfg))))"
    using assms(1) by (auto simp: boot_Ok boot_configured_Ok)
  have "(st_auth st, [], []) = auth_init users oidc" by (simp add: st state_new_def auth_init_def)
  then have "auth_ok (st_auth st, [], [])" using auth_ok_init[OF us_ok_from_configs[OF users] start_oidc_pending[OF oidc]] by metis
  moreover have "no_second_factor (as_users (st_auth st))" using no_second_factor_configs[OF users] by (simp add: st state_new_def)
  moreover have "passkeys_ok (st_webauthn st) []"
  proof -
    have "st_webauthn st = None \<or> st_webauthn st = Some wa_new"
      by (auto simp: st state_new_def start_webauthn_def webauthn_new_def rbind_def split: sum.split)
    then show ?thesis by (auto simp: passkeys_ok_def wa_ok_def wa_new_def hm_empty_def hm_get_def hm_ok_def)
  qed
  moreover have "hm_ok (ly_dashboards (st_dashboard_custom st))"
    using assms(3) by (auto simp: st state_new_def layouts_new_def hm_ok_def hm_empty_def split: option.split sum.split)
  moreover have "db_ok (st_audit st)" using audit assms(2) by (auto simp: st state_new_def)
  moreover have "map pc_config (st_clients st) = cf_clusters (st_config st)" using clients_built[OF clients] by (simp add: st state_new_def)
  ultimately show ?thesis by (simp del: auth_ok.simps)
qed

section \<open>Refresh tokens in the running server\<close>

definition refreshes :: "('cred, 'asr) extraction \<Rightarrow> http_request \<Rightarrow> string \<Rightarrow> bool" where
  "refreshes ex rq raw = (hq_method rq = POST \<and> hq_path rq = ''/api/v1/auth/refresh''
     \<and> (\<exists>j. ex_json ex = Ok j \<and> de_refresh_request j = Some raw))"

lemma refresh_path: "resolve ''/api/v1/auth/refresh'' = Some (Public, (''/api/v1/auth/refresh'', [(POST, ''auth::refresh'')]), [])"
  by code_simp

lemma refresh_routed:
  fixes ex :: "('cred, 'asr) extraction"
  assumes "refreshes ex rq raw"
  shows "route_request env ex rq st = serve_auth env (Refresh raw) st"
proof -
  have "map_of (endpoints :: (string \<times> ('cred, 'asr) endpoint) list) ''auth::refresh'' = Some (with_json (plain de_refresh_request) (\<lambda>raw. AuthCall (Refresh raw)))"
    by (rule map_of_is_SomeI[OF endpoints_distinct]) (simp add: endpoints_def session_endpoints_def)
  then have "run_handler env ex ''auth::refresh'' [] rq st = serve_auth env (Refresh raw) st"
    using assms by (auto simp: run_handler_def with_json_def json_body_def refreshes_def)
  moreover have "method_handler [(POST, ''auth::refresh'')] POST = Some ''auth::refresh''" by code_simp
  ultimately show ?thesis using assms by (auto simp: route_request_def refreshes_def refresh_path without_body_def)
qed

lemma refresh_status:
  assumes "refreshes ex rq raw"
  shows "fst (auth_serve (av_auth env) (av_draw env) (Refresh raw) (st_auth (fst st))) = Refused r
      \<Longrightarrow> hs_status (fst (route_request env ex rq st)) = hs_status r"
    and "hs_status (fst (route_request env ex rq st)) = 200
      \<Longrightarrow> fst (auth_serve (av_auth env) (av_draw env) (Refresh raw) (st_auth (fst st))) \<noteq> Refused r \<or> hs_status r = 200"
  unfolding refresh_routed[OF assms]
  by (auto simp: serve_auth_def on_auth_def split_beta Let_def simp del: auth_serve.simps split: auth_outcome.split)

text \<open>What a call does to the refresh store are operations of the store.\<close>

lemma call_refresh:
  assumes "rs_fresh (ae_digest (av_auth env)) (dr_id (av_draw env)) (dr_token (av_draw env)) (as_refresh (st_auth (fst st)))"
  shows "(rs_step (ae_digest (av_auth env)))\<^sup>*\<^sup>* (as_refresh (st_auth (fst st))) (as_refresh (st_auth (fst (snd (serve_call env c st)))))"
proof (cases c)
  case (AuthCall r)
  then show ?thesis using serve_refresh[OF assms] by (simp add: serve_auth_frame del: auth_serve.simps)
next
  case (PasskeyCall r)
  then show ?thesis using passkey_sessions[of env r st] open_session_refresh[OF assms] by (auto simp del: serve_passkey.simps)
next
  case (LayoutSave a d)
  then show ?thesis by (simp add: split_beta Let_def)
qed (use serve_call_private[of c env st] in \<open>auto simp: private_state_def\<close>)

definition app_refresh :: "('l \<times> ('ek, 'dk, 'k, 'r, 'a, 'w) app) \<times> 'a history \<Rightarrow> refresh_store" where
  "app_refresh s = as_refresh (st_auth (fst (snd (fst s))))"

lemma app_step_refresh: "app_step W H P s s' \<Longrightarrow> (rs_step H)\<^sup>*\<^sup>* (app_refresh s) (app_refresh s')"
proof (erule app_step.cases)
  fix env rq ex st hist cors chk aenv l resp l' st'
  assume s: "s = ((l, st), hist)" "s' = ((l', st'), note_draws env ex st' hist)" and H: "ae_digest (av_auth env) = H"
    and draws: "new_draws env ex st hist" and cors: "cors_like cors" and run: "app_request chk cors aenv env ex rq (l, st) = (resp, l', st')"
  have fresh: "rs_fresh (ae_digest (av_auth env)) (dr_id (av_draw env)) (dr_token (av_draw env)) (as_refresh (st_auth (fst st)))"
    using draws by (cases hist) simp
  from run cors have "(rs_step H)\<^sup>*\<^sup>* (as_refresh (st_auth (fst st))) (as_refresh (st_auth (fst st')))"
  proof (cases rule: app_request_cases)
    case (routed st1 db)
    obtain r1 where "route_request env ex rq st = (r1, st1)" using routed(1) by (metis prod.collapse)
    then show ?thesis
    proof (cases rule: End_To_End.routed)
      case still
      then show ?thesis by (simp add: routed(2))
    next
      case (served sc name segs c rq')
      with call_refresh[OF fresh, of c] H show ?thesis by (simp add: routed(2))
    qed
  qed simp
  then show ?thesis by (simp add: s app_refresh_def)
qed

definition app_inv :: "('l \<times> ('ek, 'dk, 'k, 'r, 'a, 'w) app) \<times> 'a history \<Rightarrow> bool" where
  "app_inv s = app_ok (snd (fst s)) (snd s)"

lemma app_inv_refresh: "app_inv s \<Longrightarrow> rs_ok (app_refresh s)"
  by (cases s; cases "snd s") (simp add: app_inv_def app_refresh_def)

lemma app_inv_step: "app_inv s \<Longrightarrow> app_step W H P s s' \<Longrightarrow> app_inv s'"
  using app_step_ok[of "snd (fst s)" "snd s" W H P "fst (fst s)" "fst (fst s')" "snd (fst s')" "snd s'"]
  unfolding app_inv_def by simp

text \<open>A spent token is answered 401, unless the request is stopped by the rate limit.\<close>

lemma spent_refused:
  assumes "app_inv s" "rs_spent (ae_digest (av_auth env)) (app_refresh s) raw" "refreshes ex rq raw" "cors_like cors"
    and "app_request chk cors aenv env ex rq (fst s) = (resp, s')"
  shows "hs_status resp \<in> {401, 429}"
proof -
  obtain l st l' st' where s: "fst s = (l, st)" "s' = (l', st')" by (metis surj_pair)
  obtain pre keys chs where hist: "snd s = (pre, keys, chs)" by (metis prod_cases3)
  have "auth_ok (st_auth (fst st), pre, keys)" using assms(1) s hist by (simp add: app_inv_def)
  moreover have "refresh_spent (av_auth env) (st_auth (fst st), pre, keys) raw"
    using assms(2) s by (simp add: refresh_spent_def app_refresh_def)
  ultimately obtain r where r: "fst (auth_serve (av_auth env) (av_draw env) (Refresh raw) (st_auth (fst st))) = Refused r" "hs_status r = 401"
    using refresh_refused by (metis fst_conv)
  from assms(5)[unfolded s] assms(4) show ?thesis
  proof (cases rule: app_request_cases)
    case layer
    then show ?thesis using assms(3) by (auto simp: refreshes_def)
  next
    case (routed st1 db)
    then show ?thesis using refresh_status(1)[OF assms(3) r(1)] r(2) by simp
  qed
qed

text \<open>A token that was exchanged is spent.\<close>

lemma exchange_spends:
  assumes "app_ok st hist" "new_draws env ex st hist" "cors_like cors" "refreshes ex rq raw"
    and "app_request chk cors aenv env ex rq (l, st) = (resp, l1, st1)" "hs_status resp = 200"
  shows "rs_spent (ae_digest (av_auth env)) (as_refresh (st_auth (fst st1))) raw"
proof -
  have ok: "rs_ok (as_refresh (st_auth (fst st)))" using assms(1) by (cases hist) simp
  have fresh: "rs_fresh (ae_digest (av_auth env)) (dr_id (av_draw env)) (dr_token (av_draw env)) (as_refresh (st_auth (fst st)))"
    using assms(2) by (cases hist) simp
  from assms(5,3) show ?thesis
  proof (cases rule: app_request_cases)
    case layer
    then show ?thesis using assms(4,6) by (simp add: refreshes_def)
  next
    case (routed st2 db)
    have "hs_status (fst (serve_auth env (Refresh raw) st)) = 200" using routed(3) assms(6) refresh_routed[OF assms(4), of env st] by simp
    then have acc: "fst (refresh (av_auth env) (av_draw env) raw (st_auth (fst st))) = Inl r \<Longrightarrow> hs_status r = 200" for r
      by (simp add: serve_auth_def on_auth_def answered_def split_beta)
    obtain fresh_token store where rot: "rs_rotate (ae_digest (av_auth env)) (dr_id (av_draw env)) (dr_token (av_draw env))
        (dr_check (av_draw env)) (dr_issue (av_draw env)) raw default_refresh_ttl_secs (as_refresh (st_auth (fst st))) = (Some fresh_token, store)"
      "as_refresh (snd (refresh (av_auth env) (av_draw env) raw (st_auth (fst st)))) = store"
    proof (cases "fst (rs_rotate (ae_digest (av_auth env)) (dr_id (av_draw env)) (dr_token (av_draw env))
        (dr_check (av_draw env)) (dr_issue (av_draw env)) raw default_refresh_ttl_secs (as_refresh (st_auth (fst st))))")
      case None
      then show ?thesis using acc[of "unauthorized_response ''invalid or expired refresh token''"] by (simp add: refresh_def split_beta unauthorized_response_def response_def)
    next
      case (Some x)
      then show ?thesis using that
        by (simp add: refresh_def split_beta Let_def prod_eq_iff split: option.split sum.split)
    qed
    have "as_refresh (st_auth (fst st1)) = store"
      by (simp add: routed(1,2) refresh_routed[OF assms(4)] serve_auth_frame answered_def rot(2) split_beta)
    with rotate_spends(2)[OF ok fresh rot(1)] show ?thesis by simp
  qed
qed

definition app_accepts :: "('k, 'r, 'a, 'cred, 'asr, 'z) wa_crate \<Rightarrow> digest
    \<Rightarrow> ('l \<times> ('ek, 'dk, 'k, 'r, 'a, 'w) app) \<times> 'a history \<Rightarrow> string \<Rightarrow> bool" where
  "app_accepts W H s raw = (\<exists>chk cors aenv env ex rq resp s'. av_crate env = W \<and> ae_digest (av_auth env) = H \<and> cors_like cors
     \<and> refreshes ex rq raw \<and> app_request chk cors aenv env ex rq (fst s) = (resp, s') \<and> hs_status resp = 200)"

lemma app_spent_step: "app_inv s \<Longrightarrow> app_step W H P s s' \<Longrightarrow> rs_spent H (app_refresh s) raw \<Longrightarrow> rs_spent H (app_refresh s') raw"
  by (rule rt.spent_steps[OF app_step_refresh app_inv_refresh])

lemma app_spent_rejected: "app_inv s \<Longrightarrow> rs_spent H (app_refresh s) raw \<Longrightarrow> \<not> app_accepts W H s raw"
  using spent_refused unfolding app_accepts_def by fastforce

interpretation app_tokens: single_use_store app_inv "app_step W H P" "\<lambda>s. rs_spent H (app_refresh s)" "app_accepts W H" for W H P
  by unfold_locales (fact app_inv_step app_spent_step app_spent_rejected)+

section \<open>What never changes\<close>

lemma log_appends: "\<exists>rows. db_rows (snd (audit_log r e db)) = db_rows db @ rows"
  by (cases r) (auto simp: audit_log_def)

lemma app_step_frame:
  assumes "app_step W H P ((l, st), hist) ((l', st'), hist')"
  shows "static_state st' = static_state st \<and> (\<exists>rows. db_rows (st_audit (fst st')) = db_rows (st_audit (fst st)) @ rows)"
  using assms
proof (rule app_step.cases)
  fix env rq ex st0 hist0 cors chk aenv l0 resp l1 st1
  assume eq: "((l, st), hist) = ((l0, st0), hist0)" "((l', st'), hist') = ((l1, st1), note_draws env ex st1 hist0)"
    and cors: "cors_like cors" and run: "app_request chk cors aenv env ex rq (l0, st0) = (resp, l1, st1)"
  from run cors have "static_state st1 = static_state st0 \<and> (\<exists>rows. db_rows (st_audit (fst st1)) = db_rows (st_audit (fst st0)) @ rows)"
  proof (cases rule: app_request_cases)
    case (routed st2 db)
    obtain r2 where "route_request env ex rq st0 = (r2, st2)" using routed(1) by (metis prod.collapse)
    then have "static_state st2 = static_state st0"
      by (cases rule: End_To_End.routed) (simp_all add: serve_call_static)
    then have "static_state st1 = static_state st0" by (simp add: routed(2) static_state_def with_audit_def)
    then show ?thesis using routed(4) log_appends by (auto simp: routed(2))
  qed simp
  with eq show ?thesis by simp
qed

lemma app_run_frame:
  "(app_step W H P)\<^sup>*\<^sup>* s s' \<Longrightarrow> static_state (snd (fst s')) = static_state (snd (fst s))
     \<and> (\<exists>rows. db_rows (st_audit (fst (snd (fst s')))) = db_rows (st_audit (fst (snd (fst s)))) @ rows)"
proof (induction rule: rtranclp_induct)
  case (step y z)
  obtain l1 st1 h1 l2 st2 h2 where "y = ((l1, st1), h1)" "z = ((l2, st2), h2)" by (metis surj_pair)
  with step app_step_frame[of W H P l1 st1 h1 l2 st2 h2] show ?case by auto
qed simp

text \<open>Requests without a token of an administrator, where no directory user is created on login.\<close>

definition unprivileged :: "('w, 'k, 'r, 'a, 'cred, 'asr, 'z) app_env \<Rightarrow> http_request \<Rightarrow> bool" where
  "unprivileged env rq = ((\<forall>cl. token_claims env rq = Some cl \<longrightarrow> \<not> is_ok (require_role \<lparr> ac_claims = cl \<rparr> Admin))
     \<and> \<not> lc_auto_create (ae_ldap (av_auth env)))"

lemma unprivileged_step:
  assumes "app_step W H unprivileged ((l, st), hist) ((l', st'), hist')"
  shows "app_users st' = app_users st"
  using assms
proof (rule app_step.cases)
  fix env rq ex st0 hist0 cors chk aenv l0 resp l1 st1
  assume eq: "((l, st), hist) = ((l0, st0), hist0)" "((l', st'), hist') = ((l1, st1), note_draws env ex st1 hist0)"
    and u: "unprivileged env rq"
    and cors: "cors_like cors" and run: "app_request chk cors aenv env ex rq (l0, st0) = (resp, l1, st1)"
  from run cors have "app_users st1 = app_users st0"
  proof (cases rule: app_request_cases)
    case (routed st2 db)
    obtain r2 where "route_request env ex rq st0 = (r2, st2)" using routed(1) by (metis prod.collapse)
    from accounts_change[OF this] u have "app_users st2 = app_users st0" unfolding unprivileged_def by blast
    then show ?thesis by (simp add: routed(2))
  qed simp
  with eq show ?thesis by simp
qed

lemma unprivileged_run: "(app_step W H unprivileged)\<^sup>*\<^sup>* s s' \<Longrightarrow> app_users (snd (fst s')) = app_users (snd (fst s))"
proof (induction rule: rtranclp_induct)
  case (step y z)
  obtain l1 st1 h1 l2 st2 h2 where "y = ((l1, st1), h1)" "z = ((l2, st2), h2)" by (metis surj_pair)
  with step unprivileged_step[of W H l1 st1 h1 l2 st2 h2] show ?case by simp
qed simp

section \<open>Properties\<close>

text \<open>C6. The running server: from the state the process starts with, and whatever requests follow in any order, the
  stores of accounts, sessions, pending logins, passkeys, dashboards and audit rows stay well formed, no account has a
  second factor, there is one client for each configured cluster in order, the configuration, the keys and
  the plugins are those of start-up, and the audit table has only grown.\<close>

theorem server_stays_well_formed:
  assumes "boot B cli = Inr (st, addr)"
    and "\<forall>file db. bo_audit B file = Ok db \<longrightarrow> db_ok db" "\<forall>s m. fs_parse (bo_layout_fs B) s = Ok m \<longrightarrow> hm_ok m"
    and "(app_step W H P)\<^sup>*\<^sup>* ((l, (st, w)), [], [], []) ((l', st'), hist)"
  shows "app_ok st' hist \<and> static_state st' = static_state (st, w)
    \<and> (\<exists>rows. db_rows (st_audit (fst st')) = db_rows (st_audit st) @ rows)"
proof -
  have "app_inv ((l, (st, w)), [], [], [])" using boot_ok[OF assms(1-3)] by (simp add: app_inv_def del: app_ok.simps)
  from app_tokens.inv_steps[OF assms(4) this] app_run_frame[OF assms(4)] show ?thesis
    by (simp add: app_inv_def)
qed

text \<open>C7. A refresh token that has been exchanged is dead for the running server: after a request to the
  refresh endpoint was answered 200, and after any further requests to any endpoints, every request that presents the
  same token again is answered 401, or 429 by the rate limit.\<close>

theorem exchanged_token_dead:
  assumes "app_ok st hist" "new_draws env ex st hist" "cors_like cors" "refreshes ex rq raw"
    and "app_request chk cors aenv env ex rq (l, st) = (resp, l1, st1)" "hs_status resp = 200"
    and "(app_step W (ae_digest (av_auth env)) P)\<^sup>*\<^sup>* ((l1, st1), note_draws env ex st1 hist) ((l2, st2), hist2)"
    and "cors_like cors'" "refreshes ex' rq' raw" "ae_digest (av_auth env') = ae_digest (av_auth env)"
    and "app_request chk' cors' aenv' env' ex' rq' (l2, st2) = (resp', l3, st3)"
  shows "hs_status resp' \<in> {401, 429}"
proof -
  let ?H = "ae_digest (av_auth env)"
  have step: "app_step (av_crate env) ?H (\<lambda>_ _. True) ((l, st), hist) ((l1, st1), note_draws env ex st1 hist)"
    by (rule app_step.request[OF TrueI refl refl assms(2,3,5)])
  have inv: "app_inv ((l1, st1), note_draws env ex st1 hist)"
    by (rule app_inv_step[OF _ step]) (simp add: app_inv_def assms(1))
  have "rs_spent ?H (app_refresh ((l1, st1), note_draws env ex st1 hist)) raw"
    using exchange_spends[OF assms(1-6)] by (simp add: app_refresh_def)
  from app_tokens.spent_steps[OF assms(7) inv this] app_tokens.inv_steps[OF assms(7) inv]
  show ?thesis using spent_refused[OF _ _ assms(9,8), of "((l2, st2), hist2)" env'] assms(10,11) by simp
qed


section \<open>Witnesses\<close>

lemma cors_like_id: "cors_like id"
  by (simp add: cors_like_def)

lemma open_request:
  "hs_status (fst (app_request (\<lambda>_ l. (True, l)) id aenv env ex rq (l, st))) = hs_status (fst (route_request env ex rq st))"
  by (simp add: app_request_def serve_def security_headers_middleware_def rate_limit_call_def audit_middleware_def Let_def split_beta)

text \<open>A first request of a run.\<close>

lemma first_step:
  assumes "P env rq" "as_refresh (st_auth (fst st)) = rs_new"
    and "app_request (\<lambda>_ l. (True, l)) id aenv env ex rq (l, st) = (resp, l', st')"
  shows "(app_step (av_crate env) (ae_digest (av_auth env)) P)\<^sup>*\<^sup>* ((l, st), [], [], []) ((l', st'), note_draws env ex st' ([], [], []))"
proof -
  have "new_draws env ex st ([], [], [])"
    by (simp add: assms(2) rs_fresh_def rs_new_def hm_contains_def hm_empty_def hm_get_def)
  from app_step.request[of P, OF assms(1) refl refl this cors_like_id assms(3)] show ?thesis by (rule r_into_rtranclp)
qed

definition demo_cli :: cli where "demo_cli = \<lparr> cli_config = [], cli_log_level = ''info'', cli_verbose = False \<rparr>"

lemma demo_started: "\<exists>st addr. boot demo_boot_ok demo_cli
    = (Inr (st, addr) :: (boot_failure, (nat, nat, string \<times> nat, string, string) app_state \<times> socket_addr) result)"
  by (simp add: boot_Ok load_def load_from_def demo_boot_ok_def demo_boot_def boot_configured_Ok jwt_built jwt_new_def
      demo_boot_config_def default_auth_config_def default_rate_limit_config_def ip_rate_limiter_new_def load_vnc_secret_def
      start_oidc_def default_oidc_config_def from_configs_def state_new_def startup_initializes build_eq new_plugin_def
      List.map_filter_def demo_cli_def)

lemma boot_no_sessions: "boot B cli = Inr (st, addr) \<Longrightarrow> as_refresh (st_auth st) = rs_new"
  by (auto simp: boot_Ok boot_configured_Ok state_new_def)

theorem server_stays_well_formed_witness:
  "\<exists>st addr l' st' hist. boot demo_boot_ok demo_cli
      = (Inr (st, addr) :: (boot_failure, (nat, nat, string \<times> nat, string, string) app_state \<times> socket_addr) result)
    \<and> (app_step demo_wa (ae_digest demo_auth_env) (\<lambda>_ _. True))\<^sup>*\<^sup>* (((), (st, 7 :: nat)), [], [], []) ((l', st'), hist)
    \<and> fst hist = [''p1''] \<and> app_ok st' hist"
proof -
  let ?env = "demo_app_env ''admin''"
  obtain st addr where b: "boot demo_boot_ok demo_cli
      = (Inr (st, addr) :: (boot_failure, (nat, nat, string \<times> nat, string, string) app_state \<times> socket_addr) result)"
    using demo_started by blast
  obtain resp l' st' where "app_request (\<lambda>_ l. (True, l)) id demo_audit_env ?env demo_ex delete_rq ((), (st, 7)) = (resp, l', st')"
    by (metis prod_cases3)
  with first_step[of "\<lambda>_ _. True" ?env delete_rq "(st, 7)"] boot_no_sessions[OF b]
  have run: "(app_step demo_wa (ae_digest demo_auth_env) (\<lambda>_ _. True))\<^sup>*\<^sup>* (((), (st, 7)), [], [], []) ((l', st'), note_draws ?env demo_ex st' ([], [], []))"
    by (simp add: demo_app_env_def del: note_draws.simps)
  have "app_ok st' (note_draws ?env demo_ex st' ([], [], []))"
    using server_stays_well_formed[OF b _ _ run] by (simp add: demo_boot_ok_def demo_boot_def demo_fs_def hm_ok_def hm_empty_def del: app_ok.simps note_draws.simps)
  moreover have "fst (note_draws ?env demo_ex st' ([], [], [])) = [''p1'']"
    by (simp add: demo_app_env_def demo_draw_def)
  ultimately show ?thesis using b run by blast
qed

definition demo_viewer_env :: "(nat, string \<times> nat, string, string, string, string \<times> nat, string \<times> nat) app_env" where
  "demo_viewer_env = (demo_app_env ''viewer'') \<lparr> av_auth := demo_auth_env \<lparr> ae_ldap := demo_ldap \<lparr> lc_auto_create := False \<rparr> \<rparr> \<rparr>"


text \<open>A server on which bob has logged in, and his refresh token used twice.\<close>

definition demo_login :: auth_state where
  "demo_login = snd (auth_serve demo_auth_env demo_draw (PasswordLogin ''bob'' ''pw'')
     (demo_auth_state \<lparr> as_users := \<lparr> us_users = [(''bob'', bob)], us_allowed = [] \<rparr> \<rparr>))"

definition demo_server :: "(nat, nat, string \<times> nat, string, string, nat) app" where
  "demo_server = ((state_new demo_boot_config [] empty_db
     \<lparr> js_encoding_key = 0, js_decoding_key = 0, js_issuer = ''i'', js_audience = ''a'' \<rparr> demo_users None None None None
     \<lparr> ly_dashboards = [], ly_file = None \<rparr> []) \<lparr> st_auth := demo_login \<rparr>, 7)"

lemma demo_server_ok: "app_ok demo_server ([''p1''], [], [])"
proof -
  define users where "users = \<lparr> us_users = [(''bob'', bob)], us_allowed = [] \<rparr>"
  have init: "fst (auth_init users None) = demo_auth_state \<lparr> as_users := users \<rparr>"
    by (simp add: auth_init_def demo_auth_state_def rs_new_def pa_new_def hm_empty_def)
  have "us_ok users" by (simp add: users_def us_ok_def hm_ok_def bob_def ann_def)
  moreover have "(auth_step demo_auth_env)\<^sup>*\<^sup>* (auth_init users None) (demo_login, [''p1''], [])"
  proof -
    have "demo_login = snd (auth_serve demo_auth_env demo_draw (PasswordLogin ''bob'' ''pw'') (fst (auth_init users None)))"
      by (simp only: init[unfolded users_def] demo_login_def users_def)
    moreover have "tokens_drawn demo_draw (PasswordLogin ''bob'' ''pw'') = [''p1'']" "keys_drawn (PasswordLogin ''bob'' ''pw'') = []"
      by (simp_all add: tokens_drawn_def keys_drawn_def demo_draw_def)
    ultimately show ?thesis using demo_first_step[of users "PasswordLogin ''bob'' ''pw''"] by (simp only:)
  qed
  ultimately have "auth_ok (demo_login, [''p1''], [])" by (intro reachable_ok[of demo_auth_env users None]) (simp_all add: no_sso_pending_def)
  moreover have "no_second_factor (as_users demo_login)" unfolding demo_login_def by code_simp
  ultimately show ?thesis
    by (simp add: demo_server_def state_new_def passkeys_ok_def demo_boot_config_def hm_ok_def del: auth_ok.simps)
qed

definition refresh_env :: "(nat, string \<times> nat, string, string, string, string \<times> nat, string \<times> nat) app_env" where
  "refresh_env = (demo_app_env ''viewer'') \<lparr> av_draw := demo_draw2 \<lparr> dr_preauth := ''p2'' \<rparr> \<rparr>"

definition refresh_ex :: "(string, string \<times> nat) extraction" where
  "refresh_ex = demo_ex \<lparr> ex_json := Ok (JObj [(''refresh_token'', JStr ''r1'')]) \<rparr>"

theorem exchanged_token_dead_witness:
  "let send = app_request (\<lambda>_ l. (True, l)) id demo_audit_env refresh_env refresh_ex (demo_rq POST ''/api/v1/auth/refresh'');
       x = send ((), demo_server); y = send (snd x)
   in hs_status (fst x) = 200 \<and> hs_status (fst y) \<in> {401, 429}"
proof -
  define send where "send = (app_request (\<lambda>_ l. (True, l)) id demo_audit_env refresh_env refresh_ex
      (demo_rq POST ''/api/v1/auth/refresh'') :: unit \<times> (nat, nat, string \<times> nat, string, string, nat) app \<Rightarrow> _)"
  have "de_refresh_request (JObj [(''refresh_token'', JStr ''r1'')]) = Some ''r1''" by code_simp
  then have ref: "refreshes refresh_ex (demo_rq POST ''/api/v1/auth/refresh'') ''r1''"
    by (simp add: refreshes_def refresh_ex_def)
  obtain resp l1 st1 where x: "send ((), demo_server) = (resp, l1, st1)" by (metis prod_cases3)
  obtain resp' l2 st2 where y: "send (l1, st1) = (resp', l2, st2)" by (metis prod_cases3)
  have auth: "av_auth refresh_env = demo_auth_env" "st_auth (fst demo_server) = demo_login"
    by (simp_all add: refresh_env_def demo_app_env_def demo_server_def)
  have "fst (auth_serve demo_auth_env (demo_draw2 \<lparr> dr_preauth := ''p2'' \<rparr>) (Refresh ''r1'') demo_login) = Accepted"
    unfolding demo_login_def by code_simp
  then have ok: "hs_status resp = 200"
    using open_request[of demo_audit_env refresh_env refresh_ex "demo_rq POST ''/api/v1/auth/refresh''" "()" demo_server] x
    by (simp add: send_def refresh_routed[OF ref] serve_auth_def on_auth_def split_beta Let_def auth response_def del: auth_serve.simps)
      (simp add: refresh_env_def response_def del: auth_serve.simps)
  have "new_draws refresh_env refresh_ex demo_server ([''p1''], [], [])"
  proof -
    have "rs_fresh (ae_digest demo_auth_env) (dr_id demo_draw2) (dr_token demo_draw2) (as_refresh demo_login)"
      unfolding demo_login_def by code_simp
    then show ?thesis by (simp add: auth) (simp add: refresh_env_def demo_draw2_def)
  qed
  from exchanged_token_dead[OF demo_server_ok this cors_like_id ref x[unfolded send_def] ok rtranclp.rtrancl_refl cors_like_id ref refl y[unfolded send_def]]
  have "hs_status resp' \<in> {401, 429}" .
  then show ?thesis using x y ok by (simp add: send_def[symmetric])
qed

end
