(* ===== verification/Spec2Isabelle.thy ===== *)
theory Spec2Isabelle
  imports Console_Tls Replies Telemetry Config_Json Routing App_Runs
begin

text \<open>
  MoxUI is a web console for Proxmox clusters: an axum server that authenticates users, checks what
  they may do and relays their requests to the REST interface of one or more Proxmox clusters. This
  library models its Rust implementation (all paths below are relative to \<open>src/src/\<close>) as HOL functions
  on explicit state and proves what makes the parts correct, one by one and composed; where the code does
  something else than its comments say, the theorem states what the code does.

  \<^bold>\<open>How a request travels.\<close> \<open>app_request\<close> (\<open>Application\<close>) is the stack of \<open>api/mod.rs\<close>: security headers, CORS, rate
  limit, audit, then \<open>route_request\<close>: the route of the path (\<open>resolve\<close>), for protected routes \<open>require_auth\<close> and for
  cluster-scoped routes \<open>require_cluster_access\<close> (\<open>Auth_Middleware\<close>), then the extractors of the handler (\<open>Dispatch\<close>,
  with the bodies of \<open>Bodies\<close>), which yield a \<open>call\<close> or a rejection, then the handler on the shared state
  (\<open>serve_call\<close>); paths without a route go to the embedded interface (\<open>Ui\<close>). Handlers of \<open>api/auth.rs\<close> (\<open>Auth_Api\<close>)
  work on the account store (\<open>Roles_Users\<close>), the refresh tokens (\<open>Refresh_Tokens\<close>), the pre-authentication sessions
  (\<open>Pre_Auth\<close>) and one-time passwords (\<open>Totp\<close>, \<open>Base32\<close>), LDAP (\<open>Ldap\<close>), single sign-on (\<open>Oidc\<close>) and passkeys
  (\<open>Webauthn\<close>). Handlers of machines (\<open>Vm_Api\<close>), consoles (\<open>Vnc\<close>, \<open>Console\<close>), containers (\<open>Lxc_Api\<close>), storages,
  networks, tasks, HA, replication and the cluster views (\<open>Infra_Api\<close>) and the dashboard (\<open>Dashboard\<close>) look a
  cluster's client up in the shared state (\<open>Clients\<close>) or call all of them (\<open>Handlers\<close>); the calls (\<open>Proxmox_Api\<close>) go
  through the request helpers with ticket and breaker (\<open>Proxmox_Client\<close>, \<open>Circuit_Breaker\<close>).

  \<^bold>\<open>The theories.\<close> Common ground:

    \<^item> \<open>Prelude\<close>: results, hash maps, 64-bit arithmetic, decimal printing and substring search, and the
      locale \<open>single_use_store\<close> (a store whose spent tokens are never accepted again), interpreted by
      \<open>Refresh_Tokens\<close>, \<open>Pre_Auth\<close>, \<open>Oidc\<close> and \<open>Webauthn\<close> on their own step relations, twice by \<open>Auth_System\<close> on
      the requests of the authentication interface, and by \<open>App_Runs\<close> on the requests of the whole server.
    \<^item> \<open>App_Error\<close>: \<open>error.rs\<close>, the error type with its text and HTTP response.
    \<^item> \<open>Http\<close>: requests, responses, claims (\<open>auth/jwt.rs\<close>), path splitting, and the locales \<open>guard\<close> (a
      middleware refuses or passes a request on) and \<open>guard_pair\<close> (two guards compose to a guard),
      interpreted by the middlewares of \<open>Auth_Middleware\<close> (\<open>auth/middleware.rs\<close>).
    \<^item> \<open>Serde\<close>: JSON values and the rules by which derived \<open>Deserialize\<close> and \<open>Serialize\<close> read and write structs
      (\<open>de_struct\<close> with required, optional, defaulted and renamed members; unknown and repeated members).

  Identity and sessions:

    \<^item> \<open>Roles_Users\<close>: \<open>auth/user.rs\<close> and \<open>auth/password.rs\<close>; roles are a linear order.
    \<^item> \<open>Refresh_Tokens\<close>: \<open>auth/refresh.rs\<close>. Invariant \<open>rs_ok\<close>, every operation preserves it; single use,
      family revocation, hand-over, exact revocation, the bound on live tokens.
    \<^item> \<open>Pre_Auth\<close>, \<open>Totp\<close>, \<open>Base32\<close>: \<open>auth/totp.rs\<close>. Single use and life time of pre-auth tokens, backup
      codes, the acceptance window, code computation within the digest, the base32 round trip.
    \<^item> \<open>Ldap\<close>: \<open>auth/ldap.rs\<close>; \<open>Oidc\<close>: \<open>auth/oidc.rs\<close>.
    \<^item> \<open>Auth_Api\<close>: \<open>api/auth.rs\<close>, every handler over the record \<open>auth_state\<close>; \<open>Replies\<close>: the bodies it, the audit, the
      probes and the consoles answer with.
    \<^item> \<open>Webauthn\<close>: \<open>auth/webauthn.rs\<close> and \<open>api/webauthn.rs\<close>. Each operation takes its locks one at a time;
      \<open>wa_step\<close> interleaves them, and challenges are a \<open>single_use_store\<close>.
    \<^item> \<open>Auth_System\<close>: all requests of \<open>api/auth.rs\<close> on one state (\<open>auth_serve\<close>, \<open>auth_step\<close>). Every request acts on
      each store by that store's own operations, so the store's laws hold of the interface.

  Layers and records:

    \<^item> \<open>Auth_Middleware\<close>; \<open>Security\<close>: \<open>security/\<close>, rate limiter, API keys, security headers; \<open>Router\<close>:
      \<open>audit/middleware.rs\<close> and the routes, groups and layers of \<open>api/mod.rs\<close>.
    \<^item> \<open>Audit_Store\<close>: \<open>audit/store.rs\<close> and \<open>api/audit.rs\<close>. The table is a list of rows; SQL text and bound
      values are built as in the code and what SQLite does with that SQL is written out. Paging is a
      partition of the matching rows.
    \<^item> \<open>Metrics\<close>: \<open>observability/metrics.rs\<close>, the series and the middleware as a step relation (\<open>mw_step\<close>) over the
      requests in progress; \<open>Telemetry\<close>: \<open>telemetry.rs\<close>, \<open>observability/tracing.rs\<close> and the stubs \<open>cache/\<close>, \<open>db/\<close>.

  The clusters:

    \<^item> \<open>Circuit_Breaker\<close>: \<open>proxmox/circuit_breaker.rs\<close> (refines a rule on the history of outcomes) and
      \<open>proxmox/retry.rs\<close>.
    \<^item> \<open>Proxmox_Types\<close>: \<open>proxmox/types.rs\<close>, the request records and the parameter lists they become;
      \<open>Proxmox_Json\<close>: the decoder and encoder of every struct, with their round trip.
    \<^item> \<open>Proxmox_Client\<close>: \<open>proxmox/auth.rs\<close> and the helpers of \<open>proxmox/client.rs\<close>, with the locale
      \<open>client_call\<close> (a call keeps the configuration and talks to its own cluster only), interpreted by
      the three request helpers. \<open>Proxmox_Api\<close>: one definition per call of the client, all of which
      meet the contract. \<open>Ticket_Json\<close>: which replies a login accepts, and what \<open>Debug\<close> shows.
    \<^item> \<open>Client_Tasks\<close>: the requests that share one client as tasks that take the ticket's lock, the breaker's atomics
      and the network in turn (\<open>ct_step\<close>); a task left alone is the operation of \<open>Proxmox_Client\<close>.
    \<^item> \<open>Clients\<close>: \<open>state.rs\<close>: lookup, clients of a user, joined futures, the readiness cache.

  Handlers:

    \<^item> \<open>Handlers\<close>: what the handlers share: the operator gate, the gathering of listings from all clusters, and,
      proved once in the context of \<open>client_call\<close>, that a listing reports every cluster and that a request
      stays within the cluster it names.
    \<^item> \<open>Vm_Api\<close>: \<open>api/vms.rs\<close>, with \<open>vm_serve\<close>; \<open>Lxc_Api\<close>: \<open>api/lxcs.rs\<close>, with \<open>lxc_serve\<close>; \<open>Infra_Api\<close>: \<open>api/storages.rs\<close>,
      \<open>networks.rs\<close>, \<open>tasks.rs\<close>, \<open>hagroups.rs\<close>, \<open>replication.rs\<close>, \<open>cluster.rs\<close>, \<open>ceph.rs\<close>, \<open>sdn.rs\<close>, \<open>firewall.rs\<close>, with
      \<open>infra_serve\<close>.
    \<^item> \<open>Dashboard\<close>: \<open>api/dashboard.rs\<close> (rows, counters, totals) and \<open>dashboard_custom/\<close> (stored layouts);
      \<open>Health\<close>: \<open>api/health.rs\<close> over the readiness cache of \<open>Clients\<close>; \<open>Ui\<close>: \<open>ui/mod.rs\<close>.
    \<^item> \<open>Vnc\<close>: \<open>auth/vnc.rs\<close> and \<open>api/vnc.rs\<close>; the limiter's loop is a step relation on the shared counter
      and the program counters of the handlers. \<open>Console\<close>: the relay of the two connections (\<open>proxy_step\<close>), with
      the locale \<open>direction\<close> interpreted by both; \<open>Console_Tls\<close>: the TLS settings meant for it.
    \<^item> \<open>Webhook\<close>: \<open>webhook/\<close>: recipients, the delivery loop, and the detached tasks as a step relation that
      refines the loop and terminates; \<open>Plugins\<close>: \<open>plugin/\<close>, with the locale \<open>plugin_hook\<close> (a hook keeps the
      plugin's name) interpreted on the three hooks.

  The whole:

    \<^item> \<open>Startup\<close>: \<open>main.rs\<close>, \<open>tls.rs\<close>, \<open>state.rs\<close>, \<open>auth/jwt.rs\<close> and \<open>config.rs\<close>: the configuration, the
      conditions under which the process serves, and the state it starts with; \<open>Config_Json\<close>: the decoder of every
      section of the configuration with its defaults.
    \<^item> \<open>Bodies\<close>, \<open>Dispatch\<close>, \<open>Application\<close>: from the bytes the extractors of axum hand over to the effect of a request.
    \<^item> \<open>Routing\<close>: \<open>resolve\<close> finds exactly the route that precedes all others that match.
    \<^item> \<open>End_To_End\<close>: what holds of every single request, whatever it contains: what it needs a token, a role or the
      access to a cluster for, which clusters it can touch, and what it leaves in the audit table.
    \<^item> \<open>App_Runs\<close>: what holds of every run of the server from the state it starts with (\<open>app_step\<close>): the invariant
      \<open>app_ok\<close> of all stores, the death of exchanged refresh tokens, the accounts without an administrator.

  \<^bold>\<open>State and effects.\<close> Shared mutable state (\<open>Arc<RwLock<...>>\<close>, \<open>DashMap\<close>, \<open>Mutex\<close>) is passed
  explicitly; an operation is a function from the state to its result and the new state. Where the code takes several
  locks, the step relations take one at a time (\<open>rs_step\<close>, \<open>pa_step\<close>, \<open>oidc_step\<close>, \<open>lim_step\<close>, \<open>wa_step\<close>, \<open>ct_step\<close>), or
  one await (\<open>tasks_step\<close>, \<open>proxy_step\<close>), or the two ends of a call (\<open>mw_step\<close>); \<open>auth_step\<close> and \<open>app_step\<close> take a
  request at a time. Clocks, random draws and UUIDs are arguments, one per reading, so that a handler that
  reads the clock twice has two readings. A hash map is an association list with distinct keys whose
  order is the iteration order, about which nothing is assumed. Futures joined with \<open>join_all\<close> run
  one call at a time in an order that is an argument; theorems hold for every order. Strings are
  UTF-8 byte lists; \<open>i64\<close> and \<open>u64\<close> arithmetic wraps as in release builds and words are used where
  the code works bitwise.

  \<^bold>\<open>Parameters.\<close> bcrypt, HMAC, SHA-256, JWT signing and decoding, the directory, the providers, the text of JSON and
  of its numbers, base64, the network, the file system, \<open>webauthn-rs\<close>, \<open>rustls\<close>, the merging of configuration
  sources, the addition of doubles, Unicode case folding, the embedded files and the guess of their media types, the
  exporters of traces and metrics, the escapes of \<open>Debug\<close>, the decoding of paths, queries and bodies by axum and the
  CORS layer of \<open>tower-http\<close> are arguments of the definitions that use them; what a
  theorem needs of them is a hypothesis of the theorem, and its witness instantiates it.

  \<^bold>\<open>Loops and bounds.\<close> All loops are structural recursions on the data they walk, except the client's retry
  loop and the trimming and replacing of substrings, whose termination proofs measure the attempts and the characters that remain: the
  configured maximum of attempts is the bound of the code itself. Webhook deliveries make at most \<open>max_retries + 1\<close>
  posts. The limiter's compare-and-swap loop is not a function but a relation, so no bound is chosen.
  No definition uses fuel.

  \<^bold>\<open>Not modelled.\<close> The module declarations, which hold no code; the texts of decoding errors; the cryptography
  and the protocols inside the crates; sleeping. Requests to different stores interleave at the locks of one store or one
  client at a time: the runs of \<open>App_Runs\<close> take whole requests, and no relation interleaves the locks of several
  stores within two concurrent requests.
\<close>

end
